(* ===== verification/Prelude.thy ===== *)
theory Prelude
  imports Complex_Main "HOL-Library.Sublist" "HOL-Library.Char_ord" "HOL-Library.List_Lexorder"
begin

text \<open>
  Shared vocabulary of the development: programs that may throw over an explicit state, JSON
  values, the string operations of JavaScript the panel uses, and instants. Nothing here models
  a file of the repository by itself; the component theories do.
\<close>

named_theorems exec_simps \<open>unfolding of the state-and-exception combinators\<close>
named_theorems table_simps \<open>what the SQL operations do to a table\<close>

section \<open>Programs that may throw\<close>

text \<open>
  A JavaScript method that reads and writes the state \<open>'s\<close> and may throw an \<open>'e\<close> is a function
  to its outcome and the state it leaves. The state written before a \<open>throw\<close> stays written.
\<close>

type_synonym ('s, 'e, 'a) exec = "'s \<Rightarrow> ('e + 'a) \<times> 's"

definition ret :: "'a \<Rightarrow> ('s, 'e, 'a) exec" where
  "ret x = (\<lambda>s. (Inr x, s))"

definition raise :: "'e \<Rightarrow> ('s, 'e, 'a) exec" where
  "raise e = (\<lambda>s. (Inl e, s))"

definition andThen :: "('s, 'e, 'a) exec \<Rightarrow> ('a \<Rightarrow> ('s, 'e, 'b) exec) \<Rightarrow> ('s, 'e, 'b) exec" where
  "andThen p k = (\<lambda>s. case p s of (Inl e, t) \<Rightarrow> (Inl e, t) | (Inr x, t) \<Rightarrow> k x t)"

definition thenDo :: "('s, 'e, 'a) exec \<Rightarrow> ('s, 'e, 'b) exec \<Rightarrow> ('s, 'e, 'b) exec" where
  "thenDo p q = andThen p (\<lambda>_. q)"

definition tryCatch :: "('s, 'e, 'a) exec \<Rightarrow> ('e \<Rightarrow> ('s, 'e, 'a) exec) \<Rightarrow> ('s, 'e, 'a) exec" where
  "tryCatch p h = (\<lambda>s. case p s of (Inl e, t) \<Rightarrow> h e t | (Inr x, t) \<Rightarrow> (Inr x, t))"

definition tryFinally :: "('s, 'e, 'a) exec \<Rightarrow> ('s \<Rightarrow> 's) \<Rightarrow> ('s, 'e, 'a) exec" where
  "tryFinally p f = (\<lambda>s. case p s of (r, t) \<Rightarrow> (r, f t))"

definition reading :: "('s \<Rightarrow> 'a) \<Rightarrow> ('s, 'e, 'a) exec" where
  "reading f = (\<lambda>s. (Inr (f s), s))"

definition writing :: "('s \<Rightarrow> 's) \<Rightarrow> ('s, 'e, unit) exec" where
  "writing f = (\<lambda>s. (Inr (), f s))"

definition throwIf :: "bool \<Rightarrow> 'e \<Rightarrow> ('s, 'e, unit) exec" where
  "throwIf b e = (if b then raise e else ret ())"

definition ofSum :: "'e + 'a \<Rightarrow> ('s, 'e, 'a) exec" where
  "ofSum r = (\<lambda>s. (r, s))"

fun forEach :: "'x list \<Rightarrow> ('x \<Rightarrow> ('s, 'e, unit) exec) \<Rightarrow> ('s, 'e, unit) exec" where
  "forEach [] f = ret ()"
| "forEach (x # xs) f = thenDo (f x) (forEach xs f)"

lemma ret_run [exec_simps]: "ret x s = (Inr x, s)" by (simp add: ret_def)
lemma raise_run [exec_simps]: "raise e s = (Inl e, s)" by (simp add: raise_def)
lemma reading_run [exec_simps]: "reading f s = (Inr (f s), s)" by (simp add: reading_def)
lemma writing_run [exec_simps]: "writing f s = (Inr (), f s)" by (simp add: writing_def)
lemma ofSum_run [exec_simps]: "ofSum r s = (r, s)" by (simp add: ofSum_def)

lemma throwIf_run [exec_simps]: "throwIf b e s = (if b then Inl e else Inr (), s)"
  by (simp add: throwIf_def exec_simps)

lemma andThen_run [exec_simps]:
  "andThen p k s = (case p s of (Inl e, t) \<Rightarrow> (Inl e, t) | (Inr x, t) \<Rightarrow> k x t)"
  by (simp add: andThen_def)

lemma thenDo_run [exec_simps]:
  "thenDo p q s = (case p s of (Inl e, t) \<Rightarrow> (Inl e, t) | (Inr x, t) \<Rightarrow> q t)"
  by (simp add: thenDo_def andThen_def)

lemma tryCatch_run [exec_simps]:
  "tryCatch p h s = (case p s of (Inl e, t) \<Rightarrow> h e t | (Inr x, t) \<Rightarrow> (Inr x, t))"
  by (simp add: tryCatch_def)

lemma tryFinally_run [exec_simps]:
  "tryFinally p f s = (case p s of (r, t) \<Rightarrow> (r, f t))"
  by (simp add: tryFinally_def)

lemma snd_andThen_preserves:
  assumes "\<And>s. P s \<Longrightarrow> P (snd (p s))" and "\<And>x s. P s \<Longrightarrow> P (snd (k x s))" and "P s"
  shows "P (snd (andThen p k s))"
  using assms(1)[OF assms(3)] assms(2)
  by (auto simp: exec_simps split: prod.splits sum.splits)

lemma forEach_invariant:
  assumes "\<And>x s. x \<in> set xs \<Longrightarrow> P s \<Longrightarrow> P (snd (f x s))" and "P s"
  shows "P (snd (forEach xs f s))"
  using assms
proof (induction xs arbitrary: s)
  case Nil
  then show ?case by (simp add: exec_simps)
next
  case (Cons x xs)
  have "P (snd (f x s))" using Cons.prems by simp
  then show ?case
    using Cons.IH[of "snd (f x s)"] Cons.prems(1)
    by (auto simp: exec_simps split: prod.splits sum.splits)
qed

section \<open>JSON\<close>

text \<open>
  The values \<open>JSON.parse\<close> returns. An object keeps its entries in insertion order; numbers are
  rational (a finite double is one). \<open>JSON.parse\<close> itself is an argument of the definitions that
  call it.
\<close>

datatype json =
    JNull
  | JBool bool
  | JNum rat
  | JStr string
  | JArr "json list"
  | JObj "(string \<times> json) list"

fun json_field :: "json \<Rightarrow> string \<Rightarrow> json option" where
  "json_field (JObj kvs) k = map_of kvs k"
| "json_field _ _ = None"

fun as_string :: "json \<Rightarrow> string option" where
  "as_string (JStr s) = Some s"
| "as_string _ = None"

fun is_js_object :: "json \<Rightarrow> bool" where
  "is_js_object (JObj _) = True"
| "is_js_object (JArr _) = True"
| "is_js_object _ = False"

definition string_field :: "json \<Rightarrow> string \<Rightarrow> string option" where
  "string_field j k = Option.bind (json_field j k) as_string"

definition json_strings :: "json list \<Rightarrow> string list" where
  "json_strings js = List.map_filter as_string js"

section \<open>Strings\<close>

text \<open>
  A JavaScript string is a list of UTF-16 code units; the model's \<open>string\<close> holds the code units
  up to 255. \<open>startsWith\<close> is \<open>prefix\<close>, \<open>includes\<close> of a substring is
  \<open>sublist\<close>.
\<close>

definition js_space :: "char \<Rightarrow> bool" where
  "js_space c = (let n = of_char c :: nat in (9 \<le> n \<and> n \<le> 13) \<or> n = 32 \<or> n = 160)"

definition js_trim_start :: "string \<Rightarrow> string" where
  "js_trim_start s = dropWhile js_space s"

definition js_trim_end :: "string \<Rightarrow> string" where
  "js_trim_end s = rev (dropWhile js_space (rev s))"

definition js_trim :: "string \<Rightarrow> string" where
  "js_trim s = js_trim_end (js_trim_start s)"

definition js_lower_char :: "char \<Rightarrow> char" where
  "js_lower_char c = (let n = of_char c :: nat in
     if (65 \<le> n \<and> n \<le> 90) \<or> (192 \<le> n \<and> n \<le> 222 \<and> n \<noteq> 215) then char_of (n + 32) else c)"

definition js_lower :: "string \<Rightarrow> string" where
  "js_lower s = map js_lower_char s"

text \<open>\<open>slice(0, n)\<close>, with the bound as an integer so that it computes fast.\<close>

fun js_slice :: "int \<Rightarrow> 'a list \<Rightarrow> 'a list" where
  "js_slice n [] = []"
| "js_slice n (x # xs) = (if n \<le> 0 then [] else x # js_slice (n - 1) xs)"

declare js_slice.simps [simp del]

lemma js_slice_take [simp]: "js_slice n xs = take (nat n) xs"
proof (induction n xs rule: js_slice.induct)
  case (2 n x xs)
  then show ?case
    by (cases "n \<le> 0") (auto simp: js_slice.simps take_Cons' nat_diff_distrib)
qed (simp add: js_slice.simps)

text \<open>\<open>split\<close> on a one-character separator, or on a character class.\<close>

fun split_on :: "(char \<Rightarrow> bool) \<Rightarrow> string \<Rightarrow> string list" where
  "split_on p [] = [[]]"
| "split_on p (c # cs) =
     (if p c then [] # split_on p cs
      else (case split_on p cs of [] \<Rightarrow> [[c]] | w # ws \<Rightarrow> (c # w) # ws))"

abbreviation split_slash :: "string \<Rightarrow> string list" where
  "split_slash \<equiv> split_on (\<lambda>c. c = CHR ''/'')"

fun join_with :: "string \<Rightarrow> string list \<Rightarrow> string" where
  "join_with sep [] = []"
| "join_with sep [w] = w"
| "join_with sep (w # ws) = w @ sep @ join_with sep ws"

lemma split_on_nonempty [simp]: "split_on p s \<noteq> []"
  by (induction s) (auto split: list.splits)

lemma split_on_no_sep: "w \<in> set (split_on p s) \<Longrightarrow> c \<in> set w \<Longrightarrow> \<not> p c"
proof (induction s arbitrary: w)
  case Nil
  then show ?case by simp
next
  case (Cons d cs)
  show ?case
  proof (cases "p d")
    case True
    with Cons show ?thesis by auto
  next
    case False
    obtain v vs where v: "split_on p cs = v # vs" by (cases "split_on p cs") auto
    from v False Cons.prems(1) consider "w = d # v" | "w \<in> set vs" by auto
    then show ?thesis
    proof cases
      case 1
      with False Cons.prems(2) consider "c = d" | "c \<in> set v" by auto
      then show ?thesis using False Cons.IH[of v] v by cases auto
    next
      case 2
      then show ?thesis using Cons.IH[of w] Cons.prems(2) v by simp
    qed
  qed
qed

lemma split_on_word: "\<forall>c\<in>set w. \<not> p c \<Longrightarrow> split_on p w = [w]"
  by (induction w) auto

lemma split_on_append_sep:
  "p c \<Longrightarrow> \<forall>d\<in>set w. \<not> p d \<Longrightarrow> split_on p (w @ c # s) = w # split_on p s"
  by (induction w) auto

lemma split_join_slash:
  assumes "ws \<noteq> []" and "\<forall>w\<in>set ws. CHR ''/'' \<notin> set w"
  shows "split_slash (join_with ''/'' ws) = ws"
  using assms
proof (induction ws rule: induct_list012)
  case 1
  then show ?case by simp
next
  case (2 w)
  then show ?case by (auto intro!: split_on_word)
next
  case (3 w v vs)
  have "split_slash (w @ CHR ''/'' # join_with ''/'' (v # vs)) =
      w # split_slash (join_with ''/'' (v # vs))"
    by (rule split_on_append_sep) (use 3(4) in auto)
  with 3 show ?case by simp
qed

lemma join_split_slash: "join_with ''/'' (split_slash s) = s"
proof (induction s)
  case Nil
  then show ?case by simp
next
  case (Cons c cs)
  obtain v vs where v: "split_slash cs = v # vs" by (cases "split_slash cs") auto
  then show ?case using Cons by (cases vs) auto
qed

lemma js_trim_end_eq_Nil: "js_trim_end s = [] \<longleftrightarrow> (\<forall>c\<in>set s. js_space c)"
  by (simp add: js_trim_end_def)

section \<open>Instants\<close>

text \<open>
  An instant is the millisecond value of a \<open>Date\<close>. Instants are stored as ISO strings and SQLite
  compares those as text: inside the years 0 to 9999 that is the order of the instants, but a
  later year is written with a leading \<open>+\<close>, which sorts before every digit.
\<close>

type_synonym instant = int

definition iso_limit :: int where
  "iso_limit = 253402300800000"

definition max_date :: int where
  "max_date = 8640000000000000"

definition iso_rank :: "instant \<Rightarrow> int" where
  "iso_rank d = (if d < iso_limit then d else d - 100000000000000000)"

definition iso_le :: "instant \<Rightarrow> instant \<Rightarrow> bool" where
  "iso_le a b \<longleftrightarrow> iso_rank a \<le> iso_rank b"

definition plain_instant :: "instant \<Rightarrow> bool" where
  "plain_instant d \<longleftrightarrow> 0 \<le> d \<and> d < iso_limit"

lemma iso_le_plain: "plain_instant a \<Longrightarrow> plain_instant b \<Longrightarrow> iso_le a b \<longleftrightarrow> a \<le> b"
  by (simp add: iso_le_def iso_rank_def plain_instant_def)

lemma iso_le_refl [simp]: "iso_le a a"
  by (simp add: iso_le_def)

lemma iso_le_trans: "iso_le a b \<Longrightarrow> iso_le b c \<Longrightarrow> iso_le a c"
  by (simp add: iso_le_def)

lemma iso_le_total: "iso_le a b \<or> iso_le b a"
  by (auto simp: iso_le_def)

end
