(* ===== verification/Tables.thy ===== *)
theory Tables
  imports Prelude "HOL-Library.Multiset"
begin

text \<open>
  The SQL the stores run, on tables that are lists of rows in rowid order (SQLite appends a new
  row at the end, and every table of the schema is a rowid table): selection, guarded update,
  deletion, insertion under a primary key, ordering and limits. Then the two contracts several
  stores share, as locales: rows with a life cycle that only guarded updates touch, and event
  logs with increasing sequence numbers.
\<close>

section \<open>Statements\<close>

datatype db_error =
    UniqueViolation
  | CheckViolation
  | ForeignKeyViolation

definition sql_select :: "('r \<Rightarrow> bool) \<Rightarrow> 'r list \<Rightarrow> 'r list" where
  "sql_select P t = filter P t"

definition sql_get :: "('r \<Rightarrow> bool) \<Rightarrow> 'r list \<Rightarrow> 'r option" where
  "sql_get P t = List.find P t"

definition sql_update :: "('r \<Rightarrow> bool) \<Rightarrow> ('r \<Rightarrow> 'r) \<Rightarrow> 'r list \<Rightarrow> 'r list" where
  "sql_update P f t = map (\<lambda>r. if P r then f r else r) t"

definition sql_delete :: "('r \<Rightarrow> bool) \<Rightarrow> 'r list \<Rightarrow> 'r list" where
  "sql_delete P t = filter (\<lambda>r. \<not> P r) t"

definition sql_insert :: "('r \<Rightarrow> 'k) \<Rightarrow> 'r \<Rightarrow> 'r list \<Rightarrow> db_error + 'r list" where
  "sql_insert key r t =
     (if key r \<in> key ` set t then Inl UniqueViolation else Inr (t @ [r]))"

definition sql_changes :: "('r \<Rightarrow> bool) \<Rightarrow> 'r list \<Rightarrow> nat" where
  "sql_changes P t = length (filter P t)"

text \<open>\<open>ORDER BY k ASC\<close> and \<open>ORDER BY k DESC\<close>; rows with equal keys stay in rowid order.\<close>

definition order_asc :: "('r \<Rightarrow> 'k::linorder) \<Rightarrow> 'r list \<Rightarrow> 'r list" where
  "order_asc k t = sort_key k t"

definition order_desc :: "('r \<Rightarrow> int) \<Rightarrow> 'r list \<Rightarrow> 'r list" where
  "order_desc k t = sort_key (\<lambda>r. - k r) t"

lemma sql_get_Some: "sql_get P t = Some r \<Longrightarrow> r \<in> set t \<and> P r"
  by (induction t) (auto simp: sql_get_def split: if_splits)

lemma sql_get_None: "sql_get P t = None \<longleftrightarrow> (\<forall>r\<in>set t. \<not> P r)"
  by (induction t) (auto simp: sql_get_def)

lemma set_sql_select [table_simps]: "set (sql_select P t) = {r \<in> set t. P r}"
  by (simp add: sql_select_def)

lemma set_sql_delete [table_simps]: "set (sql_delete P t) = {r \<in> set t. \<not> P r}"
  by (auto simp: sql_delete_def)

lemma set_sql_update [table_simps]:
  "set (sql_update P f t) = (\<lambda>r. if P r then f r else r) ` set t"
  by (simp add: sql_update_def)

lemma set_order [table_simps]:
  "set (order_asc k t) = set t" "set (order_desc k' t) = set t"
  by (simp_all add: order_asc_def order_desc_def)

lemma length_sql_update [simp]: "length (sql_update P f t) = length t"
  by (simp add: sql_update_def)

lemma sql_update_none: "\<forall>r\<in>set t. \<not> P r \<Longrightarrow> sql_update P f t = t"
  by (induction t) (auto simp: sql_update_def)

section \<open>Tables with a primary key\<close>

definition get_by :: "('r \<Rightarrow> 'k) \<Rightarrow> 'k \<Rightarrow> 'r list \<Rightarrow> 'r option" where
  "get_by key k t = sql_get (\<lambda>r. key r = k) t"

definition keys_distinct :: "('r \<Rightarrow> 'k) \<Rightarrow> 'r list \<Rightarrow> bool" where
  "keys_distinct key t \<longleftrightarrow> distinct (map key t)"

lemma get_by_Nil [table_simps]: "get_by key k [] = None"
  by (simp add: get_by_def sql_get_def)

lemma get_by_Cons [table_simps]:
  "get_by key k (r # t) = (if key r = k then Some r else get_by key k t)"
  by (simp add: get_by_def sql_get_def)

lemma get_by_append [table_simps]:
  "get_by key k (t @ u) = (case get_by key k t of None \<Rightarrow> get_by key k u | Some r \<Rightarrow> Some r)"
  by (induction t) (auto simp: table_simps)

lemma get_by_key: "get_by key k t = Some r \<Longrightarrow> key r = k"
  using sql_get_Some[of _ t r] by (auto simp: get_by_def)

lemma get_by_in: "get_by key k t = Some r \<Longrightarrow> r \<in> set t"
  using sql_get_Some[of _ t r] by (auto simp: get_by_def)

lemma get_by_None: "get_by key k t = None \<longleftrightarrow> k \<notin> key ` set t"
  by (auto simp: get_by_def sql_get_None)

lemma get_by_self: "keys_distinct key t \<Longrightarrow> r \<in> set t \<Longrightarrow> get_by key (key r) t = Some r"
  by (induction t) (auto simp: table_simps keys_distinct_def image_iff)

lemma get_by_update [table_simps]:
  assumes "\<And>r. key (f r) = key r"
  shows "get_by key k (sql_update P f t) =
    map_option (\<lambda>r. if P r then f r else r) (get_by key k t)"
  by (induction t) (auto simp: table_simps sql_update_def assms)

lemma keys_distinct_update [table_simps]:
  assumes "\<And>r. key (f r) = key r"
  shows "keys_distinct key (sql_update P f t) = keys_distinct key t"
proof -
  have "map key (sql_update P f t) = map key t"
    by (simp add: sql_update_def assms)
  then show ?thesis by (simp add: keys_distinct_def)
qed

lemma keys_image_update [table_simps]:
  assumes "\<And>r. key (f r) = key r"
  shows "key ` set (sql_update P f t) = key ` set t"
  unfolding sql_update_def set_map image_image by (rule image_cong) (simp_all add: assms)

lemma keys_distinct_delete: "keys_distinct key t \<Longrightarrow> keys_distinct key (sql_delete P t)"
  by (simp add: keys_distinct_def sql_delete_def distinct_map_filter)

lemma get_by_delete:
  "keys_distinct key t \<Longrightarrow>
   get_by key k (sql_delete P t) =
     (case get_by key k t of Some r \<Rightarrow> if P r then None else Some r | None \<Rightarrow> None)"
proof (induction t)
  case Nil
  then show ?case by (simp add: table_simps sql_delete_def)
next
  case (Cons r t)
  have kd: "keys_distinct key t" and r: "key r \<notin> key ` set t"
    using Cons.prems by (auto simp: keys_distinct_def)
  show ?case
  proof (cases "key r = k")
    case True
    with r have "get_by key k (sql_delete P t) = None"
      by (auto simp: get_by_None table_simps)
    with True show ?thesis by (auto simp: table_simps sql_delete_def)
  next
    case False
    with Cons.IH[OF kd] show ?thesis by (auto simp: table_simps sql_delete_def)
  qed
qed

lemma sql_insert_ok:
  "sql_insert key r t = Inr t' \<longleftrightarrow> key r \<notin> key ` set t \<and> t' = t @ [r]"
  by (auto simp: sql_insert_def)

lemma keys_distinct_insert:
  "keys_distinct key t \<Longrightarrow> sql_insert key r t = Inr t' \<Longrightarrow> keys_distinct key t'"
  by (auto simp: sql_insert_ok keys_distinct_def)

section \<open>Rows with a life cycle\<close>

text \<open>
  A store whose rows move along a transition relation \<open>next\<close> and end in a terminal one: the
  client's interface is the lookup and the set of the store's operations, and the provider
  promises that one operation moves every row along \<open>next\<close> or leaves it alone.
\<close>

locale lifecycle_store =
  fixes lookup :: "'db \<Rightarrow> 'k \<Rightarrow> 'r option"
    and op_step :: "'db \<Rightarrow> 'db \<Rightarrow> bool"
    and row_next :: "'r \<Rightarrow> 'r \<Rightarrow> bool"
    and final :: "'r \<Rightarrow> bool"
  assumes row_moves: "op_step s t \<Longrightarrow> lookup s k = Some r \<Longrightarrow>
      \<exists>r'. lookup t k = Some r' \<and> (r' = r \<or> row_next r r')"
    and final_stays: "final r \<Longrightarrow> row_next r r' \<Longrightarrow> r' = r"
begin

lemma rows_along_run:
  assumes "op_step\<^sup>*\<^sup>* s t" and "lookup s k = Some r"
  shows "\<exists>r'. lookup t k = Some r' \<and> row_next\<^sup>*\<^sup>* r r'"
  using assms
proof (induction rule: rtranclp_induct)
  case base
  then show ?case by auto
next
  case (step t u)
  then obtain r1 where "lookup t k = Some r1" "row_next\<^sup>*\<^sup>* r r1" by blast
  with row_moves[OF step.hyps(2)] show ?case
    by (metis rtranclp.rtrancl_into_rtrancl)
qed

lemma final_row_next: "row_next\<^sup>*\<^sup>* r r' \<Longrightarrow> final r \<Longrightarrow> r' = r"
  by (induction rule: rtranclp_induct) (auto dest: final_stays)

lemma final_rows_stay:
  assumes "op_step\<^sup>*\<^sup>* s t" and "lookup s k = Some r" and "final r"
  shows "lookup t k = Some r"
  using rows_along_run[OF assms(1,2)] final_row_next assms(3) by auto

end

section \<open>Event logs\<close>

text \<open>
  Event rows carry an autoincremented sequence number. \<open>seqs_ok sq hi t\<close>: the numbers increase
  along the table and stay at or below the last one handed out.
\<close>

definition seqs_ok :: "('e \<Rightarrow> nat) \<Rightarrow> nat \<Rightarrow> 'e list \<Rightarrow> bool" where
  "seqs_ok sq hi t \<longleftrightarrow> sorted_wrt (\<lambda>a b. sq a < sq b) t \<and> (\<forall>e\<in>set t. sq e \<le> hi)"

text \<open>\<open>SELECT ... ORDER BY sequence DESC LIMIT n\<close>, put back in ascending order.\<close>

definition newest :: "('e \<Rightarrow> nat) \<Rightarrow> nat \<Rightarrow> 'e list \<Rightarrow> 'e list" where
  "newest sq n t = order_asc sq (take n (order_desc (\<lambda>e. int (sq e)) t))"

lemma sorted_by_seq: "sorted_wrt (\<lambda>a b. sq a < sq b) t \<Longrightarrow> order_asc sq t = t"
  unfolding order_asc_def
  by (rule sort_key_id_if_sorted) (auto simp: sorted_map elim!: sorted_wrt_mono_rel[rotated])

lemma sorted_desc_by_seq:
  fixes sq :: "'e \<Rightarrow> nat"
  assumes "sorted_wrt (\<lambda>a b. sq a < sq b) t"
  shows "order_desc (\<lambda>e. int (sq e)) t = rev t"
proof -
  let ?k = "\<lambda>e. - int (sq e)"
  have dist: "inj_on ?k (set t)"
  proof -
    have "distinct (map sq t)"
      using assms by (simp add: sorted_wrt_map[symmetric] strict_sorted_iff)
    then show ?thesis by (auto simp: distinct_map inj_on_def)
  qed
  have 1: "sorted (map ?k (rev t))"
    using assms by (auto simp: sorted_map sorted_wrt_rev elim!: sorted_wrt_mono_rel[rotated])
  have "sort_key ?k t = rev t"
    by (rule sort_key_inj_key_eq[OF _ dist 1]) simp
  then show ?thesis by (simp add: order_desc_def)
qed

lemma newest_suffix:
  assumes "seqs_ok sq hi t"
  shows "newest sq n t = drop (length t - n) t"
proof -
  have s: "sorted_wrt (\<lambda>a b. sq a < sq b) t" using assms by (simp add: seqs_ok_def)
  have "newest sq n t = order_asc sq (take n (rev t))"
    by (simp add: newest_def sorted_desc_by_seq[OF s])
  also have "take n (rev t) = rev (drop (length t - n) t)" by (simp add: take_rev)
  also have "order_asc sq (rev (drop (length t - n) t)) = drop (length t - n) t"
  proof -
    let ?d = "drop (length t - n) t"
    have sd: "sorted_wrt (\<lambda>a b. sq a < sq b) ?d" using s by (rule sorted_wrt_drop)
    have dm: "distinct (map sq ?d)"
      using sd by (simp add: sorted_wrt_map[symmetric] strict_sorted_iff)
    have "sort_key sq (rev ?d) = ?d"
    proof (rule sort_key_inj_key_eq)
      show "mset (rev ?d) = mset ?d" by simp
      show "inj_on sq (set (rev ?d))" using dm by (simp add: distinct_map)
      show "sorted (map sq ?d)"
        using sd by (auto simp: sorted_map elim!: sorted_wrt_mono_rel[rotated])
    qed
    then show ?thesis by (simp add: order_asc_def)
  qed
  finally show ?thesis .
qed

lemma seqs_ok_filter: "seqs_ok sq hi t \<Longrightarrow> seqs_ok sq hi (filter P t)"
  by (auto simp: seqs_ok_def sorted_wrt_filter)

lemma seqs_ok_snoc:
  "seqs_ok sq hi t \<Longrightarrow> sq e = Suc hi \<Longrightarrow> seqs_ok sq (Suc hi) (t @ [e])"
  by (force simp: seqs_ok_def sorted_wrt_append)

lemma seqs_ok_distinct: "seqs_ok sq hi t \<Longrightarrow> distinct (map sq t)"
  by (simp add: seqs_ok_def sorted_wrt_map[symmetric] strict_sorted_iff)

text \<open>
  The contract of an event log: the events of a topic in ascending sequence, and an append
  operation whose event is newer than everything stored.
\<close>

locale event_log =
  fixes topic_events :: "'db \<Rightarrow> 'k \<Rightarrow> 'e list"
    and sq :: "'e \<Rightarrow> nat"
    and good :: "'db \<Rightarrow> bool"
    and appends :: "'db \<Rightarrow> 'k \<Rightarrow> 'e \<Rightarrow> 'db \<Rightarrow> bool"
  assumes ascending: "good s \<Longrightarrow> sorted_wrt (\<lambda>a b. sq a < sq b) (topic_events s k)"
    and append_newer: "good s \<Longrightarrow> appends s k e t \<Longrightarrow>
      good t \<and> (\<exists>n. topic_events t k = drop n (topic_events s k) @ [e])"
begin

text \<open>
  A client that has seen everything up to sequence \<open>m\<close> and asks for what is newer gets exactly
  the newer events, each once and in order.
\<close>

lemma resume_exact:
  assumes "good s" and "topic_events s k = seen @ rest" and "seen \<noteq> []"
  shows "filter (\<lambda>e. sq (last seen) < sq e) (topic_events s k) = rest"
proof -
  have srt: "sorted_wrt (\<lambda>a b. sq a < sq b) (seen @ rest)"
    using ascending[OF assms(1), of k] assms(2) by simp
  have old: "sq e \<le> sq (last seen)" if "e \<in> set seen" for e
  proof -
    from assms(3) obtain ys where ys: "seen = ys @ [last seen]"
      by (metis append_butlast_last_id)
    have "sorted_wrt (\<lambda>a b. sq a < sq b) (ys @ [last seen])"
      using srt ys by (metis sorted_wrt_append)
    then have "\<forall>y\<in>set ys. sq y < sq (last seen)" by (auto simp: sorted_wrt_append)
    moreover have "e \<in> set ys \<or> e = last seen" using that ys
      by (metis Un_iff empty_iff empty_set set_ConsD set_append)
    ultimately show ?thesis by auto
  qed
  have new: "sq (last seen) < sq e" if "e \<in> set rest" for e
    using srt that assms(3) by (auto simp: sorted_wrt_append)
  have "filter (\<lambda>e. sq (last seen) < sq e) seen = []"
    using old by (auto simp: filter_empty_conv not_less)
  moreover have "filter (\<lambda>e. sq (last seen) < sq e) rest = rest"
    using new by (simp add: filter_id_conv)
  ultimately show ?thesis using assms(2) by simp
qed

lemma append_last:
  assumes "good s" and "appends s k e t"
  shows "topic_events t k \<noteq> [] \<and> last (topic_events t k) = e"
  using append_newer[OF assms] by auto

end

end
