(* ===== verification/Jobs_Store.thy ===== *)
theory Jobs_Store
  imports Tables
begin

text \<open>
  \<^verbatim>\<open>apps/api/src/modules/jobs/jobs.store.ts\<close>: the tables \<open>jobs\<close> and \<open>job_events\<close> and the methods of
  \<open>JobsStore\<close>. A method that runs one statement is a function from the tables to its outcome and
  the new tables; \<open>crypto.randomUUID()\<close> and \<open>new Date()\<close> are its arguments \<open>jid\<close> and \<open>now\<close>. The
  constraints of \<^verbatim>\<open>db/schema.ts\<close> (primary key, progress range, foreign key) are checked as SQLite
  checks them.
\<close>

section \<open>Rows\<close>

datatype job_type =
    JDemoNoop
  | JDockerLauncherdockeredInstall
  | JDockerLauncherdockeredDelete
  | JGravitAuthFileInstall
  | JGravitAuthProviderApply
  | JGravitAuthUserCreate
  | JGravitAuthUserPassword
  | JGravitAuthUserDelete
  | JGravitRemoteControlSetup
  | JGravitModuleInstall
  | JGravitModuleRemove
  | JGravitModuleDiscordauthsystemBuild
  | JGravitModuleConfigApply
  | JGravitPrestarterInstall
  | JGravitWorkspaceApply
  | JGravitLauncherBuild
  | JGravitLauncherCustomize
  | JGravitLaunchserverRestart
  | JGravitLaunchserverStatus
  | JGravitLaunchserverSecuritycheck
  | JGravitLaunchserverProfilesSync
  | JGravitClientBuild
  | JGravitProfileUpdate
  | JGravitProfileJavaUpdate
  | JGravitProfileRemove
  | JGravitJavaInstall
  | JGravitJavaTemurinInstall
  | JGravitJavaRemove
  | JGravitJavaSettings
  | JGravitServerBindingApply
  | JGravitServerBindingRemove
  | JGravitServerPackModify
  | JGravitServerPackPublish
  | JGravitServerPackDeploy
  | JGravitServerService
  | JGravitServerFilesModify
  | JGravitLaunchserverFilesModify
  | JGravitServerBootstrapPrepare
  | JGravitModsInstall
  | JGravitModsServerInstall
  | JGravitModsUpdate
  | JGravitModsToggle
  | JGravitModsRemove
  | JGravitModsBulk
  | JGravitModsOptionalUpdate
  | JGravitModsOptionalRemove
  | JGravitModsModpackImport

datatype job_status = Queued | Running | Succeeded | Failed | Cancelled

datatype job_event_type = EvQueued | EvStarted | EvProgress | EvLog | EvCompleted | EvFailed | EvCancelled

record job =
  job_id :: string
  job_type :: job_type
  status :: job_status
  progress :: int
  input :: json
  result :: "json option"
  job_error :: "string option"
  created_at :: instant
  started_at :: "instant option"
  finished_at :: "instant option"

record job_event =
  ev_sequence :: nat
  ev_job :: string
  ev_type :: job_event_type
  ev_message :: string
  ev_progress :: "int option"
  ev_at :: instant

text \<open>\<open>last_sequence\<close> is SQLite's counter behind \<open>AUTOINCREMENT\<close>.\<close>

record jobs_db =
  jobs :: "job list"
  job_events :: "job_event list"
  last_sequence :: nat

datatype jobs_error =
    JobMissing string
  | JobsDb db_error

section \<open>Methods\<close>

definition progress_ok :: "int \<Rightarrow> bool" where
  "progress_ok p \<longleftrightarrow> 0 \<le> p \<and> p \<le> 100"

definition create_job ::
  "string \<Rightarrow> instant \<Rightarrow> job_type \<Rightarrow> json \<Rightarrow> (jobs_db, jobs_error, job) exec" where
  "create_job jid now ty inp = (\<lambda>db.
     let j = \<lparr>job_id = jid, job_type = ty, status = Queued, progress = 0, input = inp,
              result = None, job_error = None, created_at = now, started_at = None,
              finished_at = None\<rparr>
     in case sql_insert job_id j (jobs db) of
          Inl e \<Rightarrow> (Inl (JobsDb e), db)
        | Inr t \<Rightarrow> (Inr j, db\<lparr>jobs := t\<rparr>))"

definition get_job :: "jobs_db \<Rightarrow> string \<Rightarrow> job option" where
  "get_job db jid = get_by job_id jid (jobs db)"

definition list_jobs :: "nat \<Rightarrow> jobs_db \<Rightarrow> job list" where
  "list_jobs limit db = take limit (order_desc (\<lambda>j. iso_rank (created_at j)) (jobs db))"

definition list_by_statuses :: "job_status list \<Rightarrow> jobs_db \<Rightarrow> job list" where
  "list_by_statuses sts db =
     (if sts = [] then [] else sql_select (\<lambda>j. status j \<in> set sts) (jobs db))"

text \<open>The partial record \<open>values\<close> of \<open>update\<close>: a field is \<open>None\<close> when the caller leaves it out.\<close>

record job_patch =
  set_status :: "job_status option"
  set_progress :: "int option"
  set_result :: "json option option"
  set_error :: "string option option"
  set_started :: "instant option option"
  set_finished :: "instant option option"

definition no_patch :: job_patch where
  "no_patch = \<lparr>set_status = None, set_progress = None, set_result = None, set_error = None,
     set_started = None, set_finished = None\<rparr>"

definition or_keep :: "'a option \<Rightarrow> 'a \<Rightarrow> 'a" where
  "or_keep x d = (case x of None \<Rightarrow> d | Some v \<Rightarrow> v)"

definition patch_job :: "job_patch \<Rightarrow> job \<Rightarrow> job" where
  "patch_job p j = j\<lparr>status := or_keep (set_status p) (status j),
     progress := or_keep (set_progress p) (progress j),
     result := or_keep (set_result p) (result j),
     job_error := or_keep (set_error p) (job_error j),
     started_at := or_keep (set_started p) (started_at j),
     finished_at := or_keep (set_finished p) (finished_at j)\<rparr>"

definition update_job :: "string \<Rightarrow> job_patch \<Rightarrow> (jobs_db, jobs_error, job) exec" where
  "update_job jid p = (\<lambda>db.
     case get_job db jid of
       None \<Rightarrow> (Inl (JobMissing jid), db)
     | Some current \<Rightarrow>
         let nxt = patch_job p current in
         if \<not> progress_ok (progress nxt) then (Inl (JobsDb CheckViolation), db)
         else (Inr nxt, db\<lparr>jobs := sql_update (\<lambda>j. job_id j = jid)
                 (\<lambda>j. j\<lparr>status := status nxt, progress := progress nxt, result := result nxt,
                        job_error := job_error nxt, started_at := started_at nxt,
                        finished_at := finished_at nxt\<rparr>) (jobs db)\<rparr>))"

definition append_event ::
  "instant \<Rightarrow> string \<Rightarrow> job_event_type \<Rightarrow> string \<Rightarrow> int option \<Rightarrow>
     (jobs_db, jobs_error, job_event) exec" where
  "append_event now jid ty msg prog = (\<lambda>db.
     if get_job db jid = None then (Inl (JobsDb ForeignKeyViolation), db)
     else if \<not> (case prog of None \<Rightarrow> True | Some p \<Rightarrow> progress_ok p)
       then (Inl (JobsDb CheckViolation), db)
     else let e = \<lparr>ev_sequence = Suc (last_sequence db), ev_job = jid, ev_type = ty,
                   ev_message = msg, ev_progress = prog, ev_at = now\<rparr>
          in (Inr e, db\<lparr>job_events := job_events db @ [e],
                        last_sequence := Suc (last_sequence db)\<rparr>))"

definition list_events :: "string \<Rightarrow> nat \<Rightarrow> jobs_db \<Rightarrow> job_event list" where
  "list_events jid after db =
     order_asc ev_sequence
       (sql_select (\<lambda>e. ev_job e = jid \<and> after < ev_sequence e) (job_events db))"

definition list_recent_events :: "string \<Rightarrow> nat \<Rightarrow> jobs_db \<Rightarrow> job_event list" where
  "list_recent_events jid limit db =
     newest ev_sequence limit (sql_select (\<lambda>e. ev_job e = jid) (job_events db))"

section \<open>Well-formed tables\<close>

definition jobs_db_ok :: "jobs_db \<Rightarrow> bool" where
  "jobs_db_ok db \<longleftrightarrow> keys_distinct job_id (jobs db) \<and>
     (\<forall>j\<in>set (jobs db). progress_ok (progress j)) \<and>
     seqs_ok ev_sequence (last_sequence db) (job_events db) \<and>
     (\<forall>e\<in>set (job_events db). ev_job e \<in> job_id ` set (jobs db))"

text \<open>The type of each event of a job, oldest first.\<close>

definition event_types :: "jobs_db \<Rightarrow> string \<Rightarrow> job_event_type list" where
  "event_types db jid = map ev_type (filter (\<lambda>e. ev_job e = jid) (job_events db))"

lemma progress_ok_simps [simp]: "progress_ok 0" "progress_ok 100"
  by (simp_all add: progress_ok_def)

lemma patch_job_id [simp]: "job_id (patch_job p j) = job_id j"
  by (simp add: patch_job_def)

lemma create_job_run:
  assumes "get_job db jid = None"
  shows "\<exists>j. create_job jid now ty inp db = (Inr j, db\<lparr>jobs := jobs db @ [j]\<rparr>) \<and>
    job_id j = jid \<and> status j = Queued \<and> progress j = 0 \<and> created_at j = now"
proof -
  have "jid \<notin> job_id ` set (jobs db)"
    using assms by (simp add: get_job_def get_by_None)
  then show ?thesis by (simp add: create_job_def sql_insert_def Let_def)
qed

lemma create_job_refused:
  "get_job db jid \<noteq> None \<Longrightarrow> create_job jid now ty inp db = (Inl (JobsDb UniqueViolation), db)"
  by (auto simp: create_job_def sql_insert_def get_job_def get_by_None Let_def)

lemma update_job_run:
  assumes "get_job db jid = Some j" and "progress_ok (progress (patch_job p j))"
  shows "\<exists>db'. update_job jid p db = (Inr (patch_job p j), db') \<and>
    get_job db' = (get_job db)(jid := Some (patch_job p j)) \<and>
    job_events db' = job_events db \<and> last_sequence db' = last_sequence db \<and>
    (keys_distinct job_id (jobs db') \<longleftrightarrow> keys_distinct job_id (jobs db)) \<and>
    job_id ` set (jobs db') = job_id ` set (jobs db)"
proof -
  let ?n = "patch_job p j"
  let ?f = "\<lambda>j. j\<lparr>status := status ?n, progress := progress ?n, result := result ?n,
              job_error := job_error ?n, started_at := started_at ?n,
              finished_at := finished_at ?n\<rparr>"
  let ?db = "db\<lparr>jobs := sql_update (\<lambda>j. job_id j = jid) ?f (jobs db)\<rparr>"
  have "get_job ?db k = ((get_job db)(jid := Some ?n)) k" for k
    using assms(1)
    by (cases "get_by job_id k (jobs db)")
      (auto simp: get_job_def table_simps patch_job_def dest: get_by_key)
  then have get: "get_job ?db = (get_job db)(jid := Some ?n)" by blast
  have kd: "keys_distinct job_id (jobs ?db) \<longleftrightarrow> keys_distinct job_id (jobs db)"
    by (simp add: keys_distinct_update)
  have img: "job_id ` set (jobs ?db) = job_id ` set (jobs db)"
    using keys_image_update[of job_id ?f "\<lambda>j. job_id j = jid" "jobs db"] by simp
  have "update_job jid p db = (Inr ?n, ?db)"
    using assms by (simp add: update_job_def Let_def)
  with get kd img show ?thesis by (intro exI[of _ ?db]) simp
qed

lemma update_job_fails:
  assumes "fst (update_job jid p db) = Inl e"
  shows "snd (update_job jid p db) = db"
  using assms by (auto simp: update_job_def Let_def split: option.splits if_splits)

lemma append_event_run:
  assumes "get_job db jid \<noteq> None" and "case prog of None \<Rightarrow> True | Some p \<Rightarrow> progress_ok p"
  shows "\<exists>e. append_event now jid ty msg prog db =
      (Inr e, db\<lparr>job_events := job_events db @ [e], last_sequence := Suc (last_sequence db)\<rparr>) \<and>
    ev_sequence e = Suc (last_sequence db) \<and> ev_job e = jid \<and> ev_type e = ty \<and>
    ev_message e = msg \<and> ev_progress e = prog"
  using assms by (auto simp: append_event_def Let_def)

lemma append_event_fails:
  "fst (append_event now jid ty msg prog db) = Inl e \<Longrightarrow>
   snd (append_event now jid ty msg prog db) = db"
  by (auto simp: append_event_def Let_def split: if_splits)

lemma get_job_in: "get_job db jid = Some j \<Longrightarrow> j \<in> set (jobs db) \<and> job_id j = jid"
  by (auto simp: get_job_def dest: get_by_in get_by_key)

lemma get_job_self: "jobs_db_ok db \<Longrightarrow> j \<in> set (jobs db) \<Longrightarrow> get_job db (job_id j) = Some j"
  by (simp add: get_job_def jobs_db_ok_def get_by_self)

lemma get_job_progress: "jobs_db_ok db \<Longrightarrow> get_job db jid = Some j \<Longrightarrow> progress_ok (progress j)"
  by (auto simp: jobs_db_ok_def dest: get_job_in)

lemma get_job_jobs [simp]:
  "get_job (db\<lparr>job_events := es, last_sequence := n\<rparr>) = get_job db"
  by (simp add: get_job_def fun_eq_iff)

lemma jobs_db_okI:
  assumes "keys_distinct job_id (jobs db)"
    and "\<And>jid j. get_job db jid = Some j \<Longrightarrow> progress_ok (progress j)"
    and "seqs_ok ev_sequence (last_sequence db) (job_events db)"
    and "\<forall>e\<in>set (job_events db). ev_job e \<in> job_id ` set (jobs db)"
  shows "jobs_db_ok db"
proof -
  have "progress_ok (progress j)" if "j \<in> set (jobs db)" for j
    using assms(2)[of "job_id j" j] get_by_self[OF assms(1) that] by (simp add: get_job_def)
  with assms show ?thesis by (simp add: jobs_db_ok_def)
qed

lemma create_job_ok:
  "jobs_db_ok db \<Longrightarrow> jobs_db_ok (snd (create_job jid now ty inp db))"
  by (auto simp: create_job_def sql_insert_def jobs_db_ok_def keys_distinct_def Let_def)

lemma update_job_ok:
  assumes "jobs_db_ok db"
  shows "jobs_db_ok (snd (update_job jid p db))"
proof (cases "fst (update_job jid p db)")
  case (Inl e)
  with assms show ?thesis by (simp add: update_job_fails)
next
  case (Inr v)
  then obtain j where j: "get_job db jid = Some j" "progress_ok (progress (patch_job p j))"
    by (auto simp: update_job_def Let_def split: option.splits if_splits)
  from update_job_run[OF this] obtain db' where db':
    "update_job jid p db = (Inr (patch_job p j), db')"
    "get_job db' = (get_job db)(jid := Some (patch_job p j))"
    "job_events db' = job_events db" "last_sequence db' = last_sequence db"
    "keys_distinct job_id (jobs db') \<longleftrightarrow> keys_distinct job_id (jobs db)"
    "job_id ` set (jobs db') = job_id ` set (jobs db)" by blast
  have "jobs_db_ok db'"
  proof (rule jobs_db_okI)
    show "keys_distinct job_id (jobs db')" using assms db'(5) by (simp add: jobs_db_ok_def)
    show "progress_ok (progress i)" if "get_job db' k = Some i" for k i
      using that j get_job_progress[OF assms] db'(2) by (auto split: if_splits)
  qed (use assms db' in \<open>auto simp: jobs_db_ok_def\<close>)
  with db'(1) show ?thesis by simp
qed

lemma append_event_ok:
  assumes "jobs_db_ok db"
  shows "jobs_db_ok (snd (append_event now jid ty msg prog db))"
proof (cases "get_job db jid = None \<or> \<not> (case prog of None \<Rightarrow> True | Some p \<Rightarrow> progress_ok p)")
  case True
  then have "snd (append_event now jid ty msg prog db) = db"
    by (auto simp: append_event_def)
  with assms show ?thesis by simp
next
  case False
  then obtain j where j: "get_job db jid = Some j" by auto
  from False obtain e where e: "append_event now jid ty msg prog db =
      (Inr e, db\<lparr>job_events := job_events db @ [e], last_sequence := Suc (last_sequence db)\<rparr>)"
    "ev_sequence e = Suc (last_sequence db)" "ev_job e = jid"
    using append_event_run[of db jid prog now ty msg] by blast
  from get_job_in[OF j] have "jid \<in> job_id ` set (jobs db)" by force
  with assms e show ?thesis by (auto simp: jobs_db_ok_def intro: seqs_ok_snoc)
qed

lemma create_job_event_types [simp]:
  "event_types (snd (create_job i now ty inp db)) = event_types db"
  by (auto simp: create_job_def event_types_def Let_def fun_eq_iff split: sum.splits)

lemma event_types_snoc:
  "event_types (db\<lparr>job_events := job_events db @ [e], last_sequence := n\<rparr>) =
     (event_types db)(ev_job e := event_types db (ev_job e) @ [ev_type e])"
  by (auto simp: event_types_def fun_eq_iff)

section \<open>The event log of a job\<close>

definition appends_event :: "jobs_db \<Rightarrow> string \<Rightarrow> job_event \<Rightarrow> jobs_db \<Rightarrow> bool" where
  "appends_event db jid e db' \<longleftrightarrow>
     (\<exists>now ty msg prog. append_event now jid ty msg prog db = (Inr e, db'))"

definition events_of :: "jobs_db \<Rightarrow> string \<Rightarrow> job_event list" where
  "events_of db jid = filter (\<lambda>e. ev_job e = jid) (job_events db)"

lemma events_of_sorted:
  "jobs_db_ok db \<Longrightarrow> seqs_ok ev_sequence (last_sequence db) (events_of db jid)"
  by (simp add: events_of_def jobs_db_ok_def seqs_ok_filter)

interpretation job_log: event_log events_of ev_sequence jobs_db_ok appends_event
proof
  show "sorted_wrt (\<lambda>a b. ev_sequence a < ev_sequence b) (events_of s k)" if "jobs_db_ok s" for s k
    using events_of_sorted[OF that] by (simp add: seqs_ok_def)
  show "jobs_db_ok t \<and> (\<exists>n. events_of t k = drop n (events_of s k) @ [e])"
    if s: "jobs_db_ok s" and a: "appends_event s k e t" for s k e t
  proof -
    from a obtain now ty msg prog where "append_event now k ty msg prog s = (Inr e, t)"
      by (auto simp: appends_event_def)
    with append_event_ok[OF s, of now k ty msg prog] show ?thesis
      by (auto simp: append_event_def Let_def events_of_def split: if_splits intro!: exI[of _ 0])
  qed
qed

lemma list_events_eq:
  assumes "jobs_db_ok db"
  shows "list_events jid after db = filter (\<lambda>e. after < ev_sequence e) (events_of db jid)"
proof -
  have "list_events jid after db =
      order_asc ev_sequence (filter (\<lambda>e. after < ev_sequence e) (events_of db jid))"
    by (simp add: list_events_def sql_select_def events_of_def conj_commute)
  also have "\<dots> = filter (\<lambda>e. after < ev_sequence e) (events_of db jid)"
    by (rule sorted_by_seq)
      (rule sorted_wrt_filter, use events_of_sorted[OF assms] in \<open>auto simp: seqs_ok_def\<close>)
  finally show ?thesis .
qed

lemma list_recent_events_eq:
  assumes "jobs_db_ok db"
  shows "list_recent_events jid n db = drop (length (events_of db jid) - n) (events_of db jid)"
  using newest_suffix[OF events_of_sorted[OF assms]]
  by (simp add: list_recent_events_def sql_select_def events_of_def)

end
