(* ===== verification/Jobs_Runner.thy ===== *)
theory Jobs_Runner
  imports Jobs_Store
begin

text \<open>
  \<^verbatim>\<open>apps/api/src/modules/jobs/jobs.runner.ts\<close>: the class \<open>JobsRunner\<close>, that runs the tasks of jobs in
  the single thread of the API process. The state holds the tables, the three private maps, the
  microtasks that wait for the event loop and the events handed to the hub. A piece of code that
  runs without an \<open>await\<close> is one action; the loop may take the waiting microtasks in any order.
  A task is known by the calls of its context and by how its promise settles; it does not use the
  context after that.
\<close>

section \<open>State\<close>

text \<open>An entry of \<open>running\<close>: whether its controller is aborted, and which queue awaits the run.\<close>

record run_slot =
  aborted :: bool
  awaited_by :: "string option"

datatype microtask =
    RunJob string
  | DrainStart string
  | DrainNext string

record runner =
  jobs_tables :: jobs_db
  running :: "(string \<times> run_slot) list"
  cancelled :: "string set"
  queues :: "string \<Rightarrow> string list option"
  pending :: "microtask list"
  published :: "job_event list"

datatype run_error =
    TaskThrew string
  | AbortThrown
  | StoreThrew jobs_error

type_synonym 'a run = "(runner, run_error, 'a) exec"

definition store_call :: "(jobs_db, jobs_error, 'a) exec \<Rightarrow> 'a run" where
  "store_call p = (\<lambda>r. case p (jobs_tables r) of
     (Inl e, d) \<Rightarrow> (Inl (StoreThrew e), r\<lparr>jobs_tables := d\<rparr>)
   | (Inr x, d) \<Rightarrow> (Inr x, r\<lparr>jobs_tables := d\<rparr>))"

definition emit ::
  "instant \<Rightarrow> string \<Rightarrow> job_event_type \<Rightarrow> string \<Rightarrow> int option \<Rightarrow> unit run" where
  "emit now jid ty msg prog =
     andThen (store_call (append_event now jid ty msg prog))
       (\<lambda>e. writing (\<lambda>r. r\<lparr>published := published r @ [e]\<rparr>))"

section \<open>Creating and cancelling\<close>

definition create_run :: "string \<Rightarrow> instant \<Rightarrow> job_type \<Rightarrow> json \<Rightarrow> string \<Rightarrow> job run" where
  "create_run jid now ty inp msg =
     andThen (store_call (create_job jid now ty inp)) (\<lambda>j.
     thenDo (emit now jid EvQueued msg (Some 0))
     (thenDo (writing (\<lambda>r. r\<lparr>pending := pending r @ [RunJob jid]\<rparr>))
     (ret j)))"

definition create_queued ::
  "string \<Rightarrow> string \<Rightarrow> instant \<Rightarrow> job_type \<Rightarrow> json \<Rightarrow> string \<Rightarrow> job run" where
  "create_queued key jid now ty inp msg =
     andThen (store_call (create_job jid now ty inp)) (\<lambda>j.
     thenDo (emit now jid EvQueued msg (Some 0))
     (thenDo (writing (\<lambda>r.
        let queue = (case queues r key of None \<Rightarrow> [] | Some q \<Rightarrow> q) @ [jid];
            r = r\<lparr>queues := (queues r)(key := Some queue)\<rparr>
        in if length queue = 1 then r\<lparr>pending := pending r @ [DrainStart key]\<rparr> else r))
     (ret j)))"

text \<open>\<open>demoSteps\<close> and the job that plays them.\<close>

definition demo_steps :: "(int \<times> string) list" where
  "demo_steps =
     [(25, ''Workspace accepted the job''),
      (60, ''Background worker is processing the no-op task''),
      (90, ''No-op checks completed'')]"

definition create_demo_job :: "string \<Rightarrow> instant \<Rightarrow> job run" where
  "create_demo_job jid now = create_run jid now JDemoNoop (JObj []) ''Demo job queued''"

definition has_active_type :: "job_type \<Rightarrow> runner \<Rightarrow> bool" where
  "has_active_type ty r =
     list_ex (\<lambda>j. job_type j = ty) (list_by_statuses [Queued, Running] (jobs_tables r))"

definition running_ids :: "runner \<Rightarrow> string list" where
  "running_ids r = map fst (running r)"

definition abort_run :: "string \<Rightarrow> runner \<Rightarrow> runner" where
  "abort_run jid r = r\<lparr>running :=
     map (\<lambda>(i, s). (i, if i = jid then s\<lparr>aborted := True\<rparr> else s)) (running r)\<rparr>"

definition finish_patch :: "job_status \<Rightarrow> instant \<Rightarrow> job_patch" where
  "finish_patch st now = no_patch\<lparr>set_status := Some st, set_finished := Some (Some now)\<rparr>"

definition cancel_run :: "instant \<Rightarrow> string \<Rightarrow> job option run" where
  "cancel_run now jid = (\<lambda>r.
     case get_job (jobs_tables r) jid of
       None \<Rightarrow> (Inr None, r)
     | Some j \<Rightarrow>
         if status j \<noteq> Queued \<and> status j \<noteq> Running then (Inr (Some j), r)
         else if jid \<in> cancelled r then (Inr (Some j), r)
         else if status j = Running then
           thenDo (writing (\<lambda>r. abort_run jid (r\<lparr>cancelled := insert jid (cancelled r)\<rparr>)))
             (thenDo (emit now jid EvLog ''Cancellation requested'' None)
             (ret (Some j))) r
         else
           thenDo (writing (\<lambda>r. abort_run jid (r\<lparr>cancelled := insert jid (cancelled r)\<rparr>)))
             (andThen (store_call (update_job jid
                 ((finish_patch Cancelled now)\<lparr>set_error := Some None\<rparr>))) (\<lambda>c.
              thenDo (emit now jid EvCancelled ''Job cancelled by user'' None)
             (ret (Some c)))) r)"

section \<open>Running\<close>

definition slot_of :: "runner \<Rightarrow> string \<Rightarrow> run_slot option" where
  "slot_of r jid = map_of (running r) jid"

definition is_aborted :: "string \<Rightarrow> runner \<Rightarrow> bool" where
  "is_aborted jid r = (case slot_of r jid of None \<Rightarrow> False | Some s \<Rightarrow> aborted s)"

text \<open>The \<open>finally\<close> block, and the settled promise that wakes the queue's loop.\<close>

definition leave_run :: "string \<Rightarrow> runner \<Rightarrow> runner" where
  "leave_run jid r = r\<lparr>running := filter (\<lambda>(i, _). i \<noteq> jid) (running r),
     cancelled := cancelled r - {jid}\<rparr>"

definition wake_queue :: "string option \<Rightarrow> runner \<Rightarrow> runner" where
  "wake_queue q r = (case q of None \<Rightarrow> r
     | Some key \<Rightarrow> r\<lparr>pending := pending r @ [DrainNext key]\<rparr>)"

definition error_text :: "run_error \<Rightarrow> string" where
  "error_text e = (case e of
     TaskThrew msg \<Rightarrow> msg
   | AbortThrown \<Rightarrow> ''Job cancelled by user''
   | StoreThrew (JobMissing jid) \<Rightarrow> ''Job '' @ jid @ '' does not exist''
   | StoreThrew (JobsDb UniqueViolation) \<Rightarrow> ''UNIQUE constraint failed''
   | StoreThrew (JobsDb CheckViolation) \<Rightarrow> ''CHECK constraint failed''
   | StoreThrew (JobsDb ForeignKeyViolation) \<Rightarrow> ''FOREIGN KEY constraint failed'')"

definition job_is :: "job_status \<Rightarrow> string \<Rightarrow> runner \<Rightarrow> bool" where
  "job_is st jid r = (case get_job (jobs_tables r) jid of None \<Rightarrow> False | Some j \<Rightarrow> status j = st)"

text \<open>The \<open>catch\<close> block of \<open>runJob\<close>.\<close>

definition run_failed :: "instant \<Rightarrow> string \<Rightarrow> run_error \<Rightarrow> unit run" where
  "run_failed now jid e = (\<lambda>r.
     if is_aborted jid r \<or> job_is Cancelled jid r then
       if job_is Cancelled jid r then (Inr (), r)
       else andThen (store_call (update_job jid
                ((finish_patch Cancelled now)\<lparr>set_error := Some None\<rparr>))) (\<lambda>_.
              emit now jid EvCancelled ''Job cancelled by user'' None) r
     else andThen (store_call (update_job jid
              ((finish_patch Failed now)\<lparr>set_error := Some (Some (error_text e))\<rparr>))) (\<lambda>_.
            emit now jid EvFailed (error_text e) None) r)"

text \<open>\<open>runJob\<close> up to \<open>await task(...)\<close>; \<open>True\<close> when the task runs.\<close>

definition run_started :: "instant \<Rightarrow> string \<Rightarrow> bool run" where
  "run_started now jid = (\<lambda>r.
     if jid \<in> cancelled r then (Inr False, abort_run jid r)
     else andThen (store_call (update_job jid
              (no_patch\<lparr>set_status := Some Running, set_started := Some (Some now)\<rparr>))) (\<lambda>_.
            thenDo (emit now jid EvStarted ''Job started'' (Some 0)) (ret True)) r)"

definition run_job :: "instant \<Rightarrow> string option \<Rightarrow> string \<Rightarrow> unit run" where
  "run_job now q jid = (\<lambda>r.
     if jid \<in> cancelled r
     then (Inr (), wake_queue q (r\<lparr>cancelled := cancelled r - {jid}\<rparr>))
     else
       let r1 = r\<lparr>running := running r @ [(jid, \<lparr>aborted = False, awaited_by = q\<rparr>)]\<rparr> in
       case tryCatch (run_started now jid)
              (\<lambda>e. thenDo (run_failed now jid e) (ret False)) r1 of
         (Inr True, r2) \<Rightarrow> (Inr (), r2)
       | (Inr False, r2) \<Rightarrow> (Inr (), wake_queue q (leave_run jid r2))
       | (Inl e, r2) \<Rightarrow> (Inl e, leave_run jid r2))"

text \<open>The context of the task: \<open>log\<close> and \<open>progress\<close>.\<close>

definition task_log :: "instant \<Rightarrow> string \<Rightarrow> string \<Rightarrow> unit run" where
  "task_log now jid msg = (\<lambda>r.
     if is_aborted jid r then (Inl AbortThrown, r) else emit now jid EvLog msg None r)"

definition task_progress :: "instant \<Rightarrow> string \<Rightarrow> int \<Rightarrow> string \<Rightarrow> unit run" where
  "task_progress now jid v msg = (\<lambda>r.
     if is_aborted jid r then (Inl AbortThrown, r)
     else andThen (store_call (update_job jid (no_patch\<lparr>set_progress := Some v\<rparr>))) (\<lambda>_.
            emit now jid EvProgress msg (Some v)) r)"

text \<open>\<open>runJob\<close> after the \<open>await\<close>: the promise of the task gave a result or an error.\<close>

definition run_succeeded :: "instant \<Rightarrow> string \<Rightarrow> json \<Rightarrow> unit run" where
  "run_succeeded now jid res =
     thenDo (writing (\<lambda>r. if jid \<in> cancelled r \<and> \<not> is_aborted jid r then abort_run jid r else r))
     (\<lambda>r.
        if is_aborted jid r then (Inl AbortThrown, r)
        else if job_is Cancelled jid r then (Inr (), r)
        else andThen (store_call (update_job jid
               ((finish_patch Succeeded now)\<lparr>set_progress := Some 100, set_result := Some (Some res)\<rparr>)))
             (\<lambda>_. emit now jid EvCompleted ''Job completed successfully'' (Some 100)) r)"

definition task_settled :: "instant \<Rightarrow> string \<Rightarrow> string + json \<Rightarrow> unit run" where
  "task_settled now jid outcome = (\<lambda>r.
     let q = Option.bind (slot_of r jid) awaited_by in
     case tryCatch
            (case outcome of Inr res \<Rightarrow> run_succeeded now jid res | Inl msg \<Rightarrow> raise (TaskThrew msg))
            (run_failed now jid) r of
       (Inr _, r2) \<Rightarrow> (Inr (), wake_queue q (leave_run jid r2))
     | (Inl e, r2) \<Rightarrow> (Inl e, leave_run jid r2))"

section \<open>Queues\<close>

text \<open>
  The loop of \<open>drainQueue\<close>, cut at its \<open>await\<close>: \<open>drain_loop\<close> is the loop's test, run again when
  \<open>drain_next\<close> has shifted the entry whose run has ended.
\<close>

definition drain_loop :: "instant \<Rightarrow> string \<Rightarrow> unit run" where
  "drain_loop now key = (\<lambda>r.
     case queues r key of
       None \<Rightarrow> (Inr (), r)
     | Some [] \<Rightarrow> (Inr (), r\<lparr>queues := (queues r)(key := None)\<rparr>)
     | Some (jid # _) \<Rightarrow> run_job now (Some key) jid r)"

definition drain_next :: "instant \<Rightarrow> string \<Rightarrow> unit run" where
  "drain_next now key =
     thenDo (writing (\<lambda>r. r\<lparr>queues := (queues r)(key := map_option tl (queues r key))\<rparr>))
       (drain_loop now key)"

fun run_microtask :: "instant \<Rightarrow> microtask \<Rightarrow> unit run" where
  "run_microtask now (RunJob jid) = run_job now None jid"
| "run_microtask now (DrainStart key) = drain_loop now key"
| "run_microtask now (DrainNext key) = drain_next now key"

definition take_microtask :: "instant \<Rightarrow> microtask \<Rightarrow> unit run" where
  "take_microtask now m =
     thenDo (writing (\<lambda>r. r\<lparr>pending := remove1 m (pending r)\<rparr>)) (run_microtask now m)"

section \<open>The start of the process\<close>

definition recover_job :: "instant \<Rightarrow> job \<Rightarrow> unit run" where
  "recover_job now j =
     andThen (store_call (update_job (job_id j)
         ((finish_patch Failed now)\<lparr>set_error := Some (Some ''Job was interrupted by an API restart'')\<rparr>)))
       (\<lambda>_. emit now (job_id j) EvFailed ''Job was interrupted by an API restart'' None)"

definition recover_interrupted :: "instant \<Rightarrow> unit run" where
  "recover_interrupted now = (\<lambda>r.
     forEach (list_by_statuses [Queued, Running] (jobs_tables r)) (recover_job now) r)"

text \<open>The constructor, on the tables the last process left.\<close>

definition new_runner :: "jobs_db \<Rightarrow> runner" where
  "new_runner d = \<lparr>jobs_tables = d, running = [], cancelled = {}, queues = (\<lambda>_. None), pending = [],
     published = []\<rparr>"

definition start_runner :: "instant \<Rightarrow> jobs_db \<Rightarrow> runner" where
  "start_runner now d = snd (recover_interrupted now (new_runner d))"

section \<open>Runs of the process\<close>

text \<open>
  The actions of the runner and of its callers. A restart keeps the tables and loses the rest.
\<close>

datatype runner_action =
    ACreate string job_type json string
  | ACreateQueued string string job_type json string
  | ACancel string
  | AMicrotask microtask
  | ALog string string
  | AProgress string int string
  | ASettle string "string + json"
  | ARestart

fun act :: "instant \<Rightarrow> runner_action \<Rightarrow> runner \<Rightarrow> runner" where
  "act now (ACreate jid ty inp msg) r = snd (create_run jid now ty inp msg r)"
| "act now (ACreateQueued key jid ty inp msg) r = snd (create_queued key jid now ty inp msg r)"
| "act now (ACancel jid) r = snd (cancel_run now jid r)"
| "act now (AMicrotask m) r = snd (take_microtask now m r)"
| "act now (ALog jid msg) r = snd (task_log now jid msg r)"
| "act now (AProgress jid v msg) r = snd (task_progress now jid v msg r)"
| "act now (ASettle jid out) r = snd (task_settled now jid out r)"
| "act now ARestart r = start_runner now (jobs_tables r)"

fun enabled :: "runner_action \<Rightarrow> runner \<Rightarrow> bool" where
  "enabled (AMicrotask m) r = (m \<in> set (pending r))"
| "enabled (ALog jid _) r = (slot_of r jid \<noteq> None)"
| "enabled (AProgress jid _ _) r = (slot_of r jid \<noteq> None)"
| "enabled (ASettle jid _) r = (slot_of r jid \<noteq> None)"
| "enabled _ r = True"

inductive runner_step :: "runner \<Rightarrow> runner \<Rightarrow> bool" where
  act_step: "enabled a r \<Longrightarrow> runner_step r (act now a r)"

inductive reachable :: "runner \<Rightarrow> bool" where
  boot: "reachable (start_runner now \<lparr>jobs = [], job_events = [], last_sequence = 0\<rparr>)"
| run: "reachable r \<Longrightarrow> enabled a r \<Longrightarrow> reachable (act now a r)"

inductive_cases runner_stepE: "runner_step r r'"

end
