(* ===== verification/Jobs_Control.thy ===== *)
theory Jobs_Control
  imports Jobs_Runner
begin

text \<open>
  The control state of \<^verbatim>\<open>jobs.runner.ts\<close>, apart from the tables: where a job that waits or runs can
  be, and what each change of the runner does to that.
\<close>

section \<open>Where a job can be\<close>

text \<open>
  The control part of the runner, seen as functions: the status \<open>S\<close> of a job, its slot \<open>R\<close> in
  \<open>running\<close>, the set \<open>C\<close> of cancelled ids, the queues \<open>Q\<close> and the set \<open>P\<close> of waiting microtasks.
  \<open>waiting Q P k\<close> are the ids of queue \<open>k\<close> that have not had their turn.
\<close>

definition waiting :: "(string \<Rightarrow> string list option) \<Rightarrow> microtask set \<Rightarrow> string \<Rightarrow> string list" where
  "waiting Q P k = (case Q k of None \<Rightarrow> [] | Some xs \<Rightarrow> if DrainStart k \<in> P then xs else tl xs)"

definition waits :: "(string \<Rightarrow> string list option) \<Rightarrow> microtask set \<Rightarrow> string \<Rightarrow> bool" where
  "waits Q P jid \<longleftrightarrow> RunJob jid \<in> P \<or> (\<exists>k. jid \<in> set (waiting Q P k))"

definition waits_once :: "(string \<Rightarrow> string list option) \<Rightarrow> microtask set \<Rightarrow> bool" where
  "waits_once Q P \<longleftrightarrow> (\<forall>k. distinct (waiting Q P k)) \<and>
     (\<forall>k k' jid. jid \<in> set (waiting Q P k) \<longrightarrow> jid \<in> set (waiting Q P k') \<longrightarrow> k = k') \<and>
     (\<forall>k jid. jid \<in> set (waiting Q P k) \<longrightarrow> RunJob jid \<notin> P)"

definition jobs_placed ::
  "(string \<Rightarrow> job_status option) \<Rightarrow> (string \<Rightarrow> run_slot option) \<Rightarrow> string set \<Rightarrow>
   (string \<Rightarrow> bool) \<Rightarrow> bool" where
  "jobs_placed S R C W \<longleftrightarrow>
     (\<forall>jid s. R jid = Some s \<longrightarrow> S jid = Some Running) \<and>
     (\<forall>jid. S jid = Some Running \<longrightarrow> (\<exists>s. R jid = Some s)) \<and>
     (\<forall>jid s. R jid = Some s \<longrightarrow> (aborted s \<longleftrightarrow> jid \<in> C)) \<and>
     (\<forall>jid. S jid = Some Queued \<longrightarrow> W jid \<and> jid \<notin> C) \<and>
     (\<forall>jid. W jid \<longrightarrow> S jid = Some Queued \<or> (S jid = Some Cancelled \<and> jid \<in> C)) \<and>
     (\<forall>jid\<in>C. S jid = Some Running \<or> (S jid = Some Cancelled \<and> W jid))"

text \<open>Exactly one of: the loop of queue \<open>k\<close> is about to start, to go on, or awaits a run.\<close>

definition awaits :: "(string \<Rightarrow> run_slot option) \<Rightarrow> string \<Rightarrow> bool" where
  "awaits R k \<longleftrightarrow> (\<exists>jid s. R jid = Some s \<and> awaited_by s = Some k)"

definition queue_driven ::
  "(string \<Rightarrow> run_slot option) \<Rightarrow> (string \<Rightarrow> string list option) \<Rightarrow> microtask set \<Rightarrow> string \<Rightarrow> bool" where
  "queue_driven R Q P k \<longleftrightarrow> (case Q k of
     None \<Rightarrow> DrainStart k \<notin> P \<and> DrainNext k \<notin> P \<and> \<not> awaits R k
   | Some xs \<Rightarrow> xs \<noteq> [] \<and>
       (DrainStart k \<in> P \<longrightarrow> DrainNext k \<notin> P \<and> \<not> awaits R k) \<and>
       (DrainNext k \<in> P \<longrightarrow> \<not> awaits R k) \<and>
       (DrainStart k \<in> P \<or> DrainNext k \<in> P \<or> awaits R k) \<and>
       (\<forall>jid s. R jid = Some s \<longrightarrow> awaited_by s = Some k \<longrightarrow> jid = hd xs))"

definition control_ok ::
  "(string \<Rightarrow> job_status option) \<Rightarrow> (string \<Rightarrow> run_slot option) \<Rightarrow> string set \<Rightarrow>
   (string \<Rightarrow> string list option) \<Rightarrow> microtask set \<Rightarrow> bool" where
  "control_ok S R C Q P \<longleftrightarrow>
     jobs_placed S R C (waits Q P) \<and> waits_once Q P \<and> (\<forall>k. queue_driven R Q P k)"

named_theorems control_simps \<open>the waiting jobs after a change of the queues or microtasks\<close>

lemma waiting_run [control_simps]:
  "waiting Q (insert (RunJob j) P) = waiting Q P" "waiting Q (P - {RunJob j}) = waiting Q P"
  "waiting Q (insert (DrainNext k) P) = waiting Q P" "waiting Q (P - {DrainNext k}) = waiting Q P"
  by (auto simp: waiting_def fun_eq_iff split: option.splits)

lemma waiting_start [control_simps]:
  "waiting Q (insert (DrainStart k) P) =
     (waiting Q P)(k := case Q k of None \<Rightarrow> [] | Some xs \<Rightarrow> xs)"
  "waiting Q (P - {DrainStart k}) =
     (waiting Q P)(k := case Q k of None \<Rightarrow> [] | Some xs \<Rightarrow> tl xs)"
  by (auto simp: waiting_def fun_eq_iff split: option.splits)

lemma waiting_queue [control_simps]:
  "waiting (Q(k := x)) P =
     (waiting Q P)(k := case x of None \<Rightarrow> [] | Some xs \<Rightarrow> if DrainStart k \<in> P then xs else tl xs)"
  by (auto simp: waiting_def fun_eq_iff)

lemma placedD:
  assumes "jobs_placed S R C W"
  shows "R jid = Some s \<Longrightarrow> S jid = Some Running"
    and "S jid = Some Running \<Longrightarrow> \<exists>s. R jid = Some s"
    and "R jid = Some s \<Longrightarrow> aborted s \<longleftrightarrow> jid \<in> C"
    and "W jid \<Longrightarrow> S jid = Some Queued \<or> (S jid = Some Cancelled \<and> jid \<in> C)"
    and "S jid = Some Queued \<Longrightarrow> W jid \<and> jid \<notin> C"
  using assms unfolding jobs_placed_def by blast+

lemma placed_no_slot: "jobs_placed S R C W \<Longrightarrow> S jid \<noteq> Some Running \<Longrightarrow> R jid = None"
  by (cases "R jid") (auto dest: placedD(1))

lemma waits_no_slot: "jobs_placed S R C W \<Longrightarrow> W jid \<Longrightarrow> R jid = None"
  by (rule placed_no_slot) (auto dest: placedD(4))

lemma waits_at:
  "waits Q P j \<longleftrightarrow>
     RunJob j \<in> P \<or> j \<in> set (waiting Q P k) \<or> (\<exists>i. i \<noteq> k \<and> j \<in> set (waiting Q P i))"
  by (auto simp: waits_def)

lemma awaits_upd:
  "awaits (R(jid \<mapsto> s)) k \<longleftrightarrow>
     awaited_by s = Some k \<or> (\<exists>j t. j \<noteq> jid \<and> R j = Some t \<and> awaited_by t = Some k)"
  unfolding awaits_def by auto

lemma awaits_at:
  "awaits R k \<longleftrightarrow> (\<exists>s. R jid = Some s \<and> awaited_by s = Some k) \<or>
     (\<exists>j t. j \<noteq> jid \<and> R j = Some t \<and> awaited_by t = Some k)"
  unfolding awaits_def by auto

lemma awaits_start:
  "R jid = None \<Longrightarrow> awaits (R(jid \<mapsto> s)) k \<longleftrightarrow> awaited_by s = Some k \<or> awaits R k"
  using awaits_upd[of R jid s k] awaits_at[of R k jid] by auto

lemma control_okD:
  assumes "control_ok S R C Q P"
  shows "jobs_placed S R C (waits Q P)" "waits_once Q P" "queue_driven R Q P k"
  using assms by (auto simp: control_ok_def)

lemma not_running_slot: "control_ok S R C Q P \<Longrightarrow> S jid \<noteq> Some Running \<Longrightarrow> R jid = None"
  using placed_no_slot control_okD(1) by blast

lemma awaited_head:
  "queue_driven R Q P k \<Longrightarrow> R j = Some t \<Longrightarrow> awaited_by t = Some k \<Longrightarrow>
   \<exists>xs. Q k = Some xs \<and> xs \<noteq> [] \<and> j = hd xs"
  by (auto simp: queue_driven_def awaits_def split: option.splits)

lemma waiting_in: "jid \<in> set (waiting Q P k) \<Longrightarrow> \<exists>q. Q k = Some q \<and> jid \<in> set q"
  by (cases "Q k"; cases "the (Q k)") (auto simp: waiting_def split: if_splits)

lemma waits_fresh: "control_ok S R C Q P \<Longrightarrow> S jid = None \<Longrightarrow> \<not> waits Q P jid"
  by (auto simp: control_ok_def jobs_placed_def)

lemma control_create:
  assumes "control_ok S R C Q P" and "S jid = None"
  shows "control_ok (S(jid \<mapsto> Queued)) R C Q (insert (RunJob jid) P)"
proof -
  have w: "waits Q (insert (RunJob jid) P) = (waits Q P)(jid := True)"
    by (auto simp: waits_def control_simps fun_eq_iff)
  have "jobs_placed (S(jid \<mapsto> Queued)) R C (waits Q (insert (RunJob jid) P))"
    using assms unfolding w control_ok_def jobs_placed_def
    by auto
  moreover have "waits_once Q (insert (RunJob jid) P)"
    using assms(1) waits_fresh[OF assms]
    by (auto simp: control_ok_def waits_once_def control_simps waits_def)
  moreover have "queue_driven R Q (insert (RunJob jid) P) k" for k
    using control_okD(3)[OF assms(1), of k] by (auto simp: queue_driven_def split: option.splits)
  ultimately show ?thesis by (simp add: control_ok_def)
qed

lemma placed_start:
  assumes "jobs_placed S R C W" and "W jid" and "jid \<notin> C"
  shows "S jid = Some Queued"
    and "jobs_placed (S(jid \<mapsto> Running)) (R(jid \<mapsto> \<lparr>aborted = False, awaited_by = q\<rparr>)) C
      (W(jid := False))"
proof -
  show q: "S jid = Some Queued" using placedD(4)[OF assms(1,2)] assms(3) by simp
  have "R jid = None" using waits_no_slot[OF assms(1,2)] .
  with assms q show "jobs_placed (S(jid \<mapsto> Running))
      (R(jid \<mapsto> \<lparr>aborted = False, awaited_by = q\<rparr>)) C (W(jid := False))"
    unfolding jobs_placed_def by auto
qed

lemma placed_drop:
  assumes "jobs_placed S R C W" and "W jid" and "jid \<in> C"
  shows "jobs_placed S R (C - {jid}) (W(jid := False))"
  using assms waits_no_slot[OF assms(1,2)] unfolding jobs_placed_def by auto

lemma waits_onceD:
  assumes "waits_once Q P"
  shows "distinct (waiting Q P k)"
    and "jid \<in> set (waiting Q P k) \<Longrightarrow> RunJob jid \<notin> P"
    and "jid \<in> set (waiting Q P k) \<Longrightarrow> jid \<in> set (waiting Q P k') \<Longrightarrow> k' = k"
  using assms unfolding waits_once_def by blast+

lemma waits_once_mono:
  assumes "waits_once Q P" and "\<And>i. set (waiting Q' P' i) \<subseteq> set (waiting Q P i)"
    and "\<And>i. distinct (waiting Q' P' i)" and "\<And>j. RunJob j \<in> P' \<Longrightarrow> RunJob j \<in> P"
  shows "waits_once Q' P'"
  unfolding waits_once_def
proof (intro conjI allI impI)
  show "distinct (waiting Q' P' k)" for k by (rule assms(3))
  show "k = k'" if "j \<in> set (waiting Q' P' k)" "j \<in> set (waiting Q' P' k')" for k k' j
    using waits_onceD(3)[OF assms(1), of j k' k] assms(2) that by blast
  show "RunJob j \<notin> P'" if "j \<in> set (waiting Q' P' k)" for k j
    using waits_onceD(2)[OF assms(1), of j k] assms(2,4) that by blast
qed

lemma control_cancel_running:
  assumes "control_ok S R C Q P" and "R jid = Some s"
  shows "control_ok S (R(jid \<mapsto> s\<lparr>aborted := True\<rparr>)) (insert jid C) Q P"
proof -
  have a: "awaits (R(jid \<mapsto> s\<lparr>aborted := True\<rparr>)) k = awaits R k" for k
    unfolding awaits_upd using assms(2) awaits_at[of R k jid] by auto
  have "jobs_placed S (R(jid \<mapsto> s\<lparr>aborted := True\<rparr>)) (insert jid C) (waits Q P)"
    using assms unfolding control_ok_def jobs_placed_def by auto
  moreover have "queue_driven (R(jid \<mapsto> s\<lparr>aborted := True\<rparr>)) Q P k" for k
    using control_okD(3)[OF assms(1), of k] assms(2)
    by (auto simp: queue_driven_def a split: option.splits)
  ultimately show ?thesis using assms by (simp add: control_ok_def)
qed

lemma control_cancel_queued:
  assumes "control_ok S R C Q P" and "S jid = Some Queued"
  shows "control_ok (S(jid \<mapsto> Cancelled)) R (insert jid C) Q P"
proof -
  have r: "R jid = None" using not_running_slot[OF assms(1)] assms(2) by simp
  have "jobs_placed S R C (waits Q P)" using control_okD(1)[OF assms(1)] .
  then have "jobs_placed (S(jid \<mapsto> Cancelled)) R (insert jid C) (waits Q P)"
    using r assms(2) unfolding jobs_placed_def by auto
  then show ?thesis using assms(1) by (simp add: control_ok_def)
qed

text \<open>A microtask starts the run of \<open>jid\<close>, or drops it when it was cancelled before.\<close>

lemma control_run:
  assumes "control_ok S R C Q P" and "RunJob jid \<in> P"
  shows "jid \<in> C \<Longrightarrow> control_ok S R (C - {jid}) Q (P - {RunJob jid})"
    and "jid \<notin> C \<Longrightarrow> S jid = Some Queued \<and> control_ok (S(jid \<mapsto> Running))
      (R(jid \<mapsto> \<lparr>aborted = False, awaited_by = None\<rparr>)) C Q (P - {RunJob jid})"
proof -
  have P: "jobs_placed S R C (waits Q P)" "waits_once Q P" "\<And>k. queue_driven R Q P k"
    using control_okD[OF assms(1)] by auto
  have w: "waits Q (P - {RunJob jid}) = (waits Q P)(jid := False)"
    using P(2) assms(2) by (auto simp: waits_def control_simps fun_eq_iff waits_once_def)
  have jid: "waits Q P jid" using assms(2) by (simp add: waits_def)
  have wo: "waits_once Q (P - {RunJob jid})"
    using P(2) by (auto simp: waits_once_def control_simps)
  have qd: "queue_driven R Q (P - {RunJob jid}) k" for k
    using P(3)[of k] by (auto simp: queue_driven_def split: option.splits)
  show "control_ok S R (C - {jid}) Q (P - {RunJob jid})" if "jid \<in> C"
    using placed_drop[OF P(1) jid that] wo qd by (simp add: control_ok_def w)
  assume c: "jid \<notin> C"
  let ?R = "R(jid \<mapsto> \<lparr>aborted = False, awaited_by = None\<rparr>)"
  have "awaits ?R k = awaits R k" for k
    using waits_no_slot[OF P(1) jid] by (simp add: awaits_start)
  then have "queue_driven ?R Q (P - {RunJob jid}) k" for k
    using qd[of k] by (auto simp: queue_driven_def split: option.splits)
  then show "S jid = Some Queued \<and> control_ok (S(jid \<mapsto> Running)) ?R C Q (P - {RunJob jid})"
    using placed_start[OF P(1) jid c] wo by (simp add: control_ok_def w)
qed

lemma control_drain:
  assumes "control_ok S R C Q P" and "DrainStart k \<in> P" and "Q k = Some (jid # xs)"
  shows "jid \<in> C \<Longrightarrow>
      control_ok S R (C - {jid}) Q (insert (DrainNext k) (P - {DrainStart k}))"
    and "jid \<notin> C \<Longrightarrow> S jid = Some Queued \<and> control_ok (S(jid \<mapsto> Running))
      (R(jid \<mapsto> \<lparr>aborted = False, awaited_by = Some k\<rparr>)) C Q (P - {DrainStart k})"
proof -
  have P: "jobs_placed S R C (waits Q P)" "waits_once Q P" "\<And>k. queue_driven R Q P k"
    using control_okD[OF assms(1)] by auto
  have wk: "waiting Q P k = jid # xs" using assms by (simp add: waiting_def)
  have W: "waiting Q (P - {DrainStart k}) = (waiting Q P)(k := xs)"
    "waiting Q (insert (DrainNext k) (P - {DrainStart k})) = (waiting Q P)(k := xs)"
    using assms(3) by (simp_all add: control_simps)
  have wk': "waiting Q P i = (if i = k then jid # xs else waiting Q P i)" for i
    using wk by simp
  note once = waits_onceD(1)[OF P(2), of k, unfolded wk]
    waits_onceD(2)[OF P(2), of _ k, unfolded wk] waits_onceD(3)[OF P(2), of _ k, unfolded wk]
  have head: "RunJob jid \<notin> P" "jid \<notin> set xs" "\<And>i. i \<noteq> k \<Longrightarrow> jid \<notin> set (waiting Q P i)"
    using once(1) once(2)[of jid] once(3)[of jid] by auto
  have w: "waits Q (P - {DrainStart k}) = (waits Q P)(jid := False)"
    "waits Q (insert (DrainNext k) (P - {DrainStart k})) = (waits Q P)(jid := False)"
    using head by (auto simp: waits_at[of _ _ _ k] W fun_eq_iff wk)
  have jid: "waits Q P jid" using wk by (auto simp: waits_def intro!: exI[of _ k])
  have sub: "set (waiting Q (P - {DrainStart k}) i) \<subseteq> set (waiting Q P i)" for i
    using wk by (auto simp: W)
  have dist: "distinct (waiting Q (P - {DrainStart k}) i)" for i
    using wk waits_onceD(1)[OF P(2), of i] by (auto simp: W)
  have wo: "waits_once Q (P - {DrainStart k})"
    by (rule waits_once_mono[OF P(2) sub dist]) simp
  have wo': "waits_once Q (insert (DrainNext k) (P - {DrainStart k}))"
    by (rule waits_once_mono[OF wo]) (simp_all add: waiting_run dist)
  have na: "\<not> awaits R k" "DrainNext k \<notin> P" using P(3)[of k] assms by (auto simp: queue_driven_def)
  have qd: "queue_driven R Q (insert (DrainNext k) (P - {DrainStart k})) i" for i
    using P(3)[of i] na assms(3) by (auto simp: queue_driven_def awaits_def split: option.splits)
  show "control_ok S R (C - {jid}) Q (insert (DrainNext k) (P - {DrainStart k}))" if "jid \<in> C"
    using placed_drop[OF P(1) jid that] wo' qd by (simp add: control_ok_def w)
  assume c: "jid \<notin> C"
  let ?R = "R(jid \<mapsto> \<lparr>aborted = False, awaited_by = Some k\<rparr>)"
  have aw: "awaits ?R i \<longleftrightarrow> i = k \<or> awaits R i" for i
    using waits_no_slot[OF P(1) jid] by (auto simp: awaits_start)
  have "queue_driven ?R Q (P - {DrainStart k}) i" for i
  proof (cases "i = k")
    case True
    with na assms(3) show ?thesis
      by (auto simp: queue_driven_def aw) (auto simp: awaits_def)
  next
    case False
    with P(3)[of i] show ?thesis by (auto simp: queue_driven_def aw split: option.splits)
  qed
  then show "S jid = Some Queued \<and> control_ok (S(jid \<mapsto> Running)) ?R C Q (P - {DrainStart k})"
    using placed_start[OF P(1) jid c] wo by (simp add: control_ok_def w)
qed

lemma control_shift:
  assumes "control_ok S R C Q P" and "DrainNext k \<in> P" and "Q k = Some (x # xs)"
  shows "xs = [] \<Longrightarrow> control_ok S R C (Q(k := None)) (P - {DrainNext k})"
    and "xs \<noteq> [] \<Longrightarrow>
      control_ok S R C (Q(k \<mapsto> xs)) (insert (DrainStart k) (P - {DrainNext k}))"
proof -
  have P: "jobs_placed S R C (waits Q P)" "waits_once Q P" "\<And>k. queue_driven R Q P k"
    using control_okD[OF assms(1)] by auto
  have na: "\<not> awaits R k" "DrainStart k \<notin> P" using P(3)[of k] assms by (auto simp: queue_driven_def)
  have W: "xs = [] \<Longrightarrow> waiting (Q(k := None)) (P - {DrainNext k}) = waiting Q P"
    "waiting (Q(k \<mapsto> xs)) (insert (DrainStart k) (P - {DrainNext k})) = waiting Q P"
    using assms(3) na by (auto simp: waiting_def fun_eq_iff split: option.splits)
  have wt: "xs = [] \<Longrightarrow> waits (Q(k := None)) (P - {DrainNext k}) = waits Q P"
    "waits (Q(k \<mapsto> xs)) (insert (DrainStart k) (P - {DrainNext k})) = waits Q P"
    using W by (auto simp: waits_def fun_eq_iff)
  have wo: "xs = [] \<Longrightarrow> waits_once (Q(k := None)) (P - {DrainNext k})"
    "waits_once (Q(k \<mapsto> xs)) (insert (DrainStart k) (P - {DrainNext k}))"
    using P(2) W unfolding waits_once_def by auto
  have "queue_driven R (Q(k := None)) (P - {DrainNext k}) i" for i
    using P(3)[of i] na by (auto simp: queue_driven_def split: option.splits)
  then show "control_ok S R C (Q(k := None)) (P - {DrainNext k})" if "xs = []"
    using P(1) wt(1) wo(1) that by (simp add: control_ok_def)
  have "queue_driven R (Q(k \<mapsto> xs)) (insert (DrainStart k) (P - {DrainNext k})) i" if "xs \<noteq> []" for i
    using P(3)[of i] na that
    by (cases "i = k") (auto simp: queue_driven_def awaits_def split: option.splits)
  then show "control_ok S R C (Q(k \<mapsto> xs)) (insert (DrainStart k) (P - {DrainNext k}))"
    if "xs \<noteq> []"
    using P(1) wt(2) wo(2) that by (simp add: control_ok_def)
qed

lemma control_create_queued:
  assumes "control_ok S R C Q P" and "S jid = None"
    and q_def: "q = (case Q k of None \<Rightarrow> [] | Some xs \<Rightarrow> xs)"
  shows "control_ok (S(jid \<mapsto> Queued)) R C (Q(k \<mapsto> q @ [jid]))
    (if q = [] then insert (DrainStart k) P else P)" (is "control_ok _ _ _ ?Q ?P")
    and "q = [] \<Longrightarrow> DrainStart k \<notin> P"
proof -
  have P: "jobs_placed S R C (waits Q P)" "waits_once Q P" "\<And>k. queue_driven R Q P k"
    using control_okD[OF assms(1)] by auto
  have qs: "Q k = None \<and> q = [] \<or> Q k = Some q \<and> q \<noteq> []"
    using P(3)[of k] by (auto simp: q_def queue_driven_def split: option.splits)
  show ns: "q = [] \<Longrightarrow> DrainStart k \<notin> P"
    using qs P(3)[of k] by (auto simp: queue_driven_def)
  have W: "waiting ?Q ?P i = (if i = k then waiting Q P k @ [jid] else waiting Q P i)" for i
    using qs by (auto simp: waiting_def split: option.splits)
  have run: "RunJob j \<in> ?P \<longleftrightarrow> RunJob j \<in> P" for j by simp
  have new: "\<not> waits Q P jid" using waits_fresh[OF assms(1,2)] .
  then have new': "jid \<notin> set (waiting Q P i)" "RunJob jid \<notin> P" for i by (auto simp: waits_def)
  have w: "waits ?Q ?P = (waits Q P)(jid := True)"
    by (auto simp: waits_at[of _ _ _ k] W run fun_eq_iff)
  have "jobs_placed (S(jid \<mapsto> Queued)) R C (waits ?Q ?P)"
    using P(1) assms(2) unfolding w jobs_placed_def by auto
  moreover have "waits_once ?Q ?P"
    using P(2) new' unfolding waits_once_def W run by auto
  moreover have "queue_driven R ?Q ?P i" for i
    using P(3)[of i] qs
    by (cases "i = k") (auto simp: queue_driven_def awaits_def split: option.splits)
  ultimately show "control_ok (S(jid \<mapsto> Queued)) R C ?Q ?P" by (simp add: control_ok_def)
qed

text \<open>A run has ended: its job has a final status and the queue that awaits it is woken.\<close>

lemma control_settle:
  assumes "control_ok S R C Q P" and "R jid = Some s"
    and "st \<noteq> Queued" and "st \<noteq> Running"
  shows "awaited_by s = None \<Longrightarrow>
      control_ok (S(jid \<mapsto> st)) (R(jid := None)) (C - {jid}) Q P"
    and "awaited_by s = Some k \<Longrightarrow>
      DrainNext k \<notin> P \<and>
      control_ok (S(jid \<mapsto> st)) (R(jid := None)) (C - {jid}) Q (insert (DrainNext k) P)"
proof -
  have P: "jobs_placed S R C (waits Q P)" "waits_once Q P" "\<And>k. queue_driven R Q P k"
    using control_okD[OF assms(1)] by auto
  have nw: "\<not> waits Q P jid" using waits_no_slot[OF P(1), of jid] assms(2) by auto
  have jp: "jobs_placed (S(jid \<mapsto> st)) (R(jid := None)) (C - {jid}) (waits Q P)"
    using P(1) nw assms(3,4) unfolding jobs_placed_def by auto
  have aw: "awaits (R(jid := None)) i \<longleftrightarrow> (\<exists>j t. j \<noteq> jid \<and> R j = Some t \<and> awaited_by t = Some i)"
    for i by (auto simp: awaits_def)
  have other: "awaits (R(jid := None)) i \<longleftrightarrow> awaits R i" if "awaited_by s \<noteq> Some i" for i
    using awaits_at[of R i jid] assms(2) that aw by auto
  show "control_ok (S(jid \<mapsto> st)) (R(jid := None)) (C - {jid}) Q P" if "awaited_by s = None"
  proof -
    have "queue_driven (R(jid := None)) Q P i" for i
      using P(3)[of i] other[of i] that by (auto simp: queue_driven_def split: option.splits)
    with jp P(2) show ?thesis by (simp add: control_ok_def)
  qed
  assume k: "awaited_by s = Some k"
  have ak: "awaits R k" using assms(2) k by (auto simp: awaits_def)
  have hd: "j = jid" if "R j = Some t" "awaited_by t = Some k" for j t
    using awaited_head[OF P(3) assms(2) k] awaited_head[OF P(3) that] by auto
  have nk: "\<not> awaits (R(jid := None)) k" using hd by (auto simp: aw)
  have "queue_driven (R(jid := None)) Q (insert (DrainNext k) P) i" for i
    using P(3)[of i] other[of i] nk ak k
    by (cases "i = k") (auto simp: queue_driven_def split: option.splits)
  moreover have "waits_once Q (insert (DrainNext k) P)"
    by (rule waits_once_mono[OF P(2)]) (simp_all add: waiting_run waits_onceD(1)[OF P(2)])
  moreover have "waits Q (insert (DrainNext k) P) = waits Q P"
    by (simp add: waits_def waiting_run fun_eq_iff)
  moreover have "DrainNext k \<notin> P" using P(3)[of k] ak by (auto simp: queue_driven_def split: option.splits)
  ultimately show "DrainNext k \<notin> P \<and>
      control_ok (S(jid \<mapsto> st)) (R(jid := None)) (C - {jid}) Q (insert (DrainNext k) P)"
    using jp by (simp add: control_ok_def)
qed

end
