(* ===== verification/Jobs_Invariant.thy ===== *)
theory Jobs_Invariant
  imports Jobs_Control
begin

text \<open>
  The invariant of the runner and the proof that every action of \<open>Jobs_Runner\<close> keeps it and moves
  the rows of the jobs forward along their life cycle.
\<close>

section \<open>The invariant of the runner\<close>

text \<open>The log of a job in each status: created, started, worked, and one last event.\<close>

fun started_log :: "job_event_type list \<Rightarrow> bool" where
  "started_log (EvQueued # EvStarted # mid) = (set mid \<subseteq> {EvLog, EvProgress})"
| "started_log _ = False"

definition ends_in :: "job_event_type \<Rightarrow> job_event_type list \<Rightarrow> bool" where
  "ends_in t ts \<longleftrightarrow> ts \<noteq> [] \<and> last ts = t \<and> started_log (butlast ts)"

fun log_ok :: "job_status \<Rightarrow> job_event_type list \<Rightarrow> bool" where
  "log_ok Queued ts = (ts = [EvQueued])"
| "log_ok Running ts = started_log ts"
| "log_ok Succeeded ts = ends_in EvCompleted ts"
| "log_ok Failed ts = (ts = [EvQueued, EvFailed] \<or> ends_in EvFailed ts)"
| "log_ok Cancelled ts = (ts = [EvQueued, EvCancelled] \<or> ends_in EvCancelled ts)"

definition statuses :: "jobs_db \<Rightarrow> string \<Rightarrow> job_status option" where
  "statuses d jid = map_option status (get_job d jid)"

definition tables_ok :: "runner \<Rightarrow> bool" where
  "tables_ok r \<longleftrightarrow> jobs_db_ok (jobs_tables r) \<and>
     (\<forall>jid j. get_job (jobs_tables r) jid = Some j \<longrightarrow>
        log_ok (status j) (event_types (jobs_tables r) jid)) \<and>
     suffix (published r) (job_events (jobs_tables r))"

definition runner_ok :: "runner \<Rightarrow> bool" where
  "runner_ok r \<longleftrightarrow> tables_ok r \<and> distinct (map fst (running r)) \<and> distinct (pending r) \<and>
     control_ok (statuses (jobs_tables r)) (map_of (running r)) (cancelled r) (queues r)
       (set (pending r))"

text \<open>One job's row becomes \<open>j\<close>, its log grows by \<open>tys\<close>, and nothing else changes.\<close>

definition moved :: "string \<Rightarrow> job \<Rightarrow> job_event_type list \<Rightarrow> runner \<Rightarrow> runner \<Rightarrow> bool" where
  "moved jid j tys r r' \<longleftrightarrow> jobs_db_ok (jobs_tables r') \<and>
     get_job (jobs_tables r') = (get_job (jobs_tables r))(jid \<mapsto> j) \<and>
     event_types (jobs_tables r') =
       (event_types (jobs_tables r))(jid := event_types (jobs_tables r) jid @ tys) \<and>
     (\<exists>es. published r' = published r @ es \<and>
        job_events (jobs_tables r') = job_events (jobs_tables r) @ es) \<and>
     running r' = running r \<and> cancelled r' = cancelled r \<and> queues r' = queues r \<and>
     pending r' = pending r"

lemma moved_statuses:
  "moved jid j tys r r' \<Longrightarrow>
   statuses (jobs_tables r') = (statuses (jobs_tables r))(jid \<mapsto> status j)"
  by (auto simp: moved_def statuses_def fun_eq_iff)

lemma moved_control:
  assumes "moved jid j tys r r'"
  shows "running r' = running r" "cancelled r' = cancelled r" "queues r' = queues r"
    "pending r' = pending r"
    "get_job (jobs_tables r') = (get_job (jobs_tables r))(jid \<mapsto> j)"
  using assms by (auto simp: moved_def)

lemma moved_tables_ok:
  assumes "moved jid j tys r r'" and "tables_ok r"
    and "log_ok (status j) (event_types (jobs_tables r) jid @ tys)"
  shows "tables_ok r'"
  using assms by (auto simp: moved_def tables_ok_def suffix_def split: if_splits)

lemma emit_moves:
  assumes "jobs_db_ok (jobs_tables r)" and "get_job (jobs_tables r) jid = Some j"
    and "case prog of None \<Rightarrow> True | Some p \<Rightarrow> progress_ok p"
  obtains r' where "emit now jid ty msg prog r = (Inr (), r')" and "moved jid j [ty] r r'"
proof -
  let ?d = "jobs_tables r"
  have "get_job ?d jid \<noteq> None" using assms(2) by simp
  from append_event_run[OF this assms(3), of now ty msg] obtain e where e:
    "append_event now jid ty msg prog ?d =
       (Inr e, ?d\<lparr>job_events := job_events ?d @ [e], last_sequence := Suc (last_sequence ?d)\<rparr>)"
    "ev_job e = jid" "ev_type e = ty" by blast
  let ?d' = "?d\<lparr>job_events := job_events ?d @ [e], last_sequence := Suc (last_sequence ?d)\<rparr>"
  let ?r = "r\<lparr>jobs_tables := ?d', published := published r @ [e]\<rparr>"
  have ok: "jobs_db_ok ?d'"
    using append_event_ok[OF assms(1), of now jid ty msg prog] e(1) by simp
  have "emit now jid ty msg prog r = (Inr (), ?r)"
    by (simp add: emit_def store_call_def exec_simps e(1))
  moreover have "moved jid j [ty] r ?r"
    using ok e assms(2) by (auto simp: moved_def event_types_snoc fun_eq_iff)
  ultimately show ?thesis by (rule that)
qed

lemma change_moves:
  assumes "jobs_db_ok (jobs_tables r)" and "get_job (jobs_tables r) jid = Some j"
    and "progress_ok (progress (patch_job p j))"
    and "case prog of None \<Rightarrow> True | Some p \<Rightarrow> progress_ok p"
  obtains r1 r' where "store_call (update_job jid p) r = (Inr (patch_job p j), r1)"
    and "emit now jid ty msg prog r1 = (Inr (), r')" and "moved jid (patch_job p j) [ty] r r'"
proof -
  let ?d = "jobs_tables r" and ?n = "patch_job p j"
  from update_job_run[OF assms(2,3)] obtain d where d:
    "update_job jid p ?d = (Inr ?n, d)" "get_job d = (get_job ?d)(jid \<mapsto> ?n)"
    "job_events d = job_events ?d" by blast
  have ok: "jobs_db_ok d" using update_job_ok[OF assms(1), of jid p] d(1) by simp
  let ?r = "r\<lparr>jobs_tables := d\<rparr>"
  have "jobs_db_ok (jobs_tables ?r)" "get_job (jobs_tables ?r) jid = Some ?n"
    using ok d(2) by simp_all
  from emit_moves[OF this assms(4), of now ty msg] obtain r' where r':
    "emit now jid ty msg prog ?r = (Inr (), r')" "moved jid ?n [ty] ?r r'" by blast
  have ev: "event_types d = event_types ?d" by (simp add: event_types_def fun_eq_iff d(3))
  have "store_call (update_job jid p) r = (Inr ?n, ?r)" by (simp add: store_call_def d(1))
  moreover have "moved jid ?n [ty] r r'"
    using r'(2) d ev by (auto simp: moved_def fun_eq_iff)
  ultimately show ?thesis using r'(1) that by blast
qed

lemma create_moves:
  assumes "jobs_db_ok (jobs_tables r)" and "get_job (jobs_tables r) jid = None"
  obtains j r1 r' where "store_call (create_job jid now ty inp) r = (Inr j, r1)"
    and "emit now jid EvQueued msg (Some 0) r1 = (Inr (), r')" and "moved jid j [EvQueued] r r'"
    and "job_id j = jid" and "status j = Queued" and "event_types (jobs_tables r) jid = []"
proof -
  let ?d = "jobs_tables r"
  from create_job_run[OF assms(2)] obtain j where j:
    "create_job jid now ty inp ?d = (Inr j, ?d\<lparr>jobs := jobs ?d @ [j]\<rparr>)"
    "job_id j = jid" "status j = Queued" by metis
  let ?d1 = "?d\<lparr>jobs := jobs ?d @ [j]\<rparr>"
  have ok: "jobs_db_ok ?d1" using create_job_ok[OF assms(1), of jid now ty inp] j(1) by simp
  have get: "get_job ?d1 = (get_job ?d)(jid \<mapsto> j)"
    using assms(2) j(2) by (auto simp: get_job_def table_simps fun_eq_iff split: option.splits)
  let ?r = "r\<lparr>jobs_tables := ?d1\<rparr>"
  have "jobs_db_ok (jobs_tables ?r)" "get_job (jobs_tables ?r) jid = Some j"
    using ok get by simp_all
  from emit_moves[OF this, of "Some 0" now EvQueued msg] obtain r' where r':
    "emit now jid EvQueued msg (Some 0) ?r = (Inr (), r')" "moved jid j [EvQueued] ?r r'" by auto
  have ev: "event_types ?d1 = event_types ?d" by (simp add: event_types_def fun_eq_iff)
  have "jid \<notin> job_id ` set (jobs ?d)" using assms(2) by (simp add: get_job_def get_by_None)
  then have none: "event_types ?d jid = []"
    using assms(1) by (auto simp: event_types_def jobs_db_ok_def filter_empty_conv)
  have "store_call (create_job jid now ty inp) r = (Inr j, ?r)" by (simp add: store_call_def j(1))
  moreover have "moved jid j [EvQueued] r r'"
    using r'(2) get ev by (auto simp: moved_def fun_eq_iff)
  ultimately show ?thesis using r'(1) j none that by blast
qed

text \<open>The life of a job's row: its identity is fixed and its status moves forward.\<close>

fun status_next :: "job_status \<Rightarrow> job_status \<Rightarrow> bool" where
  "status_next Queued st = (st \<in> {Running, Failed, Cancelled})"
| "status_next Running st = (st \<noteq> Queued)"
| "status_next _ _ = False"

definition final_status :: "job_status \<Rightarrow> bool" where
  "final_status st \<longleftrightarrow> st \<in> {Succeeded, Failed, Cancelled}"

definition job_next :: "job \<Rightarrow> job \<Rightarrow> bool" where
  "job_next j j' \<longleftrightarrow> status_next (status j) (status j') \<and>
     (job_id j', job_type j', input j', created_at j') = (job_id j, job_type j, input j, created_at j)"

definition jobs_forward :: "runner \<Rightarrow> runner \<Rightarrow> bool" where
  "jobs_forward r r' \<longleftrightarrow> (\<forall>k j. get_job (jobs_tables r) k = Some j \<longrightarrow>
     (\<exists>j'. get_job (jobs_tables r') k = Some j' \<and> (j' = j \<or> job_next j j')))"

lemma jobs_forward_same:
  "get_job (jobs_tables r') = get_job (jobs_tables r) \<Longrightarrow> jobs_forward r r'"
  by (simp add: jobs_forward_def)

lemma jobs_forward_upd:
  assumes "get_job (jobs_tables r') = (get_job (jobs_tables r))(jid \<mapsto> j')"
    and "\<And>j. get_job (jobs_tables r) jid = Some j \<Longrightarrow> j' = j \<or> job_next j j'"
  shows "jobs_forward r r'"
  using assms by (auto simp: jobs_forward_def)

lemma job_next_patch:
  "set_status p = Some st \<Longrightarrow> status_next (status j) st \<Longrightarrow> job_next j (patch_job p j)"
  by (simp add: job_next_def patch_job_def or_keep_def)

lemma job_next_running:
  "status j = Running \<Longrightarrow> set_status p = None \<Longrightarrow> job_next j (patch_job p j)"
  by (simp add: job_next_def patch_job_def or_keep_def)

lemma patch_status:
  "status (patch_job p j) = or_keep (set_status p) (status j)"
  "progress (patch_job p j) = or_keep (set_progress p) (progress j)"
  by (simp_all add: patch_job_def)

lemma or_keep_simps [simp]: "or_keep None d = d" "or_keep (Some v) d = v"
  by (simp_all add: or_keep_def)

lemma patch_fields [simp]:
  "set_status (finish_patch st now) = Some st" "set_progress (finish_patch st now) = None"
  "set_status no_patch = None" "set_progress no_patch = None"
  by (simp_all add: finish_patch_def no_patch_def)

lemmas runner_ok_parts =
  runner_ok_def[THEN iffD1, THEN conjunct1]
  runner_ok_def[THEN iffD1, THEN conjunct2, THEN conjunct1]
  runner_ok_def[THEN iffD1, THEN conjunct2, THEN conjunct2, THEN conjunct1]
  runner_ok_def[THEN iffD1, THEN conjunct2, THEN conjunct2, THEN conjunct2]

lemma tables_okD:
  assumes "tables_ok r"
  shows "jobs_db_ok (jobs_tables r)"
    and "get_job (jobs_tables r) jid = Some j \<Longrightarrow>
      log_ok (status j) (event_types (jobs_tables r) jid)"
    and "get_job (jobs_tables r) jid = Some j \<Longrightarrow> progress_ok (progress j)"
  using assms by (auto simp: tables_ok_def dest: get_job_progress)

lemma tables_ok_control [simp]:
  "tables_ok (r\<lparr>running := x\<rparr>) = tables_ok r" "tables_ok (r\<lparr>cancelled := c\<rparr>) = tables_ok r"
  "tables_ok (r\<lparr>queues := q\<rparr>) = tables_ok r" "tables_ok (r\<lparr>pending := ps\<rparr>) = tables_ok r"
  by (simp_all add: tables_ok_def)

lemma started_log_snoc:
  "started_log ts \<Longrightarrow> t = EvLog \<or> t = EvProgress \<Longrightarrow> started_log (ts @ [t])"
  by (induction ts rule: started_log.induct) auto

lemma started_log_end: "started_log ts \<Longrightarrow> ends_in t (ts @ [t])"
  by (simp add: ends_in_def)

lemma map_of_abort [simp]:
  "map_of (map (\<lambda>(i, s). (i, if i = jid then f s else s)) xs) =
     (map_of xs)(jid := map_option f (map_of xs jid))"
  by (induction xs) (auto simp: fun_eq_iff)

lemma abort_run_fields [simp]:
  "map_of (running (abort_run jid r)) = (map_of (running r))
     (jid := map_option (\<lambda>s. s\<lparr>aborted := True\<rparr>) (map_of (running r) jid))"
  "map fst (running (abort_run jid r)) = map fst (running r)"
  "cancelled (abort_run jid r) = cancelled r" "queues (abort_run jid r) = queues r"
  "pending (abort_run jid r) = pending r" "jobs_tables (abort_run jid r) = jobs_tables r"
  "published (abort_run jid r) = published r" "tables_ok (abort_run jid r) = tables_ok r"
  by (simp_all add: abort_run_def case_prod_beta' comp_def tables_ok_def)
    (simp add: map_of_abort[unfolded case_prod_beta'])

lemma map_of_leave [simp]:
  "map_of (filter (\<lambda>(i, s). i \<noteq> jid) xs) = (map_of xs)(jid := None)"
  by (induction xs) (auto simp: fun_eq_iff)

lemma distinct_leave: "distinct (map fst xs) \<Longrightarrow> distinct (map fst (filter p xs))"
  by (simp add: distinct_map_filter)

section \<open>Every action keeps it\<close>

lemma create_run_ok:
  assumes "runner_ok r"
  shows "runner_ok (snd (create_run jid now ty inp msg r)) \<and>
    jobs_forward r (snd (create_run jid now ty inp msg r))"
proof (cases "get_job (jobs_tables r) jid")
  case (Some j)
  then have "create_job jid now ty inp (jobs_tables r) =
      (Inl (JobsDb UniqueViolation), jobs_tables r)"
    by (simp add: create_job_refused)
  with assms show ?thesis
    by (simp add: create_run_def store_call_def exec_simps jobs_forward_same)
next
  case None
  note ok = runner_ok_parts[OF assms]
  from create_moves[OF tables_okD(1)[OF ok(1)] None, of now ty inp msg] obtain j r1 r' where m:
    "store_call (create_job jid now ty inp) r = (Inr j, r1)"
    "emit now jid EvQueued msg (Some 0) r1 = (Inr (), r')" "moved jid j [EvQueued] r r'"
    "job_id j = jid" "status j = Queued" "event_types (jobs_tables r) jid = []" by blast
  let ?r = "r'\<lparr>pending := pending r' @ [RunJob jid]\<rparr>"
  note mc = moved_control[OF m(3)] and ms = moved_statuses[OF m(3)]
  have S: "statuses (jobs_tables r) jid = None" using None by (simp add: statuses_def)
  have run: "create_run jid now ty inp msg r = (Inr j, ?r)"
    by (simp add: create_run_def exec_simps m(1,2))
  have "tables_ok r'" using moved_tables_ok[OF m(3) ok(1)] m(5,6) by simp
  moreover have "RunJob jid \<notin> set (pending r)"
    using waits_fresh[OF ok(4) S] by (auto simp: waits_def)
  moreover note control_create[OF ok(4) S]
  ultimately have "runner_ok ?r"
    using ok(2,3) m(5) by (simp add: runner_ok_def mc(1-4) ms)
  moreover have "jobs_forward r ?r"
    by (rule jobs_forward_upd[of _ _ jid j]) (simp_all add: mc(5) None)
  ultimately show ?thesis by (simp add: run)
qed

lemma create_queued_ok:
  assumes "runner_ok r"
  shows "runner_ok (snd (create_queued key jid now ty inp msg r)) \<and>
    jobs_forward r (snd (create_queued key jid now ty inp msg r))"
proof (cases "get_job (jobs_tables r) jid")
  case (Some j)
  then have "create_job jid now ty inp (jobs_tables r) =
      (Inl (JobsDb UniqueViolation), jobs_tables r)"
    by (simp add: create_job_refused)
  with assms show ?thesis
    by (simp add: create_queued_def store_call_def exec_simps jobs_forward_same)
next
  case None
  note ok = runner_ok_parts[OF assms]
  from create_moves[OF tables_okD(1)[OF ok(1)] None, of now ty inp msg] obtain j r1 r' where m:
    "store_call (create_job jid now ty inp) r = (Inr j, r1)"
    "emit now jid EvQueued msg (Some 0) r1 = (Inr (), r')" "moved jid j [EvQueued] r r'"
    "job_id j = jid" "status j = Queued" "event_types (jobs_tables r) jid = []" by blast
  note mc = moved_control[OF m(3)] and ms = moved_statuses[OF m(3)]
  define q where "q = (case queues r key of None \<Rightarrow> [] | Some xs \<Rightarrow> xs)"
  let ?q = "r'\<lparr>queues := (queues r')(key \<mapsto> q @ [jid])\<rparr>"
  let ?r = "if q = [] then ?q\<lparr>pending := pending r' @ [DrainStart key]\<rparr> else ?q"
  have S: "statuses (jobs_tables r) jid = None" using None by (simp add: statuses_def)
  have run: "create_queued key jid now ty inp msg r = (Inr j, ?r)"
    by (simp add: create_queued_def exec_simps m(1,2) Let_def mc q_def)
  have "tables_ok r'" using moved_tables_ok[OF m(3) ok(1)] m(5,6) by simp
  moreover note control_create_queued[OF ok(4) S q_def]
  ultimately have "runner_ok ?r"
    using ok(2,3) m(5) by (cases "q = []") (simp_all add: runner_ok_def mc(1-4) ms)
  moreover have "jobs_forward r ?r"
    by (rule jobs_forward_upd[of _ _ jid j]) (simp_all add: mc(5) None)
  ultimately show ?thesis by (simp add: run)
qed

lemma slot_status:
  assumes "runner_ok r" and "slot_of r jid = Some s"
  obtains j where "get_job (jobs_tables r) jid = Some j" and "status j = Running"
    and "progress_ok (progress j)" and "started_log (event_types (jobs_tables r) jid)"
    and "aborted s \<longleftrightarrow> jid \<in> cancelled r"
proof -
  note ok = runner_ok_parts[OF assms(1)]
  note placed = control_okD(1)[OF ok(4)]
  have "map_of (running r) jid = Some s" using assms(2) by (simp add: slot_of_def)
  from placedD(1)[OF placed this] placedD(3)[OF placed this] obtain j where
    "get_job (jobs_tables r) jid = Some j" "status j = Running" "aborted s \<longleftrightarrow> jid \<in> cancelled r"
    by (auto simp: statuses_def)
  with tables_okD(2,3)[OF ok(1) this(1)] that show ?thesis by simp
qed

lemma cancel_run_idle:
  assumes "\<And>j. get_job (jobs_tables r) jid = Some j \<Longrightarrow>
    (status j \<noteq> Queued \<and> status j \<noteq> Running) \<or> jid \<in> cancelled r"
  shows "snd (cancel_run now jid r) = r"
proof (cases "get_job (jobs_tables r) jid")
  case (Some j)
  with assms[OF this] show ?thesis by (auto simp: cancel_run_def)
qed (simp add: cancel_run_def)

lemma task_progress_refused:
  assumes "is_aborted jid r \<or> \<not> progress_ok v"
  shows "snd (task_progress now jid v msg r) = r"
proof (cases "is_aborted jid r")
  case False
  with assms have "\<not> progress_ok v" by simp
  then have "snd (update_job jid (no_patch\<lparr>set_progress := Some v\<rparr>) (jobs_tables r)) = jobs_tables r"
    "isl (fst (update_job jid (no_patch\<lparr>set_progress := Some v\<rparr>) (jobs_tables r)))"
    by (auto simp: update_job_def patch_status Let_def split: option.splits)
  with False show ?thesis
    by (cases "update_job jid (no_patch\<lparr>set_progress := Some v\<rparr>) (jobs_tables r)")
      (auto simp: task_progress_def store_call_def exec_simps split: sum.splits)
qed (simp add: task_progress_def)

lemma cancel_run_ok:
  assumes "runner_ok r"
  shows "runner_ok (snd (cancel_run now jid r)) \<and> jobs_forward r (snd (cancel_run now jid r))"
proof -
  note ok = runner_ok_parts[OF assms]
  note placed = control_okD(1)[OF ok(4)]
  consider (idle) "snd (cancel_run now jid r) = r"
    | (running) j where "get_job (jobs_tables r) jid = Some j" "status j = Running" "jid \<notin> cancelled r"
    | (queued) j where "get_job (jobs_tables r) jid = Some j" "status j = Queued" "jid \<notin> cancelled r"
    using cancel_run_idle by blast
  then show ?thesis
  proof cases
    case idle
    with assms show ?thesis by (simp add: jobs_forward_same)
  next
    case running
    let ?r = "abort_run jid (r\<lparr>cancelled := insert jid (cancelled r)\<rparr>)"
    have db: "jobs_db_ok (jobs_tables ?r)" "get_job (jobs_tables ?r) jid = Some j"
      using tables_okD(1)[OF ok(1)] running(1) by simp_all
    have nop: "case None :: int option of None \<Rightarrow> True | Some p \<Rightarrow> progress_ok p" by simp
    from emit_moves[OF db nop, of now EvLog "''Cancellation requested''"] obtain r' where r':
      "emit now jid EvLog ''Cancellation requested'' None ?r = (Inr (), r')"
      "moved jid j [EvLog] ?r r'" by blast
    note mc = moved_control[OF r'(2)] and ms = moved_statuses[OF r'(2)]
    have run: "snd (cancel_run now jid r) = r'"
      using running by (simp add: cancel_run_def exec_simps r'(1))
    have S: "statuses (jobs_tables r) jid = Some Running" using running by (simp add: statuses_def)
    from placedD(2)[OF placed S] obtain s where s: "map_of (running r) jid = Some s" by blast
    have "tables_ok r'"
      using moved_tables_ok[OF r'(2)] ok(1) tables_okD(2)[OF ok(1) running(1)] running(2)
      by (simp add: started_log_snoc)
    moreover note control_cancel_running[of _ "map_of (running r)" _ _ _ jid s, OF ok(4) s]
    ultimately have "runner_ok r'"
      using ok(2,3) S s running(2) by (simp add: runner_ok_def mc(1-4) ms fun_upd_idem)
    moreover have "jobs_forward r r'"
      by (rule jobs_forward_upd[of _ _ jid j]) (simp_all add: mc(5) running)
    ultimately show ?thesis by (simp add: run)
  next
    case queued
    let ?r = "abort_run jid (r\<lparr>cancelled := insert jid (cancelled r)\<rparr>)"
    let ?p = "(finish_patch Cancelled now)\<lparr>set_error := Some None\<rparr>"
    have db: "jobs_db_ok (jobs_tables ?r)" "get_job (jobs_tables ?r) jid = Some j"
      using tables_okD(1)[OF ok(1)] queued(1) by simp_all
    have pr: "progress_ok (progress (patch_job ?p j))"
      using tables_okD(3)[OF ok(1) queued(1)] by (simp add: patch_status)
    have nop: "case None :: int option of None \<Rightarrow> True | Some p \<Rightarrow> progress_ok p" by simp
    from change_moves[OF db pr nop, of now EvCancelled "''Job cancelled by user''"] obtain r1 r' where r':
      "store_call (update_job jid ?p) ?r = (Inr (patch_job ?p j), r1)"
      "emit now jid EvCancelled ''Job cancelled by user'' None r1 = (Inr (), r')"
      "moved jid (patch_job ?p j) [EvCancelled] ?r r'" by blast
    note mc = moved_control[OF r'(3)] and ms = moved_statuses[OF r'(3)]
    have run: "snd (cancel_run now jid r) = r'"
      using queued by (simp add: cancel_run_def exec_simps r'(1,2))
    have S: "statuses (jobs_tables r) jid = Some Queued" using queued by (simp add: statuses_def)
    have s: "map_of (running r) jid = None" using placed_no_slot[OF placed] S by simp
    have "tables_ok r'"
      using moved_tables_ok[OF r'(3)] ok(1) tables_okD(2)[OF ok(1) queued(1)] queued(2)
      by (simp add: patch_status)
    moreover note control_cancel_queued[OF ok(4) S]
    ultimately have "runner_ok r'"
      using ok(2,3) S s by (simp add: runner_ok_def mc(1-4) ms fun_upd_idem patch_status)
    moreover have "jobs_forward r r'"
      by (rule jobs_forward_upd[of _ _ jid "patch_job ?p j"])
        (simp_all add: mc(5) queued job_next_patch)
    ultimately show ?thesis by (simp add: run)
  qed
qed

lemma task_log_ok:
  assumes "runner_ok r" and "slot_of r jid \<noteq> None"
  shows "runner_ok (snd (task_log now jid msg r)) \<and> jobs_forward r (snd (task_log now jid msg r))"
proof (cases "is_aborted jid r")
  case True
  with assms show ?thesis by (simp add: task_log_def jobs_forward_same)
next
  case False
  note ok = runner_ok_parts[OF assms(1)]
  from assms(2) obtain s where "slot_of r jid = Some s" by blast
  from slot_status[OF assms(1) this] obtain j where j: "get_job (jobs_tables r) jid = Some j"
    "status j = Running" "started_log (event_types (jobs_tables r) jid)" by metis
  have nop: "case None :: int option of None \<Rightarrow> True | Some p \<Rightarrow> progress_ok p" by simp
  from emit_moves[OF tables_okD(1)[OF ok(1)] j(1) nop, of now EvLog msg] obtain r' where r':
    "emit now jid EvLog msg None r = (Inr (), r')" "moved jid j [EvLog] r r'" by blast
  note mc = moved_control[OF r'(2)] and ms = moved_statuses[OF r'(2)]
  have "tables_ok r'" using moved_tables_ok[OF r'(2) ok(1)] j by (simp add: started_log_snoc)
  moreover have "statuses (jobs_tables r) jid = Some (status j)" by (simp add: statuses_def j)
  ultimately have "runner_ok r'"
    using ok(2-4) by (simp add: runner_ok_def mc(1-4) ms fun_upd_idem)
  moreover have "jobs_forward r r'"
    by (rule jobs_forward_upd[of _ _ jid j]) (simp_all add: mc(5) j)
  ultimately show ?thesis using False by (simp add: task_log_def r'(1))
qed

lemma task_progress_ok:
  assumes "runner_ok r" and "slot_of r jid \<noteq> None"
  shows "runner_ok (snd (task_progress now jid v msg r)) \<and>
    jobs_forward r (snd (task_progress now jid v msg r))"
proof -
  note ok = runner_ok_parts[OF assms(1)]
  let ?p = "no_patch\<lparr>set_progress := Some v\<rparr>"
  from assms(2) obtain s where "slot_of r jid = Some s" by blast
  from slot_status[OF assms(1) this] obtain j where j: "get_job (jobs_tables r) jid = Some j"
    "status j = Running" "started_log (event_types (jobs_tables r) jid)" by metis
  consider (refused) "snd (task_progress now jid v msg r) = r"
    | (accepted) "\<not> is_aborted jid r" "progress_ok v"
    using task_progress_refused by blast
  then show ?thesis
  proof cases
    case refused
    with assms show ?thesis by (simp add: jobs_forward_same)
  next
    case accepted
    have pr: "progress_ok (progress (patch_job ?p j))"
      "case Some v of None \<Rightarrow> True | Some p \<Rightarrow> progress_ok p"
      using accepted(2) by (simp_all add: patch_status)
    from change_moves[OF tables_okD(1)[OF ok(1)] j(1) pr, of now EvProgress msg] obtain r1 r' where r':
      "store_call (update_job jid ?p) r = (Inr (patch_job ?p j), r1)"
      "emit now jid EvProgress msg (Some v) r1 = (Inr (), r')"
      "moved jid (patch_job ?p j) [EvProgress] r r'" by blast
    note mc = moved_control[OF r'(3)] and ms = moved_statuses[OF r'(3)]
    have st: "status (patch_job ?p j) = Running" using j(2) by (simp add: patch_status)
    have "tables_ok r'"
      using moved_tables_ok[OF r'(3) ok(1)] j(3) st by (simp add: started_log_snoc)
    moreover have "statuses (jobs_tables r) jid = Some Running" using j by (simp add: statuses_def)
    ultimately have "runner_ok r'"
      using ok(2-4) st by (simp add: runner_ok_def mc(1-4) ms fun_upd_idem)
    moreover have "jobs_forward r r'"
      by (rule jobs_forward_upd[of _ _ jid "patch_job ?p j"])
        (simp_all add: mc(5) j job_next_running)
    ultimately show ?thesis using accepted by (simp add: task_progress_def exec_simps r'(1,2))
  qed
qed

lemma job_is_running:
  "get_job (jobs_tables r) jid = Some j \<Longrightarrow> status j = Running \<Longrightarrow> \<not> job_is Cancelled jid r"
  by (simp add: job_is_def)

text \<open>How the settling of the task's promise ends the run.\<close>

lemma run_failed_moves:
  assumes "tables_ok r" and "get_job (jobs_tables r) jid = Some j" and "status j = Running"
  obtains r' j' ty where "run_failed now jid e r = (Inr (), r')" and "moved jid j' [ty] r r'"
    and "job_next j j'" and "log_ok (status j') (event_types (jobs_tables r) jid @ [ty])"
    and "status j' = (if is_aborted jid r then Cancelled else Failed)"
proof -
  define st where "st = (if is_aborted jid r then Cancelled else Failed)"
  define ty where "ty = (if is_aborted jid r then EvCancelled else EvFailed)"
  define p where "p = (finish_patch st now)\<lparr>set_error :=
     Some (if is_aborted jid r then None else Some (error_text e))\<rparr>"
  define msg where
    "msg = (if is_aborted jid r then ''Job cancelled by user'' else error_text e)"
  have pr: "progress_ok (progress (patch_job p j))"
    "case None :: int option of None \<Rightarrow> True | Some p \<Rightarrow> progress_ok p"
    using tables_okD(3)[OF assms(1,2)] by (simp_all add: patch_status p_def)
  from change_moves[OF tables_okD(1)[OF assms(1)] assms(2) pr, of now ty msg] obtain r1 r' where r':
    "store_call (update_job jid p) r = (Inr (patch_job p j), r1)"
    "emit now jid ty msg None r1 = (Inr (), r')" "moved jid (patch_job p j) [ty] r r'" by blast
  have "run_failed now jid e r = (Inr (), r')"
    using r'(1,2) job_is_running[OF assms(2,3)]
    by (auto simp: run_failed_def exec_simps p_def st_def ty_def msg_def)
  moreover have "job_next j (patch_job p j)"
    using assms(3) by (auto simp: p_def st_def intro!: job_next_patch)
  moreover have st: "status (patch_job p j) = st" by (simp add: patch_status p_def)
  moreover have "log_ok st (event_types (jobs_tables r) jid @ [ty])"
    using tables_okD(2)[OF assms(1,2)] assms(3) by (auto simp: st_def ty_def intro: started_log_end)
  ultimately show ?thesis using r'(3) that st_def by simp
qed

lemma run_succeeded_moves:
  assumes "tables_ok r" and "get_job (jobs_tables r) jid = Some j" and "status j = Running"
    and "\<not> is_aborted jid r" and "jid \<notin> cancelled r"
  obtains r' j' where "run_succeeded now jid res r = (Inr (), r')" and "moved jid j' [EvCompleted] r r'"
    and "job_next j j'" and "log_ok (status j') (event_types (jobs_tables r) jid @ [EvCompleted])"
    and "status j' = Succeeded"
proof -
  define p where
    "p = (finish_patch Succeeded now)\<lparr>set_progress := Some 100, set_result := Some (Some res)\<rparr>"
  have pr: "progress_ok (progress (patch_job p j))"
    "case Some 100 of None \<Rightarrow> True | Some p \<Rightarrow> progress_ok p"
    by (simp_all add: patch_status p_def)
  from change_moves[OF tables_okD(1)[OF assms(1)] assms(2) pr, of now EvCompleted
      "''Job completed successfully''"] obtain r1 r' where r':
    "store_call (update_job jid p) r = (Inr (patch_job p j), r1)"
    "emit now jid EvCompleted ''Job completed successfully'' (Some 100) r1 = (Inr (), r')"
    "moved jid (patch_job p j) [EvCompleted] r r'" by blast
  have "run_succeeded now jid res r = (Inr (), r')"
    using r'(1,2) job_is_running[OF assms(2,3)] assms(4,5)
    by (simp add: run_succeeded_def exec_simps p_def)
  moreover have "job_next j (patch_job p j)"
    using assms(3) by (auto simp: p_def intro!: job_next_patch)
  moreover have st: "status (patch_job p j) = Succeeded" by (simp add: patch_status p_def)
  moreover have "log_ok Succeeded (event_types (jobs_tables r) jid @ [EvCompleted])"
    using tables_okD(2)[OF assms(1,2)] assms(3) by (simp add: started_log_end)
  ultimately show ?thesis using r'(3) that by simp
qed

definition settle_status :: "runner \<Rightarrow> string \<Rightarrow> string + json \<Rightarrow> job_status" where
  "settle_status r jid out =
     (if is_aborted jid r then Cancelled else if isl out then Failed else Succeeded)"

lemma task_settled_moves:
  assumes "runner_ok r" and "slot_of r jid = Some s"
  obtains r' j j' ty where
    "task_settled now jid out r = (Inr (), wake_queue (awaited_by s) (leave_run jid r'))"
    and "moved jid j' [ty] r r'" and "get_job (jobs_tables r) jid = Some j" and "job_next j j'"
    and "log_ok (status j') (event_types (jobs_tables r) jid @ [ty])"
    and "status j' = settle_status r jid out"
proof -
  note ok = runner_ok_parts[OF assms(1)]
  from slot_status[OF assms] obtain j where j: "get_job (jobs_tables r) jid = Some j"
    "status j = Running" "aborted s \<longleftrightarrow> jid \<in> cancelled r" by metis
  have ab: "is_aborted jid r \<longleftrightarrow> jid \<in> cancelled r" by (simp add: is_aborted_def assms(2) j(3))
  have q: "Option.bind (slot_of r jid) awaited_by = awaited_by s" by (simp add: assms(2))
  show ?thesis
  proof (cases "\<not> is_aborted jid r \<and> \<not> isl out")
    case True
    then obtain res where out: "out = Inr res" by (cases out) auto
    have "\<not> is_aborted jid r" "jid \<notin> cancelled r" using True ab by simp_all
    from run_succeeded_moves[OF ok(1) j(1,2) this, of now res] obtain r' j' where r':
      "run_succeeded now jid res r = (Inr (), r')" "moved jid j' [EvCompleted] r r'" "job_next j j'"
      "log_ok (status j') (event_types (jobs_tables r) jid @ [EvCompleted])"
      "status j' = Succeeded" by blast
    have "task_settled now jid out r = (Inr (), wake_queue (awaited_by s) (leave_run jid r'))"
      by (simp add: task_settled_def q out exec_simps r'(1))
    from that[OF this r'(2) j(1) r'(3,4)] r'(5) True show ?thesis by (simp add: settle_status_def)
  next
    case False
    define e where "e = (case out of Inl msg \<Rightarrow> TaskThrew msg | Inr _ \<Rightarrow> AbortThrown)"
    from run_failed_moves[OF ok(1) j(1,2), of now e] obtain r' j' ty where r':
      "run_failed now jid e r = (Inr (), r')" "moved jid j' [ty] r r'" "job_next j j'"
      "log_ok (status j') (event_types (jobs_tables r) jid @ [ty])"
      "status j' = (if is_aborted jid r then Cancelled else Failed)" by blast
    have "(case out of Inr res \<Rightarrow> run_succeeded now jid res | Inl msg \<Rightarrow> raise (TaskThrew msg)) r =
        (Inl e, r)"
      using False ab by (cases out) (simp_all add: e_def exec_simps run_succeeded_def)
    then have "task_settled now jid out r = (Inr (), wake_queue (awaited_by s) (leave_run jid r'))"
      by (simp add: task_settled_def q exec_simps r'(1))
    from that[OF this r'(2) j(1) r'(3,4)] r'(5) False show ?thesis by (auto simp: settle_status_def)
  qed
qed

lemma wake_fields [simp]:
  "jobs_tables (wake_queue q r) = jobs_tables r" "running (wake_queue q r) = running r"
  "cancelled (wake_queue q r) = cancelled r" "queues (wake_queue q r) = queues r"
  "tables_ok (wake_queue q r) = tables_ok r"
  "pending (wake_queue q r) = pending r @ (case q of None \<Rightarrow> [] | Some k \<Rightarrow> [DrainNext k])"
  by (simp_all add: wake_queue_def split: option.splits)

lemma leave_fields [simp]:
  "jobs_tables (leave_run jid r) = jobs_tables r"
  "map_of (running (leave_run jid r)) = (map_of (running r))(jid := None)"
  "cancelled (leave_run jid r) = cancelled r - {jid}" "queues (leave_run jid r) = queues r"
  "pending (leave_run jid r) = pending r" "tables_ok (leave_run jid r) = tables_ok r"
  by (simp_all add: leave_run_def tables_ok_def)

lemma leave_distinct:
  "distinct (map fst (running r)) \<Longrightarrow> distinct (map fst (running (leave_run jid r)))"
  by (simp add: leave_run_def distinct_leave)

lemma task_settled_ok:
  assumes "runner_ok r" and "slot_of r jid \<noteq> None"
  shows "runner_ok (snd (task_settled now jid out r)) \<and>
    jobs_forward r (snd (task_settled now jid out r))"
proof -
  note ok = runner_ok_parts[OF assms(1)]
  from assms(2) obtain s where s: "slot_of r jid = Some s" by blast
  then have s': "map_of (running r) jid = Some s" by (simp add: slot_of_def)
  obtain r' j j' ty where m:
    "task_settled now jid out r = (Inr (), wake_queue (awaited_by s) (leave_run jid r'))"
    "moved jid j' [ty] r r'" "get_job (jobs_tables r) jid = Some j" "job_next j j'"
    "log_ok (status j') (event_types (jobs_tables r) jid @ [ty])"
    "status j' = settle_status r jid out"
    by (rule task_settled_moves[OF assms(1) s, of now out])
  note mc = moved_control[OF m(2)] and ms = moved_statuses[OF m(2)]
  have st: "status j' \<noteq> Queued" "status j' \<noteq> Running"
    unfolding m(6) settle_status_def by simp_all
  note cs = control_settle[OF ok(4) s' st]
  let ?r = "wake_queue (awaited_by s) (leave_run jid r')"
  have "tables_ok r'" by (rule moved_tables_ok[OF m(2) ok(1) m(5)])
  moreover have "distinct (map fst (running (leave_run jid r')))"
    using ok(2) by (simp add: leave_distinct mc)
  ultimately have "runner_ok ?r"
  proof (cases "awaited_by s")
    case None
    with cs(1) ok(3) \<open>tables_ok r'\<close> \<open>distinct (map fst (running (leave_run jid r')))\<close> show ?thesis
      by (simp add: runner_ok_def mc(1-4) ms)
  next
    case (Some k)
    with cs(2)[OF Some] ok(3) \<open>tables_ok r'\<close> \<open>distinct (map fst (running (leave_run jid r')))\<close>
    show ?thesis by (simp add: runner_ok_def mc(1-4) ms)
  qed
  moreover have "jobs_forward r ?r"
    by (rule jobs_forward_upd[of _ _ jid j']) (simp_all add: mc(5) m)
  ultimately show ?thesis by (simp add: m(1))
qed

text \<open>The start of a run, in a state where its microtask has been taken.\<close>

lemma run_job_starts:
  assumes "tables_ok r" and "get_job (jobs_tables r) jid = Some j" and "status j = Queued"
    and "jid \<notin> cancelled r"
  obtains r' j' where "run_job now q jid r = (Inr (), r')"
    and "moved jid j' [EvStarted]
      (r\<lparr>running := running r @ [(jid, \<lparr>aborted = False, awaited_by = q\<rparr>)]\<rparr>) r'"
    and "job_next j j'" and "status j' = Running" and "tables_ok r'"
proof -
  let ?r = "r\<lparr>running := running r @ [(jid, \<lparr>aborted = False, awaited_by = q\<rparr>)]\<rparr>"
  let ?p = "no_patch\<lparr>set_status := Some Running, set_started := Some (Some now)\<rparr>"
  have ok: "jobs_db_ok (jobs_tables ?r)" "get_job (jobs_tables ?r) jid = Some j"
    using tables_okD(1)[OF assms(1)] assms(2) by simp_all
  have pr: "progress_ok (progress (patch_job ?p j))"
    "case Some 0 of None \<Rightarrow> True | Some p \<Rightarrow> progress_ok p"
    using tables_okD(3)[OF assms(1,2)] by (simp_all add: patch_status)
  from change_moves[OF ok pr, of now EvStarted "''Job started''"] obtain r1 r' where r':
    "store_call (update_job jid ?p) ?r = (Inr (patch_job ?p j), r1)"
    "emit now jid EvStarted ''Job started'' (Some 0) r1 = (Inr (), r')"
    "moved jid (patch_job ?p j) [EvStarted] ?r r'" by blast
  have "run_started now jid ?r = (Inr True, r')"
    using assms(4) r'(1,2) by (simp add: run_started_def exec_simps)
  then have "run_job now q jid r = (Inr (), r')"
    using assms(4) by (simp add: run_job_def exec_simps Let_def)
  moreover have "job_next j (patch_job ?p j)" by (rule job_next_patch[of _ Running]) (simp_all add: assms(3))
  moreover have "tables_ok r'"
    using moved_tables_ok[OF r'(3)] assms(1) tables_okD(2)[OF assms(1,2)] assms(3)
    by (simp add: patch_status)
  ultimately show ?thesis using r'(3) that by (simp add: patch_status)
qed

lemma run_job_ok:
  assumes "tables_ok r" and "distinct (map fst (running r))" and "distinct (pending r)"
    and "jid \<in> cancelled r \<Longrightarrow>
      runner_ok (wake_queue q (r\<lparr>cancelled := cancelled r - {jid}\<rparr>))"
    and "jid \<notin> cancelled r \<Longrightarrow> statuses (jobs_tables r) jid = Some Queued \<and>
      map_of (running r) jid = None \<and>
      control_ok ((statuses (jobs_tables r))(jid \<mapsto> Running))
        ((map_of (running r))(jid \<mapsto> \<lparr>aborted = False, awaited_by = q\<rparr>)) (cancelled r) (queues r)
        (set (pending r))"
  shows "runner_ok (snd (run_job now q jid r)) \<and> jobs_forward r (snd (run_job now q jid r))"
proof (cases "jid \<in> cancelled r")
  case True
  then show ?thesis using assms(4) by (simp add: run_job_def jobs_forward_same)
next
  case False
  note c = assms(5)[OF False]
  then obtain j where j: "get_job (jobs_tables r) jid = Some j" "status j = Queued"
    by (auto simp: statuses_def)
  let ?r = "r\<lparr>running := running r @ [(jid, \<lparr>aborted = False, awaited_by = q\<rparr>)]\<rparr>"
  obtain r' j' where r': "run_job now q jid r = (Inr (), r')" "moved jid j' [EvStarted] ?r r'"
    "job_next j j'" "status j' = Running" "tables_ok r'"
    by (rule run_job_starts[OF assms(1) j False, of now q])
  note mc = moved_control[OF r'(2)] and ms = moved_statuses[OF r'(2)]
  have new: "jid \<notin> fst ` set (running r)" using c by (simp add: map_of_eq_None_iff)
  have R: "map_of (running r @ [(jid, s)]) = (map_of (running r))(jid \<mapsto> s)" for s
    using c by (auto simp: map_of_append map_add_def fun_eq_iff split: option.splits)
  have "runner_ok r'"
    using assms(2,3) r'(4,5) c new R by (simp add: runner_ok_def mc(1-4) ms)
  moreover have "jobs_forward r r'"
    by (rule jobs_forward_upd[of _ _ jid j']) (simp_all add: mc(5) j r'(3))
  ultimately show ?thesis by (simp add: r'(1))
qed

lemma set_remove1_distinct [simp]: "distinct xs \<Longrightarrow> set (remove1 x xs) = set xs - {x}"
  by (rule set_remove1_eq)

lemma drain_loop_ok:
  assumes "runner_ok r" and "DrainStart k \<in> set (pending r)"
  defines "r1 \<equiv> r\<lparr>pending := remove1 (DrainStart k) (pending r)\<rparr>"
  shows "runner_ok (snd (drain_loop now k r1)) \<and> jobs_forward r (snd (drain_loop now k r1))"
proof -
  note ok = runner_ok_parts[OF assms(1)]
  from control_okD(3)[OF ok(4), of k] assms(2) obtain jid xs where
    q: "queues r k = Some (jid # xs)"
    by (auto simp: queue_driven_def neq_Nil_conv split: option.splits)
  note d = control_drain[OF ok(4) assms(2) q]
  have nn: "DrainNext k \<notin> set (pending r)"
    using control_okD(3)[OF ok(4), of k] assms(2) by (auto simp: queue_driven_def q)
  note slot = not_running_slot[OF ok(4), of jid]
  have "runner_ok (snd (run_job now (Some k) jid r1)) \<and>
      jobs_forward r1 (snd (run_job now (Some k) jid r1))"
  proof (rule run_job_ok)
    show "runner_ok (wake_queue (Some k) (r1\<lparr>cancelled := cancelled r1 - {jid}\<rparr>))"
      if "jid \<in> cancelled r1"
      using d(1) that ok(1-3) nn by (simp add: runner_ok_def r1_def)
    show "statuses (jobs_tables r1) jid = Some Queued \<and> map_of (running r1) jid = None \<and>
      control_ok ((statuses (jobs_tables r1))(jid \<mapsto> Running))
        ((map_of (running r1))(jid \<mapsto> \<lparr>aborted = False, awaited_by = Some k\<rparr>)) (cancelled r1)
        (queues r1) (set (pending r1))" if "jid \<notin> cancelled r1"
      using d(2) slot that ok(3) by (simp add: r1_def)
  qed (use ok(1-3) in \<open>simp_all add: r1_def\<close>)
  then show ?thesis by (simp add: drain_loop_def r1_def q jobs_forward_def)
qed

lemma drain_next_ok:
  assumes "runner_ok r" and "DrainNext k \<in> set (pending r)"
  defines "r1 \<equiv> r\<lparr>pending := remove1 (DrainNext k) (pending r)\<rparr>"
  shows "runner_ok (snd (drain_next now k r1)) \<and> jobs_forward r (snd (drain_next now k r1))"
proof -
  note ok = runner_ok_parts[OF assms(1)]
  from control_okD(3)[OF ok(4), of k] assms(2) obtain x xs where
    q: "queues r k = Some (x # xs)"
    by (auto simp: queue_driven_def neq_Nil_conv split: option.splits)
  note sh = control_shift[OF ok(4) assms(2) q]
  have ns: "DrainStart k \<notin> set (pending r)"
    using control_okD(3)[OF ok(4), of k] assms(2) by (auto simp: queue_driven_def q)
  show ?thesis
  proof (cases "xs = []")
    case True
    let ?r = "r1\<lparr>queues := (queues r)(k := None)\<rparr>"
    have "drain_next now k r1 = (Inr (), ?r)"
      by (simp add: drain_next_def drain_loop_def exec_simps r1_def q True)
    moreover have "runner_ok ?r" using sh(1)[OF True] ok(1-3) by (simp add: runner_ok_def r1_def)
    ultimately show ?thesis by (simp add: jobs_forward_same r1_def)
  next
    case False
    \<comment> \<open>after the shift the loop is where it is when a \<open>DrainStart\<close> has been taken\<close>
    let ?r = "r\<lparr>pending := DrainStart k # remove1 (DrainNext k) (pending r),
                queues := (queues r)(k \<mapsto> xs)\<rparr>"
    have "runner_ok ?r" using sh(2)[OF False] ok(1-3) ns by (simp add: runner_ok_def)
    moreover have "?r\<lparr>pending := remove1 (DrainStart k) (pending ?r)\<rparr> =
        r1\<lparr>queues := (queues r)(k \<mapsto> xs)\<rparr>"
      by (cases r) (simp add: r1_def)
    ultimately have
      "runner_ok (snd (drain_loop now k (r1\<lparr>queues := (queues r)(k \<mapsto> xs)\<rparr>)))"
      "jobs_forward ?r (snd (drain_loop now k (r1\<lparr>queues := (queues r)(k \<mapsto> xs)\<rparr>)))"
      using drain_loop_ok[of ?r k now] by simp_all
    then show ?thesis by (simp add: drain_next_def exec_simps r1_def q jobs_forward_def)
  qed
qed

lemma take_microtask_ok:
  assumes "runner_ok r" and "m \<in> set (pending r)"
  shows "runner_ok (snd (take_microtask now m r)) \<and> jobs_forward r (snd (take_microtask now m r))"
proof (cases m)
  case (RunJob jid)
  note ok = runner_ok_parts[OF assms(1)]
  let ?r = "r\<lparr>pending := remove1 m (pending r)\<rparr>"
  have "RunJob jid \<in> set (pending r)" using assms(2) RunJob by simp
  note c = control_run[OF ok(4) this]
  have "runner_ok (snd (run_job now None jid ?r)) \<and> jobs_forward ?r (snd (run_job now None jid ?r))"
  proof (rule run_job_ok)
    show "runner_ok (wake_queue None (?r\<lparr>cancelled := cancelled ?r - {jid}\<rparr>))"
      if "jid \<in> cancelled ?r"
      using c(1) that ok(1-3) RunJob by (simp add: runner_ok_def)
    show "statuses (jobs_tables ?r) jid = Some Queued \<and> map_of (running ?r) jid = None \<and>
      control_ok ((statuses (jobs_tables ?r))(jid \<mapsto> Running))
        ((map_of (running ?r))(jid \<mapsto> \<lparr>aborted = False, awaited_by = None\<rparr>)) (cancelled ?r)
        (queues ?r) (set (pending ?r))" if "jid \<notin> cancelled ?r"
      using c(2) that ok(3) RunJob not_running_slot[OF ok(4), of jid] by simp
  qed (use ok(1-3) in simp_all)
  then show ?thesis by (simp add: take_microtask_def exec_simps RunJob jobs_forward_def)
next
  case (DrainStart k)
  with drain_loop_ok[of r k now] assms show ?thesis by (simp add: take_microtask_def exec_simps)
next
  case (DrainNext k)
  with drain_next_ok[of r k now] assms show ?thesis by (simp add: take_microtask_def exec_simps)
qed

section \<open>The start of the process fails what was interrupted\<close>

lemma recover_job_moves:
  assumes "tables_ok r" and "get_job (jobs_tables r) (job_id j) = Some j"
    and "status j = Queued \<or> status j = Running"
  obtains r' j' where "recover_job now j r = (Inr (), r')" and "moved (job_id j) j' [EvFailed] r r'"
    and "job_next j j'" and "status j' = Failed" and "tables_ok r'"
proof -
  let ?m = "''Job was interrupted by an API restart''"
  let ?p = "(finish_patch Failed now)\<lparr>set_error := Some (Some ?m)\<rparr>"
  have pr: "progress_ok (progress (patch_job ?p j))"
    "case None :: int option of None \<Rightarrow> True | Some p \<Rightarrow> progress_ok p"
    using tables_okD(3)[OF assms(1,2)] by (simp_all add: patch_status)
  from change_moves[OF tables_okD(1)[OF assms(1)] assms(2) pr, of now EvFailed ?m] obtain r1 r' where r':
    "store_call (update_job (job_id j) ?p) r = (Inr (patch_job ?p j), r1)"
    "emit now (job_id j) EvFailed ?m None r1 = (Inr (), r')"
    "moved (job_id j) (patch_job ?p j) [EvFailed] r r'" by blast
  have "recover_job now j r = (Inr (), r')" by (simp add: recover_job_def exec_simps r'(1,2))
  moreover have "job_next j (patch_job ?p j)"
    using assms(3) by (auto intro!: job_next_patch[of _ Failed])
  moreover have st: "status (patch_job ?p j) = Failed" by (simp add: patch_status)
  moreover have "log_ok Failed (event_types (jobs_tables r) (job_id j) @ [EvFailed])"
    using tables_okD(2)[OF assms(1,2)] assms(3) by (auto simp: started_log_end)
  then have "tables_ok r'" using moved_tables_ok[OF r'(3) assms(1)] st by simp
  ultimately show ?thesis using r'(3) that \<open>tables_ok r'\<close> by blast
qed

lemma recover_jobs_moves:
  assumes "tables_ok r" and "distinct (map job_id js)"
    and "\<forall>j\<in>set js. get_job (jobs_tables r) (job_id j) = Some j \<and>
      (status j = Queued \<or> status j = Running)"
  shows "\<exists>r'. forEach js (recover_job now) r = (Inr (), r') \<and> tables_ok r' \<and>
    running r' = running r \<and> cancelled r' = cancelled r \<and> queues r' = queues r \<and>
    pending r' = pending r \<and>
    (\<forall>j\<in>set js. \<exists>j'. get_job (jobs_tables r') (job_id j) = Some j' \<and> job_next j j' \<and>
      status j' = Failed) \<and>
    (\<forall>k. k \<notin> job_id ` set js \<longrightarrow> get_job (jobs_tables r') k = get_job (jobs_tables r) k)"
  using assms
proof (induction js arbitrary: r)
  case Nil
  then show ?case by (simp add: exec_simps)
next
  case (Cons j js)
  have j: "get_job (jobs_tables r) (job_id j) = Some j" "status j = Queued \<or> status j = Running"
    using Cons.prems(3) by simp_all
  obtain r1 j' where r1: "recover_job now j r = (Inr (), r1)" "moved (job_id j) j' [EvFailed] r r1"
    "job_next j j'" "status j' = Failed" "tables_ok r1"
    by (rule recover_job_moves[OF Cons.prems(1) j])
  note mc = moved_control[OF r1(2)]
  have rest: "\<forall>i\<in>set js. get_job (jobs_tables r1) (job_id i) = Some i \<and>
      (status i = Queued \<or> status i = Running)"
    using Cons.prems(2,3) by (auto simp: mc(5) image_iff)
  have "distinct (map job_id js)" using Cons.prems(2) by simp
  from Cons.IH[OF r1(5) this rest] obtain r2 where r2:
    "forEach js (recover_job now) r1 = (Inr (), r2)" "tables_ok r2" "running r2 = running r1"
    "cancelled r2 = cancelled r1" "queues r2 = queues r1" "pending r2 = pending r1"
    "\<forall>j\<in>set js. \<exists>j'. get_job (jobs_tables r2) (job_id j) = Some j' \<and> job_next j j' \<and>
      status j' = Failed"
    "\<forall>k. k \<notin> job_id ` set js \<longrightarrow> get_job (jobs_tables r2) k = get_job (jobs_tables r1) k" by blast
  have "job_id j \<notin> job_id ` set js" using Cons.prems(2) by simp
  with r2(8) have j2: "get_job (jobs_tables r2) (job_id j) = Some j'" by (simp add: mc(5))
  have "forEach (j # js) (recover_job now) r = (Inr (), r2)"
    by (simp add: exec_simps r1(1) r2(1))
  then show ?case using r2 j2 r1(3,4) by (auto simp: mc)
qed

definition db_sound :: "jobs_db \<Rightarrow> bool" where
  "db_sound d \<longleftrightarrow> tables_ok (new_runner d)"

lemma tables_ok_db_sound: "tables_ok r \<Longrightarrow> db_sound (jobs_tables r)"
  by (simp add: db_sound_def tables_ok_def new_runner_def)

lemma start_runner_ok:
  assumes "db_sound d"
  shows "runner_ok (start_runner now d)"
    and "get_job d k = Some j \<Longrightarrow> \<exists>j'. get_job (jobs_tables (start_runner now d)) k = Some j' \<and>
      (if final_status (status j) then j' = j else job_next j j' \<and> status j' = Failed)"
    and "get_job d k = None \<Longrightarrow> get_job (jobs_tables (start_runner now d)) k = None"
    and "running (start_runner now d) = [] \<and> pending (start_runner now d) = []"
proof -
  let ?r = "new_runner d" and ?js = "list_by_statuses [Queued, Running] d"
  have ok: "tables_ok ?r" using assms by (simp add: db_sound_def)
  note db = tables_okD(1)[OF ok, unfolded new_runner_def, simplified]
  have mem: "j \<in> set ?js \<longleftrightarrow> j \<in> set (jobs d) \<and> (status j = Queued \<or> status j = Running)" for j
    by (auto simp: list_by_statuses_def sql_select_def)
  have act: "\<forall>j\<in>set ?js. get_job (jobs_tables ?r) (job_id j) = Some j \<and>
      (status j = Queued \<or> status j = Running)"
    using get_job_self[OF db] by (simp add: mem new_runner_def)
  have "distinct (map job_id ?js)"
    using db by (simp add: list_by_statuses_def sql_select_def jobs_db_ok_def keys_distinct_def
        distinct_map_filter)
  from recover_jobs_moves[OF ok this act, of now] obtain r' where r':
    "forEach ?js (recover_job now) ?r = (Inr (), r')" "tables_ok r'" "running r' = running ?r"
    "cancelled r' = cancelled ?r" "queues r' = queues ?r" "pending r' = pending ?r"
    "\<forall>j\<in>set ?js. \<exists>j'. get_job (jobs_tables r') (job_id j) = Some j' \<and> job_next j j' \<and>
      status j' = Failed"
    "\<forall>k. k \<notin> job_id ` set ?js \<longrightarrow> get_job (jobs_tables r') k = get_job (jobs_tables ?r) k"
    by blast
  have run: "start_runner now d = r'"
    using r'(1) by (simp add: start_runner_def recover_interrupted_def new_runner_def)
  have T: "jobs_tables ?r = d" by (simp add: new_runner_def)
  have each: "\<exists>j'. get_job (jobs_tables r') k = Some j' \<and>
      (if final_status (status j) then j' = j else job_next j j' \<and> status j' = Failed)"
    if k: "get_job d k = Some j" for k j
  proof -
    from get_job_in[OF k] have jin: "j \<in> set (jobs d)" "job_id j = k" by simp_all
    show ?thesis
    proof (cases "status j = Queued \<or> status j = Running")
      case True
      with r'(7) jin mem have "\<exists>j'. get_job (jobs_tables r') (job_id j) = Some j' \<and> job_next j j' \<and>
          status j' = Failed" by blast
      with True jin(2) show ?thesis by (auto simp: final_status_def)
    next
      case False
      have "k \<notin> job_id ` set ?js"
      proof
        assume "k \<in> job_id ` set ?js"
        then obtain i where i: "i \<in> set ?js" "job_id i = k" by blast
        with act k T have "i = j" by auto
        with i(1) False show False by (simp add: mem)
      qed
      with r'(8) k T False show ?thesis by (cases "status j") (auto simp: final_status_def)
    qed
  qed
  then show "get_job d k = Some j \<Longrightarrow> \<exists>j'. get_job (jobs_tables (start_runner now d)) k = Some j' \<and>
      (if final_status (status j) then j' = j else job_next j j' \<and> status j' = Failed)"
    by (simp add: run)
  have none: "get_job (jobs_tables r') k = None" if "get_job d k = None" for k
  proof -
    have "k \<notin> job_id ` set ?js" using act that T by auto
    with r'(8) that T show ?thesis by simp
  qed
  then show "get_job d k = None \<Longrightarrow> get_job (jobs_tables (start_runner now d)) k = None"
    by (simp add: run)
  have "statuses (jobs_tables r') k \<noteq> Some Queued \<and> statuses (jobs_tables r') k \<noteq> Some Running" for k
    using each[of k] none[of k]
    by (cases "get_job d k") (auto simp: statuses_def final_status_def split: if_splits)
  then have "control_ok (statuses (jobs_tables r')) Map.empty {} (\<lambda>_. None) {}"
    by (auto simp: control_ok_def jobs_placed_def waits_once_def waiting_def waits_def
        queue_driven_def awaits_def)
  then show "runner_ok (start_runner now d)"
    using r'(2-6) by (simp add: runner_ok_def run new_runner_def)
  show "running (start_runner now d) = [] \<and> pending (start_runner now d) = []"
    using r'(3,6) by (simp add: run new_runner_def)
qed

lemma act_keeps:
  assumes "runner_ok r" and "enabled a r"
  shows "runner_ok (act now a r)" and "jobs_forward r (act now a r)"
proof -
  have "runner_ok (act now a r) \<and> jobs_forward r (act now a r)"
  proof (cases a)
    case ARestart
    have "db_sound (jobs_tables r)" using runner_ok_parts(1)[OF assms(1)] tables_ok_db_sound by simp
    from start_runner_ok[OF this] ARestart show ?thesis
      by (auto simp: jobs_forward_def) (metis (full_types))
  qed (use assms create_run_ok create_queued_ok cancel_run_ok take_microtask_ok task_log_ok
      task_progress_ok task_settled_ok in auto)
  then show "runner_ok (act now a r)" "jobs_forward r (act now a r)" by simp_all
qed

end
