(* ===== verification/Jobs_Properties.thy ===== *)
theory Jobs_Properties
  imports Jobs_Invariant
begin

text \<open>
  What the invariant gives for every run of the job runner: the properties of the component, with
  the life cycle of a job as an interpretation of \<open>lifecycle_store\<close>.
\<close>

section \<open>What holds of every run\<close>

lemma empty_db_sound: "db_sound \<lparr>jobs = [], job_events = [], last_sequence = 0\<rparr>"
  by (simp add: db_sound_def tables_ok_def new_runner_def jobs_db_ok_def keys_distinct_def
      seqs_ok_def get_job_def table_simps)

lemma reachable_ok: "reachable r \<Longrightarrow> runner_ok r"
  by (induction rule: reachable.induct) (simp_all add: start_runner_ok(1) empty_db_sound act_keeps(1))

definition reachable_step :: "runner \<Rightarrow> runner \<Rightarrow> bool" where
  "reachable_step r r' \<longleftrightarrow> reachable r \<and> runner_step r r'"

lemma reachable_step_forward: "reachable_step r r' \<Longrightarrow> jobs_forward r r'"
  by (auto simp: reachable_step_def elim!: runner_stepE dest: reachable_ok intro: act_keeps(2))

lemma reachable_steps: "runner_step\<^sup>*\<^sup>* r r' \<Longrightarrow> reachable r \<Longrightarrow> reachable_step\<^sup>*\<^sup>* r r' \<and> reachable r'"
proof (induction rule: rtranclp_induct)
  case base
  then show ?case by simp
next
  case (step r1 r2)
  then have 1: "reachable_step\<^sup>*\<^sup>* r r1" "reachable r1" by auto
  with step.hyps(2) have "reachable r2" by (auto elim!: runner_stepE intro: reachable.run)
  moreover have "reachable_step r1 r2" using step.hyps(2) 1(2) by (simp add: reachable_step_def)
  ultimately show ?case using 1(1) by (meson rtranclp.rtrancl_into_rtrancl)
qed

text \<open>The rows of the jobs are rows with a life cycle.\<close>

interpretation job_rows: lifecycle_store
  "\<lambda>r jid. get_job (jobs_tables r) jid" reachable_step job_next "\<lambda>j. final_status (status j)"
proof
  show "\<exists>j'. get_job (jobs_tables r') k = Some j' \<and> (j' = j \<or> job_next j j')"
    if "reachable_step r r'" and "get_job (jobs_tables r) k = Some j" for r r' k j
    using reachable_step_forward[OF that(1)] that(2) by (simp add: jobs_forward_def)
  show "j' = j" if "final_status (status j)" and "job_next j j'" for j j'
    using that by (cases "status j") (simp_all add: final_status_def job_next_def)
qed

text \<open>A log that has come to its last event has exactly one terminal event, at its end.\<close>

definition terminal_event :: "job_event_type \<Rightarrow> bool" where
  "terminal_event t \<longleftrightarrow> t \<in> {EvCompleted, EvFailed, EvCancelled}"

fun status_event :: "job_status \<Rightarrow> job_event_type" where
  "status_event Succeeded = EvCompleted"
| "status_event Failed = EvFailed"
| "status_event Cancelled = EvCancelled"
| "status_event Running = EvStarted"
| "status_event Queued = EvQueued"

lemma started_log_no_terminal: "started_log ts \<Longrightarrow> \<not> list_ex terminal_event ts"
  by (induction ts rule: started_log.induct) (auto simp: terminal_event_def list_ex_iff)

lemma log_ok_terminal:
  assumes "log_ok st ts"
  shows "ts \<noteq> [] \<and> hd ts = EvQueued \<and> \<not> list_ex terminal_event (butlast ts) \<and>
    (if final_status st then last ts = status_event st else \<not> terminal_event (last ts))"
proof -
  have st: "hd us = EvQueued \<and> us \<noteq> []" if "started_log us" for us
    using that by (cases us rule: started_log.cases) auto
  have ends: "ts \<noteq> [] \<and> hd ts = EvQueued \<and> \<not> list_ex terminal_event (butlast ts) \<and> last ts = e"
    if "ends_in e ts" for e
    using that st[of "butlast ts"] started_log_no_terminal[of "butlast ts"]
    by (cases ts) (auto simp: ends_in_def split: if_splits)
  show ?thesis
  proof (cases st)
    case Queued
    with assms show ?thesis by (simp add: final_status_def terminal_event_def)
  next
    case Running
    with assms have r: "started_log ts" by simp
    from started_log_no_terminal[OF this] st[OF r] Running show ?thesis
      by (cases ts rule: rev_cases) (auto simp: final_status_def)
  qed (use assms ends in \<open>auto simp: final_status_def terminal_event_def\<close>)
qed

lemma act_settle_row:
  assumes "reachable r" and "slot_of r jid = Some s"
  shows "\<exists>j'. get_job (jobs_tables (act now (ASettle jid out) r)) jid = Some j' \<and>
    status j' = settle_status r jid out \<and> slot_of (act now (ASettle jid out) r) jid = None"
proof -
  obtain r' j j' ty where m:
    "task_settled now jid out r = (Inr (), wake_queue (awaited_by s) (leave_run jid r'))"
    "moved jid j' [ty] r r'" "get_job (jobs_tables r) jid = Some j" "job_next j j'"
    "log_ok (status j') (event_types (jobs_tables r) jid @ [ty])"
    "status j' = settle_status r jid out"
    by (rule task_settled_moves[OF reachable_ok[OF assms(1)] assms(2), of now out])
  then show ?thesis by (simp add: moved_control(5)[OF m(2)] slot_of_def)
qed

text \<open>Concrete runs, for the witnesses.\<close>

definition first_boot :: runner where
  "first_boot = start_runner 0 \<lparr>jobs = [], job_events = [], last_sequence = 0\<rparr>"

fun acts :: "runner_action list \<Rightarrow> runner \<Rightarrow> runner" where
  "acts [] r = r"
| "acts (a # as) r = acts as (act 0 a r)"

fun all_enabled :: "runner_action list \<Rightarrow> runner \<Rightarrow> bool" where
  "all_enabled [] r = True"
| "all_enabled (a # as) r = (enabled a r \<and> all_enabled as (act 0 a r))"

lemma reachable_acts: "reachable r \<Longrightarrow> all_enabled as r \<Longrightarrow> reachable (acts as r)"
  by (induction as arbitrary: r) (auto intro: reachable.run)

lemma reachable_first: "all_enabled as first_boot \<Longrightarrow> reachable (acts as first_boot)"
  by (simp add: reachable_acts first_boot_def reachable.boot)









text \<open>C7: at most one job of a queue runs at a time, and it is the head of the queue.\<close>

theorem queue_runs_one_at_a_time:
  assumes "reachable r" and "slot_of r a = Some s" and "awaited_by s = Some k"
    and "slot_of r b = Some t" and "awaited_by t = Some k"
  shows "a = b \<and> (\<exists>rest. queues r k = Some (a # rest))"
proof -
  note qd = control_okD(3)[OF runner_ok_parts(4)[OF reachable_ok[OF assms(1)]], of k]
  have "map_of (running r) a = Some s" "map_of (running r) b = Some t"
    using assms(2,4) by (simp_all add: slot_of_def)
  from awaited_head[OF qd this(1) assms(3)] awaited_head[OF qd this(2) assms(5)]
  show ?thesis by (auto simp: neq_Nil_conv)
qed

lemma queue_runs_one_at_a_time_witness:
  "let r = acts [ACreateQueued ''k'' ''a'' JDemoNoop JNull ''q'', ACreateQueued ''k'' ''b'' JDemoNoop JNull ''q'',
       AMicrotask (DrainStart ''k'')] first_boot
   in \<exists>rest. queues r ''k'' = Some (''a'' # rest)"
proof -
  let ?r = "acts [ACreateQueued ''k'' ''a'' JDemoNoop JNull ''q'',
    ACreateQueued ''k'' ''b'' JDemoNoop JNull ''q'', AMicrotask (DrainStart ''k'')] first_boot"
  have s: "slot_of ?r ''a'' = Some \<lparr>aborted = False, awaited_by = Some ''k''\<rparr>" by code_simp
  have "reachable ?r" by (rule reachable_first) code_simp
  from queue_runs_one_at_a_time[OF this s _ s] show ?thesis by simp
qed





text \<open>C2: a cancellation requested while the task runs wins over every later outcome: the
  context's calls throw and write nothing, and however the task's promise settles the job ends
  cancelled.\<close>

theorem cancellation_wins:
  assumes "reachable r" and "get_job (jobs_tables r) jid = Some j" and "status j = Running"
  shows "let c = act t (ACancel jid) r in
    act now (ALog jid msg) c = c \<and> act now (AProgress jid v msg) c = c \<and>
    (\<exists>j'. get_job (jobs_tables (act now (ASettle jid out) c)) jid = Some j' \<and> status j' = Cancelled)"
proof -
  define c where "c = act t (ACancel jid) r"
  have rc: "reachable c" unfolding c_def using assms(1) by (intro reachable.run) simp_all
  note ok = runner_ok_parts[OF reachable_ok[OF assms(1)]]
  note okc = runner_ok_parts[OF reachable_ok[OF rc]]
  have S: "statuses (jobs_tables r) jid = Some Running" using assms by (simp add: statuses_def)
  from placedD(2)[OF control_okD(1)[OF ok(4)] S] obtain s where s: "slot_of r jid = Some s"
    by (auto simp: slot_of_def)
  have nop: "case None :: int option of None \<Rightarrow> True | Some p \<Rightarrow> progress_ok p" by simp
  have in_c: "jid \<in> cancelled c \<and> slot_of c jid \<noteq> None"
  proof (cases "jid \<in> cancelled r")
    case True
    then have "c = r" using assms(2,3) by (simp add: c_def cancel_run_def)
    with True s show ?thesis by simp
  next
    case False
    let ?r = "abort_run jid (r\<lparr>cancelled := insert jid (cancelled r)\<rparr>)"
    have db: "jobs_db_ok (jobs_tables ?r)" "get_job (jobs_tables ?r) jid = Some j"
      using tables_okD(1)[OF ok(1)] assms(2) by simp_all
    from emit_moves[OF db nop, of t EvLog "''Cancellation requested''"] obtain r' where r':
      "emit t jid EvLog ''Cancellation requested'' None ?r = (Inr (), r')"
      "moved jid j [EvLog] ?r r'" by blast
    have "c = r'" using assms(2,3) False by (simp add: c_def cancel_run_def exec_simps r'(1))
    with moved_control[OF r'(2)] s show ?thesis by (simp add: slot_of_def)
  qed
  then obtain sc where sc: "slot_of c jid = Some sc" by blast
  from placedD(3)[OF control_okD(1)[OF okc(4)]] sc in_c have ab: "is_aborted jid c"
    by (simp add: is_aborted_def slot_of_def)
  have "act now (ALog jid msg) c = c \<and> act now (AProgress jid v msg) c = c"
    using ab by (simp add: task_log_def task_progress_def)
  moreover have "settle_status c jid out = Cancelled" using ab by (simp add: settle_status_def)
  ultimately show ?thesis
    using act_settle_row[OF rc sc, of now out] unfolding c_def[symmetric] Let_def by auto
qed

lemma cancellation_wins_witness:
  "let r = acts [ACreate ''a'' JDemoNoop JNull ''q'', AMicrotask (RunJob ''a'')] first_boot
   in \<exists>j'. get_job (jobs_tables (act 4 (ASettle ''a'' (Inr JNull)) (act 3 (ACancel ''a'') r))) ''a'' = Some j' \<and>
        status j' = Cancelled"
proof -
  let ?r = "acts [ACreate ''a'' JDemoNoop JNull ''q'', AMicrotask (RunJob ''a'')] first_boot"
  have "map_option status (get_job (jobs_tables ?r) ''a'') = Some Running" by code_simp
  then obtain j where j: "get_job (jobs_tables ?r) ''a'' = Some j" "status j = Running" by auto
  have "reachable ?r" by (rule reachable_first) code_simp
  from cancellation_wins[OF this j, where t = 3 and now = 4 and out = "Inr JNull"] show ?thesis
    by (simp add: Let_def del: acts.simps act.simps)
qed


text \<open>After a restart no job is active: the finished ones are as they were, the others have
  failed, and nothing runs or waits.\<close>

theorem restart_leaves_no_active_job:
  assumes "reachable r"
  shows "let r' = act now ARestart r in
    running r' = [] \<and> pending r' = [] \<and> list_by_statuses [Queued, Running] (jobs_tables r') = [] \<and>
    (\<forall>jid. case get_job (jobs_tables r) jid of
        None \<Rightarrow> get_job (jobs_tables r') jid = None
      | Some j \<Rightarrow> (\<exists>j'. get_job (jobs_tables r') jid = Some j' \<and>
          (if final_status (status j) then j' = j else status j' = Failed)))"
proof -
  define r' where "r' = act now ARestart r"
  have "db_sound (jobs_tables r)"
    using runner_ok_parts(1)[OF reachable_ok[OF assms(1)]] by (rule tables_ok_db_sound)
  note st = start_runner_ok[OF this, where now = now]
  have rows: "case get_job (jobs_tables r) jid of
        None \<Rightarrow> get_job (jobs_tables r') jid = None
      | Some j \<Rightarrow> (\<exists>j'. get_job (jobs_tables r') jid = Some j' \<and>
          (if final_status (status j) then j' = j else status j' = Failed))" for jid
    using st(2,3)[of jid] by (auto simp: r'_def split: option.splits if_splits)
  have inactive: "final_status (status j)" if "j \<in> set (jobs (jobs_tables r'))" for j
  proof -
    have "jobs_db_ok (jobs_tables r')"
      using tables_okD(1)[OF runner_ok_parts(1)[OF st(1)]] by (simp add: r'_def)
    from get_job_self[OF this that] rows[of "job_id j"] show ?thesis
      by (auto simp: final_status_def split: option.splits if_splits)
  qed
  have "list_by_statuses [Queued, Running] (jobs_tables r') = []"
    using inactive
    by (fastforce simp: list_by_statuses_def sql_select_def filter_empty_conv final_status_def)
  moreover have "running r' = [] \<and> pending r' = []" using st(4) by (simp add: r'_def)
  ultimately show ?thesis using rows unfolding r'_def[symmetric] Let_def by blast
qed

lemma restart_leaves_no_active_job_witness:
  "let r = acts [ACreate ''a'' JDemoNoop JNull ''q'', AMicrotask (RunJob ''a'')] first_boot
   in running (act 3 ARestart r) = []"
proof -
  let ?r = "acts [ACreate ''a'' JDemoNoop JNull ''q'', AMicrotask (RunJob ''a'')] first_boot"
  have "reachable ?r" by (rule reachable_first) code_simp
  from restart_leaves_no_active_job[OF this, of 3] show ?thesis
    by (simp add: Let_def del: acts.simps act.simps)
qed


end
