(* ===== verification/Agent_Store.thy ===== *)
theory Agent_Store
  imports Tables
begin

text \<open>
  \<^verbatim>\<open>apps/api/src/modules/servers/server-agent.store.ts\<close>: the tables \<open>server_agents\<close>,
  \<open>server_commands\<close> and \<open>server_runtime_events\<close> and the methods of \<open>ServerAgentStore\<close>. A method that
  cannot fail is a function to the new tables; the row of the binding is taken to exist, as the
  foreign keys ask. Columns that hold JSON hold the value, since \<open>JSON.parse\<close> undoes
  \<open>JSON.stringify\<close> on it.
\<close>

section \<open>Rows\<close>

datatype command_type = ServiceStart | ServiceStop | ServiceRestart | ConsoleExecute

datatype command_status = CQueued | CDelivered | CRunning | CSucceeded | CFailed

record command =
  cmd_id :: string
  cmd_binding :: string
  cmd_type :: command_type
  cmd_payload :: json
  cmd_status :: command_status
  cmd_output :: "string option"
  cmd_error :: "string option"
  cmd_created :: instant
  cmd_delivered :: "instant option"
  cmd_started :: "instant option"
  cmd_finished :: "instant option"

record service_runtime =
  unit_state :: string
  unit_sub_state :: string
  main_pid :: int
  updated_at :: string

record agent_row =
  ag_binding :: string
  ag_version :: string
  ag_hostname :: string
  ag_capabilities :: "string list"
  ag_runtime :: "service_runtime option"
  ag_connected :: instant
  ag_last_seen :: instant

record runtime_state =
  rs_binding :: string
  rs_connected :: bool
  rs_version :: "string option"
  rs_hostname :: "string option"
  rs_capabilities :: "string list"
  rs_last_seen :: "instant option"
  rs_runtime :: "service_runtime option"

text \<open>The time of an event is the server's clock, or the text the agent sent.\<close>

datatype stamp = ServerTime instant | AgentTime string

record runtime_event =
  rt_sequence :: nat
  rt_binding :: string
  rt_command :: "string option"
  rt_type :: string
  rt_message :: string
  rt_cursor :: "string option"
  rt_at :: stamp

record agent_db =
  agents :: "agent_row list"
  commands :: "command list"
  runtime_events :: "runtime_event list"
  runtime_sequence :: nat

section \<open>Agents\<close>

definition parse_array :: "json \<Rightarrow> string list" where
  "parse_array j = (case j of JArr xs \<Rightarrow> json_strings xs | _ \<Rightarrow> [])"

definition save_agent ::
  "instant \<Rightarrow> string \<Rightarrow> string \<Rightarrow> string \<Rightarrow> string list \<Rightarrow> agent_db \<Rightarrow> agent_db" where
  "save_agent now b version host caps db =
     (if b \<in> ag_binding ` set (agents db)
      then db\<lparr>agents := sql_update (\<lambda>a. ag_binding a = b)
             (\<lambda>a. a\<lparr>ag_version := version, ag_hostname := host, ag_capabilities := caps,
                    ag_connected := now, ag_last_seen := now\<rparr>) (agents db)\<rparr>
      else db\<lparr>agents := agents db @ [\<lparr>ag_binding = b, ag_version = version, ag_hostname = host,
             ag_capabilities = caps, ag_runtime = None, ag_connected = now, ag_last_seen = now\<rparr>]\<rparr>)"

definition touch :: "instant \<Rightarrow> string \<Rightarrow> agent_db \<Rightarrow> agent_db" where
  "touch now b db = db\<lparr>agents := sql_update (\<lambda>a. ag_binding a = b)
     (\<lambda>a. a\<lparr>ag_last_seen := now\<rparr>) (agents db)\<rparr>"

definition save_runtime :: "instant \<Rightarrow> string \<Rightarrow> service_runtime \<Rightarrow> agent_db \<Rightarrow> agent_db" where
  "save_runtime now b rt db = db\<lparr>agents := sql_update (\<lambda>a. ag_binding a = b)
     (\<lambda>a. a\<lparr>ag_runtime := Some rt, ag_last_seen := now\<rparr>) (agents db)\<rparr>"

definition agent_runtime :: "string \<Rightarrow> bool \<Rightarrow> agent_db \<Rightarrow> runtime_state" where
  "agent_runtime b conn db =
     (let row = get_by ag_binding b (agents db) in
      \<lparr>rs_binding = b, rs_connected = conn,
       rs_version = map_option ag_version row,
       rs_hostname = map_option ag_hostname row,
       rs_capabilities = (case row of None \<Rightarrow> [] | Some a \<Rightarrow> ag_capabilities a),
       rs_last_seen = map_option ag_last_seen row,
       rs_runtime = Option.bind row ag_runtime\<rparr>)"

section \<open>Commands\<close>

definition new_command :: "string \<Rightarrow> instant \<Rightarrow> string \<Rightarrow> command_type \<Rightarrow> json \<Rightarrow> command" where
  "new_command cid now b ty payload =
     \<lparr>cmd_id = cid, cmd_binding = b, cmd_type = ty, cmd_payload = payload, cmd_status = CQueued,
      cmd_output = None, cmd_error = None, cmd_created = now, cmd_delivered = None,
      cmd_started = None, cmd_finished = None\<rparr>"

definition insert_command ::
  "string \<Rightarrow> instant \<Rightarrow> string \<Rightarrow> command_type \<Rightarrow> json \<Rightarrow> (agent_db, db_error, command) exec" where
  "insert_command cid now b ty payload = (\<lambda>db.
     case sql_insert cmd_id (new_command cid now b ty payload) (commands db) of
       Inl e \<Rightarrow> (Inl e, db)
     | Inr t \<Rightarrow> (Inr (new_command cid now b ty payload), db\<lparr>commands := t\<rparr>))"

definition get_command :: "string \<Rightarrow> agent_db \<Rightarrow> command option" where
  "get_command cid db = get_by cmd_id cid (commands db)"

definition in_flight :: "command_status \<Rightarrow> bool" where
  "in_flight st \<longleftrightarrow> st = CDelivered \<or> st = CRunning"

definition finished :: "command_status \<Rightarrow> bool" where
  "finished st \<longleftrightarrow> st = CSucceeded \<or> st = CFailed"

definition pending_commands :: "string \<Rightarrow> agent_db \<Rightarrow> command list" where
  "pending_commands b db = order_asc (\<lambda>c. iso_rank (cmd_created c))
     (sql_select (\<lambda>c. cmd_binding c = b \<and> cmd_status c = CQueued) (commands db))"

definition active_command :: "string \<Rightarrow> agent_db \<Rightarrow> command option" where
  "active_command b db =
     (case order_asc (\<lambda>c. iso_rank (cmd_created c))
         (sql_select (\<lambda>c. cmd_binding c = b \<and> in_flight (cmd_status c)) (commands db)) of
        [] \<Rightarrow> None | c # _ \<Rightarrow> Some c)"

definition update_commands :: "(command \<Rightarrow> bool) \<Rightarrow> (command \<Rightarrow> command) \<Rightarrow> agent_db \<Rightarrow> agent_db" where
  "update_commands P f db = db\<lparr>commands := sql_update P f (commands db)\<rparr>"

definition requeue_active :: "string option \<Rightarrow> agent_db \<Rightarrow> agent_db" where
  "requeue_active b =
     update_commands (\<lambda>c. in_flight (cmd_status c) \<and> (case b of None \<Rightarrow> True | Some x \<Rightarrow> cmd_binding c = x))
       (\<lambda>c. c\<lparr>cmd_status := CQueued, cmd_delivered := None\<rparr>)"

definition mark_delivered :: "instant \<Rightarrow> string \<Rightarrow> agent_db \<Rightarrow> agent_db" where
  "mark_delivered now cid =
     update_commands (\<lambda>c. cmd_id c = cid \<and> cmd_status c = CQueued)
       (\<lambda>c. c\<lparr>cmd_status := CDelivered, cmd_delivered := Some now\<rparr>)"

definition coalesce :: "'a option \<Rightarrow> 'a \<Rightarrow> 'a option" where
  "coalesce x d = (case x of None \<Rightarrow> Some d | Some v \<Rightarrow> Some v)"

definition mark_running :: "instant \<Rightarrow> string \<Rightarrow> agent_db \<Rightarrow> agent_db" where
  "mark_running now cid =
     update_commands (\<lambda>c. cmd_id c = cid \<and> cmd_status c \<in> {CQueued, CDelivered})
       (\<lambda>c. c\<lparr>cmd_status := CRunning, cmd_started := coalesce (cmd_started c) now\<rparr>)"

text \<open>An empty error text is falsy: the command then counts as succeeded.\<close>

definition finish_command ::
  "instant \<Rightarrow> string \<Rightarrow> string option \<Rightarrow> string option \<Rightarrow> agent_db \<Rightarrow> agent_db" where
  "finish_command now cid out err =
     update_commands (\<lambda>c. cmd_id c = cid \<and> cmd_status c \<notin> {CSucceeded, CFailed})
       (\<lambda>c. c\<lparr>cmd_status := (case err of Some (_ # _) \<Rightarrow> CFailed | _ \<Rightarrow> CSucceeded),
              cmd_output := map_option (js_slice 65536) out,
              cmd_error := map_option (js_slice 4000) err,
              cmd_started := coalesce (cmd_started c) now,
              cmd_finished := Some now\<rparr>)"

section \<open>Events\<close>

definition trim_runtime_events :: "string \<Rightarrow> runtime_event list \<Rightarrow> runtime_event list" where
  "trim_runtime_events b t =
     (let kept = map rt_sequence (js_slice 2000 (order_desc (\<lambda>e. int (rt_sequence e))
                   (sql_select (\<lambda>e. rt_binding e = b) t)))
      in sql_delete (\<lambda>e. rt_binding e = b \<and> rt_sequence e \<notin> set kept) t)"

text \<open>
  \<open>INSERT OR IGNORE\<close>: a row whose binding and cursor are taken is dropped. The number SQLite
  drew for it is not used again.
\<close>

definition append_runtime_event ::
  "string \<Rightarrow> string \<Rightarrow> string \<Rightarrow> string option \<Rightarrow> string option \<Rightarrow> stamp \<Rightarrow> agent_db \<Rightarrow>
     runtime_event option \<times> agent_db" where
  "append_runtime_event b ty msg cid cursor stamp db =
     (let cur = (case map_option (js_slice 2000) cursor of Some (x # xs) \<Rightarrow> Some (x # xs) | _ \<Rightarrow> None);
          n = Suc (runtime_sequence db);
          e = \<lparr>rt_sequence = n, rt_binding = b, rt_command = cid, rt_type = js_slice 64 ty,
               rt_message = js_slice 16384 msg, rt_cursor = cur, rt_at = stamp\<rparr>;
          db' = db\<lparr>runtime_sequence := n\<rparr>
      in if cur \<noteq> None \<and> list_ex (\<lambda>r. rt_binding r = b \<and> rt_cursor r = cur) (runtime_events db)
         then (None, db')
         else (Some e, db'\<lparr>runtime_events := trim_runtime_events b (runtime_events db @ [e])\<rparr>))"

definition list_runtime_events :: "string \<Rightarrow> nat \<Rightarrow> agent_db \<Rightarrow> runtime_event list" where
  "list_runtime_events b limit db =
     newest rt_sequence limit (sql_select (\<lambda>e. rt_binding e = b) (runtime_events db))"

section \<open>What the methods keep\<close>

definition binding_events :: "agent_db \<Rightarrow> string \<Rightarrow> runtime_event list" where
  "binding_events db b = filter (\<lambda>e. rt_binding e = b) (runtime_events db)"

definition cursors_unique :: "runtime_event list \<Rightarrow> bool" where
  "cursors_unique t \<longleftrightarrow> (\<forall>e\<in>set t. \<forall>f\<in>set t. rt_cursor e \<noteq> None \<longrightarrow>
     rt_binding f = rt_binding e \<longrightarrow> rt_cursor f = rt_cursor e \<longrightarrow> rt_sequence f = rt_sequence e)"

definition agent_db_ok :: "agent_db \<Rightarrow> bool" where
  "agent_db_ok db \<longleftrightarrow> keys_distinct cmd_id (commands db) \<and>
     seqs_ok rt_sequence (runtime_sequence db) (runtime_events db) \<and>
     (\<forall>b. length (binding_events db b) \<le> 2000) \<and>
     cursors_unique (runtime_events db)"

text \<open>Trimming keeps exactly the newest 2000 events of the binding, and all of the others.\<close>

lemma trim_keeps:
  assumes "seqs_ok rt_sequence hi t"
  shows "filter (\<lambda>e. rt_binding e = b) (trim_runtime_events b t) =
      drop (length (filter (\<lambda>e. rt_binding e = b) t) - 2000) (filter (\<lambda>e. rt_binding e = b) t)"
    and "c \<noteq> b \<Longrightarrow> filter (\<lambda>e. rt_binding e = c) (trim_runtime_events b t) =
      filter (\<lambda>e. rt_binding e = c) t"
    and "set (trim_runtime_events b t) \<subseteq> set t"
    and "seqs_ok rt_sequence hi (trim_runtime_events b t)"
proof -
  let ?f = "filter (\<lambda>e. rt_binding e = b) t"
  have ok: "seqs_ok rt_sequence hi ?f" using assms by (rule seqs_ok_filter)
  let ?new = "take 2000 (order_desc (\<lambda>e. int (rt_sequence e)) ?f)"
  have new: "js_slice 2000 (order_desc (\<lambda>e. int (rt_sequence e)) ?f) = rev (drop (length ?f - 2000) ?f)"
    using ok sorted_desc_by_seq[of rt_sequence ?f] by (simp add: seqs_ok_def take_rev)
  have dist: "distinct (map rt_sequence ?f)" using ok by (rule seqs_ok_distinct)
  let ?d = "drop (length ?f - 2000) ?f" and ?p = "take (length ?f - 2000) ?f"
  have trim: "trim_runtime_events b t =
      filter (\<lambda>e. \<not> (rt_binding e = b \<and> rt_sequence e \<notin> rt_sequence ` set ?d)) t"
    unfolding trim_runtime_events_def sql_select_def Let_def new by (simp add: sql_delete_def)
  have split: "?p @ ?d = ?f" by (rule append_take_drop_id)
  have out: "rt_sequence e \<notin> rt_sequence ` set ?d" if "e \<in> set ?p" for e
  proof -
    have "distinct (map rt_sequence ?p @ map rt_sequence ?d)"
      using dist split by (metis map_append)
    then have "rt_sequence ` set ?p \<inter> rt_sequence ` set ?d = {}"
      unfolding distinct_append by simp
    with that show ?thesis by blast
  qed
  have "filter (\<lambda>e. rt_binding e = b) (trim_runtime_events b t) =
      filter (\<lambda>e. rt_sequence e \<in> rt_sequence ` set ?d) ?f"
    by (simp add: trim conj_commute) (rule filter_cong, auto)
  also have "\<dots> = filter (\<lambda>e. rt_sequence e \<in> rt_sequence ` set ?d) (?p @ ?d)"
    by (simp only: split)
  also have "\<dots> = ?d"
    using out by (simp add: filter_empty_conv filter_id_conv del: append_take_drop_id)
  finally show "filter (\<lambda>e. rt_binding e = b) (trim_runtime_events b t) = ?d" .
  show "filter (\<lambda>e. rt_binding e = c) (trim_runtime_events b t) = filter (\<lambda>e. rt_binding e = c) t"
    if "c \<noteq> b" using that by (auto simp: trim intro!: filter_cong)
  show "set (trim_runtime_events b t) \<subseteq> set t" by (auto simp: trim)
  show "seqs_ok rt_sequence hi (trim_runtime_events b t)"
    unfolding trim by (rule seqs_ok_filter[OF assms])
qed

lemma binding_events_trim:
  assumes "seqs_ok rt_sequence hi t"
  shows "length (filter (\<lambda>e. rt_binding e = b) (trim_runtime_events b t)) \<le> 2000"
  using trim_keeps(1)[OF assms] by simp

lemma append_runtime_event_cases:
  fixes db
  assumes "append_runtime_event b ty msg cid cursor stamp db = (r, db')"
  obtains (ignored) "r = None" "db' = db\<lparr>runtime_sequence := Suc (runtime_sequence db)\<rparr>"
  | (stored) e where "r = Some e" "rt_sequence e = Suc (runtime_sequence db)" "rt_binding e = b"
      "rt_command e = cid" "rt_type e = take 64 ty" "rt_message e = take 16384 msg"
      "\<And>f. f \<in> set (runtime_events db) \<Longrightarrow> rt_binding f = b \<Longrightarrow> rt_cursor e \<noteq> None \<Longrightarrow>
        rt_cursor f \<noteq> rt_cursor e"
      "db' = db\<lparr>runtime_sequence := Suc (runtime_sequence db),
                runtime_events := trim_runtime_events b (runtime_events db @ [e])\<rparr>"
  using assms unfolding append_runtime_event_def Let_def
  by (auto split: if_splits option.splits list.splits simp: list_ex_iff)

lemma append_runtime_event_ok:
  assumes ok: "agent_db_ok db"
  shows "agent_db_ok (snd (append_runtime_event b ty msg cid cursor stamp db))"
proof -
  obtain r db' where a: "append_runtime_event b ty msg cid cursor stamp db = (r, db')" by fastforce
  have s: "seqs_ok rt_sequence (runtime_sequence db) (runtime_events db)"
    using ok by (simp add: agent_db_ok_def)
  from a show ?thesis
  proof (cases rule: append_runtime_event_cases)
    case ignored
    have "seqs_ok rt_sequence (Suc (runtime_sequence db)) (runtime_events db)"
      using s by (auto simp: seqs_ok_def)
    with ok show ?thesis unfolding a ignored agent_db_ok_def binding_events_def by simp
  next
    case (stored e)
    let ?t = "runtime_events db @ [e]"
    have s': "seqs_ok rt_sequence (Suc (runtime_sequence db)) ?t"
      using s stored(2) by (rule seqs_ok_snoc)
    note tk = trim_keeps[OF s', where b = b]
    have "length (filter (\<lambda>e. rt_binding e = c) (trim_runtime_events b ?t)) \<le> 2000" for c
      using tk(1) tk(2)[where c = c] ok stored(3)
      by (cases "c = b") (auto simp: agent_db_ok_def binding_events_def)
      moreover have "cursors_unique (trim_runtime_events b ?t)"
      unfolding cursors_unique_def
    proof (intro ballI impI)
      fix f g
      assume "f \<in> set (trim_runtime_events b ?t)" "g \<in> set (trim_runtime_events b ?t)"
      then have t: "f \<in> set ?t" "g \<in> set ?t" using tk(3) by auto
      assume fg: "rt_cursor f \<noteq> None" "rt_binding g = rt_binding f" "rt_cursor g = rt_cursor f"
      show "rt_sequence g = rt_sequence f"
      proof (cases "f = e \<or> g = e")
        case True
        with t fg stored(3) stored(7)[of f] stored(7)[of g] show ?thesis by auto
      next
        case False
        with t have "f \<in> set (runtime_events db)" "g \<in> set (runtime_events db)" by auto
        with ok fg show ?thesis unfolding agent_db_ok_def cursors_unique_def by blast
      qed
    qed
    ultimately show ?thesis
      using ok tk(4) by (simp add: a stored(8) agent_db_ok_def binding_events_def)
  qed
qed

lemma update_commands_ok:
  "(\<And>c. cmd_id (f c) = cmd_id c) \<Longrightarrow> agent_db_ok (update_commands P f db) = agent_db_ok db"
  by (simp add: update_commands_def agent_db_ok_def binding_events_def keys_distinct_update)

text \<open>What each guarded update does to the command \<open>cid\<close>.\<close>

lemma get_update_commands:
  assumes "\<And>c. cmd_id (f c) = cmd_id c"
  shows "get_command k (update_commands P f db) =
    map_option (\<lambda>c. if P c then f c else c) (get_command k db)"
  by (simp add: get_command_def update_commands_def get_by_update assms)

lemmas command_updates = requeue_active_def mark_delivered_def mark_running_def finish_command_def

lemma command_updates_keep:
  "agents (requeue_active bo db) = agents db" "agents (mark_delivered now k db) = agents db"
  "agents (mark_running now k db) = agents db" "agents (finish_command now k out err db) = agents db"
  "runtime_events (requeue_active bo db) = runtime_events db"
  "runtime_events (mark_delivered now k db) = runtime_events db"
  "runtime_events (mark_running now k db) = runtime_events db"
  "runtime_events (finish_command now k out err db) = runtime_events db"
  by (simp_all add: command_updates update_commands_def)

lemma command_updates_ok [simp]:
  "agent_db_ok (requeue_active bo db) = agent_db_ok db"
  "agent_db_ok (mark_delivered now k db) = agent_db_ok db"
  "agent_db_ok (mark_running now k db) = agent_db_ok db"
  "agent_db_ok (finish_command now k out err db) = agent_db_ok db"
  by (simp_all add: command_updates update_commands_ok)

section \<open>The log of a binding\<close>

definition appends_runtime_event :: "agent_db \<Rightarrow> string \<Rightarrow> runtime_event \<Rightarrow> agent_db \<Rightarrow> bool" where
  "appends_runtime_event db b e db' \<longleftrightarrow>
     (\<exists>ty msg cid cursor stamp. append_runtime_event b ty msg cid cursor stamp db = (Some e, db'))"

interpretation runtime_log: event_log binding_events rt_sequence agent_db_ok appends_runtime_event
proof
  show "sorted_wrt (\<lambda>a b. rt_sequence a < rt_sequence b) (binding_events s k)" if "agent_db_ok s" for s k
    using that by (auto simp: binding_events_def agent_db_ok_def seqs_ok_def sorted_wrt_filter)
  show "agent_db_ok t \<and> (\<exists>n. binding_events t k = drop n (binding_events s k) @ [e])"
    if s: "agent_db_ok s" and a: "appends_runtime_event s k e t" for s k e t
  proof -
    from a obtain ty msg cid cursor stamp where
      ap: "append_runtime_event k ty msg cid cursor stamp s = (Some e, t)"
      by (auto simp: appends_runtime_event_def)
    have sq: "seqs_ok rt_sequence (runtime_sequence s) (runtime_events s)"
      using s by (simp add: agent_db_ok_def)
    from ap show ?thesis
    proof (cases rule: append_runtime_event_cases)
      case (stored e')
      then have e: "e' = e" by simp
      have "seqs_ok rt_sequence (Suc (runtime_sequence s)) (runtime_events s @ [e])"
        using sq stored(2) e by (auto intro: seqs_ok_snoc)
      from trim_keeps(1)[OF this, where b = k] have "binding_events t k =
          drop (length (binding_events s k) + 1 - 2000) (binding_events s k @ [e])"
        using stored(3,8) e by (simp add: binding_events_def)
      moreover have "length (binding_events s k) + 1 - 2000 \<le> length (binding_events s k)"
        using s by (auto simp: agent_db_ok_def)
      ultimately have "binding_events t k =
          drop (length (binding_events s k) + 1 - 2000) (binding_events s k) @ [e]"
        by simp
      with append_runtime_event_ok[OF s, of k ty msg cid cursor stamp] ap show ?thesis by auto
    qed simp
  qed
qed

lemma list_runtime_events_eq:
  assumes "agent_db_ok db"
  shows "list_runtime_events b n db = drop (length (binding_events db b) - n) (binding_events db b)"
proof -
  have "seqs_ok rt_sequence (runtime_sequence db) (binding_events db b)"
    using assms by (simp add: agent_db_ok_def binding_events_def seqs_ok_filter)
  from newest_suffix[OF this] show ?thesis
    by (simp add: list_runtime_events_def sql_select_def binding_events_def)
qed

end
