(* ===== verification/Agent_Service.thy ===== *)
theory Agent_Service
  imports Agent_Store
begin

text \<open>
  \<^verbatim>\<open>apps/api/src/modules/servers/server-agent.service.ts\<close>: the class \<open>ServerAgentService\<close>, that talks
  to the host agents over WebSockets. A socket is the number of its connection (its key); what
  the class does to the outside is recorded: frames sent, sockets it asked to close, file system
  requests it settled, events it published. \<open>jp\<close> is \<open>JSON.parse\<close>, \<open>auth\<close> the function that finds
  the binding of a token, and \<open>ok sk\<close> says whether \<open>send\<close> on the socket succeeds (it throws
  otherwise). A handler runs at one instant \<open>now\<close>.
\<close>

section \<open>State\<close>

datatype frame =
    HelloAccepted string
  | LogAck string
  | CommandFrame string string command_type json instant
  | FsRequestFrame string string string json

record fs_request =
  fs_binding :: string
  fs_socket :: nat

datatype fs_outcome = FsResolved "json option" | FsRejected string

record agent_service =
  adb :: agent_db
  sockets :: "string \<Rightarrow> nat option"
  bound :: "nat \<Rightarrow> string option"
  hello_timers :: "nat set"
  pending_sockets :: "nat set"
  pending_fs :: "(string \<times> fs_request) list"
  outbox :: "(nat \<times> frame) list"
  close_requests :: "nat list"
  fs_settled :: "(string \<times> fs_outcome) list"
  heard :: "runtime_event list"

datatype agent_error =
    UnsupportedCommandType
  | ConsoleCommandLength
  | ConsoleCommandCharacters
  | AgentOffline
  | NoLiveFiles
  | SendThrew
  | AgentDbError db_error

type_synonym 'a agent = "(agent_service, agent_error, 'a) exec"

definition new_agent_service :: "agent_db \<Rightarrow> agent_service" where
  "new_agent_service db = \<lparr>adb = requeue_active None db, sockets = (\<lambda>_. None), bound = (\<lambda>_. None),
     hello_timers = {}, pending_sockets = {}, pending_fs = [], outbox = [], close_requests = [],
     fs_settled = [], heard = []\<rparr>"

section \<open>Sending and publishing\<close>

definition close_socket :: "nat \<Rightarrow> agent_service \<Rightarrow> agent_service" where
  "close_socket sk s = s\<lparr>close_requests := close_requests s @ [sk]\<rparr>"

definition send :: "(nat \<Rightarrow> bool) \<Rightarrow> nat \<Rightarrow> frame \<Rightarrow> unit agent" where
  "send ok sk f = (\<lambda>s. if ok sk then (Inr (), s\<lparr>outbox := outbox s @ [(sk, f)]\<rparr>) else (Inl SendThrew, s))"

definition on_adb :: "(agent_db \<Rightarrow> agent_db) \<Rightarrow> agent_service \<Rightarrow> agent_service" where
  "on_adb f s = s\<lparr>adb := f (adb s)\<rparr>"

definition publish ::
  "string \<Rightarrow> string \<Rightarrow> string \<Rightarrow> string option \<Rightarrow> string option \<Rightarrow> stamp \<Rightarrow> agent_service \<Rightarrow> agent_service" where
  "publish b ty msg cid cursor stamp s =
     (case append_runtime_event b ty msg cid cursor stamp (adb s) of
        (None, d) \<Rightarrow> s\<lparr>adb := d\<rparr>
      | (Some e, d) \<Rightarrow> s\<lparr>adb := d, heard := heard s @ [e]\<rparr>)"

fun type_name :: "command_type \<Rightarrow> string" where
  "type_name ServiceStart = ''service.start''"
| "type_name ServiceStop = ''service.stop''"
| "type_name ServiceRestart = ''service.restart''"
| "type_name ConsoleExecute = ''console.execute''"

definition command_type_of :: "string \<Rightarrow> command_type option" where
  "command_type_of t = List.find (\<lambda>c. type_name c = t)
     [ServiceStart, ServiceStop, ServiceRestart, ConsoleExecute]"

section \<open>Connections\<close>

definition open_socket :: "nat \<Rightarrow> agent_service \<Rightarrow> agent_service" where
  "open_socket sk s =
     (if 100 \<le> card (pending_sockets s) then close_socket sk s
      else s\<lparr>pending_sockets := insert sk (pending_sockets s), hello_timers := insert sk (hello_timers s)\<rparr>)"

definition hello_timeout :: "nat \<Rightarrow> agent_service \<Rightarrow> agent_service" where
  "hello_timeout sk s =
     (let s = s\<lparr>pending_sockets := pending_sockets s - {sk}, hello_timers := hello_timers s - {sk}\<rparr>
      in if bound s sk = None then close_socket sk s else s)"

definition forget_timer :: "nat \<Rightarrow> agent_service \<Rightarrow> agent_service" where
  "forget_timer sk s =
     s\<lparr>hello_timers := hello_timers s - {sk}, pending_sockets := pending_sockets s - {sk}\<rparr>"

definition is_connected :: "string \<Rightarrow> agent_service \<Rightarrow> bool" where
  "is_connected b s \<longleftrightarrow> sockets s b \<noteq> None"

definition service_runtime_of :: "string \<Rightarrow> agent_service \<Rightarrow> runtime_state" where
  "service_runtime_of b s = agent_runtime b (is_connected b s) (adb s)"

definition reject_fs :: "nat \<Rightarrow> agent_service \<Rightarrow> agent_service" where
  "reject_fs sk s =
     s\<lparr>pending_fs := filter (\<lambda>x. fs_socket (snd x) \<noteq> sk) (pending_fs s),
       fs_settled := fs_settled s @
         map (\<lambda>x. (fst x, FsRejected ''Host agent disconnected during filesystem request''))
           (filter (\<lambda>x. fs_socket (snd x) = sk) (pending_fs s))\<rparr>"

definition socket_closed :: "instant \<Rightarrow> nat \<Rightarrow> agent_service \<Rightarrow> agent_service" where
  "socket_closed now sk s =
     (let s = forget_timer sk s in
      case bound s sk of
        None \<Rightarrow> s
      | Some b \<Rightarrow>
          let s = s\<lparr>bound := (bound s)(sk := None)\<rparr> in
          if sockets s b \<noteq> Some sk then s
          else
            let s = reject_fs sk (s\<lparr>sockets := (sockets s)(b := None)\<rparr>);
                s = on_adb (requeue_active (Some b)) s
            in publish b ''agent.disconnected'' ''Host agent disconnected'' None None (ServerTime now) s)"

section \<open>Dispatch\<close>

definition expired :: "instant \<Rightarrow> command \<Rightarrow> bool" where
  "expired now c \<longleftrightarrow> now - cmd_created c > 300000"

definition expire_command :: "instant \<Rightarrow> string \<Rightarrow> command \<Rightarrow> agent_service \<Rightarrow> agent_service" where
  "expire_command now b c s =
     publish b ''command.failed'' ''Command expired before delivery'' (Some (cmd_id c)) None (ServerTime now)
       (on_adb (finish_command now (cmd_id c) None (Some ''Command expired before delivery'')) s)"

definition deliver_command :: "instant \<Rightarrow> string \<Rightarrow> nat \<Rightarrow> command \<Rightarrow> agent_service \<Rightarrow> agent_service" where
  "deliver_command now b sk c s =
     publish b ''command.delivered'' (type_name (cmd_type c)) (Some (cmd_id c)) None (ServerTime now)
       (on_adb (mark_delivered now (cmd_id c))
         (s\<lparr>outbox := outbox s @ [(sk, CommandFrame (cmd_id c) (cmd_binding c) (cmd_type c)
              (cmd_payload c) (cmd_created c))]\<rparr>))"

text \<open>\<open>queued_count\<close> is the measure of the recursion over expired commands.\<close>

definition queued_count :: "string \<Rightarrow> agent_db \<Rightarrow> nat" where
  "queued_count b db = length (filter (\<lambda>c. cmd_binding c = b \<and> cmd_status c = CQueued) (commands db))"

lemma publish_adb:
  "\<exists>es n. adb (publish b ty msg cid cursor stamp s) =
     (adb s)\<lparr>runtime_sequence := n, runtime_events := es\<rparr>"
proof (cases "append_runtime_event b ty msg cid cursor stamp (adb s)")
  case (Pair r d)
  then show ?thesis
  proof (cases rule: append_runtime_event_cases)
    case ignored
    then show ?thesis
      by (auto simp: publish_def Pair intro!: exI[of _ "Suc (runtime_sequence (adb s))"]
          exI[of _ "runtime_events (adb s)"])
  next
    case (stored e)
    then show ?thesis
      by (auto simp: publish_def Pair)
  qed
qed

lemma publish_fields [simp]:
  "commands (adb (publish b ty msg cid cursor stamp s)) = commands (adb s)"
  "agents (adb (publish b ty msg cid cursor stamp s)) = agents (adb s)"
  "sockets (publish b ty msg cid cursor stamp s) = sockets s"
  "bound (publish b ty msg cid cursor stamp s) = bound s"
  "hello_timers (publish b ty msg cid cursor stamp s) = hello_timers s"
  "pending_sockets (publish b ty msg cid cursor stamp s) = pending_sockets s"
  "pending_fs (publish b ty msg cid cursor stamp s) = pending_fs s"
  "outbox (publish b ty msg cid cursor stamp s) = outbox s"
  "close_requests (publish b ty msg cid cursor stamp s) = close_requests s"
  "fs_settled (publish b ty msg cid cursor stamp s) = fs_settled s"
proof -
  show "commands (adb (publish b ty msg cid cursor stamp s)) = commands (adb s)"
    "agents (adb (publish b ty msg cid cursor stamp s)) = agents (adb s)"
    using publish_adb[of b ty msg cid cursor stamp s] by auto
qed (auto simp: publish_def split: prod.splits option.splits)

lemma filter_length_update_less:
  assumes "c \<in> set t" and "P c" and "Q c" and "\<And>r. \<not> P (f r)"
  shows "length (filter P (sql_update Q f t)) < length (filter P t)"
proof -
  have le: "length (filter P (sql_update Q f u)) \<le> length (filter P u)" for u
    by (induction u) (auto simp: sql_update_def assms(4))
  from assms(1) show ?thesis
  proof (induction t)
    case (Cons r t)
    show ?case
    proof (cases "r = c")
      case True
      with le[of t] assms(2-4) show ?thesis by (simp add: sql_update_def)
    next
      case False
      with Cons have "length (filter P (sql_update Q f t)) < length (filter P t)" by simp
      then show ?thesis by (auto simp: sql_update_def assms(4))
    qed
  qed simp
qed

lemma expire_decreases:
  assumes "pending_commands b (adb s) = c # cs"
  shows "queued_count b (adb (expire_command now b c s)) < queued_count b (adb s)"
proof -
  have "c \<in> set (pending_commands b (adb s))" using assms by simp
  then have c: "c \<in> set (commands (adb s))" "cmd_binding c = b" "cmd_status c = CQueued"
    by (simp_all add: pending_commands_def table_simps)
  then show ?thesis
    unfolding queued_count_def expire_command_def publish_fields on_adb_def finish_command_def
      update_commands_def
    by (simp add: filter_length_update_less[of c])
qed

function dispatch_next :: "(nat \<Rightarrow> bool) \<Rightarrow> instant \<Rightarrow> string \<Rightarrow> agent_service \<Rightarrow> agent_service" where
  "dispatch_next ok now b s =
     (case sockets s b of
        None \<Rightarrow> s
      | Some sk \<Rightarrow>
          if active_command b (adb s) \<noteq> None then s
          else case pending_commands b (adb s) of
            [] \<Rightarrow> s
          | c # _ \<Rightarrow>
              if expired now c then dispatch_next ok now b (expire_command now b c s)
              else if ok sk then deliver_command now b sk c s
              else socket_closed now sk s)"
  by auto
termination
  by (relation "measure (\<lambda>(ok, now, b, s). queued_count b (adb s))") (auto intro: expire_decreases)

declare dispatch_next.simps [simp del]

section \<open>Messages of an agent\<close>

definition register_agent ::
  "(nat \<Rightarrow> bool) \<Rightarrow> instant \<Rightarrow> nat \<Rightarrow> string \<Rightarrow> string \<Rightarrow> string \<Rightarrow> json list \<Rightarrow> unit agent" where
  "register_agent ok now sk b version host caps = (\<lambda>s.
     let s = (case sockets s b of
                Some old \<Rightarrow> if old \<noteq> sk then close_socket old s else s
              | None \<Rightarrow> s);
         s = forget_timer sk (s\<lparr>sockets := (sockets s)(b \<mapsto> sk), bound := (bound s)(sk \<mapsto> b)\<rparr>);
         s = on_adb (save_agent now b (js_slice 64 version) (js_slice 253 host)
               (js_slice 32 (json_strings caps))) s
     in thenDo (send ok sk (HelloAccepted b))
          (writing (\<lambda>s. dispatch_next ok now b
             (publish b ''agent.connected'' (''Host agent connected from '' @ host)
                None None (ServerTime now) s))) s)"

definition hello :: "(string \<Rightarrow> string option) \<Rightarrow> (nat \<Rightarrow> bool) \<Rightarrow> instant \<Rightarrow> nat \<Rightarrow> json \<Rightarrow> unit agent" where
  "hello auth ok now sk msg = (\<lambda>s.
     case (string_field msg ''token'', string_field msg ''agentVersion'', string_field msg ''hostname'',
           json_field msg ''capabilities'') of
       (Some token, Some version, Some host, Some (JArr caps)) \<Rightarrow>
         (case auth token of
            None \<Rightarrow> (Inr (), close_socket sk s)
          | Some b \<Rightarrow> register_agent ok now sk b version host caps s)
     | _ \<Rightarrow> (Inr (), close_socket sk s))"

definition agent_status :: "instant \<Rightarrow> string \<Rightarrow> json option \<Rightarrow> agent_service \<Rightarrow> agent_service" where
  "agent_status now b value s =
     (case value of
        None \<Rightarrow> s
      | Some v \<Rightarrow>
          (case (string_field v ''state'', string_field v ''subState'', json_field v ''mainPid'',
                 string_field v ''updatedAt'') of
             (Some st, Some sub, Some (JNum pid), Some upd) \<Rightarrow>
               on_adb (save_runtime now b
                 \<lparr>unit_state = js_slice 64 st, unit_sub_state = js_slice 64 sub,
                  main_pid = max 0 \<lfloor>pid\<rfloor>, updated_at = upd\<rparr>) s
           | _ \<Rightarrow> s))"

definition agent_log :: "(nat \<Rightarrow> bool) \<Rightarrow> instant \<Rightarrow> nat \<Rightarrow> string \<Rightarrow> json option \<Rightarrow> unit agent" where
  "agent_log ok now sk b value = (\<lambda>s.
     case Option.bind value (\<lambda>v. string_field v ''message'') of
       None \<Rightarrow> (Inr (), s)
     | Some msg \<Rightarrow>
         let line = the value;
             ty = (case string_field line ''stream'' of
                     Some st \<Rightarrow> ''log.'' @ js_slice 32 st | None \<Rightarrow> ''log.stdout'');
             cursor = string_field line ''cursor'';
             stamp = (case string_field line ''createdAt'' of
                        Some t \<Rightarrow> AgentTime t | None \<Rightarrow> ServerTime now);
             s = publish b ty msg None cursor stamp s
         in case cursor of
              Some (x # xs) \<Rightarrow> send ok sk (LogAck (x # xs)) s
            | _ \<Rightarrow> (Inr (), s))"

definition own_command :: "string \<Rightarrow> json option \<Rightarrow> agent_service \<Rightarrow> command option" where
  "own_command b cid s =
     (case Option.bind cid as_string of
        None \<Rightarrow> None
      | Some i \<Rightarrow> (case get_command i (adb s) of
          None \<Rightarrow> None
        | Some c \<Rightarrow> if cmd_binding c = b then Some c else None))"

definition agent_ack :: "instant \<Rightarrow> string \<Rightarrow> json option \<Rightarrow> agent_service \<Rightarrow> agent_service" where
  "agent_ack now b cid s =
     (case own_command b cid s of
        None \<Rightarrow> s
      | Some c \<Rightarrow>
          publish b ''command.running'' (type_name (cmd_type c)) (Some (cmd_id c)) None (ServerTime now)
            (on_adb (mark_running now (cmd_id c)) s))"

definition agent_complete ::
  "(nat \<Rightarrow> bool) \<Rightarrow> instant \<Rightarrow> string \<Rightarrow> json option \<Rightarrow> json option \<Rightarrow> agent_service \<Rightarrow> agent_service" where
  "agent_complete ok now b cid out s =
     (case own_command b cid s of
        None \<Rightarrow> s
      | Some c \<Rightarrow>
          let txt = (case Option.bind out as_string of Some t \<Rightarrow> t | None \<Rightarrow> []);
              s = on_adb (finish_command now (cmd_id c) (Some txt) None) s;
              s = (if txt \<noteq> [] then publish b ''command.output'' txt (Some (cmd_id c)) None (ServerTime now) s
                   else s);
              s = publish b ''command.succeeded'' (type_name (cmd_type c)) (Some (cmd_id c)) None
                    (ServerTime now) s
          in dispatch_next ok now b s)"

definition agent_fail ::
  "(nat \<Rightarrow> bool) \<Rightarrow> instant \<Rightarrow> string \<Rightarrow> json option \<Rightarrow> json option \<Rightarrow> agent_service \<Rightarrow> agent_service" where
  "agent_fail ok now b cid err s =
     (case own_command b cid s of
        None \<Rightarrow> s
      | Some c \<Rightarrow>
          let msg = (case Option.bind err as_string of Some t \<Rightarrow> t | None \<Rightarrow> ''Agent command failed'');
              s = on_adb (finish_command now (cmd_id c) None (Some msg)) s;
              s = publish b ''command.failed'' msg (Some (cmd_id c)) None (ServerTime now) s
          in dispatch_next ok now b s)"

definition settle_fs :: "string \<Rightarrow> fs_outcome \<Rightarrow> agent_service \<Rightarrow> agent_service" where
  "settle_fs i out s = s\<lparr>pending_fs := filter (\<lambda>x. fst x \<noteq> i) (pending_fs s),
     fs_settled := fs_settled s @ [(i, out)]\<rparr>"

definition filesystem_response :: "nat \<Rightarrow> string \<Rightarrow> json \<Rightarrow> agent_service \<Rightarrow> agent_service" where
  "filesystem_response sk b msg s =
     (case string_field msg ''requestId'' of
        None \<Rightarrow> s
      | Some i \<Rightarrow>
          (case map_of (pending_fs s) i of
             None \<Rightarrow> s
           | Some p \<Rightarrow>
               if fs_binding p \<noteq> b \<or> fs_socket p \<noteq> sk then s
               else if json_field msg ''ok'' = Some (JBool True)
                 then settle_fs i (FsResolved (json_field msg ''result'')) s
               else settle_fs i (FsRejected
                      (case Option.bind (json_field msg ''error'') (\<lambda>e. string_field e ''message'') of
                         Some t \<Rightarrow> t | None \<Rightarrow> ''Live filesystem request failed'')) s))"

datatype raw_message = RawObject json | RawText string | RawOther

definition parse_message :: "(string \<Rightarrow> json option) \<Rightarrow> raw_message \<Rightarrow> json option" where
  "parse_message jp raw =
     (case raw of
        RawObject j \<Rightarrow> if is_js_object j then Some j else None
      | RawText t \<Rightarrow> (case jp t of None \<Rightarrow> None
                     | Some j \<Rightarrow> if is_js_object j then Some j else None)
      | RawOther \<Rightarrow> None)"

text \<open>The \<open>switch\<close> of \<open>handle\<close>, for a socket that serves binding \<open>b\<close>.\<close>

definition bound_message ::
  "(nat \<Rightarrow> bool) \<Rightarrow> instant \<Rightarrow> nat \<Rightarrow> string \<Rightarrow> string \<Rightarrow> json \<Rightarrow> unit agent" where
  "bound_message ok now sk b ty msg = (\<lambda>s.
     if ty = ''heartbeat'' then (Inr (), s)
     else if ty = ''status'' then (Inr (), agent_status now b (json_field msg ''runtime'') s)
     else if ty = ''log'' then agent_log ok now sk b (json_field msg ''line'') s
     else if ty = ''command.ack'' then (Inr (), agent_ack now b (json_field msg ''commandId'') s)
     else if ty = ''command.completed''
       then (Inr (), agent_complete ok now b (json_field msg ''commandId'') (json_field msg ''output'') s)
     else if ty = ''command.failed''
       then (Inr (), agent_fail ok now b (json_field msg ''commandId'') (json_field msg ''error'') s)
     else if ty = ''fs.response'' then (Inr (), filesystem_response sk b msg s)
     else (Inr (), s))"

definition handle_message ::
  "(string \<Rightarrow> json option) \<Rightarrow> (string \<Rightarrow> string option) \<Rightarrow> (nat \<Rightarrow> bool) \<Rightarrow> instant \<Rightarrow> nat \<Rightarrow>
   raw_message \<Rightarrow> unit agent" where
  "handle_message jp auth ok now sk raw = (\<lambda>s.
     case parse_message jp raw of
       None \<Rightarrow> (Inr (), s)
     | Some msg \<Rightarrow>
         (case string_field msg ''type'' of
            None \<Rightarrow> (Inr (), s)
          | Some ty \<Rightarrow>
              if ty = ''hello'' then hello auth ok now sk msg s
              else (case bound s sk of
                None \<Rightarrow> (Inr (), close_socket sk s)
              | Some b \<Rightarrow> bound_message ok now sk b ty msg (on_adb (touch now b) s))))"

section \<open>Requests of the panel\<close>

definition control_char :: "char \<Rightarrow> bool" where
  "control_char c = (let n = of_char c :: nat in n \<le> 8 \<or> (11 \<le> n \<and> n \<le> 31) \<or> n = 127 \<or> n = 13 \<or> n = 10)"

definition command_payload :: "command_type \<Rightarrow> json \<Rightarrow> agent_error + json" where
  "command_payload ty payload =
     (if ty = ConsoleExecute then
        (case string_field payload ''command'' of
           None \<Rightarrow> Inl ConsoleCommandLength
         | Some c \<Rightarrow>
             if js_trim c = [] \<or> int (length c) > 1000 then Inl ConsoleCommandLength
             else if list_ex control_char c then Inl ConsoleCommandCharacters
             else Inr (JObj [(''command'', JStr (js_trim c))]))
      else Inr (JObj []))"

definition create_command ::
  "(nat \<Rightarrow> bool) \<Rightarrow> instant \<Rightarrow> string \<Rightarrow> string \<Rightarrow> string \<Rightarrow> json \<Rightarrow> command agent" where
  "create_command ok now cid b ty payload =
     (case command_type_of ty of
        None \<Rightarrow> raise UnsupportedCommandType
      | Some t \<Rightarrow>
          andThen (ofSum (command_payload t payload)) (\<lambda>p s.
            case insert_command cid now b t p (adb s) of
              (Inl e, _) \<Rightarrow> (Inl (AgentDbError e), s)
            | (Inr c, d) \<Rightarrow>
                (Inr c, dispatch_next ok now b
                   (publish b ''command.queued'' (type_name t) (Some cid) None (ServerTime now) (s\<lparr>adb := d\<rparr>)))))"

text \<open>One round of the loop of \<open>waitForCommand\<close>, and the loop over the rounds' readings.\<close>

datatype wait_result =
    WaitDone command
  | WaitAborted
  | WaitMissing
  | WaitFailed string
  | WaitTimedOut

definition wait_round :: "string \<Rightarrow> bool \<Rightarrow> agent_db \<Rightarrow> wait_result option" where
  "wait_round cid aborted db =
     (if aborted then Some WaitAborted
      else case get_command cid db of
        None \<Rightarrow> Some WaitMissing
      | Some c \<Rightarrow>
          if cmd_status c = CSucceeded then Some (WaitDone c)
          else if cmd_status c = CFailed
            then Some (WaitFailed (case cmd_error c of Some e \<Rightarrow> e | None \<Rightarrow> ''Server command failed''))
          else None)"

fun wait_for_command ::
  "instant \<Rightarrow> string \<Rightarrow> (instant \<times> bool \<times> agent_db) list \<Rightarrow> wait_result option" where
  "wait_for_command deadline cid [] = None"
| "wait_for_command deadline cid ((now, aborted, db) # rest) =
     (if now < deadline then
        (case wait_round cid aborted db of
           Some r \<Rightarrow> Some r
         | None \<Rightarrow> wait_for_command deadline cid rest)
      else Some WaitTimedOut)"

definition request_filesystem ::
  "(nat \<Rightarrow> bool) \<Rightarrow> string \<Rightarrow> string \<Rightarrow> string \<Rightarrow> json \<Rightarrow> unit agent" where
  "request_filesystem ok i b op payload = (\<lambda>s.
     case sockets s b of
       None \<Rightarrow> (Inl AgentOffline, s)
     | Some sk \<Rightarrow>
         if ''filesystem-v1'' \<notin> set (rs_capabilities (agent_runtime b True (adb s)))
         then (Inl NoLiveFiles, s)
         else
           let p = \<lparr>fs_binding = b, fs_socket = sk\<rparr> in
           if ok sk then (Inr (), s\<lparr>pending_fs := pending_fs s @ [(i, p)],
               outbox := outbox s @ [(sk, FsRequestFrame i b op payload)]\<rparr>)
           else (Inl SendThrew, s))"

definition fs_timeout :: "string \<Rightarrow> agent_service \<Rightarrow> agent_service" where
  "fs_timeout i s = settle_fs i (FsRejected ''Live filesystem request timed out'') s"

section \<open>Runs of the service\<close>

datatype agent_action =
    GOpen nat
  | GHelloTimeout nat
  | GMessage nat raw_message
  | GClosed nat
  | GCreate string string string json
  | GRequestFs string string string json
  | GFsTimeout string

fun agent_act ::
  "(string \<Rightarrow> json option) \<Rightarrow> (string \<Rightarrow> string option) \<Rightarrow> (nat \<Rightarrow> bool) \<Rightarrow> instant \<Rightarrow> agent_action \<Rightarrow>
   agent_service \<Rightarrow> agent_service" where
  "agent_act jp auth ok now (GOpen sk) s = open_socket sk s"
| "agent_act jp auth ok now (GHelloTimeout sk) s =
     (if sk \<in> hello_timers s then hello_timeout sk s else s)"
| "agent_act jp auth ok now (GMessage sk raw) s = snd (handle_message jp auth ok now sk raw s)"
| "agent_act jp auth ok now (GClosed sk) s = socket_closed now sk s"
| "agent_act jp auth ok now (GCreate cid b ty payload) s = snd (create_command ok now cid b ty payload s)"
| "agent_act jp auth ok now (GRequestFs i b op payload) s =
     (if i \<in> fst ` set (pending_fs s) \<or> i \<in> fst ` set (fs_settled s) then s
      else snd (request_filesystem ok i b op payload s))"
| "agent_act jp auth ok now (GFsTimeout i) s =
     (if i \<in> fst ` set (pending_fs s) then fs_timeout i s else s)"

inductive agent_step :: "(string \<Rightarrow> json option) \<Rightarrow> agent_service \<Rightarrow> agent_service \<Rightarrow> bool"
  for jp :: "string \<Rightarrow> json option" where
  "agent_step jp s (agent_act jp auth ok now a s)"

inductive_cases agent_stepE: "agent_step jp s s'"

end
