(* ===== verification/Agent_Invariant.thy ===== *)
theory Agent_Invariant
  imports Agent_Service
begin

text \<open>
  What every handler of \<^verbatim>\<open>server-agent.service.ts\<close> keeps: finished commands stay as they are, the
  tables stay sound and bounded, a request on the file system is settled once, and the serving of
  one binding leaves the others alone.
\<close>

section \<open>Commands move forward\<close>

definition cmd_evolves :: "command \<Rightarrow> command \<Rightarrow> bool" where
  "cmd_evolves c c' \<longleftrightarrow>
     (cmd_id c', cmd_binding c', cmd_type c', cmd_payload c', cmd_created c') =
     (cmd_id c, cmd_binding c, cmd_type c, cmd_payload c, cmd_created c) \<and>
     (finished (cmd_status c) \<longrightarrow> c' = c)"

definition forward :: "agent_db \<Rightarrow> agent_db \<Rightarrow> bool" where
  "forward d d' \<longleftrightarrow> (\<forall>k c. get_command k d = Some c \<longrightarrow>
     (\<exists>c'. get_command k d' = Some c' \<and> cmd_evolves c c'))"

definition agent_inv :: "agent_service \<Rightarrow> bool" where
  "agent_inv s \<longleftrightarrow> agent_db_ok (adb s) \<and> finite (pending_sockets s) \<and> card (pending_sockets s) \<le> 100 \<and>
     distinct (map fst (pending_fs s) @ map fst (fs_settled s))"

definition evolves :: "agent_service \<Rightarrow> agent_service \<Rightarrow> bool" where
  "evolves s s' \<longleftrightarrow> forward (adb s) (adb s') \<and> (agent_inv s \<longrightarrow> agent_inv s')"

lemma cmd_evolves_refl [simp]: "cmd_evolves c c"
  by (simp add: cmd_evolves_def)

lemma cmd_evolves_trans: "cmd_evolves a b \<Longrightarrow> cmd_evolves b c \<Longrightarrow> cmd_evolves a c"
  by (auto simp: cmd_evolves_def)

lemma forward_refl [simp]: "forward d d"
  by (simp add: forward_def)

lemma forward_trans: "forward a b \<Longrightarrow> forward b c \<Longrightarrow> forward a c"
  unfolding forward_def by (meson cmd_evolves_trans)

lemma evolves_refl [simp]: "evolves s s"
  by (simp add: evolves_def)

lemma evolves_trans [trans]: "evolves a b \<Longrightarrow> evolves b c \<Longrightarrow> evolves a c"
  unfolding evolves_def using forward_trans by blast

lemma forward_commands: "commands d' = commands d \<Longrightarrow> forward d d'"
  by (simp add: forward_def get_command_def)

lemma forward_update:
  assumes "\<And>c. cmd_id (f c) = cmd_id c" and "\<And>c. P c \<Longrightarrow> cmd_evolves c (f c)"
  shows "forward d (update_commands P f d)"
  using assms by (auto simp: forward_def get_update_commands)

lemma forward_updates [simp]:
  "forward d (requeue_active bo d)" "forward d (mark_delivered now k d)"
  "forward d (mark_running now k d)" "forward d (finish_command now k out err d)"
  unfolding command_updates
  by (auto intro!: forward_update simp: cmd_evolves_def in_flight_def finished_def)

lemma evolves_same:
  assumes "adb s' = adb s" and "pending_sockets s' = pending_sockets s"
    and "pending_fs s' = pending_fs s" and "fs_settled s' = fs_settled s"
  shows "evolves s s'"
  using assms by (simp add: evolves_def agent_inv_def)

lemma evolves_on_adb:
  "forward (adb s) (f (adb s)) \<Longrightarrow> (agent_db_ok (adb s) \<Longrightarrow> agent_db_ok (f (adb s))) \<Longrightarrow>
   evolves s (on_adb f s)"
  by (auto simp: evolves_def agent_inv_def on_adb_def)

lemma publish_ok: "agent_db_ok (adb s) \<Longrightarrow> agent_db_ok (adb (publish b ty msg cid cursor stamp s))"
  using append_runtime_event_ok[of "adb s" b ty msg cid cursor stamp]
  by (auto simp: publish_def split: prod.splits option.splits)

lemma evolves_publish [simp]: "evolves s (publish b ty msg cid cursor stamp s)"
  by (simp add: evolves_def agent_inv_def forward_commands publish_ok)

lemma evolves_publish_after:
  "evolves s t \<Longrightarrow> evolves s (publish b ty msg cid cursor stamp t)"
  using evolves_publish evolves_trans by blast

lemma evolves_expire: "evolves s (expire_command now b c s)"
  unfolding expire_command_def by (intro evolves_publish_after evolves_on_adb) simp_all

lemma evolves_deliver: "evolves s (deliver_command now b sk c s)"
proof -
  let ?s = "s\<lparr>outbox := outbox s @ [(sk, CommandFrame (cmd_id c) (cmd_binding c) (cmd_type c)
    (cmd_payload c) (cmd_created c))]\<rparr>"
  have "evolves s ?s" by (rule evolves_same) simp_all
  moreover have "evolves ?s (on_adb (mark_delivered now (cmd_id c)) ?s)" by (rule evolves_on_adb) simp_all
  ultimately show ?thesis
    unfolding deliver_command_def using evolves_publish_after evolves_trans by blast
qed

lemma finite_card_minus: "finite A \<Longrightarrow> card A \<le> n \<Longrightarrow> card (A - {x}) \<le> n"
  by (meson card_Diff1_le le_trans)

lemma evolves_forget: "evolves s (forget_timer sk s)"
  by (auto simp: evolves_def agent_inv_def forget_timer_def finite_card_minus)

lemma distinct_split_keys:
  assumes "distinct (map fst xs @ ys)"
  shows "distinct (map fst (filter (\<lambda>x. \<not> P x) xs) @ ys @ map fst (filter P xs))"
proof -
  have d: "distinct (map fst xs)" using assms by simp
  have "fst ` set (filter P xs) \<inter> fst ` set (filter (\<lambda>x. \<not> P x) xs) = {}"
    using d by (auto simp: distinct_map inj_on_def)
  with assms d show ?thesis by (auto simp: distinct_map_filter)
qed

lemma evolves_reject: "evolves s (reject_fs sk s)"
proof -
  have "distinct (map fst (pending_fs s) @ map fst (fs_settled s)) \<Longrightarrow>
    distinct (map fst (pending_fs (reject_fs sk s)) @ map fst (fs_settled (reject_fs sk s)))"
    using distinct_split_keys[of "pending_fs s" "map fst (fs_settled s)" "\<lambda>x. fs_socket (snd x) = sk"]
    by (simp add: reject_fs_def comp_def)
  then show ?thesis unfolding evolves_def agent_inv_def by (simp add: reject_fs_def)
qed

lemma evolves_settle:
  assumes "i \<in> fst ` set (pending_fs s)"
  shows "evolves s (settle_fs i out s)"
proof -
  have "distinct (map fst (pending_fs (settle_fs i out s)) @ map fst (fs_settled (settle_fs i out s)))"
    if "distinct (map fst (pending_fs s) @ map fst (fs_settled s))"
    using that assms by (auto simp: settle_fs_def distinct_map_filter)
  then show ?thesis by (simp add: evolves_def agent_inv_def settle_fs_def)
qed

lemma evolves_closed: "evolves s (socket_closed now sk s)"
proof (cases "bound s sk")
  case None
  then show ?thesis by (simp add: socket_closed_def forget_timer_def Let_def)
      (use evolves_forget[of s sk] in \<open>simp add: forget_timer_def\<close>)
next
  case (Some b)
  let ?t = "forget_timer sk s"
  let ?u = "?t\<lparr>bound := (bound ?t)(sk := None)\<rparr>"
  have u: "evolves s ?u"
    by (rule evolves_trans[OF evolves_forget[of s sk]], rule evolves_same) simp_all
  let ?v = "reject_fs sk (?u\<lparr>sockets := (sockets ?u)(b := None)\<rparr>)"
  have "evolves ?u (?u\<lparr>sockets := (sockets ?u)(b := None)\<rparr>)" by (rule evolves_same) simp_all
  with u evolves_reject evolves_trans have v: "evolves s ?v" by blast
  have "evolves ?v (on_adb (requeue_active (Some b)) ?v)" by (rule evolves_on_adb) simp_all
  with v evolves_trans have "evolves s (on_adb (requeue_active (Some b)) ?v)" by blast
  then show ?thesis
    using u Some by (simp add: socket_closed_def Let_def forget_timer_def evolves_publish_after)
qed

text \<open>A property of all the steps of \<open>dispatchNext\<close> is a property of the call.\<close>

lemma dispatch_next_keeps:
  assumes "\<And>s. P s s" and "\<And>s t u. P s t \<Longrightarrow> P t u \<Longrightarrow> P s u"
    and "\<And>c s. c \<in> set (pending_commands b (adb s)) \<Longrightarrow> P s (expire_command now b c s)"
    and "\<And>c sk s. c \<in> set (pending_commands b (adb s)) \<Longrightarrow> P s (deliver_command now b sk c s)"
    and "\<And>sk s. sockets s b = Some sk \<Longrightarrow> P s (socket_closed now sk s)"
  shows "P s (dispatch_next ok now b s)"
  using assms
proof (induction ok now b s rule: dispatch_next.induct)
  case (1 ok now b s)
  show ?case
  proof (cases "sockets s b")
    case None
    with 1(2) show ?thesis by (simp add: dispatch_next.simps[of ok now b s])
  next
    case (Some sk)
    show ?thesis
    proof (cases "active_command b (adb s) \<noteq> None \<or> pending_commands b (adb s) = []")
      case True
      with Some 1(2) show ?thesis by (auto simp: dispatch_next.simps[of ok now b s])
    next
      case False
      then obtain c cs where c: "active_command b (adb s) = None" "pending_commands b (adb s) = c # cs"
        by (cases "pending_commands b (adb s)") auto
      have "P (expire_command now b c s) (dispatch_next ok now b (expire_command now b c s))"
        if "expired now c"
        using 1(1)[OF Some] c that 1(2-6) by simp
      then show ?thesis
        using Some c 1(3)[of s] 1(4)[of c s] 1(5)[of c s sk] 1(6)[OF Some]
        by (auto simp: dispatch_next.simps[of ok now b s])
    qed
  qed
qed

lemma evolves_dispatch: "evolves s (dispatch_next ok now b s)"
  by (rule dispatch_next_keeps[of evolves])
    (auto intro: evolves_expire evolves_deliver evolves_closed evolves_trans)

section \<open>Every handler keeps the invariant\<close>

lemma save_agent_commands [simp]:
  "commands (save_agent now b v h caps d) = commands d"
  "runtime_events (save_agent now b v h caps d) = runtime_events d"
  "runtime_sequence (save_agent now b v h caps d) = runtime_sequence d"
  by (simp_all add: save_agent_def)

lemma agent_rows_ok:
  "commands d' = commands d \<Longrightarrow> runtime_events d' = runtime_events d \<Longrightarrow>
   runtime_sequence d' = runtime_sequence d \<Longrightarrow> agent_db_ok d' = agent_db_ok d"
  by (simp add: agent_db_ok_def binding_events_def)

lemma evolves_rows:
  assumes "\<And>d. commands (f d) = commands d" and "\<And>d. runtime_events (f d) = runtime_events d"
    and "\<And>d. runtime_sequence (f d) = runtime_sequence d"
  shows "evolves s (on_adb f s)"
proof (rule evolves_on_adb)
  show "forward (adb s) (f (adb s))" by (rule forward_commands) (rule assms(1))
  show "agent_db_ok (f (adb s))" if "agent_db_ok (adb s)"
    using that agent_rows_ok[of "f (adb s)" "adb s"] assms by simp
qed

lemma evolves_touch: "evolves s (on_adb (touch now b) s)"
  by (rule evolves_rows) (simp_all add: touch_def)

lemma evolves_close_socket [simp]: "evolves s (close_socket sk s)"
  by (rule evolves_same) (simp_all add: close_socket_def)

lemma evolves_send: "evolves s (snd (send ok sk f s))"
  by (auto simp: send_def intro: evolves_same)

lemma evolves_register: "evolves s (snd (register_agent ok now sk b version host caps s))"
proof -
  define t where "t = (case sockets s b of
      Some old \<Rightarrow> if old \<noteq> sk then close_socket old s else s | None \<Rightarrow> s)"
  define r where "r = t\<lparr>sockets := (sockets t)(b \<mapsto> sk), bound := (bound t)(sk \<mapsto> b)\<rparr>"
  define u where "u = on_adb (save_agent now b (take 64 version) (take 253 host)
      (take 32 (json_strings caps))) (forget_timer sk r)"
  have "evolves s t" by (simp add: t_def split: option.splits)
  also have "evolves t r" unfolding r_def by (rule evolves_same) simp_all
  also have "evolves r (forget_timer sk r)" by (rule evolves_forget)
  also have "evolves (forget_timer sk r) u" unfolding u_def by (rule evolves_rows) simp_all
  finally have su: "evolves s u" .
  have "evolves u (u\<lparr>outbox := o'\<rparr>)" for o' by (rule evolves_same) simp_all
  with su have "evolves s (u\<lparr>outbox := o'\<rparr>)" for o' using evolves_trans by blast
  then have "evolves s (dispatch_next ok now b
      (publish b ty m None None (ServerTime now) (u\<lparr>outbox := o'\<rparr>)))" for o' ty m
    by (rule evolves_trans[OF evolves_publish_after evolves_dispatch])
  moreover have "register_agent ok now sk b version host caps s =
      thenDo (send ok sk (HelloAccepted b))
          (writing (\<lambda>s. dispatch_next ok now b
             (publish b ''agent.connected'' (''Host agent connected from '' @ host)
                None None (ServerTime now) s))) u"
    by (simp add: register_agent_def t_def r_def u_def Let_def)
  ultimately show ?thesis using su by (simp add: exec_simps send_def)
qed

lemma evolves_hello: "evolves s (snd (hello auth ok now sk msg s))"
  by (auto simp: hello_def evolves_register split: option.splits json.splits)

lemma evolves_status: "evolves s (agent_status now b v s)"
proof -
  have "evolves s (on_adb (save_runtime now b rt) s)" for rt
    by (rule evolves_rows) (simp_all add: save_runtime_def)
  then show ?thesis by (auto simp: agent_status_def split: option.splits json.splits)
qed

lemma evolves_log: "evolves s (snd (agent_log ok now sk b v s))"
proof -
  have "evolves s (snd (send ok sk f (publish b ty m None cur st s)))" for f ty m cur st
    using evolves_publish evolves_send evolves_trans by blast
  then show ?thesis by (auto simp: agent_log_def Let_def split: option.splits list.splits)
qed

lemma evolves_ack: "evolves s (agent_ack now b cid s)"
  by (auto simp: agent_ack_def split: option.splits intro!: evolves_publish_after evolves_on_adb)

lemma evolves_finish: "evolves s (on_adb (finish_command now k out err) s)"
  by (rule evolves_on_adb) simp_all

lemma evolves_complete: "evolves s (agent_complete ok now b cid out s)"
  using evolves_trans[OF evolves_publish_after[OF evolves_finish] evolves_dispatch]
    evolves_trans[OF evolves_publish_after[OF evolves_publish_after[OF evolves_finish]] evolves_dispatch]
  by (auto simp: agent_complete_def Let_def split: option.splits)

lemma evolves_fail: "evolves s (agent_fail ok now b cid err s)"
  using evolves_trans[OF evolves_publish_after[OF evolves_finish] evolves_dispatch]
  by (auto simp: agent_fail_def Let_def split: option.splits)

lemma evolves_fs_response: "evolves s (filesystem_response sk b msg s)"
proof -
  have "evolves s (settle_fs i out s)" if "map_of (pending_fs s) i = Some p" for i p out
    by (rule evolves_settle) (use map_of_SomeD[OF that] in force)
  then show ?thesis by (auto simp: filesystem_response_def split: option.splits)
qed

lemma evolves_bound_message: "evolves s (snd (bound_message ok now sk b ty msg s))"
  unfolding bound_message_def
  by (simp add: evolves_log evolves_status evolves_ack evolves_complete evolves_fail
      evolves_fs_response)

lemma evolves_handle: "evolves s (snd (handle_message jp auth ok now sk raw s))"
  using evolves_trans[OF evolves_touch evolves_bound_message]
  by (simp add: handle_message_def evolves_hello split: option.split)

lemma evolves_create: "evolves s (snd (create_command ok now cid b ty payload s))"
proof -
  have ins: "evolves s (s\<lparr>adb := d\<rparr>)"
    if "insert_command cid now b t p (adb s) = (Inr c, d)" for t p c d
  proof -
    from that have d: "cid \<notin> cmd_id ` set (commands (adb s))" "c = new_command cid now b t p"
      "d = (adb s)\<lparr>commands := commands (adb s) @ [c]\<rparr>"
      by (auto simp: insert_command_def sql_insert_def new_command_def split: if_splits)
    have "forward (adb s) d"
      by (auto simp: forward_def get_command_def d(3) table_simps)
    moreover have "agent_db_ok (adb s) \<Longrightarrow> agent_db_ok d"
      using d by (auto simp: agent_db_ok_def keys_distinct_def binding_events_def new_command_def)
    ultimately show ?thesis by (simp add: evolves_def agent_inv_def)
  qed
  show ?thesis
  proof (cases "command_type_of ty")
    case None
    then show ?thesis by (simp add: create_command_def exec_simps)
  next
    case (Some t)
    show ?thesis
    proof (cases "command_payload t payload")
      case (Inl e)
      with Some show ?thesis by (simp add: create_command_def exec_simps)
    next
      case (Inr p)
      obtain r d where i: "insert_command cid now b t p (adb s) = (r, d)" by fastforce
      show ?thesis
      proof (cases r)
        case (Inl e)
        with Some Inr i show ?thesis by (simp add: create_command_def exec_simps)
      next
        case (Inr c)
        with i have "evolves s (s\<lparr>adb := d\<rparr>)" using ins by simp
        from evolves_trans[OF evolves_publish_after[OF this] evolves_dispatch]
        have "evolves s (dispatch_next ok now b
            (publish b ''command.queued'' (type_name t) (Some cid) None (ServerTime now) (s\<lparr>adb := d\<rparr>)))" .
        with Some \<open>command_payload t payload = Inr p\<close> i Inr show ?thesis
          by (simp add: create_command_def exec_simps)
      qed
    qed
  qed
qed

lemma evolves_act: "evolves s (agent_act jp auth ok now a s)"
proof (cases a)
  case (GOpen sk)
  have "finite P \<Longrightarrow> card P < 100 \<Longrightarrow> card (insert sk P) \<le> 100" for P :: "nat set"
    by (simp add: card_insert_if)
  then show ?thesis
    by (auto simp: GOpen open_socket_def evolves_def agent_inv_def close_socket_def not_le)
next
  case (GHelloTimeout sk)
  have "evolves s (s\<lparr>pending_sockets := pending_sockets s - {sk}, hello_timers := h\<rparr>)" for h
    by (auto simp: evolves_def agent_inv_def finite_card_minus)
  then show ?thesis
    using evolves_trans[OF _ evolves_close_socket] by (auto simp: GHelloTimeout hello_timeout_def Let_def)
next
  case (GRequestFs i b op payload)
  have "distinct (map fst (pending_fs s @ [(i, p)]) @ map fst (fs_settled s))"
    if "i \<notin> fst ` set (pending_fs s)" "i \<notin> fst ` set (fs_settled s)"
      "distinct (map fst (pending_fs s) @ map fst (fs_settled s))" for p
    using that by auto
  then show ?thesis
    by (auto simp: GRequestFs request_filesystem_def Let_def evolves_def agent_inv_def split: option.splits)
next
  case (GFsTimeout i)
  then show ?thesis by (auto simp: fs_timeout_def intro!: evolves_settle)
qed (auto simp: evolves_handle evolves_create evolves_closed)

inductive agent_reachable :: "(string \<Rightarrow> json option) \<Rightarrow> agent_service \<Rightarrow> bool" for jp where
  agent_boot: "agent_db_ok db \<Longrightarrow> agent_reachable jp (new_agent_service db)"
| agent_run: "agent_reachable jp s \<Longrightarrow> agent_reachable jp (agent_act jp auth ok now a s)"

lemma agent_reachable_inv: "agent_reachable jp s \<Longrightarrow> agent_inv s"
proof (induction rule: agent_reachable.induct)
  case (agent_boot db)
  then show ?case by (simp add: agent_inv_def new_agent_service_def)
next
  case (agent_run s auth ok now a)
  then show ?case using evolves_act by (simp add: evolves_def)
qed

interpretation command_rows: lifecycle_store
  "\<lambda>s k. get_command k (adb s)" "agent_step jp" cmd_evolves "\<lambda>c. finished (cmd_status c)" for jp
proof
  show "\<exists>c'. get_command k (adb t) = Some c' \<and> (c' = c \<or> cmd_evolves c c')"
    if "agent_step jp s t" and "get_command k (adb s) = Some c" for s t k c
    using that evolves_act unfolding evolves_def forward_def by (auto elim!: agent_stepE) blast
  show "c' = c" if "finished (cmd_status c)" and "cmd_evolves c c'" for c c'
    using that by (simp add: cmd_evolves_def)
qed

end
