(* ===== verification/Agent_Properties.thy ===== *)
theory Agent_Properties
  imports Agent_Invariant
begin

text \<open>
  The properties of the service of the host agents: what one binding's agent can reach, what
  \<open>dispatchNext\<close> sends, how requests end, and two places where the code does less than it means to.
\<close>

section \<open>Concrete states, for the witnesses\<close>

definition sample_command :: "string \<Rightarrow> command_status \<Rightarrow> command" where
  "sample_command k st = (new_command k 0 ''b'' ServiceStart JNull)\<lparr>cmd_status := st\<rparr>"

definition sample_agents :: "command list \<Rightarrow> agent_service" where
  "sample_agents cs = (new_agent_service \<lparr>agents = [], commands = [], runtime_events = [],
       runtime_sequence = 0\<rparr>)
     \<lparr>adb := \<lparr>agents = [], commands = cs, runtime_events = [], runtime_sequence = 0\<rparr>,
      sockets := [''b'' \<mapsto> 2], bound := (\<lambda>_. None)(1 \<mapsto> ''b'', 2 \<mapsto> ''b'')\<rparr>"

lemma sample_fields [simp]:
  "sockets (sample_agents cs) = [''b'' \<mapsto> 2]" "bound (sample_agents cs) = (\<lambda>_. None)(1 \<mapsto> ''b'', 2 \<mapsto> ''b'')"
  "commands (adb (sample_agents cs)) = cs" "runtime_events (adb (sample_agents cs)) = []"
  by (simp_all add: sample_agents_def)

lemma sample_ok: "distinct (map cmd_id cs) \<Longrightarrow> agent_db_ok (adb (sample_agents cs))"
  by (simp add: agent_db_ok_def keys_distinct_def seqs_ok_def binding_events_def cursors_unique_def
      sample_agents_def)

lemma sample_command_fields [simp]:
  "cmd_id (sample_command k st) = k" "cmd_status (sample_command k st) = st"
  "cmd_binding (sample_command k st) = ''b''" "cmd_created (sample_command k st) = 0"
  by (simp_all add: sample_command_def new_command_def)

lemma sample_reachable:
  "agent_reachable jp (agent_act jp auth ok now a (new_agent_service (adb (sample_agents []))))"
  by (intro agent_run agent_boot sample_ok) simp

section \<open>Serving one binding\<close>

definition serves_only :: "string \<Rightarrow> agent_service \<Rightarrow> agent_service \<Rightarrow> bool" where
  "serves_only b s s' \<longleftrightarrow> (\<forall>x. x \<noteq> b \<longrightarrow>
     filter (\<lambda>c. cmd_binding c = x) (commands (adb s')) = filter (\<lambda>c. cmd_binding c = x) (commands (adb s)) \<and>
     binding_events (adb s') x = binding_events (adb s) x \<and>
     get_by ag_binding x (agents (adb s')) = get_by ag_binding x (agents (adb s)) \<and>
     sockets s' x = sockets s x)"

definition registered :: "string \<Rightarrow> agent_service \<Rightarrow> bool" where
  "registered b s \<longleftrightarrow> (\<forall>sk. sockets s b = Some sk \<longrightarrow> bound s sk = Some b)"

text \<open>A step that keeps to binding \<open>b\<close>, from a state where it can be told to.\<close>

definition keeps_to :: "string \<Rightarrow> agent_service \<Rightarrow> agent_service \<Rightarrow> bool" where
  "keeps_to b s s' \<longleftrightarrow> (agent_db_ok (adb s) \<longrightarrow> registered b s \<longrightarrow>
     agent_db_ok (adb s') \<and> registered b s' \<and> serves_only b s s')"

lemma keeps_to_refl [simp]: "keeps_to b s s"
  by (simp add: keeps_to_def serves_only_def)

lemma keeps_to_trans [trans]: "keeps_to b s t \<Longrightarrow> keeps_to b t u \<Longrightarrow> keeps_to b s u"
  by (auto simp: keeps_to_def serves_only_def)

lemma keeps_to_same:
  assumes "adb s' = adb s" and "sockets s' = sockets s" and "bound s' = bound s"
  shows "keeps_to b s s'"
  using assms by (simp add: keeps_to_def serves_only_def registered_def)

lemma filter_update_other:
  "(\<And>r. r \<in> set t \<Longrightarrow> Q r \<Longrightarrow> \<not> P r \<and> \<not> P (f r)) \<Longrightarrow> filter P (sql_update Q f t) = filter P t"
  by (induction t) (auto simp: sql_update_def)

lemma keeps_to_commands:
  assumes "\<And>c. cmd_id (f c) = cmd_id c" and "\<And>c. cmd_binding (f c) = cmd_binding c"
    and "agent_db_ok (adb s) \<Longrightarrow> \<forall>c\<in>set (commands (adb s)). Q c \<longrightarrow> cmd_binding c = b"
  shows "keeps_to b s (on_adb (update_commands Q f) s)"
  unfolding keeps_to_def
proof (intro impI)
  assume ok: "agent_db_ok (adb s)" and r: "registered b s"
  have "filter (\<lambda>c. cmd_binding c = x) (sql_update Q f (commands (adb s))) =
      filter (\<lambda>c. cmd_binding c = x) (commands (adb s))" if "x \<noteq> b" for x
    by (rule filter_update_other) (use assms(2,3) ok that in auto)
  with ok r show "agent_db_ok (adb (on_adb (update_commands Q f) s)) \<and>
      registered b (on_adb (update_commands Q f) s) \<and>
      serves_only b s (on_adb (update_commands Q f) s)"
    using update_commands_ok[of f Q "adb s"] assms(1)
    by (simp add: serves_only_def registered_def on_adb_def update_commands_def binding_events_def)
qed

lemma publish_other_events:
  assumes "agent_db_ok (adb s)" and "x \<noteq> b"
  shows "binding_events (adb (publish b ty msg cid cursor stamp s)) x = binding_events (adb s) x"
proof (cases "append_runtime_event b ty msg cid cursor stamp (adb s)")
  case (Pair r d)
  have sq: "seqs_ok rt_sequence (runtime_sequence (adb s)) (runtime_events (adb s))"
    using assms(1) by (simp add: agent_db_ok_def)
  from Pair show ?thesis
  proof (cases rule: append_runtime_event_cases)
    case ignored
    then show ?thesis by (simp add: publish_def Pair binding_events_def)
  next
    case (stored e)
    from trim_keeps(2)[OF seqs_ok_snoc[OF sq stored(2)] assms(2)] stored(3) assms(2)
    show ?thesis by (simp add: publish_def Pair stored(1,8) binding_events_def)
  qed
qed

lemma keeps_to_publish: "keeps_to b s (publish b ty msg cid cursor stamp s)"
  by (simp add: keeps_to_def publish_ok serves_only_def registered_def publish_other_events)

lemma keeps_to_published: "keeps_to b s t \<Longrightarrow> keeps_to b s (publish b ty msg cid cursor stamp t)"
  using keeps_to_publish keeps_to_trans by blast

lemma keeps_to_rows:
  assumes "\<And>d. commands (f d) = commands d" and "\<And>d. runtime_events (f d) = runtime_events d"
    and "\<And>d. runtime_sequence (f d) = runtime_sequence d"
    and "\<And>d x. x \<noteq> b \<Longrightarrow> get_by ag_binding x (agents (f d)) = get_by ag_binding x (agents d)"
  shows "keeps_to b s (on_adb f s)"
  using assms agent_rows_ok[of "f (adb s)" "adb s"]
  by (simp add: keeps_to_def serves_only_def registered_def on_adb_def binding_events_def)

lemma get_agent_update:
  "x \<noteq> b \<Longrightarrow> (\<And>a. ag_binding (f a) = ag_binding a) \<Longrightarrow>
   get_by ag_binding x (sql_update (\<lambda>a. ag_binding a = b) f t) = get_by ag_binding x t"
  by (cases "get_by ag_binding x t") (auto simp: get_by_update dest: get_by_key)

lemma same_id: "agent_db_ok d \<Longrightarrow> c \<in> set (commands d) \<Longrightarrow> r \<in> set (commands d) \<Longrightarrow>
    cmd_id r = cmd_id c \<Longrightarrow> r = c"
  using get_by_self[of cmd_id "commands d" c] get_by_self[of cmd_id "commands d" r]
  by (simp add: agent_db_ok_def)

lemma keeps_to_own:
  assumes "c \<in> set (commands (adb s))" and "cmd_binding c = b"
  shows "keeps_to b s (on_adb (finish_command now (cmd_id c) out err) s)"
    and "keeps_to b s (on_adb (mark_running now (cmd_id c)) s)"
    and "keeps_to b s (on_adb (mark_delivered now (cmd_id c)) s)"
proof -
  have own: "agent_db_ok (adb s) \<Longrightarrow> \<forall>r\<in>set (commands (adb s)). cmd_id r = cmd_id c \<longrightarrow> cmd_binding r = b"
    using same_id[OF _ assms(1)] assms(2) by blast
  show "keeps_to b s (on_adb (finish_command now (cmd_id c) out err) s)"
    "keeps_to b s (on_adb (mark_running now (cmd_id c)) s)"
    "keeps_to b s (on_adb (mark_delivered now (cmd_id c)) s)"
    unfolding command_updates by (rule keeps_to_commands; use own in simp)+
qed

lemma pending_in: "c \<in> set (pending_commands b d) \<Longrightarrow>
    c \<in> set (commands d) \<and> cmd_binding c = b \<and> cmd_status c = CQueued"
  by (simp add: pending_commands_def table_simps)

lemma keeps_to_expire:
  "c \<in> set (pending_commands b (adb s)) \<Longrightarrow> keeps_to b s (expire_command now b c s)"
  unfolding expire_command_def by (intro keeps_to_published keeps_to_own(1)) (auto dest: pending_in)

lemma keeps_to_deliver:
  assumes "c \<in> set (pending_commands b (adb s))"
  shows "keeps_to b s (deliver_command now b sk c s)"
proof -
  let ?s = "s\<lparr>outbox := outbox s @ [(sk, CommandFrame (cmd_id c) (cmd_binding c) (cmd_type c)
    (cmd_payload c) (cmd_created c))]\<rparr>"
  have "keeps_to b s ?s" by (rule keeps_to_same) simp_all
  also have "keeps_to b ?s (on_adb (mark_delivered now (cmd_id c)) ?s)"
    by (rule keeps_to_own(3)) (use pending_in[OF assms] in simp_all)
  finally show ?thesis unfolding deliver_command_def by (rule keeps_to_published)
qed

lemma keeps_to_closed:
  assumes "registered b s \<Longrightarrow> bound s sk = Some b"
  shows "keeps_to b s (socket_closed now sk s)"
proof (cases "registered b s")
  case True
  with assms have b: "bound s sk = Some b" by simp
  let ?t = "forget_timer sk s"
  let ?u = "?t\<lparr>bound := (bound ?t)(sk := None)\<rparr>"
  let ?v = "reject_fs sk (?u\<lparr>sockets := (sockets ?u)(b := None)\<rparr>)"
  have u: "keeps_to b s ?u" if "sockets s b \<noteq> Some sk"
    using that by (simp add: keeps_to_def serves_only_def registered_def forget_timer_def)
  have "keeps_to b s ?v"
    by (simp add: keeps_to_def serves_only_def registered_def forget_timer_def reject_fs_def)
  moreover have "keeps_to b ?v (on_adb (requeue_active (Some b)) ?v)"
    unfolding command_updates by (rule keeps_to_commands) simp_all
  ultimately have w: "keeps_to b s (publish b ty m None None st (on_adb (requeue_active (Some b)) ?v))"
    for ty m st using keeps_to_trans keeps_to_published by blast
  show ?thesis
  proof (cases "sockets s b = Some sk")
    case True
    with w b show ?thesis by (simp add: socket_closed_def Let_def forget_timer_def)
  next
    case False
    with u b show ?thesis
      by (simp add: socket_closed_def Let_def forget_timer_def)
  qed
next
  case False
  then show ?thesis by (simp add: keeps_to_def)
qed

lemma keeps_to_dispatch: "keeps_to b s (dispatch_next ok now b s)"
  by (rule dispatch_next_keeps[of "keeps_to b"])
    (auto simp: registered_def intro: keeps_to_expire keeps_to_deliver keeps_to_closed keeps_to_trans)

lemma own_command_in:
  "own_command b cid s = Some c \<Longrightarrow> c \<in> set (commands (adb s)) \<and> cmd_binding c = b"
  by (auto simp: own_command_def get_command_def split: option.splits if_splits dest: get_by_in)

lemma keeps_to_status: "keeps_to b s (agent_status now b v s)"
proof -
  have "keeps_to b s (on_adb (save_runtime now b rt) s)" for rt
    by (rule keeps_to_rows) (simp_all add: save_runtime_def get_agent_update)
  then show ?thesis by (auto simp: agent_status_def split: option.splits json.splits)
qed

lemma keeps_to_log: "keeps_to b s (snd (agent_log ok now sk b v s))"
proof -
  have "keeps_to b s (snd (send ok sk f s))" for f s
    by (auto simp: send_def intro: keeps_to_same)
  then have "keeps_to b s (snd (send ok sk f (publish b ty m None cur st s)))" for f ty m cur st
    using keeps_to_publish keeps_to_trans by blast
  then show ?thesis
    by (auto simp: agent_log_def Let_def keeps_to_publish split: option.splits list.splits)
qed

lemma keeps_to_ack: "keeps_to b s (agent_ack now b cid s)"
  by (cases "own_command b cid s")
    (auto simp: agent_ack_def dest: own_command_in intro!: keeps_to_published keeps_to_own(2))

lemma keeps_to_complete: "keeps_to b s (agent_complete ok now b cid out s)"
proof (cases "own_command b cid s")
  case (Some c)
  let ?t = "on_adb (finish_command now (cmd_id c) (Some txt) None) s"
  have "keeps_to b s (on_adb (finish_command now (cmd_id c) x None) s)" for x
    by (rule keeps_to_own(1)) (use own_command_in[OF Some] in simp_all)
  note f = keeps_to_published[OF this]
  from keeps_to_trans[OF f keeps_to_dispatch] keeps_to_trans[OF keeps_to_published[OF f] keeps_to_dispatch]
  show ?thesis by (simp add: agent_complete_def Some Let_def)
qed (simp add: agent_complete_def)

lemma keeps_to_fail: "keeps_to b s (agent_fail ok now b cid err s)"
proof (cases "own_command b cid s")
  case (Some c)
  have "keeps_to b s (on_adb (finish_command now (cmd_id c) None x) s)" for x
    by (rule keeps_to_own(1)) (use own_command_in[OF Some] in simp_all)
  note f = keeps_to_published[OF this]
  from keeps_to_trans[OF f keeps_to_dispatch]
  show ?thesis by (simp add: agent_fail_def Some Let_def)
qed (simp add: agent_fail_def)

lemma keeps_to_fs: "keeps_to b s (filesystem_response sk b msg s)"
  by (auto simp: filesystem_response_def settle_fs_def split: option.splits intro: keeps_to_same)

lemma keeps_to_bound_message: "keeps_to b s (snd (bound_message ok now sk b ty msg s))"
  unfolding bound_message_def
  by (simp add: keeps_to_log keeps_to_status keeps_to_ack keeps_to_complete keeps_to_fail keeps_to_fs)

lemma keeps_to_touch: "keeps_to b s (on_adb (touch now b) s)"
  by (rule keeps_to_rows) (simp_all add: touch_def get_agent_update)

section \<open>What is dispatched\<close>

lemma pending_after_expire:
  assumes "agent_db_ok (adb s)" and "pending_commands b (adb s) = c # cs"
  shows "pending_commands b (adb (expire_command now b c s)) = cs"
proof -
  let ?P = "\<lambda>x. cmd_binding x = b \<and> cmd_status x = CQueued"
  let ?t = "commands (adb s)" and ?k = "\<lambda>c. iso_rank (cmd_created c)"
  have mem: "c \<in> set (pending_commands b (adb s))" using assms(2) by simp
  have c: "c \<in> set ?t" "?P c" using pending_in[OF mem] by simp_all
  have upd: "filter ?P (sql_update (\<lambda>x. cmd_id x = cmd_id c \<and> cmd_status x \<noteq> CSucceeded \<and>
        cmd_status x \<noteq> CFailed) f u) =
      filter (\<lambda>x. cmd_id x \<noteq> cmd_id c) (filter ?P u)"
    if "\<And>x. cmd_status (f x) = CFailed" for f u
    by (induction u) (auto simp: sql_update_def that)
  have "distinct (map cmd_id (filter ?P ?t))"
    using assms(1) by (simp add: agent_db_ok_def keys_distinct_def distinct_map_filter)
  moreover have "mset (pending_commands b (adb s)) = mset (filter ?P ?t)"
    by (simp add: pending_commands_def order_asc_def sql_select_def)
  ultimately have "distinct (map cmd_id (c # cs))"
    unfolding assms(2)[symmetric] by (metis mset_eq_imp_distinct_iff mset_map)
  then have "cmd_id c \<notin> cmd_id ` set cs" by simp
  then have "\<forall>x\<in>set cs. cmd_id x \<noteq> cmd_id c" by (metis imageI)
  then have "filter (\<lambda>x. cmd_id x \<noteq> cmd_id c) (c # cs) = cs" by (simp add: filter_id_conv)
  then have "filter (\<lambda>x. cmd_id x \<noteq> cmd_id c) (sort_key ?k (filter ?P ?t)) = cs"
    using assms(2) by (simp add: pending_commands_def order_asc_def sql_select_def)
  then have "sort_key ?k (filter (\<lambda>x. cmd_id x \<noteq> cmd_id c) (filter ?P ?t)) = cs"
    by (simp only: filter_sort)
  then show ?thesis
    unfolding pending_commands_def order_asc_def sql_select_def expire_command_def publish_fields
      on_adb_def finish_command_def update_commands_def
    by (simp add: upd)
qed

lemma get_command_id: "get_command k d = Some c \<Longrightarrow> cmd_id c = k"
  by (auto simp: get_command_def dest: get_by_key)

lemma expire_status:
  assumes "agent_db_ok (adb s)" and "c \<in> set (pending_commands b (adb s))"
  shows "map_option cmd_status (get_command k (adb (expire_command now b c s))) =
    (if k = cmd_id c then Some CFailed else map_option cmd_status (get_command k (adb s)))"
proof -
  have c: "c \<in> set (commands (adb s))" "cmd_status c = CQueued" using pending_in[OF assms(2)] by simp_all
  have get: "get_command (cmd_id c) (adb s) = Some c"
    using get_by_self[of cmd_id, OF _ c(1)] assms(1) by (simp add: agent_db_ok_def get_command_def)
  have ex: "get_command k (adb (expire_command now b c s)) =
      get_command k (finish_command now (cmd_id c) None (Some ''Command expired before delivery'') (adb s))"
    unfolding expire_command_def get_command_def publish_fields on_adb_def by simp
  show ?thesis
  proof (cases "k = cmd_id c")
    case True
    show ?thesis
      unfolding ex using True get c(2) by (simp add: finish_command_def get_update_commands)
  next
    case False
    then have "map_option cmd_status (map_option (\<lambda>x. if cmd_id x = cmd_id c \<and> Q x then f x else x)
        (get_command k (adb s))) = map_option cmd_status (get_command k (adb s))" for Q f
      by (cases "get_command k (adb s)") (auto dest: get_command_id)
    with False show ?thesis by (simp add: ex finish_command_def get_update_commands)
  qed
qed

lemma expire_active:
  assumes "c \<in> set (pending_commands b (adb s))" and "active_command b (adb s) = None"
  shows "active_command b (adb (expire_command now b c s)) = None"
proof -
  have none: "filter (\<lambda>x. cmd_binding x = b \<and> in_flight (cmd_status x)) (commands (adb s)) = []"
  proof -
    have "set (filter (\<lambda>x. cmd_binding x = b \<and> in_flight (cmd_status x)) (commands (adb s))) =
        set (order_asc (\<lambda>c. iso_rank (cmd_created c))
         (sql_select (\<lambda>c. cmd_binding c = b \<and> in_flight (cmd_status c)) (commands (adb s))))"
      by (simp add: table_simps)
    also have "\<dots> = {}" using assms(2) by (simp add: active_command_def split: list.splits)
    finally show ?thesis by simp
  qed
  have "filter (\<lambda>x. cmd_binding x = b \<and> in_flight (cmd_status x)) (sql_update Q f t) = []"
    if "filter (\<lambda>x. cmd_binding x = b \<and> in_flight (cmd_status x)) t = []"
      "\<And>x. \<not> in_flight (cmd_status (f x))" for Q f t
    using that by (induction t) (auto simp: sql_update_def split: if_splits)
  from this[OF none] show ?thesis
    unfolding active_command_def order_asc_def sql_select_def expire_command_def publish_fields
      on_adb_def finish_command_def update_commands_def
    by (simp add: in_flight_def)
qed

lemma deliver_status:
  assumes "agent_db_ok (adb s)" and "c \<in> set (pending_commands b (adb s))"
  shows "map_option cmd_status (get_command k (adb (deliver_command now b sk c s))) =
    (if k = cmd_id c then Some CDelivered else map_option cmd_status (get_command k (adb s)))"
proof -
  have c: "c \<in> set (commands (adb s))" "cmd_status c = CQueued" using pending_in[OF assms(2)] by simp_all
  have get: "get_command (cmd_id c) (adb s) = Some c"
    using get_by_self[of cmd_id, OF _ c(1)] assms(1) by (simp add: agent_db_ok_def get_command_def)
  have ex: "get_command k (adb (deliver_command now b sk c s)) =
      get_command k (mark_delivered now (cmd_id c) (adb s))"
    unfolding deliver_command_def get_command_def publish_fields on_adb_def by simp
  show ?thesis
  proof (cases "k = cmd_id c")
    case True
    show ?thesis unfolding ex using True get c(2) by (simp add: mark_delivered_def get_update_commands)
  next
    case False
    then have "map_option cmd_status (map_option (\<lambda>x. if cmd_id x = cmd_id c \<and> Q x then f x else x)
        (get_command k (adb s))) = map_option cmd_status (get_command k (adb s))" for Q f
      by (cases "get_command k (adb s)") (auto dest: get_command_id)
    with False show ?thesis by (simp add: ex mark_delivered_def get_update_commands)
  qed
qed

lemma pending_distinct:
  assumes "agent_db_ok d"
  shows "distinct (map cmd_id (pending_commands b d))"
proof -
  have "distinct (map cmd_id (sql_select (\<lambda>c. cmd_binding c = b \<and> cmd_status c = CQueued) (commands d)))"
    using assms by (simp add: agent_db_ok_def keys_distinct_def sql_select_def distinct_map_filter)
  moreover have "mset (map cmd_id (pending_commands b d)) =
      mset (map cmd_id (sql_select (\<lambda>c. cmd_binding c = b \<and> cmd_status c = CQueued) (commands d)))"
    by (simp add: pending_commands_def order_asc_def)
  ultimately show ?thesis by (metis mset_eq_imp_distinct_iff)
qed

definition command_frame :: "command \<Rightarrow> frame" where
  "command_frame c = CommandFrame (cmd_id c) (cmd_binding c) (cmd_type c) (cmd_payload c) (cmd_created c)"

text \<open>The reference definition of a dispatch: what is sent, and the status of each command after.\<close>

definition sent_by_dispatch :: "instant \<Rightarrow> nat \<Rightarrow> command list \<Rightarrow> (nat \<times> frame) list" where
  "sent_by_dispatch now sk q = map (\<lambda>c. (sk, command_frame c)) (take 1 (dropWhile (expired now) q))"

definition status_by_dispatch ::
  "instant \<Rightarrow> command list \<Rightarrow> string \<Rightarrow> command_status option \<Rightarrow> command_status option" where
  "status_by_dispatch now q k st =
     (if k \<in> cmd_id ` set (takeWhile (expired now) q) then Some CFailed
      else if k \<in> cmd_id ` set (take 1 (dropWhile (expired now) q)) then Some CDelivered
      else st)"

lemma expire_agent_db_ok: "agent_db_ok (adb s) \<Longrightarrow> agent_db_ok (adb (expire_command now b c s))"
  unfolding expire_command_def by (intro publish_ok) (simp add: on_adb_def)

lemma expire_fields [simp]:
  "sockets (expire_command now b c s) = sockets s" "outbox (expire_command now b c s) = outbox s"
  by (simp_all add: expire_command_def on_adb_def)

text \<open>C3: \<open>dispatchNext\<close> for a connected binding with no command in flight is the reference
  definition: the commands at the front of the queue that are older than five minutes fail, the
  first one that is not is sent once and becomes delivered, and no other command changes.\<close>

theorem dispatch_next_is_reference:
  assumes "agent_db_ok (adb s)" and "sockets s b = Some sk" and "ok sk"
    and "active_command b (adb s) = None"
  shows "outbox (dispatch_next ok now b s) =
      outbox s @ sent_by_dispatch now sk (pending_commands b (adb s)) \<and>
    (\<forall>k. map_option cmd_status (get_command k (adb (dispatch_next ok now b s))) =
      status_by_dispatch now (pending_commands b (adb s)) k
        (map_option cmd_status (get_command k (adb s))))"
  using assms
proof (induction "pending_commands b (adb s)" arbitrary: s)
  case Nil
  from Nil.hyps[symmetric] Nil.prems show ?case
    by (simp add: dispatch_next.simps[of ok now b s] sent_by_dispatch_def status_by_dispatch_def)
next
  case (Cons c cs)
  let ?s = "expire_command now b c s"
  note q = Cons.hyps(2)[symmetric]
  have mem: "c \<in> set (pending_commands b (adb s))" using q by simp
  have new: "cmd_id c \<notin> cmd_id ` set cs"
    using pending_distinct[OF Cons.prems(1), of b] by (simp add: q)
  show ?case
  proof (cases "expired now c")
    case True
    have ih: "outbox (dispatch_next ok now b ?s) = outbox ?s @ sent_by_dispatch now sk cs \<and>
        (\<forall>k. map_option cmd_status (get_command k (adb (dispatch_next ok now b ?s))) =
          status_by_dispatch now cs k (map_option cmd_status (get_command k (adb ?s))))"
      using Cons.hyps(1)[of ?s] pending_after_expire[OF Cons.prems(1) q]
        expire_agent_db_ok[OF Cons.prems(1)] expire_active[OF mem Cons.prems(4)] Cons.prems(2,3)
      by simp
    have st: "status_by_dispatch now cs k (map_option cmd_status (get_command k (adb ?s))) =
        status_by_dispatch now (c # cs) k (map_option cmd_status (get_command k (adb s)))" for k
      using new True expire_status[OF Cons.prems(1) mem, of k now]
      by (auto simp: status_by_dispatch_def dest: set_takeWhileD in_set_takeD set_dropWhileD)
    have "dispatch_next ok now b s = dispatch_next ok now b ?s"
      using Cons.prems q True by (simp add: dispatch_next.simps[of ok now b s])
    with ih st q True show ?thesis by (simp add: sent_by_dispatch_def)
  next
    case False
    have "dispatch_next ok now b s = deliver_command now b sk c s"
      using Cons.prems q False by (simp add: dispatch_next.simps[of ok now b s])
    then show ?thesis
      using deliver_status[OF Cons.prems(1) mem, of _ now sk] False
      by (simp add: q sent_by_dispatch_def status_by_dispatch_def command_frame_def)
        (simp add: deliver_command_def on_adb_def)
  qed
qed

lemma dispatch_next_is_reference_witness:
  "map_option cmd_status (get_command ''x'' (adb (dispatch_next (\<lambda>_. True) 7 ''b''
     (sample_agents [sample_command ''x'' CQueued])))) = Some CDelivered"
proof -
  let ?s = "sample_agents [sample_command ''x'' CQueued]"
  have "active_command ''b'' (adb ?s) = None"
    by (simp add: active_command_def sql_select_def order_asc_def in_flight_def)
  moreover have "pending_commands ''b'' (adb ?s) = [sample_command ''x'' CQueued]"
    by (simp add: pending_commands_def sql_select_def order_asc_def)
  ultimately show ?thesis
    using dispatch_next_is_reference[of ?s "''b''" 2 "\<lambda>_. True" 7]
    by (simp add: sample_ok status_by_dispatch_def expired_def)
qed

section \<open>Requests and lines\<close>

text \<open>Only a response of the agent resolves a request.\<close>

definition resolves_nothing :: "agent_service \<Rightarrow> agent_service \<Rightarrow> bool" where
  "resolves_nothing s s' \<longleftrightarrow>
     (\<forall>i v. (i, FsResolved v) \<in> set (fs_settled s') \<longrightarrow> (i, FsResolved v) \<in> set (fs_settled s))"

lemma resolves_nothing_same: "fs_settled s' = fs_settled s \<Longrightarrow> resolves_nothing s s'"
  by (simp add: resolves_nothing_def)

lemma resolves_nothing_closed: "resolves_nothing s (socket_closed now sk s)"
  by (auto simp: resolves_nothing_def socket_closed_def Let_def forget_timer_def on_adb_def reject_fs_def
      split: option.splits)

lemma resolves_nothing_dispatch: "resolves_nothing s (dispatch_next ok now b s)"
proof (rule dispatch_next_keeps[of resolves_nothing])
  show "resolves_nothing s s" for s by (simp add: resolves_nothing_def)
  show "resolves_nothing s t \<Longrightarrow> resolves_nothing t u \<Longrightarrow> resolves_nothing s u" for s t u
    by (simp add: resolves_nothing_def)
  show "resolves_nothing s (expire_command now b c s)" for c s
    by (rule resolves_nothing_same) (simp add: expire_command_def on_adb_def)
  show "resolves_nothing s (deliver_command now b sk c s)" for c sk s
    by (rule resolves_nothing_same) (simp add: deliver_command_def on_adb_def)
qed (rule resolves_nothing_closed)

lemma dispatch_after:
  "fs_settled t = fs_settled s \<Longrightarrow> resolves_nothing s (dispatch_next ok now b t)"
  using resolves_nothing_dispatch[of t] by (simp add: resolves_nothing_def)

lemma settled_complete: "resolves_nothing s (agent_complete ok now b cid out s)"
  by (auto simp: agent_complete_def Let_def on_adb_def resolves_nothing_same split: option.split
      intro!: dispatch_after)

lemma settled_fail: "resolves_nothing s (agent_fail ok now b cid err s)"
  by (auto simp: agent_fail_def Let_def on_adb_def resolves_nothing_same split: option.split
      intro!: dispatch_after)

lemma settled_ack: "resolves_nothing s (agent_ack now b cid s)"
  by (rule resolves_nothing_same) (simp add: agent_ack_def on_adb_def split: option.split)

lemma settled_status: "resolves_nothing s (agent_status now b v s)"
  by (rule resolves_nothing_same) (simp add: agent_status_def on_adb_def split: option.split json.split)

lemma settled_log: "resolves_nothing s (snd (agent_log ok now sk b v s))"
  by (rule resolves_nothing_same) (simp add: agent_log_def send_def Let_def split: option.split list.split)

lemma settled_hello: "resolves_nothing s (snd (hello auth ok now sk msg s))"
proof -
  have "resolves_nothing s (snd (register_agent ok now sk b version host caps s))" for b version host caps
  proof -
    define t where "t = (case sockets s b of
        Some old \<Rightarrow> if old \<noteq> sk then close_socket old s else s | None \<Rightarrow> s)"
    have t: "fs_settled t = fs_settled s" by (simp add: t_def close_socket_def split: option.split)
    show ?thesis
    proof (cases "ok sk")
      case True
      then show ?thesis
        unfolding register_agent_def t_def[symmetric] Let_def
        by (simp add: exec_simps send_def on_adb_def forget_timer_def)
          (rule dispatch_after, simp add: t)
    next
      case False
      then show ?thesis
        unfolding register_agent_def t_def[symmetric] Let_def
        by (simp add: exec_simps send_def on_adb_def forget_timer_def t resolves_nothing_same)
    qed
  qed
  then show ?thesis
    by (auto simp: hello_def close_socket_def split: option.split json.split intro: resolves_nothing_same)
qed



text \<open>A socket that has not been let in by a \<open>hello\<close> changes nothing: at most it is closed.\<close>

theorem unknown_socket_is_powerless:
  assumes "bound s sk = None" and "parse_message jp raw = Some msg"
    and "string_field msg ''type'' \<noteq> Some ''hello''"
  shows "snd (handle_message jp auth ok now sk raw s) \<in> {s, close_socket sk s}"
  using assms by (auto simp: handle_message_def split: option.split)

lemma unknown_socket_is_powerless_witness:
  "commands (adb (snd (handle_message (\<lambda>_. None) (\<lambda>_. None) (\<lambda>_. True) 7 5
     (RawObject (JObj [(''type'', JStr ''log'')])) (sample_agents [])))) = []"
  using unknown_socket_is_powerless[of "sample_agents []" 5 "\<lambda>_. None"
      "RawObject (JObj [(''type'', JStr ''log'')])" "JObj [(''type'', JStr ''log'')]"
      "\<lambda>_. None" "\<lambda>_. True" 7]
  by (auto simp: parse_message_def string_field_def close_socket_def)

text \<open>A command that has succeeded or failed stays as it is, with its output and error, over
  every run of the service: later acknowledgements, reports, reconnections and expiry included.\<close>

theorem finished_commands_stay:
  assumes "(agent_step jp)\<^sup>*\<^sup>* s t" and "get_command k (adb s) = Some c" and "finished (cmd_status c)"
  shows "get_command k (adb t) = Some c"
  using command_rows.final_rows_stay[OF assms] .

lemma finished_commands_stay_witness:
  "get_command ''x'' (adb (agent_act (\<lambda>_. None) (\<lambda>_. None) (\<lambda>_. True) 7 (GClosed 2)
     (sample_agents [sample_command ''x'' CFailed]))) = Some (sample_command ''x'' CFailed)"
  by (rule finished_commands_stay[of "\<lambda>_. None" "sample_agents [sample_command ''x'' CFailed]"],
      intro r_into_rtranclp agent_step.intros)
    (simp_all add: get_command_def table_simps finished_def)

text \<open>C9: a request for the live file system is settled at most once, and is resolved with a result
  only by a response from the socket it was sent to, while that socket serves the binding it is
  for.\<close>

theorem fs_request_settles_once:
  assumes "agent_reachable jp s"
  shows "distinct (map fst (pending_fs s) @ map fst (fs_settled s)) \<and>
    (let s' = snd (handle_message jp auth ok now sk raw s) in
     \<forall>i v. (i, FsResolved v) \<in> set (fs_settled s') \<longrightarrow> (i, FsResolved v) \<notin> set (fs_settled s) \<longrightarrow>
       (\<exists>p. map_of (pending_fs s) i = Some p \<and> fs_socket p = sk \<and> bound s sk = Some (fs_binding p)))"
proof -
  have touched: "(i, FsResolved v) \<in> set (fs_settled s)"
    if "resolves_nothing (on_adb f s) s'" "(i, FsResolved v) \<in> set (fs_settled s')" for f s' i v
    using that by (auto simp: resolves_nothing_def on_adb_def)
  have resp: "(i, FsResolved v) \<in> set (fs_settled s) \<or>
      (\<exists>p. map_of (pending_fs s) i = Some p \<and> fs_socket p = sk \<and> fs_binding p = b)"
    if "(i, FsResolved v) \<in> set (fs_settled (filesystem_response sk b msg (on_adb f s)))" for i v b msg f
    using that by (auto simp: filesystem_response_def settle_fs_def on_adb_def split: option.splits if_splits)
  have bm: "(i, FsResolved v) \<in> set (fs_settled s) \<or>
      (\<exists>p. map_of (pending_fs s) i = Some p \<and> fs_socket p = sk \<and> fs_binding p = b)"
    if "(i, FsResolved v) \<in> set (fs_settled (snd (bound_message ok now sk b ty msg (on_adb f s))))"
    for i v b ty msg f
    using that resp[of i v b msg f] touched[OF settled_status] touched[OF settled_log]
      touched[OF settled_ack] touched[OF settled_complete] touched[OF settled_fail]
    unfolding bound_message_def by (simp add: on_adb_def split: if_splits)
  have all: "(i, FsResolved v) \<in> set (fs_settled s) \<or>
      (\<exists>p. map_of (pending_fs s) i = Some p \<and> fs_socket p = sk \<and> bound s sk = Some (fs_binding p))"
    if r: "(i, FsResolved v) \<in> set (fs_settled (snd (handle_message jp auth ok now sk raw s)))" for i v
  proof -
    consider (same) "fs_settled (snd (handle_message jp auth ok now sk raw s)) = fs_settled s"
      | (hello) msg where "handle_message jp auth ok now sk raw s = hello auth ok now sk msg s"
      | (bound) msg ty b where "bound s sk = Some b"
          "handle_message jp auth ok now sk raw s = bound_message ok now sk b ty msg (on_adb (touch now b) s)"
      by (cases "parse_message jp raw"; cases "string_field (the (parse_message jp raw)) ''type''";
          cases "bound s sk"; cases "the (string_field (the (parse_message jp raw)) ''type'') = ''hello''")
        (simp_all add: handle_message_def close_socket_def)
    then show ?thesis
    proof cases
      case same
      with r show ?thesis by simp
    next
      case (hello msg)
      with r settled_hello[of s auth ok now sk msg] show ?thesis by (simp add: resolves_nothing_def)
    next
      case (bound msg ty b)
      with r bm[of i v b ty msg "touch now b"] show ?thesis by auto
    qed
  qed
  show ?thesis
    unfolding Let_def using agent_reachable_inv[OF assms] all unfolding agent_inv_def by blast
qed

lemma fs_request_settles_once_witness:
  "distinct (map fst (pending_fs (agent_act (\<lambda>_. None) (\<lambda>_. None) (\<lambda>_. True) 0 (GOpen 1)
     (new_agent_service (adb (sample_agents [])))))
     @ map fst (fs_settled (agent_act (\<lambda>_. None) (\<lambda>_. None) (\<lambda>_. True) 0 (GOpen 1)
     (new_agent_service (adb (sample_agents []))))))"
  by (rule conjunct1[OF fs_request_settles_once[OF sample_reachable]])

text \<open>C10: the log of a binding never holds more than 2000 events, its sequence numbers increase,
  and a line is never stored twice under one cursor, in every reachable state.\<close>

theorem runtime_log_is_bounded:
  assumes "agent_reachable jp s"
  shows "length (list_runtime_events b n (adb s)) \<le> 2000 \<and>
    sorted_wrt (\<lambda>e f. rt_sequence e < rt_sequence f) (list_runtime_events b n (adb s)) \<and>
    cursors_unique (list_runtime_events b n (adb s))"
proof -
  have ok: "agent_db_ok (adb s)" using agent_reachable_inv[OF assms] by (simp add: agent_inv_def)
  let ?d = "drop (length (binding_events (adb s) b) - n) (binding_events (adb s) b)"
  have sub: "set ?d \<subseteq> set (runtime_events (adb s))"
    by (auto simp: binding_events_def dest: in_set_dropD)
  have "cursors_unique (runtime_events (adb s))" using ok by (simp add: agent_db_ok_def)
  with sub have "cursors_unique ?d" unfolding cursors_unique_def by blast
  moreover have "sorted_wrt (\<lambda>e f. rt_sequence e < rt_sequence f) ?d"
    by (rule sorted_wrt_drop) (rule runtime_log.ascending[OF ok])
  moreover have "length ?d \<le> 2000"
    using ok by (auto simp: agent_db_ok_def intro: order_trans[of _ "length (binding_events (adb s) b)"])
  ultimately show ?thesis by (simp add: list_runtime_events_eq[OF ok])
qed

lemma runtime_log_is_bounded_witness:
  "length (list_runtime_events ''b'' 500 (adb (agent_act (\<lambda>_. None) (\<lambda>_. None) (\<lambda>_. True) 0
     (GCreate ''x'' ''b'' ''service.start'' JNull) (new_agent_service (adb (sample_agents [])))))) \<le> 2000"
  by (rule conjunct1[OF runtime_log_is_bounded[OF sample_reachable]])

lemma set_js_trim: "set (js_trim t) \<subseteq> set t" and length_js_trim: "length (js_trim t) \<le> length t"
proof -
  have "set (js_trim t) \<subseteq> set (dropWhile js_space t)"
    using set_dropWhileD by (fastforce simp: js_trim_def js_trim_start_def js_trim_end_def)
  then show "set (js_trim t) \<subseteq> set t" using set_dropWhileD by fastforce
  show "length (js_trim t) \<le> length t"
    using length_dropWhile_le[of js_space t] length_dropWhile_le[of js_space "rev (dropWhile js_space t)"]
    by (simp add: js_trim_def js_trim_start_def js_trim_end_def)
qed

text \<open>A console command that is accepted for an agent is a non-empty trimmed text of at most
  1000 characters without control characters other than the tab.\<close>

theorem console_payload_is_clean:
  assumes "command_payload ConsoleExecute payload = Inr q"
  shows "\<exists>c. q = JObj [(''command'', JStr c)] \<and> c \<noteq> [] \<and> length c \<le> 1000 \<and>
    (\<forall>x\<in>set c. \<not> control_char x)"
proof -
  from assms obtain c where c: "string_field payload ''command'' = Some c" "js_trim c \<noteq> []"
    "length c \<le> 1000" "\<not> list_ex control_char c" "q = JObj [(''command'', JStr (js_trim c))]"
    by (auto simp: command_payload_def split: option.splits if_splits)
  moreover have "\<forall>x\<in>set (js_trim c). \<not> control_char x"
    using c(4) set_js_trim by (auto simp: list_ex_iff)
  ultimately show ?thesis using length_js_trim[of c] by auto
qed

lemma console_payload_is_clean_witness:
  "\<exists>c. command_payload ConsoleExecute (JObj [(''command'', JStr '' say hi '')]) = Inr (JObj [(''command'', JStr c)]) \<and>
    length c \<le> 1000"
proof -
  have "command_payload ConsoleExecute (JObj [(''command'', JStr '' say hi '')]) =
      Inr (JObj [(''command'', JStr ''say hi'')])" by code_simp
  from console_payload_is_clean[OF this] this show ?thesis by auto
qed

lemma stored_cursor_stays:
  assumes "agent_db_ok d" and "append_runtime_event b ty msg cid (Some (x # xs)) stamp d = (r, d')"
  shows "agent_db_ok d' \<and>
    (\<exists>e\<in>set (runtime_events d'). rt_binding e = b \<and> rt_cursor e = Some (take 2000 (x # xs)))"
proof -
  have cur: "(case map_option (js_slice 2000) (Some (x # xs)) of Some (y # ys) \<Rightarrow> Some (y # ys) | _ \<Rightarrow> None) =
      Some (take 2000 (x # xs))" by simp
  have ok: "agent_db_ok d'" using append_runtime_event_ok[OF assms(1)] assms(2) by (metis snd_conv)
  show ?thesis
  proof (cases r)
    case None
    then have "list_ex (\<lambda>r. rt_binding r = b \<and> rt_cursor r = Some (take 2000 (x # xs))) (runtime_events d)"
      "runtime_events d' = runtime_events d"
      using assms(2) unfolding append_runtime_event_def cur Let_def by (auto split: if_splits)
    with ok show ?thesis by (auto simp: list_ex_iff)
  next
    case (Some e)
    have c: "rt_cursor e = Some (take 2000 (x # xs))" "rt_binding e = b"
      using assms(2) Some unfolding append_runtime_event_def cur Let_def by (auto split: if_splits)
    have "appends_runtime_event d b e d'"
      using assms(2) Some unfolding appends_runtime_event_def by blast
    from runtime_log.append_last[OF assms(1) this] have "e \<in> set (binding_events d' b)"
      using last_in_set by fastforce
    with c ok show ?thesis by (auto simp: binding_events_def)
  qed
qed

lemma publish_ignored:
  assumes "fst (append_runtime_event b ty msg cid cursor stamp (adb s)) = None \<and>
    runtime_events (snd (append_runtime_event b ty msg cid cursor stamp (adb s))) = runtime_events (adb s)"
  shows "runtime_events (adb (publish b ty msg cid cursor stamp s)) = runtime_events (adb s) \<and>
    heard (publish b ty msg cid cursor stamp s) = heard s"
  using assms by (cases "append_runtime_event b ty msg cid cursor stamp (adb s)") (simp add: publish_def)

text \<open>Delivery of log lines is idempotent: when the agent sends a line again under the same
  cursor, because it has not seen the acknowledgement, nothing is stored or published, and the
  acknowledgement is sent again.\<close>

theorem log_line_is_stored_once:
  assumes "agent_db_ok (adb s)" and "string_field line ''cursor'' = Some (x # xs)"
    and "string_field line ''message'' = Some msg" and "ok sk"
    and "string_field line2 ''cursor'' = Some (x # xs)" and "string_field line2 ''message'' = Some msg2"
  shows "let s1 = snd (agent_log ok t1 sk b (Some line) s);
             s2 = snd (agent_log ok t2 sk b (Some line2) s1)
         in runtime_events (adb s2) = runtime_events (adb s1) \<and> heard s2 = heard s1 \<and>
            outbox s2 = outbox s1 @ [(sk, LogAck (x # xs))]"
proof -
  define s1 where "s1 = snd (agent_log ok t1 sk b (Some line) s)"
  define ty where "ty = (case string_field line ''stream'' of
      Some st \<Rightarrow> ''log.'' @ take 32 st | None \<Rightarrow> ''log.stdout'')"
  define st where "st = (case string_field line ''createdAt'' of
      Some t \<Rightarrow> AgentTime t | None \<Rightarrow> ServerTime t1)"
  obtain r d where a: "append_runtime_event b ty msg None (Some (x # xs)) st (adb s) = (r, d)" by fastforce
  have "adb s1 = d"
    using a assms(2-4)
    by (simp add: s1_def agent_log_def Let_def ty_def st_def send_def publish_def split: option.splits)
  with stored_cursor_stays[OF assms(1) a]
  have "\<exists>e\<in>set (runtime_events (adb s1)). rt_binding e = b \<and> rt_cursor e = Some (take 2000 (x # xs))"
    by simp
  then have "fst (append_runtime_event b ty2 msg2 None (Some (x # xs)) st2 (adb s1)) = None \<and>
      runtime_events (snd (append_runtime_event b ty2 msg2 None (Some (x # xs)) st2 (adb s1))) =
        runtime_events (adb s1)" for ty2 st2
    by (auto simp: append_runtime_event_def Let_def list_ex_iff)
  then have "runtime_events (adb (publish b ty2 msg2 None (Some (x # xs)) st2 s1)) = runtime_events (adb s1) \<and>
      heard (publish b ty2 msg2 None (Some (x # xs)) st2 s1) = heard s1" for ty2 st2
    using publish_ignored by blast
  then show ?thesis
    unfolding s1_def[symmetric] Let_def
    using assms(4-6) by (simp add: agent_log_def Let_def send_def)
qed

lemma log_line_is_stored_once_witness:
  "let line = JObj [(''message'', JStr ''m''), (''cursor'', JStr ''c1'')];
       s1 = snd (agent_log (\<lambda>_. True) 1 2 ''b'' (Some line) (sample_agents []))
   in runtime_events (adb (snd (agent_log (\<lambda>_. True) 2 2 ''b'' (Some line) s1))) = runtime_events (adb s1)"
  using log_line_is_stored_once[of "sample_agents []" "JObj [(''message'', JStr ''m''), (''cursor'', JStr ''c1'')]"
      "CHR ''c''" "''1''" "''m''" "\<lambda>_. True" 2 "JObj [(''message'', JStr ''m''), (''cursor'', JStr ''c1'')]" "''m''"
      1 "''b''" 2]
  by (simp add: sample_ok string_field_def Let_def)

section \<open>Where the code falls short\<close>

lemma finish_row:
  assumes "get_command k d = Some c" and "\<not> finished (cmd_status c)"
  shows "get_command k (finish_command now k out err d) = Some
    (c\<lparr>cmd_status := (case err of Some (_ # _) \<Rightarrow> CFailed | _ \<Rightarrow> CSucceeded),
       cmd_output := map_option (js_slice 65536) out, cmd_error := map_option (js_slice 4000) err,
       cmd_started := coalesce (cmd_started c) now, cmd_finished := Some now\<rparr>)"
  using assms get_command_id[OF assms(1)]
  by (simp add: finish_command_def get_update_commands finished_def)

lemma evolves_finished:
  assumes "evolves s t" and "get_command k (adb s) = Some c" and "finished (cmd_status c)"
  shows "get_command k (adb t) = Some c"
proof -
  from assms(1,2) obtain c' where "get_command k (adb t) = Some c'" "cmd_evolves c c'"
    unfolding evolves_def forward_def by blast
  with assms(3) show ?thesis by (simp add: cmd_evolves_def)
qed

text \<open>A failure reported with an empty text is stored as a success: \<open>finishCommand\<close> takes the
  empty error for no error, although the event of the same report says \<open>command.failed\<close>.\<close>

lemma empty_failure_counts_as_success:
  assumes "own_command b (Some (JStr k)) s = Some c" and "\<not> finished (cmd_status c)"
  shows "map_option cmd_status (get_command k
    (adb (agent_fail ok now b (Some (JStr k)) (Some (JStr [])) s))) = Some CSucceeded"
proof -
  have k: "get_command k (adb s) = Some c" "cmd_id c = k"
    using assms(1) get_command_id by (auto simp: own_command_def split: option.splits if_splits)
  let ?s = "publish b ''command.failed'' [] (Some k) None (ServerTime now)
     (on_adb (finish_command now k None (Some [])) s)"
  have c: "get_command k (adb ?s) = get_command k (finish_command now k None (Some []) (adb s))"
    unfolding get_command_def publish_fields on_adb_def by simp
  from finish_row[OF k(1) assms(2)] c obtain c' where
    c': "get_command k (adb ?s) = Some c'" "cmd_status c' = CSucceeded" by simp
  from evolves_finished[OF evolves_dispatch c'(1)] c'(2) show ?thesis
    using assms(1) by (simp add: agent_fail_def Let_def k(2) finished_def)
qed

lemma empty_failure_counts_as_success_witness:
  "map_option cmd_status (get_command ''x'' (adb (agent_fail (\<lambda>_. True) 7 ''b'' (Some (JStr ''x''))
     (Some (JStr [])) (sample_agents [sample_command ''x'' CRunning])))) = Some CSucceeded"
  by (rule empty_failure_counts_as_success[of _ _ _ "sample_command ''x'' CRunning"])
    (simp_all add: own_command_def get_command_def table_simps finished_def)

lemma active_None: "active_command b d = None \<longleftrightarrow>
    (\<forall>c\<in>set (commands d). cmd_binding c = b \<longrightarrow> \<not> in_flight (cmd_status c))"
proof -
  let ?l = "order_asc (\<lambda>c. iso_rank (cmd_created c))
     (sql_select (\<lambda>c. cmd_binding c = b \<and> in_flight (cmd_status c)) (commands d))"
  have "active_command b d = None \<longleftrightarrow> set ?l = {}" by (simp add: active_command_def split: list.split)
  also have "\<dots> \<longleftrightarrow> (\<forall>c\<in>set (commands d). cmd_binding c = b \<longrightarrow> \<not> in_flight (cmd_status c))"
    by (auto simp: table_simps)
  finally show ?thesis .
qed

lemma dispatch_blocked: "active_command b (adb s) \<noteq> None \<Longrightarrow> dispatch_next ok now b s = s"
  by (simp add: dispatch_next.simps[of ok now b s] split: option.split)

text \<open>C11: when an agent connects again before the server notices that its old connection is gone,
  the command in flight on the old socket \<open>old\<close> is lost: closing \<open>old\<close> neither queues it again nor
  sends it to the new socket, and it blocks every later dispatch to the connected agent. \<open>close\<close>
  requeues the commands in flight only when the closed socket is still the active one.\<close>

theorem takeover_strands_the_command:
  assumes "sockets s b = Some new" and "old \<noteq> new" and "bound s old = Some b"
    and "active_command b (adb s) \<noteq> None"
  shows "let s' = socket_closed now old s in
    commands (adb s') = commands (adb s) \<and> sockets s' b = Some new \<and>
    dispatch_next ok t b s' = s' \<and>
    outbox (snd (create_command ok t cid b ty payload s')) = outbox s'"
proof -
  let ?s = "socket_closed now old s"
  have c: "commands (adb ?s) = commands (adb s)" "sockets ?s b = Some new"
    using assms(1-3) by (simp_all add: socket_closed_def Let_def forget_timer_def)
  have act: "active_command b (adb ?s) \<noteq> None" using assms(4) by (simp add: active_None c(1))
  have "outbox (snd (create_command ok t cid b ty payload ?s)) = outbox ?s"
  proof (cases "command_type_of ty")
    case None
    then show ?thesis by (simp add: create_command_def exec_simps)
  next
    case (Some x)
    show ?thesis
    proof (cases "command_payload x payload")
      case (Inl e)
      with Some show ?thesis by (simp add: create_command_def exec_simps)
    next
      case (Inr p)
      obtain r d where i: "insert_command cid t b x p (adb ?s) = (r, d)" by fastforce
      then have "set (commands (adb ?s)) \<subseteq> set (commands d)"
        by (auto simp: insert_command_def sql_insert_def split: if_splits)
      then have "active_command b d \<noteq> None" using act by (auto simp: active_None)
      then have "active_command b (adb (publish b q m (Some cid) None st (?s\<lparr>adb := d\<rparr>))) \<noteq> None" for q m st
        by (simp add: active_None)
      note dispatch_blocked[OF this]
      then show ?thesis using Some Inr i
        by (cases r) (simp_all add: create_command_def exec_simps)
    qed
  qed
  with c act dispatch_blocked[OF act] show ?thesis by (simp add: Let_def)
qed

lemma takeover_strands_the_command_witness:
  "let s' = socket_closed 7 1 (sample_agents [sample_command ''x'' CDelivered]) in
   commands (adb s') = [sample_command ''x'' CDelivered] \<and> dispatch_next (\<lambda>_. True) 8 ''b'' s' = s'"
  using takeover_strands_the_command[of "sample_agents [sample_command ''x'' CDelivered]" "''b''" 2 1 7
      "\<lambda>_. True" 8]
  by (simp add: active_None in_flight_def Let_def)

end
