(* ===== verification/Event_Hub.thy ===== *)
theory Event_Hub
  imports Prelude
begin

text \<open>
  \<^verbatim>\<open>apps/api/src/modules/jobs/jobs.events.ts\<close> and \<^verbatim>\<open>servers/server-agent.events.ts\<close>: the hubs that
  hand events to listeners. Both keep a \<open>Map\<close> from a topic (a job, a binding) to a \<open>Set\<close> of
  listeners; the model keeps the identity of the \<open>Set\<close> objects, because the function that
  \<open>subscribe\<close> returns works on the object it closed over. Then the contract of a hub as a locale.
\<close>

section \<open>The hubs\<close>

record 'l hub =
  next_set :: nat
  set_objects :: "nat \<Rightarrow> 'l list"
  topics :: "string \<Rightarrow> nat option"

record 'l subscription =
  sub_topic :: string
  sub_set :: nat
  sub_listener :: 'l

definition empty_hub :: "'l hub" where
  "empty_hub = \<lparr>next_set = 0, set_objects = (\<lambda>_. []), topics = (\<lambda>_. None)\<rparr>"

text \<open>The listeners that \<open>publish\<close> calls for a topic, in order.\<close>

definition hub_listeners :: "'l hub \<Rightarrow> string \<Rightarrow> 'l list" where
  "hub_listeners h k = (case topics h k of None \<Rightarrow> [] | Some i \<Rightarrow> set_objects h i)"

definition hub_subscribe :: "string \<Rightarrow> 'l \<Rightarrow> 'l hub \<Rightarrow> 'l subscription \<times> 'l hub" where
  "hub_subscribe k l h =
     (let (i, h) = (case topics h k of
            Some i \<Rightarrow> (i, h)
          | None \<Rightarrow> (next_set h, h\<lparr>next_set := Suc (next_set h),
                       set_objects := (set_objects h)(next_set h := [])\<rparr>));
          s = set_objects h i;
          h = h\<lparr>set_objects := (set_objects h)(i := if l \<in> set s then s else s @ [l]),
                topics := (topics h)(k \<mapsto> i)\<rparr>
      in (\<lparr>sub_topic = k, sub_set = i, sub_listener = l\<rparr>, h))"

text \<open>The returned function: it works on its own \<open>Set\<close>, and clears the topic when that is empty.\<close>

definition hub_unsubscribe :: "'l subscription \<Rightarrow> 'l hub \<Rightarrow> 'l hub" where
  "hub_unsubscribe u h =
     (let s = filter (\<lambda>l. l \<noteq> sub_listener u) (set_objects h (sub_set u));
          h = h\<lparr>set_objects := (set_objects h)(sub_set u := s)\<rparr>
      in if s = [] then h\<lparr>topics := (topics h)(sub_topic u := None)\<rparr> else h)"

text \<open>\<open>publish\<close>: a listener removed while the \<open>Set\<close> is walked is not called any more.\<close>

fun call_listeners ::
  "nat \<Rightarrow> ('l \<Rightarrow> 's \<Rightarrow> 's) \<Rightarrow> ('s \<Rightarrow> 'l hub) \<Rightarrow> 'l list \<Rightarrow> 's \<Rightarrow> 's" where
  "call_listeners i call hub_of [] s = s"
| "call_listeners i call hub_of (l # ls) s =
     call_listeners i call hub_of ls (if l \<in> set (set_objects (hub_of s) i) then call l s else s)"

definition hub_publish ::
  "string \<Rightarrow> ('l \<Rightarrow> 's \<Rightarrow> 's) \<Rightarrow> ('s \<Rightarrow> 'l hub) \<Rightarrow> 's \<Rightarrow> 's" where
  "hub_publish k call hub_of s =
     (case topics (hub_of s) k of
        None \<Rightarrow> s
      | Some i \<Rightarrow> call_listeners i call hub_of (set_objects (hub_of s) i) s)"

section \<open>The contract\<close>

definition hub_ok :: "'l hub \<Rightarrow> bool" where
  "hub_ok h \<longleftrightarrow>
     (\<forall>k i. topics h k = Some i \<longrightarrow> i < next_set h \<and> set_objects h i \<noteq> [] \<and> distinct (set_objects h i)) \<and>
     (\<forall>k k' i. topics h k = Some i \<longrightarrow> topics h k' = Some i \<longrightarrow> k = k')"

lemma hub_okD:
  assumes "hub_ok h" and "topics h k = Some i"
  shows "i < next_set h" "set_objects h i \<noteq> []" "distinct (set_objects h i)"
    "topics h k' = Some i \<Longrightarrow> k' = k"
  using assms unfolding hub_ok_def by blast+

lemma hub_okI:
  assumes "\<And>k i. topics h k = Some i \<Longrightarrow>
      i < next_set h \<and> set_objects h i \<noteq> [] \<and> distinct (set_objects h i)"
    and "\<And>k k' i. topics h k = Some i \<Longrightarrow> topics h k' = Some i \<Longrightarrow> k = k'"
  shows "hub_ok h"
  using assms unfolding hub_ok_def by blast

text \<open>A subscription is live when its \<open>Set\<close> is the topic's and holds its listener.\<close>

definition live_sub :: "'l hub \<Rightarrow> 'l subscription \<Rightarrow> bool" where
  "live_sub h u \<longleftrightarrow> topics h (sub_topic u) = Some (sub_set u) \<and>
     sub_listener u \<in> set (set_objects h (sub_set u))"

locale subscription_hub =
  fixes listeners :: "'h \<Rightarrow> string \<Rightarrow> 'l list"
    and subscribe :: "string \<Rightarrow> 'l \<Rightarrow> 'h \<Rightarrow> 'u \<times> 'h"
    and unsubscribe :: "'u \<Rightarrow> 'h \<Rightarrow> 'h"
    and good :: "'h \<Rightarrow> bool"
    and live :: "'h \<Rightarrow> 'u \<Rightarrow> bool"
    and topic :: "'u \<Rightarrow> string"
    and listener :: "'u \<Rightarrow> 'l"
  assumes subscribe_adds: "good h \<Longrightarrow> (\<And>k'. l \<notin> set (listeners h k')) \<Longrightarrow> subscribe k l h = (u, h') \<Longrightarrow>
      good h' \<and> listeners h' = (listeners h)(k := listeners h k @ [l]) \<and> live h' u \<and>
      topic u = k \<and> listener u = l \<and> (\<forall>v. live h v \<longrightarrow> live h' v)"
    and unsubscribe_removes: "good h \<Longrightarrow> live h u \<Longrightarrow>
      good (unsubscribe u h) \<and>
      listeners (unsubscribe u h) =
        (listeners h)(topic u := filter (\<lambda>l. l \<noteq> listener u) (listeners h (topic u))) \<and>
      (\<forall>v. live h v \<longrightarrow> (topic v \<noteq> topic u \<or> listener v \<noteq> listener u) \<longrightarrow> live (unsubscribe u h) v)"
    and live_listens: "good h \<Longrightarrow> live h u \<Longrightarrow> listener u \<in> set (listeners h (topic u))"
    and listeners_once: "good h \<Longrightarrow> distinct (listeners h k)"
begin

text \<open>Subscribing and unsubscribing a new listener leaves every topic as it was.\<close>

lemma unsubscribe_subscribe:
  assumes "good h" and "\<And>k'. l \<notin> set (listeners h k')" and "subscribe k l h = (u, h')"
  shows "listeners (unsubscribe u h') = listeners h"
proof -
  from subscribe_adds[OF assms] have h': "good h'" "live h' u" "topic u = k" "listener u = l"
    "listeners h' = (listeners h)(k := listeners h k @ [l])" by auto
  have "filter (\<lambda>x. x \<noteq> l) (listeners h k) = listeners h k"
    using assms(2)[of k] by (auto simp: filter_id_conv)
  with unsubscribe_removes[OF h'(1,2)] h' show ?thesis by (auto simp: fun_eq_iff)
qed

lemma unsubscribe_other:
  "good h \<Longrightarrow> live h u \<Longrightarrow> k \<noteq> topic u \<Longrightarrow> listeners (unsubscribe u h) k = listeners h k"
  using unsubscribe_removes[of h u] by simp

end

lemma hub_subscribe_adds:
  assumes ok: "hub_ok h" and new: "\<And>k'. l \<notin> set (hub_listeners h k')" and s: "hub_subscribe k l h = (u, h')"
  shows "hub_ok h' \<and> hub_listeners h' = (hub_listeners h)(k := hub_listeners h k @ [l]) \<and>
    live_sub h' u \<and> sub_topic u = k \<and> sub_listener u = l \<and> (\<forall>v. live_sub h v \<longrightarrow> live_sub h' v)"
proof (cases "topics h k")
  case None
  let ?i = "next_set h"
  have u: "u = \<lparr>sub_topic = k, sub_set = ?i, sub_listener = l\<rparr>"
    "h' = \<lparr>next_set = Suc ?i, set_objects = (set_objects h)(?i := [l]), topics = (topics h)(k \<mapsto> ?i)\<rparr>"
    using s None by (auto simp: hub_subscribe_def Let_def)
  have old: "\<And>k' i. topics h k' = Some i \<Longrightarrow> i < ?i" using ok by (auto simp: hub_ok_def)
  have "hub_listeners h' = (hub_listeners h)(k := hub_listeners h k @ [l])"
    using old None by (auto simp: hub_listeners_def u fun_eq_iff split: option.split)
  moreover have "hub_ok h'"
  proof (rule hub_okI)
    show "i < next_set h' \<and> set_objects h' i \<noteq> [] \<and> distinct (set_objects h' i)"
      if "topics h' k' = Some i" for k' i
      using that hub_okD(1-3)[OF ok, of k' i] by (auto simp: u split: if_splits)
    show "k1 = k2" if "topics h' k1 = Some i" "topics h' k2 = Some i" for k1 k2 i
      using that old[of k1] old[of k2] hub_okD(4)[OF ok, of k2 i k1] by (auto simp: u split: if_splits)
  qed
  moreover have "live_sub h' v" if "live_sub h v" for v
    using that old[of "sub_topic v" "sub_set v"] None by (auto simp: live_sub_def u)
  ultimately show ?thesis by (auto simp: u live_sub_def)
next
  case (Some i)
  then have "l \<notin> set (set_objects h i)" using new[of k] by (simp add: hub_listeners_def)
  then have u: "u = \<lparr>sub_topic = k, sub_set = i, sub_listener = l\<rparr>"
    "h' = h\<lparr>set_objects := (set_objects h)(i := set_objects h i @ [l]), topics := (topics h)(k \<mapsto> i)\<rparr>"
    using s Some by (auto simp: hub_subscribe_def Let_def)
  have inj: "\<And>k'. topics h k' = Some i \<Longrightarrow> k' = k" by (rule hub_okD(4)[OF ok Some])
  have "hub_listeners h' k' = ((hub_listeners h)(k := hub_listeners h k @ [l])) k'" for k'
  proof (cases "k' = k")
    case True
    with Some show ?thesis by (simp add: hub_listeners_def u)
  next
    case False
    with inj[of k'] have "topics h k' \<noteq> Some i" by blast
    with False show ?thesis by (auto simp: hub_listeners_def u split: option.split)
  qed
  then have "hub_listeners h' = (hub_listeners h)(k := hub_listeners h k @ [l])" by blast
  moreover have "hub_ok h'"
  proof (rule hub_okI)
    show "j < next_set h' \<and> set_objects h' j \<noteq> [] \<and> distinct (set_objects h' j)"
      if "topics h' k' = Some j" for k' j
      using that hub_okD(1-3)[OF ok, of k' j] hub_okD(1-3)[OF ok Some] \<open>l \<notin> set (set_objects h i)\<close>
      by (auto simp: u split: if_splits)
    show "k1 = k2" if "topics h' k1 = Some j" "topics h' k2 = Some j" for k1 k2 j
    proof -
      have "topics h' = topics h" using Some by (simp add: u fun_upd_idem)
      with that have "topics h k2 = Some j" "topics h k1 = Some j" by simp_all
      then show ?thesis by (rule hub_okD(4)[OF ok])
    qed
  qed
  moreover have "live_sub h' v" if "live_sub h v" for v
    using that Some by (auto simp: live_sub_def u)
  ultimately show ?thesis by (auto simp: u live_sub_def)
qed

lemma hub_unsubscribe_removes:
  assumes ok: "hub_ok h" and u: "live_sub h u"
  shows "hub_ok (hub_unsubscribe u h) \<and>
    hub_listeners (hub_unsubscribe u h) = (hub_listeners h)
      (sub_topic u := filter (\<lambda>l. l \<noteq> sub_listener u) (hub_listeners h (sub_topic u))) \<and>
    (\<forall>v. live_sub h v \<longrightarrow> (sub_topic v \<noteq> sub_topic u \<or> sub_listener v \<noteq> sub_listener u) \<longrightarrow>
       live_sub (hub_unsubscribe u h) v)"
proof -
  let ?k = "sub_topic u" and ?i = "sub_set u" and ?l = "sub_listener u"
  let ?s = "filter (\<lambda>l. l \<noteq> ?l) (set_objects h ?i)"
  have i: "topics h ?k = Some ?i" using u by (simp add: live_sub_def)
  have inj: "\<And>k'. topics h k' = Some ?i \<Longrightarrow> k' = ?k" by (rule hub_okD(4)[OF ok i])
  have h': "hub_unsubscribe u h = h\<lparr>set_objects := (set_objects h)(?i := ?s),
      topics := (if ?s = [] then (topics h)(?k := None) else topics h)\<rparr>"
    by (simp add: hub_unsubscribe_def Let_def)
  have "hub_listeners (hub_unsubscribe u h) =
      (hub_listeners h)(?k := filter (\<lambda>l. l \<noteq> ?l) (hub_listeners h ?k))"
  proof
    show "hub_listeners (hub_unsubscribe u h) k =
        ((hub_listeners h)(?k := filter (\<lambda>l. l \<noteq> ?l) (hub_listeners h ?k))) k" for k
    proof (cases "k = ?k")
      case True
      with i show ?thesis by (simp add: hub_listeners_def h')
    next
      case False
      with inj[of k] have "topics h k \<noteq> Some ?i" by blast
      with False show ?thesis by (auto simp: hub_listeners_def h' split: option.split)
    qed
  qed
  moreover have "hub_ok (hub_unsubscribe u h)"
  proof (rule hub_okI)
    show "j < next_set (hub_unsubscribe u h) \<and> set_objects (hub_unsubscribe u h) j \<noteq> [] \<and>
        distinct (set_objects (hub_unsubscribe u h) j)"
      if "topics (hub_unsubscribe u h) k' = Some j" for k' j
      using that hub_okD(1-3)[OF ok, of k' j] inj[of k'] unfolding h' by (auto split: if_splits)
    show "k1 = k2" if "topics (hub_unsubscribe u h) k1 = Some j"
      "topics (hub_unsubscribe u h) k2 = Some j" for k1 k2 j
      using that hub_okD(4)[OF ok, of k2 j k1] unfolding h' by (auto split: if_splits)
  qed
  moreover have "live_sub (hub_unsubscribe u h) v"
    if "live_sub h v" "sub_topic v \<noteq> ?k \<or> sub_listener v \<noteq> ?l" for v
    using that inj[of "sub_topic v"] i by (auto simp: live_sub_def h' filter_empty_conv)
  ultimately show ?thesis by blast
qed

interpretation event_hub: subscription_hub hub_listeners hub_subscribe hub_unsubscribe hub_ok live_sub
  sub_topic sub_listener
proof
  show "hub_ok h' \<and> hub_listeners h' = (hub_listeners h)(k := hub_listeners h k @ [l]) \<and>
    live_sub h' u \<and> sub_topic u = k \<and> sub_listener u = l \<and> (\<forall>v. live_sub h v \<longrightarrow> live_sub h' v)"
    if "hub_ok h" "\<And>k'. l \<notin> set (hub_listeners h k')" "hub_subscribe k l h = (u, h')"
    for h :: "'a hub" and l k u h'
    by (rule hub_subscribe_adds[OF that])
  show "hub_ok (hub_unsubscribe u h) \<and>
    hub_listeners (hub_unsubscribe u h) = (hub_listeners h)
      (sub_topic u := filter (\<lambda>l. l \<noteq> sub_listener u) (hub_listeners h (sub_topic u))) \<and>
    (\<forall>v. live_sub h v \<longrightarrow> (sub_topic v \<noteq> sub_topic u \<or> sub_listener v \<noteq> sub_listener u) \<longrightarrow>
       live_sub (hub_unsubscribe u h) v)" if "hub_ok h" "live_sub h u" for h :: "'a hub" and u
    by (rule hub_unsubscribe_removes[OF that])
  show "sub_listener u \<in> set (hub_listeners h (sub_topic u))" if "hub_ok h" "live_sub h u"
    for h :: "'a hub" and u using that by (simp add: live_sub_def hub_listeners_def)
  show "distinct (hub_listeners h k)" if "hub_ok h" for h :: "'a hub" and k
    using that by (auto simp: hub_ok_def hub_listeners_def split: option.split)
qed

end
