(* ===== verification/Browser_Events.thy ===== *)
theory Browser_Events
  imports Event_Hub Jobs_Invariant Agent_Invariant
begin

text \<open>
  \<^verbatim>\<open>jobs/jobs-browser-events.service.ts\<close> and \<^verbatim>\<open>servers/server-browser-events.service.ts\<close>: the
  WebSocket feeds of the panel. A socket asks for a topic, gets the recent history and then the
  events as they are published. \<open>ok sk\<close> says whether \<open>send\<close> on socket \<open>sk\<close> succeeds. A listener is
  the closure made by one \<open>open\<close>: a fresh number and the socket it captured.
\<close>

section \<open>State\<close>

datatype 'e feed_frame =
    History "'e list" "bool option"
  | Live 'e
  | Pong instant

type_synonym feed_listener = "nat \<times> nat"

record 'e browser =
  hub :: "feed_listener hub"
  next_listener :: nat
  subscriptions :: "nat \<Rightarrow> feed_listener subscription option"
  frames :: "(nat \<times> 'e feed_frame) list"
  closed_with :: "(nat \<times> nat) list"

definition new_browser :: "'e browser" where
  "new_browser = \<lparr>hub = empty_hub, next_listener = 0, subscriptions = (\<lambda>_. None), frames = [],
     closed_with = []\<rparr>"

definition put_frame :: "nat \<Rightarrow> 'e feed_frame \<Rightarrow> 'e browser \<Rightarrow> 'e browser" where
  "put_frame sk f b = b\<lparr>frames := frames b @ [(sk, f)]\<rparr>"

definition close_with :: "nat \<Rightarrow> nat \<Rightarrow> 'e browser \<Rightarrow> 'e browser" where
  "close_with sk code b = b\<lparr>closed_with := closed_with b @ [(sk, code)]\<rparr>"

text \<open>\<open>close\<close>, the same in both services.\<close>

definition browser_close :: "nat \<Rightarrow> 'e browser \<Rightarrow> 'e browser" where
  "browser_close sk b =
     (case subscriptions b sk of
        None \<Rightarrow> b
      | Some u \<Rightarrow> b\<lparr>hub := hub_unsubscribe u (hub b), subscriptions := (subscriptions b)(sk := None)\<rparr>)"

definition browser_subscribe :: "nat \<Rightarrow> string \<Rightarrow> 'e browser \<Rightarrow> 'e browser" where
  "browser_subscribe sk k b =
     (case hub_subscribe k (next_listener b, sk) (hub b) of (u, h) \<Rightarrow>
        b\<lparr>hub := h, next_listener := Suc (next_listener b),
          subscriptions := (subscriptions b)(sk \<mapsto> u)\<rparr>)"

text \<open>The closure \<open>sendEvent\<close>; \<open>fin\<close> are the events that end the feed.\<close>

definition send_event ::
  "('e \<Rightarrow> bool) \<Rightarrow> (nat \<Rightarrow> bool) \<Rightarrow> 'e \<Rightarrow> feed_listener \<Rightarrow> 'e browser \<Rightarrow> 'e browser" where
  "send_event fin ok e l b =
     (let sk = snd l in
      if ok sk then
        let b = put_frame sk (Live e) b in
        if fin e then close_with sk 1000 (browser_close sk b) else b
      else close_with sk 1011 (browser_close sk b))"

section \<open>The feed of a job\<close>

definition terminal_job_event :: "job_event \<Rightarrow> bool" where
  "terminal_job_event e \<longleftrightarrow> ev_type e \<in> {EvCompleted, EvFailed, EvCancelled}"

definition terminal_job_status :: "job_status \<Rightarrow> bool" where
  "terminal_job_status st \<longleftrightarrow> st \<in> {Succeeded, Failed, Cancelled}"

definition job_feed_open ::
  "(nat \<Rightarrow> bool) \<Rightarrow> jobs_db \<Rightarrow> nat \<Rightarrow> string \<Rightarrow> job_event browser \<Rightarrow> job_event browser" where
  "job_feed_open ok db sk jid b =
     (case get_job db jid of
        None \<Rightarrow> close_with sk 1008 b
      | Some j \<Rightarrow>
          let b = browser_close sk b;
              fin = terminal_job_status (status j);
              b = (if \<not> fin then browser_subscribe sk jid b else b)
          in if ok sk then put_frame sk (History (list_recent_events jid 1000 db) (Some fin)) b
             else close_with sk 1011 (browser_close sk b))"

definition job_publish :: "(nat \<Rightarrow> bool) \<Rightarrow> job_event \<Rightarrow> job_event browser \<Rightarrow> job_event browser" where
  "job_publish ok e b = hub_publish (ev_job e) (send_event terminal_job_event ok e) hub b"

section \<open>The feed of a server\<close>

definition server_feed_open ::
  "(nat \<Rightarrow> bool) \<Rightarrow> agent_db \<Rightarrow> nat \<Rightarrow> string \<Rightarrow> runtime_event browser \<Rightarrow> runtime_event browser" where
  "server_feed_open ok db sk k b =
     (let b = browser_subscribe sk k (browser_close sk b)
      in if ok sk then put_frame sk (History (list_runtime_events k 500 db) None) b
         else close_with sk 1011 (browser_close sk b))"

definition server_publish ::
  "(nat \<Rightarrow> bool) \<Rightarrow> runtime_event option \<Rightarrow> runtime_event browser \<Rightarrow> runtime_event browser" where
  "server_publish ok e b =
     (case e of
        None \<Rightarrow> b
      | Some e \<Rightarrow> hub_publish (rt_binding e) (send_event (\<lambda>_. False) ok e) hub b)"

text \<open>\<open>message\<close> and \<open>parse\<close>, the same in both services: a ping is answered.\<close>

definition browser_message ::
  "(string \<Rightarrow> json option) \<Rightarrow> (nat \<Rightarrow> bool) \<Rightarrow> instant \<Rightarrow> nat \<Rightarrow> raw_message \<Rightarrow> 'e browser \<Rightarrow> 'e browser" where
  "browser_message jp ok now sk raw b =
     (case Option.bind (parse_message jp raw) (\<lambda>m. string_field m ''type'') of
        Some ty \<Rightarrow> if ty = ''ping'' \<and> ok sk then put_frame sk (Pong now) b else b
      | None \<Rightarrow> b)"

section \<open>What a socket has seen\<close>

text \<open>The events of the last history and of the live frames after it.\<close>

definition see :: "nat \<Rightarrow> 'e list \<Rightarrow> nat \<times> 'e feed_frame \<Rightarrow> 'e list" where
  "see sk acc f = (if fst f \<noteq> sk then acc
     else case snd f of History es _ \<Rightarrow> es | Live e \<Rightarrow> acc @ [e] | Pong _ \<Rightarrow> acc)"

definition seen :: "'e browser \<Rightarrow> nat \<Rightarrow> 'e list" where
  "seen b sk = foldl (see sk) [] (frames b)"

lemma seen_put [simp]: "seen (put_frame sk f b) k = see k (seen b k) (sk, f)"
  by (simp add: seen_def put_frame_def)

lemma seen_same: "frames b' = frames b \<Longrightarrow> seen b' = seen b"
  by (simp add: seen_def fun_eq_iff)

definition browser_ok :: "'e browser \<Rightarrow> bool" where
  "browser_ok b \<longleftrightarrow> hub_ok (hub b) \<and>
     (\<forall>k l. l \<in> set (hub_listeners (hub b) k) \<longrightarrow> fst l < next_listener b \<and>
        (\<exists>u. subscriptions b (snd l) = Some u \<and> sub_topic u = k \<and> sub_listener u = l)) \<and>
     (\<forall>sk u. subscriptions b sk = Some u \<longrightarrow> live_sub (hub b) u \<and> snd (sub_listener u) = sk)"

lemma browser_okD:
  assumes "browser_ok b"
  shows "hub_ok (hub b)"
    and "l \<in> set (hub_listeners (hub b) k) \<Longrightarrow> fst l < next_listener b"
    and "l \<in> set (hub_listeners (hub b) k) \<Longrightarrow>
      \<exists>u. subscriptions b (snd l) = Some u \<and> sub_topic u = k \<and> sub_listener u = l"
    and "subscriptions b sk = Some u \<Longrightarrow> live_sub (hub b) u \<and> snd (sub_listener u) = sk"
  using assms unfolding browser_ok_def by blast+

lemma browser_ok_same:
  "hub b' = hub b \<Longrightarrow> next_listener b' = next_listener b \<Longrightarrow> subscriptions b' = subscriptions b \<Longrightarrow>
   browser_ok b \<Longrightarrow> browser_ok b'"
  by (simp add: browser_ok_def)

lemma put_frame_fields [simp]:
  "hub (put_frame sk f b) = hub b" "subscriptions (put_frame sk f b) = subscriptions b"
  "next_listener (put_frame sk f b) = next_listener b" "closed_with (put_frame sk f b) = closed_with b"
  by (simp_all add: put_frame_def)

lemma close_with_fields [simp]:
  "hub (close_with sk c b) = hub b" "subscriptions (close_with sk c b) = subscriptions b"
  "next_listener (close_with sk c b) = next_listener b" "frames (close_with sk c b) = frames b"
  "seen (close_with sk c b) = seen b"
  by (simp_all add: close_with_def seen_def fun_eq_iff)

lemma browser_close_fields [simp]:
  "frames (browser_close sk b) = frames b" "seen (browser_close sk b) = seen b"
  "next_listener (browser_close sk b) = next_listener b"
  "subscriptions (browser_close sk b) = (subscriptions b)(sk := None)"
  by (auto simp: browser_close_def seen_def fun_eq_iff split: option.split)

lemma browser_close_ok:
  assumes "browser_ok b"
  shows "browser_ok (browser_close sk b)"
proof (cases "subscriptions b sk")
  case None
  with assms show ?thesis by (simp add: browser_close_def)
next
  case (Some u)
  note ok = browser_okD[OF assms]
  from ok(4)[OF Some] have u: "live_sub (hub b) u" "snd (sub_listener u) = sk" by simp_all
  note un = event_hub.unsubscribe_removes[OF ok(1) u(1)]
  let ?b = "browser_close sk b"
  have h: "hub ?b = hub_unsubscribe u (hub b)" by (simp add: browser_close_def Some)
  have ls: "l \<in> set (hub_listeners (hub ?b) k) \<Longrightarrow>
      l \<in> set (hub_listeners (hub b) k) \<and> (k = sub_topic u \<longrightarrow> l \<noteq> sub_listener u)" for l k
    using un unfolding h by (cases "k = sub_topic u") auto
  show ?thesis
    unfolding browser_ok_def
  proof (intro conjI allI impI)
    show "hub_ok (hub ?b)" using un by (simp add: h)
    fix k l
    assume l: "l \<in> set (hub_listeners (hub ?b) k)"
    note old = ls[OF l]
    from ok(2)[of l k] old show "fst l < next_listener ?b" by simp
    from ok(3)[of l k] old obtain v where
      v: "subscriptions b (snd l) = Some v" "sub_topic v = k" "sub_listener v = l" by blast
    have "snd l \<noteq> sk" using v old Some by auto
    with v show "\<exists>v. subscriptions ?b (snd l) = Some v \<and> sub_topic v = k \<and> sub_listener v = l" by simp
  next
    fix i v
    assume "subscriptions ?b i = Some v"
    then have v: "subscriptions b i = Some v" "i \<noteq> sk" by (auto split: if_splits)
    from ok(4)[OF v(1)] have "live_sub (hub b) v" "snd (sub_listener v) = i" by simp_all
    moreover have "sub_listener v \<noteq> sub_listener u" using v(2) u(2) calculation(2) by auto
    ultimately show "live_sub (hub ?b) v" "snd (sub_listener v) = i" using un by (auto simp: h)
  qed
qed

lemma browser_subscribe_ok:
  assumes "browser_ok b" and "subscriptions b sk = None"
  shows "browser_ok (browser_subscribe sk k b)"
    and "\<exists>u. subscriptions (browser_subscribe sk k b) = (subscriptions b)(sk \<mapsto> u) \<and> sub_topic u = k"
proof -
  note ok = browser_okD[OF assms(1)]
  obtain u h where s: "hub_subscribe k (next_listener b, sk) (hub b) = (u, h)" by fastforce
  have new: "(next_listener b, sk) \<notin> set (hub_listeners (hub b) k')" for k'
    using ok(2)[of "(next_listener b, sk)" k'] by auto
  from event_hub.subscribe_adds[OF ok(1) new s] have h: "hub_ok h"
    "hub_listeners h = (hub_listeners (hub b))(k := hub_listeners (hub b) k @ [(next_listener b, sk)])"
    "live_sub h u" "sub_topic u = k" "sub_listener u = (next_listener b, sk)"
    "\<And>v. live_sub (hub b) v \<Longrightarrow> live_sub h v" by auto
  have b': "browser_subscribe sk k b = b\<lparr>hub := h, next_listener := Suc (next_listener b),
      subscriptions := (subscriptions b)(sk \<mapsto> u)\<rparr>"
    by (simp add: browser_subscribe_def s)
  show "browser_ok (browser_subscribe sk k b)"
    unfolding browser_ok_def
  proof (intro conjI allI impI)
    show "hub_ok (hub (browser_subscribe sk k b))" using h(1) by (simp add: b')
    fix k' l
    assume l: "l \<in> set (hub_listeners (hub (browser_subscribe sk k b)) k')"
    then have l': "l \<in> set (hub_listeners (hub b) k') \<or> (k' = k \<and> l = (next_listener b, sk))"
      by (auto simp: b' h(2) split: if_splits)
    then show "fst l < next_listener (browser_subscribe sk k b)"
      using ok(2)[of l k'] by (auto simp: b')
    show "\<exists>v. subscriptions (browser_subscribe sk k b) (snd l) = Some v \<and> sub_topic v = k' \<and>
        sub_listener v = l"
    proof (cases "k' = k \<and> l = (next_listener b, sk)")
      case True
      then show ?thesis by (simp add: b' h(4,5))
    next
      case False
      with l' ok(3)[of l k'] obtain v where
        "subscriptions b (snd l) = Some v" "sub_topic v = k'" "sub_listener v = l" by blast
      with assms(2) show ?thesis by (auto simp: b')
    qed
  next
    fix i v
    assume "subscriptions (browser_subscribe sk k b) i = Some v"
    then have "i = sk \<and> v = u \<or> i \<noteq> sk \<and> subscriptions b i = Some v" by (auto simp: b' split: if_splits)
    then show "live_sub (hub (browser_subscribe sk k b)) v" "snd (sub_listener v) = i"
      using h(3,5,6) ok(4)[of i v] by (auto simp: b')
  qed
  show "\<exists>u. subscriptions (browser_subscribe sk k b) = (subscriptions b)(sk \<mapsto> u) \<and> sub_topic u = k"
    using h(4) by (auto simp: b')
qed

section \<open>A publication reaches every subscribed socket once\<close>

text \<open>What one publication of \<open>e\<close> does to socket \<open>sk\<close>, when \<open>on\<close> says it is subscribed to the topic.\<close>

definition fed ::
  "('e \<Rightarrow> bool) \<Rightarrow> (nat \<Rightarrow> bool) \<Rightarrow> 'e \<Rightarrow> bool \<Rightarrow> nat \<Rightarrow> 'e browser \<Rightarrow> 'e browser \<Rightarrow> bool" where
  "fed fin ok e on sk b b' \<longleftrightarrow>
     (if on then seen b' sk = (if ok sk then seen b sk @ [e] else seen b sk) \<and>
         subscriptions b' sk = (if ok sk \<and> \<not> fin e then subscriptions b sk else None)
      else seen b' sk = seen b sk \<and> subscriptions b' sk = subscriptions b sk)"

lemma send_event_step:
  assumes "browser_ok b" and "topics (hub b) k = Some i" and "l \<in> set (set_objects (hub b) i)"
    and b'_eq: "b' = send_event fin ok e l b"
  shows "browser_ok b'" and "fed fin ok e (sk = snd l) sk b b'"
    and "l' \<noteq> l \<Longrightarrow> l' \<in> set (set_objects (hub b) i) \<Longrightarrow>
      l' \<in> set (set_objects (hub b') i) \<and> topics (hub b') k = Some i"
proof -
  let ?sk = "snd l"
  have l: "l \<in> set (hub_listeners (hub b) k)" using assms(2,3) by (simp add: hub_listeners_def)
  from browser_okD(3)[OF assms(1) l] obtain u where
    u: "subscriptions b ?sk = Some u" "sub_topic u = k" "sub_listener u = l" by blast
  from browser_okD(4)[OF assms(1) u(1)] have live: "live_sub (hub b) u" by simp
  then have su: "sub_set u = i" using u(2) assms(2) by (simp add: live_sub_def)
  let ?p = "put_frame ?sk (Live e) b"
  have okp: "browser_ok ?p" by (rule browser_ok_same[OF _ _ _ assms(1)]) simp_all
  have okc: "browser_ok (close_with ?sk c b1)" if "browser_ok b1" for c b1
    by (rule browser_ok_same[OF _ _ _ that]) simp_all
  have b': "b' = (if ok ?sk then if fin e then close_with ?sk 1000 (browser_close ?sk ?p) else ?p
      else close_with ?sk 1011 (browser_close ?sk b))"
    by (simp add: b'_eq send_event_def Let_def)
  show "browser_ok b'"
    using okp okc[OF browser_close_ok[OF okp]] okc[OF browser_close_ok[OF assms(1)]] by (simp add: b')
  show "fed fin ok e (sk = snd l) sk b b'" by (auto simp: fed_def b' see_def)
  assume l': "l' \<noteq> l" "l' \<in> set (set_objects (hub b) i)"
  have "hub (browser_close ?sk b1) = hub_unsubscribe u (hub b)"
    if "hub b1 = hub b" "subscriptions b1 = subscriptions b" for b1 :: "'a browser"
    using that u(1) by (simp add: browser_close_def)
  then have hub: "hub b' = (if ok ?sk \<and> \<not> fin e then hub b else hub_unsubscribe u (hub b))"
    by (simp add: b')
  have "filter (\<lambda>x. x \<noteq> l) (set_objects (hub b) i) \<noteq> []" using l' by (auto simp: filter_empty_conv)
  with l' assms(2) show "l' \<in> set (set_objects (hub b') i) \<and> topics (hub b') k = Some i"
    by (auto simp: hub hub_unsubscribe_def Let_def su u(3))
qed

lemma call_listeners_feeds:
  assumes "browser_ok b" and "distinct ls" and "ls \<noteq> [] \<longrightarrow> topics (hub b) k = Some i"
    and "\<forall>l\<in>set ls. l \<in> set (set_objects (hub b) i)"
  shows "browser_ok (call_listeners i (send_event fin ok e) hub ls b) \<and>
    (\<forall>sk. fed fin ok e (sk \<in> snd ` set ls) sk b (call_listeners i (send_event fin ok e) hub ls b))"
  using assms
proof (induction ls arbitrary: b)
  case Nil
  then show ?case by (simp add: fed_def)
next
  case (Cons l ls)
  have l: "l \<in> set (set_objects (hub b) i)" "topics (hub b) k = Some i" using Cons.prems by auto
  let ?b = "send_event fin ok e l b"
  note st = send_event_step[OF Cons.prems(1) l(2) l(1) refl, where fin = fin and ok = ok and e = e]
  have other: "snd l' \<noteq> snd l" if "l' \<in> set ls" for l'
  proof
    assume eq: "snd l' = snd l"
    have "l' \<in> set (hub_listeners (hub b) k)" "l \<in> set (hub_listeners (hub b) k)"
      using Cons.prems(4) that l by (auto simp: hub_listeners_def)
    from browser_okD(3)[OF Cons.prems(1) this(1)] obtain u where
      u: "subscriptions b (snd l') = Some u" "sub_listener u = l'" by blast
    from browser_okD(3)[OF Cons.prems(1) \<open>l \<in> set (hub_listeners (hub b) k)\<close>] obtain v where
      v: "subscriptions b (snd l) = Some v" "sub_listener v = l" by blast
    from u v eq have "l' = l" by simp
    with that Cons.prems(2) show False by simp
  qed
  have rest: "ls \<noteq> [] \<longrightarrow> topics (hub ?b) k = Some i" "\<forall>l'\<in>set ls. l' \<in> set (set_objects (hub ?b) i)"
  proof -
    have mem: "l' \<in> set (set_objects (hub ?b) i) \<and> topics (hub ?b) k = Some i" if "l' \<in> set ls" for l'
      by (rule st(3)) (use that Cons.prems(2,4) in auto)
    show "ls \<noteq> [] \<longrightarrow> topics (hub ?b) k = Some i"
    proof
      assume "ls \<noteq> []"
      then have "hd ls \<in> set ls" by simp
      from mem[OF this] show "topics (hub ?b) k = Some i" by (rule conjunct2)
    qed
    show "\<forall>l'\<in>set ls. l' \<in> set (set_objects (hub ?b) i)" using mem by blast
  qed
  have "distinct ls" using Cons.prems(2) by simp
  note ih = Cons.IH[OF st(1) this rest]
  let ?c = "call_listeners i (send_event fin ok e) hub ls ?b"
  have "fed fin ok e (sk \<in> snd ` set (l # ls)) sk b ?c" for sk
  proof (cases "sk = snd l")
    case True
    then have notin: "sk \<notin> snd ` set ls" using other by blast
    have "fed fin ok e (sk \<in> snd ` set ls) sk ?b ?c" using ih by blast
    then have "fed fin ok e False sk ?b ?c" using notin by (simp only:)
    with st(2)[of sk] True show ?thesis by (simp add: fed_def)
  next
    case False
    with st(2)[of sk] have "fed fin ok e False sk b ?b" by simp
    moreover have "fed fin ok e (sk \<in> snd ` set ls) sk ?b ?c" using ih by blast
    ultimately show ?thesis using False by (simp add: fed_def)
  qed
  with ih l(1) show ?case by simp
qed

lemma publish_feeds:
  assumes "browser_ok b"
  shows "browser_ok (hub_publish k (send_event fin ok e) hub b) \<and>
    (\<forall>sk. fed fin ok e (\<exists>u. subscriptions b sk = Some u \<and> sub_topic u = k) sk b
       (hub_publish k (send_event fin ok e) hub b))"
proof -
  note ok = browser_okD[OF assms]
  have on: "(\<exists>u. subscriptions b sk = Some u \<and> sub_topic u = k) \<longleftrightarrow>
      sk \<in> snd ` set (hub_listeners (hub b) k)" for sk
  proof
    assume "\<exists>u. subscriptions b sk = Some u \<and> sub_topic u = k"
    then obtain u where u: "subscriptions b sk = Some u" "sub_topic u = k" by blast
    from ok(4)[OF u(1)] event_hub.live_listens[OF ok(1), of u] u(2)
    show "sk \<in> snd ` set (hub_listeners (hub b) k)" by (auto intro!: image_eqI)
  next
    assume "sk \<in> snd ` set (hub_listeners (hub b) k)"
    then show "\<exists>u. subscriptions b sk = Some u \<and> sub_topic u = k" using ok(3) by fastforce
  qed
  show ?thesis
  proof (cases "topics (hub b) k")
    case None
    then have "hub_listeners (hub b) k = []" by (simp add: hub_listeners_def)
    with None assms show ?thesis by (simp add: hub_publish_def on fed_def)
  next
    case (Some i)
    then have ls: "hub_listeners (hub b) k = set_objects (hub b) i" by (simp add: hub_listeners_def)
    have "distinct (set_objects (hub b) i)"
      using event_hub.listeners_once[OF ok(1), of k] ls by simp
    from call_listeners_feeds[OF assms this, of k i fin ok e] Some
    show ?thesis by (simp add: hub_publish_def on ls)
  qed
qed

section \<open>The feeds beside their logs\<close>

text \<open>The API appends an event to the tables and then publishes it, in one go.\<close>

datatype feed_action =
    FOpen nat string
  | FMessage nat raw_message
  | FClose nat
  | FAppend string job_event_type string "int option"

fun job_feed_act ::
  "(string \<Rightarrow> json option) \<Rightarrow> (nat \<Rightarrow> bool) \<Rightarrow> instant \<Rightarrow> feed_action \<Rightarrow>
   jobs_db \<times> job_event browser \<Rightarrow> jobs_db \<times> job_event browser" where
  "job_feed_act jp ok now (FOpen sk jid) (db, b) = (db, job_feed_open ok db sk jid b)"
| "job_feed_act jp ok now (FMessage sk raw) (db, b) = (db, browser_message jp ok now sk raw b)"
| "job_feed_act jp ok now (FClose sk) (db, b) = (db, browser_close sk b)"
| "job_feed_act jp ok now (FAppend jid ty msg prog) (db, b) =
     (case append_event now jid ty msg prog db of
        (Inl _, db') \<Rightarrow> (db', b)
      | (Inr e, db') \<Rightarrow> (db', job_publish ok e b))"

inductive job_feed_reachable :: "(string \<Rightarrow> json option) \<Rightarrow> jobs_db \<times> job_event browser \<Rightarrow> bool" for jp where
  job_feed_boot: "jobs_db_ok db \<Longrightarrow> job_feed_reachable jp (db, new_browser)"
| job_feed_run: "job_feed_reachable jp s \<Longrightarrow> job_feed_reachable jp (job_feed_act jp ok now a s)"

text \<open>A subscribed socket has seen the end of its topic's log, and at least \<open>m\<close> events of it.\<close>

definition in_step :: "nat \<Rightarrow> (string \<Rightarrow> 'e list) \<Rightarrow> 'e browser \<Rightarrow> bool" where
  "in_step m lg b \<longleftrightarrow> browser_ok b \<and> (\<forall>sk u. subscriptions b sk = Some u \<longrightarrow>
     suffix (seen b sk) (lg (sub_topic u)) \<and> min m (length (lg (sub_topic u))) \<le> length (seen b sk))"

lemma in_step_close: "in_step m lg b \<Longrightarrow> in_step m lg (browser_close sk b)"
  by (auto simp: in_step_def browser_close_ok)

lemma in_step_same:
  assumes "in_step m lg b" and "hub b' = hub b" "next_listener b' = next_listener b"
    "subscriptions b' = subscriptions b" "seen b' = seen b"
  shows "in_step m lg b'"
  using assms browser_ok_same[OF assms(2-4)] by (simp add: in_step_def)

lemma in_step_closed_with: "in_step m lg b \<Longrightarrow> in_step m lg (close_with sk c b)"
  by (erule in_step_same) simp_all

lemma in_step_message: "in_step m lg b \<Longrightarrow> in_step m lg (browser_message jp ok now sk raw b)"
  by (auto simp: browser_message_def in_step_def see_def split: option.split
      intro: browser_ok_same[of "put_frame sk (Pong now) b" b, simplified])

lemma drop_suffix_min:
  fixes xs :: "'e list" and m :: nat
  shows "suffix (drop (length xs - m) xs) xs" "min m (length xs) \<le> length (drop (length xs - m) xs)"
  by (simp_all add: suffix_drop)

text \<open>\<open>open\<close>, after the old subscription of the socket has been dropped.\<close>

lemma in_step_open:
  assumes "in_step m lg b" and "subscriptions b sk = None"
    and "es = drop (length (lg k) - m) (lg k)"
  shows "in_step m lg (if ok sk then put_frame sk (History es fl) (browser_subscribe sk k b)
    else close_with sk c (browser_close sk (browser_subscribe sk k b)))"
proof -
  have ok: "browser_ok b" using assms(1) by (simp add: in_step_def)
  note sb = browser_subscribe_ok[OF ok assms(2), of k]
  let ?b = "browser_subscribe sk k b"
  have seen: "seen ?b = seen b" by (rule seen_same) (simp add: browser_subscribe_def split: prod.split)
  from sb(2) obtain u where u: "subscriptions ?b = (subscriptions b)(sk \<mapsto> u)" "sub_topic u = k" by blast
  have "browser_ok (put_frame sk (History es fl) ?b)"
    by (rule browser_ok_same[OF _ _ _ sb(1)]) simp_all
  moreover have "suffix (seen (put_frame sk (History es fl) ?b) i) (lg (sub_topic v)) \<and>
      min m (length (lg (sub_topic v))) \<le> length (seen (put_frame sk (History es fl) ?b) i)"
    if "subscriptions (put_frame sk (History es fl) ?b) i = Some v" for i v
  proof (cases "i = sk")
    case True
    with that u have v: "sub_topic v = k" by simp
    have "seen (put_frame sk (History es fl) ?b) i = es" using True by (simp add: see_def)
    then show ?thesis using drop_suffix_min[where xs = "lg k" and m = m] by (simp only: v assms(3))
  next
    case False
    with that u have "subscriptions b i = Some v" by simp
    moreover have "seen (put_frame sk (History es fl) ?b) i = seen b i"
      using False by (simp add: see_def seen)
    ultimately show ?thesis using assms(1) by (simp add: in_step_def)
  qed
  ultimately have "in_step m lg (put_frame sk (History es fl) ?b)" by (simp add: in_step_def)
  moreover have "in_step m lg (browser_close sk ?b)"
    using assms(1) browser_close_ok[OF sb(1), of sk] by (auto simp: in_step_def u seen)
  ultimately show ?thesis by (simp add: in_step_closed_with)
qed

lemma in_step_publish:
  assumes "in_step m lg b"
    and "\<And>x. x \<noteq> k \<Longrightarrow> lg' x = lg x" and "lg' k = lg k @ [e]"
  shows "in_step m lg' (hub_publish k (send_event fin ok e) hub b)"
proof -
  let ?b = "hub_publish k (send_event fin ok e) hub b"
  have ok: "browser_ok b" using assms(1) by (simp add: in_step_def)
  note pf = publish_feeds[OF ok, of k fin ok e]
  have "suffix (seen ?b sk) (lg' (sub_topic u)) \<and>
      min m (length (lg' (sub_topic u))) \<le> length (seen ?b sk)"
    if u: "subscriptions ?b sk = Some u" for sk u
  proof (cases "\<exists>v. subscriptions b sk = Some v \<and> sub_topic v = k")
    case True
    have "fed fin ok e (\<exists>v. subscriptions b sk = Some v \<and> sub_topic v = k) sk b ?b"
      using pf by blast
    then have "fed fin ok e True sk b ?b" using True by (simp only:)
    with u have f: "seen ?b sk = seen b sk @ [e]" "subscriptions b sk = Some u"
      by (auto simp: fed_def split: if_splits)
    with True have "sub_topic u = k" by simp
    moreover have "suffix (seen b sk) (lg (sub_topic u))"
      "min m (length (lg (sub_topic u))) \<le> length (seen b sk)"
      using assms(1) f(2) unfolding in_step_def by blast+
    ultimately show ?thesis using f(1) assms(3) by simp
  next
    case False
    have "fed fin ok e (\<exists>v. subscriptions b sk = Some v \<and> sub_topic v = k) sk b ?b"
      using pf by blast
    then have "fed fin ok e False sk b ?b" using False by (simp only:)
    with u have f: "seen ?b sk = seen b sk" "subscriptions b sk = Some u" by (auto simp: fed_def)
    with False have "sub_topic u \<noteq> k" by simp
    moreover have "suffix (seen b sk) (lg (sub_topic u))"
      "min m (length (lg (sub_topic u))) \<le> length (seen b sk)"
      using assms(1) f(2) unfolding in_step_def by blast+
    ultimately show ?thesis using f(1) assms(2) by simp
  qed
  with pf show ?thesis by (simp add: in_step_def)
qed

lemma new_browser_in_step: "in_step m lg new_browser"
  by (simp add: in_step_def new_browser_def browser_ok_def hub_ok_def empty_hub_def hub_listeners_def)

lemma job_feed_act_in_step:
  assumes "jobs_db_ok (fst s)" and "in_step 1000 (events_of (fst s)) (snd s)"
  shows "jobs_db_ok (fst (job_feed_act jp ok now a s)) \<and>
    in_step 1000 (events_of (fst (job_feed_act jp ok now a s))) (snd (job_feed_act jp ok now a s))"
proof -
  obtain db b where s: "s = (db, b)" by fastforce
  have db: "jobs_db_ok db" and b: "in_step 1000 (events_of db) b" using assms by (simp_all add: s)
  show ?thesis
  proof (cases a)
    case (FOpen sk jid)
    have "in_step 1000 (events_of db) (job_feed_open ok db sk jid b)"
    proof (cases "get_job db jid")
      case None
      with b show ?thesis by (simp add: job_feed_open_def in_step_closed_with)
    next
      case (Some j)
      let ?c = "browser_close sk b"
      have c: "in_step 1000 (events_of db) ?c" "subscriptions ?c sk = None"
        using in_step_close[OF b] by simp_all
      have es: "list_recent_events jid 1000 db = drop (length (events_of db jid) - 1000) (events_of db jid)"
        by (rule list_recent_events_eq[OF db])
      have fin: "in_step 1000 (events_of db) (put_frame sk f ?c)" for f
        using c browser_ok_same[of "put_frame sk f ?c" ?c] by (auto simp: in_step_def see_def)
      have "in_step 1000 (events_of db) (close_with sk 1011 (browser_close sk ?c))"
        by (intro in_step_closed_with in_step_close c)
      then show ?thesis
        using in_step_open[OF c es, of ok "Some False" 1011] fin Some
        by (cases "ok sk"; cases "terminal_job_status (status j)") (simp_all add: job_feed_open_def Let_def)
    qed
    with db show ?thesis by (simp add: s FOpen)
  next
    case (FMessage sk raw)
    with db in_step_message[OF b] show ?thesis by (simp add: s)
  next
    case (FClose sk)
    with db in_step_close[OF b] show ?thesis by (simp add: s)
  next
    case (FAppend jid ty msg prog)
    obtain r db' where ap: "append_event now jid ty msg prog db = (r, db')" by fastforce
    have db': "jobs_db_ok db'" using append_event_ok[OF db, of now jid ty msg prog] ap by simp
    show ?thesis
    proof (cases r)
      case (Inl e)
      then have "db' = db" using append_event_fails[of now jid ty msg prog db e] ap by simp
      with Inl db b show ?thesis by (simp add: s FAppend ap)
    next
      case (Inr e)
      have e: "ev_job e = jid" "job_events db' = job_events db @ [e]"
        using ap Inr by (auto simp: append_event_def Let_def split: if_splits)
      have "in_step 1000 (events_of db') (job_publish ok e b)"
        unfolding job_publish_def by (rule in_step_publish[OF b]) (simp_all add: events_of_def e)
      with db' Inr show ?thesis by (simp add: s FAppend ap)
    qed
  qed
qed

lemma job_feed_reachable_in_step:
  "job_feed_reachable jp s \<Longrightarrow> jobs_db_ok (fst s) \<and> in_step 1000 (events_of (fst s)) (snd s)"
  by (induction rule: job_feed_reachable.induct) (auto simp: new_browser_in_step dest: job_feed_act_in_step)

section \<open>The feed of a server beside its log\<close>

datatype server_feed_action =
    SOpen nat string
  | SMessage nat raw_message
  | SClose nat
  | SAppend string string string "string option" "string option" stamp

fun server_feed_act ::
  "(string \<Rightarrow> json option) \<Rightarrow> (nat \<Rightarrow> bool) \<Rightarrow> instant \<Rightarrow> server_feed_action \<Rightarrow>
   agent_db \<times> runtime_event browser \<Rightarrow> agent_db \<times> runtime_event browser" where
  "server_feed_act jp ok now (SOpen sk k) (db, b) = (db, server_feed_open ok db sk k b)"
| "server_feed_act jp ok now (SMessage sk raw) (db, b) = (db, browser_message jp ok now sk raw b)"
| "server_feed_act jp ok now (SClose sk) (db, b) = (db, browser_close sk b)"
| "server_feed_act jp ok now (SAppend k ty msg cid cursor stamp) (db, b) =
     (case append_runtime_event k ty msg cid cursor stamp db of
        (e, db') \<Rightarrow> (db', server_publish ok e b))"

inductive server_feed_reachable ::
  "(string \<Rightarrow> json option) \<Rightarrow> agent_db \<times> runtime_event browser \<Rightarrow> bool" for jp where
  server_feed_boot: "agent_db_ok db \<Longrightarrow> server_feed_reachable jp (db, new_browser)"
| server_feed_run: "server_feed_reachable jp s \<Longrightarrow> server_feed_reachable jp (server_feed_act jp ok now a s)"

text \<open>
  The log of a server drops its oldest events, so a socket may have seen more than is stored. The
  history \<open>full\<close> of everything that was ever appended is the log the feed follows; the stored
  events are a suffix of it.
\<close>

definition follows :: "(string \<Rightarrow> runtime_event list) \<Rightarrow> agent_db \<Rightarrow> runtime_event browser \<Rightarrow> bool" where
  "follows full db b \<longleftrightarrow> agent_db_ok db \<and> in_step 500 full b \<and>
     (\<forall>k. suffix (binding_events db k) (full k) \<and>
        min 500 (length (full k)) \<le> length (binding_events db k))"

lemma suffix_drop_same:
  assumes "suffix xs ys" and "min n (length ys) \<le> length xs"
  shows "drop (length xs - n) xs = drop (length ys - n) ys"
proof -
  from assms(1) obtain zs where ys: "ys = zs @ xs" by (auto simp: suffix_def)
  show ?thesis
  proof (cases "n \<le> length xs")
    case True
    then show ?thesis by (simp add: ys)
  next
    case False
    with assms(2) ys have "zs = []" by (auto simp: min_def split: if_splits)
    then show ?thesis by (simp add: ys)
  qed
qed

lemma server_feed_act_follows:
  assumes "follows full (fst s) (snd s)"
  shows "\<exists>full'. follows full' (fst (server_feed_act jp ok now a s)) (snd (server_feed_act jp ok now a s)) \<and>
    (\<forall>k. \<exists>es. full' k = full k @ es)"
proof -
  obtain db b where s: "s = (db, b)" by fastforce
  have db: "agent_db_ok db" and b: "in_step 500 full b"
    and st: "\<And>k. suffix (binding_events db k) (full k)"
      "\<And>k. min 500 (length (full k)) \<le> length (binding_events db k)"
    using assms by (simp_all add: follows_def s)
  have keep: "\<exists>full'. follows full' db b' \<and> (\<forall>k. \<exists>es. full' k = full k @ es)" if "in_step 500 full b'" for b'
    using that db st by (intro exI[of _ full]) (simp add: follows_def)
  show ?thesis
  proof (cases a)
    case (SOpen sk k)
    let ?c = "browser_close sk b"
    have c: "in_step 500 full ?c" "subscriptions ?c sk = None" using in_step_close[OF b] by simp_all
    have "list_runtime_events k 500 db = drop (length (full k) - 500) (full k)"
      using suffix_drop_same[OF st(1)[of k] st(2)[of k]] list_runtime_events_eq[OF db] by simp
    from in_step_open[OF c this, of ok None 1011]
    have "in_step 500 full (server_feed_open ok db sk k b)" by (simp add: server_feed_open_def Let_def)
    with keep show ?thesis by (simp add: s SOpen)
  next
    case (SMessage sk raw)
    with keep[OF in_step_message[OF b]] show ?thesis by (simp add: s)
  next
    case (SClose sk)
    with keep[OF in_step_close[OF b]] show ?thesis by (simp add: s)
  next
    case (SAppend k ty msg cid cursor stamp)
    obtain r db' where ap: "append_runtime_event k ty msg cid cursor stamp db = (r, db')" by fastforce
    have db': "agent_db_ok db'" using append_runtime_event_ok[OF db, of k ty msg cid cursor stamp] ap by simp
    from ap show ?thesis
    proof (cases rule: append_runtime_event_cases)
      case ignored
      then have "binding_events db' = binding_events db" by (simp add: binding_events_def fun_eq_iff)
      with db' b st have "follows full db' b" by (simp add: follows_def)
      with ignored(1) show ?thesis
        by (intro exI[of _ full]) (simp add: s SAppend ap server_publish_def)
    next
      case (stored e)
      let ?full = "full(k := full k @ [e])"
      have seqs: "seqs_ok rt_sequence (Suc (runtime_sequence db)) (runtime_events db @ [e])"
        using db stored(2) by (auto simp: agent_db_ok_def intro: seqs_ok_snoc)
      note tk = trim_keeps[OF seqs, where b = k]
      have bk: "binding_events db' k = drop (length (binding_events db k) + 1 - 2000) (binding_events db k @ [e])"
        using tk(1) stored(3,8) by (simp add: binding_events_def)
      have bo: "binding_events db' x = binding_events db x" if "x \<noteq> k" for x
        using tk(2)[OF that] that stored(3,8) by (simp add: binding_events_def)
      have "suffix (binding_events db' x) (?full x) \<and>
          min 500 (length (?full x)) \<le> length (binding_events db' x)" for x
      proof (cases "x = k")
        case True
        have "suffix (binding_events db k @ [e]) (full k @ [e])" using st(1)[of k] by simp
        then have "suffix (binding_events db' k) (full k @ [e])"
          unfolding bk using suffix_drop suffix_order.trans by blast
        moreover have "min 500 (length (full k @ [e])) \<le> length (binding_events db' k)"
          using st(2)[of k] by (simp add: bk)
        ultimately show ?thesis using True by simp
      next
        case False
        with st bo show ?thesis by simp
      qed
      moreover have "in_step 500 ?full (server_publish ok (Some e) b)"
        unfolding server_publish_def option.case stored(3)
        by (rule in_step_publish[OF b]) simp_all
      ultimately have "follows ?full db' (server_publish ok (Some e) b)"
        using db' by (simp add: follows_def)
      moreover have "\<forall>x. \<exists>es. ?full x = full x @ es" by simp
      ultimately show ?thesis
        using stored(1) by (intro exI[of _ ?full]) (simp add: s SAppend ap)
    qed
  qed
qed

lemma server_feed_reachable_follows: "server_feed_reachable jp s \<Longrightarrow> \<exists>full. follows full (fst s) (snd s)"
proof (induction rule: server_feed_reachable.induct)
  case (server_feed_boot db)
  then have "follows (binding_events db) db new_browser"
    by (simp add: follows_def new_browser_in_step)
  then show ?case by auto
next
  case (server_feed_run s ok now a)
  then show ?case using server_feed_act_follows by blast
qed

section \<open>What the panel sees\<close>

text \<open>C12: the page of a job misses no event and shows none twice: what a subscribed socket has been
  sent, its history and the live events after it, is the end of the log of its job without a gap,
  the whole log when that has at most 1000 events.\<close>

theorem job_feed_is_the_log:
  assumes "job_feed_reachable jp (db, b)" and "subscriptions b sk = Some u"
  shows "suffix (seen b sk) (events_of db (sub_topic u)) \<and>
    (length (events_of db (sub_topic u)) \<le> 1000 \<longrightarrow> seen b sk = events_of db (sub_topic u))"
proof -
  have st: "suffix (seen b sk) (events_of db (sub_topic u))"
    "min 1000 (length (events_of db (sub_topic u))) \<le> length (seen b sk)"
    using job_feed_reachable_in_step[OF assms(1)] assms(2) by (auto simp: in_step_def)
  moreover have "seen b sk = events_of db (sub_topic u)" if "length (events_of db (sub_topic u)) \<le> 1000"
    using st that by (auto simp: suffix_def)
  ultimately show ?thesis by blast
qed

lemma job_feed_is_the_log_witness:
  "let d = \<lparr>jobs = [\<lparr>job_id = ''a'', job_type = JDemoNoop, status = Running, progress = 0, input = JNull,
        result = None, job_error = None, created_at = 0, started_at = None, finished_at = None\<rparr>],
        job_events = [], last_sequence = 0\<rparr>;
       s = job_feed_act (\<lambda>_. None) (\<lambda>_. True) 1 (FAppend ''a'' EvLog ''m'' None)
         (job_feed_act (\<lambda>_. None) (\<lambda>_. True) 0 (FOpen 7 ''a'') (d, new_browser))
   in map ev_message (seen (snd s) 7) = [''m''] \<and> suffix (seen (snd s) 7) (events_of (fst s) ''a'')"
proof -
  let ?d = "\<lparr>jobs = [\<lparr>job_id = ''a'', job_type = JDemoNoop, status = Running, progress = 0, input = JNull,
        result = None, job_error = None, created_at = 0, started_at = None, finished_at = None\<rparr>],
        job_events = [], last_sequence = 0\<rparr>"
  let ?s = "job_feed_act (\<lambda>_. None) (\<lambda>_. True) 1 (FAppend ''a'' EvLog ''m'' None)
         (job_feed_act (\<lambda>_. None) (\<lambda>_. True) 0 (FOpen 7 ''a'') (?d, new_browser))"
  have "jobs_db_ok ?d" by (simp add: jobs_db_ok_def keys_distinct_def seqs_ok_def)
  then have r: "job_feed_reachable (\<lambda>_. None) (fst ?s, snd ?s)"
    using job_feed_run[OF job_feed_run[OF job_feed_boot]] by (metis prod.collapse)
  have u: "map_option sub_topic (subscriptions (snd ?s) 7) = Some ''a''" by code_simp
  then obtain u where "subscriptions (snd ?s) 7 = Some u" "sub_topic u = ''a''" by blast
  with job_feed_is_the_log[OF r this(1)] have "suffix (seen (snd ?s) 7) (events_of (fst ?s) ''a'')" by simp
  moreover have "map ev_message (seen (snd ?s) 7) = [''m'']" by code_simp
  ultimately show ?thesis by (simp only: Let_def)
qed

text \<open>The same for the console of a server, although its log drops old events: what a
  subscribed socket has been sent and what is stored are both ends of the one history of the
  binding, so neither has an event the other misses in between.\<close>

theorem server_feed_is_the_log:
  assumes "server_feed_reachable jp (db, b)" and "subscriptions b sk = Some u"
  shows "suffix (seen b sk) (binding_events db (sub_topic u)) \<or>
    suffix (binding_events db (sub_topic u)) (seen b sk)"
proof -
  obtain full where "follows full db b" using server_feed_reachable_follows[OF assms(1)] by auto
  with assms(2) have "suffix (seen b sk) (full (sub_topic u))"
    "suffix (binding_events db (sub_topic u)) (full (sub_topic u))"
    by (auto simp: follows_def in_step_def)
  then show ?thesis using suffix_same_cases by blast
qed

lemma server_feed_is_the_log_witness:
  "let s = server_feed_act (\<lambda>_. None) (\<lambda>_. True) 0 (SOpen 7 ''b'')
         (\<lparr>agents = [], commands = [], runtime_events = [], runtime_sequence = 0\<rparr>, new_browser)
   in map_option sub_topic (subscriptions (snd s) 7) = Some ''b'' \<and>
      (suffix (seen (snd s) 7) (binding_events (fst s) ''b'') \<or>
       suffix (binding_events (fst s) ''b'') (seen (snd s) 7))"
proof -
  let ?d = "\<lparr>agents = [], commands = [], runtime_events = [], runtime_sequence = 0\<rparr> :: agent_db"
  let ?s = "server_feed_act (\<lambda>_. None) (\<lambda>_. True) 0 (SOpen 7 ''b'') (?d, new_browser)"
  have "agent_db_ok ?d"
    by (simp add: agent_db_ok_def keys_distinct_def seqs_ok_def binding_events_def cursors_unique_def)
  then have r: "server_feed_reachable (\<lambda>_. None) (fst ?s, snd ?s)"
    using server_feed_run[OF server_feed_boot] by (metis prod.collapse)
  have t: "map_option sub_topic (subscriptions (snd ?s) 7) = Some ''b''" by code_simp
  then obtain u where "subscriptions (snd ?s) 7 = Some u" "sub_topic u = ''b''" by blast
  with server_feed_is_the_log[OF r this(1)] t show ?thesis by (simp only: Let_def)
qed

end
