(* ===== verification/Effects.thy ===== *)
theory Effects
  imports Prelude
begin

text \<open>
  More of the vocabulary of asynchronous methods: \<open>Promise.all\<close>, \<open>Promise.allSettled\<close>,
  \<open>catch(() => {})\<close>, errors with a message, and a weakest-precondition calculus for programs that
  may throw. A method runs without interference between its awaits; promises started together run
  in the order they are written, and the first of them to reject is the rejection of \<open>Promise.all\<close>,
  while the others still take effect.
\<close>

named_theorems wp_simps \<open>weakest preconditions of the combinators\<close>

datatype js_error = Error (error_message: string)

section \<open>Numbers in texts\<close>

definition digit_char :: "nat \<Rightarrow> char" where
  "digit_char n = char_of (48 + n)"

fun show_nat :: "nat \<Rightarrow> string" where
  "show_nat n = (if n < 10 then [digit_char n] else show_nat (n div 10) @ [digit_char (n mod 10)])"

declare show_nat.simps [simp del]

definition show_int :: "int \<Rightarrow> string" where
  "show_int i = (if i < 0 then CHR ''-'' # show_nat (nat (- i)) else show_nat (nat i))"

definition char_digit :: "char \<Rightarrow> nat" where
  "char_digit c = of_char c - 48"

definition read_digits :: "string \<Rightarrow> nat" where
  "read_digits s = foldl (\<lambda>n c. 10 * n + char_digit c) 0 s"

definition ascii_digit :: "char \<Rightarrow> bool" where
  "ascii_digit c \<longleftrightarrow> (48::nat) \<le> of_char c \<and> of_char c \<le> (57::nat)"

lemma char_digit_char [simp]: "n < 10 \<Longrightarrow> char_digit (digit_char n) = n"
  by (simp add: char_digit_def digit_char_def)

lemma ascii_digit_char [simp]: "n < 10 \<Longrightarrow> ascii_digit (digit_char n)"
  by (simp add: ascii_digit_def digit_char_def)

lemma read_show_nat: "read_digits (show_nat n) = n"
  by (induction n rule: show_nat.induct)
    (subst show_nat.simps, simp add: read_digits_def)

lemma show_nat_digits: "\<forall>c\<in>set (show_nat n). ascii_digit c"
  by (induction n rule: show_nat.induct) (subst show_nat.simps, auto)

lemma show_nat_inject: "show_nat m = show_nat n \<longleftrightarrow> m = n"
  by (metis read_show_nat)

definition max_safe_integer :: int where
  "max_safe_integer = 9007199254740991"

text \<open>\<open>typeof x === 'number' && Number.isSafeInteger(x)\<close>\<close>

definition safe_int :: "json \<Rightarrow> int option" where
  "safe_int v = (case v of
     JNum r \<Rightarrow> (case quotient_of r of (n, d) \<Rightarrow>
       if d = 1 \<and> \<bar>n\<bar> \<le> max_safe_integer then Some n else None)
   | _ \<Rightarrow> None)"

lemma safe_int_JNum [simp]: "\<bar>i\<bar> \<le> max_safe_integer \<Longrightarrow> safe_int (JNum (of_int i)) = Some i"
  by (simp add: safe_int_def)

lemma safe_int_bound: "safe_int v = Some i \<Longrightarrow> \<bar>i\<bar> \<le> max_safe_integer"
  by (auto simp: safe_int_def split: json.splits prod.splits if_splits)

text \<open>\<open>{ ...object, key: value }\<close>\<close>

definition with_value :: "string \<Rightarrow> json \<Rightarrow> string \<times> json \<Rightarrow> string \<times> json" where
  "with_value k v kv = (if fst kv = k then (k, v) else kv)"

definition obj_put :: "string \<Rightarrow> json \<Rightarrow> (string \<times> json) list \<Rightarrow> (string \<times> json) list" where
  "obj_put k v kvs = (if k \<in> fst ` set kvs then map (with_value k v) kvs else kvs @ [(k, v)])"

lemma fst_with_value [simp]: "fst (with_value k v kv) = fst kv"
  by (simp add: with_value_def)

lemma map_of_with_value:
  "map_of (map (with_value k v) kvs) x = (if x = k then map_option (\<lambda>_. v) (map_of kvs k) else map_of kvs x)"
proof (induction kvs)
  case (Cons kv kvs)
  then show ?case by (cases kv) (auto simp: with_value_def)
qed simp

lemma map_of_obj_put: "map_of (obj_put k v kvs) x = (if x = k then Some v else map_of kvs x)"
proof (cases "k \<in> fst ` set kvs")
  case True
  then obtain u where "map_of kvs k = Some u" by (metis domD dom_map_of_conv_image_fst)
  with True show ?thesis by (simp add: obj_put_def map_of_with_value)
next
  case False
  then have "map_of kvs k = None" by (simp add: map_of_eq_None_iff)
  with False show ?thesis by (simp add: obj_put_def map_add_def split: option.splits)
qed

lemma json_field_obj_put [simp]:
  "json_field (JObj (obj_put k v kvs)) k' = (if k' = k then Some v else json_field (JObj kvs) k')"
  by (simp add: map_of_obj_put)

lemma distinct_obj_put: "distinct (map fst kvs) \<Longrightarrow> distinct (map fst (obj_put k v kvs))"
  by (auto simp: obj_put_def comp_def)

section \<open>Promises\<close>

definition promise_both ::
  "('s, 'e, 'a) exec \<Rightarrow> ('s, 'e, 'b) exec \<Rightarrow> ('s, 'e, 'a \<times> 'b) exec" where
  "promise_both p q = (\<lambda>s.
     case p s of (r, t) \<Rightarrow> (case q t of (r', u) \<Rightarrow>
       (case (r, r') of
          (Inl e, _) \<Rightarrow> Inl e
        | (Inr _, Inl e) \<Rightarrow> Inl e
        | (Inr x, Inr y) \<Rightarrow> Inr (x, y), u)))"

fun promise_all :: "('s, 'e, 'a) exec list \<Rightarrow> ('s, 'e, 'a list) exec" where
  "promise_all [] = ret []"
| "promise_all (p # ps) = (\<lambda>s.
     case promise_both p (promise_all ps) s of
       (Inl e, t) \<Rightarrow> (Inl e, t)
     | (Inr (x, xs), t) \<Rightarrow> (Inr (x # xs), t))"

fun all_settled :: "('s, 'e, 'a) exec list \<Rightarrow> ('s, 'e, unit) exec" where
  "all_settled [] = ret ()"
| "all_settled (p # ps) = (\<lambda>s. all_settled ps (snd (p s)))"

definition quiet :: "('s, 'e, 'a) exec \<Rightarrow> ('s, 'e, unit) exec" where
  "quiet p = (\<lambda>s. (Inr (), snd (p s)))"

definition do_when :: "bool \<Rightarrow> ('s, 'e, unit) exec \<Rightarrow> ('s, 'e, unit) exec" where
  "do_when b p = (if b then p else ret ())"

fun traverse :: "('x \<Rightarrow> ('s, 'e, 'a) exec) \<Rightarrow> 'x list \<Rightarrow> ('s, 'e, 'a list) exec" where
  "traverse f [] = ret []"
| "traverse f (x # xs) = andThen (f x) (\<lambda>y. andThen (traverse f xs) (\<lambda>ys. ret (y # ys)))"

text \<open>A loop with an accumulator.\<close>

primrec exec_fold :: "('a \<Rightarrow> 'x \<Rightarrow> ('s, 'e, 'a) exec) \<Rightarrow> 'a \<Rightarrow> 'x list \<Rightarrow> ('s, 'e, 'a) exec" where
  "exec_fold f acc [] = ret acc"
| "exec_fold f acc (x # xs) = andThen (f acc x) (\<lambda>next_acc. exec_fold f next_acc xs)"

text \<open>\<open>try ... finally\<close> with an asynchronous end.\<close>

definition try_always :: "('s, 'e, 'a) exec \<Rightarrow> ('s, 'e, unit) exec \<Rightarrow> ('s, 'e, 'a) exec" where
  "try_always p q = (\<lambda>s. case p s of (r, t) \<Rightarrow>
     (case q t of (Inl e, u) \<Rightarrow> (Inl e, u) | (Inr _, u) \<Rightarrow> (r, u)))"

section \<open>Weakest preconditions\<close>

definition wp ::
  "('s, 'e, 'a) exec \<Rightarrow> ('a \<Rightarrow> 's \<Rightarrow> bool) \<Rightarrow> ('e \<Rightarrow> 's \<Rightarrow> bool) \<Rightarrow> 's \<Rightarrow> bool" where
  "wp p Q E s = (case p s of (Inl e, t) \<Rightarrow> E e t | (Inr x, t) \<Rightarrow> Q x t)"

lemma wp_ret [wp_simps]: "wp (ret x) Q E = Q x"
  by (rule ext) (simp add: wp_def ret_def)

lemma wp_raise [wp_simps]: "wp (raise e) Q E = E e"
  by (rule ext) (simp add: wp_def raise_def)

lemma wp_andThen [wp_simps]: "wp (andThen p k) Q E = wp p (\<lambda>x. wp (k x) Q E) E"
  by (rule ext) (auto simp: wp_def andThen_def split: prod.splits sum.splits)

lemma wp_thenDo [wp_simps]: "wp (thenDo p q) Q E = wp p (\<lambda>_. wp q Q E) E"
  by (simp add: thenDo_def wp_andThen)

lemma wp_tryCatch [wp_simps]: "wp (tryCatch p h) Q E = wp p Q (\<lambda>e. wp (h e) Q E)"
  by (rule ext) (auto simp: wp_def tryCatch_def split: prod.splits sum.splits)

lemma wp_throwIf [wp_simps]: "wp (throwIf b e) Q E s = (if b then E e s else Q () s)"
  by (simp add: throwIf_def wp_simps)

lemma wp_do_when [wp_simps]: "wp (do_when b p) Q E s = (if b then wp p Q E s else Q () s)"
  by (simp add: do_when_def wp_simps)

lemma wp_quiet [wp_simps]: "wp (quiet p) Q E = wp p (\<lambda>_. Q ()) (\<lambda>_. Q ())"
  by (rule ext) (auto simp: wp_def quiet_def split: prod.splits sum.splits)

lemma wp_ofSum [wp_simps]: "wp (ofSum r) Q E s = (case r of Inl e \<Rightarrow> E e s | Inr x \<Rightarrow> Q x s)"
  by (simp add: wp_def ofSum_def)

lemma wp_reading [wp_simps]: "wp (reading f) Q E s = Q (f s) s"
  by (simp add: wp_def reading_def)

lemma wp_writing [wp_simps]: "wp (writing f) Q E s = Q () (f s)"
  by (simp add: wp_def writing_def)

lemma wp_if [wp_simps]: "wp (if b then p else q) Q E s = (if b then wp p Q E s else wp q Q E s)"
  by simp

lemma wp_mono:
  assumes "wp p Q E s" and "\<And>x t. Q x t \<Longrightarrow> Q' x t" and "\<And>e t. E e t \<Longrightarrow> E' e t"
  shows "wp p Q' E' s"
  using assms by (auto simp: wp_def split: prod.splits sum.splits)

lemma wp_conj: "wp p Q E s \<Longrightarrow> wp p Q' E' s \<Longrightarrow> wp p (\<lambda>x t. Q x t \<and> Q' x t) (\<lambda>e t. E e t \<and> E' e t) s"
  by (auto simp: wp_def split: prod.splits sum.splits)

lemma wp_guard:
  "(\<not> b \<Longrightarrow> wp k Q E s) \<Longrightarrow> (b \<Longrightarrow> E e s) \<Longrightarrow> wp (thenDo (throwIf b e) k) Q E s"
  by (simp add: wp_simps)

lemma wp_if_intro:
  "(b \<Longrightarrow> wp p Q E s) \<Longrightarrow> (\<not> b \<Longrightarrow> wp q Q E s) \<Longrightarrow> wp (if b then p else q) Q E s"
  by simp

lemma wp_option_intro:
  "(\<And>x. v = Some x \<Longrightarrow> wp (f x) Q E s) \<Longrightarrow> (v = None \<Longrightarrow> wp g Q E s) \<Longrightarrow>
   wp (case v of None \<Rightarrow> g | Some x \<Rightarrow> f x) Q E s"
  by (cases v) auto

lemma wp_any: "(\<And>x t. Q x t) \<Longrightarrow> (\<And>e t. E e t) \<Longrightarrow> wp p Q E s"
  by (simp add: wp_def split: prod.split sum.split)

lemma wp_returns: "wp p Q E s \<Longrightarrow> p s = (Inr x, t) \<Longrightarrow> Q x t"
  by (simp add: wp_def)

lemma wp_throws: "wp p Q E s \<Longrightarrow> p s = (Inl e, t) \<Longrightarrow> E e t"
  by (simp add: wp_def)

lemma wp_result: "wp p Q E s \<longleftrightarrow>
    (\<forall>x t. p s = (Inr x, t) \<longrightarrow> Q x t) \<and> (\<forall>e t. p s = (Inl e, t) \<longrightarrow> E e t)"
  by (auto simp: wp_def split: prod.splits sum.splits)

text \<open>What a program keeps whatever happens.\<close>

definition keeps :: "('s \<Rightarrow> 'v) \<Rightarrow> ('s, 'e, 'a) exec \<Rightarrow> bool" where
  "keeps v p \<longleftrightarrow> (\<forall>s. v (snd (p s)) = v s)"

named_theorems keeps_intros \<open>programs that keep a part of the state\<close>

lemma keeps_wp: "keeps v p \<Longrightarrow> wp p (\<lambda>_ t. v t = v s) (\<lambda>_ t. v t = v s) s"
  unfolding keeps_def wp_def by (auto split: prod.splits sum.splits dest!: spec[of _ s])

lemma keepsD: "keeps v p \<Longrightarrow> p s = (r, t) \<Longrightarrow> v t = v s"
  unfolding keeps_def by (metis snd_conv)

lemma keeps_ret [keeps_intros]: "keeps v (ret x)" by (simp add: keeps_def ret_def)
lemma keeps_raise [keeps_intros]: "keeps v (raise e)" by (simp add: keeps_def raise_def)
lemma keeps_throwIf [keeps_intros]: "keeps v (throwIf b e)" by (simp add: keeps_def throwIf_def ret_def raise_def)
lemma keeps_ofSum [keeps_intros]: "keeps v (ofSum r)" by (simp add: keeps_def ofSum_def)

lemma keeps_andThen [keeps_intros]:
  assumes "keeps v p" and "\<And>x. keeps v (k x)"
  shows "keeps v (andThen p k)"
  using assms unfolding keeps_def andThen_def
  by (auto split: prod.splits sum.splits) (metis snd_conv)+

lemma keeps_thenDo [keeps_intros]: "keeps v p \<Longrightarrow> keeps v q \<Longrightarrow> keeps v (thenDo p q)"
  by (simp add: thenDo_def keeps_andThen)

lemma keeps_tryCatch [keeps_intros]:
  assumes "keeps v p" and "\<And>e. keeps v (h e)"
  shows "keeps v (tryCatch p h)"
  using assms unfolding keeps_def tryCatch_def
  by (auto split: prod.splits sum.splits) (metis snd_conv)+

lemma keeps_if [keeps_intros]: "keeps v p \<Longrightarrow> keeps v q \<Longrightarrow> keeps v (if b then p else q)"
  by simp

lemma keeps_quiet [keeps_intros]: "keeps v p \<Longrightarrow> keeps v (quiet p)"
  by (simp add: keeps_def quiet_def)

lemma keeps_do_when [keeps_intros]: "keeps v p \<Longrightarrow> keeps v (do_when b p)"
  by (simp add: do_when_def keeps_intros)

lemma keeps_forEach [keeps_intros]: "(\<And>x. x \<in> set xs \<Longrightarrow> keeps v (f x)) \<Longrightarrow> keeps v (forEach xs f)"
  by (induction xs) (simp_all add: keeps_intros)

lemma keeps_traverse [keeps_intros]: "(\<And>x. keeps v (f x)) \<Longrightarrow> keeps v (traverse f xs)"
  by (induction xs) (auto intro!: keeps_intros)

lemma keeps_fold [keeps_intros]: "(\<And>a x. keeps v (f a x)) \<Longrightarrow> keeps v (exec_fold f acc xs)"
  by (induction xs arbitrary: acc) (auto intro!: keeps_intros)

lemma keeps_always [keeps_intros]: "keeps v p \<Longrightarrow> keeps v q \<Longrightarrow> keeps v (try_always p q)"
  unfolding keeps_def try_always_def by (auto split: prod.splits sum.splits) (metis snd_conv)+

lemma keeps_both [keeps_intros]:
  assumes "keeps v p" and "keeps v q"
  shows "keeps v (promise_both p q)"
  unfolding keeps_def promise_both_def
  by (auto split: prod.splits sum.splits dest!: keepsD[OF assms(1)] keepsD[OF assms(2)])

lemma keeps_all [keeps_intros]: "(\<And>p. p \<in> set ps \<Longrightarrow> keeps v p) \<Longrightarrow> keeps v (promise_all ps)"
proof (induction ps)
  case Nil
  then show ?case by (simp add: keeps_intros)
next
  case (Cons p ps)
  then have k: "keeps v (promise_both p (promise_all ps))" by (simp add: keeps_both)
  show ?case unfolding keeps_def
    by (auto split: prod.splits sum.splits dest!: keepsD[OF k])
qed

lemma keeps_settled [keeps_intros]: "(\<And>p. p \<in> set ps \<Longrightarrow> keeps v p) \<Longrightarrow> keeps v (all_settled ps)"
proof (induction ps)
  case Nil
  then show ?case by (simp add: keeps_intros)
next
  case (Cons p ps)
  then have "keeps v p" "keeps v (all_settled ps)" by simp_all
  then show ?case by (simp add: keeps_def)
qed

end
