(* ===== verification/Patterns.thy ===== *)
theory Patterns
  imports Prelude
begin

text \<open>
  Regular expressions as the sources write them, with the backtracking semantics of JavaScript: a
  pattern applied at a position yields the remainders it may leave in the order they are tried, and
  a match is the first one. A pattern may record one capture group. The flag \<open>i\<close> is written out as
  \<open>caseless\<close> on the character classes.
\<close>

section \<open>Character classes\<close>

definition in_range :: "char \<Rightarrow> char \<Rightarrow> char \<Rightarrow> bool" where
  "in_range a b c \<longleftrightarrow> (of_char a :: nat) \<le> of_char c \<and> (of_char c :: nat) \<le> of_char b"

definition is_digit :: "char \<Rightarrow> bool" where
  "is_digit c \<longleftrightarrow> in_range CHR ''0'' CHR ''9'' c"

definition is_lower :: "char \<Rightarrow> bool" where
  "is_lower c \<longleftrightarrow> in_range CHR ''a'' CHR ''z'' c"

definition is_upper :: "char \<Rightarrow> bool" where
  "is_upper c \<longleftrightarrow> in_range CHR ''A'' CHR ''Z'' c"

definition is_alnum :: "char \<Rightarrow> bool" where
  "is_alnum c \<longleftrightarrow> is_lower c \<or> is_upper c \<or> is_digit c"

definition is_hex :: "char \<Rightarrow> bool" where
  "is_hex c \<longleftrightarrow> is_digit c \<or> in_range CHR ''a'' CHR ''f'' c"

text \<open>A class under the flag \<open>i\<close>.\<close>

definition js_upper_char :: "char \<Rightarrow> char" where
  "js_upper_char c = (if is_lower c then char_of ((of_char c :: nat) - 32) else c)"

definition caseless :: "(char \<Rightarrow> bool) \<Rightarrow> char \<Rightarrow> bool" where
  "caseless p c \<longleftrightarrow> p c \<or> p (js_lower_char c) \<or> p (js_upper_char c)"

section \<open>Patterns\<close>

datatype rx =
    Eps
  | Cls "char \<Rightarrow> bool"
  | Cat rx rx
  | Alt rx rx
  | Star rx
  | Upto nat rx
  | Cap rx

fun lit :: "string \<Rightarrow> rx" where
  "lit [] = Eps"
| "lit (c # cs) = Cat (Cls (\<lambda>d. d = c)) (lit cs)"

definition opt :: "rx \<Rightarrow> rx" where
  "opt r = Upto 1 r"

definition many1 :: "rx \<Rightarrow> rx" where
  "many1 r = Cat r (Star r)"

fun cats :: "rx list \<Rightarrow> rx" where
  "cats [] = Eps"
| "cats [r] = r"
| "cats (r # rs) = Cat r (cats rs)"

fun times :: "nat \<Rightarrow> rx \<Rightarrow> rx" where
  "times 0 r = Eps"
| "times (Suc n) r = Cat r (times n r)"

text \<open>\<open>r{m,n}\<close>\<close>

definition between_times :: "nat \<Rightarrow> nat \<Rightarrow> rx \<Rightarrow> rx" where
  "between_times m n r = Cat (times m r) (Upto (n - m) r)"

type_synonym scan = "string option \<times> string"

text \<open>A further round of a repetition has to consume something.\<close>

fun rounds :: "(scan \<Rightarrow> scan list) \<Rightarrow> nat \<Rightarrow> scan \<Rightarrow> scan list" where
  "rounds f 0 s = [s]"
| "rounds f (Suc n) s =
     concat (map (rounds f n) (filter (\<lambda>t. length (snd t) < length (snd s)) (f s))) @ [s]"

fun rx_run :: "rx \<Rightarrow> scan \<Rightarrow> scan list" where
  "rx_run Eps s = [s]"
| "rx_run (Cls p) s = (case snd s of [] \<Rightarrow> [] | c # cs \<Rightarrow> if p c then [(fst s, cs)] else [])"
| "rx_run (Cat q r) s = concat (map (rx_run r) (rx_run q s))"
| "rx_run (Alt q r) s = rx_run q s @ rx_run r s"
| "rx_run (Star r) s = rounds (rx_run r) (length (snd s)) s"
| "rx_run (Upto n r) s = rounds (rx_run r) n s"
| "rx_run (Cap r) s = map (\<lambda>t. (Some (take (length (snd s) - length (snd t)) (snd s)), snd t)) (rx_run r s)"

text \<open>\<open>/^r$/.test(s)\<close>, \<open>/r/.test(s)\<close> and the capture of \<open>s.match(/r/)\<close>.\<close>

definition full_match :: "rx \<Rightarrow> string \<Rightarrow> bool" where
  "full_match r s \<longleftrightarrow> [] \<in> set (map snd (rx_run r (None, s)))"

fun first_match :: "rx \<Rightarrow> string \<Rightarrow> scan option" where
  "first_match r [] = (case rx_run r (None, []) of [] \<Rightarrow> None | t # _ \<Rightarrow> Some t)"
| "first_match r (c # cs) = (case rx_run r (None, c # cs) of [] \<Rightarrow> first_match r cs | t # _ \<Rightarrow> Some t)"

definition match_capture :: "rx \<Rightarrow> string \<Rightarrow> string option" where
  "match_capture r s = Option.bind (first_match r s) fst"

section \<open>What a match consumes\<close>

fun alphabet :: "rx \<Rightarrow> char \<Rightarrow> bool" where
  "alphabet Eps c = False"
| "alphabet (Cls p) c = p c"
| "alphabet (Cat q r) c = (alphabet q c \<or> alphabet r c)"
| "alphabet (Alt q r) c = (alphabet q c \<or> alphabet r c)"
| "alphabet (Star r) c = alphabet r c"
| "alphabet (Upto n r) c = alphabet r c"
| "alphabet (Cap r) c = alphabet r c"

definition consumes :: "(char \<Rightarrow> bool) \<Rightarrow> (scan \<Rightarrow> scan list) \<Rightarrow> bool" where
  "consumes p f \<longleftrightarrow> (\<forall>s t. t \<in> set (f s) \<longrightarrow> (\<exists>u. snd s = u @ snd t \<and> (\<forall>c\<in>set u. p c)))"

lemma consumesD: "consumes p f \<Longrightarrow> t \<in> set (f s) \<Longrightarrow> \<exists>u. snd s = u @ snd t \<and> (\<forall>c\<in>set u. p c)"
  unfolding consumes_def by blast

lemma consumes_weaken: "consumes p f \<Longrightarrow> (\<And>c. p c \<Longrightarrow> q c) \<Longrightarrow> consumes q f"
  unfolding consumes_def by blast

lemma consumes_chain:
  assumes "consumes p f" and "consumes p g" and "t \<in> set (f s)" and "u \<in> set (g t)"
  shows "\<exists>w. snd s = w @ snd u \<and> (\<forall>c\<in>set w. p c)"
proof -
  obtain v where v: "snd s = v @ snd t" "\<forall>c\<in>set v. p c" using consumesD[OF assms(1,3)] by blast
  obtain w where w: "snd t = w @ snd u" "\<forall>c\<in>set w. p c" using consumesD[OF assms(2,4)] by blast
  have "snd s = (v @ w) @ snd u" "\<forall>c\<in>set (v @ w). p c" using v w by auto
  then show ?thesis by blast
qed

lemma consumes_rounds:
  assumes "consumes p f"
  shows "consumes p (rounds f n)"
proof (induction n)
  case 0
  then show ?case by (simp add: consumes_def)
next
  case (Suc n)
  show ?case
    unfolding consumes_def
  proof (intro allI impI)
    fix s t assume "t \<in> set (rounds f (Suc n) s)"
    then consider u where "u \<in> set (f s)" "t \<in> set (rounds f n u)" | "t = s" by auto
    then show "\<exists>u. snd s = u @ snd t \<and> (\<forall>c\<in>set u. p c)"
      by cases (use consumes_chain[OF assms Suc.IH] in auto)
  qed
qed

lemma run_consumes: "consumes (alphabet r) (rx_run r)"
proof (induction r)
  case Eps
  then show ?case by (simp add: consumes_def)
next
  case (Cls p)
  show ?case by (auto simp: consumes_def split: list.splits if_splits intro: exI[of _ "[_]"])
next
  case (Cat q r)
  have "consumes (alphabet (Cat q r)) (rx_run q)" "consumes (alphabet (Cat q r)) (rx_run r)"
    using Cat.IH by (auto elim: consumes_weaken)
  from consumes_chain[OF this] show ?case by (auto simp: consumes_def)
next
  case (Alt q r)
  then show ?case unfolding consumes_def by fastforce
next
  case (Star r)
  then have "consumes (alphabet r) (rounds (rx_run r) n)" for n by (rule consumes_rounds)
  then show ?case by (simp add: consumes_def)
next
  case (Upto n r)
  then have "consumes (alphabet r) (rounds (rx_run r) n)" by (intro consumes_rounds)
  then show ?case by (simp add: consumes_def)
next
  case (Cap r)
  then show ?case unfolding consumes_def by fastforce
qed

lemma full_match_alphabet: "full_match r s \<Longrightarrow> c \<in> set s \<Longrightarrow> alphabet r c"
proof -
  assume "full_match r s" and c: "c \<in> set s"
  then obtain t where "t \<in> set (rx_run r (None, s))" "snd t = []" by (auto simp: full_match_def)
  with consumesD[OF run_consumes this(1)] c show ?thesis by auto
qed

lemma full_match_Cat_iff:
  "full_match (Cat q r) s \<longleftrightarrow> (\<exists>t\<in>set (rx_run q (None, s)). [] \<in> snd ` set (rx_run r t))"
  by (auto simp: full_match_def image_iff)

section \<open>The shape of a name\<close>

lemma in_snd_image: "y \<in> snd ` S \<longleftrightarrow> (\<exists>k. (k, y) \<in> S)"
  by force

text \<open>\<open>/^[a][b]{0,n}$/\<close>\<close>

definition name_rx :: "(char \<Rightarrow> bool) \<Rightarrow> (char \<Rightarrow> bool) \<Rightarrow> nat \<Rightarrow> rx" where
  "name_rx a b n = Cat (Cls a) (Upto n (Cls b))"

lemma rounds_Cls:
  "(k, t) \<in> set (rounds (rx_run (Cls b)) n (k', s)) \<longleftrightarrow>
     k = k' \<and> (\<exists>w. s = w @ t \<and> length w \<le> n \<and> (\<forall>c\<in>set w. b c))"
proof (induction n arbitrary: s)
  case 0
  then show ?case by auto
next
  case (Suc n)
  show ?case
  proof (cases s)
    case Nil
    then show ?thesis by auto
  next
    case (Cons c cs)
    show ?thesis
    proof
      assume "(k, t) \<in> set (rounds (rx_run (Cls b)) (Suc n) (k', s))"
      then consider "b c" "(k, t) \<in> set (rounds (rx_run (Cls b)) n (k', cs))" | "(k, t) = (k', s)"
        using Cons by (auto split: if_splits)
      then show "k = k' \<and> (\<exists>w. s = w @ t \<and> length w \<le> Suc n \<and> (\<forall>c\<in>set w. b c))"
      proof cases
        case 1
        with Suc.IH obtain w where "k = k'" "cs = w @ t" "length w \<le> n" "\<forall>c\<in>set w. b c" by blast
        with 1 Cons show ?thesis by (intro conjI exI[of _ "c # w"]) auto
      qed auto
    next
      assume "k = k' \<and> (\<exists>w. s = w @ t \<and> length w \<le> Suc n \<and> (\<forall>c\<in>set w. b c))"
      then obtain w where w: "k = k'" "s = w @ t" "length w \<le> Suc n" "\<forall>c\<in>set w. b c" by blast
      show "(k, t) \<in> set (rounds (rx_run (Cls b)) (Suc n) (k', s))"
      proof (cases w)
        case Nil
        with w Cons show ?thesis by simp
      next
        case (Cons d v)
        with w have "(k, t) \<in> set (rounds (rx_run (Cls b)) n (k', v @ t))"
          by (subst Suc.IH) auto
        with w Cons show ?thesis by simp
      qed
    qed
  qed
qed

lemma full_match_name:
  "full_match (name_rx a b n) s \<longleftrightarrow>
     (\<exists>c w. s = c # w \<and> a c \<and> length w \<le> n \<and> (\<forall>d\<in>set w. b d))"
proof (cases s)
  case Nil
  then show ?thesis by (simp add: full_match_def name_rx_def)
next
  case (Cons c w)
  have "full_match (name_rx a b n) s \<longleftrightarrow> a c \<and> (\<exists>k. (k, []) \<in> set (rounds (rx_run (Cls b)) n (None, w)))"
    using Cons by (simp add: full_match_def name_rx_def in_snd_image del: rx_run.simps(2)) (simp add: rx_run.simps(2))
  also have "\<dots> \<longleftrightarrow> a c \<and> length w \<le> n \<and> (\<forall>d\<in>set w. b d)"
    unfolding rounds_Cls by auto
  finally show ?thesis using Cons by auto
qed

text \<open>\<open>/^[b]+$/\<close>, \<open>/^[b]{1,n}$/\<close>\<close>

lemma full_match_upto: "full_match (Upto n (Cls b)) s \<longleftrightarrow> length s \<le> n \<and> (\<forall>d\<in>set s. b d)"
proof -
  have "full_match (Upto n (Cls b)) s \<longleftrightarrow> (\<exists>k. (k, []) \<in> set (rounds (rx_run (Cls b)) n (None, s)))"
    by (simp add: full_match_def in_snd_image del: rx_run.simps(2))
  then show ?thesis unfolding rounds_Cls by auto
qed

lemma full_match_star: "full_match (Star (Cls b)) s \<longleftrightarrow> (\<forall>d\<in>set s. b d)"
  using full_match_upto[of "length s" b s] by (simp add: full_match_def)

lemma full_match_plus: "full_match (many1 (Cls b)) s \<longleftrightarrow> s \<noteq> [] \<and> (\<forall>d\<in>set s. b d)"
proof (cases s)
  case Nil
  then show ?thesis by (simp add: full_match_def many1_def)
next
  case (Cons c w)
  then have "full_match (many1 (Cls b)) s \<longleftrightarrow> b c \<and> full_match (Star (Cls b)) w"
    by (auto simp: full_match_def many1_def)
  with Cons show ?thesis by (simp add: full_match_star)
qed

end
