(* ===== verification/Posix_Path.thy ===== *)
theory Posix_Path
  imports Prelude
begin

text \<open>
  The functions of Node's \<open>path.posix\<close> that the sources use, and what they promise: a normal path
  keeps its \<open>..\<close> segments at the front, and a relative path that passes the usual guard stays below
  the directory it is joined to.
\<close>

section \<open>Paths\<close>

fun norm_segs :: "bool \<Rightarrow> string list \<Rightarrow> string list \<Rightarrow> string list" where
  "norm_segs up st [] = rev st"
| "norm_segs up st (s # ss) =
     (if s = [] \<or> s = ''.'' then norm_segs up st ss
      else if s = ''..'' then
        (case st of
           [] \<Rightarrow> norm_segs up (if up then [s] else []) ss
         | t # ts \<Rightarrow> if t = ''..'' then norm_segs up (s # st) ss else norm_segs up ts ss)
      else norm_segs up (s # st) ss)"

definition is_absolute :: "string \<Rightarrow> bool" where
  "is_absolute p \<longleftrightarrow> prefix ''/'' p"

definition path_normalize :: "string \<Rightarrow> string" where
  "path_normalize p =
     (if p = [] then ''.'' else
      let q = join_with ''/'' (norm_segs (\<not> is_absolute p) [] (split_slash p));
          trail = suffix ''/'' p
      in if q = [] then (if is_absolute p then ''/'' else if trail then ''./'' else ''.'')
         else (if is_absolute p then ''/'' else []) @ q @ (if trail then ''/'' else []))"

definition path_join :: "string list \<Rightarrow> string" where
  "path_join ps = (let qs = filter (\<lambda>p. p \<noteq> []) ps in
     if qs = [] then ''.'' else path_normalize (join_with ''/'' qs))"

definition path_dirname :: "string \<Rightarrow> string" where
  "path_dirname p =
     (case p of
        [] \<Rightarrow> ''.''
      | c # cs \<Rightarrow>
          let up = rev (dropWhile (\<lambda>d. d \<noteq> CHR ''/'') (dropWhile (\<lambda>d. d = CHR ''/'') (rev cs)))
          in if up = [] then (if c = CHR ''/'' then ''/'' else ''.'')
             else if c = CHR ''/'' \<and> length up = 1 then ''//'' else c # butlast up)"

definition path_basename :: "string \<Rightarrow> string" where
  "path_basename p = rev (takeWhile (\<lambda>d. d \<noteq> CHR ''/'') (dropWhile (\<lambda>d. d = CHR ''/'') (rev p)))"


section \<open>Normal segments\<close>

definition plain_segment :: "string \<Rightarrow> bool" where
  "plain_segment s \<longleftrightarrow> s \<noteq> [] \<and> s \<noteq> ''.'' \<and> s \<noteq> ''..'' \<and> CHR ''/'' \<notin> set s"

definition plain_path :: "string list \<Rightarrow> bool" where
  "plain_path ss \<longleftrightarrow> (\<forall>s\<in>set ss. plain_segment s)"

lemma plain_path_simps [simp]:
  "plain_path []" "plain_path (s # ss) \<longleftrightarrow> plain_segment s \<and> plain_path ss"
  "plain_path (ss @ ts) \<longleftrightarrow> plain_path ss \<and> plain_path ts"
  by (auto simp: plain_path_def)

lemma norm_segs_plain: "plain_path ss \<Longrightarrow> norm_segs up st ss = rev st @ ss"
  by (induction ss arbitrary: st) (auto simp: plain_segment_def)

lemma norm_segs_append: "norm_segs up st (ss @ ts) = norm_segs up (rev (norm_segs up st ss)) ts"
  by (induction up st ss rule: norm_segs.induct) (auto split: list.splits)

text \<open>The stack of the loop: plain segments above the \<open>..\<close> that were kept.\<close>

definition norm_stack :: "bool \<Rightarrow> string list \<Rightarrow> bool" where
  "norm_stack up st \<longleftrightarrow> (\<exists>k ss. rev st = replicate k ''..'' @ ss \<and> plain_path ss \<and> (k > 0 \<longrightarrow> up))"

lemma norm_stackI: "rev st = replicate k ''..'' @ ss \<Longrightarrow> plain_path ss \<Longrightarrow> (k > 0 \<longrightarrow> up) \<Longrightarrow> norm_stack up st"
  unfolding norm_stack_def by blast

lemma norm_stack_push:
  assumes "norm_stack up st" and "plain_segment s"
  shows "norm_stack up (s # st)"
proof -
  obtain k ss where "rev st = replicate k ''..'' @ ss" "plain_path ss" "k > 0 \<longrightarrow> up"
    using assms(1) by (auto simp: norm_stack_def)
  with assms(2) show ?thesis by (intro norm_stackI[of _ k "ss @ [s]"]) auto
qed

lemma norm_stack_pop:
  assumes "norm_stack up (t # ts)" and "t \<noteq> ''..''"
  shows "norm_stack up ts"
proof -
  obtain k ss where k: "rev ts @ [t] = replicate k ''..'' @ ss" "plain_path ss" "k > 0 \<longrightarrow> up"
    using assms(1) by (auto simp: norm_stack_def)
  show ?thesis
  proof (cases ss rule: rev_cases)
    case Nil
    with k(1) assms(2) show ?thesis by (cases k) (auto simp: replicate_append_same[symmetric])
  next
    case (snoc us u)
    with k show ?thesis by (intro norm_stackI[of _ k us]) auto
  qed
qed

lemma norm_stack_dots:
  assumes "norm_stack up (''..'' # ts)"
  shows "norm_stack up (''..'' # ''..'' # ts)"
proof -
  obtain k ss where k: "rev ts @ [''..''] = replicate k ''..'' @ ss" "plain_path ss" "k > 0 \<longrightarrow> up"
    using assms by (auto simp: norm_stack_def)
  have "ss = []"
  proof (cases ss rule: rev_cases)
    case (snoc us u)
    with k show ?thesis by (simp add: plain_segment_def)
  qed simp
  with k show ?thesis
    by (intro norm_stackI[of _ "Suc k" "[]"]) (cases k, auto simp: replicate_append_same)
qed

lemma norm_segs_stack:
  assumes "norm_stack up st" and "\<forall>s\<in>set ss. CHR ''/'' \<notin> set s"
  shows "norm_stack up (rev (norm_segs up st ss))"
  using assms
proof (induction up st ss rule: norm_segs.induct)
  case (1 up st)
  then show ?case by simp
next
  case (2 up st s ss)
  show ?case
  proof (cases "s = [] \<or> s = ''.''")
    case True
    with 2 show ?thesis by auto
  next
    case no: False
    show ?thesis
    proof (cases "s = ''..''")
      case True
      show ?thesis
      proof (cases st)
        case Nil
        have "norm_stack up (if up then [s] else [])"
          using True by (auto intro: norm_stackI[of _ 1 "[]"] norm_stackI[of _ 0 "[]"])
        with 2(2)[OF no True Nil] 2(7) no True Nil show ?thesis by auto
      next
        case (Cons t ts)
        then show ?thesis
          using 2(3)[OF no True Cons] 2(4)[OF no True Cons] 2(6,7) no True
            norm_stack_dots[of up ts] norm_stack_pop[of up t ts] by auto
      qed
    next
      case False
      with no 2(7) have "plain_segment s" by (simp add: plain_segment_def)
      from norm_stack_push[OF 2(6) this] 2(5)[OF no False] no False 2(7) show ?thesis by auto
    qed
  qed
qed

lemma norm_segs_normal:
  assumes "\<forall>s\<in>set ss. CHR ''/'' \<notin> set s"
  obtains k ts where "norm_segs up [] ss = replicate k ''..'' @ ts" "plain_path ts" "k > 0 \<longrightarrow> up"
  using norm_segs_stack[OF norm_stackI[of "[]" 0 "[]" up] assms] by (auto simp: norm_stack_def)

lemma split_slash_no_slash: "\<forall>s\<in>set (split_slash p). CHR ''/'' \<notin> set s"
  using split_on_no_sep[of _ "\<lambda>c. c = CHR ''/''" p] by auto

lemma join_with_Nil_iff: "plain_path ss \<Longrightarrow> join_with ''/'' ss = [] \<longleftrightarrow> ss = []"
  by (cases "(''/'', ss)" rule: join_with.cases) (auto simp: plain_segment_def)

lemma split_slash_snoc: "split_slash (p @ ''/'') = split_slash p @ [[]]"
  by (induction p) (auto split: list.splits)

lemma split_slash_prefix: "CHR ''/'' \<notin> set w \<Longrightarrow> split_slash (w @ CHR ''/'' # s) = w # split_slash s"
  by (rule split_on_append_sep) auto


section \<open>Guarded relative paths\<close>

text \<open>What \<open>normalize\<close> makes of a relative path that does not climb.\<close>

definition below_form :: "string list \<Rightarrow> bool \<Rightarrow> string" where
  "below_form ss trail = (if ss = [] then ''.'' else join_with ''/'' ss) @ (if trail then ''/'' else [])"

lemma join_climbing:
  assumes "k > 0"
  shows "join_with ''/'' (replicate k ''..'' @ ts) = ''..'' \<or> prefix ''../'' (join_with ''/'' (replicate k ''..'' @ ts))"
proof -
  obtain j where "k = Suc j" using assms by (cases k) auto
  then show ?thesis by (cases "replicate j ''..'' @ ts") auto
qed

lemma normalize_relative:
  assumes "p \<noteq> []" and "\<not> is_absolute p"
  obtains ss where "plain_path ss" "path_normalize p = below_form ss (suffix ''/'' p)"
  | "path_normalize p = ''..''" | "prefix ''../'' (path_normalize p)"
proof -
  obtain k ts where n: "norm_segs True [] (split_slash p) = replicate k ''..'' @ ts" "plain_path ts"
    by (rule norm_segs_normal[OF split_slash_no_slash[of p], where up = True])
  show ?thesis
  proof (cases "k = 0")
    case True
    then have "path_normalize p = below_form ts (suffix ''/'' p)"
      using assms n join_with_Nil_iff[OF n(2)] by (simp add: path_normalize_def below_form_def)
    with n(2) that(1) show ?thesis by blast
  next
    case False
    let ?q = "join_with ''/'' (replicate k ''..'' @ ts)"
    have q: "?q = ''..'' \<or> prefix ''../'' ?q" using join_climbing False by simp
    then have "path_normalize p = ?q @ (if suffix ''/'' p then ''/'' else [])"
      using assms n by (auto simp: path_normalize_def Let_def)
    with q that(2,3) show ?thesis by (auto split: if_splits)
  qed
qed

lemma split_below_form:
  "plain_path ss \<Longrightarrow> split_slash (below_form ss trail) =
     (if ss = [] then [''.''] else ss) @ (if trail then [[]] else [])"
  using split_join_slash[of ss]
  by (auto simp: below_form_def split_slash_snoc plain_path_def plain_segment_def)

lemma below_form_nonempty [simp]: "plain_path ss \<Longrightarrow> below_form ss trail \<noteq> []"
  using join_with_Nil_iff[of ss] by (auto simp: below_form_def)

lemma join_plain_head: "plain_path ss \<Longrightarrow> ss \<noteq> [] \<Longrightarrow> \<not> is_absolute (join_with ''/'' ss)"
  by (cases "(''/'', ss)" rule: join_with.cases; cases "hd ss")
    (auto simp: plain_segment_def is_absolute_def)

lemma below_form_relative [simp]: "plain_path ss \<Longrightarrow> \<not> is_absolute (below_form ss trail)"
  using join_plain_head[of ss] join_with_Nil_iff[of ss]
  by (cases "join_with ''/'' ss") (auto simp: below_form_def is_absolute_def)

lemma below_form_trail: "plain_path ss \<Longrightarrow> suffix ''/'' (below_form ss trail) = trail"
proof -
  assume p: "plain_path ss"
  have "\<not> suffix ''/'' (join_with ''/'' ss)" if "ss \<noteq> []"
  proof
    assume "suffix ''/'' (join_with ''/'' ss)"
    then obtain q where "join_with ''/'' ss = q @ ''/''" by (auto simp: suffix_def)
    then have "[] \<in> set (split_slash (join_with ''/'' ss))" by (simp add: split_slash_snoc)
    with p that split_join_slash[of ss] show False by (auto simp: plain_path_def plain_segment_def)
  qed
  with p show ?thesis by (auto simp: below_form_def suffix_def)
qed

lemma normalize_below_form: "plain_path ss \<Longrightarrow> path_normalize (below_form ss trail) = below_form ss trail"
  using join_with_Nil_iff[of ss] below_form_trail[of ss trail]
  by (auto simp: path_normalize_def split_below_form norm_segs_append norm_segs_plain Let_def)
    (auto simp: below_form_def)

text \<open>Joined to an absolute directory, such a path stays below it.\<close>

lemma join_with_append:
  "xs \<noteq> [] \<Longrightarrow> ys \<noteq> [] \<Longrightarrow> join_with sep (xs @ ys) = join_with sep xs @ sep @ join_with sep ys"
  by (induction xs rule: induct_list012) (auto simp: neq_Nil_conv)

lemma split_slash_dir:
  "plain_path dir \<Longrightarrow> dir \<noteq> [] \<Longrightarrow>
   split_slash (CHR ''/'' # join_with ''/'' dir @ CHR ''/'' # s) = [] # dir @ split_slash s"
proof (induction dir rule: induct_list012)
  case (2 w)
  then show ?case by (simp add: split_slash_prefix plain_segment_def)
next
  case (3 w v vs)
  then show ?case by (simp add: split_slash_prefix plain_segment_def)
qed simp

lemma join_below:
  assumes "plain_path dir" "dir \<noteq> []" "plain_path ss"
  shows "path_join [CHR ''/'' # join_with ''/'' dir, below_form ss trail] =
    CHR ''/'' # join_with ''/'' (dir @ ss) @ (if trail then ''/'' else [])"
proof -
  let ?p = "(CHR ''/'' # join_with ''/'' dir) @ ''/'' @ below_form ss trail"
  have sp: "split_slash ?p = [] # dir @ split_slash (below_form ss trail)"
    using split_slash_dir[OF assms(1,2)] by simp
  have n: "norm_segs False [] (split_slash ?p) = dir @ ss"
    unfolding sp using assms by (simp add: split_below_form norm_segs_append norm_segs_plain)
  have a: "is_absolute ?p" by (simp add: is_absolute_def)
  have t: "suffix ''/'' ?p = trail"
    using below_form_trail[OF assms(3), of trail] below_form_nonempty[OF assms(3), of trail]
    by (cases "below_form ss trail" rule: rev_cases) (auto simp: suffix_def)
  have ne: "join_with ''/'' (dir @ ss) \<noteq> []"
    using assms join_with_Nil_iff[of "dir @ ss"] by simp
  have "path_join [CHR ''/'' # join_with ''/'' dir, below_form ss trail] = path_normalize ?p"
    using assms(3) by (simp add: path_join_def)
  also have "\<dots> = CHR ''/'' # join_with ''/'' (dir @ ss) @ (if trail then ''/'' else [])"
    using n a t ne by (simp add: path_normalize_def Let_def)
  finally show ?thesis .
qed

end
