(* ===== verification/Container_Volume.thy ===== *)
theory Container_Volume
  imports Effects Patterns Posix_Path
begin

text \<open>
  \<^verbatim>\<open>apps/api/src/modules/docker/container-volume.service.ts\<close>: the class \<open>ContainerVolumeService\<close>,
  that works on the data directory of an installation through commands in its container. The
  container is the argument \<open>run\<close>: a command with an optional input has an exit code and two
  texts and changes the world \<open>'w\<close>, or it throws. A random UUID is read off the world.
\<close>

section \<open>Commands\<close>

record command_result =
  exit_code :: int
  std_out :: string
  std_err :: string

type_synonym 'w container_run = "string list \<Rightarrow> string option \<Rightarrow> ('w, js_error, command_result) exec"
type_synonym ('w, 'a) io = "('w, js_error, 'a) exec"

datatype path_kind = AFile | ADirectory
datatype file_mode = M0600 | M0644 | M0755

definition app_data :: string where
  "app_data = ''/app/data''"

definition vol_relative :: "string \<Rightarrow> js_error + string" where
  "vol_relative path =
     (if path = [] \<or> CHR 0x00 \<in> set path \<or> is_absolute path
      then Inl (Error ''Volume path must be a non-empty relative path'')
      else let normalized = path_normalize path in
        if normalized = ''.'' \<or> normalized = ''..'' \<or> prefix ''../'' normalized
        then Inl (Error ''Volume path escapes /app/data'')
        else Inr normalized)"

definition vol_absolute :: "string \<Rightarrow> js_error + string" where
  "vol_absolute path = map_sum id (\<lambda>p. path_join [app_data, p]) (vol_relative path)"

definition command_error :: "string \<Rightarrow> command_result \<Rightarrow> js_error" where
  "command_error action result =
     (let details = js_trim (if std_err result \<noteq> [] then std_err result else std_out result)
      in if details \<noteq> [] then Error (''Unable to '' @ action @ '': '' @ details)
         else Error (''Unable to '' @ action @ '': container command exited with code '' @
           show_int (exit_code result)))"

definition checked :: "'w container_run \<Rightarrow> string list \<Rightarrow> string \<Rightarrow> string option \<Rightarrow> ('w, unit) io" where
  "checked run cmd action inp =
     andThen (run cmd inp) (\<lambda>result. throwIf (exit_code result \<noteq> 0) (command_error action result))"

section \<open>Looking at the volume\<close>

definition cv_exists :: "'w container_run \<Rightarrow> string \<Rightarrow> path_kind \<Rightarrow> ('w, bool) io" where
  "cv_exists run relativePath kind =
     andThen (ofSum (vol_absolute relativePath)) (\<lambda>path.
     andThen (run [''test'', if kind = ADirectory then ''-d'' else ''-f'', path] None) (\<lambda>result.
       if exit_code result = 0 then ret True
       else if exit_code result = 1 \<and> js_trim (std_err result) = [] then ret False
       else raise (command_error ''inspect volume path'' result)))"

definition cv_read_file :: "'w container_run \<Rightarrow> string \<Rightarrow> ('w, string) io" where
  "cv_read_file run relativePath =
     andThen (ofSum (vol_absolute relativePath)) (\<lambda>path.
     andThen (run [''cat'', ''--'', path] None) (\<lambda>result.
     thenDo (throwIf (exit_code result \<noteq> 0) (command_error ''read volume file'' result))
       (ret (std_out result))))"

text \<open>\<open>split(/\r?\n/)\<close> and \<open>filter(Boolean)\<close>; \<open>le\<close> is the order of \<open>localeCompare\<close>.\<close>

definition chop_cr :: "string \<Rightarrow> string" where
  "chop_cr s = (if suffix [CHR 0x0D] s then butlast s else s)"

definition js_lines :: "string \<Rightarrow> string list" where
  "js_lines s = (let ls = split_on (\<lambda>c. c = CHR 0x0A) s in map chop_cr (butlast ls) @ [last ls])"

fun insert_by :: "('a \<Rightarrow> 'a \<Rightarrow> bool) \<Rightarrow> 'a \<Rightarrow> 'a list \<Rightarrow> 'a list" where
  "insert_by le x [] = [x]"
| "insert_by le x (y # ys) = (if le x y then x # y # ys else y # insert_by le x ys)"

definition sort_by :: "('a \<Rightarrow> 'a \<Rightarrow> bool) \<Rightarrow> 'a list \<Rightarrow> 'a list" where
  "sort_by le xs = foldr (insert_by le) xs []"

definition cv_list_files :: "'w container_run \<Rightarrow> (string \<Rightarrow> string \<Rightarrow> bool) \<Rightarrow> string \<Rightarrow> ('w, string list) io" where
  "cv_list_files run le relativeDirectory =
     andThen (cv_exists run relativeDirectory ADirectory) (\<lambda>there.
     if \<not> there then ret []
     else andThen (ofSum (vol_absolute relativeDirectory)) (\<lambda>path.
     andThen (run [''find'', path, ''-maxdepth'', ''1'', ''-type'', ''f''] None) (\<lambda>result.
     thenDo (throwIf (exit_code result \<noteq> 0) (command_error ''list volume directory'' result))
       (ret (sort_by le (map path_basename (filter (\<lambda>l. l \<noteq> []) (js_lines (std_out result)))))))))"

record volume_entry =
  entry_path :: string
  entry_kind :: path_kind
  entry_size :: "rat option"
  entry_modified :: string

text \<open>
  A line of \<open>find -printf '%f\t%y\t%s\t%T@\n'\<close>; \<open>num\<close> is \<open>Number\<close> (with \<open>None\<close> for \<open>NaN\<close>) and \<open>date\<close>
  the ISO text of a time in seconds, which throws for an invalid one.
\<close>

definition entry_of_line ::
  "(string \<Rightarrow> rat option) \<Rightarrow> (string \<Rightarrow> js_error + string) \<Rightarrow> string \<Rightarrow> string \<Rightarrow>
   js_error + volume_entry list" where
  "entry_of_line num date dir line =
     (case split_on (\<lambda>c. c = CHR 0x09) line of
        name # kind # bytes # modified # _ \<Rightarrow>
          if name = [] \<or> kind = [] \<or> bytes = [] \<or> modified = [] \<or>
             CHR ''/'' \<in> set name \<or> CHR 0x5C \<in> set name
          then Inl (Error ''Container returned an invalid directory entry'')
          else if kind \<noteq> ''f'' \<and> kind \<noteq> ''d'' then Inr []
          else (case date modified of
              Inl e \<Rightarrow> Inl e
            | Inr modified_at \<Rightarrow> Inr [\<lparr>entry_path = (if dir \<noteq> [] then dir @ ''/'' @ name else name),
                entry_kind = (if kind = ''d'' then ADirectory else AFile),
                entry_size = (if kind = ''d'' then None else num bytes),
                entry_modified = modified_at\<rparr>])
      | _ \<Rightarrow> Inl (Error ''Container returned an invalid directory entry''))"

definition cv_list_entries ::
  "'w container_run \<Rightarrow> (string \<Rightarrow> rat option) \<Rightarrow> (string \<Rightarrow> js_error + string) \<Rightarrow> string \<Rightarrow>
   ('w, volume_entry list) io" where
  "cv_list_entries run num date relativeDirectory =
     andThen (if relativeDirectory \<noteq> [] then ofSum (vol_absolute relativeDirectory) else ret app_data)
       (\<lambda>absolute.
     andThen (run [''find'', absolute, ''-mindepth'', ''1'', ''-maxdepth'', ''1'', ''-printf'',
         ''%f'' @ [CHR 0x09] @ ''%y'' @ [CHR 0x09] @ ''%s'' @ [CHR 0x09] @ ''%T@'' @ [CHR 0x0A]] None)
       (\<lambda>result.
     thenDo (throwIf (exit_code result \<noteq> 0) (command_error ''list volume directory'' result))
     (andThen (traverse (\<lambda>l. ofSum (entry_of_line num date relativeDirectory l))
         (filter (\<lambda>l. l \<noteq> []) (js_lines (std_out result))))
       (\<lambda>es. ret (concat es)))))"

definition cv_read_file_bytes ::
  "'w container_run \<Rightarrow> (string \<Rightarrow> string) \<Rightarrow> string \<Rightarrow> nat \<Rightarrow> ('w, string) io" where
  "cv_read_file_bytes run from_base64 relativePath maximumBytes =
     andThen (ofSum (vol_absolute relativePath)) (\<lambda>path.
     andThen (run [''sh'', ''-c'',
         ''size=$(wc -c < \"$1\") || exit 1; [ \"$size\" -le \"$2\" ] || exit 42; base64 < \"$1\"'',
         ''gravit-panel'', path, show_nat maximumBytes] None) (\<lambda>result.
     thenDo (throwIf (exit_code result = 42)
       (Error (''File exceeds '' @ show_nat maximumBytes @ '' bytes'')))
     (thenDo (throwIf (exit_code result \<noteq> 0) (command_error ''read volume file'' result))
       (ret (from_base64 (filter (\<lambda>c. \<not> js_space c) (std_out result)))))))"

fun no_links :: "'w container_run \<Rightarrow> string \<Rightarrow> string list \<Rightarrow> ('w, unit) io" where
  "no_links run current [] = ret ()"
| "no_links run current (part # parts) =
     (let current = path_join [current, part] in
      andThen (run [''test'', ''!'', ''-L'', current] None) (\<lambda>result.
      thenDo (throwIf (exit_code result \<noteq> 0)
          (Error ''Symbolic links are unavailable in the file browser''))
        (no_links run current parts)))"

definition cv_assert_no_symlinks :: "'w container_run \<Rightarrow> string \<Rightarrow> bool \<Rightarrow> ('w, unit) io" where
  "cv_assert_no_symlinks run relativePath includeLeaf =
     andThen (ofSum (vol_relative relativePath)) (\<lambda>normalized.
       let parts = split_slash normalized in
       no_links run app_data (if includeLeaf then parts else butlast parts))"

definition sha256_rx :: rx where
  "sha256_rx = between_times 64 64 (Cls is_hex)"

definition cv_sha256 :: "'w container_run \<Rightarrow> string \<Rightarrow> ('w, string option) io" where
  "cv_sha256 run relativePath =
     andThen (ofSum (vol_absolute relativePath)) (\<lambda>path.
     andThen (run [''sha256sum'', ''--'', path] None) (\<lambda>result.
     if exit_code result = 1 \<and>
        (js_trim (std_err result) = [] \<or>
         sublist ''no such file or directory'' (js_lower (std_err result))) then ret None
     else thenDo (throwIf (exit_code result \<noteq> 0) (command_error ''hash volume file'' result))
       (let digest = takeWhile (\<lambda>c. \<not> js_space c) (js_trim (std_out result))
        in if digest = [] \<or> \<not> full_match sha256_rx digest
           then raise (Error ''Container returned an invalid SHA-256 digest'')
           else ret (Some digest))))"

section \<open>Changing the volume\<close>

definition cv_ensure_directory :: "'w container_run \<Rightarrow> string \<Rightarrow> ('w, unit) io" where
  "cv_ensure_directory run relativePath =
     andThen (ofSum (vol_absolute relativePath)) (\<lambda>path.
       checked run [''mkdir'', ''-p'', ''--'', path] ''create directory'' None)"

definition cv_prepare_host_directory :: "'w container_run \<Rightarrow> nat \<Rightarrow> nat \<Rightarrow> string \<Rightarrow> ('w, unit) io" where
  "cv_prepare_host_directory run uid gid relativePath =
     andThen (ofSum (vol_absolute relativePath)) (\<lambda>path.
     thenDo (checked run [''mkdir'', ''-p'', ''--'', path]
         ''create host-writable volume directory'' None)
       (checked run [''chown'', ''-R'', show_nat uid @ '':'' @ show_nat gid, ''--'', path]
         ''prepare host-writable volume directory ownership'' None))"

definition ensure_parent :: "'w container_run \<Rightarrow> string \<Rightarrow> ('w, unit) io" where
  "ensure_parent run relativePath =
     andThen (ofSum (vol_relative relativePath)) (\<lambda>p.
       do_when (path_dirname p \<noteq> ''.'') (cv_ensure_directory run (path_dirname p)))"

definition mode_text :: "file_mode \<Rightarrow> string" where
  "mode_text m = (case m of M0600 \<Rightarrow> ''0600'' | M0644 \<Rightarrow> ''0644'' | M0755 \<Rightarrow> ''0755'')"

definition write_script :: string where
  "write_script = ''umask \"$1\"; cat > \"$2\"''"

definition pending_name :: "string \<Rightarrow> string \<Rightarrow> string" where
  "pending_name path uuid = path @ ''.pending-'' @ uuid"

definition cv_write_file_atomic ::
  "'w container_run \<Rightarrow> ('w \<Rightarrow> string) \<Rightarrow> string \<Rightarrow> string \<Rightarrow> file_mode \<Rightarrow> ('w, unit) io" where
  "cv_write_file_atomic run uuid relativePath bytes mode =
     andThen (ofSum (vol_absolute relativePath)) (\<lambda>path.
     andThen (reading uuid) (\<lambda>u.
     let pending = pending_name path u in
     thenDo (ensure_parent run relativePath)
     (tryCatch
       (thenDo (checked run [''sh'', ''-c'', write_script, ''gravit-panel'',
            if mode = M0755 then ''022'' else if mode = M0644 then ''022'' else ''077'', pending]
            ''write pending volume file'' (Some bytes))
       (thenDo (checked run [''chmod'', mode_text mode, ''--'', pending] ''set volume file mode'' None)
          (checked run [''mv'', ''-f'', ''--'', pending, path] ''publish volume file'' None)))
       (\<lambda>error. andThen (run [''rm'', ''-f'', ''--'', pending] None) (\<lambda>_. raise error)))))"

definition cv_copy :: "'w container_run \<Rightarrow> string \<Rightarrow> string \<Rightarrow> ('w, unit) io" where
  "cv_copy run source target =
     thenDo (ensure_parent run target)
     (andThen (ofSum (vol_absolute source)) (\<lambda>s.
      andThen (ofSum (vol_absolute target)) (\<lambda>t.
        checked run [''cp'', ''-a'', ''--'', s, t] ''copy volume path'' None)))"

definition cv_move :: "'w container_run \<Rightarrow> string \<Rightarrow> string \<Rightarrow> ('w, unit) io" where
  "cv_move run source target =
     thenDo (ensure_parent run target)
     (andThen (ofSum (vol_absolute source)) (\<lambda>s.
      andThen (ofSum (vol_absolute target)) (\<lambda>t.
        checked run [''mv'', ''--'', s, t] ''move volume path'' None)))"

definition cv_remove :: "'w container_run \<Rightarrow> string \<Rightarrow> bool \<Rightarrow> ('w, unit) io" where
  "cv_remove run relativePath recursive =
     andThen (ofSum (vol_absolute relativePath)) (\<lambda>path.
       checked run [''rm'', if recursive then ''-rf'' else ''-f'', ''--'', path]
         ''remove volume path'' None)"


text \<open>
  The scripts of \<open>prepareJavaRuntimePermissions\<close>: links inside the runtime become files, links
  that leave it are an error, and everything becomes readable.
\<close>

definition java_links_script :: string where
  "java_links_script = join_with [CHR 0x0A]
     [''root=\"$1\"; shift'',
      ''for link do'',
      ''target=\"$(readlink -f -- \"$link\")\" || exit 1'',
      ''case \"$target\" in \"$root\"/*) ;; *) echo \"Java runtime symlink escapes its root: $link\" >&2; exit 1;; esac'',
      ''[ -f \"$target\" ] || { echo \"Java runtime symlink does not target a file: $link\" >&2; exit 1; }'',
      ''pending=\"${link}.gravit-panel-file\"'',
      ''cp -L -- \"$target\" \"$pending\" && mv -f -- \"$pending\" \"$link\" || exit 1'',
      ''done'']"

definition cv_prepare_java_permissions :: "'w container_run \<Rightarrow> string \<Rightarrow> ('w, unit) io" where
  "cv_prepare_java_permissions run relativePath =
     andThen (ofSum (vol_absolute relativePath)) (\<lambda>dir.
     thenDo (checked run
         [''find'', dir, ''-type'', ''l'', ''-exec'', ''sh'', ''-c'', java_links_script,
          ''gravit-panel'', dir, ''{}'', ''+''] ''materialize Java runtime symlinks'' None)
     (thenDo (checked run [''find'', dir, ''-type'', ''d'', ''-exec'', ''chmod'', ''a+rx'', ''{}'', ''+'']
         ''prepare Java runtime directory permissions'' None)
     (thenDo (checked run [''find'', dir, ''-type'', ''f'', ''-exec'', ''chmod'', ''a+r'', ''{}'', ''+'']
         ''prepare Java runtime file permissions'' None)
       (checked run
         [''find'', dir, ''-type'', ''f'', ''('', ''-path'', dir @ ''/bin/*'', ''-o'', ''-name'',
          ''jspawnhelper'', ''-o'', ''-name'', ''jexec'', '')'', ''-exec'', ''chmod'', ''0755'', ''{}'', ''+'']
         ''prepare Java runtime executable permissions'' None))))"

section \<open>Archives\<close>

definition unsafe_entry :: "string \<Rightarrow> bool" where
  "unsafe_entry entry =
     (let normalized = path_normalize entry in
      CHR 0x00 \<in> set entry \<or> is_absolute entry \<or> normalized = ''..'' \<or> prefix ''../'' normalized)"

definition single_root :: "bool \<Rightarrow> string list \<Rightarrow> string option" where
  "single_root strip entries =
     (let roots = remdups (map (\<lambda>e. hd (split_slash e))
            (filter (\<lambda>e. e \<noteq> [] \<and> \<not> suffix ''/'' e) entries))
      in if strip \<and> length roots = 1 \<and> list_all (\<lambda>e. CHR ''/'' \<in> set e) entries
         then Some (hd roots) else None)"

definition check_entries :: "string \<Rightarrow> string list \<Rightarrow> js_error + unit" where
  "check_entries label entries =
     (if entries = [] then Inl (Error (label @ '' is empty''))
      else if 100000 < int (length entries) then Inl (Error (label @ '' contains too many entries''))
      else (case List.find unsafe_entry entries of
          Some entry \<Rightarrow> Inl (Error (label @ '' contains an unsafe path: '' @ entry))
        | None \<Rightarrow> Inr ()))"

text \<open>\<open>/^\s*(\d+)\s+\d{4}-\d{2}-\d{2}\s+\d{2}:\d{2}\s+/\<close>, a line of \<open>unzip -l\<close>\<close>

definition size_line_rx :: rx where
  "size_line_rx = (let d = Cls is_digit; sp = Cls js_space in
     cats [Star sp, Cap (many1 d), many1 sp, times 4 d, lit ''-'', times 2 d, lit ''-'', times 2 d,
       many1 sp, times 2 d, lit '':'', times 2 d, many1 sp])"

definition listed_size :: "string \<Rightarrow> nat option" where
  "listed_size line =
     (case rx_run size_line_rx (None, line) of
        (Some ds, _) # _ \<Rightarrow> Some (read_digits ds)
      | _ \<Rightarrow> None)"

fun expanded_size :: "int \<Rightarrow> int \<Rightarrow> string list \<Rightarrow> js_error + int" where
  "expanded_size maximum acc [] = Inr acc"
| "expanded_size maximum acc (line # ls) =
     (case listed_size line of
        None \<Rightarrow> expanded_size maximum acc ls
      | Some n \<Rightarrow>
          if max_safe_integer < int n then
            Inl (Error ''Runtime archive contains an invalid expanded size'')
          else if maximum < acc + int n then
            Inl (Error ''Runtime archive expands beyond the configured size limit'')
          else expanded_size maximum (acc + int n) ls)"

definition refuse_existing :: "'w container_run \<Rightarrow> string \<Rightarrow> ('w, unit) io" where
  "refuse_existing run target =
     andThen (cv_exists run target ADirectory) (\<lambda>d.
     andThen (if d then ret True else cv_exists run target AFile) (\<lambda>there.
       throwIf there (Error (''Refusing to replace existing volume path: '' @ target))))"

definition archive_listing :: "'w container_run \<Rightarrow> string list \<Rightarrow> string \<Rightarrow> string \<Rightarrow> ('w, string list) io" where
  "archive_listing run cmd action label =
     andThen (run cmd None) (\<lambda>listing.
     thenDo (throwIf (exit_code listing \<noteq> 0) (command_error action listing))
     (let entries = filter (\<lambda>l. l \<noteq> []) (js_lines (std_out listing)) in
      thenDo (ofSum (check_entries label entries)) (ret entries)))"

definition publish_archive ::
  "'w container_run \<Rightarrow> ('w \<Rightarrow> string) \<Rightarrow> (string \<Rightarrow> string list) \<Rightarrow> string \<Rightarrow> string \<Rightarrow> string \<Rightarrow>
   string \<Rightarrow> string option \<Rightarrow> ('w, unit) io" where
  "publish_archive run uuid extract extracting publishing target targetRelative subdir =
     andThen (ofSum (vol_relative targetRelative)) (\<lambda>rel.
     andThen (reading uuid) (\<lambda>u.
     let pendingRelative = pending_name rel u in
     andThen (ofSum (vol_absolute pendingRelative)) (\<lambda>pending.
     thenDo (cv_ensure_directory run pendingRelative)
     (tryCatch
       (thenDo (checked run (extract pending) extracting None)
       (thenDo (checked run [''mv'', ''--'',
            (case subdir of Some r \<Rightarrow> path_join [pending, r] | None \<Rightarrow> pending), target] publishing None)
          (do_when (subdir \<noteq> None) (cv_remove run pendingRelative True))))
       (\<lambda>error. thenDo (cv_remove run pendingRelative True) (raise error))))))"

definition cv_extract_zip ::
  "'w container_run \<Rightarrow> ('w \<Rightarrow> string) \<Rightarrow> string \<Rightarrow> string \<Rightarrow> bool \<Rightarrow> int \<Rightarrow> ('w, unit) io" where
  "cv_extract_zip run uuid archiveRelative targetRelative strip maximumExpanded =
     andThen (ofSum (vol_absolute archiveRelative)) (\<lambda>archive.
     andThen (ofSum (vol_absolute targetRelative)) (\<lambda>target.
     thenDo (refuse_existing run targetRelative)
     (andThen (archive_listing run [''unzip'', ''-Z1'', archive] ''inspect runtime archive''
         ''Runtime archive'') (\<lambda>entries.
      andThen (run [''unzip'', ''-l'', archive] None) (\<lambda>sizes.
      thenDo (throwIf (exit_code sizes \<noteq> 0) (command_error ''inspect runtime archive sizes'' sizes))
      (thenDo (ofSum (expanded_size maximumExpanded 0 (js_lines (std_out sizes))))
        (publish_archive run uuid (\<lambda>pending. [''unzip'', ''-q'', archive, ''-d'', pending])
          ''extract runtime archive'' ''publish runtime directory'' target targetRelative
          (single_root strip entries))))))))"

definition cv_extract_tar_gz ::
  "'w container_run \<Rightarrow> ('w \<Rightarrow> string) \<Rightarrow> string \<Rightarrow> string \<Rightarrow> bool \<Rightarrow> ('w, unit) io" where
  "cv_extract_tar_gz run uuid archiveRelative targetRelative strip =
     andThen (ofSum (vol_absolute archiveRelative)) (\<lambda>archive.
     andThen (ofSum (vol_absolute targetRelative)) (\<lambda>target.
     thenDo (refuse_existing run targetRelative)
     (andThen (archive_listing run [''tar'', ''-tzf'', archive] ''inspect Java runtime archive''
         ''Java runtime archive'') (\<lambda>entries.
        publish_archive run uuid
          (\<lambda>pending. [''tar'', ''-xzf'', archive, ''--no-same-owner'', ''-C'', pending])
          ''extract Java runtime archive'' ''publish Java runtime directory'' target targetRelative
          (single_root strip entries)))))"

end
