(* ===== verification/Volume_Contract.thy ===== *)
theory Volume_Contract
  imports Container_Volume
begin

text \<open>
  The interface \<open>VolumeFileOperations\<close> that the services use, its contract as a locale, and the
  proof that \<^verbatim>\<open>container-volume.service.ts\<close> keeps the contract in a container whose commands behave as
  POSIX documents them. A container that holds its files in memory shows that it can be so.
\<close>

section \<open>The interface\<close>

record 'w volume_ops =
  vol_exists :: "string \<Rightarrow> path_kind \<Rightarrow> ('w, bool) io"
  vol_read_file :: "(string \<Rightarrow> ('w, string) io) option"
  vol_list_files :: "(string \<Rightarrow> ('w, string list) io) option"
  vol_ensure_directory :: "string \<Rightarrow> ('w, unit) io"
  vol_prepare_host :: "(string \<Rightarrow> ('w, unit) io) option"
  vol_write :: "string \<Rightarrow> string \<Rightarrow> file_mode \<Rightarrow> ('w, unit) io"
  vol_copy :: "string \<Rightarrow> string \<Rightarrow> ('w, unit) io"
  vol_move :: "string \<Rightarrow> string \<Rightarrow> ('w, unit) io"
  vol_remove :: "string \<Rightarrow> bool \<Rightarrow> ('w, unit) io"
  vol_sha256 :: "(string \<Rightarrow> ('w, string option) io) option"

definition container_ops ::
  "'w container_run \<Rightarrow> ('w \<Rightarrow> string) \<Rightarrow> (string \<Rightarrow> string \<Rightarrow> bool) \<Rightarrow> nat \<Rightarrow> nat \<Rightarrow> 'w volume_ops" where
  "container_ops run uuid le uid gid = \<lparr>vol_exists = cv_exists run,
     vol_read_file = Some (cv_read_file run), vol_list_files = Some (cv_list_files run le),
     vol_ensure_directory = cv_ensure_directory run,
     vol_prepare_host = Some (cv_prepare_host_directory run uid gid),
     vol_write = cv_write_file_atomic run uuid, vol_copy = cv_copy run, vol_move = cv_move run,
     vol_remove = cv_remove run, vol_sha256 = Some (cv_sha256 run)\<rparr>"

section \<open>The contract\<close>

text \<open>An operation on \<open>p\<close> does not concern \<open>q\<close>.\<close>

definition apart :: "string \<Rightarrow> string \<Rightarrow> bool" where
  "apart p q \<longleftrightarrow>
     (case (vol_absolute p, vol_absolute q) of
        (Inr a, Inr b) \<Rightarrow> a \<noteq> b \<and> \<not> prefix (a @ ''/'') b \<and> \<not> prefix (a @ ''.pending-'') b
      | _ \<Rightarrow> True)"

locale file_volume =
  fixes V :: "'w volume_ops"
    and file_at :: "'w \<Rightarrow> string \<Rightarrow> string option"
  assumes exists_keeps: "keeps file_at (vol_exists V p k)"
    and exists_finds: "vol_exists V p AFile w = (Inr True, t) \<Longrightarrow> file_at w p \<noteq> None"
    and exists_misses: "vol_exists V p AFile w = (Inr False, t) \<Longrightarrow> file_at w p = None"
    and read_keeps: "vol_read_file V = Some rd \<Longrightarrow> keeps file_at (rd p)"
    and read_returns: "vol_read_file V = Some rd \<Longrightarrow> rd p w = (Inr c, t) \<Longrightarrow> file_at w p = Some c"
    and list_keeps: "vol_list_files V = Some ls \<Longrightarrow> keeps file_at (ls p)"
    and ensure_keeps: "keeps file_at (vol_ensure_directory V p)"
    and sha256_keeps: "vol_sha256 V = Some sha \<Longrightarrow> keeps file_at (sha p)"
    and write_file: "vol_write V p b m w = (r, t) \<Longrightarrow> file_at w p \<noteq> None \<Longrightarrow>
      (file_at t p = file_at w p \<or> file_at t p = Some b) \<and> (r = Inr () \<longrightarrow> file_at t p = Some b)"
    and write_apart: "vol_write V p b m w = (r, t) \<Longrightarrow> file_at w p \<noteq> None \<Longrightarrow> apart p q \<Longrightarrow> file_at t q = file_at w q"
    and copy_apart: "vol_copy V p p' w = (r, t) \<Longrightarrow> apart p' q \<Longrightarrow> file_at t q = file_at w q"
    and move_apart: "vol_move V p p' w = (r, t) \<Longrightarrow> apart p q \<Longrightarrow> apart p' q \<Longrightarrow> file_at t q = file_at w q"
    and remove_apart: "vol_remove V p rec w = (r, t) \<Longrightarrow> apart p q \<Longrightarrow> file_at t q = file_at w q"
begin

lemma wp_exists:
  assumes "\<And>b t. file_at t = file_at s \<Longrightarrow> (b \<longrightarrow> file_at s p \<noteq> None) \<Longrightarrow> Q b t"
    and "\<And>e t. file_at t = file_at s \<Longrightarrow> E e t"
  shows "wp (vol_exists V p AFile) Q E s"
  using assms keepsD[OF exists_keeps] exists_finds unfolding wp_result by metis

lemma wp_read:
  assumes "vol_read_file V = Some rd"
    and "\<And>c t. file_at t = file_at s \<Longrightarrow> file_at s p = Some c \<Longrightarrow> Q c t"
    and "\<And>e t. file_at t = file_at s \<Longrightarrow> E e t"
  shows "wp (rd p) Q E s"
  using assms(2,3) keepsD[OF read_keeps[OF assms(1)]] read_returns[OF assms(1)]
  unfolding wp_result by metis

lemma wp_write:
  assumes "file_at s p \<noteq> None"
    and "\<And>t. file_at t p = Some b \<Longrightarrow> Q () t"
    and "\<And>e t. file_at t p = file_at s p \<or> file_at t p = Some b \<Longrightarrow> E e t"
  shows "wp (vol_write V p b m) Q E s"
  using assms(2,3) write_file[OF _ assms(1)] unfolding wp_result by fastforce

lemma wp_copy:
  assumes "apart p' q"
    and "\<And>t. file_at t q = file_at s q \<Longrightarrow> Q () t" and "\<And>e t. file_at t q = file_at s q \<Longrightarrow> E e t"
  shows "wp (vol_copy V p p') Q E s"
  using assms(2,3) copy_apart[OF _ assms(1)] unfolding wp_result by fastforce

lemma wp_remove:
  assumes "apart p q"
    and "\<And>t. file_at t q = file_at s q \<Longrightarrow> Q () t" and "\<And>e t. file_at t q = file_at s q \<Longrightarrow> E e t"
  shows "wp (vol_remove V p rec) Q E s"
  using assms(2,3) remove_apart[OF _ assms(1)] unfolding wp_result by fastforce

end

section \<open>A POSIX container\<close>

definition succeeded :: "js_error + command_result \<Rightarrow> bool" where
  "succeeded r \<longleftrightarrow> (case r of Inr x \<Rightarrow> exit_code x = 0 | Inl _ \<Rightarrow> False)"

text \<open>The file that a relative path of the volume names.\<close>

definition at_path :: "(string \<Rightarrow> string option) \<Rightarrow> string \<Rightarrow> string option" where
  "at_path fs p = (case vol_absolute p of Inl _ \<Rightarrow> None | Inr a \<Rightarrow> fs a)"

locale posix_container =
  fixes run :: "'w container_run"
    and files :: "'w \<Rightarrow> string \<Rightarrow> string option"
    and isdir :: "'w \<Rightarrow> string \<Rightarrow> bool"
  assumes look: "hd cmd \<in> {''test'', ''cat'', ''find'', ''sha256sum''} \<Longrightarrow> run cmd i w = (r, t) \<Longrightarrow>
      files t = files w \<and> isdir t = isdir w"
    and test_file: "run [''test'', ''-f'', p] None w = (Inr x, t) \<Longrightarrow>
      (exit_code x = 0 \<longrightarrow> files w p \<noteq> None) \<and>
      (exit_code x = 1 \<and> js_trim (std_err x) = [] \<longrightarrow> files w p = None)"
    and cat: "run [''cat'', ''--'', p] None w = (Inr x, t) \<Longrightarrow> exit_code x = 0 \<Longrightarrow>
      files w p = Some (std_out x)"
    and mkdir: "run [''mkdir'', ''-p'', ''--'', d] None w = (r, t) \<Longrightarrow> files t = files w \<and>
      (\<forall>x. isdir t x \<longrightarrow> isdir w x \<or> files w x = None)"
    and chmod: "run [''chmod'', m, ''--'', p] None w = (r, t) \<Longrightarrow> files t = files w \<and> isdir t = isdir w"
    and sh_write: "run [''sh'', ''-c'', write_script, ''gravit-panel'', um, p] (Some b) w = (r, t) \<Longrightarrow>
      isdir t = isdir w \<and> (\<forall>q. q \<noteq> p \<longrightarrow> files t q = files w q) \<and> (succeeded r \<longrightarrow> files t p = Some b)"
    and mv_force: "run [''mv'', ''-f'', ''--'', p, d] None w = (r, t) \<Longrightarrow> \<not> isdir w d \<Longrightarrow>
      (\<forall>q. q \<noteq> p \<longrightarrow> q \<noteq> d \<longrightarrow> files t q = files w q) \<and>
      (files t d = files w d \<or> files t d = files w p) \<and> (succeeded r \<longrightarrow> files t d = files w p)"
    and mv: "run [''mv'', ''--'', p, d] None w = (r, t) \<Longrightarrow>
      q \<notin> {p, d} \<Longrightarrow> \<not> prefix (p @ ''/'') q \<Longrightarrow> \<not> prefix (d @ ''/'') q \<Longrightarrow> files t q = files w q"
    and cp: "run [''cp'', ''-a'', ''--'', p, d] None w = (r, t) \<Longrightarrow>
      q \<noteq> d \<Longrightarrow> \<not> prefix (d @ ''/'') q \<Longrightarrow> files t q = files w q"
    and rm: "run [''rm'', fl, ''--'', p] None w = (r, t) \<Longrightarrow>
      q \<noteq> p \<Longrightarrow> \<not> prefix (p @ ''/'') q \<Longrightarrow> files t q = files w q"
    and file_not_dir: "files w p \<noteq> None \<Longrightarrow> \<not> isdir w p"
begin

abbreviation view :: "'w \<Rightarrow> string \<Rightarrow> string option" where
  "view w \<equiv> at_path (files w)"

lemma keeps_view: "keeps files p \<Longrightarrow> keeps view p"
  by (simp add: keeps_def)

lemma look_keeps: "hd cmd \<in> {''test'', ''cat'', ''find'', ''sha256sum''} \<Longrightarrow> keeps files (run cmd i)"
  unfolding keeps_def using look by (metis surjective_pairing)

lemma mkdir_keeps: "keeps files (run [''mkdir'', ''-p'', ''--'', d] None)"
  unfolding keeps_def using mkdir by (metis surjective_pairing)

lemma checked_keeps [keeps_intros]: "keeps v (run cmd i) \<Longrightarrow> keeps v (checked run cmd a i)"
  unfolding checked_def by (intro keeps_intros)

lemma checked_cases:
  assumes "checked run cmd a i w = (r, t)"
  obtains q where "run cmd i w = (q, t)" "r = Inr () \<longleftrightarrow> succeeded q"
  using assms by (auto simp: checked_def andThen_def throwIf_def ret_def raise_def succeeded_def
      split: prod.splits sum.splits if_splits)

lemma ensure_directory_keeps: "keeps files (cv_ensure_directory run p)"
  unfolding cv_ensure_directory_def by (intro keeps_intros mkdir_keeps)

lemma ensure_parent_keeps: "keeps files (ensure_parent run p)"
  unfolding ensure_parent_def by (intro keeps_intros ensure_directory_keeps)

text \<open>Publishing: the target holds its old content or the new one, and the new one on success.\<close>

lemma publish_pending:
  assumes "\<not> isdir w path" and len: "length path < length pend"
    and "tryCatch
       (thenDo (checked run [''sh'', ''-c'', write_script, ''gravit-panel'', um, pend] a1 (Some b))
       (thenDo (checked run [''chmod'', m, ''--'', pend] a2 None)
          (checked run [''mv'', ''-f'', ''--'', pend, path] a3 None)))
       (\<lambda>error. andThen (run [''rm'', ''-f'', ''--'', pend] None) (\<lambda>_. raise error)) w = (r, t)"
  shows "(files t path = files w path \<or> files t path = Some b) \<and> (r = Inr () \<longrightarrow> files t path = Some b) \<and>
    (\<forall>q. q \<noteq> path \<longrightarrow> q \<noteq> pend \<longrightarrow> \<not> prefix (pend @ ''/'') q \<longrightarrow> files t q = files w q)"
proof -
  have pend: "pend \<noteq> path" "\<not> prefix (pend @ ''/'') path" using len by (auto simp: prefix_def)
  define same where "same u \<longleftrightarrow>
    (\<forall>q. q \<noteq> path \<longrightarrow> q \<noteq> pend \<longrightarrow> \<not> prefix (pend @ ''/'') q \<longrightarrow> files u q = files w q)" for u
  define mid where "mid u \<longleftrightarrow> isdir u = isdir w \<and> same u \<and> files u path = files w path" for u
  define post where "post u \<longleftrightarrow> same u \<and> (files u path = files w path \<or> files u path = Some b)" for u
  have mid_post: "mid u \<Longrightarrow> post u" for u by (simp add: mid_def post_def)
  have sh: "wp (run [''sh'', ''-c'', write_script, ''gravit-panel'', um, pend] (Some b))
      (\<lambda>x u. mid u \<and> (exit_code x = 0 \<longrightarrow> files u pend = Some b)) (\<lambda>_. mid) w"
    unfolding wp_result using sh_write[where p = pend and w = w and um = um and b = b] pend
    by (auto simp: mid_def same_def succeeded_def)
  have ch: "wp (run [''chmod'', m, ''--'', pend] None)
      (\<lambda>_ u. mid u \<and> files u pend = files v pend) (\<lambda>_. mid) v" if "mid v" for v
    unfolding wp_result using chmod[where w = v and m = m and p = pend] that
    by (auto simp: mid_def same_def)
  have mf: "wp (run [''mv'', ''-f'', ''--'', pend, path] None)
      (\<lambda>x u. post u \<and> (exit_code x = 0 \<longrightarrow> files u path = Some b)) (\<lambda>_. post) v"
    if "mid v" "files v pend = Some b" for v
  proof -
    have nd: "\<not> isdir v path" using that assms(1) by (simp add: mid_def)
    show ?thesis unfolding wp_result using mv_force[OF _ nd, where p = pend] that
      by (auto simp: post_def mid_def same_def succeeded_def)
  qed
  have re: "wp (run [''rm'', ''-f'', ''--'', pend] None) (\<lambda>_. post) (\<lambda>_. post) v" if "post v" for v
    unfolding wp_result using rm[where w = v and fl = "''-f''" and p = pend] that pend
    by (auto simp: post_def same_def)
  have "wp (tryCatch
       (thenDo (checked run [''sh'', ''-c'', write_script, ''gravit-panel'', um, pend] a1 (Some b))
       (thenDo (checked run [''chmod'', m, ''--'', pend] a2 None)
          (checked run [''mv'', ''-f'', ''--'', pend, path] a3 None)))
       (\<lambda>error. andThen (run [''rm'', ''-f'', ''--'', pend] None) (\<lambda>_. raise error)))
     (\<lambda>_ u. post u \<and> files u path = Some b) (\<lambda>_. post) w"
    unfolding checked_def wp_simps
    by (rule wp_mono[OF sh]; auto intro!: wp_mono[OF ch] wp_mono[OF mf] re mid_post)
  then show ?thesis using assms(3) by (auto simp: wp_def post_def same_def split: sum.splits)
qed


lemma exists_view: "keeps view (cv_exists run p k)"
  unfolding cv_exists_def by (intro keeps_view keeps_intros look_keeps) simp

lemma exists_answer:
  assumes "cv_exists run p AFile w = (Inr b, t)"
  shows "b \<longleftrightarrow> view w p \<noteq> None"
proof -
  obtain a where a: "vol_absolute p = Inr a"
    using assms by (auto simp: cv_exists_def exec_simps split: sum.splits)
  obtain x where x: "run [''test'', ''-f'', a] None w = (Inr x, t)"
    "(b \<and> exit_code x = 0) \<or> (\<not> b \<and> exit_code x = 1 \<and> js_trim (std_err x) = [])"
    using assms a by (auto simp: cv_exists_def exec_simps split: prod.splits sum.splits if_splits)
  from test_file[OF x(1)] x(2) a show ?thesis by (auto simp: at_path_def)
qed

lemma read_view: "keeps view (cv_read_file run p)"
  unfolding cv_read_file_def by (intro keeps_view keeps_intros look_keeps) simp

lemma read_answer: "cv_read_file run p w = (Inr c, t) \<Longrightarrow> view w p = Some c"
  by (auto simp: cv_read_file_def exec_simps at_path_def dest: cat split: prod.splits sum.splits if_splits)

lemma list_view: "keeps view (cv_list_files run le p)"
  unfolding cv_list_files_def cv_exists_def by (intro keeps_view keeps_intros look_keeps) simp_all

lemma sha256_view: "keeps view (cv_sha256 run p)"
  unfolding cv_sha256_def Let_def by (intro keeps_view keeps_intros look_keeps) simp

lemma write_steps:
  assumes "cv_write_file_atomic run uuid p b m w = (r, t)" and "view w p \<noteq> None"
  obtains a where "vol_absolute p = Inr a"
    "(files t a = files w a \<or> files t a = Some b) \<and> (r = Inr () \<longrightarrow> files t a = Some b)"
    "\<And>q. q \<noteq> a \<Longrightarrow> \<not> prefix (a @ ''.pending-'') q \<Longrightarrow> files t q = files w q"
proof -
  obtain a where a: "vol_absolute p = Inr a" and f: "files w a \<noteq> None"
    using assms(2) by (auto simp: at_path_def split: sum.splits)
  let ?pend = "pending_name a (uuid w)"
  obtain e v where e: "ensure_parent run p w = (e, v)" by fastforce
  have v: "files v = files w" using keepsD[OF ensure_parent_keeps e] .
  show ?thesis
  proof (cases e)
    case (Inl x)
    then have "r = Inl x \<and> t = v"
      using assms(1) a e by (simp add: cv_write_file_atomic_def exec_simps Let_def)
    with v show ?thesis by (intro that[OF a]) simp_all
  next
    case (Inr x)
    have nd: "\<not> isdir v a" using f v file_not_dir by metis
    have lt: "length a < length ?pend" by (simp add: pending_name_def)
    note go = publish_pending[OF nd lt]
    have w: "(files t a = files v a \<or> files t a = Some b) \<and> (r = Inr () \<longrightarrow> files t a = Some b) \<and>
        (\<forall>q. q \<noteq> a \<longrightarrow> q \<noteq> ?pend \<longrightarrow> \<not> prefix (?pend @ ''/'') q \<longrightarrow> files t q = files v q)"
      by (rule go) (use assms(1) a e Inr in \<open>simp add: cv_write_file_atomic_def exec_simps Let_def\<close>)
    show ?thesis
    proof (rule that[OF a])
      fix q assume "q \<noteq> a" "\<not> prefix (a @ ''.pending-'') q"
      moreover from this have "q \<noteq> ?pend" "\<not> prefix (?pend @ ''/'') q"
        by (auto simp: pending_name_def prefix_def)
      ultimately show "files t q = files w q" using w v by simp
    qed (use w v in simp)
  qed
qed

lemma write_view:
  "cv_write_file_atomic run uuid p b m w = (r, t) \<Longrightarrow> view w p \<noteq> None \<Longrightarrow>
   (view t p = view w p \<or> view t p = Some b) \<and> (r = Inr () \<longrightarrow> view t p = Some b)"
  by (erule write_steps) (simp_all add: at_path_def)

lemma apart_path:
  "apart p q \<Longrightarrow> vol_absolute p = Inr a \<Longrightarrow> vol_absolute q = Inr b \<Longrightarrow>
   b \<noteq> a \<and> \<not> prefix (a @ ''/'') b \<and> \<not> prefix (a @ ''.pending-'') b"
  by (auto simp: apart_def)

lemma write_apart_view:
  assumes "cv_write_file_atomic run uuid p b m w = (r, t)" and "view w p \<noteq> None" and "apart p q"
  shows "view t q = view w q"
  using assms by (elim write_steps; cases "vol_absolute q") (auto simp: at_path_def dest: apart_path)

lemma two_paths:
  assumes "thenDo (ensure_parent run p') (andThen (ofSum (vol_absolute p)) (\<lambda>s.
      andThen (ofSum (vol_absolute p')) (\<lambda>d. checked run (cmd s d) act None))) w = (r, t)"
  obtains "files t = files w"
  | s d x v where "vol_absolute p = Inr s" "vol_absolute p' = Inr d" "files v = files w"
      "run (cmd s d) None v = (x, t)"
proof -
  obtain e v where e: "ensure_parent run p' w = (e, v)" by fastforce
  have v: "files v = files w" using keepsD[OF ensure_parent_keeps e] .
  show ?thesis
  proof (cases e)
    case (Inl x)
    with assms e v show ?thesis by (intro that(1)) (simp add: exec_simps)
  next
    case (Inr x)
    show ?thesis
    proof (cases "vol_absolute p"; cases "vol_absolute p'")
      fix s d assume s: "vol_absolute p = Inr s" "vol_absolute p' = Inr d"
      have "checked run (cmd s d) act None v = (r, t)"
        using assms e Inr s by (simp add: exec_simps)
      from checked_cases[OF this] show ?thesis using that(2)[OF s v] by metis
    qed (use assms e v Inr in \<open>intro that(1), simp add: exec_simps\<close>)+
  qed
qed

lemma copy_view:
  assumes "cv_copy run p p' w = (r, t)" and "apart p' q"
  shows "view t q = view w q"
proof (cases "vol_absolute q")
  case (Inr b)
  from assms(1)[unfolded cv_copy_def] show ?thesis
  proof (cases rule: two_paths)
    case (2 s d x v)
    with apart_path[OF assms(2) 2(2) Inr] cp[OF 2(4)] Inr show ?thesis by (simp add: at_path_def)
  qed simp
qed (simp add: at_path_def)

lemma move_view:
  assumes "cv_move run p p' w = (r, t)" and "apart p q" and "apart p' q"
  shows "view t q = view w q"
proof (cases "vol_absolute q")
  case (Inr b)
  from assms(1)[unfolded cv_move_def] show ?thesis
  proof (cases rule: two_paths)
    case (2 s d x v)
    with apart_path[OF assms(2) 2(1) Inr] apart_path[OF assms(3) 2(2) Inr] mv[OF 2(4)] Inr
    show ?thesis by (simp add: at_path_def)
  qed simp
qed (simp add: at_path_def)

lemma remove_view:
  assumes "cv_remove run p rec w = (r, t)" and "apart p q"
  shows "view t q = view w q"
proof (cases "vol_absolute q")
  case b: (Inr b)
  show ?thesis
  proof (cases "vol_absolute p")
    case (Inl e)
    with assms(1) show ?thesis by (simp add: cv_remove_def exec_simps)
  next
    case (Inr a)
    then have "checked run [''rm'', if rec then ''-rf'' else ''-f'', ''--'', a] ''remove volume path'' None w = (r, t)"
      using assms(1) by (simp add: cv_remove_def exec_simps)
    then obtain x where "run [''rm'', if rec then ''-rf'' else ''-f'', ''--'', a] None w = (x, t)"
      by (rule checked_cases)
    from rm[OF this] apart_path[OF assms(2) Inr b] b show ?thesis by (simp add: at_path_def)
  qed
qed (simp add: at_path_def)

lemma keeps_contract: "file_volume (container_ops run uuid le uid gid) (\<lambda>w. at_path (files w))"
proof
qed (auto simp: container_ops_def exists_view read_view read_answer list_view sha256_view
    intro: keeps_view ensure_directory_keeps dest: exists_answer write_view write_apart_view copy_view move_view remove_view)

end

sublocale posix_container \<subseteq> container_view: file_volume "container_ops run uuid le uid gid" "\<lambda>w. at_path (files w)"
  by (rule keeps_contract)

section \<open>A container in memory\<close>

type_synonym memory = "string \<Rightarrow> string option"

definition exit_with :: "int \<Rightarrow> string \<Rightarrow> js_error + command_result" where
  "exit_with n out = Inr \<lparr>exit_code = n, std_out = out, std_err = []\<rparr>"

definition mem_run :: "memory container_run" where
  "mem_run cmd inp = (\<lambda>w.
     let c = hd cmd; d = List.last cmd; p = List.last (butlast cmd) in
     if c = ''test'' then (exit_with (if p = ''-f'' \<and> w d \<noteq> None then 0 else 1) [], w)
     else if c = ''cat'' then
       (case w d of Some b \<Rightarrow> (exit_with 0 b, w) | None \<Rightarrow> (exit_with 1 [], w))
     else if c = ''sh'' then
       (case inp of Some b \<Rightarrow> (exit_with 0 [], w(d \<mapsto> b)) | None \<Rightarrow> (exit_with 1 [], w))
     else if c = ''mv'' then
       (case w p of Some b \<Rightarrow> (exit_with 0 [], (w(p := None))(d \<mapsto> b)) | None \<Rightarrow> (exit_with 1 [], w))
     else if c = ''cp'' then
       (case w p of Some b \<Rightarrow> (exit_with 0 [], w(d \<mapsto> b)) | None \<Rightarrow> (exit_with 1 [], w))
     else if c = ''rm'' then (exit_with 0 [], w(d := None))
     else (exit_with 0 [], w))"

lemmas mem_run_simps = mem_run_def exit_with_def succeeded_def Let_def

interpretation memory: posix_container mem_run "\<lambda>w. w" "\<lambda>_ _. False"
  by unfold_locales (auto simp: mem_run_simps split: option.splits if_splits)

abbreviation memory_ops :: "memory volume_ops" where
  "memory_ops \<equiv> container_ops mem_run (\<lambda>_. ''1'') (\<lambda>a b. a \<le> b) 0 0"

end
