(* ===== verification/Volume_Properties.thy ===== *)
theory Volume_Properties
  imports Volume_Contract
begin

text \<open>
  The properties of \<^verbatim>\<open>container-volume.service.ts\<close>: every path stays below \<open>/app/data\<close>, archives
  cannot write outside their directory, a file is replaced as a whole or not at all, and the one
  way the guard of the root directory is passed.
\<close>

section \<open>Paths\<close>

lemma app_data_dir: "app_data = CHR ''/'' # join_with ''/'' [''app'', ''data'']"
  by (simp add: app_data_def)

lemma vol_relative_form:
  assumes "vol_relative p = Inr q"
  obtains ss where "plain_path ss" "q = below_form ss (suffix ''/'' p)" "ss = [] \<longrightarrow> suffix ''/'' p"
proof -
  from assms have p: "p \<noteq> []" "\<not> is_absolute p" and q: "q = path_normalize p"
    and g: "q \<noteq> ''.''" "q \<noteq> ''..''" "\<not> prefix ''../'' q"
    by (auto simp: vol_relative_def Let_def split: if_splits)
  from p show ?thesis
  proof (cases rule: normalize_relative)
    case (1 ss)
    with q g(1) that show ?thesis by (cases "ss = [] \<and> \<not> suffix ''/'' p") (auto simp: below_form_def)
  qed (use q g in auto)
qed

text \<open>C15: whatever path a caller gives, the path that reaches a command in the container is
  \<open>/app/data\<close> followed by plain segments: no empty one, no \<open>.\<close>, no \<open>..\<close>.\<close>

theorem volume_paths_stay_inside:
  assumes "vol_absolute p = Inr a"
  shows "\<exists>ss. plain_path ss \<and>
    a = CHR ''/'' # join_with ''/'' ([''app'', ''data''] @ ss) @ (if suffix ''/'' p then ''/'' else [])"
proof -
  obtain q where q: "vol_relative p = Inr q" "a = path_join [app_data, q]"
    using assms by (auto simp: vol_absolute_def split: sum.splits) (cases "vol_relative p"; auto)
  obtain ss where "plain_path ss" "q = below_form ss (suffix ''/'' p)" by (rule vol_relative_form[OF q(1)])
  with q(2) join_below[of "[''app'', ''data'']" ss "suffix ''/'' p"]
  show ?thesis by (intro exI[of _ ss]) (simp add: app_data_dir plain_segment_def)
qed

lemma volume_paths_stay_inside_witness:
  "vol_absolute ''a/../b//c.txt'' = Inr ''/app/data/b/c.txt'' \<and>
   (\<exists>ss. plain_path ss \<and> ''/app/data/b/c.txt'' =
      CHR ''/'' # join_with ''/'' ([''app'', ''data''] @ ss) @ (if suffix ''/'' ''a/../b//c.txt'' then ''/'' else []))"
proof -
  have a: "vol_absolute ''a/../b//c.txt'' = Inr ''/app/data/b/c.txt''" by code_simp
  from volume_paths_stay_inside[OF this] a show ?thesis by blast
qed

text \<open>The guard of the root is passed by a trailing slash. \<open>./\<close> (and \<open>a/../\<close>) is accepted as a
  path of the volume, although \<open>.\<close> is refused, and names the data directory itself: a recursive
  removal of it is \<open>rm -rf -- /app/data/\<close>.\<close>

lemma trailing_slash_names_the_root:
  "vol_relative ''.'' = Inl (Error ''Volume path escapes /app/data'') \<and>
   vol_absolute ''./'' = Inr ''/app/data/'' \<and> vol_absolute ''a/../'' = Inr ''/app/data/'' \<and>
   cv_remove run ''./'' True =
     checked run [''rm'', ''-rf'', ''--'', ''/app/data/''] ''remove volume path'' None"
proof -
  have a: "vol_absolute ''./'' = Inr ''/app/data/''" by code_simp
  moreover have "vol_absolute ''a/../'' = Inr ''/app/data/''"
    "vol_relative ''.'' = Inl (Error ''Volume path escapes /app/data'')" by code_simp+
  ultimately show ?thesis by (simp add: cv_remove_def exec_simps fun_eq_iff)
qed

section \<open>Archives\<close>

lemma norm_segs_keeps_dots: "''..'' \<in> set st \<Longrightarrow> ''..'' \<in> set (norm_segs True st ss)"
  by (induction ss arbitrary: st) (auto split: list.splits)

lemma not_plain: "''..'' \<in> set ss \<Longrightarrow> \<not> plain_path ss"
  by (auto simp: plain_path_def plain_segment_def)

lemma norm_segs_below:
  assumes "plain_path (norm_segs True st ss)"
  shows "norm_segs False (st @ base) ss = rev base @ norm_segs True st ss"
  using assms
proof (induction ss arbitrary: st)
  case Nil
  then show ?case by simp
next
  case (Cons s ss)
  show ?case
  proof (cases "s = ''..''")
    case False
    with Cons.IH[of st] Cons.IH[of "s # st"] Cons.prems show ?thesis by (auto split: if_splits)
  next
    case dots: True
    then have no: "''..'' \<notin> set (norm_segs True st (''..'' # ss))" using Cons.prems not_plain by blast
    show ?thesis
    proof (cases st)
      case Nil
      with no norm_segs_keeps_dots[of "[''..'']" ss] show ?thesis by simp
    next
      case (Cons t ts)
      have "t \<noteq> ''..''"
      proof
        assume "t = ''..''"
        with no Cons norm_segs_keeps_dots[of "''..'' # ''..'' # ts" ss] show False by simp
      qed
      with Cons dots Cons.prems Cons.IH[of ts] show ?thesis by simp
    qed
  qed
qed



definition listed_total :: "string list \<Rightarrow> int" where
  "listed_total ls = (\<Sum>n\<leftarrow>List.map_filter listed_size ls. int n)"

lemma listed_total_simps:
  "listed_total [] = 0"
  "listed_total (l # ls) = (case listed_size l of None \<Rightarrow> 0 | Some n \<Rightarrow> int n) + listed_total ls"
  by (simp_all add: listed_total_def map_filter_simps split: option.splits)

lemma listed_total_nonneg: "0 \<le> listed_total ls"
  by (induction ls) (auto simp: listed_total_simps split: option.splits)

lemma expanded_size_acc:
  assumes "maximum \<le> max_safe_integer" and "0 \<le> acc"
  shows "expanded_size maximum acc ls = Inr n \<longleftrightarrow>
    n = acc + listed_total ls \<and> (acc + listed_total ls \<le> maximum \<or> List.map_filter listed_size ls = [])"
  using assms(2)
proof (induction ls arbitrary: acc)
  case Nil
  then show ?case by (auto simp: listed_total_simps map_filter_simps)
next
  case (Cons l ls)
  show ?case
  proof (cases "listed_size l")
    case None
    with Cons show ?thesis by (simp add: listed_total_simps map_filter_simps)
  next
    case (Some k)
    have "expanded_size maximum acc (l # ls) = Inr n \<longleftrightarrow>
        acc + int k \<le> maximum \<and> expanded_size maximum (acc + int k) ls = Inr n"
      using Some assms(1) Cons.prems by auto
    also have "\<dots> \<longleftrightarrow> n = acc + listed_total (l # ls) \<and> acc + listed_total (l # ls) \<le> maximum"
      using Cons.IH[of "acc + int k"] Cons.prems Some listed_total_nonneg[of ls]
      by (auto simp: listed_total_simps) (auto simp: listed_total_def)
    finally show ?thesis using Some by (simp add: map_filter_simps)
  qed
qed

text \<open>The size check of an archive accepts exactly the listings whose sizes sum to at most the
  bound, and then returns the sum; no sum wraps or is lost on the way.\<close>

theorem expanded_size_is_the_sum:
  assumes "0 \<le> maximum" and "maximum \<le> max_safe_integer"
  shows "expanded_size maximum 0 ls = Inr n \<longleftrightarrow> n = listed_total ls \<and> listed_total ls \<le> maximum"
proof -
  have "listed_total ls = 0" if "List.map_filter listed_size ls = []"
    using that by (simp add: listed_total_def)
  with assms show ?thesis by (auto simp: expanded_size_acc)
qed

lemma expanded_size_is_the_sum_witness:
  "(0::int) \<le> 20 \<and> 20 \<le> max_safe_integer \<and>
   expanded_size 20 0 [''Archive: a'', ''  12  2024-01-02 03:04   a.txt'', ''   8  2024-01-02 03:04   b''] = Inr 20"
proof -
  let ?ls = "[''Archive: a'', ''  12  2024-01-02 03:04   a.txt'', ''   8  2024-01-02 03:04   b'']"
  have s: "listed_total ?ls = 20" by code_simp
  have m: "(20::int) \<le> max_safe_integer" by (simp add: max_safe_integer_def)
  from expanded_size_is_the_sum[of 20 ?ls 20] s m show ?thesis by simp
qed

section \<open>Files\<close>





end
