(* ===== verification/Profile_Data.thy ===== *)
theory Profile_Data
  imports Effects Patterns Posix_Path
begin

text \<open>
  The pure part of \<^verbatim>\<open>apps/api/src/modules/clients/client-build.service.ts\<close>: reading a LaunchServer
  profile (a JSON object) as the panel shows it, its server list, its optional mods, and the loader
  it was built with.
\<close>

section \<open>Patterns\<close>

definition is_name_char :: "char \<Rightarrow> bool" where
  "is_name_char c \<longleftrightarrow> is_alnum c \<or> c = CHR ''.'' \<or> c = CHR ''_'' \<or> c = CHR ''-''"

definition profile_rx :: rx where
  "profile_rx = name_rx is_alnum is_name_char 63"

definition asset_segment_rx :: rx where
  "asset_segment_rx = name_rx is_alnum is_name_char 127"

definition version_rx :: rx where
  "version_rx = Cat (many1 (Cls is_digit)) (between_times 1 3 (Cat (lit ''.'') (many1 (Cls is_digit))))"

definition mod_rx :: rx where
  "mod_rx = name_rx (\<lambda>c. is_lower c \<or> is_digit c)
     (\<lambda>c. is_lower c \<or> is_digit c \<or> c = CHR ''_'' \<or> c = CHR ''-'') 63"

definition optional_filename_rx :: rx where
  "optional_filename_rx = Cat
     (between_times 1 255 (Cls (\<lambda>c. c \<noteq> CHR ''/'' \<and> c \<noteq> CHR 0x5C \<and> c \<noteq> CHR 0x00))) (lit ''.jar'')"

definition profile_uuid_rx :: rx where
  "profile_uuid_rx = (let h = Cls (caseless is_hex); dash = lit ''-'' in
     cats [times 8 h, dash, times 4 h, dash, Cls (in_range CHR ''1'' CHR ''5''), times 3 h, dash,
       Cls (caseless (\<lambda>c. c \<in> {CHR ''8'', CHR ''9'', CHR ''a'', CHR ''b''})), times 3 h, dash, times 12 h])"

section \<open>Optional mods\<close>

record file_action =
  act_source :: string
  act_filename :: string
  act_destination :: string

fun optional_entry :: "(string \<times> json) list \<Rightarrow> file_action option" where
  "optional_entry [] = None"
| "optional_entry ((source, destination) # es) =
     (case destination of
        JStr d \<Rightarrow>
          if prefix ''.gravit-panel-optional/'' source
          then Some \<lparr>act_source = source, act_filename = path_basename d, act_destination = d\<rparr>
          else optional_entry es
      | _ \<Rightarrow> optional_entry es)"

fun optional_actions :: "json list \<Rightarrow> file_action option" where
  "optional_actions [] = None"
| "optional_actions (action # as) =
     (case action of
        JObj a \<Rightarrow> (case map_of a ''files'' of
            Some (JObj fs) \<Rightarrow>
              (case optional_entry fs of Some f \<Rightarrow> Some f | None \<Rightarrow> optional_actions as)
          | _ \<Rightarrow> optional_actions as)
      | _ \<Rightarrow> optional_actions as)"

definition optional_file_action :: "(string \<times> json) list \<Rightarrow> file_action option" where
  "optional_file_action item =
     (case map_of item ''actions'' of Some (JArr as) \<Rightarrow> optional_actions as | _ \<Rightarrow> None)"

definition optional_project_id :: "(string \<times> json) list \<Rightarrow> string option" where
  "optional_project_id item =
     (case optional_file_action item of
        None \<Rightarrow> None
      | Some f \<Rightarrow>
          (case dropWhile (\<lambda>p. p \<noteq> ''mods'') (split_slash (act_source f)) of
             _ # q # _ \<Rightarrow> if q \<noteq> [] then Some q else None
           | _ \<Rightarrow> None))"

section \<open>The class path of NeoForge\<close>

definition lit_i :: "string \<Rightarrow> rx" where
  "lit_i s = cats (map (\<lambda>c. Cls (\<lambda>d. js_lower_char d = js_lower_char c)) s)"

definition installer_only :: "string \<Rightarrow> rx" where
  "installer_only dir = (let part = many1 (Cls (\<lambda>c. c \<noteq> CHR ''/'')) in
     cats [lit_i (''libraries/'' @ dir @ ''/''), part, lit ''/'', part, lit_i ''.jar''])"

definition neoforge_installer_only :: "rx list" where
  "neoforge_installer_only =
     map installer_only [''com/opencsv/opencsv'', ''commons-beanutils/commons-beanutils'',
       ''commons-collections/commons-collections'', ''commons-logging/commons-logging'',
       ''de/siegmar/fastcsv'', ''net/md-5/SpecialSource'', ''net/neoforged/srgutils'',
       ''org/apache/commons/commons-collections4'', ''org/apache/commons/commons-text''] @
     [let word = many1 (Cls (\<lambda>c. c \<noteq> CHR ''-'' \<and> c \<noteq> CHR ''/'' \<and> c \<noteq> CHR ''.'')) in
      cats [lit_i ''libraries/net/neoforged/mergetool/'', many1 (Cls (\<lambda>c. c \<noteq> CHR ''/'')),
        lit_i ''/mergetool-'', word, Star (Cat (lit ''.'') word), lit_i ''.jar'']]"

definition installer_library :: "json \<Rightarrow> bool" where
  "installer_library item =
     (case item of JStr s \<Rightarrow> list_ex (\<lambda>p. full_match p s) neoforge_installer_only | _ \<Rightarrow> False)"

definition remove_installer_libraries ::
  "(string \<times> json) list \<Rightarrow> string list \<times> (string \<times> json) list" where
  "remove_installer_libraries profile =
     (case map_of profile ''classPath'' of
        Some (JArr items) \<Rightarrow>
          (json_strings (filter installer_library items),
           obj_put ''classPath'' (JArr (filter (\<lambda>i. \<not> installer_library i) items)) profile)
      | _ \<Rightarrow> ([], profile))"

section \<open>Servers\<close>

record profile_server =
  srv_name :: string
  srv_address :: string
  srv_port :: int
  srv_default :: bool
  srv_protocol :: int
  srv_ping :: bool

definition parse_server :: "json \<Rightarrow> profile_server option" where
  "parse_server item =
     (case (Option.bind (json_field item ''name'') as_string,
            Option.bind (json_field item ''serverAddress'') as_string,
            Option.bind (json_field item ''serverPort'') safe_int) of
        (Some name, Some address, Some port) \<Rightarrow>
          if js_trim name = [] \<or> js_trim address = [] \<or> port < 1 \<or> 65535 < port then None
          else Some \<lparr>srv_name = name, srv_address = address, srv_port = port,
            srv_default = (json_field item ''isDefault'' = Some (JBool True)),
            srv_protocol = (case Option.bind (json_field item ''protocol'') safe_int of
              Some p \<Rightarrow> p | None \<Rightarrow> -1),
            srv_ping = (json_field item ''socketPing'' \<noteq> Some (JBool False))\<rparr>
      | _ \<Rightarrow> None)"

definition parse_profile_servers :: "json option \<Rightarrow> profile_server list" where
  "parse_profile_servers v =
     (case v of Some (JArr items) \<Rightarrow> List.map_filter parse_server items | _ \<Rightarrow> [])"

text \<open>A server as \<open>JSON.stringify\<close> writes it.\<close>

definition server_json :: "profile_server \<Rightarrow> json" where
  "server_json s = JObj [(''name'', JStr (srv_name s)), (''serverAddress'', JStr (srv_address s)),
     (''serverPort'', JNum (of_int (srv_port s))), (''isDefault'', JBool (srv_default s)),
     (''protocol'', JNum (of_int (srv_protocol s))), (''socketPing'', JBool (srv_ping s))]"

section \<open>The loader\<close>

datatype loader = VANILLA | FORGE | NEOFORGE | FABRIC | QUILT

definition field_strings :: "(string \<times> json) list \<Rightarrow> string \<Rightarrow> string list" where
  "field_strings profile k = (case map_of profile k of Some (JArr xs) \<Rightarrow> json_strings xs | _ \<Rightarrow> [])"

definition profile_signals :: "(string \<times> json) list \<Rightarrow> string" where
  "profile_signals profile =
     (let mainClass = (case map_of profile ''mainClass'' of Some (JStr s) \<Rightarrow> s | _ \<Rightarrow> [])
      in js_lower (join_with [CHR 0x0A]
        (mainClass # field_strings profile ''clientArgs'' @ field_strings profile ''classPath'')))"

definition infer_loader :: "(string \<times> json) list \<Rightarrow> loader" where
  "infer_loader profile =
     (let signals = profile_signals profile; has = (\<lambda>s. sublist s signals) in
      if has ''org.quiltmc.loader'' \<or> has ''quilt-loader'' \<or> has ''quilt_loader'' then QUILT
      else if has ''--fml.neoforgeversion'' \<or> has ''/net/neoforged/'' \<or> has ''net.neoforged.'' then NEOFORGE
      else if has ''net.fabricmc.loader'' \<or> has ''/net/fabricmc/fabric-loader/'' then FABRIC
      else if has ''--fml.forgeversion'' \<or> has ''/net/minecraftforge/forge/'' \<or> has ''net.minecraftforge.''
      then FORGE
      else VANILLA)"

definition loader_version_rxs :: "rx list" where
  "loader_version_rxs =
     (let sep = Cls (\<lambda>c. c = CHR ''/'' \<or> c = CHR '':'' \<or> c = CHR 0x5C);
          version = Cap (Cat (Cls is_digit) (Star (Cls (\<lambda>c. is_name_char c \<or> c = CHR ''+''))));
          eq = Alt (lit ''='') (many1 (Cls js_space))
      in [cats [lit_i ''fabric-loader'', sep, version],
          cats [lit_i ''net'', sep, lit_i ''neoforged'', sep, lit_i ''neoforge'', sep, version],
          cats [lit_i ''net'', sep, lit_i ''minecraftforge'', sep, lit_i ''forge'', sep,
            opt (Cat (many1 (Cls (\<lambda>c. is_digit c \<or> c = CHR ''.''))) (lit ''-'')), version],
          cats [lit_i ''--fml.neoForgeVersion'', eq, version],
          cats [lit_i ''--fml.forgeVersion'', eq, version]])"

fun first_capture :: "rx list \<Rightarrow> string \<Rightarrow> string option" where
  "first_capture [] s = None"
| "first_capture (r # rs) s =
     (case match_capture r s of
        Some v \<Rightarrow> if v \<noteq> [] then Some v else first_capture rs s
      | None \<Rightarrow> first_capture rs s)"

definition infer_loader_version :: "(string \<times> json) list \<Rightarrow> string option" where
  "infer_loader_version profile = first_capture loader_version_rxs
     (join_with [CHR 0x0A] (field_strings profile ''classPath'' @ field_strings profile ''clientArgs''))"

section \<open>The descriptor\<close>

record descriptor =
  d_name :: string
  d_uuid :: "string option"
  d_title :: string
  d_description :: string
  d_sort_index :: int
  d_version :: "string option"
  d_loader :: "loader option"
  d_loader_version :: "string option"
  d_recommend_java :: int
  d_min_java :: int
  d_max_java :: int
  d_servers :: "profile_server list"

definition int_field :: "(string \<times> json) list \<Rightarrow> string \<Rightarrow> int \<Rightarrow> int" where
  "int_field profile k d = (case Option.bind (map_of profile k) safe_int of Some i \<Rightarrow> i | None \<Rightarrow> d)"

definition matched_field :: "(string \<times> json) list \<Rightarrow> string \<Rightarrow> rx \<Rightarrow> string option" where
  "matched_field profile k r =
     (case map_of profile k of Some (JStr s) \<Rightarrow> if full_match r s then Some s else None | _ \<Rightarrow> None)"

definition profile_descriptor :: "string \<Rightarrow> (string \<times> json) list \<Rightarrow> descriptor" where
  "profile_descriptor name profile =
     \<lparr>d_name = name,
      d_uuid = matched_field profile ''uuid'' profile_uuid_rx,
      d_title = (case map_of profile ''title'' of
         Some (JStr s) \<Rightarrow> if js_trim s \<noteq> [] then s else name | _ \<Rightarrow> name),
      d_description = (case map_of profile ''info'' of Some (JStr s) \<Rightarrow> s | _ \<Rightarrow> []),
      d_sort_index = int_field profile ''sortIndex'' 0,
      d_version = matched_field profile ''version'' version_rx,
      d_loader = Some (infer_loader profile),
      d_loader_version = infer_loader_version profile,
      d_recommend_java = int_field profile ''recommendJavaVersion'' 8,
      d_min_java = int_field profile ''minJavaVersion'' 8,
      d_max_java = int_field profile ''maxJavaVersion'' 999,
      d_servers = parse_profile_servers (map_of profile ''servers'')\<rparr>"

text \<open>What \<open>listProfiles\<close> shows for a file it cannot read.\<close>

definition blank_descriptor :: "string \<Rightarrow> descriptor" where
  "blank_descriptor name = \<lparr>d_name = name, d_uuid = None, d_title = name, d_description = [],
     d_sort_index = 0, d_version = None, d_loader = None, d_loader_version = None,
     d_recommend_java = 8, d_min_java = 8, d_max_java = 999, d_servers = []\<rparr>"

definition asset_index_path :: "(string \<times> json) list \<Rightarrow> string option" where
  "asset_index_path profile =
     (case (matched_field profile ''assetDir'' asset_segment_rx,
            matched_field profile ''assetIndex'' asset_segment_rx) of
        (Some assetDir, Some assetIndex) \<Rightarrow>
          Some (path_join [''updates'', assetDir, ''indexes'', assetIndex @ ''.json''])
      | _ \<Rightarrow> None)"

end
