(* ===== verification/Profile_Service.thy ===== *)
theory Profile_Service
  imports Profile_Data Volume_Contract
begin

text \<open>
  The profile methods of \<^verbatim>\<open>apps/api/src/modules/clients/client-build.service.ts\<close>. What the class is
  built with and what it calls outside itself is the record \<open>host\<close>: the volume of the installation,
  the job's log, progress and abort signal, the commands of LaunchServer, the clock, \<open>JSON.parse\<close> and
  \<open>JSON.stringify\<close>. The methods are programs over the state \<open>'w\<close> of that world. A text and
  its UTF-8 bytes are not told apart.
\<close>

section \<open>The world of the service\<close>

record 'w host =
  h_volume :: "'w volume_ops"
  h_log :: "string \<Rightarrow> ('w, unit) io"
  h_progress :: "nat \<Rightarrow> string \<Rightarrow> ('w, unit) io"
  h_check_abort :: "('w, unit) io"
  h_sync_profiles :: "('w, string list) io"
  h_timestamp :: "'w \<Rightarrow> string"
  h_parse :: "string \<Rightarrow> json option"
  h_stringify :: "json \<Rightarrow> string"
  h_root :: string

definition throw_error :: "string \<Rightarrow> ('w, 'a) io" where
  "throw_error m = raise (Error m)"

definition safe_timestamp :: "'w host \<Rightarrow> ('w, string) io" where
  "safe_timestamp H = reading (\<lambda>w. map (\<lambda>c. if c = CHR '':'' \<or> c = CHR ''.'' then CHR ''-'' else c)
     (h_timestamp H w))"

definition launcher_root :: "'w host \<Rightarrow> string" where
  "launcher_root H = path_join [h_root H, ''launcher'']"

definition profile_path :: "string \<Rightarrow> string" where
  "profile_path name = path_join [''profiles'', name @ ''.json'']"

definition profile_text :: "'w host \<Rightarrow> (string \<times> json) list \<Rightarrow> string" where
  "profile_text H p = h_stringify H (JObj p) @ [CHR 0x0A]"

definition validate_profile :: "string \<Rightarrow> ('w, unit) io" where
  "validate_profile name =
     throwIf (\<not> full_match profile_rx name) (Error ''Profile name contains unsupported characters'')"

definition validate_version :: "string \<Rightarrow> ('w, unit) io" where
  "validate_version v = throwIf (\<not> full_match version_rx v) (Error ''Minecraft version is invalid'')"

definition validate_mod :: "string \<Rightarrow> ('w, unit) io" where
  "validate_mod m = throwIf (\<not> full_match mod_rx m) (Error (''Invalid Modrinth slug: '' @ m))"

definition log_lines :: "'w host \<Rightarrow> string list \<Rightarrow> ('w, unit) io" where
  "log_lines H ls = forEach ls (h_log H)"

definition reload_profiles :: "'w host \<Rightarrow> nat \<Rightarrow> ('w, unit) io" where
  "reload_profiles H p =
     thenDo (h_progress H p ''Reloading LaunchServer profiles and updates'')
     (thenDo (vol_remove (h_volume H) ''.updates-cache'' False)
     (thenDo (h_log H ''Invalidated LaunchServer updates cache'')
     (andThen (h_sync_profiles H) (\<lambda>lines.
      thenDo (log_lines H lines)
        (h_log H ''LaunchServer profiles and updates reloaded'')))))"

definition read_profile_config :: "'w host \<Rightarrow> string \<Rightarrow> ('w, string \<times> (string \<times> json) list) io" where
  "read_profile_config H name =
     (case vol_read_file (h_volume H) of
        None \<Rightarrow> throw_error ''Container volume profile reads are unavailable''
      | Some rd \<Rightarrow>
          andThen (vol_exists (h_volume H) (profile_path name) AFile) (\<lambda>there.
          thenDo (throwIf (\<not> there) (Error (''Profile '' @ name @ '' does not exist'')))
          (andThen (rd (profile_path name)) (\<lambda>raw.
           (case h_parse H raw of
              None \<Rightarrow> throw_error (''Profile '' @ name @ '' contains invalid JSON'')
            | Some (JObj p) \<Rightarrow> ret (raw, p)
            | Some _ \<Rightarrow> throw_error (''Profile '' @ name @ '' has an invalid structure''))))))"

text \<open>
  What every change of a profile ends with: write the new text, reload, and on a failure of the
  reload put the old text back, reload again and throw the first error.
\<close>

definition commit_profile ::
  "'w host \<Rightarrow> string \<Rightarrow> string \<Rightarrow> (string \<times> json) list \<Rightarrow> nat \<Rightarrow> nat \<Rightarrow> ('w, unit) io" where
  "commit_profile H name raw next_p p q =
     thenDo (vol_write (h_volume H) (profile_path name) (profile_text H next_p) M0644)
       (tryCatch (reload_profiles H p) (\<lambda>e.
          thenDo (vol_write (h_volume H) (profile_path name) raw M0644)
          (thenDo (quiet (reload_profiles H q)) (raise e))))"

definition backup_path :: "'w host \<Rightarrow> string \<Rightarrow> string \<Rightarrow> ('w, string) io" where
  "backup_path H name tag = andThen (safe_timestamp H) (\<lambda>ts.
     ret (path_join [''.gravit-panel-profile-backups'', name @ ''.'' @ tag @ ''-'' @ ts @ ''.json'']))"

section \<open>Reading profiles\<close>

definition profile_state :: "'w host \<Rightarrow> string \<Rightarrow> ('w, bool) io" where
  "profile_state H name =
     thenDo (validate_profile name)
     (andThen (promise_both (vol_exists (h_volume H) (profile_path name) AFile)
         (vol_exists (h_volume H) (path_join [''updates'', name]) ADirectory))
       (\<lambda>(hasProfile, hasUpdates). ret (hasProfile \<and> hasUpdates)))"

definition profile_file_rx :: rx where
  "profile_file_rx = Cat profile_rx (lit ''.json'')"

text \<open>The order of the list; \<open>collate\<close> is \<open>localeCompare\<close>.\<close>

definition descriptor_le :: "(string \<Rightarrow> string \<Rightarrow> int) \<Rightarrow> descriptor \<Rightarrow> descriptor \<Rightarrow> bool" where
  "descriptor_le collate a b =
     (let i = d_sort_index a - d_sort_index b; t = collate (d_title a) (d_title b)
      in (if i \<noteq> 0 then i else if t \<noteq> 0 then t else collate (d_name a) (d_name b)) \<le> 0)"

definition list_profile ::
  "'w host \<Rightarrow> (string \<Rightarrow> ('w, string) io) \<Rightarrow> string \<Rightarrow> ('w, descriptor) io" where
  "list_profile H rd f =
     (let name = take (length f - 5) f in
      tryCatch (andThen (rd (path_join [''profiles'', f])) (\<lambda>raw.
          case h_parse H raw of
            None \<Rightarrow> throw_error ''JSON''
          | Some JNull \<Rightarrow> throw_error ''null''
          | Some v \<Rightarrow> ret (profile_descriptor name (case v of JObj p \<Rightarrow> p | _ \<Rightarrow> []))))
        (\<lambda>_. ret (blank_descriptor name)))"

definition list_profiles :: "'w host \<Rightarrow> (string \<Rightarrow> string \<Rightarrow> int) \<Rightarrow> ('w, descriptor list) io" where
  "list_profiles H collate =
     (case (vol_list_files (h_volume H), vol_read_file (h_volume H)) of
        (Some ls, Some rd) \<Rightarrow>
          andThen (ls ''profiles'') (\<lambda>files.
          andThen (promise_all (map (list_profile H rd) (filter (full_match profile_file_rx) files)))
            (\<lambda>items. ret (sort_by (descriptor_le collate) items)))
      | _ \<Rightarrow> throw_error ''Container volume profile discovery is unavailable'')"

definition get_profile :: "'w host \<Rightarrow> string \<Rightarrow> ('w, descriptor) io" where
  "get_profile H name =
     thenDo (validate_profile name)
     (andThen (read_profile_config H name) (\<lambda>(raw, p). ret (profile_descriptor name p)))"

section \<open>Servers\<close>

definition replace_profile_servers ::
  "'w host \<Rightarrow> string \<Rightarrow> profile_server list \<Rightarrow> ('w, descriptor \<times> string) io" where
  "replace_profile_servers H name servers =
     thenDo (validate_profile name)
     (andThen (read_profile_config H name) (\<lambda>(raw, p).
      andThen (backup_path H name ''servers'') (\<lambda>backup.
      thenDo (vol_copy (h_volume H) (profile_path name) backup)
      (thenDo (h_progress H 25 (''Snapshotting '' @ name @ '' server list''))
      (let next_p = obj_put ''servers'' (JArr (map server_json servers)) p in
       thenDo (commit_profile H name raw next_p 65 80)
         (ret (profile_descriptor name next_p, path_join [launcher_root H, backup])))))))"

section \<open>Optional mods\<close>

record optional_input =
  oi_project :: string
  oi_title :: string
  oi_filename :: string
  oi_source :: string
  oi_destination :: "string option"
  oi_enabled :: "bool option"
  oi_description :: "string option"
  oi_category :: "string option"

definition optional_items :: "(string \<times> json) list \<Rightarrow> json list" where
  "optional_items p = (case map_of p ''updateOptional'' of Some (JArr xs) \<Rightarrow> xs | _ \<Rightarrow> [])"

fun object_item :: "json \<Rightarrow> (string \<times> json) list option" where
  "object_item (JObj o') = Some o'"
| "object_item _ = None"

definition optional_objects :: "(string \<times> json) list \<Rightarrow> (string \<times> json) list list" where
  "optional_objects p = List.map_filter object_item (optional_items p)"

definition file_action_json :: "string \<Rightarrow> string \<Rightarrow> (string \<times> json) list \<Rightarrow> json" where
  "file_action_json source destination extra =
     JArr [JObj (extra @ [(''files'', JObj [(source, JStr destination)])])]"

definition optional_item_json :: "string \<Rightarrow> optional_input \<Rightarrow> (string \<times> json) list" where
  "optional_item_json title i =
     [(''name'', JStr title),
      (''info'', JStr (case oi_description i of Some d \<Rightarrow> d | None \<Rightarrow> [])),
      (''category'', JStr (case oi_category i of Some c \<Rightarrow> c | None \<Rightarrow> ''Mods'')),
      (''visible'', JBool True),
      (''mark'', JBool (case oi_enabled i of Some b \<Rightarrow> b | None \<Rightarrow> False)),
      (''actions'', file_action_json (oi_source i)
        (case oi_destination i of Some d \<Rightarrow> d | None \<Rightarrow> ''mods/'' @ oi_filename i) [(''type'', JStr ''file'')])]"

definition unique_title :: "string list \<Rightarrow> optional_input \<Rightarrow> string" where
  "unique_title used i =
     (let requested = (if js_trim (oi_title i) \<noteq> [] then js_trim (oi_title i) else oi_project i)
      in if js_lower requested \<in> set used
         then requested @ '' ('' @ take 8 (oi_project i) @ '')'' else requested)"

fun push_optionals ::
  "optional_input list \<Rightarrow> string list \<Rightarrow> (string \<times> json) list list \<Rightarrow> (string \<times> json) list list" where
  "push_optionals [] used items = items"
| "push_optionals (i # is) used items =
     (let title = unique_title used i
      in push_optionals is (js_lower title # used) (items @ [optional_item_json title i]))"

definition item_names :: "(string \<times> json) list list \<Rightarrow> string list" where
  "item_names items = List.map_filter
     (\<lambda>item. case map_of item ''name'' of Some (JStr s) \<Rightarrow> Some (js_lower s) | _ \<Rightarrow> None) items"

definition next_optionals ::
  "optional_input list \<Rightarrow> string list \<Rightarrow> (string \<times> json) list \<Rightarrow> (string \<times> json) list list" where
  "next_optionals inputs removed p =
     (let projectIds = map oi_project inputs @ removed;
          kept = filter (\<lambda>item. case optional_project_id item of
              None \<Rightarrow> True | Some q \<Rightarrow> q \<notin> set projectIds) (optional_objects p)
      in push_optionals inputs (item_names kept) kept)"

definition upsert_optional_mods ::
  "'w host \<Rightarrow> string \<Rightarrow> optional_input list \<Rightarrow> string list \<Rightarrow> ('w, descriptor) io" where
  "upsert_optional_mods H name inputs removed =
     thenDo (validate_profile name)
     (andThen (read_profile_config H name) (\<lambda>(raw, p).
      let next_p = obj_put ''updateOptional'' (JArr (map JObj (next_optionals inputs removed p))) p in
      andThen (backup_path H name ''optional'') (\<lambda>backup.
      thenDo (vol_copy (h_volume H) (profile_path name) backup)
      (thenDo (commit_profile H name raw next_p 80 90)
        (ret (profile_descriptor name next_p))))))"

definition upsert_optional_mod :: "'w host \<Rightarrow> string \<Rightarrow> optional_input \<Rightarrow> ('w, descriptor) io" where
  "upsert_optional_mod H name i = upsert_optional_mods H name [i] []"

record optional_mod =
  om_project :: string
  om_name :: string
  om_description :: string
  om_category :: string
  om_enabled :: bool
  om_filename :: string
  om_source :: string
  om_destination :: string

definition optional_mod_of :: "(string \<times> json) list \<Rightarrow> optional_mod option" where
  "optional_mod_of item =
     (case (optional_project_id item, optional_file_action item) of
        (Some q, Some f) \<Rightarrow> Some \<lparr>om_project = q,
          om_name = (case map_of item ''name'' of Some (JStr s) \<Rightarrow> s | _ \<Rightarrow> act_filename f),
          om_description = (case map_of item ''info'' of Some (JStr s) \<Rightarrow> s | _ \<Rightarrow> []),
          om_category = (case map_of item ''category'' of Some (JStr s) \<Rightarrow> s | _ \<Rightarrow> ''Mods''),
          om_enabled = (map_of item ''mark'' = Some (JBool True)),
          om_filename = act_filename f, om_source = act_source f,
          om_destination = act_destination f\<rparr>
      | _ \<Rightarrow> None)"

definition optional_mods_of :: "(string \<times> json) list \<Rightarrow> optional_mod list" where
  "optional_mods_of p = List.map_filter optional_mod_of (optional_objects p)"

definition list_optional_mods :: "'w host \<Rightarrow> string \<Rightarrow> ('w, optional_mod list) io" where
  "list_optional_mods H name =
     thenDo (validate_profile name)
     (andThen (read_profile_config H name) (\<lambda>(raw, p). ret (optional_mods_of p)))"

definition write_optional_profile ::
  "'w host \<Rightarrow> string \<Rightarrow> string \<times> (string \<times> json) list \<Rightarrow> json list \<Rightarrow> ('w, unit) io" where
  "write_optional_profile H name cur items =
     andThen (backup_path H name ''optional'') (\<lambda>backup.
     thenDo (vol_copy (h_volume H) (profile_path name) backup)
       (commit_profile H name (fst cur) (obj_put ''updateOptional'' (JArr items) (snd cur)) 80 90))"

end
