(* ===== verification/Profile_Updates.thy ===== *)
theory Profile_Updates
  imports Profile_Service
begin

text \<open>
  The changes of a profile in \<^verbatim>\<open>client-build.service.ts\<close>: one optional mod, the title and texts, the
  Java range, and the removal of a profile into the trash.
\<close>

section \<open>One optional mod\<close>

record optional_edit =
  oe_project :: string
  oe_filename :: string
  oe_title :: string
  oe_description :: string
  oe_category :: string
  oe_enabled :: bool

definition edit_item :: "optional_edit \<Rightarrow> (string \<times> json) list \<Rightarrow> (string \<times> json) list" where
  "edit_item i item = obj_put ''mark'' (JBool (oe_enabled i))
     (obj_put ''category'' (JStr (js_trim (oe_category i)))
     (obj_put ''info'' (JStr (js_trim (oe_description i)))
     (obj_put ''name'' (JStr (js_trim (oe_title i))) item)))"

definition edit_value :: "optional_edit \<Rightarrow> json \<Rightarrow> json" where
  "edit_value i v = (case object_item v of
     Some item \<Rightarrow> if optional_project_id item = Some (oe_project i) then JObj (edit_item i item) else v
   | None \<Rightarrow> v)"

definition name_taken :: "optional_edit \<Rightarrow> json \<Rightarrow> bool" where
  "name_taken i v = (case object_item v of
     Some item \<Rightarrow> optional_project_id item \<noteq> Some (oe_project i) \<and>
       (case map_of item ''name'' of
          Some (JStr s) \<Rightarrow> js_lower s = js_lower (js_trim (oe_title i)) | _ \<Rightarrow> False)
   | None \<Rightarrow> False)"

definition is_optional_of :: "string \<Rightarrow> json \<Rightarrow> bool" where
  "is_optional_of q v = (case object_item v of
     Some item \<Rightarrow> optional_project_id item = Some q | None \<Rightarrow> False)"

definition check_edit :: "optional_edit \<Rightarrow> ('w, unit) io" where
  "check_edit i =
     (let title = js_trim (oe_title i); description = js_trim (oe_description i);
          category = js_trim (oe_category i) in
      thenDo (throwIf (title = [] \<or> 80 < length title)
        (Error ''Optional mod name must be 1-80 characters''))
      (thenDo (throwIf (500 < length description) (Error ''Optional mod description is too long''))
        (throwIf (category = [] \<or> 40 < length category)
          (Error ''Optional mod category must be 1-40 characters''))))"

definition converted_item :: "optional_edit \<Rightarrow> json" where
  "converted_item i = JObj
     [(''name'', JStr (js_trim (oe_title i))), (''info'', JStr (js_trim (oe_description i))),
      (''category'', JStr (js_trim (oe_category i))), (''visible'', JBool True),
      (''mark'', JBool (oe_enabled i)),
      (''actions'', file_action_json
        (path_join [''.gravit-panel-optional'', ''mods'', oe_project i, oe_filename i])
        (''mods/'' @ oe_filename i) [])]"

text \<open>An installed mod becomes an optional one: its file moves away from the mods of the profile.\<close>

definition convert_mod :: "'w host \<Rightarrow> string \<Rightarrow> optional_edit \<Rightarrow> ('w, string \<times> string) io" where
  "convert_mod H name i =
     thenDo (throwIf (\<not> full_match optional_filename_rx (oe_filename i) \<or>
         path_basename (oe_filename i) \<noteq> oe_filename i) (Error ''Optional mod filename is invalid''))
     (let source = path_join [''updates'', name, ''mods'', oe_filename i];
          dir = path_join [''updates'', name, ''.gravit-panel-optional'', ''mods'', oe_project i];
          target = path_join [''updates'', name, ''.gravit-panel-optional'', ''mods'', oe_project i,
            oe_filename i] in
      andThen (vol_exists (h_volume H) source AFile) (\<lambda>there.
      thenDo (throwIf (\<not> there) (Error ''Installed mod was not found in this profile''))
      (andThen (vol_exists (h_volume H) target AFile) (\<lambda>taken.
       thenDo (throwIf taken (Error ''Optional mod source already exists''))
       (thenDo (vol_ensure_directory (h_volume H) dir)
       (thenDo (vol_move (h_volume H) source target) (ret (source, target))))))))"

definition update_optional_mod ::
  "'w host \<Rightarrow> string \<Rightarrow> optional_edit \<Rightarrow> ('w, optional_mod list) io" where
  "update_optional_mod H name i =
     andThen (read_profile_config H name) (\<lambda>cur.
     thenDo (check_edit i)
     (let optional = optional_items (snd cur) in
      thenDo (throwIf (list_ex (name_taken i) optional)
        (Error ''Another optional mod already uses this name''))
      (let next_p = map (edit_value i) optional in
       thenDo
         (if list_ex (is_optional_of (oe_project i)) optional
          then write_optional_profile H name cur next_p
          else andThen (convert_mod H name i) (\<lambda>(source, target).
            tryCatch (write_optional_profile H name cur (next_p @ [converted_item i]))
              (\<lambda>e. thenDo (quiet (vol_move (h_volume H) target source)) (raise e))))
         (list_optional_mods H name))))"

definition remove_optional_mod :: "'w host \<Rightarrow> string \<Rightarrow> string \<Rightarrow> ('w, unit) io" where
  "remove_optional_mod H name q =
     andThen (read_profile_config H name) (\<lambda>cur.
     let optional = optional_items (snd cur) in
     (case Option.bind (List.find (is_optional_of q) optional) object_item of
        None \<Rightarrow> throw_error ''Optional mod was not found in this profile''
      | Some item \<Rightarrow>
          thenDo (write_optional_profile H name cur (filter (\<lambda>v. \<not> is_optional_of q v) optional))
          (case optional_file_action item of
             Some f \<Rightarrow> vol_remove (h_volume H) (path_join [''updates'', name, act_source f]) False
           | None \<Rightarrow> ret ())))"

section \<open>The profile itself\<close>

record profile_edit =
  pe_name :: string
  pe_title :: string
  pe_description :: string
  pe_sort_index :: rat

record profile_update =
  pu_profile :: descriptor
  pu_backup :: string

definition update_profile :: "'w host \<Rightarrow> profile_edit \<Rightarrow> ('w, profile_update) io" where
  "update_profile H i =
     thenDo (validate_profile (pe_name i))
     (let title = js_trim (pe_title i); description = js_trim (pe_description i); name = pe_name i in
      thenDo (throwIf (title = [] \<or> 64 < length title)
        (Error ''Profile title must be between 1 and 64 characters''))
      (thenDo (throwIf (description = [] \<or> 512 < length description)
        (Error ''Profile description must be between 1 and 512 characters''))
      (case safe_int (JNum (pe_sort_index i)) of
         Some n \<Rightarrow>
           if 10000 < \<bar>n\<bar> then
             throw_error ''Profile sort index must be an integer between -10000 and 10000''
           else
             andThen (read_profile_config H name) (\<lambda>(raw, p).
             andThen (backup_path H name ''backup'') (\<lambda>backup.
             thenDo (h_progress H 20 (''Snapshotting profile '' @ name))
             (thenDo (vol_copy (h_volume H) (profile_path name) backup)
             (let next_p = obj_put ''sortIndex'' (JNum (pe_sort_index i))
                (obj_put ''info'' (JStr description) (obj_put ''title'' (JStr title) p)) in
              thenDo (h_progress H 45 (''Saving profile '' @ name))
              (thenDo (commit_profile H name raw next_p 65 80)
              (thenDo (h_progress H 95 (''Profile '' @ name @ '' updated''))
                (ret \<lparr>pu_profile = profile_descriptor name next_p,
                   pu_backup = path_join [launcher_root H, backup]\<rparr>)))))))
       | None \<Rightarrow> throw_error ''Profile sort index must be an integer between -10000 and 10000'')))"

record java_edit =
  je_name :: string
  je_recommend :: rat
  je_min :: rat
  je_max :: rat

definition check_java :: "string \<Rightarrow> rat \<Rightarrow> int \<Rightarrow> ('w, unit) io" where
  "check_java label v maximum =
     throwIf (case safe_int (JNum v) of None \<Rightarrow> True | Some n \<Rightarrow> n < 8 \<or> maximum < n)
       (Error (''Profile '' @ label @ '' Java version must be between 8 and '' @ show_int maximum))"

definition update_profile_java :: "'w host \<Rightarrow> java_edit \<Rightarrow> ('w, profile_update) io" where
  "update_profile_java H i =
     thenDo (validate_profile (je_name i))
     (thenDo (check_java ''recommended'' (je_recommend i) 99)
     (thenDo (check_java ''minimum'' (je_min i) 99)
     (thenDo (check_java ''maximum'' (je_max i) 999)
     (thenDo (throwIf (je_recommend i < je_min i \<or> je_max i < je_recommend i)
        (Error ''Recommended Java version must be inside the allowed range''))
     (let name = je_name i in
      andThen (read_profile_config H name) (\<lambda>(raw, p).
      andThen (backup_path H name ''java'') (\<lambda>backup.
      thenDo (h_progress H 20 (''Snapshotting profile '' @ name))
      (thenDo (vol_copy (h_volume H) (profile_path name) backup)
      (let next_p = obj_put ''maxJavaVersion'' (JNum (je_max i))
         (obj_put ''minJavaVersion'' (JNum (je_min i))
         (obj_put ''recommendJavaVersion'' (JNum (je_recommend i)) p)) in
       thenDo (commit_profile H name raw next_p 65 80)
       (thenDo (h_progress H 95 (''Java compatibility for '' @ name @ '' updated''))
         (ret \<lparr>pu_profile = profile_descriptor name next_p,
            pu_backup = path_join [launcher_root H, backup]\<rparr>)))))))))))"

section \<open>Removing a profile\<close>

definition profile_dir :: "string \<Rightarrow> (string \<times> json) list \<Rightarrow> string option" where
  "profile_dir name p =
     (case map_of p ''dir'' of
        None \<Rightarrow> Some name
      | Some (JStr d) \<Rightarrow> if full_match profile_rx d \<and> d \<noteq> ''assets'' then Some d else None
      | Some _ \<Rightarrow> None)"

definition unmove_profile ::
  "'w host \<Rightarrow> bool \<Rightarrow> bool \<Rightarrow> string \<times> string \<Rightarrow> string \<times> string \<Rightarrow> js_error \<Rightarrow> ('w, unit) io" where
  "unmove_profile H profileMoved updatesMoved profile updates e =
     thenDo (do_when updatesMoved (vol_move (h_volume H) (snd updates) (fst updates)))
     (thenDo (do_when profileMoved (vol_move (h_volume H) (snd profile) (fst profile)))
     (thenDo (quiet (reload_profiles H 85)) (raise e)))"

definition remove_profile :: "'w host \<Rightarrow> string \<Rightarrow> bool \<Rightarrow> ('w, string) io" where
  "remove_profile H name confirmed =
     thenDo (validate_profile name)
     (thenDo (throwIf (\<not> confirmed) (Error ''Profile removal requires explicit confirmation''))
     (andThen (read_profile_config H name) (\<lambda>(raw, p).
      (case profile_dir name p of
         None \<Rightarrow> throw_error (''Profile '' @ name @ '' contains an unsafe client directory'')
       | Some d \<Rightarrow>
           andThen (safe_timestamp H) (\<lambda>ts.
           let trash = path_join [''.gravit-panel-trash'', ''profiles'', name @ ''-'' @ ts];
               profile = (profile_path name, path_join [trash, ''profile.json'']);
               updates = (path_join [''updates'', d], path_join [trash, ''client'']) in
           andThen (vol_exists (h_volume H) (fst updates) ADirectory) (\<lambda>updatesExist.
           thenDo (tryCatch
             (thenDo (h_progress H 30 (''Moving profile '' @ name @ '' to recoverable trash''))
               (vol_move (h_volume H) (fst profile) (snd profile)))
             (unmove_profile H False False profile updates))
           (thenDo (tryCatch
             (do_when updatesExist (vol_move (h_volume H) (fst updates) (snd updates)))
             (unmove_profile H True False profile updates))
           (thenDo (tryCatch (reload_profiles H 70)
             (unmove_profile H True updatesExist profile updates))
           (thenDo (h_progress H 95 (''Profile '' @ name @ '' removed''))
             (ret (path_join [launcher_root H, trash])))))))))))"

end
