(* ===== verification/Profile_Properties.thy ===== *)
theory Profile_Properties
  imports Profile_Updates "HOL-Library.Multiset"
begin

text \<open>
  What the profile methods of \<^verbatim>\<open>client-build.service.ts\<close> promise: a change of a profile is made as a
  whole or undone, and server lists survive being written and read back.
\<close>

section \<open>Names and paths\<close>

lemma path_join_plain:
  assumes "plain_path ss" and "ss \<noteq> []"
  shows "path_join ss = join_with ''/'' ss"
proof -
  have f: "filter (\<lambda>p. p \<noteq> []) ss = ss"
    using assms(1) by (auto simp: filter_id_conv plain_path_def plain_segment_def)
  have "path_normalize (below_form ss False) = below_form ss False" using assms by (intro normalize_below_form)
  with assms f show ?thesis by (simp add: path_join_def below_form_def)
qed

lemma vol_absolute_plain:
  assumes "plain_path ss" and "ss \<noteq> []" and "\<forall>s\<in>set ss. CHR 0x00 \<notin> set s"
  shows "vol_absolute (join_with ''/'' ss) = Inr (''/app/data/'' @ join_with ''/'' ss)"
proof -
  let ?p = "below_form ss False"
  have p: "join_with ''/'' ss = ?p" using assms(2) by (simp add: below_form_def)
  have z: "CHR 0x00 \<notin> set (join_with ''/'' ss)" using assms(3)
    by (induction ss rule: induct_list012) auto
  have g: "?p \<noteq> ''.''" "?p \<noteq> ''..''" "\<not> prefix ''../'' ?p"
  proof -
    have sp: "split_slash ?p = ss" using assms split_below_form by simp
    show "?p \<noteq> ''.''" "?p \<noteq> ''..''" using sp assms(1,2) by (auto simp: plain_segment_def)
    show "\<not> prefix ''../'' ?p"
    proof
      assume "prefix ''../'' ?p"
      then obtain q where "?p = ''..'' @ CHR ''/'' # q" by (auto simp: prefix_def)
      then have "split_slash ?p = ''..'' # split_slash q" by (simp only: split_slash_prefix) simp
      with sp assms(1) show False by (auto simp: plain_segment_def)
    qed
  qed
  have r: "vol_relative ?p = Inr ?p"
    using assms z p g by (simp add: vol_relative_def normalize_below_form Let_def)
  have j: "path_join [CHR ''/'' # join_with ''/'' [''app'', ''data''], ?p] =
      CHR ''/'' # join_with ''/'' ([''app'', ''data''] @ ss)"
    using join_below[of "[''app'', ''data'']" ss False] assms by (simp add: plain_segment_def)
  then show ?thesis
    using r p join_with_append[of "[''app'', ''data'']" ss "''/''"] assms(2)
    by (simp add: vol_absolute_def app_data_def)
qed

lemma profile_name_chars:
  assumes "full_match profile_rx name"
  shows "\<forall>c\<in>set name. is_name_char c"
  using assms unfolding profile_rx_def full_match_name by (auto simp: is_name_char_def)

lemma is_name_char_plain: "is_name_char c \<Longrightarrow> c \<noteq> CHR ''/'' \<and> c \<noteq> CHR 0x00"
  by (auto simp: is_name_char_def is_alnum_def is_lower_def is_upper_def is_digit_def in_range_def)

lemma plain_json_segment: "\<forall>c\<in>set s. c \<noteq> CHR ''/'' \<Longrightarrow> plain_segment (s @ ''.json'')"
proof -
  have "s @ ''.json'' \<noteq> ''.''" "s @ ''.json'' \<noteq> ''..''" by (cases s; auto)+
  then show "\<forall>c\<in>set s. c \<noteq> CHR ''/'' \<Longrightarrow> plain_segment (s @ ''.json'')"
    by (auto simp: plain_segment_def)
qed

lemma vol_absolute_json:
  assumes "plain_segment dir" "CHR 0x00 \<notin> set dir" "\<forall>c\<in>set s. c \<noteq> CHR ''/'' \<and> c \<noteq> CHR 0x00"
  shows "vol_absolute (path_join [dir, s @ ''.json'']) = Inr (''/app/data/'' @ dir @ ''/'' @ s @ ''.json'')"
proof -
  have p: "plain_path [dir, s @ ''.json'']" using assms by (simp add: plain_json_segment)
  show ?thesis using vol_absolute_plain[OF p] assms path_join_plain[OF p] by auto
qed

lemma profile_absolute:
  assumes "full_match profile_rx name"
  shows "vol_absolute (profile_path name) = Inr (''/app/data/profiles/'' @ name @ ''.json'')"
  using vol_absolute_json[of "''profiles''" name] profile_name_chars[OF assms] is_name_char_plain
  by (auto simp: profile_path_def plain_segment_def)

lemma cache_apart:
  assumes "full_match profile_rx name"
  shows "apart ''.updates-cache'' (profile_path name)"
proof -
  have "vol_absolute ''.updates-cache'' = Inr ''/app/data/.updates-cache''" by code_simp
  with profile_absolute[OF assms] show ?thesis by (simp add: apart_def)
qed

lemma backup_apart:
  assumes "full_match profile_rx name" and "\<forall>c\<in>set (tag @ ts). c \<noteq> CHR ''/'' \<and> c \<noteq> CHR 0x00"
  shows "apart (path_join [''.gravit-panel-profile-backups'', name @ ''.'' @ tag @ ''-'' @ ts @ ''.json''])
    (profile_path name)"
proof -
  have "vol_absolute (path_join [''.gravit-panel-profile-backups'', (name @ ''.'' @ tag @ ''-'' @ ts) @ ''.json'']) =
      Inr (''/app/data/'' @ ''.gravit-panel-profile-backups'' @ ''/'' @ (name @ ''.'' @ tag @ ''-'' @ ts) @ ''.json'')"
    by (rule vol_absolute_json)
      (use assms(2) profile_name_chars[OF assms(1)] is_name_char_plain in \<open>auto simp: plain_segment_def\<close>)
  with profile_absolute[OF assms(1)] show ?thesis by (simp add: apart_def)
qed

text \<open>
  The state after a change: the profile that was stored, changed by \<open>next_p\<close>, is stored now; or the
  old text is still there.
\<close>

type_synonym 'w files = "'w \<Rightarrow> string \<Rightarrow> string option"
type_synonym change = "(string \<times> json) list \<Rightarrow> (string \<times> json) list"

definition changed_to ::
  "'w host \<Rightarrow> 'w files \<Rightarrow> string \<Rightarrow> change \<Rightarrow> 'w \<Rightarrow> descriptor \<Rightarrow> 'w \<Rightarrow> bool" where
  "changed_to H fs name next_p s d t \<longleftrightarrow> (\<exists>raw p. fs s (profile_path name) = Some raw \<and>
     h_parse H raw = Some (JObj p) \<and> d = profile_descriptor name (next_p p) \<and>
     fs t (profile_path name) = Some (profile_text H (next_p p)))"

definition old_or_new :: "'w host \<Rightarrow> 'w files \<Rightarrow> string \<Rightarrow> change \<Rightarrow> 'w \<Rightarrow> 'w \<Rightarrow> bool" where
  "old_or_new H fs name next_p s t \<longleftrightarrow> fs t (profile_path name) = fs s (profile_path name) \<or>
     (\<exists>raw p. fs s (profile_path name) = Some raw \<and> h_parse H raw = Some (JObj p) \<and>
        fs t (profile_path name) = Some (profile_text H (next_p p)))"

definition with_servers :: "profile_server list \<Rightarrow> change" where
  "with_servers servers = obj_put ''servers'' (JArr (map server_json servers))"

definition with_optionals :: "optional_input list \<Rightarrow> string list \<Rightarrow> change" where
  "with_optionals inputs removed p =
     obj_put ''updateOptional'' (JArr (map JObj (next_optionals inputs removed p))) p"

definition edited :: "profile_edit \<Rightarrow> change" where
  "edited i p = obj_put ''sortIndex'' (JNum (pe_sort_index i))
     (obj_put ''info'' (JStr (js_trim (pe_description i))) (obj_put ''title'' (JStr (js_trim (pe_title i))) p))"

definition java_edited :: "java_edit \<Rightarrow> change" where
  "java_edited i p = obj_put ''maxJavaVersion'' (JNum (je_max i))
     (obj_put ''minJavaVersion'' (JNum (je_min i)) (obj_put ''recommendJavaVersion'' (JNum (je_recommend i)) p))"

section \<open>Changes are made as a whole\<close>

locale profile_host = file_volume "h_volume H" file_at
  for H :: "'w host" and file_at :: "'w \<Rightarrow> string \<Rightarrow> string option" +
  assumes log_keeps: "keeps file_at (h_log H m)"
    and progress_keeps: "keeps file_at (h_progress H n m)"
    and sync_keeps: "keeps file_at (h_sync_profiles H)"
    and timestamp_plain: "\<forall>c\<in>set (h_timestamp H w). c \<noteq> CHR ''/'' \<and> c \<noteq> CHR 0x00"
begin

lemma keeps_at: "keeps file_at p \<Longrightarrow> keeps (\<lambda>w. file_at w q) p"
  by (simp add: keeps_def)

lemma reload_keeps:
  assumes "full_match profile_rx name"
  shows "keeps (\<lambda>w. file_at w (profile_path name)) (reload_profiles H n)"
proof -
  have "keeps (\<lambda>w. file_at w (profile_path name)) (vol_remove (h_volume H) ''.updates-cache'' False)"
    unfolding keeps_def using remove_apart[OF surjective_pairing cache_apart[OF assms]] by blast
  then show ?thesis unfolding reload_profiles_def log_lines_def
    by (intro keeps_intros; (assumption | intro keeps_at log_keeps progress_keeps sync_keeps))
qed

lemma read_config:
  assumes "\<And>raw p t. file_at t = file_at s \<Longrightarrow> file_at s (profile_path name) = Some raw \<Longrightarrow>
      h_parse H raw = Some (JObj p) \<Longrightarrow> Q (raw, p) t"
    and "\<And>e t. file_at t = file_at s \<Longrightarrow> E e t"
  shows "wp (read_profile_config H name) Q E s"
proof (cases "vol_read_file (h_volume H)")
  case None
  with assms(2) show ?thesis by (simp add: read_profile_config_def throw_error_def wp_simps)
next
  case (Some rd)
  have "wp (rd (profile_path name)) (\<lambda>raw. wp (case h_parse H raw of
              None \<Rightarrow> throw_error (''Profile '' @ name @ '' contains invalid JSON'')
            | Some (JObj p) \<Rightarrow> ret (raw, p)
            | Some _ \<Rightarrow> throw_error (''Profile '' @ name @ '' has an invalid structure'')) Q E) E t"
    if "file_at t = file_at s" for t
    by (rule wp_read[OF Some])
      (use that assms in \<open>auto simp: throw_error_def wp_simps split: option.splits json.splits\<close>)
  with assms(2) show ?thesis
    unfolding read_profile_config_def Some option.case wp_simps by (intro wp_exists) (auto simp: wp_simps)
qed

lemma backup:
  assumes "full_match profile_rx name" and "\<forall>c\<in>set tag. c \<noteq> CHR ''/'' \<and> c \<noteq> CHR 0x00"
    and "\<And>p. apart p (profile_path name) \<Longrightarrow> Q p s"
  shows "wp (backup_path H name tag) Q E s"
proof -
  have "\<forall>c\<in>set (tag @ map (\<lambda>c. if c = CHR '':'' \<or> c = CHR ''.'' then CHR ''-'' else c) (h_timestamp H s)).
      c \<noteq> CHR ''/'' \<and> c \<noteq> CHR 0x00"
    using assms(2) timestamp_plain[of s] by auto
  from backup_apart[OF assms(1) this] assms(3) show ?thesis
    by (simp add: backup_path_def safe_timestamp_def wp_simps)
qed

lemma commit:
  assumes name: "full_match profile_rx name" and there: "file_at s (profile_path name) = Some raw"
  shows "wp (commit_profile H name raw next_p m n)
    (\<lambda>_ t. file_at t (profile_path name) = Some (profile_text H next_p))
    (\<lambda>_ t. file_at t (profile_path name) = Some raw \<or>
       file_at t (profile_path name) = Some (profile_text H next_p)) s"
proof -
  let ?p = "profile_path name" and ?new = "profile_text H next_p"
  have again: "wp (vol_write (h_volume H) ?p raw M0644)
      (\<lambda>_. wp (reload_profiles H n)
        (\<lambda>_ t. file_at t ?p = Some raw \<or> file_at t ?p = Some ?new)
        (\<lambda>_ t. file_at t ?p = Some raw \<or> file_at t ?p = Some ?new))
      (\<lambda>_ t. file_at t ?p = Some raw \<or> file_at t ?p = Some ?new) t"
    if "file_at t ?p = Some ?new" for t
    by (rule wp_write) (use that in \<open>auto simp: wp_simps intro!: wp_mono[OF keeps_wp[OF reload_keeps[OF name]]]\<close>)
  show ?thesis
    unfolding commit_profile_def wp_simps
    by (rule wp_write) (use there again in
      \<open>auto simp: wp_simps intro!: wp_mono[OF keeps_wp[OF reload_keeps[OF name]]]\<close>)
qed

lemma commit_reliable:
  assumes name: "full_match profile_rx name" and there: "file_at s (profile_path name) = Some raw"
    and sure: "\<And>b w. fst (vol_write (h_volume H) (profile_path name) b M0644 w) = Inr ()"
  shows "wp (commit_profile H name raw next_p m n)
    (\<lambda>_ t. file_at t (profile_path name) = Some (profile_text H next_p))
    (\<lambda>_ t. file_at t (profile_path name) = Some raw) s"
proof -
  let ?p = "profile_path name" and ?new = "profile_text H next_p"
  have w: "wp (vol_write (h_volume H) ?p b M0644) Q E t"
    if "file_at t ?p \<noteq> None" "\<And>u. file_at u ?p = Some b \<Longrightarrow> Q () u" for b Q E t
  proof -
    obtain u where u: "vol_write (h_volume H) ?p b M0644 t = (Inr (), u)"
      using sure[of b t] by (metis fst_conv surj_pair)
    with write_file[OF u that(1)] that(2) show ?thesis by (simp add: wp_def)
  qed
  show ?thesis
    unfolding commit_profile_def wp_simps
    by (rule w) (use there in \<open>auto simp: wp_simps
        intro!: w wp_mono[OF keeps_wp[OF reload_keeps[OF name]]]\<close>)
qed


lemma wp_at:
  assumes "keeps file_at p" and "\<And>x t. file_at t q = file_at s q \<Longrightarrow> Q x t"
    and "\<And>e t. file_at t q = file_at s q \<Longrightarrow> E e t"
  shows "wp p Q E s"
  by (rule wp_mono[OF keeps_wp[OF keeps_at[OF assms(1), of q]]]) (auto intro: assms)

lemma plain_tags:
  "\<forall>c\<in>set ''servers''. c \<noteq> CHR ''/'' \<and> c \<noteq> CHR 0x00" "\<forall>c\<in>set ''optional''. c \<noteq> CHR ''/'' \<and> c \<noteq> CHR 0x00"
  "\<forall>c\<in>set ''backup''. c \<noteq> CHR ''/'' \<and> c \<noteq> CHR 0x00" "\<forall>c\<in>set ''java''. c \<noteq> CHR ''/'' \<and> c \<noteq> CHR 0x00"
  by simp_all

text \<open>The steps every change is made of.\<close>

lemma with_valid:
  "(full_match profile_rx name \<Longrightarrow> wp k Q E s) \<Longrightarrow> (\<And>e. E e s) \<Longrightarrow> wp (thenDo (validate_profile name) k) Q E s"
  by (simp add: validate_profile_def wp_simps)

lemma with_read:
  assumes "\<And>raw p t. file_at s (profile_path name) = Some raw \<Longrightarrow> file_at t (profile_path name) = Some raw \<Longrightarrow>
      h_parse H raw = Some (JObj p) \<Longrightarrow> wp (k raw p) Q E t"
    and "\<And>e t. file_at t = file_at s \<Longrightarrow> E e t"
  shows "wp (andThen (read_profile_config H name) (\<lambda>(raw, p). k raw p)) Q E s"
  unfolding wp_andThen by (rule read_config) (auto intro: assms)

lemma with_profile:
  assumes "\<And>raw p t. full_match profile_rx name \<Longrightarrow> file_at s (profile_path name) = Some raw \<Longrightarrow>
      file_at t (profile_path name) = Some raw \<Longrightarrow> h_parse H raw = Some (JObj p) \<Longrightarrow> wp (k raw p) Q E t"
    and "\<And>e t. file_at t = file_at s \<Longrightarrow> E e t"
  shows "wp (thenDo (validate_profile name) (andThen (read_profile_config H name) (\<lambda>(raw, p). k raw p))) Q E s"
  by (rule with_valid, rule with_read) (auto intro: assms)

lemma with_step:
  assumes "keeps file_at p" and "file_at s q = v"
    and "\<And>t. file_at t q = v \<Longrightarrow> wp k Q E t" and "\<And>e t. file_at t q = v \<Longrightarrow> E e t"
  shows "wp (thenDo p k) Q E s"
  unfolding wp_thenDo by (rule wp_at[OF assms(1), where q = q]) (use assms in auto)

lemma with_backup:
  assumes "full_match profile_rx name" and "\<forall>c\<in>set tag. c \<noteq> CHR ''/'' \<and> c \<noteq> CHR 0x00"
    and "\<And>b. apart b (profile_path name) \<Longrightarrow> wp (k b) Q E s"
  shows "wp (andThen (backup_path H name tag) k) Q E s"
  unfolding wp_andThen using assms by (intro backup) auto

lemma with_copy:
  assumes "apart b q" and "file_at s q = v"
    and "\<And>t. file_at t q = v \<Longrightarrow> wp k Q E t" and "\<And>e t. file_at t q = v \<Longrightarrow> E e t"
  shows "wp (thenDo (vol_copy (h_volume H) p b) k) Q E s"
  unfolding wp_thenDo using assms by (intro wp_copy[where q = q]) auto

lemma with_commit:
  assumes "full_match profile_rx name" and "file_at s (profile_path name) = Some raw"
    and "\<And>t. file_at t (profile_path name) = Some (profile_text H next_p) \<Longrightarrow> wp k Q E t"
    and "\<And>e t. file_at t (profile_path name) = Some raw \<or>
       file_at t (profile_path name) = Some (profile_text H next_p) \<Longrightarrow> E e t"
  shows "wp (thenDo (commit_profile H name raw next_p m n) k) Q E s"
  unfolding wp_thenDo by (rule wp_mono[OF commit[OF assms(1,2)]]) (auto intro: assms)

lemma with_sure_commit:
  assumes "full_match profile_rx name" and "file_at s (profile_path name) = Some raw"
    and "\<And>b w. fst (vol_write (h_volume H) (profile_path name) b M0644 w) = Inr ()"
    and "\<And>t. file_at t (profile_path name) = Some (profile_text H next_p) \<Longrightarrow> wp k Q E t"
    and "\<And>e t. file_at t (profile_path name) = Some raw \<Longrightarrow> E e t"
  shows "wp (thenDo (commit_profile H name raw next_p m n) k) Q E s"
  unfolding wp_thenDo by (rule wp_mono[OF commit_reliable[OF assms(1-3)]]) (auto intro: assms)

lemma replace_servers_undone:
  assumes "\<And>b w. fst (vol_write (h_volume H) (profile_path name) b M0644 w) = Inr ()"
  shows "wp (replace_profile_servers H name servers)
    (\<lambda>r t. changed_to H file_at name (with_servers servers) s (fst r) t)
    (\<lambda>_ t. file_at t (profile_path name) = file_at s (profile_path name)) s"
  unfolding replace_profile_servers_def Let_def
  by (rule with_profile, rule with_backup[OF _ plain_tags(1)], assumption, rule with_copy, assumption, assumption,
      rule with_step[OF progress_keeps], assumption, rule with_sure_commit[OF _ _ assms])
    (auto simp: wp_simps changed_to_def with_servers_def)

lemma upsert_undone:
  assumes "\<And>b w. fst (vol_write (h_volume H) (profile_path name) b M0644 w) = Inr ()"
  shows "wp (upsert_optional_mods H name inputs removed)
    (\<lambda>r t. changed_to H file_at name (with_optionals inputs removed) s r t)
    (\<lambda>_ t. file_at t (profile_path name) = file_at s (profile_path name)) s"
  unfolding upsert_optional_mods_def Let_def
  by (rule with_profile, rule with_backup[OF _ plain_tags(2)], assumption, rule with_copy, assumption, assumption,
      rule with_sure_commit[OF _ _ assms])
    (auto simp: wp_simps changed_to_def with_optionals_def)

lemma update_whole:
  "wp (update_profile H i) (\<lambda>r t. changed_to H file_at (pe_name i) (edited i) s (pu_profile r) t)
     (\<lambda>_ t. old_or_new H file_at (pe_name i) (edited i) s t) s"
  unfolding update_profile_def Let_def
  by (rule with_valid, rule wp_guard, rule wp_guard, rule wp_option_intro, rule wp_if_intro, simp add: throw_error_def wp_simps old_or_new_def,
      rule with_read, rule with_backup[OF _ plain_tags(3)], assumption,
      rule with_step[OF progress_keeps], assumption, rule with_copy, assumption, assumption,
      rule with_step[OF progress_keeps], assumption, rule with_commit, assumption, assumption,
      rule with_step[OF progress_keeps], assumption)
    (auto simp: wp_simps throw_error_def changed_to_def old_or_new_def edited_def)

lemma java_whole:
  "wp (update_profile_java H i) (\<lambda>r t. changed_to H file_at (je_name i) (java_edited i) s (pu_profile r) t)
     (\<lambda>_ t. old_or_new H file_at (je_name i) (java_edited i) s t) s"
  unfolding update_profile_java_def check_java_def Let_def
  by (rule with_valid, rule wp_guard, rule wp_guard, rule wp_guard, rule wp_guard,
      rule with_read, rule with_backup[OF _ plain_tags(4)], assumption,
      rule with_step[OF progress_keeps], assumption, rule with_copy, assumption, assumption,
      rule with_commit, assumption, assumption, rule with_step[OF progress_keeps], assumption)
    (auto simp: wp_simps throw_error_def changed_to_def old_or_new_def java_edited_def)

end

text \<open>A host over the container in memory, whose reload succeeds or fails.\<close>

definition memory_host ::
  "bool \<Rightarrow> (string \<Rightarrow> json option) \<Rightarrow> (json \<Rightarrow> string) \<Rightarrow> memory host" where
  "memory_host reloads parse stringify = \<lparr>h_volume = memory_ops, h_log = (\<lambda>_. ret ()),
     h_progress = (\<lambda>_ _. ret ()), h_check_abort = ret (),
     h_sync_profiles = (if reloads then ret [] else raise (Error ''reload'')),
     h_timestamp = (\<lambda>_. ''2024-01-02T03:04:05.000Z''), h_parse = parse, h_stringify = stringify,
     h_root = ''/srv''\<rparr>"

interpretation memory_profiles: profile_host "memory_host reloads parse stringify" "\<lambda>w. at_path w"
  unfolding profile_host_def profile_host_axioms_def memory_host_def
  using memory.keeps_contract[of "\<lambda>_. ''1''" "\<lambda>a b. a \<le> b" 0 0]
  by (auto intro: keeps_intros)

lemma memory_write_sure:
  assumes "vol_absolute p = Inr a" and "\<forall>e v. ensure_parent mem_run p w \<noteq> (Inl e, v)"
  shows "fst (vol_write (h_volume (memory_host reloads parse stringify)) p b m w) = Inr ()"
proof -
  obtain v where "ensure_parent mem_run p w = (Inr (), v)" using assms(2)
    by (cases "ensure_parent mem_run p w"; cases "fst (ensure_parent mem_run p w)") auto
  with assms(1) show ?thesis
    by (simp add: memory_host_def container_ops_def cv_write_file_atomic_def exec_simps Let_def checked_def
        mem_run_simps)
qed


lemma main_path: "vol_absolute (profile_path ''main'') = Inr ''/app/data/profiles/main.json''"
  by code_simp

lemma memory_write_main:
  "fst (vol_write (h_volume (memory_host reloads parse stringify)) (profile_path ''main'') b m w) = Inr ()"
proof (rule memory_write_sure[OF main_path])
  have "profile_path ''main'' = ''profiles/main.json''" "path_dirname ''profiles/main.json'' = ''profiles''"
    "vol_absolute ''profiles'' = Inr ''/app/data/profiles''" "vol_relative ''profiles/main.json'' = Inr ''profiles/main.json''"
    by code_simp+
  then show "\<forall>e v. ensure_parent mem_run (profile_path ''main'') w \<noteq> (Inl e, v)"
    by (simp add: ensure_parent_def cv_ensure_directory_def checked_def exec_simps do_when_def mem_run_simps)
qed



text \<open>A profile is never left half written. Whatever fails while its texts or its Java range are
  changed, the file holds its old text or exactly the changed one, and the changed one when the
  method returns.\<close>

theorem profile_is_old_or_new:
  assumes "profile_host H fs"
  shows "(case update_profile H i s of
        (Inl e, t) \<Rightarrow> old_or_new H fs (pe_name i) (edited i) s t
      | (Inr u, t) \<Rightarrow> changed_to H fs (pe_name i) (edited i) s (pu_profile u) t) \<and>
    (case update_profile_java H j s of
        (Inl e, t) \<Rightarrow> old_or_new H fs (je_name j) (java_edited j) s t
      | (Inr u, t) \<Rightarrow> changed_to H fs (je_name j) (java_edited j) s (pu_profile u) t)"
  using profile_host.update_whole[OF assms, of i s] profile_host.java_whole[OF assms, of j s]
  unfolding wp_def by (rule conjI)

lemma profile_is_old_or_new_witness:
  "let H = memory_host True (\<lambda>_. Some (JObj [])) (\<lambda>_. ''new'');
       s = [''/app/data/profiles/main.json'' \<mapsto> ''{}''] :: memory;
       j = \<lparr>je_name = ''main'', je_recommend = 21, je_min = 17, je_max = 25\<rparr>;
       (r, t) = update_profile_java H j s
   in at_path t (profile_path ''main'') = Some [CHR ''n'', CHR ''e'', CHR ''w'', CHR 0x0A]"
proof -
  let ?H = "memory_host True (\<lambda>_. Some (JObj [])) (\<lambda>_. ''new'')"
  let ?s = "[''/app/data/profiles/main.json'' \<mapsto> ''{}''] :: memory"
  let ?j = "\<lparr>je_name = ''main'', je_recommend = 21, je_min = 17, je_max = 25\<rparr>"
  let ?o = "update_profile_java ?H ?j ?s"
  have "case fst ?o of Inr u \<Rightarrow> True | Inl e \<Rightarrow> False" by code_simp
  moreover obtain r t where o': "?o = (r, t)" by fastforce
  ultimately obtain u where "r = Inr u" by (cases r) auto
  have "case ?o of
      (Inl e, t) \<Rightarrow> old_or_new ?H (\<lambda>w. at_path w) (je_name ?j) (java_edited ?j) ?s t
    | (Inr u, t) \<Rightarrow> changed_to ?H (\<lambda>w. at_path w) (je_name ?j) (java_edited ?j) ?s (pu_profile u) t"
    by (rule conjunct2[OF profile_is_old_or_new[OF memory_profiles.profile_host_axioms]])
  with o' \<open>r = Inr u\<close> have "changed_to ?H (\<lambda>w. at_path w) ''main'' (java_edited ?j) ?s (pu_profile u) t" by simp
  then have "at_path t (profile_path ''main'') = Some [CHR ''n'', CHR ''e'', CHR ''w'', CHR 0x0A]"
    by (auto simp: changed_to_def profile_text_def memory_host_def)
  with o' show ?thesis by simp
qed

section \<open>Server lists\<close>

definition valid_server :: "profile_server \<Rightarrow> bool" where
  "valid_server s \<longleftrightarrow> js_trim (srv_name s) \<noteq> [] \<and> js_trim (srv_address s) \<noteq> [] \<and>
     1 \<le> srv_port s \<and> srv_port s \<le> 65535 \<and> \<bar>srv_protocol s\<bar> \<le> max_safe_integer"

lemma parse_server_json: "valid_server s \<Longrightarrow> parse_server (server_json s) = Some s"
  by (simp add: parse_server_def server_json_def valid_server_def max_safe_integer_def)

lemma parse_server_valid: "parse_server v = Some s \<Longrightarrow> valid_server s"
  by (auto simp: parse_server_def valid_server_def max_safe_integer_def
      split: option.splits if_splits dest!: safe_int_bound) (auto simp: max_safe_integer_def Option.bind_eq_Some_conv dest!: safe_int_bound)

lemma map_filter_all: "(\<And>x. x \<in> set xs \<Longrightarrow> f (g x) = Some x) \<Longrightarrow> List.map_filter f (map g xs) = xs"
  by (induction xs) (auto simp: map_filter_simps)

lemma parse_profile_servers_valid: "s \<in> set (parse_profile_servers v) \<Longrightarrow> valid_server s"
  by (auto simp: parse_profile_servers_def List.map_filter_def dest: parse_server_valid
      split: option.splits json.splits)

text \<open>The server list of a profile is well formed however the file was written, and a list that
  is written is read back unchanged: parsing is a left inverse of what \<open>replaceProfileServers\<close>
  writes, on every list that parsing can yield.\<close>

lemma server_list_round_trip:
  "list_all valid_server (parse_profile_servers v) \<and>
   parse_profile_servers (Some (JArr (map server_json (parse_profile_servers v)))) = parse_profile_servers v \<and>
   d_servers (profile_descriptor name (with_servers (parse_profile_servers v) p)) = parse_profile_servers v"
proof -
  have v: "valid_server s" if "s \<in> set (parse_profile_servers v)" for s
    by (rule parse_profile_servers_valid[OF that])
  have "List.map_filter parse_server (map server_json (parse_profile_servers v)) = parse_profile_servers v"
    by (rule map_filter_all) (rule parse_server_json[OF v])
  then have "parse_profile_servers (Some (JArr (map server_json (parse_profile_servers v)))) = parse_profile_servers v"
    by (simp add: parse_profile_servers_def)
  with v show ?thesis by (simp add: list_all_iff profile_descriptor_def with_servers_def map_of_obj_put)
qed

end
