(* ===== verification/Bindings_Store.thy ===== *)
theory Bindings_Store
  imports Tables "HOL-Library.Product_Lexorder"
begin

text \<open>
  \<^verbatim>\<open>apps/api/src/modules/servers/server-bindings.store.ts\<close>: the table \<open>server_bindings\<close> and the methods
  of \<open>ServerBindingsStore\<close>. The columns that hold JSON hold the value. A statement the schema refuses
  (a port outside 1 to 65535, a name used twice in a profile) throws and the transaction leaves the
  table as it was; the rows that \<open>installation_id\<close> and \<open>pack_version_id\<close> refer to are taken to exist.
\<close>

section \<open>Rows\<close>

datatype deployment_state = DPending | DReady | DRequiresUpdate | DInstalled | DFailed

record binding_row =
  b_id :: string
  b_installation :: string
  b_profile :: string
  b_name :: string
  b_address :: string
  b_port :: int
  b_default :: bool
  b_auth :: string
  b_pack :: "string option"
  b_xms :: string
  b_xmx :: string
  b_jvm_args :: json
  b_game_args :: json
  b_eula :: "instant option"
  b_applied_pack :: "string option"
  b_token_hash :: "string option"
  b_updater_installed :: "instant option"
  b_updater_seen :: "instant option"
  b_updater_error :: "string option"
  b_state :: deployment_state
  b_created :: instant
  b_updated :: instant

record binding_input =
  bi_installation :: string
  bi_profile :: string
  bi_name :: string
  bi_address :: string
  bi_port :: int
  bi_default :: bool
  bi_auth :: string
  bi_pack :: "string option"
  bi_xms :: string
  bi_xmx :: string
  bi_jvm_args :: "string list"
  bi_game_args :: "string list"

text \<open>A managed binding as the store returns it.\<close>

record binding =
  sb_id :: string
  sb_installation :: string
  sb_profile :: string
  sb_name :: string
  sb_address :: string
  sb_port :: int
  sb_default :: bool
  sb_protocol :: int
  sb_ping :: bool
  sb_auth :: string
  sb_pack :: "string option"
  sb_applied_pack :: "string option"
  sb_eula :: "instant option"
  sb_updater_installed :: "instant option"
  sb_updater_seen :: "instant option"
  sb_updater_error :: "string option"
  sb_xms :: string
  sb_xmx :: string
  sb_jvm_args :: "string list"
  sb_game_args :: "string list"
  sb_state :: deployment_state
  sb_updated :: instant

definition parse_args :: "json \<Rightarrow> string list" where
  "parse_args v = (case v of JArr xs \<Rightarrow> json_strings xs | _ \<Rightarrow> [])"

definition args_json :: "string list \<Rightarrow> json" where
  "args_json xs = JArr (map JStr xs)"

definition to_binding :: "binding_row \<Rightarrow> binding" where
  "to_binding r = \<lparr>sb_id = b_id r, sb_installation = b_installation r, sb_profile = b_profile r,
     sb_name = b_name r, sb_address = b_address r, sb_port = b_port r, sb_default = b_default r,
     sb_protocol = -1, sb_ping = True, sb_auth = b_auth r, sb_pack = b_pack r,
     sb_applied_pack = b_applied_pack r, sb_eula = b_eula r,
     sb_updater_installed = b_updater_installed r, sb_updater_seen = b_updater_seen r,
     sb_updater_error = b_updater_error r, sb_xms = b_xms r, sb_xmx = b_xmx r,
     sb_jvm_args = parse_args (b_jvm_args r), sb_game_args = parse_args (b_game_args r),
     sb_state = b_state r, sb_updated = b_updated r\<rparr>"

type_synonym bindings = "binding_row list"

section \<open>Reading\<close>

definition in_profile :: "string \<Rightarrow> string \<Rightarrow> binding_row \<Rightarrow> bool" where
  "in_profile inst prof r \<longleftrightarrow> b_installation r = inst \<and> b_profile r = prof"

definition list_bindings :: "string \<Rightarrow> string \<Rightarrow> bindings \<Rightarrow> binding list" where
  "list_bindings inst prof t = map to_binding
     (sort_key (\<lambda>r. (\<not> b_default r, b_name r)) (sql_select (in_profile inst prof) t))"

definition get_binding :: "string \<Rightarrow> bindings \<Rightarrow> binding option" where
  "get_binding i t = map_option to_binding (get_by b_id i t)"

definition get_binding_by_name :: "string \<Rightarrow> string \<Rightarrow> string \<Rightarrow> bindings \<Rightarrow> binding option" where
  "get_binding_by_name inst prof name t =
     map_option to_binding (sql_get (\<lambda>r. in_profile inst prof r \<and> b_name r = name) t)"

definition get_binding_by_token :: "string \<Rightarrow> bindings \<Rightarrow> binding option" where
  "get_binding_by_token h t = map_option to_binding (sql_get (\<lambda>r. b_token_hash r = Some h) t)"

section \<open>Saving\<close>

definition clear_defaults :: "instant \<Rightarrow> string \<Rightarrow> string \<Rightarrow> string \<Rightarrow> bindings \<Rightarrow> bindings" where
  "clear_defaults now inst prof i = sql_update (\<lambda>r. in_profile inst prof r \<and> b_id r \<noteq> i)
     (\<lambda>r. r\<lparr>b_default := False, b_updated := now\<rparr>)"

definition new_binding_row ::
  "string \<Rightarrow> binding_input \<Rightarrow> deployment_state \<Rightarrow> instant \<Rightarrow> instant \<Rightarrow> binding_row" where
  "new_binding_row i inp st created now = \<lparr>b_id = i, b_installation = bi_installation inp,
     b_profile = bi_profile inp, b_name = bi_name inp, b_address = bi_address inp, b_port = bi_port inp,
     b_default = bi_default inp, b_auth = bi_auth inp, b_pack = bi_pack inp, b_xms = bi_xms inp,
     b_xmx = bi_xmx inp, b_jvm_args = args_json (bi_jvm_args inp),
     b_game_args = args_json (bi_game_args inp), b_eula = None, b_applied_pack = None,
     b_token_hash = None, b_updater_installed = None, b_updater_seen = None, b_updater_error = None,
     b_state = st, b_created = created, b_updated = now\<rparr>"

text \<open>\<open>ON CONFLICT(id) DO UPDATE\<close>: the installation and the profile of the row stay.\<close>

definition overwrite_row :: "binding_row \<Rightarrow> binding_row \<Rightarrow> binding_row" where
  "overwrite_row n r = r\<lparr>b_name := b_name n, b_address := b_address n, b_port := b_port n,
     b_default := b_default n, b_auth := b_auth n, b_pack := b_pack n, b_xms := b_xms n,
     b_xmx := b_xmx n, b_jvm_args := b_jvm_args n, b_game_args := b_game_args n,
     b_state := b_state n, b_updated := b_updated n\<rparr>"

text \<open>The columns of the unique constraint, and a row that would break it.\<close>

definition place :: "binding_row \<Rightarrow> string \<times> string \<times> string" where
  "place r = (b_installation r, b_profile r, b_name r)"

definition name_conflict :: "binding_row \<Rightarrow> bindings \<Rightarrow> bool" where
  "name_conflict r t \<longleftrightarrow> (\<exists>q\<in>set t. b_id q \<noteq> b_id r \<and> place q = place r)"

definition upsert_row :: "binding_row \<Rightarrow> bindings \<Rightarrow> db_error + bindings" where
  "upsert_row n t =
     (if b_port n < 1 \<or> 65535 < b_port n then Inl CheckViolation
      else (case get_by b_id (b_id n) t of
          None \<Rightarrow> if name_conflict n t then Inl UniqueViolation else Inr (t @ [n])
        | Some r \<Rightarrow>
            if name_conflict (overwrite_row n r) t then Inl UniqueViolation
            else Inr (sql_update (\<lambda>q. b_id q = b_id n) (overwrite_row n) t)))"

definition save_binding ::
  "instant \<Rightarrow> binding_input \<Rightarrow> string \<Rightarrow> deployment_state option \<Rightarrow> bindings \<Rightarrow>
   (db_error + binding) \<times> bindings" where
  "save_binding now inp i st t =
     (let cur = get_binding i t;
          state = (case st of Some x \<Rightarrow> x | None \<Rightarrow> if cur \<noteq> None then DRequiresUpdate else DPending);
          created = (case cur of Some c \<Rightarrow> sb_updated c | None \<Rightarrow> now);
          u = (if bi_default inp then clear_defaults now (bi_installation inp) (bi_profile inp) i t else t)
      in case upsert_row (new_binding_row i inp state created now) u of
           Inl e \<Rightarrow> (Inl e, t)
         | Inr v \<Rightarrow> (Inr (the (get_binding i v)), v))"

section \<open>Updating\<close>

definition on_binding :: "string \<Rightarrow> (binding_row \<Rightarrow> binding_row) \<Rightarrow> bindings \<Rightarrow> bindings" where
  "on_binding i f = sql_update (\<lambda>r. b_id r = i) f"

definition set_binding_state :: "instant \<Rightarrow> string \<Rightarrow> deployment_state \<Rightarrow> bindings \<Rightarrow> bindings" where
  "set_binding_state now i st = on_binding i (\<lambda>r. r\<lparr>b_state := st, b_updated := now\<rparr>)"

definition accept_eula :: "instant \<Rightarrow> string \<Rightarrow> bindings \<Rightarrow> bindings" where
  "accept_eula now i = on_binding i (\<lambda>r. r\<lparr>b_eula := (case b_eula r of None \<Rightarrow> Some now | e \<Rightarrow> e),
     b_updated := now\<rparr>)"

definition set_desired_pack :: "instant \<Rightarrow> string \<Rightarrow> string \<Rightarrow> bindings \<Rightarrow> bindings" where
  "set_desired_pack now i pack = on_binding i
     (\<lambda>r. r\<lparr>b_pack := Some pack, b_state := DRequiresUpdate, b_updated := now\<rparr>)"

definition save_updater_token :: "instant \<Rightarrow> string \<Rightarrow> string \<Rightarrow> bindings \<Rightarrow> bindings" where
  "save_updater_token now i h = on_binding i
     (\<lambda>r. r\<lparr>b_token_hash := Some h, b_updater_installed := Some now, b_updater_seen := Some now,
        b_updater_error := None, b_updated := now\<rparr>)"

definition touch_updater :: "instant \<Rightarrow> string \<Rightarrow> bindings \<Rightarrow> bindings" where
  "touch_updater now i = on_binding i (\<lambda>r. r\<lparr>b_updater_seen := Some now, b_updated := now\<rparr>)"

definition report_pack ::
  "instant \<Rightarrow> string \<Rightarrow> string option \<Rightarrow> string option \<Rightarrow> bindings \<Rightarrow> bindings" where
  "report_pack now i pack err = on_binding i
     (\<lambda>r. r\<lparr>b_applied_pack := (case pack of None \<Rightarrow> b_applied_pack r | Some p \<Rightarrow> Some p),
        b_updater_seen := Some now, b_updater_error := map_option (js_slice 2000) err,
        b_state := (if err = None then DInstalled else DFailed), b_updated := now\<rparr>)"

definition delete_binding :: "string \<Rightarrow> bindings \<Rightarrow> bool \<times> bindings" where
  "delete_binding i t = (0 < sql_changes (\<lambda>r. b_id r = i) t, sql_delete (\<lambda>r. b_id r = i) t)"

section \<open>Invariant\<close>

definition bindings_ok :: "bindings \<Rightarrow> bool" where
  "bindings_ok t \<longleftrightarrow> keys_distinct b_id t \<and> keys_distinct place t \<and>
     (\<forall>r\<in>set t. 1 \<le> b_port r \<and> b_port r \<le> 65535)"

text \<open>At most one default server in a profile.\<close>

definition one_default :: "bindings \<Rightarrow> bool" where
  "one_default t \<longleftrightarrow> (\<forall>q\<in>set t. \<forall>r\<in>set t. b_default q \<longrightarrow> b_default r \<longrightarrow>
     in_profile (b_installation r) (b_profile r) q \<longrightarrow> b_id q = b_id r)"

lemma one_defaultD:
  "one_default t \<Longrightarrow> q \<in> set t \<Longrightarrow> r \<in> set t \<Longrightarrow> b_default q \<Longrightarrow> b_default r \<Longrightarrow>
   b_installation q = b_installation r \<Longrightarrow> b_profile q = b_profile r \<Longrightarrow> b_id q = b_id r"
  unfolding one_default_def in_profile_def by blast

lemma parse_args_json [simp]: "parse_args (args_json xs) = xs"
  by (induction xs) (simp_all add: parse_args_def args_json_def json_strings_def map_filter_simps)

lemma overwrite_row_simps [simp]:
  "b_id (overwrite_row n r) = b_id r" "b_installation (overwrite_row n r) = b_installation r"
  "b_profile (overwrite_row n r) = b_profile r" "b_name (overwrite_row n r) = b_name n"
  "b_port (overwrite_row n r) = b_port n" "b_default (overwrite_row n r) = b_default n"
  by (simp_all add: overwrite_row_def)

text \<open>An update that leaves key, place and port keeps the invariant.\<close>

definition same_place :: "(binding_row \<Rightarrow> binding_row) \<Rightarrow> bool" where
  "same_place f \<longleftrightarrow> (\<forall>r. b_id (f r) = b_id r \<and> place (f r) = place r \<and> b_port (f r) = b_port r)"

lemma same_placeD:
  assumes "same_place f"
  shows "b_id (f r) = b_id r" "place (f r) = place r" "b_port (f r) = b_port r"
    "b_installation (f r) = b_installation r" "b_profile (f r) = b_profile r" "b_name (f r) = b_name r"
  using assms by (simp_all add: same_place_def place_def)

lemma bindings_ok_update:
  assumes "same_place f" and "bindings_ok t"
  shows "bindings_ok (sql_update P f t)"
proof -
  have "keys_distinct b_id (sql_update P f t)" "keys_distinct place (sql_update P f t)"
    using assms(2) keys_distinct_update[of b_id f P t] keys_distinct_update[of place f P t]
      same_placeD(1,2)[OF assms(1)] by (simp_all add: bindings_ok_def)
  moreover have "1 \<le> b_port r \<and> b_port r \<le> 65535" if r: "r \<in> set (sql_update P f t)" for r
  proof -
    obtain q where "q \<in> set t" "r = q \<or> r = f q" using r unfolding set_sql_update by auto
    with assms(2) same_placeD(3)[OF assms(1)] show ?thesis by (auto simp: bindings_ok_def)
  qed
  ultimately show ?thesis by (simp add: bindings_ok_def)
qed

lemma one_default_map:
  assumes "one_default t" and "\<And>r. r \<in> set t \<Longrightarrow> b_id (g r) = b_id r \<and> b_installation (g r) = b_installation r \<and>
      b_profile (g r) = b_profile r" and "\<And>r. r \<in> set t \<Longrightarrow> b_default (g r) \<Longrightarrow> b_default r"
  shows "one_default (map g t)"
  unfolding one_default_def in_profile_def
proof (intro ballI impI)
  fix q r assume "q \<in> set (map g t)" "r \<in> set (map g t)" and d: "b_default q" "b_default r"
    and p: "b_installation q = b_installation r \<and> b_profile q = b_profile r"
  then obtain q' r' where m: "q' \<in> set t" "q = g q'" "r' \<in> set t" "r = g r'" by auto
  from one_defaultD[OF assms(1) m(1,3)] m d p assms(2,3) show "b_id q = b_id r" by simp
qed

lemma one_default_update:
  assumes "same_place f" and "one_default t" and "\<And>r. b_default (f r) \<Longrightarrow> b_default r"
  shows "one_default (sql_update P f t)"
  unfolding sql_update_def
  by (rule one_default_map[OF assms(2)]) (auto simp: same_placeD[OF assms(1)] intro: assms(3) split: if_splits)

end
