(* ===== verification/Binding_Service.thy ===== *)
theory Binding_Service
  imports Bindings_Store Profile_Service
begin

text \<open>
  \<^verbatim>\<open>apps/api/src/modules/servers/server-binding.service.ts\<close>: the class \<open>ServerBindingService\<close>, that
  keeps the table of bindings and the server list of a profile together. Its state is the world of
  the profile service beside the table; \<open>inst\<close> is the id of the installation, \<open>now\<close> the clock and
  \<open>fresh\<close> the UUID a new binding gets.
\<close>

section \<open>The state\<close>

type_synonym ('w, 'a) panel = "('w \<times> bindings, js_error, 'a) exec"

definition on_host :: "('w, 'a) io \<Rightarrow> ('w, 'a) panel" where
  "on_host p = (\<lambda>(w, t). case p w of (r, w') \<Rightarrow> (r, (w', t)))"

definition from_table :: "(bindings \<Rightarrow> 'a) \<Rightarrow> ('w, 'a) panel" where
  "from_table f = reading (\<lambda>(w, t). f t)"

definition db_failure :: "db_error \<Rightarrow> js_error" where
  "db_failure e = Error (case e of UniqueViolation \<Rightarrow> ''UNIQUE constraint failed''
     | CheckViolation \<Rightarrow> ''CHECK constraint failed'' | ForeignKeyViolation \<Rightarrow> ''FOREIGN KEY constraint failed'')"

definition save_in_table ::
  "instant \<Rightarrow> binding_input \<Rightarrow> string \<Rightarrow> deployment_state option \<Rightarrow> ('w, binding) panel" where
  "save_in_table now inp i st = (\<lambda>(w, t). case save_binding now inp i st t of
     (Inl e, t') \<Rightarrow> (Inl (db_failure e), (w, t'))
   | (Inr b, t') \<Rightarrow> (Inr b, (w, t')))"

definition delete_in_table :: "string \<Rightarrow> ('w, unit) panel" where
  "delete_in_table i = writing (\<lambda>(w, t). (w, snd (delete_binding i t)))"

section \<open>Checking the input\<close>

definition server_name_rx :: rx where
  "server_name_rx = name_rx is_alnum (\<lambda>c. is_name_char c \<or> c = CHR '' '') 63"

definition address_rx :: rx where
  "address_rx = Alt
     (Cat (Cls is_alnum) (opt (Cat (Star (Cls (\<lambda>c. is_alnum c \<or> c = CHR ''.'' \<or> c = CHR ''-''))) (Cls is_alnum))))
     (cats [lit ''['', many1 (Cls (\<lambda>c. is_hex c \<or> in_range CHR ''A'' CHR ''F'' c \<or> c = CHR '':'')), lit '']''])"

definition memory_rx :: rx where
  "memory_rx = cats [Cls (in_range CHR ''1'' CHR ''9''), Upto 5 (Cls is_digit),
     Cls (caseless (\<lambda>c. c = CHR ''M'' \<or> c = CHR ''G''))]"

definition auth_id_rx :: rx where
  "auth_id_rx = name_rx is_alnum is_name_char 63"

definition safe_argument_rx :: rx where
  "safe_argument_rx = between_times 1 256
     (Cls (\<lambda>c. c \<noteq> CHR 0x00 \<and> c \<noteq> CHR 0x0D \<and> c \<noteq> CHR 0x0A))"

definition good_address :: "string \<Rightarrow> bool" where
  "good_address s \<longleftrightarrow> 1 \<le> length s \<and> length s \<le> 253 \<and> full_match address_rx s"

definition memory_mib :: "string \<Rightarrow> nat" where
  "memory_mib v = (let amount = read_digits (takeWhile is_digit v)
     in if suffix ''G'' (map js_upper_char v) then amount * 1024 else amount)"

definition check_input :: "binding_input \<Rightarrow> js_error + unit" where
  "check_input i =
     (if \<not> full_match server_name_rx (js_trim (bi_name i)) then Inl (Error ''Server name is invalid'')
      else if \<not> good_address (js_trim (bi_address i)) then
        Inl (Error ''Server address must be a hostname or IP address without a scheme'')
      else if max_safe_integer < \<bar>bi_port i\<bar> \<or> bi_port i < 1 \<or> 65535 < bi_port i then
        Inl (Error ''Server port must be between 1 and 65535'')
      else if \<not> full_match auth_id_rx (bi_auth i) then Inl (Error ''Auth provider id is invalid'')
      else if \<not> full_match memory_rx (bi_xms i) \<or> \<not> full_match memory_rx (bi_xmx i) then
        Inl (Error ''Xms and Xmx must use values such as 1G or 2048M'')
      else if memory_mib (bi_xmx i) < memory_mib (bi_xms i) then
        Inl (Error ''Xms cannot be greater than Xmx'')
      else if list_ex (\<lambda>a. \<not> full_match safe_argument_rx a) (bi_jvm_args i @ bi_game_args i) then
        Inl (Error ''JVM or game argument is unsafe'')
      else Inr ())"

section \<open>Listing\<close>

text \<open>
  A server of the profile with the managed binding of its name; the fields the two share are the
  profile's.
\<close>

record listed_server =
  ls_server :: profile_server
  ls_binding :: "binding option"

definition list_servers :: "'w host \<Rightarrow> string \<Rightarrow> string \<Rightarrow> ('w, listed_server list) panel" where
  "list_servers H inst prof =
     andThen (on_host (get_profile H prof)) (\<lambda>profile.
     andThen (from_table (list_bindings inst prof)) (\<lambda>bs.
       ret (map (\<lambda>s. \<lparr>ls_server = s,
           ls_binding = map_of (rev (map (\<lambda>b. (sb_name b, b)) bs)) (srv_name s)\<rparr>) (d_servers profile))))"

section \<open>Applying\<close>

definition next_server :: "binding_input \<Rightarrow> profile_server list \<Rightarrow> profile_server" where
  "next_server i servers = \<lparr>srv_name = bi_name i, srv_address = bi_address i, srv_port = bi_port i,
     srv_default = (bi_default i \<or> servers = []), srv_protocol = -1, srv_ping = True\<rparr>"

definition profile_changed :: "profile_server option \<Rightarrow> profile_server \<Rightarrow> bool" where
  "profile_changed old new = (case old of
     None \<Rightarrow> True
   | Some s \<Rightarrow> srv_name s \<noteq> srv_name new \<or> srv_address s \<noteq> srv_address new \<or>
       srv_port s \<noteq> srv_port new \<or> srv_default s \<noteq> srv_default new)"

definition bootstrap_changed :: "binding option \<Rightarrow> binding_input \<Rightarrow> bool" where
  "bootstrap_changed cur i = (case cur of
     None \<Rightarrow> True
   | Some c \<Rightarrow> sb_name c \<noteq> bi_name i \<or> sb_address c \<noteq> bi_address i \<or> sb_port c \<noteq> bi_port i \<or>
       sb_auth c \<noteq> bi_auth i \<or> sb_xms c \<noteq> bi_xms i \<or> sb_xmx c \<noteq> bi_xmx i \<or>
       sb_jvm_args c \<noteq> bi_jvm_args i \<or> sb_game_args c \<noteq> bi_game_args i)"

definition promote_first :: "profile_server list \<Rightarrow> profile_server list" where
  "promote_first ss = (case ss of [] \<Rightarrow> [] | s # r \<Rightarrow> s\<lparr>srv_default := True\<rparr> # r)"

definition kept_servers ::
  "profile_server list \<Rightarrow> binding option \<Rightarrow> binding_input \<Rightarrow> profile_server list" where
  "kept_servers servers cur i =
     map (\<lambda>s. if srv_default (next_server i servers) then s\<lparr>srv_default := False\<rparr> else s)
       (filter (\<lambda>s. Some (srv_name s) \<noteq> map_option sb_name cur \<and> srv_name s \<noteq> bi_name i) servers)"

definition planned_servers ::
  "profile_server list \<Rightarrow> binding option \<Rightarrow> binding_input \<Rightarrow> profile_server list" where
  "planned_servers servers cur i =
     (let new = next_server i servers;
          others = kept_servers servers cur i;
          others = (if \<not> srv_default new \<and> \<not> list_ex srv_default others then promote_first others else others)
      in others @ [new])"

record apply_result =
  ap_binding :: binding
  ap_profile :: descriptor
  ap_backup :: "string option"
  ap_changed :: bool

definition find_current :: "string \<Rightarrow> string option \<Rightarrow> ('w, binding option) panel" where
  "find_current inst bindingId =
     (case bindingId of
        Some i \<Rightarrow>
          if i = [] then ret None
          else andThen (from_table (get_binding i)) (\<lambda>cur.
            case cur of
              Some c \<Rightarrow> if sb_installation c \<noteq> inst then throw_error ''Managed server binding not found''
                 else ret (Some c)
            | None \<Rightarrow> throw_error ''Managed server binding not found'')
      | None \<Rightarrow> ret None)"

definition rename_conflict :: "profile_server list \<Rightarrow> binding option \<Rightarrow> binding_input \<Rightarrow> bool" where
  "rename_conflict servers cur i = (case cur of
     None \<Rightarrow> False
   | Some c \<Rightarrow> list_ex (\<lambda>s. srv_name s = bi_name i \<and> srv_name s \<noteq> sb_name c) servers)"

definition unchanged :: "binding option \<Rightarrow> binding_input \<Rightarrow> profile_server \<Rightarrow> bool" where
  "unchanged cur i new = (case cur of
     None \<Rightarrow> False
   | Some c \<Rightarrow> \<not> bootstrap_changed cur i \<and> sb_default c = srv_default new \<and> sb_pack c = bi_pack i)"

definition apply_change ::
  "'w host \<Rightarrow> instant \<Rightarrow> string \<Rightarrow> binding_input \<Rightarrow> descriptor \<Rightarrow> binding option \<Rightarrow> ('w, apply_result) panel" where
  "apply_change H now fresh i profile cur =
     (let servers = d_servers profile;
          new = next_server i servers;
          old = Option.bind cur (\<lambda>c. List.find (\<lambda>s. srv_name s = sb_name c) servers);
          pc = profile_changed old new;
          bc = bootstrap_changed cur i in
      if \<not> pc \<and> unchanged cur i new then
        thenDo (on_host (h_progress H 95 (''Server '' @ bi_name i @ '' configuration is unchanged'')))
          (ret \<lparr>ap_binding = the cur, ap_profile = profile, ap_backup = None, ap_changed = False\<rparr>)
      else
        thenDo (on_host (h_progress H 10 (''Updating '' @ bi_profile i @ '' server list'')))
        (andThen
          (if pc then andThen (on_host (replace_profile_servers H (bi_profile i) (planned_servers servers cur i)))
              (\<lambda>r. ret (fst r, Some (snd r)))
           else ret (profile, None)) (\<lambda>result.
         andThen (save_in_table now (i\<lparr>bi_default := srv_default new\<rparr>)
           (case cur of Some c \<Rightarrow> sb_id c | None \<Rightarrow> fresh)
           (case cur of Some c \<Rightarrow> if bc \<or> sb_pack c \<noteq> bi_pack i then None else Some (sb_state c)
             | None \<Rightarrow> None)) (\<lambda>saved.
         thenDo (on_host (h_progress H 95 (''Server '' @ bi_name i @ '' bound to '' @ bi_profile i)))
           (ret \<lparr>ap_binding = saved, ap_profile = fst result, ap_backup = snd result, ap_changed = bc\<rparr>)))))"

definition apply_binding ::
  "'w host \<Rightarrow> string \<Rightarrow> instant \<Rightarrow> string \<Rightarrow> binding_input \<Rightarrow> string option \<Rightarrow> ('w, apply_result) panel" where
  "apply_binding H inst now fresh i bindingId =
     thenDo (ofSum (check_input i))
     (andThen (on_host (get_profile H (bi_profile i))) (\<lambda>profile.
      thenDo (throwIf (d_uuid profile = None \<or> d_version profile = None \<or> d_loader profile = None)
        (Error ''Profile must have UUID, Minecraft version, and loader before binding''))
      (thenDo (throwIf (d_loader profile = Some QUILT) (Error ''Quilt server bootstrap is not supported yet''))
      (andThen (find_current inst bindingId) (\<lambda>cur.
       thenDo (throwIf (rename_conflict (d_servers profile) cur i)
         (Error (''Server '' @ bi_name i @ '' already exists in this profile'')))
       (apply_change H now fresh i profile cur))))))"

section \<open>Removing\<close>

definition left_servers :: "binding \<Rightarrow> profile_server list \<Rightarrow> profile_server list" where
  "left_servers b ss =
     (let rest = filter (\<lambda>s. srv_name s \<noteq> sb_name b) ss in
      if sb_default b then promote_first rest else rest)"

definition remove_binding :: "'w host \<Rightarrow> string \<Rightarrow> string \<Rightarrow> ('w, descriptor \<times> string) panel" where
  "remove_binding H inst bindingId =
     andThen (from_table (get_binding bindingId)) (\<lambda>cur.
     case cur of
       None \<Rightarrow> throw_error ''Managed server binding not found''
     | Some b \<Rightarrow>
         thenDo (throwIf (sb_installation b \<noteq> inst) (Error ''Managed server binding not found''))
         (andThen (on_host (get_profile H (sb_profile b))) (\<lambda>profile.
          andThen (on_host (replace_profile_servers H (sb_profile b) (left_servers b (d_servers profile)))) (\<lambda>result.
          thenDo (delete_in_table (sb_id b))
          (thenDo (on_host (h_progress H 95 (''Server '' @ sb_name b @ '' removed from '' @ sb_profile b)))
            (ret result))))))"

end
