(* ===== verification/Binding_Properties.thy ===== *)
theory Binding_Properties
  imports Binding_Service Profile_Properties
begin

text \<open>
  The properties of the bindings: the table is well formed and has one default server per profile
  in every history, a server list that is planned has the new server once and one default, and
  after \<open>apply\<close> and \<open>remove\<close> the table and the profile agree.
\<close>

section \<open>The table in every history\<close>

lemma clear_defaults_place: "same_place (\<lambda>r. r\<lparr>b_default := False, b_updated := now\<rparr>)"
  by (simp add: same_place_def place_def)

lemma clear_defaults_ok:
  "bindings_ok t \<Longrightarrow> bindings_ok (clear_defaults now inst prof i t)"
  "one_default t \<Longrightarrow> one_default (clear_defaults now inst prof i t)"
  unfolding clear_defaults_def
  by (rule bindings_ok_update[OF clear_defaults_place], assumption)
    (rule one_default_update[OF clear_defaults_place], simp_all)

lemma clear_defaults_cleared:
  "r \<in> set (clear_defaults now inst prof i t) \<Longrightarrow> b_default r \<Longrightarrow> in_profile inst prof r \<Longrightarrow> b_id r = i"
proof -
  assume r: "r \<in> set (clear_defaults now inst prof i t)" and d: "b_default r" "in_profile inst prof r"
  let ?P = "\<lambda>q. in_profile inst prof q \<and> b_id q \<noteq> i"
  obtain q where q: "r = (if ?P q then q\<lparr>b_default := False, b_updated := now\<rparr> else q)"
    using r unfolding clear_defaults_def set_sql_update by blast
  show ?thesis
  proof (cases "?P q")
    case True
    with q d(1) show ?thesis by simp
  next
    case False
    with q d(2) show ?thesis by auto
  qed
qed

lemma clear_defaults_get:
  "get_by b_id i (clear_defaults now inst prof i t) = get_by b_id i t"
proof -
  have "get_by b_id i (clear_defaults now inst prof i t) =
      map_option (\<lambda>r. if in_profile inst prof r \<and> b_id r \<noteq> i then r\<lparr>b_default := False, b_updated := now\<rparr> else r)
        (get_by b_id i t)"
    unfolding clear_defaults_def by (rule get_by_update) simp
  then show ?thesis by (cases "get_by b_id i t") (auto dest: get_by_key)
qed

lemma insert_row_ok:
  assumes "bindings_ok u" and "get_by b_id (b_id n) u = None" and "\<not> name_conflict n u"
    and "1 \<le> b_port n" "b_port n \<le> 65535"
  shows "bindings_ok (u @ [n])"
proof -
  have i: "b_id n \<notin> b_id ` set u" using assms(2) by (simp add: get_by_None)
  have "place n \<notin> place ` set u"
  proof
    assume "place n \<in> place ` set u"
    then obtain q where q: "q \<in> set u" "place q = place n" by force
    with i have "b_id q \<noteq> b_id n" by (metis imageI)
    with q assms(3) show False unfolding name_conflict_def by blast
  qed
  with i assms show ?thesis by (simp add: bindings_ok_def keys_distinct_def)
qed

lemma distinct_map_one_changed:
  assumes "distinct (map key t)" and "distinct (map pl t)"
    and "\<And>q. q \<in> set t \<Longrightarrow> key q \<noteq> k \<Longrightarrow> pl q \<noteq> v" and "\<And>q. q \<in> set t \<Longrightarrow> key q = k \<Longrightarrow> pl (f q) = v"
  shows "distinct (map pl (map (\<lambda>r. if key r = k then f r else r) t))"
  using assms
proof (induction t)
  case Nil
  then show ?case by simp
next
  case (Cons a t)
  have IH: "distinct (map pl (map (\<lambda>r. if key r = k then f r else r) t))" using Cons by simp
  show ?case
  proof (cases "key a = k")
    case True
    with Cons.prems(1) have no: "\<forall>q\<in>set t. key q \<noteq> k" by (metis distinct.simps(2) imageI list.map(2) list.set_map)
    then have "map (\<lambda>r. if key r = k then f r else r) t = t" by (simp add: map_idI)
    moreover have "v \<notin> pl ` set t" using Cons.prems(3) no by auto
    ultimately show ?thesis using True IH Cons.prems(4)[of a] by simp
  next
    case False
    have "pl a \<noteq> pl (if key q = k then f q else q)" if "q \<in> set t" for q
      using that False Cons.prems(2) Cons.prems(3)[of a] Cons.prems(4)[of q] by auto
    then show ?thesis using False IH by auto
  qed
qed

lemma overwrite_row_ok:
  assumes "bindings_ok u" and "get_by b_id (b_id n) u = Some r" and "\<not> name_conflict (overwrite_row n r) u"
    and "1 \<le> b_port n" "b_port n \<le> 65535"
  shows "bindings_ok (sql_update (\<lambda>q. b_id q = b_id n) (overwrite_row n) u)"
proof -
  have k: "keys_distinct b_id u" and p: "keys_distinct place u" using assms(1) by (simp_all add: bindings_ok_def)
  have r: "b_id r = b_id n" "r \<in> set u" using get_by_key[OF assms(2)] get_by_in[OF assms(2)] by simp_all
  have one: "q = r" if "q \<in> set u" "b_id q = b_id n" for q
    using get_by_self[OF k that(1)] that(2) assms(2) by simp
  let ?g = "\<lambda>q. if b_id q = b_id n then overwrite_row n q else q"
  have m: "sql_update (\<lambda>q. b_id q = b_id n) (overwrite_row n) u = map ?g u"
    unfolding sql_update_def by (rule refl)
  have pl: "place (overwrite_row n q) = place (overwrite_row n r)" if "q \<in> set u" "b_id q = b_id n" for q
    using one[OF that] by simp
  have nc: "place q \<noteq> place (overwrite_row n r)" if "q \<in> set u" "b_id q \<noteq> b_id n" for q
  proof
    assume "place q = place (overwrite_row n r)"
    with that r(1) have "name_conflict (overwrite_row n r) u"
      unfolding name_conflict_def overwrite_row_simps(1) by metis
    with assms(3) show False by contradiction
  qed
  have "distinct (map place (map ?g u))"
    by (rule distinct_map_one_changed[OF k[unfolded keys_distinct_def] p[unfolded keys_distinct_def] nc pl])
  moreover have "keys_distinct b_id (sql_update (\<lambda>q. b_id q = b_id n) (overwrite_row n) u)"
    using keys_distinct_update[of b_id "overwrite_row n"] k by simp
  moreover have "1 \<le> b_port q \<and> b_port q \<le> 65535" if "q \<in> set (map ?g u)" for q
    using that assms(1,4,5) by (auto simp: bindings_ok_def)
  ultimately show ?thesis unfolding bindings_ok_def keys_distinct_def m by blast
qed

text \<open>A save goes to a new row or to a row of the profile it names, as the routes do it.\<close>

definition save_allowed :: "binding_input \<Rightarrow> string \<Rightarrow> bindings \<Rightarrow> bool" where
  "save_allowed inp i t \<longleftrightarrow> (case get_by b_id i t of
     None \<Rightarrow> True | Some r \<Rightarrow> in_profile (bi_installation inp) (bi_profile inp) r)"

lemma new_binding_row_simps [simp]:
  "b_id (new_binding_row i inp st cr now) = i" "b_port (new_binding_row i inp st cr now) = bi_port inp"
  "b_default (new_binding_row i inp st cr now) = bi_default inp"
  "b_installation (new_binding_row i inp st cr now) = bi_installation inp"
  "b_profile (new_binding_row i inp st cr now) = bi_profile inp"
  "b_name (new_binding_row i inp st cr now) = bi_name inp"
  by (simp_all add: new_binding_row_def)

lemma one_default_insert:
  assumes "one_default u" and "\<And>q. q \<in> set u \<Longrightarrow> b_default q \<Longrightarrow> b_default n \<Longrightarrow>
      in_profile (b_installation n) (b_profile n) q \<Longrightarrow> b_id q = b_id n"
  shows "one_default (u @ [n])"
  unfolding one_default_def set_append in_profile_def
proof (intro ballI impI)
  fix q r assume *: "q \<in> set u \<union> set [n]" "r \<in> set u \<union> set [n]" "b_default q" "b_default r"
    "b_installation q = b_installation r \<and> b_profile q = b_profile r"
  have n: "b_id x = b_id n" if "x \<in> set u" "b_default x" "b_default n" "b_installation x = b_installation n"
    "b_profile x = b_profile n" for x
    using assms(2)[OF that(1-3)] that(4,5) by (simp add: in_profile_def)
  show "b_id q = b_id r"
    using * n[of q] n[of r] one_defaultD[OF assms(1), of q r] by (cases "q \<in> set u"; cases "r \<in> set u") force+
qed

lemma one_default_overwrite:
  assumes "one_default u" and "\<And>q. q \<in> set u \<Longrightarrow> b_default q \<Longrightarrow> b_default n \<Longrightarrow>
      in_profile (b_installation n) (b_profile n) q \<Longrightarrow> b_id q = b_id n"
    and "\<And>q. q \<in> set u \<Longrightarrow> b_id q = b_id n \<Longrightarrow> in_profile (b_installation n) (b_profile n) q"
  shows "one_default (sql_update (\<lambda>q. b_id q = b_id n) (overwrite_row n) u)"
  unfolding one_default_def in_profile_def
proof (intro ballI impI)
  fix q r
  assume m: "q \<in> set (sql_update (\<lambda>q. b_id q = b_id n) (overwrite_row n) u)"
      "r \<in> set (sql_update (\<lambda>q. b_id q = b_id n) (overwrite_row n) u)"
    and d: "b_default q" "b_default r"
    and s: "b_installation q = b_installation r \<and> b_profile q = b_profile r"
  have shape: "\<exists>y\<in>set u. b_id x = b_id y \<and> b_installation x = b_installation y \<and> b_profile x = b_profile y \<and>
      (if b_id y = b_id n then b_default x = b_default n else x = y)"
    if "x \<in> set (sql_update (\<lambda>q. b_id q = b_id n) (overwrite_row n) u)" for x
    using that unfolding set_sql_update by (auto split: if_splits)
  obtain q' r' where q': "q' \<in> set u" "b_id q = b_id q'" "b_installation q = b_installation q'"
      "b_profile q = b_profile q'" "if b_id q' = b_id n then b_default q = b_default n else q = q'"
    and r': "r' \<in> set u" "b_id r = b_id r'" "b_installation r = b_installation r'"
      "b_profile r = b_profile r'" "if b_id r' = b_id n then b_default r = b_default n else r = r'"
    using shape[OF m(1)] shape[OF m(2)] by blast
  consider "b_id q' = b_id n" "b_id r' = b_id n" | "b_id q' = b_id n" "b_id r' \<noteq> b_id n"
    | "b_id q' \<noteq> b_id n" "b_id r' = b_id n" | "b_id q' \<noteq> b_id n" "b_id r' \<noteq> b_id n" by blast
  then show "b_id q = b_id r"
  proof cases
    case 2
    with q' r' d s assms(2)[of r'] assms(3)[of q'] show ?thesis by (auto simp: in_profile_def)
  next
    case 3
    with q' r' d s assms(2)[of q'] assms(3)[of r'] show ?thesis by (auto simp: in_profile_def)
  next
    case 4
    with q' r' d s one_defaultD[OF assms(1) q'(1) r'(1)] show ?thesis by simp
  qed (use q' r' in simp)
qed

lemma save_binding_ok:
  assumes ok: "bindings_ok t" "one_default t" and al: "save_allowed inp i t"
  shows "bindings_ok (snd (save_binding now inp i st t)) \<and> one_default (snd (save_binding now inp i st t))"
proof -
  let ?u = "if bi_default inp then clear_defaults now (bi_installation inp) (bi_profile inp) i t else t"
  have u: "bindings_ok ?u" "one_default ?u" using ok clear_defaults_ok by auto
  have g: "get_by b_id i ?u = get_by b_id i t" by (simp add: clear_defaults_get)
  have d: "b_id q = i" if "q \<in> set ?u" "b_default q" "bi_default inp" "in_profile (bi_installation inp) (bi_profile inp) q" for q
    using that clear_defaults_cleared by auto
  show ?thesis
  proof (cases "snd (save_binding now inp i st t) = t")
    case False
    then obtain state cr v where v: "upsert_row (new_binding_row i inp state cr now) ?u = Inr v"
      "snd (save_binding now inp i st t) = v"
      by (auto simp: save_binding_def Let_def split: sum.splits)
    show ?thesis
    proof (cases "get_by b_id i ?u")
      case None
      with v(1) have "v = ?u @ [new_binding_row i inp state cr now]"
        "\<not> name_conflict (new_binding_row i inp state cr now) ?u" "1 \<le> bi_port inp" "bi_port inp \<le> 65535"
        by (auto simp: upsert_row_def split: if_splits)
      with v(2) None u d show ?thesis by (auto intro!: insert_row_ok one_default_insert)
    next
      case (Some r)
      let ?n = "new_binding_row i inp state cr now"
      from Some v(1) have w: "v = sql_update (\<lambda>q. b_id q = b_id ?n) (overwrite_row ?n) ?u"
        "\<not> name_conflict (overwrite_row ?n r) ?u" "1 \<le> bi_port inp" "bi_port inp \<le> 65535"
        by (auto simp: upsert_row_def split: if_splits)
      have kd: "keys_distinct b_id ?u" using u(1) by (simp add: bindings_ok_def)
      have pl: "in_profile (bi_installation inp) (bi_profile inp) r" using al Some g by (simp add: save_allowed_def)
      have own: "q = r" if "q \<in> set ?u" "b_id q = i" for q
        using get_by_self[OF kd that(1)] that(2) Some by simp
      have "bindings_ok v" unfolding w(1) using Some w u(1) by (intro overwrite_row_ok) auto
      moreover have "one_default v" unfolding w(1)
        by (rule one_default_overwrite[OF u(2)]) (use d own pl in auto)
      ultimately show ?thesis using v(2) by simp
    qed
  qed (use ok in simp)
qed


inductive bindings_reach :: "bindings \<Rightarrow> bool" where
  reach_empty: "bindings_reach []"
| reach_save: "bindings_reach t \<Longrightarrow> save_allowed inp i t \<Longrightarrow> bindings_reach (snd (save_binding now inp i st t))"
| reach_state: "bindings_reach t \<Longrightarrow> bindings_reach (set_binding_state now i st t)"
| reach_eula: "bindings_reach t \<Longrightarrow> bindings_reach (accept_eula now i t)"
| reach_pack: "bindings_reach t \<Longrightarrow> bindings_reach (set_desired_pack now i pack t)"
| reach_token: "bindings_reach t \<Longrightarrow> bindings_reach (save_updater_token now i h t)"
| reach_touch: "bindings_reach t \<Longrightarrow> bindings_reach (touch_updater now i t)"
| reach_report: "bindings_reach t \<Longrightarrow> bindings_reach (report_pack now i pack' err t)"
| reach_delete: "bindings_reach t \<Longrightarrow> bindings_reach (snd (delete_binding i t))"

definition table_ok :: "bindings \<Rightarrow> bool" where
  "table_ok t \<longleftrightarrow> bindings_ok t \<and> one_default t"

lemma on_binding_table_ok:
  assumes "same_place f" and "\<And>r. b_default (f r) = b_default r" and "table_ok t"
  shows "table_ok (on_binding i f t)"
  using assms(3) bindings_ok_update[OF assms(1)] one_default_update[OF assms(1)] assms(2)
  by (simp add: table_ok_def on_binding_def)

lemma delete_table_ok:
  assumes "table_ok t"
  shows "table_ok (snd (delete_binding i t))"
proof -
  let ?u = "sql_delete (\<lambda>r. b_id r = i) t"
  have sub: "set ?u \<subseteq> set t" by (auto simp: set_sql_delete)
  have "bindings_ok ?u"
    using assms sub keys_distinct_delete[of b_id t] keys_distinct_delete[of place t]
    unfolding table_ok_def bindings_ok_def by blast
  moreover have "one_default ?u"
    using assms sub unfolding table_ok_def one_default_def by blast
  ultimately show ?thesis by (simp add: table_ok_def delete_binding_def)
qed

lemma reach_table_ok: "bindings_reach t \<Longrightarrow> table_ok t"
proof (induction rule: bindings_reach.induct)
  case reach_empty
  show ?case by (simp add: table_ok_def bindings_ok_def keys_distinct_def one_default_def)
next
  case (reach_save t inp i now st)
  then show ?case using save_binding_ok by (simp add: table_ok_def)
next
  case (reach_delete t i)
  then show ?case by (intro delete_table_ok)
qed (unfold set_binding_state_def accept_eula_def set_desired_pack_def save_updater_token_def
    touch_updater_def report_pack_def, (rule on_binding_table_ok; simp add: same_place_def place_def)+)

text \<open>C18: in every history of the table of bindings, ids are unique, no two servers of a profile
  share a name, every port is between 1 and 65535, and a profile has at most one default server.\<close>

theorem bindings_are_well_formed:
  assumes "bindings_reach t"
  shows "distinct (map b_id t) \<and> distinct (map (\<lambda>r. (b_installation r, b_profile r, b_name r)) t) \<and>
    (\<forall>r\<in>set t. 1 \<le> b_port r \<and> b_port r \<le> 65535) \<and>
    (\<forall>q\<in>set t. \<forall>r\<in>set t. b_default q \<longrightarrow> b_default r \<longrightarrow> b_installation q = b_installation r \<longrightarrow>
       b_profile q = b_profile r \<longrightarrow> b_id q = b_id r)"
  using reach_table_ok[OF assms]
  unfolding table_ok_def bindings_ok_def one_default_def keys_distinct_def in_profile_def place_def[abs_def]
  by blast

definition sample_input :: "string \<Rightarrow> bool \<Rightarrow> binding_input" where
  "sample_input name d = \<lparr>bi_installation = ''i'', bi_profile = ''p'', bi_name = name, bi_address = ''mc.example.org'',
     bi_port = 25565, bi_default = d, bi_auth = ''std'', bi_pack = None, bi_xms = ''1G'', bi_xmx = ''2048M'',
     bi_jvm_args = [], bi_game_args = []\<rparr>"

lemma bindings_are_well_formed_witness:
  "let t = snd (save_binding 2 (sample_input ''b'' True) ''2'' None (snd (save_binding 1 (sample_input ''a'' True) ''1'' None [])))
   in map b_default t = [False, True] \<and> distinct (map b_id t)"
proof -
  let ?t1 = "snd (save_binding 1 (sample_input ''a'' True) ''1'' None [])"
  let ?t2 = "snd (save_binding 2 (sample_input ''b'' True) ''2'' None ?t1)"
  have "get_by b_id ''1'' ([] :: bindings) = None" "get_by b_id ''2'' ?t1 = None" by code_simp+
  then have "bindings_reach ?t2"
    by (intro reach_save reach_empty) (simp_all add: save_allowed_def)
  from bindings_are_well_formed[OF this] have "distinct (map b_id ?t2)" by (rule conjunct1)
  moreover have "map b_default ?t2 = [False, True]" by code_simp
  ultimately show ?thesis by (simp only: Let_def)
qed

section \<open>Planned server lists\<close>

lemma kept_servers_names: "map srv_name (kept_servers ss cur i) =
    filter (\<lambda>n. Some n \<noteq> map_option sb_name cur \<and> n \<noteq> bi_name i) (map srv_name ss)"
proof -
  have "map srv_name (map (\<lambda>s. if d then s\<lparr>srv_default := False\<rparr> else s) xs) = map srv_name xs"
    for d and xs :: "profile_server list" by (induction xs) auto
  then show ?thesis by (simp add: kept_servers_def filter_map comp_def)
qed

lemma promote_first_names: "map srv_name (promote_first ss) = map srv_name ss"
  by (cases ss) (simp_all add: promote_first_def)

lemma planned_servers_last: "\<exists>others. planned_servers ss cur i = others @ [next_server i ss] \<and>
    map srv_name others = filter (\<lambda>n. Some n \<noteq> map_option sb_name cur \<and> n \<noteq> bi_name i) (map srv_name ss)"
  by (auto simp: planned_servers_def Let_def kept_servers_names promote_first_names)

definition defaults :: "profile_server list \<Rightarrow> nat" where
  "defaults ss = length (filter srv_default ss)"

lemma defaults_simps [simp]:
  "defaults [] = 0" "defaults (s # ss) = (if srv_default s then Suc (defaults ss) else defaults ss)"
  "defaults (ss @ ss') = defaults ss + defaults ss'"
  by (simp_all add: defaults_def)

lemma defaults_filter: "defaults (filter P ss) \<le> defaults ss"
  by (induction ss) auto

lemma defaults_cleared: "defaults (map (\<lambda>s. s\<lparr>srv_default := False\<rparr>) ss) = 0"
  by (induction ss) auto

lemma defaults_none: "\<not> list_ex srv_default ss \<longleftrightarrow> defaults ss = 0"
  by (induction ss) auto

lemma defaults_promote: "defaults ss = 0 \<Longrightarrow> defaults (promote_first ss) = (if ss = [] then 0 else 1)"
  by (cases ss) (auto simp: promote_first_def split: if_splits)

text \<open>The server list that an edit plans has the edited server once, at the end, keeps the names and
  the order of all others, and has exactly one default server when the old list had at most one,
  unless the edited server is left alone in its profile and asked not to be the default.\<close>

theorem planned_servers_have_one_default:
  assumes "defaults ss \<le> 1"
  shows "(\<exists>others. planned_servers ss cur i = others @ [next_server i ss] \<and>
      map srv_name others = filter (\<lambda>n. Some n \<noteq> map_option sb_name cur \<and> n \<noteq> bi_name i) (map srv_name ss)) \<and>
    (defaults (planned_servers ss cur i) = 1 \<or>
     defaults (planned_servers ss cur i) = 0 \<and> planned_servers ss cur i = [next_server i ss] \<and> \<not> bi_default i)"
proof -
  have "defaults (planned_servers ss cur i) = 1 \<or>
     defaults (planned_servers ss cur i) = 0 \<and> planned_servers ss cur i = [next_server i ss] \<and> \<not> bi_default i"
  proof (cases "srv_default (next_server i ss)")
    case True
    then have "defaults (kept_servers ss cur i) = 0" by (simp add: kept_servers_def defaults_cleared)
    with True show ?thesis by (simp add: planned_servers_def)
  next
    case False
    then have nd: "\<not> bi_default i" by (simp add: next_server_def)
    have "defaults (kept_servers ss cur i) \<le> defaults ss" using False by (simp add: kept_servers_def defaults_filter)
    with assms consider "defaults (kept_servers ss cur i) = 0" | "defaults (kept_servers ss cur i) = 1" by linarith
    then show ?thesis
    proof cases
      case 1
      show ?thesis
      proof (cases "kept_servers ss cur i = []")
        case True
        with False nd show ?thesis by (simp add: planned_servers_def promote_first_def)
      next
        case ne: False
        with 1 False defaults_promote[OF 1] defaults_none[of "kept_servers ss cur i"]
        show ?thesis by (simp add: planned_servers_def)
      qed
    next
      case 2
      with False defaults_none[of "kept_servers ss cur i"] show ?thesis by (simp add: planned_servers_def)
    qed
  qed
  with planned_servers_last[of ss cur i] show ?thesis by blast
qed


definition sample_server :: "string \<Rightarrow> bool \<Rightarrow> profile_server" where
  "sample_server name d = \<lparr>srv_name = name, srv_address = ''mc.example.org'', srv_port = 25565,
     srv_default = d, srv_protocol = -1, srv_ping = True\<rparr>"

lemma planned_servers_have_one_default_witness:
  "let c = the (get_binding ''1'' (snd (save_binding 1 (sample_input ''a'' True) ''1'' None [])));
       ss = [sample_server ''a'' True]
   in defaults ss \<le> 1 \<and> defaults (planned_servers ss (Some c) (sample_input ''a'' False)) = 0"
proof -
  let ?c = "the (get_binding ''1'' (snd (save_binding 1 (sample_input ''a'' True) ''1'' None [])))"
  let ?ss = "[sample_server ''a'' True]"
  have le: "defaults ?ss \<le> 1" by code_simp
  have "\<not> list_ex srv_default (planned_servers ?ss (Some ?c) (sample_input ''a'' False))" by code_simp
  then have "defaults (planned_servers ?ss (Some ?c) (sample_input ''a'' False)) \<noteq> 1" by (simp add: defaults_none)
  with planned_servers_have_one_default[OF le, of "Some ?c" "sample_input ''a'' False"]
  have "defaults (planned_servers ?ss (Some ?c) (sample_input ''a'' False)) = 0" by blast
  with le show ?thesis unfolding Let_def by (rule conjI)
qed

section \<open>The table and the profile agree\<close>

lemma wp_on_host [wp_simps]:
  "wp (on_host p) Q E s = wp p (\<lambda>x w. Q x (w, snd s)) (\<lambda>e w. E e (w, snd s)) (fst s)"
  by (cases s) (auto simp: wp_def on_host_def split: prod.splits sum.splits)

lemma wp_from_table [wp_simps]: "wp (from_table f) Q E s = Q (f (snd s)) s"
  by (cases s) (simp add: wp_def from_table_def reading_def)

lemma replace_result:
  "wp (replace_profile_servers H name ss) (\<lambda>r t. \<exists>p. fst r = profile_descriptor name (with_servers ss p))
     (\<lambda>_ _. True) s"
  unfolding replace_profile_servers_def Let_def wp_thenDo wp_andThen case_prod_beta wp_ret
  by (intro wp_any) (auto simp: with_servers_def)

lemma get_profile_result:
  "wp (get_profile H name) (\<lambda>d t. \<exists>p. d = profile_descriptor name p) (\<lambda>_ _. True) s"
  unfolding get_profile_def wp_thenDo wp_andThen case_prod_beta wp_ret
  by (intro wp_any) auto

lemma upsert_row_get:
  assumes "upsert_row n u = Inr v"
  shows "\<exists>r. get_by b_id (b_id n) v = Some r \<and> b_name r = b_name n \<and> b_address r = b_address n \<and>
    b_port r = b_port n \<and> b_default r = b_default n \<and> b_auth r = b_auth n \<and> b_pack r = b_pack n \<and> b_id r = b_id n"
proof (cases "get_by b_id (b_id n) u")
  case None
  with assms have "v = u @ [n]" by (auto simp: upsert_row_def split: if_splits)
  with None show ?thesis by (simp add: get_by_append get_by_Cons)
next
  case (Some r)
  with assms have v: "v = sql_update (\<lambda>q. b_id q = b_id n) (overwrite_row n) u"
    by (auto simp: upsert_row_def split: if_splits)
  have "get_by b_id (b_id n) v = map_option (\<lambda>r. if b_id r = b_id n then overwrite_row n r else r) (get_by b_id (b_id n) u)"
    unfolding v by (rule get_by_update) simp
  then show ?thesis using Some get_by_key[OF Some] by (simp add: overwrite_row_def)
qed

text \<open>A binding that holds what was asked for.\<close>

definition holds_input :: "binding_input \<Rightarrow> binding \<Rightarrow> bool" where
  "holds_input i b \<longleftrightarrow> sb_name b = bi_name i \<and> sb_address b = bi_address i \<and> sb_port b = bi_port i \<and>
     sb_default b = bi_default i \<and> sb_auth b = bi_auth i \<and> sb_pack b = bi_pack i"

lemma save_binding_returns:
  assumes "save_binding now inp i st t = (Inr b, t')"
  shows "get_binding i t' = Some b \<and> holds_input inp b \<and> sb_id b = i"
proof -
  obtain state cr u where "upsert_row (new_binding_row i inp state cr now) u = Inr t'" "b = the (get_binding i t')"
    using assms by (auto simp: save_binding_def Let_def split: sum.splits)
  with upsert_row_get[OF this(1)] show ?thesis
    by (auto simp: get_binding_def holds_input_def to_binding_def new_binding_row_def)
qed

lemma wp_save_in_table:
  assumes "\<And>b t'. get_binding i t' = Some b \<Longrightarrow> holds_input inp b \<Longrightarrow> sb_id b = i \<Longrightarrow> Q b (fst s, t')"
    and "\<And>e u. E e u"
  shows "wp (save_in_table now inp i st) Q E s"
  using assms by (cases s) (auto simp: wp_def save_in_table_def dest!: save_binding_returns split: prod.splits sum.splits)

text \<open>The profile shows a server as the table stores it.\<close>

definition shown_as :: "descriptor \<Rightarrow> binding \<Rightarrow> bool" where
  "shown_as d b \<longleftrightarrow> (\<exists>s\<in>set (d_servers d). srv_name s = sb_name b \<and> srv_address s = sb_address b \<and>
     srv_port s = sb_port b \<and> srv_default s = sb_default b)"

lemma js_trim_Nil: "js_trim [] = []"
  by (simp add: js_trim_def js_trim_start_def js_trim_end_def)

lemma checked_input:
  assumes "check_input i = Inr ()"
  shows "js_trim (bi_name i) \<noteq> [] \<and> js_trim (bi_address i) \<noteq> [] \<and> 1 \<le> bi_port i \<and> bi_port i \<le> 65535"
proof -
  have "full_match server_name_rx (js_trim (bi_name i))" "good_address (js_trim (bi_address i))"
    "1 \<le> bi_port i \<and> bi_port i \<le> 65535"
    using assms by (auto simp: check_input_def split: if_splits)
  then show ?thesis by (auto simp: server_name_rx_def full_match_name good_address_def)
qed

lemma valid_planned:
  assumes "check_input i = Inr ()" and "\<forall>s\<in>set ss. valid_server s"
  shows "\<forall>s\<in>set (planned_servers ss cur i). valid_server s"
proof -
  have new: "valid_server (next_server i ss)"
    using checked_input[OF assms(1)] by (simp add: valid_server_def next_server_def max_safe_integer_def)
  have off: "valid_server s \<Longrightarrow> valid_server (s\<lparr>srv_default := d\<rparr>)" for s d by (simp add: valid_server_def)
  have pr: "\<forall>s\<in>set xs. valid_server s \<Longrightarrow> \<forall>s\<in>set (promote_first xs). valid_server s" for xs
    by (cases xs) (auto simp: promote_first_def off)
  have "\<forall>s\<in>set (kept_servers ss cur i). valid_server s"
    using assms(2) off by (auto simp: kept_servers_def)
  from pr[OF this] this new show ?thesis by (simp add: planned_servers_def Let_def)
qed


lemma servers_of_planned:
  assumes "check_input i = Inr ()" and "\<forall>s\<in>set ss. valid_server s"
  shows "d_servers (profile_descriptor name (with_servers (planned_servers ss cur i) p)) = planned_servers ss cur i"
proof -
  have "List.map_filter parse_server (map server_json (planned_servers ss cur i)) = planned_servers ss cur i"
    by (rule map_filter_all) (rule parse_server_json, use valid_planned[OF assms] in blast)
  then show ?thesis
    by (simp add: profile_descriptor_def with_servers_def map_of_obj_put parse_profile_servers_def)
qed

lemma valid_profile_servers: "\<forall>s\<in>set (d_servers (profile_descriptor name p)). valid_server s"
  using parse_profile_servers_valid by (auto simp: profile_descriptor_def)

lemma wp_find_current:
  assumes "\<And>cur. (\<forall>c. cur = Some c \<longrightarrow> get_binding (sb_id c) (snd s) = Some c) \<Longrightarrow> Q cur s"
    and "\<And>e u. E e u"
  shows "wp (find_current inst bid) Q E s"
proof -
  have "get_binding b t = Some c \<Longrightarrow> sb_id c = b" for b t c
    by (auto simp: get_binding_def to_binding_def dest: get_by_key)
  with assms show ?thesis
    by (auto simp: find_current_def throw_error_def wp_simps split: option.split)
qed

lemma shown_unchanged:
  assumes "\<not> profile_changed (Option.bind cur (\<lambda>c. List.find (\<lambda>s. srv_name s = sb_name c) (d_servers d)))
      (next_server i (d_servers d))"
    and "holds_input (i\<lparr>bi_default := srv_default (next_server i (d_servers d))\<rparr>) b"
  shows "shown_as d b"
proof -
  obtain s where s: "Option.bind cur (\<lambda>c. List.find (\<lambda>s. srv_name s = sb_name c) (d_servers d)) = Some s"
    using assms(1) by (auto simp: profile_changed_def split: option.splits)
  then have m: "s \<in> set (d_servers d)" by (auto simp: find_Some_iff Option.bind_eq_Some_conv)
  have "srv_name s = srv_name (next_server i (d_servers d)) \<and> srv_address s = srv_address (next_server i (d_servers d)) \<and>
      srv_port s = srv_port (next_server i (d_servers d)) \<and> srv_default s = srv_default (next_server i (d_servers d))"
    using assms(1) unfolding s by (simp add: profile_changed_def)
  with m assms(2) show ?thesis
    unfolding shown_as_def by (intro bexI[of _ s]) (auto simp: holds_input_def next_server_def)
qed

lemma shown_planned:
  assumes "d_servers d = planned_servers ss cur i"
    and "holds_input (i\<lparr>bi_default := srv_default (next_server i ss)\<rparr>) b"
  shows "shown_as d b"
  using planned_servers_last[of ss cur i] assms
  by (auto simp: shown_as_def holds_input_def next_server_def intro!: bexI[of _ "next_server i ss"])

definition agrees :: "binding_input \<Rightarrow> apply_result \<Rightarrow> bindings \<Rightarrow> bool" where
  "agrees i r t \<longleftrightarrow> get_binding (sb_id (ap_binding r)) t = Some (ap_binding r) \<and>
     holds_input (i\<lparr>bi_default := sb_default (ap_binding r)\<rparr>) (ap_binding r) \<and>
     shown_as (ap_profile r) (ap_binding r)"

lemma holds_input_default: "holds_input i b \<Longrightarrow> holds_input (i\<lparr>bi_default := sb_default b\<rparr>) b"
  by (simp add: holds_input_def)

lemma agrees_saved:
  assumes "get_binding (sb_id b) t = Some b" and "holds_input (i\<lparr>bi_default := d'\<rparr>) b" and "shown_as d b"
  shows "agrees i \<lparr>ap_binding = b, ap_profile = d, ap_backup = k, ap_changed = c\<rparr> t"
  using assms holds_input_default[OF assms(2)] by (simp add: agrees_def)

lemma wp_apply_change:
  assumes chk: "check_input i = Inr ()" and d: "d = profile_descriptor (bi_profile i) p"
    and cur: "\<And>c. cur = Some c \<Longrightarrow> get_binding (sb_id c) (snd s) = Some c"
  shows "wp (apply_change H now fresh i d cur) (\<lambda>r u. agrees i r (snd u)) (\<lambda>_ _. True) s"
proof -
  let ?new = "next_server i (d_servers d)"
  let ?old = "Option.bind cur (\<lambda>c. List.find (\<lambda>s. srv_name s = sb_name c) (d_servers d))"
  have same: "agrees i \<lparr>ap_binding = the cur, ap_profile = d, ap_backup = None, ap_changed = False\<rparr> (snd s)"
    if nc: "\<not> profile_changed ?old ?new" and un: "unchanged cur i ?new"
  proof -
    obtain c where c: "cur = Some c" "holds_input (i\<lparr>bi_default := srv_default ?new\<rparr>) c"
      using un by (auto simp: unchanged_def bootstrap_changed_def holds_input_def split: option.splits)
    with agrees_saved[OF cur[OF c(1)] c(2) shown_unchanged[OF nc c(2)]] show ?thesis by simp
  qed
  have saved: "wp (save_in_table now (i\<lparr>bi_default := srv_default ?new\<rparr>) j st)
      (\<lambda>b u. wp (on_host (h_progress H 95 m)) (\<lambda>_ u. agrees i \<lparr>ap_binding = b, ap_profile = d', ap_backup = k, ap_changed = bc\<rparr> (snd u))
        (\<lambda>_ _. True) u) (\<lambda>_ _. True) u"
    if "\<And>b. holds_input (i\<lparr>bi_default := srv_default ?new\<rparr>) b \<Longrightarrow> shown_as d' b" for j st m d' k bc u
    by (rule wp_save_in_table) (use that in \<open>auto simp: wp_on_host intro!: wp_any agrees_saved\<close>)
  show ?thesis
  proof (cases "\<not> profile_changed ?old ?new \<and> unchanged cur i ?new")
    case True
    with same show ?thesis by (auto simp: apply_change_def Let_def wp_simps intro!: wp_any)
  next
    case False
    show ?thesis
    proof (cases "profile_changed ?old ?new")
      case pc: True
      have "shown_as (profile_descriptor (bi_profile i) (with_servers (planned_servers (d_servers d) cur i) q)) b"
        if "holds_input (i\<lparr>bi_default := srv_default ?new\<rparr>) b" for b q
        using shown_planned[OF servers_of_planned that] chk valid_profile_servers d by blast
      then show ?thesis
        unfolding apply_change_def Let_def
        by (simp only: pc simp_thms if_False if_True wp_thenDo wp_andThen wp_ret fst_conv snd_conv)
          (rule wp_any, rule wp_on_host[THEN iffD2], rule wp_mono[OF replace_result], auto intro!: saved)
    next
      case np: False
      with False shown_unchanged[OF np] show ?thesis
        unfolding apply_change_def Let_def
        by (simp only: np if_False wp_thenDo wp_andThen wp_ret fst_conv snd_conv simp_thms)
          (rule wp_any, auto intro!: saved)
    qed
  qed
qed

lemma wp_apply:
  "wp (apply_binding H inst now fresh i bid) (\<lambda>r u. agrees i r (snd u)) (\<lambda>_ _. True) s"
proof (cases "check_input i")
  case (Inl e)
  then show ?thesis by (simp add: apply_binding_def wp_simps)
next
  case (Inr x)
  then have chk: "check_input i = Inr ()" by simp
  show ?thesis
    unfolding apply_binding_def chk wp_thenDo wp_ofSum sum.case wp_andThen wp_on_host[of "get_profile _ _"]
    by (rule wp_mono[OF get_profile_result])
      (auto simp: wp_throwIf wp_thenDo intro!: wp_find_current wp_apply_change[OF chk])
qed


lemma servers_of_with:
  assumes "\<forall>s\<in>set ss. valid_server s"
  shows "d_servers (profile_descriptor name (with_servers ss p)) = ss"
proof -
  have "List.map_filter parse_server (map server_json ss) = ss"
    by (rule map_filter_all) (rule parse_server_json, use assms in blast)
  then show ?thesis
    by (simp add: profile_descriptor_def with_servers_def map_of_obj_put parse_profile_servers_def)
qed

lemma valid_promote: "\<forall>s\<in>set ss. valid_server s \<Longrightarrow> \<forall>s\<in>set (promote_first ss). valid_server s"
  by (cases ss) (auto simp: promote_first_def valid_server_def)

lemma promote_keeps_names: "\<forall>x\<in>set ss. srv_name x \<noteq> n \<Longrightarrow> \<forall>x\<in>set (promote_first ss). srv_name x \<noteq> n"
  by (cases ss) (auto simp: promote_first_def)

lemma left_servers_cases:
  assumes "P (promote_first (filter (\<lambda>s. srv_name s \<noteq> sb_name b) ss))"
    and "P (filter (\<lambda>s. srv_name s \<noteq> sb_name b) ss)"
  shows "P (left_servers b ss)"
  using assms by (cases "sb_default b") (simp_all only: left_servers_def Let_def if_True if_False)

lemma left_servers_valid:
  assumes "\<forall>s\<in>set ss. valid_server s"
  shows "\<forall>s\<in>set (left_servers b ss). valid_server s"
proof -
  have v: "\<forall>s\<in>set (filter (\<lambda>s. srv_name s \<noteq> sb_name b) ss). valid_server s"
    using assms by (meson filter_is_subset subsetD)
  show ?thesis by (rule left_servers_cases[OF valid_promote[OF v] v])
qed

lemma left_servers_names: "\<forall>s\<in>set (left_servers b ss). srv_name s \<noteq> sb_name b"
proof -
  have n: "\<forall>s\<in>set (filter (\<lambda>s. srv_name s \<noteq> sb_name b) ss). srv_name s \<noteq> sb_name b" by simp
  show ?thesis by (rule left_servers_cases[OF promote_keeps_names[OF n] n])
qed

lemma servers_left:
  "d_servers (profile_descriptor n (with_servers (left_servers b (d_servers (profile_descriptor m p))) q)) =
   left_servers b (d_servers (profile_descriptor m p))"
  by (rule servers_of_with[OF left_servers_valid]) (use valid_profile_servers in blast)

lemma wp_remove_binding:
  "wp (remove_binding H inst i) (\<lambda>r u. get_binding i (snd u) = None \<and>
     (\<exists>b. get_binding i (snd s) = Some b \<and> sb_installation b = inst \<and> (\<forall>x\<in>set (d_servers (fst r)). srv_name x \<noteq> sb_name b)))
     (\<lambda>_ _. True) s"
proof (cases "get_binding i (snd s)")
  case None
  then show ?thesis by (simp add: remove_binding_def throw_error_def wp_simps)
next
  case (Some b)
  have id: "sb_id b = i" using Some by (auto simp: get_binding_def to_binding_def dest: get_by_key)
  have gone: "get_binding i (snd (delete_binding i t)) = None" for t
    by (auto simp: get_binding_def delete_binding_def get_by_None set_sql_delete)
  let ?left = "\<lambda>p. left_servers b (d_servers (profile_descriptor (sb_profile b) p))"
  have wp_delete: "wp (delete_in_table i) Q (\<lambda>_ _. True) u"
    if "\<And>w t. get_binding i t = None \<Longrightarrow> Q () (w, t)" for Q u
    using that gone by (cases u) (auto simp: delete_in_table_def wp_simps)
  have replaced: "wp (replace_profile_servers H (sb_profile b) (?left p))
      (\<lambda>r w. \<forall>x\<in>set (d_servers (fst r)). srv_name x \<noteq> sb_name b) (\<lambda>_ _. True) w" for p w
    by (rule wp_mono[OF replace_result]) (metis servers_left left_servers_names)
  show ?thesis
  proof (cases "sb_installation b \<noteq> inst")
    case True
    with Some show ?thesis by (simp add: remove_binding_def wp_simps)
  next
    case False
    then have inst: "(sb_installation b \<noteq> inst) = False" by simp
    show ?thesis
      unfolding remove_binding_def wp_andThen wp_from_table Some option.case wp_thenDo wp_throwIf inst if_False
        wp_on_host wp_ret id
      apply (rule wp_mono[OF get_profile_result])
       apply (erule exE)
       apply (simp only:)
       apply (rule wp_mono[OF replaced])
        apply (use False in \<open>auto intro!: wp_delete wp_any\<close>)
      done
  qed
qed


definition sample_profile :: json where
  "sample_profile = JObj [(''uuid'', JStr ''12345678-1234-1234-8234-123456789abc''), (''version'', JStr ''1.20.1''),
     (''servers'', JArr [server_json (sample_server ''a'' True), server_json (sample_server ''b'' False)])]"

abbreviation sample_host :: "memory host" where
  "sample_host \<equiv> memory_host True (\<lambda>_. Some sample_profile) (\<lambda>_. ''new'')"

definition sample_world :: "memory" where
  "sample_world = [''/app/data/profiles/p.json'' \<mapsto> ''old'']"


text \<open>When \<open>remove\<close> returns, it was a binding of this installation that was removed, the
  table has no row with its id any more, and the profile it returns shows no server of its name.\<close>

theorem removed_binding_is_gone:
  assumes "remove_binding H inst i (w, t) = (Inr r, (w', t'))"
  shows "get_binding i t' = None \<and>
    (\<exists>b. get_binding i t = Some b \<and> sb_installation b = inst \<and> (\<forall>x\<in>set (d_servers (fst r)). srv_name x \<noteq> sb_name b))"
  using wp_returns[OF wp_remove_binding assms] by simp

definition sample_table :: bindings where
  "sample_table = snd (save_binding 1 (sample_input ''a'' True) ''x'' None [])"

lemma removed_binding_is_gone_witness:
  "\<exists>r w' t'. remove_binding sample_host ''i'' ''x'' (sample_world, sample_table) = (Inr r, (w', t')) \<and>
     get_binding ''x'' sample_table \<noteq> None \<and> get_binding ''x'' t' = None"
proof -
  let ?o = "remove_binding sample_host ''i'' ''x'' (sample_world, sample_table)"
  have "case fst ?o of Inr r \<Rightarrow> True | Inl e \<Rightarrow> False" by code_simp
  then obtain r where r: "fst ?o = Inr r" by (cases "fst ?o") auto
  obtain w' t' where o': "?o = (Inr r, (w', t'))" using r by (metis prod.collapse)
  from removed_binding_is_gone[OF this] o' show ?thesis by blast
qed

end
