(* ===== verification/Compatibility.thy ===== *)
theory Compatibility
  imports Profile_Data
begin

text \<open>
  Which patched authlib a Minecraft version needs: \<^verbatim>\<open>compatibility.service.ts\<close>. The parts of a version
  are integers here; JavaScript rounds those of more than fifteen digits.
\<close>

section \<open>Versions\<close>

text \<open>\<open>Number.parseInt(part, 10)\<close>; \<open>None\<close> is \<open>NaN\<close>.\<close>

definition js_parse_int :: "string \<Rightarrow> int option" where
  "js_parse_int s =
     (let t = js_trim_start s;
          (sign, u) = (case t of
              c # cs \<Rightarrow> if c = CHR ''-'' then (-1, cs) else if c = CHR ''+'' then (1, cs) else (1, t)
            | [] \<Rightarrow> (1, t));
          digits = takeWhile ascii_digit u
      in if digits = [] then None else Some (sign * int (read_digits digits)))"

definition parse_version :: "string \<Rightarrow> js_error + int list" where
  "parse_version v =
     (let parts = map js_parse_int (split_on (\<lambda>c. c = CHR ''.'') v)
      in if None \<in> set parts
         then Inl (Error ''Minecraft version must contain numeric dot-separated components'')
         else Inr (map the parts))"

fun version_difference :: "int list \<Rightarrow> int list \<Rightarrow> int" where
  "version_difference [] [] = 0"
| "version_difference (x # a) [] = (if x - 0 \<noteq> 0 then x - 0 else version_difference a [])"
| "version_difference [] (y # b) = (if 0 - y \<noteq> 0 then 0 - y else version_difference [] b)"
| "version_difference (x # a) (y # b) = (if x - y \<noteq> 0 then x - y else version_difference a b)"

definition compare_versions :: "string \<Rightarrow> string \<Rightarrow> js_error + int" where
  "compare_versions left right =
     (case parse_version left of
        Inl e \<Rightarrow> Inl e
      | Inr a \<Rightarrow> (case parse_version right of Inl e \<Rightarrow> Inl e | Inr b \<Rightarrow> Inr (version_difference a b)))"

section \<open>The choice\<close>

definition pick ::
  "(int \<Rightarrow> bool) \<Rightarrow> js_error + int \<Rightarrow> string \<Rightarrow> js_error + string \<Rightarrow> js_error + string" where
  "pick p c artifact rest =
     (case c of Inl e \<Rightarrow> Inl e | Inr d \<Rightarrow> if p d then Inr artifact else rest)"

definition resolve_client_compatibility :: "string \<Rightarrow> js_error + string" where
  "resolve_client_compatibility v =
     (let below = (\<lambda>b. pick (\<lambda>d. d < 0) (compare_versions v b)) in
      below ''1.16.5'' ''LauncherAuthlib1.jar''
     (below ''1.18'' ''LauncherAuthlib2.jar''
     (below ''1.19'' ''LauncherAuthlib3.jar''
     (pick (\<lambda>d. d = 0) (compare_versions v ''1.19'') ''LauncherAuthlib3-1.19.jar''
     (below ''1.20'' ''LauncherAuthlib3-1.19.1.jar''
     (below ''1.20.2'' ''LauncherAuthlib4.jar''
     (below ''1.20.3'' ''LauncherAuthlib5.jar''
     (below ''1.21.9'' ''LauncherAuthlib6.jar''
     (below ''26.2'' ''LauncherAuthlib7.jar''
     (Inr ''LauncherAuthlib9.jar''))))))))))"

section \<open>The order of versions\<close>

definition hd0 :: "int list \<Rightarrow> int" where
  "hd0 xs = (case xs of [] \<Rightarrow> 0 | x # _ \<Rightarrow> x)"

lemma version_difference_step:
  "version_difference a b = (if hd0 a \<noteq> hd0 b then hd0 a - hd0 b else version_difference (tl a) (tl b))"
  by (cases a; cases b) (auto simp: hd0_def)

lemma version_difference_trans:
  "version_difference a b \<le> 0 \<Longrightarrow> version_difference b c \<le> 0 \<Longrightarrow>
   version_difference a c \<le> 0 \<and> (version_difference a c = 0 \<longrightarrow> version_difference a b = 0 \<and> version_difference b c = 0)"
proof (induction "length a + length b + length c" arbitrary: a b c rule: less_induct)
  case less
  show ?case
  proof (cases "a = [] \<and> b = [] \<and> c = []")
    case False
    then have "length (tl a) + length (tl b) + length (tl c) < length a + length b + length c"
      by (cases a; cases b; cases c) auto
    from less.hyps[OF this] less.prems show ?thesis
      using version_difference_step[of a b] version_difference_step[of b c] version_difference_step[of a c]
      by (auto split: if_splits)
  qed simp
qed

lemma version_difference_sym: "version_difference b a = - version_difference a b"
  by (induction a b rule: version_difference.induct) auto

definition parts_of :: "string \<Rightarrow> int list" where
  "parts_of v = (case parse_version v of Inr p \<Rightarrow> p | Inl _ \<Rightarrow> [])"

text \<open>The place of an artifact in the order of the chain.\<close>

definition authlib_rank :: "string \<Rightarrow> nat" where
  "authlib_rank a = length (takeWhile (\<lambda>x. x \<noteq> a) [''LauncherAuthlib1.jar'', ''LauncherAuthlib2.jar'',
     ''LauncherAuthlib3.jar'', ''LauncherAuthlib3-1.19.jar'', ''LauncherAuthlib3-1.19.1.jar'',
     ''LauncherAuthlib4.jar'', ''LauncherAuthlib5.jar'', ''LauncherAuthlib6.jar'', ''LauncherAuthlib7.jar''])"

definition authlib_bounds :: "int list list" where
  "authlib_bounds = [[1,16,5], [1,18], [1,19], [1,20], [1,20,2], [1,20,3], [1,21,9], [26,2]]"

lemma bounds_parsed:
  "parse_version ''1.16.5'' = Inr [1,16,5]" "parse_version ''1.18'' = Inr [1,18]"
  "parse_version ''1.19'' = Inr [1,19]" "parse_version ''1.20'' = Inr [1,20]"
  "parse_version ''1.20.2'' = Inr [1,20,2]" "parse_version ''1.20.3'' = Inr [1,20,3]"
  "parse_version ''1.21.9'' = Inr [1,21,9]" "parse_version ''26.2'' = Inr [26,2]"
  by code_simp+

text \<open>The chain over the parsed version.\<close>

definition rank_of :: "int list \<Rightarrow> nat" where
  "rank_of p = (let below = (\<lambda>b. version_difference p b < 0) in
     if below [1,16,5] then 0 else if below [1,18] then 1 else if below [1,19] then 2
     else if version_difference p [1,19] = 0 then 3 else if below [1,20] then 4
     else if below [1,20,2] then 5 else if below [1,20,3] then 6 else if below [1,21,9] then 7
     else if below [26,2] then 8 else 9)"

lemma resolved_rank:
  assumes "parse_version v = Inr p"
  shows "\<exists>a. resolve_client_compatibility v = Inr a \<and> authlib_rank a = rank_of p"
  unfolding resolve_client_compatibility_def Let_def compare_versions_def assms bounds_parsed pick_def rank_of_def
  by (simp add: authlib_rank_def split del: if_split) (simp split: if_split)

lemma below_mono:
  "version_difference p q \<le> 0 \<Longrightarrow> version_difference q b < 0 \<Longrightarrow> version_difference p b < 0"
  using version_difference_trans[of p q b] by linarith

lemma above_mono: "version_difference p q \<le> 0 \<Longrightarrow> \<not> version_difference p b < 0 \<Longrightarrow> version_difference q b = 0 \<Longrightarrow>
  version_difference p b = 0"
  using version_difference_trans[of p q b] by linarith

lemma rank_mono:
  assumes "version_difference p q \<le> 0"
  shows "rank_of p \<le> rank_of q"
proof -
  note m = below_mono[OF assms] and z = above_mono[OF assms, of "[1,19]"]
  show ?thesis
    using m[of "[1,16,5]"] m[of "[1,18]"] m[of "[1,19]"] m[of "[1,20]"] m[of "[1,20,2]"] m[of "[1,20,3]"]
      m[of "[1,21,9]"] m[of "[26,2]"] z
    unfolding rank_of_def Let_def by (simp split: if_splits)
qed

section \<open>Checked versions are parsed\<close>

text \<open>What a version that passes the pattern looks like: digits, then one to three dotted groups of digits.\<close>

abbreviation digits :: "string \<Rightarrow> bool" where
  "digits w \<equiv> w \<noteq> [] \<and> (\<forall>c\<in>set w. is_digit c)"

lemma run_many_digits:
  assumes "(k, t) \<in> set (rx_run (many1 (Cls is_digit)) (k', s))"
  shows "\<exists>w. s = w @ t \<and> digits w"
proof -
  obtain c cs where s: "s = c # cs" "is_digit c" "(k, t) \<in> set (rounds (rx_run (Cls is_digit)) (length cs) (k', cs))"
    using assms by (auto simp: many1_def split: list.splits if_splits)
  then obtain w where "cs = w @ t" "\<forall>c\<in>set w. is_digit c" unfolding rounds_Cls by blast
  with s show ?thesis by (intro exI[of _ "c # w"]) auto
qed

lemma run_dotted:
  assumes "(k, t) \<in> set (rx_run (Cat (lit ''.'') (many1 (Cls is_digit))) (k', s))"
  shows "\<exists>w. s = CHR ''.'' # w @ t \<and> digits w"
  using assms run_many_digits by (fastforce split: list.splits if_splits)

abbreviation dotted :: "string list \<Rightarrow> string" where
  "dotted ws \<equiv> concat (map (\<lambda>w. CHR ''.'' # w) ws)"

lemma rounds_dotted:
  "(k, t) \<in> set (rounds (rx_run (Cat (lit ''.'') (many1 (Cls is_digit)))) n (k', s)) \<Longrightarrow>
   \<exists>ws. s = dotted ws @ t \<and> (\<forall>w\<in>set ws. digits w)"
proof (induction n arbitrary: k' s)
  case 0
  then show ?case by (intro exI[of _ "[]"]) simp
next
  case (Suc n)
  then consider (more) k'' u where "(k'', u) \<in> set (rx_run (Cat (lit ''.'') (many1 (Cls is_digit))) (k', s))"
      "(k, t) \<in> set (rounds (rx_run (Cat (lit ''.'') (many1 (Cls is_digit)))) n (k'', u))"
    | (stop) "t = s" by (auto simp del: rx_run.simps)
  then show ?case
  proof cases
    case more
    from run_dotted[OF more(1)] Suc.IH[OF more(2)] obtain w ws
      where "s = CHR ''.'' # w @ u" "digits w" "u = dotted ws @ t" "\<forall>w\<in>set ws. digits w" by blast
    then show ?thesis by (intro exI[of _ "w # ws"]) simp
  qed (intro exI[of _ "[]"], simp)
qed

lemma version_shape:
  assumes "full_match version_rx v"
  shows "\<exists>w ws. v = w @ dotted ws \<and> (\<forall>u\<in>set (w # ws). digits u)"
proof -
  define g where "g = Cat (lit ''.'') (many1 (Cls is_digit))"
  obtain k t k' t' k'' where "(k, t) \<in> set (rx_run (many1 (Cls is_digit)) (None, v))"
      "(k', t') \<in> set (rx_run g (k, t))" "(k'', []) \<in> set (rounds (rx_run g) 2 (k', t'))"
    using assms unfolding full_match_def version_rx_def g_def[symmetric] between_times_def
    by (auto simp: numeral_eq_Suc simp del: rounds.simps)
  then obtain w u ws where "v = w @ t" "digits w" "t = CHR ''.'' # u @ t'" "digits u" "t' = dotted ws" "\<forall>w\<in>set ws. digits w"
    using run_many_digits run_dotted rounds_dotted unfolding g_def by (metis append_Nil2)
  then show ?thesis by (intro exI[of _ w] exI[of _ "u # ws"]) simp
qed

lemma digit_not_dot: "is_digit c \<Longrightarrow> c \<noteq> CHR ''.''"
  by (auto simp: is_digit_def in_range_def)

lemma split_dotted:
  assumes "\<forall>u\<in>set (w # ws). digits u"
  shows "split_on (\<lambda>c. c = CHR ''.'') (w @ dotted ws) = w # ws"
  using assms
proof (induction ws arbitrary: w)
  case Nil
  then show ?case by (simp add: split_on_word digit_not_dot)
next
  case (Cons u ws)
  then have "split_on (\<lambda>c. c = CHR ''.'') (u @ dotted ws) = u # ws" by simp
  with Cons.prems show ?case using split_on_append_sep[of "\<lambda>c. c = CHR ''.''" "CHR ''.''" w "u @ dotted ws"]
    by (auto dest: digit_not_dot)
qed

lemma parse_digits:
  assumes "digits w"
  shows "js_parse_int w = Some (int (read_digits w))"
proof -
  obtain c cs where w: "w = c # cs" using assms by (cases w) auto
  have d: "is_digit x \<Longrightarrow> ascii_digit x" "is_digit x \<Longrightarrow> \<not> js_space x" for x
    by (auto simp: is_digit_def ascii_digit_def in_range_def js_space_def)
  have "js_trim_start w = w" using w assms d by (simp add: js_trim_start_def)
  moreover have "takeWhile ascii_digit w = w" using assms d by (simp add: takeWhile_eq_all_conv)
  moreover have "c \<noteq> CHR ''-''" "c \<noteq> CHR ''+''" using w assms by (auto simp: is_digit_def in_range_def)
  ultimately show ?thesis using w assms by (simp add: js_parse_int_def Let_def)
qed

lemma version_parses:
  assumes "full_match version_rx v"
  shows "\<exists>p. parse_version v = Inr p"
proof -
  obtain w ws where "v = w @ dotted ws" "\<forall>u\<in>set (w # ws). digits u" using version_shape[OF assms] by blast
  then have "None \<notin> set (map js_parse_int (split_on (\<lambda>c. c = CHR ''.'') v))"
    using split_dotted parse_digits by fastforce
  then show ?thesis by (simp add: parse_version_def Let_def)
qed

text \<open>Every Minecraft version that passes the panel's pattern gets an authlib, and a version that
  \<open>compareVersions\<close> does not put after another never gets a later authlib than that one; versions it
  takes for equal (1.20 and 1.20.0) get the same. The parts are exact for numbers JavaScript does not
  round, up to \<open>2^53 - 1\<close>.\<close>

theorem authlib_follows_version:
  assumes "full_match version_rx u" and "full_match version_rx v"
    and "\<forall>p\<in>set (parts_of u @ parts_of v). p \<le> max_safe_integer"
    and "compare_versions u v = Inr d" and "d \<le> 0"
  shows "\<exists>a b. resolve_client_compatibility u = Inr a \<and> resolve_client_compatibility v = Inr b \<and>
    authlib_rank a \<le> authlib_rank b \<and> (d = 0 \<longrightarrow> authlib_rank a = authlib_rank b)"
proof -
  obtain p q where p: "parse_version u = Inr p" "parse_version v = Inr q"
    using version_parses assms(1,2) by metis
  then have d: "version_difference p q = d" using assms(4) by (simp add: compare_versions_def)
  obtain a b where "resolve_client_compatibility u = Inr a" "authlib_rank a = rank_of p"
    "resolve_client_compatibility v = Inr b" "authlib_rank b = rank_of q"
    using resolved_rank[OF p(1)] resolved_rank[OF p(2)] by blast
  moreover have "rank_of p \<le> rank_of q" using rank_mono d assms(5) by simp
  moreover have "d = 0 \<longrightarrow> rank_of q \<le> rank_of p" using rank_mono[of q p] version_difference_sym[of q p] d by simp
  ultimately show ?thesis by (metis le_antisym)
qed

lemma authlib_follows_version_witness:
  "\<exists>a b. resolve_client_compatibility ''1.20'' = Inr a \<and> resolve_client_compatibility ''1.20.1'' = Inr b \<and>
    authlib_rank a \<le> authlib_rank b"
proof -
  have v: "full_match version_rx ''1.20''" "full_match version_rx ''1.20.1''" by code_simp+
  have p: "\<forall>p\<in>set (parts_of ''1.20'' @ parts_of ''1.20.1''). p \<le> max_safe_integer" by code_simp
  have c: "compare_versions ''1.20'' ''1.20.1'' = Inr (-1)" by code_simp
  from authlib_follows_version[OF v p c] show ?thesis by auto
qed

end
