(* ===== verification/Client_Build.thy ===== *)
theory Client_Build
  imports Compatibility Profile_Service
begin

text \<open>
  The long jobs of \<^verbatim>\<open>client-build.service.ts\<close>: preparing the MirrorHelper workspace, installing the
  Prestarter, building and customising the launcher, and building a client. What the service gets
  from its constructor (the control transport, the module installer, the artifact fetcher, the
  LaunchServer lifecycle, the loader and asset providers) and the files of the host that it reads
  itself are the fields of \<open>builder\<close>.
\<close>

section \<open>The world of the jobs\<close>

record installer =
  in_filename :: string
  in_bytes :: string
  in_version :: string
  in_sha256 :: string

text \<open>What \<open>lstat\<close> tells of a file of the host.\<close>

record local_stat =
  ls_is_file :: bool
  ls_length :: nat
  ls_mtime :: string

record ('w, 'r) builder =
  b_host :: "'w host"
  b_install_module :: "string \<Rightarrow> nat list \<Rightarrow> ('w, unit) io"
  b_fetch :: "string \<Rightarrow> string \<Rightarrow> nat \<Rightarrow> ('w, string) io"
  b_client_command :: "string \<Rightarrow> ('w, string list) io"
  b_build_command :: "string \<Rightarrow> ('w, string list) io"
  b_ensure_runtime :: "('w, 'r) io"
  b_download :: "loader \<Rightarrow> string \<Rightarrow> string option \<Rightarrow> ('w, installer) io"
  b_restart :: "('w, unit) io option"
  b_ensure_assets :: "string \<Rightarrow> string \<Rightarrow> string \<Rightarrow> ('w, unit) io"
  b_local_read :: "string \<Rightarrow> ('w, string) io"
  b_lstat :: "string \<Rightarrow> ('w, local_stat option) io"
  b_hash :: "string \<Rightarrow> string"

abbreviation b_volume :: "('w, 'r) builder \<Rightarrow> 'w volume_ops" where
  "b_volume B \<equiv> h_volume (b_host B)"

abbreviation b_log :: "('w, 'r) builder \<Rightarrow> string \<Rightarrow> ('w, unit) io" where
  "b_log B \<equiv> h_log (b_host B)"

abbreviation b_progress :: "('w, 'r) builder \<Rightarrow> nat \<Rightarrow> string \<Rightarrow> ('w, unit) io" where
  "b_progress B \<equiv> h_progress (b_host B)"

definition host_path :: "('w, 'r) builder \<Rightarrow> string \<Rightarrow> string" where
  "host_path B p = path_join [launcher_root (b_host B), p]"

section \<open>Pinned sources\<close>

definition workspace_url :: string where
  "workspace_url = ''https://mirror.gravitlauncher.com/5.7.x/workspace.json''"

definition workspace_sha256 :: string where
  "workspace_sha256 = ''51772ff2d1f3326862ca2cfa8f6e91d3d86a0406cd65a4eb0abaa114b43b7728''"

definition prestarter_asset :: string where
  "prestarter_asset = ''Prestarter.exe''"

definition prestarter_url :: string where
  "prestarter_url =
     ''https://github.com/GravitLauncher/LauncherPrestarter/releases/download/v2.1.0/Prestarter.exe''"

definition prestarter_sha256 :: string where
  "prestarter_sha256 = ''e206a35615b91ae21a13154b7cb4dda9c742a2a45211880e79100bb09636de7f''"

section \<open>Launcher artifacts\<close>

text \<open>\<open>path.resolve\<close> and \<open>path.relative\<close> of absolute paths.\<close>

definition resolved :: "string \<Rightarrow> string list" where
  "resolved p = norm_segs False [] (split_slash p)"

fun common_rest :: "string list \<Rightarrow> string list \<Rightarrow> string list \<times> string list" where
  "common_rest (a # as) (b # bs) = (if a = b then common_rest as bs else (a # as, b # bs))"
| "common_rest as bs = (as, bs)"

definition path_relative :: "string \<Rightarrow> string \<Rightarrow> string" where
  "path_relative from_path to_path =
     (case common_rest (resolved from_path) (resolved to_path) of
        (up, down) \<Rightarrow> join_with ''/'' (map (\<lambda>_. ''..'') up @ down))"

definition assert_inside :: "string \<Rightarrow> string \<Rightarrow> js_error + string" where
  "assert_inside rootPath path =
     (let child = path_relative rootPath path in
      if prefix ''..'' child \<or> child = []
      then Inl (Error ''Resolved artifact path escapes the Launcher data directory'') else Inr path)"

datatype variant = Jar | WindowsX64

record artifact =
  art_variant :: variant
  art_filename :: string
  art_size :: nat
  art_sha256 :: string
  art_modified :: string

definition file_exists :: "('w, 'r) builder \<Rightarrow> string \<Rightarrow> ('w, bool) io" where
  "file_exists B path = andThen (b_lstat B path) (\<lambda>m. ret (m \<noteq> None))"

definition artifact_name_rx :: rx where
  "artifact_name_rx = many1 (Cls is_name_char)"

definition safe_name :: "string \<Rightarrow> bool" where
  "safe_name s \<longleftrightarrow> full_match artifact_name_rx s \<and> path_basename s = s"

text \<open>
  A field of \<open>updatesProvider\<close>: \<open>None\<close> is a value that is no string, which the tests below refuse
  (with the message of the pattern or of \<open>basename\<close>).
\<close>

definition provider_field :: "json \<Rightarrow> string \<Rightarrow> string \<Rightarrow> string option" where
  "provider_field config k d =
     (case Option.bind (json_field config ''updatesProvider'') (\<lambda>p. json_field p k) of
        None \<Rightarrow> Some d | Some JNull \<Rightarrow> Some d | Some (JStr s) \<Rightarrow> Some s | Some _ \<Rightarrow> None)"

definition safe_field :: "string option \<Rightarrow> bool" where
  "safe_field f \<longleftrightarrow> (case f of Some s \<Rightarrow> safe_name s | None \<Rightarrow> False)"

definition read_launch_config :: "('w, 'r) builder \<Rightarrow> ('w, json) io" where
  "read_launch_config B =
     andThen (b_local_read B (host_path B ''LaunchServer.json'')) (\<lambda>raw.
     case h_parse (b_host B) raw of
       None \<Rightarrow> throw_error ''JSON'' | Some JNull \<Rightarrow> throw_error ''null'' | Some v \<Rightarrow> ret v)"

definition inspect_candidate ::
  "('w, 'r) builder \<Rightarrow> string \<Rightarrow> variant \<times> string \<Rightarrow> ('w, artifact option) io" where
  "inspect_candidate B dir c =
     andThen (ofSum (assert_inside (launcher_root (b_host B)) (path_join [dir, snd c]))) (\<lambda>path.
     andThen (file_exists B path) (\<lambda>there.
     if \<not> there then ret None
     else andThen (b_lstat B path) (\<lambda>m.
       case m of
         None \<Rightarrow> throw_error ''ENOENT''
       | Some st \<Rightarrow>
           if \<not> ls_is_file st then ret None
           else andThen (b_local_read B path) (\<lambda>bytes.
             ret (Some \<lparr>art_variant = fst c, art_filename = snd c, art_size = ls_length st,
               art_sha256 = b_hash B bytes, art_modified = ls_mtime st\<rparr>)))))"

definition list_launcher_artifacts :: "('w, 'r) builder \<Rightarrow> ('w, artifact list) io" where
  "list_launcher_artifacts B =
     andThen (read_launch_config B) (\<lambda>config.
     let updatesDir = provider_field config ''updatesDir'' ''updates'';
         binaryName = provider_field config ''binaryName'' ''Launcher'' in
     thenDo (throwIf (\<not> safe_field updatesDir \<or> \<not> safe_field binaryName)
       (Error ''LaunchServer updatesProvider contains an unsafe artifact path''))
     (andThen (ofSum (assert_inside (launcher_root (b_host B)) (host_path B (the updatesDir)))) (\<lambda>directory.
      andThen (traverse (inspect_candidate B directory)
          [(Jar, the binaryName @ ''.jar''), (WindowsX64, the binaryName @ ''.exe'')]) (\<lambda>found.
        ret (List.map_filter (\<lambda>a. a) found)))))"

definition artifact_path :: "('w, 'r) builder \<Rightarrow> variant \<Rightarrow> ('w, string option) io" where
  "artifact_path B v =
     andThen (list_launcher_artifacts B) (\<lambda>items.
     case List.find (\<lambda>a. art_variant a = v) items of
       None \<Rightarrow> ret None
     | Some a \<Rightarrow>
         andThen (read_launch_config B) (\<lambda>config.
         let updatesDir = provider_field config ''updatesDir'' ''updates'' in
         thenDo (throwIf (\<not> safe_field updatesDir)
           (Error ''LaunchServer updatesProvider contains an unsafe artifact path''))
         (andThen (ofSum (assert_inside (launcher_root (b_host B))
             (path_join [launcher_root (b_host B), the updatesDir, art_filename a]))) (\<lambda>p. ret (Some p)))))"

record preparation =
  pr_workspace :: bool
  pr_prestarter :: bool
  pr_launcher :: bool

definition digest_of :: "('w, 'r) builder \<Rightarrow> string \<Rightarrow> ('w, string option) io" where
  "digest_of B p = (case vol_sha256 (b_volume B) of Some sha \<Rightarrow> sha p | None \<Rightarrow> ret None)"

definition preparation_state :: "('w, 'r) builder \<Rightarrow> ('w, preparation) io" where
  "preparation_state B =
     andThen (promise_both (vol_exists (b_volume B) ''config/MirrorHelper/workspace'' ADirectory)
       (promise_both (digest_of B ''config/MirrorHelper/workspace.panel.json'')
       (promise_both (digest_of B prestarter_asset) (list_launcher_artifacts B))))
     (\<lambda>(dir, workspace, prestarter, artifacts).
       ret \<lparr>pr_workspace = (dir \<and> workspace = Some workspace_sha256),
            pr_prestarter = (prestarter = Some prestarter_sha256),
            pr_launcher = (artifacts \<noteq> [])\<rparr>)"


section \<open>The workspace\<close>

definition workspace_dir :: string where
  "workspace_dir = ''config/MirrorHelper/workspace''"

definition workspace_manifest :: string where
  "workspace_manifest = ''config/MirrorHelper/workspace.panel.json''"

definition run_workspace :: "('w, 'r) builder \<Rightarrow> ('w, unit) io" where
  "run_workspace B =
     andThen (b_client_command B ''applyworkspace /app/data/config/MirrorHelper/workspace.panel.json'') (\<lambda>lines.
     thenDo (log_lines (b_host B) lines)
     (andThen (vol_exists (b_volume B) workspace_dir ADirectory) (\<lambda>there.
       throwIf (\<not> there) (Error ''MirrorHelper did not create its workspace directory''))))"

definition workspace_failed :: "('w, 'r) builder \<Rightarrow> nat \<Rightarrow> js_error \<Rightarrow> ('w, bool) io" where
  "workspace_failed B attempt e =
     thenDo (vol_remove (b_volume B) workspace_dir True)
     (thenDo (throwIf (attempt = 3) e)
     (thenDo (b_log B (''MirrorHelper workspace attempt '' @ show_nat attempt @ ''/3 failed: '' @ error_message e))
     (thenDo (b_log B ''Removed the partial workspace before retrying upstream downloads'')
     (thenDo (h_check_abort (b_host B)) (ret False)))))"

text \<open>The loop: \<open>n\<close> attempts are left, the next one is number \<open>attempt\<close>.\<close>

fun workspace_attempts :: "('w, 'r) builder \<Rightarrow> nat \<Rightarrow> nat \<Rightarrow> ('w, unit) io" where
  "workspace_attempts B 0 attempt = ret ()"
| "workspace_attempts B (Suc n) attempt =
     thenDo (b_progress B 55 (if attempt = 1 then ''Applying pinned MirrorHelper workspace''
       else ''Retrying MirrorHelper workspace ('' @ show_nat attempt @ ''/3)''))
     (andThen (tryCatch (thenDo (run_workspace B) (ret True)) (workspace_failed B attempt)) (\<lambda>finished.
       if finished then ret () else workspace_attempts B n (attempt + 1)))"

text \<open>A copy of a file under a name with the time, when there is such a file.\<close>

definition snapshot_file :: "('w, 'r) builder \<Rightarrow> string \<Rightarrow> (string \<Rightarrow> string) \<Rightarrow> ('w, string option) io" where
  "snapshot_file B path message =
     andThen (vol_exists (b_volume B) path AFile) (\<lambda>there.
     if \<not> there then ret None
     else andThen (safe_timestamp (b_host B)) (\<lambda>ts.
       let backup = path @ ''.backup-'' @ ts in
       thenDo (vol_copy (b_volume B) path backup)
       (thenDo (b_log B (message backup)) (ret (Some backup)))))"

definition snapshot_workspace :: "('w, 'r) builder \<Rightarrow> ('w, string option) io" where
  "snapshot_workspace B =
     andThen (vol_exists (b_volume B) workspace_dir ADirectory) (\<lambda>there.
     if \<not> there then ret None
     else andThen (safe_timestamp (b_host B)) (\<lambda>ts.
       let snapshot = workspace_dir @ ''.backup-'' @ ts in
       thenDo (vol_move (b_volume B) workspace_dir snapshot)
       (thenDo (b_log B (''Workspace snapshot created: '' @ host_path B snapshot)) (ret (Some snapshot)))))"

definition restore_workspace ::
  "('w, 'r) builder \<Rightarrow> string option \<Rightarrow> string option \<Rightarrow> js_error \<Rightarrow> ('w, unit) io" where
  "restore_workspace B snapshot backup e =
     thenDo (vol_remove (b_volume B) workspace_dir True)
     (thenDo (case snapshot of Some s \<Rightarrow> vol_move (b_volume B) s workspace_dir | None \<Rightarrow> ret ())
     (thenDo (case backup of Some b \<Rightarrow> vol_copy (b_volume B) b workspace_manifest
        | None \<Rightarrow> vol_remove (b_volume B) workspace_manifest False)
       (raise e)))"

definition apply_workspace :: "('w, 'r) builder \<Rightarrow> ('w, string option) io" where
  "apply_workspace B =
     thenDo (b_install_module B ''MirrorHelper_module'' [5, 10, 15, 20])
     (thenDo (b_progress B 25 ''Downloading pinned MirrorHelper workspace manifest'')
     (andThen (b_fetch B workspace_url workspace_sha256 (256 * 1024)) (\<lambda>bytes.
      andThen (snapshot_file B workspace_manifest
        (\<lambda>b. ''Workspace manifest snapshot created: '' @ host_path B b)) (\<lambda>backup.
      thenDo (vol_write (b_volume B) workspace_manifest bytes M0600)
      (thenDo (b_log B (''Verified workspace manifest: sha256:'' @ workspace_sha256))
      (andThen (snapshot_workspace B) (\<lambda>snapshot.
       thenDo (tryCatch (workspace_attempts B 3 1) (restore_workspace B snapshot backup))
       (thenDo (b_progress B 95 ''Pinned MirrorHelper workspace applied'')
         (ret (map_option (host_path B) snapshot))))))))))"

section \<open>The Prestarter\<close>

definition restart_for_prestarter :: "('w, 'r) builder \<Rightarrow> ('w, unit) io" where
  "restart_for_prestarter B = (case b_restart B of
     None \<Rightarrow> throw_error ''LaunchServer restart is unavailable; Prestarter cannot initialize its executable build task''
   | Some p \<Rightarrow> p)"

definition install_prestarter :: "('w, 'r) builder \<Rightarrow> ('w, string option) io" where
  "install_prestarter B =
     thenDo (b_progress B 10 ''Downloading pinned LauncherPrestarter v2.1.0'')
     (andThen (b_fetch B prestarter_url prestarter_sha256 (16 * 1024 * 1024)) (\<lambda>bytes.
      andThen (snapshot_file B prestarter_asset
        (\<lambda>b. ''Prestarter snapshot created: '' @ host_path B b)) (\<lambda>backup.
      thenDo (vol_write (b_volume B) prestarter_asset bytes M0755)
      (thenDo (b_log B (''Verified Prestarter.exe: sha256:'' @ prestarter_sha256))
      (thenDo (tryCatch
         (thenDo (b_install_module B ''Prestarter_module'' [55, 65, 75, 80])
         (thenDo (b_progress B 85 ''Restarting LaunchServer to initialize Prestarter binary'')
         (thenDo (restart_for_prestarter B)
           (b_install_module B ''Prestarter_module'' [90, 91, 92, 93]))))
         (\<lambda>e. thenDo (vol_remove (b_volume B) prestarter_asset False)
           (thenDo (case backup of Some b \<Rightarrow> vol_copy (b_volume B) b prestarter_asset | None \<Rightarrow> ret ())
             (raise e))))
      (thenDo (b_progress B 95 ''LauncherPrestarter installed and initialized'')
        (ret (map_option (host_path B) backup))))))))"

section \<open>Building the launcher\<close>

definition has_windows :: "artifact list \<Rightarrow> bool" where
  "has_windows items \<longleftrightarrow> list_ex (\<lambda>a. art_variant a = WindowsX64) items"

definition build_launcher_with_runtime :: "('w, 'r) builder \<Rightarrow> 'r \<Rightarrow> ('w, artifact list \<times> 'r) io" where
  "build_launcher_with_runtime B runtime =
     andThen (promise_both (digest_of B prestarter_asset) (list_launcher_artifacts B)) (\<lambda>(digest, before).
     let expects = (digest = Some prestarter_sha256) in
     thenDo (do_when (expects \<and> \<not> has_windows before)
       (thenDo (b_progress B 31 ''Initializing Prestarter launcher binary provider'')
       (thenDo (restart_for_prestarter B)
         (b_install_module B ''Prestarter_module'' [32, 33, 34, 35]))))
     (thenDo (b_progress B 35 ''Running source-verified LaunchServer build command'')
     (andThen (b_build_command B ''build'') (\<lambda>lines.
      thenDo (log_lines (b_host B) lines)
      (thenDo (b_progress B 80 ''Inspecting generated launcher artifacts'')
      (andThen (list_launcher_artifacts B) (\<lambda>artifacts.
       thenDo (throwIf (artifacts = []) (Error ''LaunchServer build completed without launcher artifacts''))
       (thenDo (throwIf (expects \<and> \<not> has_windows artifacts)
         (Error ''LaunchServer build completed without the Prestarter Windows executable''))
       (thenDo (forEach artifacts (\<lambda>a. b_log B
          (art_filename a @ '': '' @ show_nat (art_size a) @ '' bytes sha256:'' @ art_sha256 a)))
       (thenDo (b_progress B 95 ''Launcher artifacts verified'')
         (ret (artifacts, runtime))))))))))))"

definition build_launcher :: "('w, 'r) builder \<Rightarrow> ('w, artifact list \<times> 'r) io" where
  "build_launcher B = andThen (b_ensure_runtime B) (build_launcher_with_runtime B)"

section \<open>Customising the launcher\<close>

datatype asset_id = Logo | Background | Favicon

definition asset_name :: "asset_id \<Rightarrow> string" where
  "asset_name a = (case a of Logo \<Rightarrow> ''logo'' | Background \<Rightarrow> ''background'' | Favicon \<Rightarrow> ''favicon'')"

definition asset_path :: "asset_id \<Rightarrow> string" where
  "asset_path a = (case a of
     Logo \<Rightarrow> ''runtime/images/logo.png''
   | Background \<Rightarrow> ''runtime/images/background.png''
   | Favicon \<Rightarrow> ''runtime/favicon.png'')"

definition asset_max :: "asset_id \<Rightarrow> nat" where
  "asset_max a = (case a of Background \<Rightarrow> 8 * 1024 * 1024 | _ \<Rightarrow> 2 * 1024 * 1024)"

definition customization_manifest :: string where
  "customization_manifest = ''.gravit-panel-launcher-customization.json''"

definition png_signature :: string where
  "png_signature = map char_of [0x89 :: nat, 0x50, 0x4e, 0x47, 0x0d, 0x0a, 0x1a, 0x0a]"

definition validate_asset :: "asset_id \<Rightarrow> string \<Rightarrow> ('w, unit) io" where
  "validate_asset a bytes =
     thenDo (throwIf (bytes = [] \<or> asset_max a < length bytes)
       (Error (asset_name a @ '' PNG must be between 1 byte and '' @ show_nat (asset_max a) @ '' bytes'')))
     (throwIf (\<not> prefix png_signature bytes) (Error (asset_name a @ '' must be a valid PNG file'')))"

definition sha256_text_rx :: rx where
  "sha256_text_rx = times 64 (Cls (\<lambda>c. is_digit c \<or> in_range CHR ''a'' CHR ''f'' c))"

text \<open>The names \<open>in\<close> finds on every object, and the path an id of the manifest must have.\<close>

definition inherited_names :: "string list" where
  "inherited_names = [''constructor'', ''__defineGetter__'', ''__defineSetter__'', ''hasOwnProperty'',
     ''__lookupGetter__'', ''__lookupSetter__'', ''isPrototypeOf'', ''propertyIsEnumerable'', ''toString'',
     ''valueOf'', ''__proto__'', ''toLocaleString'']"

definition expected_path :: "string \<Rightarrow> json option option" where
  "expected_path i =
     (if i \<in> set inherited_names then Some None
      else map_option (\<lambda>a. Some (JStr (asset_path a)))
        (List.find (\<lambda>a. asset_name a = i) [Logo, Background, Favicon]))"

definition known_asset :: "json \<Rightarrow> bool" where
  "known_asset v =
     (case (json_field v ''id'', json_field v ''sha256'') of
        (Some (JStr i), Some (JStr h)) \<Rightarrow>
          expected_path i = Some (json_field v ''path'') \<and> full_match sha256_text_rx h
      | _ \<Rightarrow> False)"

definition recorded_assets :: "json \<Rightarrow> json list" where
  "recorded_assets v = (case json_field v ''assets'' of Some (JArr xs) \<Rightarrow> filter known_asset xs | _ \<Rightarrow> [])"

definition customization_state :: "('w, 'r) builder \<Rightarrow> ('w, bool \<times> json list) io" where
  "customization_state B =
     (case vol_read_file (b_volume B) of
        None \<Rightarrow> throw_error ''Launcher customization state discovery is unavailable''
      | Some rd \<Rightarrow>
          andThen (vol_exists (b_volume B) customization_manifest AFile) (\<lambda>there.
          if \<not> there then ret (False, [])
          else tryCatch (andThen (rd customization_manifest) (\<lambda>raw.
              case h_parse (b_host B) raw of
                None \<Rightarrow> throw_error ''JSON''
              | Some JNull \<Rightarrow> throw_error ''null''
              | Some v \<Rightarrow> ret (recorded_assets v \<noteq> [], recorded_assets v)))
            (\<lambda>_. ret (False, []))))"

definition backup_customization_file :: "('w, 'r) builder \<Rightarrow> string \<Rightarrow> ('w, string option) io" where
  "backup_customization_file B path = snapshot_file B path (\<lambda>b. ''Customization snapshot created: '' @ b)"

definition customize_failed :: "('w, 'r) builder \<Rightarrow> bool \<Rightarrow> js_error \<Rightarrow> ('w, 'a) io" where
  "customize_failed B changed e =
     thenDo (do_when changed (b_log B
       ''Launcher customization files were saved, but artifact rebuild did not complete; retry Build launcher''))
     (raise e)"

text \<open>The loop over the selected files; \<open>changed\<close>: a file was written before.\<close>

fun save_assets :: "('w, 'r) builder \<Rightarrow> (asset_id \<times> string) list \<Rightarrow> bool \<Rightarrow> ('w, string list) io" where
  "save_assets B [] changed = ret []"
| "save_assets B ((a, bytes) # rest) changed =
     andThen (tryCatch
        (andThen (backup_customization_file B (asset_path a)) (\<lambda>backup.
          thenDo (vol_write (b_volume B) (asset_path a) bytes M0644) (ret backup)))
        (customize_failed B changed)) (\<lambda>backup.
     thenDo (tryCatch (b_log B (''Launcher '' @ asset_name a @ '' updated: '' @ asset_path a))
        (customize_failed B True))
     (andThen (save_assets B rest True) (\<lambda>backups.
        ret (case backup of Some b \<Rightarrow> b # backups | None \<Rightarrow> backups))))"

definition asset_json :: "('w, 'r) builder \<Rightarrow> asset_id \<times> string \<Rightarrow> json" where
  "asset_json B s = JObj [(''id'', JStr (asset_name (fst s))), (''path'', JStr (asset_path (fst s))),
     (''sha256'', JStr (b_hash B (snd s)))]"

definition json_id :: "json \<Rightarrow> string" where
  "json_id v = (case json_field v ''id'' of Some (JStr i) \<Rightarrow> i | _ \<Rightarrow> [])"

definition merge_assets :: "('w, 'r) builder \<Rightarrow> json list \<Rightarrow> (asset_id \<times> string) list \<Rightarrow> json list" where
  "merge_assets B previous selected =
     map snd (fold (\<lambda>s. obj_put (asset_name (fst s)) (asset_json B s)) selected
       (fold (\<lambda>v. obj_put (json_id v) v) previous []))"

definition runtime_source :: json where
  "runtime_source = JObj
     [(''repository'', JStr ''https://github.com/GravitLauncher/LauncherRuntime''),
      (''revision'', JStr ''755e5509b1f573817a977b4180a2f84517619025''), (''file'', JStr ''runtime'')]"

record 'r customized =
  cu_assets :: "json list"
  cu_backups :: "string list"
  cu_build :: "artifact list \<times> 'r"

definition customize_launcher ::
  "('w, 'r) builder \<Rightarrow> (asset_id \<times> string option) list \<Rightarrow> ('w, 'r customized) io" where
  "customize_launcher B files =
     (let selected = List.map_filter (\<lambda>(a, b). map_option (Pair a) b) files in
      thenDo (throwIf (selected = []) (Error ''Select at least one launcher PNG asset''))
      (thenDo (forEach selected (\<lambda>(a, b). validate_asset a b))
      (andThen (b_ensure_runtime B) (\<lambda>runtime.
       andThen (backup_customization_file B customization_manifest) (\<lambda>manifestBackup.
       andThen (save_assets B selected False) (\<lambda>backups.
       tryCatch
         (andThen (customization_state B) (\<lambda>previous.
          let assets = merge_assets B (snd previous) selected in
          thenDo (vol_write (b_volume B) customization_manifest
            (profile_text (b_host B) [(''source'', runtime_source), (''assets'', JArr assets)]) M0600)
          (thenDo (b_progress B 30 ''Launcher customization saved; rebuilding artifacts'')
          (andThen (build_launcher_with_runtime B runtime) (\<lambda>build.
            ret \<lparr>cu_assets = assets,
              cu_backups = (case manifestBackup of Some b \<Rightarrow> b # backups | None \<Rightarrow> backups),
              cu_build = build\<rparr>)))))
         (customize_failed B True)))))))"

section \<open>The loader installer\<close>

definition loader_name :: "loader \<Rightarrow> string" where
  "loader_name l = (case l of VANILLA \<Rightarrow> ''VANILLA'' | FORGE \<Rightarrow> ''FORGE'' | NEOFORGE \<Rightarrow> ''NEOFORGE''
     | FABRIC \<Rightarrow> ''FABRIC'' | QUILT \<Rightarrow> ''QUILT'')"

definition given :: "string option \<Rightarrow> bool" where
  "given v \<longleftrightarrow> (case v of Some s \<Rightarrow> s \<noteq> [] | None \<Rightarrow> False)"

definition installer_path :: "loader \<Rightarrow> string \<Rightarrow> string \<Rightarrow> string" where
  "installer_path l version ext = path_join [workspace_dir, ''installers'',
     js_lower (loader_name l) @ ''-'' @ version @ ext]"

definition installer_paths :: "loader \<Rightarrow> string \<Rightarrow> string list" where
  "installer_paths l version =
     [installer_path l version ''-installer-nogui.jar'', installer_path l version ''-installer.jar'']"

definition loader_cache :: "loader \<Rightarrow> string \<Rightarrow> string" where
  "loader_cache l version = path_join [workspace_dir, ''clients'', js_lower (loader_name l), version]"

definition version_marker :: "loader \<Rightarrow> string \<Rightarrow> string" where
  "version_marker l version = path_join [workspace_dir, ''.gravit-panel-loader-versions'',
     js_lower (loader_name l) @ ''-'' @ version @ ''.txt'']"

definition cached_version ::
  "('w, 'r) builder \<Rightarrow> loader \<Rightarrow> string \<Rightarrow> string option \<Rightarrow> ('w, string option) io" where
  "cached_version B l version wanted =
     (case vol_read_file (b_volume B) of
        Some rd \<Rightarrow>
          if given wanted then
            andThen (vol_exists (b_volume B) (version_marker l version) AFile) (\<lambda>there.
              if there then andThen (rd (version_marker l version)) (\<lambda>s. ret (Some (js_trim s)))
              else ret None)
          else ret None
      | None \<Rightarrow> ret None)"

definition fetch_installer ::
  "('w, 'r) builder \<Rightarrow> loader \<Rightarrow> string \<Rightarrow> string option \<Rightarrow> ('w, unit) io" where
  "fetch_installer B l version wanted =
     andThen (b_download B l version wanted) (\<lambda>a.
     let target = path_join [workspace_dir, ''installers'', in_filename a] in
     thenDo (throwIf (target \<notin> set (installer_paths l version))
       (Error (''Resolved an unexpected installer filename: '' @ in_filename a)))
     (thenDo (vol_write (b_volume B) target (in_bytes a) M0600)
     (thenDo (vol_write (b_volume B) (version_marker l version) (in_version a @ [CHR 0x0A]) M0644)
     (thenDo (b_log B (''Resolved '' @ loader_name l @ '' '' @ in_version a @ '' for Minecraft '' @ version))
       (b_log B (''Verified '' @ in_filename a @ '': sha256:'' @ in_sha256 a))))))"

definition ensure_loader_installer ::
  "('w, 'r) builder \<Rightarrow> loader \<Rightarrow> string \<Rightarrow> string option \<Rightarrow> ('w, unit) io" where
  "ensure_loader_installer B l version wanted =
     (if l \<noteq> FORGE \<and> l \<noteq> NEOFORGE then ret ()
      else andThen (promise_both (vol_exists (b_volume B) (installer_paths l version ! 0) AFile)
          (promise_both (vol_exists (b_volume B) (installer_paths l version ! 1) AFile)
            (vol_exists (b_volume B) (loader_cache l version) ADirectory))) (\<lambda>(noGui, gui, cache).
        andThen (cached_version B l version wanted) (\<lambda>cached.
        let present = (noGui \<or> gui \<or> cache) in
        if present \<and> (\<not> given wanted \<or> cached = wanted) then
          b_log B (''Reusing cached '' @ loader_name l @
            (if given cached then '' '' @ the cached else []) @ '' installer data for Minecraft '' @ version)
        else
          thenDo (do_when (given wanted \<and> present)
            (thenDo (b_log B (''Replacing cached '' @ loader_name l @ '' '' @
               (case cached of Some c \<Rightarrow> c | None \<Rightarrow> ''with unknown version'') @ '' with '' @ the wanted))
             (andThen (promise_all (map (\<lambda>p. vol_remove (b_volume B) p False) (installer_paths l version) @
                [vol_remove (b_volume B) (loader_cache l version) True])) (\<lambda>_. ret ()))))
          (thenDo (b_progress B 30 (''Downloading '' @ loader_name l @ '' installer for Minecraft '' @ version))
          (tryCatch (fetch_installer B l version wanted) (\<lambda>e.
            thenDo (all_settled (map (\<lambda>p. vol_remove (b_volume B) p False) (installer_paths l version)))
            (raise (Error (''Failed to prepare '' @ loader_name l @ '' installer for Minecraft '' @ version @
              '': '' @ error_message e)))))))))"

section \<open>Building a client\<close>

record build_input =
  bu_name :: string
  bu_version :: string
  bu_loader :: loader
  bu_loader_version :: "string option"
  bu_mods :: "string list"

record build_result =
  br_loader_version :: "string option"
  br_profile :: string
  br_updates :: string
  br_authlib :: string

definition previous_profile :: "('w, 'r) builder \<Rightarrow> string \<Rightarrow> ('w, (string \<times> json) list option) io" where
  "previous_profile B name =
     (case vol_read_file (b_volume B) of
        None \<Rightarrow> ret None
      | Some rd \<Rightarrow>
          andThen (vol_exists (b_volume B) (profile_path name) AFile) (\<lambda>there.
          if \<not> there then ret None
          else tryCatch (andThen (rd (profile_path name)) (\<lambda>raw.
              case h_parse (b_host B) raw of
                None \<Rightarrow> throw_error ''JSON''
              | Some (JObj p) \<Rightarrow> ret (Some p)
              | Some _ \<Rightarrow> ret None))
            (\<lambda>_. thenDo (b_log B (''Existing profile '' @ name @
                '' is invalid; its identity metadata cannot be preserved'')) (ret None))))"

text \<open>
  The stable identity of a rebuilt profile: each field of the old profile that is usable replaces the
  generated one. The flag tells whether any did.
\<close>

definition keep_field ::
  "string \<Rightarrow> (json \<Rightarrow> bool) \<Rightarrow> (string \<times> json) list \<Rightarrow> (string \<times> json) list \<times> bool \<Rightarrow> (string \<times> json) list \<times> bool" where
  "keep_field k usable old = (\<lambda>(p, kept).
     case map_of old k of
       Some v \<Rightarrow> if usable v then (obj_put k v p, True) else (p, kept)
     | None \<Rightarrow> (p, kept))"

definition usable_text :: "json \<Rightarrow> bool" where
  "usable_text v = (case v of JStr s \<Rightarrow> js_trim s \<noteq> [] | _ \<Rightarrow> False)"

definition usable_uuid :: "json \<Rightarrow> bool" where
  "usable_uuid v = (case v of JStr s \<Rightarrow> full_match profile_uuid_rx s | _ \<Rightarrow> False)"

definition usable_list :: "json \<Rightarrow> bool" where
  "usable_list v = (case v of JArr _ \<Rightarrow> True | _ \<Rightarrow> False)"

definition keep_identity :: "(string \<times> json) list \<Rightarrow> (string \<times> json) list \<Rightarrow> (string \<times> json) list \<times> bool" where
  "keep_identity old generated =
     keep_field ''servers'' usable_list old
     (keep_field ''sortIndex'' (\<lambda>v. safe_int v \<noteq> None) old
     (keep_field ''info'' usable_text old
     (keep_field ''title'' usable_text old
     (keep_field ''uuid'' usable_uuid old (generated, False)))))"

definition check_build :: "build_input \<Rightarrow> ('w, string) io" where
  "check_build i =
     thenDo (validate_profile (bu_name i))
     (thenDo (validate_version (bu_version i))
     (thenDo (forEach (bu_mods i) validate_mod)
     (andThen (ofSum (resolve_client_compatibility (bu_version i))) (\<lambda>authlib.
      thenDo (throwIf (given (bu_loader_version i) \<and> bu_loader i \<noteq> FORGE \<and> bu_loader i \<noteq> NEOFORGE)
        (Error ''Exact loader versions are supported for Forge and NeoForge builds''))
        (ret authlib)))))"

definition check_authlib :: "('w, 'r) builder \<Rightarrow> build_input \<Rightarrow> string \<Rightarrow> ('w, unit) io" where
  "check_authlib B i authlib =
     andThen (vol_exists (b_volume B)
         (path_join [''config'', ''MirrorHelper'', ''workspace'', ''authlib'', authlib]) AFile) (\<lambda>there.
     thenDo (throwIf (\<not> there) (Error (authlib @ '' is missing; apply the pinned MirrorHelper workspace first'')))
       (b_log B (''Compatibility decision: '' @ bu_version i @ '' requires '' @ authlib)))"

definition install_command :: "build_input \<Rightarrow> string" where
  "install_command i = ''installClient '' @ bu_name i @ '' '' @ bu_version i @ '' '' @ loader_name (bu_loader i) @
     (if bu_mods i = [] then [] else '' '' @ join_with '','' (bu_mods i))"

definition run_build :: "('w, 'r) builder \<Rightarrow> build_input \<Rightarrow> (string \<times> json) list option \<Rightarrow> ('w, unit) io" where
  "run_build B i previous =
     thenDo (case Option.bind previous asset_index_path of
         None \<Rightarrow> ret ()
       | Some path \<Rightarrow>
           andThen (vol_exists (b_volume B) path AFile) (\<lambda>there.
             do_when there (thenDo (b_log B (''Preparing existing Minecraft assets from '' @ path))
               (reload_profiles (b_host B) 15))))
     (thenDo (b_progress B 20 ''Configuring MirrorHelper client build'')
     (andThen (b_client_command B ''mirrorhelper setDisableDownloadAssets true'') (\<lambda>configLines.
      thenDo (log_lines (b_host B) configLines)
      (thenDo (ensure_loader_installer B (bu_loader i) (bu_version i) (bu_loader_version i))
      (thenDo (b_progress B 40 (''Building '' @ bu_name i @ '' with MirrorHelper''))
      (andThen (b_client_command B (install_command i)) (\<lambda>lines. log_lines (b_host B) lines)))))))"

definition generated_profile :: "('w, 'r) builder \<Rightarrow> build_input \<Rightarrow> ('w, (string \<times> json) list) io" where
  "generated_profile B i =
     andThen (promise_both (vol_exists (b_volume B) (profile_path (bu_name i)) AFile)
         (vol_exists (b_volume B) (path_join [''updates'', bu_name i]) ADirectory)) (\<lambda>(hasProfile, hasUpdates).
     thenDo (throwIf (\<not> hasProfile \<or> \<not> hasUpdates)
       (Error ''MirrorHelper did not produce the expected profile and updates directory''))
     (andThen (read_profile_config (b_host B) (bu_name i)) (\<lambda>(raw, generated).
      let (removed, cleaned) = (if bu_loader i = NEOFORGE then remove_installer_libraries generated
            else ([], generated)) in
      thenDo (do_when (removed \<noteq> [])
        (thenDo (vol_write (b_volume B) (profile_path (bu_name i)) (profile_text (b_host B) cleaned) M0644)
          (b_log B (''Removed '' @ show_nat (length removed) @
             '' NeoForge installer-only libraries from the runtime classpath''))))
        (ret cleaned))))"

definition check_loader_version :: "build_input \<Rightarrow> string option \<Rightarrow> ('w, unit) io" where
  "check_loader_version i built =
     throwIf (given (bu_loader_version i) \<and> built \<noteq> bu_loader_version i)
       (Error (''MirrorHelper built '' @ loader_name (bu_loader i) @ '' '' @
         (case built of Some v \<Rightarrow> v | None \<Rightarrow> ''without a detectable version'') @
         '' instead of requested '' @ the (bu_loader_version i)))"

definition sync_assets ::
  "('w, 'r) builder \<Rightarrow> build_input \<Rightarrow> (string \<times> json) list \<Rightarrow> string \<Rightarrow> ('w, unit) io" where
  "sync_assets B i generated index =
     (let dir = the (matched_field generated ''assetDir'' asset_segment_rx);
          assetIndex = the (matched_field generated ''assetIndex'' asset_segment_rx) in
      andThen (vol_exists (b_volume B) index AFile) (\<lambda>there.
      thenDo (do_when (\<not> there)
        (thenDo (case vol_prepare_host (b_volume B) of
             Some prepare \<Rightarrow> prepare (path_join [''updates'', dir]) | None \<Rightarrow> ret ())
          (b_ensure_assets B (bu_version i) dir assetIndex)))
      (andThen (vol_exists (b_volume B) index AFile) (\<lambda>there.
       thenDo (throwIf (\<not> there) (Error (''Minecraft asset sync did not produce '' @ index)))
         (b_log B (''Verified Minecraft asset index '' @ index))))))"

definition preserve_identity ::
  "('w, 'r) builder \<Rightarrow> build_input \<Rightarrow> (string \<times> json) list option \<Rightarrow> (string \<times> json) list \<Rightarrow> ('w, unit) io" where
  "preserve_identity B i previous generated =
     (case previous of
        None \<Rightarrow> ret ()
      | Some old \<Rightarrow>
          let (next_p, kept) = keep_identity old generated in
          do_when kept
            (thenDo (vol_write (b_volume B) (profile_path (bu_name i)) (profile_text (b_host B) next_p) M0644)
              (b_log B (''Preserved stable identity and metadata for profile '' @ bu_name i))))"

definition build_client :: "('w, 'r) builder \<Rightarrow> build_input \<Rightarrow> ('w, build_result) io" where
  "build_client B i =
     andThen (check_build i) (\<lambda>authlib.
     thenDo (check_authlib B i authlib)
     (andThen (previous_profile B (bu_name i)) (\<lambda>previous.
      thenDo (run_build B i previous)
      (andThen (generated_profile B i) (\<lambda>generated.
       thenDo (check_loader_version i (infer_loader_version generated))
       (case asset_index_path generated of
          None \<Rightarrow> throw_error ''MirrorHelper produced a profile without a safe assetDir and assetIndex''
        | Some index \<Rightarrow>
            thenDo (sync_assets B i generated index)
            (thenDo (preserve_identity B i previous generated)
            (thenDo (reload_profiles (b_host B) 90)
            (thenDo (b_progress B 95 ''Client profile and update files verified'')
              (ret \<lparr>br_loader_version = infer_loader_version generated,
                br_profile = host_path B (profile_path (bu_name i)),
                br_updates = host_path B (path_join [''updates'', bu_name i]),
                br_authlib = authlib\<rparr>))))))))))"

end
