(* ===== verification/Client_Build_Properties.thy ===== *)
theory Client_Build_Properties
  imports Client_Build Profile_Properties
begin

text \<open>
  What the long jobs of \<^verbatim>\<open>client-build.service.ts\<close> promise: downloads of launcher artifacts stay in the
  launcher's directory, a rebuilt profile keeps its identity, and the workspace is tried a bounded
  number of times.
\<close>

section \<open>Artifacts\<close>

lemma resolved_plain: "plain_path (resolved p)"
proof -
  obtain k ts where "norm_segs False [] (split_slash p) = replicate k ''..'' @ ts" "plain_path ts" "k > 0 \<longrightarrow> False"
    using norm_segs_normal[OF split_slash_no_slash] by metis
  then show ?thesis by (simp add: resolved_def)
qed

lemma common_rest_split:
  "common_rest as bs = (up, down) \<Longrightarrow> \<exists>c. as = c @ up \<and> bs = c @ down"
proof (induction as bs rule: common_rest.induct)
  case (1 a as b bs)
  show ?case
  proof (cases "a = b")
    case True
    with 1 obtain c where "as = c @ up" "bs = c @ down" by auto
    with True show ?thesis by (intro exI[of _ "a # c"]) simp
  next
    case False
    with 1(2) show ?thesis by (intro exI[of _ "[]"]) auto
  qed
qed auto

definition inside :: "string \<Rightarrow> string \<Rightarrow> bool" where
  "inside rootPath p \<longleftrightarrow> (\<exists>down. down \<noteq> [] \<and> plain_path down \<and> resolved p = resolved rootPath @ down)"

lemma assert_inside_ok:
  assumes "assert_inside rootPath p = Inr q"
  shows "q = p \<and> inside rootPath p"
proof -
  obtain up down where c: "common_rest (resolved rootPath) (resolved p) = (up, down)"
    by (cases "common_rest (resolved rootPath) (resolved p)")
  have child: "\<not> prefix ''..'' (path_relative rootPath p)" "path_relative rootPath p \<noteq> []" "q = p"
    using assms by (auto simp: assert_inside_def Let_def split: if_splits)
  have "up = []"
  proof (cases up)
    case (Cons u us)
    then have "prefix ''..'' (path_relative rootPath p)"
      by (cases "map (\<lambda>_. ''..'') us @ down") (auto simp: path_relative_def c prefix_def)
    with child show ?thesis by blast
  qed
  moreover have "down \<noteq> []" using child(2) \<open>up = []\<close> by (auto simp: path_relative_def c)
  moreover have "resolved p = resolved rootPath @ down"
    using common_rest_split[OF c] \<open>up = []\<close> by auto
  moreover have "plain_path down" using resolved_plain[of p] calculation(3) by simp
  ultimately show ?thesis using child(3) by (auto simp: inside_def)
qed

lemma wp_throw_error [wp_simps]: "wp (throw_error m) Q E s = E (Error m) s"
  by (simp add: throw_error_def wp_simps)

text \<open>The path that \<open>artifactPath\<close> hands to the download route lies inside the launcher directory of the
  installation, below it and never the directory itself, whatever \<open>LaunchServer.json\<close> configures.\<close>

theorem artifact_path_stays_inside:
  assumes "artifact_path B v s = (Inr (Some p), t)"
  shows "\<exists>down. down \<noteq> [] \<and> plain_path down \<and> resolved p = resolved (launcher_root (b_host B)) @ down"
proof -
  have "wp (artifact_path B v) (\<lambda>r t. \<forall>p. r = Some p \<longrightarrow> inside (launcher_root (b_host B)) p) (\<lambda>_ _. True) s"
    unfolding artifact_path_def wp_andThen Let_def
    apply (rule wp_any)
     apply (rule wp_option_intro)
      apply (unfold wp_andThen, rule wp_any)
       apply (auto simp: wp_simps split: sum.splits dest!: assert_inside_ok)
    done
  from wp_returns[OF this assms] show ?thesis by (auto simp: inside_def)
qed

definition artifact_builder :: "(memory, unit) builder" where
  "artifact_builder = \<lparr>b_host = memory_host True (\<lambda>_. Some (JObj [])) (\<lambda>_. []),
     b_install_module = (\<lambda>_ _. ret ()), b_fetch = (\<lambda>_ _ _. ret []), b_client_command = (\<lambda>_. ret []),
     b_build_command = (\<lambda>_. ret []), b_ensure_runtime = ret (),
     b_download = (\<lambda>_ _ _. raise (Error ''offline'')), b_restart = None,
     b_ensure_assets = (\<lambda>_ _ _. ret ()), b_local_read = (\<lambda>_. ret ''bytes''),
     b_lstat = (\<lambda>p. ret (Some \<lparr>ls_is_file = True, ls_length = 5, ls_mtime = ''2024''\<rparr>)), b_hash = (\<lambda>b. b)\<rparr>"

lemma artifact_path_stays_inside_witness:
  "\<exists>down. resolved ''/srv/launcher/updates/Launcher.exe'' = [''srv'', ''launcher''] @ down \<and> down \<noteq> []"
proof -
  let ?o = "artifact_path artifact_builder WindowsX64 (\<lambda>_. None)"
  have "fst ?o = Inr (Some ''/srv/launcher/updates/Launcher.exe'')" by code_simp
  then obtain t where "?o = (Inr (Some ''/srv/launcher/updates/Launcher.exe''), t)" by (cases ?o) auto
  moreover have "resolved (launcher_root (b_host artifact_builder)) = [''srv'', ''launcher'']" by code_simp
  ultimately show ?thesis using artifact_path_stays_inside by metis
qed

section \<open>Identity\<close>

lemma keep_field_lookup [simp]:
  "map_of (fst (keep_field k usable old pk)) x =
     (if x = k \<and> (\<exists>v. map_of old k = Some v \<and> usable v) then map_of old k else map_of (fst pk) x)"
  by (cases pk) (auto simp: keep_field_def map_of_obj_put split: option.splits)

lemma keep_field_flag [simp]:
  "snd (keep_field k usable old pk) \<longleftrightarrow> snd pk \<or> (\<exists>v. map_of old k = Some v \<and> usable v)"
  by (cases pk) (auto simp: keep_field_def split: option.splits)

text \<open>The fields of a profile that a rebuild keeps, and when each is usable.\<close>

definition identity_fields :: "(string \<times> (json \<Rightarrow> bool)) list" where
  "identity_fields = [(''uuid'', usable_uuid), (''title'', usable_text), (''info'', usable_text),
     (''sortIndex'', \<lambda>v. safe_int v \<noteq> None), (''servers'', usable_list)]"

definition has_identity :: "(string \<times> json) list \<Rightarrow> bool" where
  "has_identity old \<longleftrightarrow> list_ex (\<lambda>(k, u). case map_of old k of Some v \<Rightarrow> u v | None \<Rightarrow> False) identity_fields"

definition same_identity :: "(string \<times> json) list \<Rightarrow> (string \<times> json) list \<Rightarrow> bool" where
  "same_identity old p \<longleftrightarrow>
     list_all (\<lambda>(k, u). case map_of old k of Some v \<Rightarrow> u v \<longrightarrow> map_of p k = Some v | None \<Rightarrow> True) identity_fields"

lemma keep_identity_keeps: "same_identity old (fst (keep_identity old generated))"
  by (auto simp: same_identity_def identity_fields_def keep_identity_def split: option.splits)

lemma keep_identity_flag: "snd (keep_identity old generated) \<longleftrightarrow> has_identity old"
  by (auto simp: has_identity_def identity_fields_def keep_identity_def split: option.splits)

text \<open>
  A host on which a client is built: what the asset download and the preparation of the host
  directory do to the profiles of the installation (nothing), and that reading a file that is there
  succeeds.
\<close>

locale client_host = profile_host "b_host B" file_at
  for B :: "('w, 'r) builder" and file_at :: "'w \<Rightarrow> string \<Rightarrow> string option" +
  assumes prepare_keeps: "vol_prepare_host (b_volume B) = Some prepare \<Longrightarrow>
      keeps (\<lambda>w. file_at w (profile_path name)) (prepare p)"
    and assets_keep: "keeps (\<lambda>w. file_at w (profile_path name)) (b_ensure_assets B v d x)"
    and reads: "vol_read_file (b_volume B) = Some rd \<Longrightarrow> file_at w p = Some c \<Longrightarrow> fst (rd p w) = Inr c"
begin

abbreviation stored :: "build_input \<Rightarrow> 'w \<Rightarrow> string option" where
  "stored i w \<equiv> file_at w (profile_path (bu_name i))"

lemma keeps_stored: "keeps file_at p \<Longrightarrow> keeps (stored i) p"
  by (rule keeps_at)

lemma wp_kept:
  assumes "keeps v p" and "\<And>x t. v t = v s \<Longrightarrow> Q x t" and "\<And>e t. v t = v s \<Longrightarrow> E e t"
  shows "wp p Q E s"
  by (rule wp_mono[OF keeps_wp[OF assms(1)]]) (use assms(2,3) in auto)

lemma check_build_keeps: "wp (check_build i) (\<lambda>_ t. t = s \<and> full_match profile_rx (bu_name i)) (\<lambda>_ _. True) s"
proof -
  have k: "keeps (\<lambda>w. w) (forEach ms validate_mod)" for ms
    by (intro keeps_intros) (simp add: validate_mod_def keeps_intros)
  show ?thesis
    unfolding check_build_def wp_thenDo wp_andThen validate_profile_def validate_version_def wp_throwIf wp_ofSum
    by (auto intro!: wp_kept[OF k] simp: wp_simps split: sum.split)
qed

lemma previous_profile_found:
  assumes "vol_read_file (b_volume B) = Some rd" and "stored i s = Some raw"
    and "h_parse (b_host B) raw = Some (JObj old)"
  shows "wp (previous_profile B (bu_name i)) (\<lambda>r t. r = Some old) (\<lambda>_ _. True) s"
  unfolding previous_profile_def assms(1) option.case wp_andThen
proof (rule wp_result[THEN iffD2], intro conjI allI impI)
  fix there t
  assume e: "vol_exists (b_volume B) (profile_path (bu_name i)) AFile s = (Inr there, t)"
  have there: there using exists_misses[of "profile_path (bu_name i)" s t] e assms(2) by (cases there) auto
  have "stored i t = Some raw" using keepsD[OF exists_keeps e] assms(2) by simp
  from reads[OF assms(1) this] obtain u where "rd (profile_path (bu_name i)) t = (Inr raw, u)"
    by (cases "rd (profile_path (bu_name i)) t") auto
  then show "wp (if \<not> there then ret None else tryCatch (andThen (rd (profile_path (bu_name i))) (\<lambda>raw.
        case h_parse (b_host B) raw of None \<Rightarrow> throw_error ''JSON''
        | Some (JObj p) \<Rightarrow> ret (Some p) | Some _ \<Rightarrow> ret None))
      (\<lambda>_. thenDo (b_log B (''Existing profile '' @ bu_name i @
          '' is invalid; its identity metadata cannot be preserved'')) (ret None)))
      (\<lambda>r t. r = Some old) (\<lambda>_ _. True) t"
    using there assms(3) by (simp add: wp_def exec_simps)
qed simp

lemma generated_stored: "wp (generated_profile B i) (\<lambda>_ t. stored i t \<noteq> None) (\<lambda>_ _. True) s"
proof -
  have after: "wp (thenDo (do_when b (thenDo (vol_write (b_volume B) (profile_path (bu_name i)) c M0644) (b_log B m))) (ret x))
      (\<lambda>_ t. stored i t \<noteq> None) (\<lambda>_ _. True) t" if "stored i t \<noteq> None" for b c m x t
    unfolding wp_thenDo wp_do_when wp_ret using that
    by (auto intro!: wp_write wp_kept[OF keeps_stored[where i = i, OF log_keeps]])
  show ?thesis
    unfolding generated_profile_def wp_andThen wp_thenDo case_prod_beta Let_def
    apply (rule wp_any)
     apply (simp only: wp_throwIf)
     apply (split if_split, intro conjI impI, simp)
     apply (rule read_config)
      apply (simp only: prod.case wp_thenDo[symmetric], rule after, simp)
     apply simp
    apply simp
    done
qed

lemma sync_assets_keeps: "keeps (stored i) (sync_assets B i generated index)"
  unfolding sync_assets_def Let_def
  by (intro keeps_intros assets_keep keeps_stored[OF exists_keeps] keeps_stored[OF log_keeps])
    (auto intro: keeps_intros prepare_keeps split: option.split)

lemma identity_written:
  assumes "stored i s \<noteq> None" and "has_identity old"
  shows "wp (preserve_identity B i (Some old) generated)
    (\<lambda>_ t. \<exists>p. stored i t = Some (profile_text (b_host B) p) \<and> same_identity old p) (\<lambda>_ _. True) s"
  using assms keep_identity_flag[of old generated] keep_identity_keeps[of old generated]
  unfolding preserve_identity_def option.case case_prod_beta Let_def wp_do_when wp_thenDo
  by (auto intro!: wp_write wp_kept[OF keeps_stored[where i = i, OF log_keeps]])

lemma build_keeps_identity:
  assumes "vol_read_file (b_volume B) = Some rd" and "stored i s = Some raw"
    and "h_parse (b_host B) raw = Some (JObj old)" and "has_identity old"
  shows "wp (build_client B i) (\<lambda>_ t. \<exists>p. stored i t = Some (profile_text (b_host B) p) \<and> same_identity old p)
    (\<lambda>_ _. True) s"
proof -
  let ?Q = "\<lambda>t. \<exists>p. stored i t = Some (profile_text (b_host B) p) \<and> same_identity old p"
  have authlib: "keeps (stored i) (check_authlib B i a)" for a
    unfolding check_authlib_def by (intro keeps_intros keeps_stored exists_keeps log_keeps)
  have finish: "wp (reload_profiles (b_host B) 90) (\<lambda>_. wp (b_progress B 95 m) (\<lambda>_. wp (ret r) (\<lambda>_. ?Q) (\<lambda>_ _. True)) (\<lambda>_ _. True))
      (\<lambda>_ _. True) t" if "?Q t" "full_match profile_rx (bu_name i)" for t m r
    using that by (auto intro!: wp_kept[OF reload_keeps] wp_kept[OF keeps_stored[where i = i, OF progress_keeps]] simp: wp_simps)
  show ?thesis
    unfolding build_client_def wp_andThen wp_thenDo
  proof (rule wp_mono[OF check_build_keeps])
    fix authlib t assume t: "t = s \<and> full_match profile_rx (bu_name i)"
    have loader: "wp (check_loader_version i v) Q (\<lambda>_ _. True) u" if "Q () u" for v Q u
      using that by (simp add: check_loader_version_def wp_simps)
    have rest: "wp (case asset_index_path g of None \<Rightarrow> throw_error m | Some index \<Rightarrow>
          thenDo (sync_assets B i g index) (thenDo (preserve_identity B i (Some old) g)
            (thenDo (reload_profiles (b_host B) 90) (thenDo (b_progress B 95 n) (ret (r index))))))
        (\<lambda>_. ?Q) (\<lambda>_ _. True) u" if "stored i u \<noteq> None" for g m n u and r :: "string \<Rightarrow> build_result"
      unfolding wp_thenDo
      apply (rule wp_option_intro)
       apply (unfold wp_thenDo)
       apply (rule wp_kept[OF sync_assets_keeps])
        apply (rule wp_mono[OF identity_written[OF _ assms(4)]])
          apply (simp add: that)
         apply (rule finish, assumption, rule conjunct2[OF t])
        apply (simp_all add: wp_throw_error)
      done
    show "wp (check_authlib B i authlib) (\<lambda>_. wp (previous_profile B (bu_name i)) (\<lambda>previous.
        wp (run_build B i previous) (\<lambda>_. wp (generated_profile B i) (\<lambda>generated.
        wp (check_loader_version i (infer_loader_version generated)) (\<lambda>_.
        wp (case asset_index_path generated of
          None \<Rightarrow> throw_error ''MirrorHelper produced a profile without a safe assetDir and assetIndex''
        | Some index \<Rightarrow>
            thenDo (sync_assets B i generated index)
            (thenDo (preserve_identity B i previous generated)
            (thenDo (reload_profiles (b_host B) 90)
            (thenDo (b_progress B 95 ''Client profile and update files verified'')
              (ret \<lparr>br_loader_version = infer_loader_version generated,
                br_profile = host_path B (profile_path (bu_name i)),
                br_updates = host_path B (path_join [''updates'', bu_name i]),
                br_authlib = authlib\<rparr>))))) (\<lambda>_. ?Q) (\<lambda>_ _. True)) (\<lambda>_ _. True)) (\<lambda>_ _. True)) (\<lambda>_ _. True))
          (\<lambda>_ _. True)) (\<lambda>_ _. True) t"
      apply (rule wp_kept[OF authlib])
       apply (rule wp_mono[OF previous_profile_found[OF assms(1)]])
          apply (use t assms(2,3) in \<open>auto intro!: wp_any wp_mono[OF generated_stored] loader rest\<close>)
      done
  qed simp
qed

end

text \<open>
  A builder over the container in memory: directories count as present, and \<open>installClient\<close> changes
  the files as \<open>build\<close> says.
\<close>

definition build_ops :: "memory volume_ops" where
  "build_ops = memory_ops\<lparr>vol_exists := (\<lambda>p k. if k = AFile then cv_exists mem_run p AFile else ret True)\<rparr>"

definition memory_builder ::
  "(string \<Rightarrow> json option) \<Rightarrow> (json \<Rightarrow> string) \<Rightarrow> (memory \<Rightarrow> memory) \<Rightarrow> (memory, unit) builder" where
  "memory_builder parse stringify build = \<lparr>b_host = (memory_host True parse stringify)\<lparr>h_volume := build_ops\<rparr>,
     b_install_module = (\<lambda>_ _. ret ()), b_fetch = (\<lambda>_ _ _. ret []),
     b_client_command = (\<lambda>c. if prefix ''installClient'' c then thenDo (writing build) (ret []) else ret []),
     b_build_command = (\<lambda>_. ret []), b_ensure_runtime = ret (),
     b_download = (\<lambda>_ _ _. raise (Error ''offline'')), b_restart = None,
     b_ensure_assets = (\<lambda>_ _ _. ret ()), b_local_read = (\<lambda>_. raise (Error ''ENOENT'')),
     b_lstat = (\<lambda>_. ret None), b_hash = (\<lambda>b. b)\<rparr>"

lemma build_ops_simps [simp]:
  "vol_read_file build_ops = vol_read_file memory_ops" "vol_list_files build_ops = vol_list_files memory_ops"
  "vol_ensure_directory build_ops = vol_ensure_directory memory_ops" "vol_write build_ops = vol_write memory_ops"
  "vol_copy build_ops = vol_copy memory_ops" "vol_move build_ops = vol_move memory_ops"
  "vol_remove build_ops = vol_remove memory_ops" "vol_sha256 build_ops = vol_sha256 memory_ops"
  "vol_prepare_host build_ops = vol_prepare_host memory_ops"
  "vol_exists build_ops p AFile = vol_exists memory_ops p AFile" "vol_exists build_ops p ADirectory = ret True"
  by (simp_all add: build_ops_def container_ops_def)

lemma build_ops_contract: "file_volume build_ops (\<lambda>w. at_path w)"
proof -
  note c = memory.keeps_contract[of "\<lambda>_. ''1''" "\<lambda>a b. a \<le> b" 0 0, unfolded file_volume_def]
  have "keeps (\<lambda>w. at_path w) (vol_exists build_ops p k)" for p k
    using c by (cases k) (auto intro: keeps_intros)
  then have ex: "\<forall>p k. keeps (\<lambda>w. at_path w) (vol_exists build_ops p k)" by blast
  show ?thesis unfolding file_volume_def build_ops_simps
    using c ex by (elim conjE) (intro conjI; assumption)
qed

lemma mem_prepare_keeps: "keeps v (cv_prepare_host_directory mem_run u g p)"
  unfolding cv_prepare_host_directory_def checked_def
  by (intro keeps_intros) (simp_all add: keeps_def mem_run_simps)

lemma mem_reads: "at_path w p = Some c \<Longrightarrow> fst (cv_read_file mem_run p w) = Inr c"
  by (auto simp: at_path_def cv_read_file_def exec_simps mem_run_simps split: sum.splits)

interpretation memory_client: client_host "memory_builder parse stringify build" "\<lambda>w. at_path w"
proof -
  have "profile_host (b_host (memory_builder parse stringify build)) (\<lambda>w. at_path w)"
    using memory_profiles.profile_host_axioms[of True parse stringify] build_ops_contract
    by (simp add: profile_host_def profile_host_axioms_def memory_builder_def memory_host_def)
  then show "client_host (memory_builder parse stringify build) (\<lambda>w. at_path w)"
    unfolding client_host_def client_host_axioms_def
    by (auto simp: memory_builder_def container_ops_def mem_prepare_keeps mem_reads keeps_intros)
qed


definition old_profile :: "(string \<times> json) list" where
  "old_profile = [(''uuid'', JStr ''12345678-1234-1234-8234-123456789abc''), (''title'', JStr ''Main'')]"

definition new_profile :: "(string \<times> json) list" where
  "new_profile = [(''uuid'', JStr ''99999999-1234-1234-8234-123456789abc''), (''assetDir'', JStr ''assets''),
     (''assetIndex'', JStr ''17'')]"

definition sample_build :: build_input where
  "sample_build = \<lparr>bu_name = ''main'', bu_version = ''1.20.4'', bu_loader = VANILLA,
     bu_loader_version = None, bu_mods = []\<rparr>"

abbreviation sample_builder :: "(memory, unit) builder" where
  "sample_builder \<equiv> memory_builder
     (\<lambda>raw. Some (JObj (if raw = ''old'' then old_profile else new_profile)))
     (\<lambda>v. if json_field v ''title'' = None then ''new'' else ''kept'')
     (\<lambda>w. w(''/app/data/profiles/main.json'' \<mapsto> ''generated''))"

definition build_world :: memory where
  "build_world = [''/app/data/profiles/main.json'' \<mapsto> ''old'',
     ''/app/data/config/MirrorHelper/workspace/authlib/LauncherAuthlib6.jar'' \<mapsto> ''jar'',
     ''/app/data/updates/assets/indexes/17.json'' \<mapsto> ''{}'']"


text \<open>
  A build that fails after MirrorHelper has written the profile leaves the generated one. The next
  build that succeeds takes it for the old profile, so the identity is lost: here the first build
  misses its asset index, the second one finds it and stores the new UUID without the old title.
\<close>

lemma failed_rebuild_loses_identity:
  "let index = ''/app/data/updates/assets/indexes/17.json'';
       (r, t) = build_client sample_builder sample_build (build_world(index := None));
       (r', u) = build_client sample_builder sample_build (t(index \<mapsto> ''{}''))
   in r = Inl (Error ''Minecraft asset sync did not produce updates/assets/indexes/17.json'') \<and>
      t ''/app/data/profiles/main.json'' = Some ''generated'' \<and>
      (case r' of Inr _ \<Rightarrow> True | Inl _ \<Rightarrow> False) \<and> u ''/app/data/profiles/main.json'' = Some (''new'' @ [CHR 0x0A])"
  by code_simp

section \<open>The workspace\<close>

text \<open>
  What a control session shows of the attempts: \<open>tries\<close> counts the commands sent, \<open>built\<close> says that the
  workspace directory is there. Attempts \<open>k\<close> to \<open>3\<close> are left.
\<close>

lemma workspace_attempts_bound:
  assumes log: "\<And>m. keeps tries (b_log B m)" and progress: "\<And>n m. keeps tries (b_progress B n m)"
    and ex: "\<And>p k. keeps tries (vol_exists (b_volume B) p k)"
    and rem: "\<And>p r. keeps tries (vol_remove (b_volume B) p r)"
    and abort: "keeps tries (h_check_abort (b_host B))"
    and command: "\<And>c w. tries (snd (b_client_command B c w)) = Suc (tries w)"
    and found: "\<And>w t. vol_exists (b_volume B) workspace_dir ADirectory w = (Inr True, t) \<Longrightarrow> built t"
    and "k + n = 3" and "0 < k"
  shows "wp (workspace_attempts B (Suc n) k)
    (\<lambda>_ t. built t \<and> tries s < tries t \<and> tries t \<le> tries s + Suc n) (\<lambda>_ t. tries t \<le> tries s + Suc n) s"
  using assms(8,9)
proof (induction n arbitrary: k s)
  let ?run = "\<lambda>k. tryCatch (thenDo (run_workspace B) (ret True)) (workspace_failed B k)"
  have run: "wp (run_workspace B) (\<lambda>_ t. built t \<and> tries t = Suc (tries s)) (\<lambda>_ t. tries t = Suc (tries s)) s" for s
  proof -
    have lines: "keeps tries (log_lines (b_host B) ls)" for ls
      unfolding log_lines_def by (intro keeps_intros log)
    have there: "wp (vol_exists (b_volume B) workspace_dir ADirectory)
        (\<lambda>b t. (b \<longrightarrow> built t) \<and> tries t = tries u) (\<lambda>_ t. tries t = tries u) u" for u
      unfolding wp_result using found keepsD[OF ex] by metis
    have sent: "wp (b_client_command B c) (\<lambda>_ t. tries t = Suc (tries s)) (\<lambda>_ t. tries t = Suc (tries s)) s" for c
      unfolding wp_result using command by (metis snd_conv)
    show ?thesis
      unfolding run_workspace_def wp_andThen wp_thenDo wp_throwIf
      by (rule wp_mono[OF sent], rule wp_mono[OF keeps_wp[OF lines]], rule wp_mono[OF there]) auto
  qed
  have failed: "wp (workspace_failed B k e) (\<lambda>b t. \<not> b \<and> k \<noteq> 3 \<and> tries t = tries u) (\<lambda>_ t. tries t = tries u) u" for k e u
    unfolding workspace_failed_def wp_thenDo wp_throwIf wp_ret
    by (rule wp_mono[OF keeps_wp[OF rem]])
      (auto intro!: wp_mono[OF keeps_wp[OF log]] wp_mono[OF keeps_wp[OF abort]])
  have once: "wp (?run k) (\<lambda>b t. (b \<longrightarrow> built t) \<and> (\<not> b \<longrightarrow> k \<noteq> 3) \<and> tries t = Suc (tries s))
      (\<lambda>_ t. tries t = Suc (tries s)) s" for k s
    unfolding wp_tryCatch wp_thenDo wp_ret
    by (rule wp_mono[OF run]) (auto intro!: wp_mono[OF failed])
  {
    case 0
    show ?case
      unfolding workspace_attempts.simps wp_thenDo wp_andThen
      by (rule wp_mono[OF keeps_wp[OF progress]], rule wp_mono[OF once]) (use 0 in \<open>auto simp: wp_simps\<close>)
  next
    case (Suc n)
    have again: "wp (workspace_attempts B (Suc n) (Suc k))
        (\<lambda>_ t. built t \<and> tries s < tries t \<and> tries t \<le> Suc (Suc (tries s + n))) (\<lambda>_ t. tries t \<le> Suc (Suc (tries s + n))) t"
      if "tries t = Suc (tries s)" for t
      by (rule wp_mono[OF Suc.IH]) (use that Suc.prems in auto)
    show ?case
      unfolding workspace_attempts.simps(2)[of B "Suc n"] wp_thenDo wp_andThen
      by (rule wp_mono[OF keeps_wp[OF progress]], rule wp_mono[OF once])
        (auto simp: wp_if wp_ret simp del: workspace_attempts.simps intro!: again)
  }
qed

text \<open>The workspace loop of \<open>applyWorkspace\<close> ends after at most three commands, whatever fails. It
  returns only after an attempt that left the workspace directory in place; otherwise it throws.\<close>

theorem workspace_is_tried_three_times:
  assumes "\<And>m. keeps tries (b_log B m)" and "\<And>n m. keeps tries (b_progress B n m)"
    and "\<And>p k. keeps tries (vol_exists (b_volume B) p k)" and "\<And>p r. keeps tries (vol_remove (b_volume B) p r)"
    and "keeps tries (h_check_abort (b_host B))"
    and "\<And>c w. tries (snd (b_client_command B c w)) = Suc (tries w)"
    and "\<And>w t. vol_exists (b_volume B) workspace_dir ADirectory w = (Inr True, t) \<Longrightarrow> built t"
    and "workspace_attempts B 3 1 s = (r, t)"
  shows "tries t \<le> tries s + 3 \<and> (r = Inr () \<longrightarrow> built t \<and> tries s < tries t)"
proof -
  have "wp (workspace_attempts B (Suc 2) 1)
      (\<lambda>_ t. built t \<and> tries s < tries t \<and> tries t \<le> tries s + Suc 2) (\<lambda>_ t. tries t \<le> tries s + Suc 2) s"
    by (rule workspace_attempts_bound[OF assms(1-6)]) (erule assms(7), simp_all)
  moreover have "Suc 2 = (3::nat)" by simp
  ultimately show ?thesis using assms(8) unfolding wp_result by (cases r) (auto simp del: workspace_attempts.simps)
qed

text \<open>A control server that counts the commands and creates the workspace with the second one.\<close>

definition second_try :: "(nat, unit) builder" where
  "second_try = \<lparr>b_host = \<lparr>h_volume = \<lparr>vol_exists = (\<lambda>_ _. reading (\<lambda>n. 2 \<le> n)), vol_read_file = None,
       vol_list_files = None, vol_ensure_directory = (\<lambda>_. ret ()), vol_prepare_host = None,
       vol_write = (\<lambda>_ _ _. ret ()), vol_copy = (\<lambda>_ _. ret ()), vol_move = (\<lambda>_ _. ret ()),
       vol_remove = (\<lambda>_ _. ret ()), vol_sha256 = None\<rparr>,
     h_log = (\<lambda>_. ret ()), h_progress = (\<lambda>_ _. ret ()), h_check_abort = ret (), h_sync_profiles = ret [],
     h_timestamp = (\<lambda>_. []), h_parse = (\<lambda>_. None), h_stringify = (\<lambda>_. []), h_root = ''/srv''\<rparr>,
     b_install_module = (\<lambda>_ _. ret ()), b_fetch = (\<lambda>_ _ _. ret []),
     b_client_command = (\<lambda>_. thenDo (writing Suc) (ret [])), b_build_command = (\<lambda>_. ret []),
     b_ensure_runtime = ret (), b_download = (\<lambda>_ _ _. raise (Error ''offline'')), b_restart = None,
     b_ensure_assets = (\<lambda>_ _ _. ret ()), b_local_read = (\<lambda>_. ret []), b_lstat = (\<lambda>_. ret None),
     b_hash = (\<lambda>b. b)\<rparr>"

lemma workspace_is_tried_three_times_witness:
  "workspace_attempts second_try 3 1 0 = (Inr (), 2) \<and> (2::nat) \<le> 0 + 3"
proof -
  have run: "workspace_attempts second_try 3 1 0 = (Inr (), 2)" by code_simp
  have k: "keeps (\<lambda>n. n) (b_log second_try m)" "keeps (\<lambda>n. n) (b_progress second_try k m)"
    "keeps (\<lambda>n. n) (vol_exists (b_volume second_try) p a)" "keeps (\<lambda>n. n) (vol_remove (b_volume second_try) p c)"
    "keeps (\<lambda>n. n) (h_check_abort (b_host second_try))" for m k p a c
    by (simp_all add: second_try_def keeps_def exec_simps)
  have c: "snd (b_client_command second_try m w) = Suc w" for m w
    by (simp add: second_try_def exec_simps)
  have f: "2 \<le> t" if "vol_exists (b_volume second_try) workspace_dir ADirectory w = (Inr True, t)" for w t :: nat
    using that by (simp add: second_try_def exec_simps)
  have "(2::nat) \<le> 0 + 3 \<and> (Inr () = (Inr () :: js_error + unit) \<longrightarrow> 2 \<le> (2::nat) \<and> 0 < (2::nat))"
    by (rule workspace_is_tried_three_times[where tries = "\<lambda>n. n" and built = "\<lambda>n. 2 \<le> n", OF k c f run])
  with run show ?thesis by simp
qed

end
