(* ===== verification/Web_Text.thy ===== *)
theory Web_Text
  imports Effects Patterns
begin

text \<open>
  Texts of the web: the escapes of \<open>encodeURIComponent\<close> and \<open>decodeURIComponent\<close>, and the cookies that
  \<^verbatim>\<open>panel-auth.service.ts\<close> parses and writes. A parsed URL is a value of the URL parser, which is a
  parameter of the routes.
\<close>

section \<open>Fields and paths\<close>

type_synonym ('w, 'a) web = "('w, js_error, 'a) exec"

text \<open>A field that holds a text; anything else reads as the empty text.\<close>

definition text_field :: "json \<Rightarrow> string \<Rightarrow> string" where
  "text_field v k = (case json_field v k of Some (JStr s) \<Rightarrow> s | _ \<Rightarrow> [])"

text \<open>\<open>replace(/\/+$/, '')\<close>\<close>

definition drop_slashes :: "string \<Rightarrow> string" where
  "drop_slashes s = rev (dropWhile (\<lambda>c. c = CHR ''/'') (rev s))"

section \<open>Escapes\<close>

definition hex_char :: "nat \<Rightarrow> char" where
  "hex_char n = (if n < 10 then char_of (48 + n) else char_of (55 + n))"

definition hex_code :: "char \<Rightarrow> nat option" where
  "hex_code c = (let n = of_char c :: nat in
     if 48 \<le> n \<and> n \<le> 57 then Some (n - 48)
     else if 65 \<le> n \<and> n \<le> 70 then Some (n - 55)
     else if 97 \<le> n \<and> n \<le> 102 then Some (n - 87) else None)"

definition unreserved :: "char \<Rightarrow> bool" where
  "unreserved c \<longleftrightarrow> is_alnum c \<or> c \<in> {CHR ''-'', CHR ''_'', CHR ''.'', CHR ''!'', CHR ''~'', CHR ''*'',
     CHR 0x27, CHR ''('', CHR '')''}"

definition escape_byte :: "nat \<Rightarrow> string" where
  "escape_byte n = [CHR ''%'', hex_char (n div 16), hex_char (n mod 16)]"

text \<open>The UTF-8 bytes of a code unit below 256.\<close>

definition utf8_bytes :: "char \<Rightarrow> nat list" where
  "utf8_bytes c = (let n = of_char c :: nat in if n < 128 then [n] else [192 + n div 64, 128 + n mod 64])"

definition encode_uri_component :: "string \<Rightarrow> string" where
  "encode_uri_component s =
     concat (map (\<lambda>c. if unreserved c then [c] else concat (map escape_byte (utf8_bytes c))) s)"

definition hex_byte :: "char \<Rightarrow> char \<Rightarrow> nat option" where
  "hex_byte a b = (case (hex_code a, hex_code b) of (Some m, Some n) \<Rightarrow> Some (16 * m + n) | _ \<Rightarrow> None)"

text \<open>
  \<open>None\<close> is a \<open>URIError\<close>, for a malformed escape or escapes that are no UTF-8; a code unit from 256 on has
  no value in the model and is \<open>None\<close> too.
\<close>

fun decode_uri_component :: "string \<Rightarrow> string option" where
  "decode_uri_component [] = Some []"
| "decode_uri_component (c # cs) =
     (if c \<noteq> CHR ''%'' then map_option ((#) c) (decode_uri_component cs)
      else (case cs of
          a # b # r \<Rightarrow> (case hex_byte a b of
              None \<Rightarrow> None
            | Some n \<Rightarrow>
                if n < 128 then map_option ((#) (char_of n)) (decode_uri_component r)
                else if n < 194 \<or> 196 \<le> n then None
                else (case r of
                    p # d # e # u \<Rightarrow>
                      (if p \<noteq> CHR ''%'' then None
                       else (case hex_byte d e of
                           None \<Rightarrow> None
                         | Some m \<Rightarrow> if m < 128 \<or> 192 \<le> m then None
                             else map_option ((#) (char_of ((n - 192) * 64 + (m - 128)))) (decode_uri_component u)))
                  | _ \<Rightarrow> None))
        | _ \<Rightarrow> None))"

section \<open>Cookies\<close>

text \<open>The absent result is \<open>Inr None\<close>; an escape that cannot be decoded throws.\<close>

definition parse_cookie :: "string option \<Rightarrow> string \<Rightarrow> js_error + string option" where
  "parse_cookie header name =
     (case header of
        None \<Rightarrow> Inr None
      | Some h \<Rightarrow>
          if h = [] then Inr None
          else (case List.find (\<lambda>p. prefix (name @ ''='') (js_trim p)) (split_on (\<lambda>c. c = CHR '';'') h) of
              None \<Rightarrow> Inr None
            | Some p \<Rightarrow> (case decode_uri_component (drop (length name + 1) (js_trim p)) of
                  None \<Rightarrow> Inl (Error ''URI error'')
                | Some v \<Rightarrow> Inr (Some v))))"

function show_seconds :: "int \<Rightarrow> string" where
  "show_seconds n =
     (if n < 10 then [digit_char (nat n)] else show_seconds (n div 10) @ [digit_char (nat (n mod 10))])"
  by pat_completeness auto

termination
  by (relation "measure nat") auto

declare show_seconds.simps [simp del]

definition serialize_cookie :: "string \<Rightarrow> string \<Rightarrow> int \<Rightarrow> bool \<Rightarrow> string \<Rightarrow> string" where
  "serialize_cookie name v maxAge secure path = join_with ''; ''
     ([name @ ''='' @ encode_uri_component v, ''Path='' @ path, ''HttpOnly'', ''SameSite=Lax'',
       ''Max-Age='' @ show_seconds maxAge] @ (if secure then [''Secure''] else []))"

text \<open>What a browser sends back: the first part of each cookie it holds.\<close>

definition cookie_header :: "(string \<times> string) list \<Rightarrow> string" where
  "cookie_header kvs = join_with ''; '' (map (\<lambda>(k, v). k @ ''='' @ encode_uri_component v) kvs)"

section \<open>Decoding what was encoded\<close>

lemma hex_code_char: "n < 16 \<Longrightarrow> hex_code (hex_char n) = Some n"
  by (auto simp: hex_code_def hex_char_def Let_def)

lemma hex_byte_escape:
  assumes "n < 256"
  shows "hex_byte (hex_char (n div 16)) (hex_char (n mod 16)) = Some n"
proof -
  have "n div 16 < 16" using assms by (simp add: less_mult_imp_div_less)
  then show ?thesis by (simp add: hex_byte_def hex_code_char)
qed

lemma decode_escape_low:
  "n < 128 \<Longrightarrow> decode_uri_component (escape_byte n @ r) = map_option ((#) (char_of n)) (decode_uri_component r)"
  by (simp add: escape_byte_def hex_byte_escape)

lemma decode_escape_high:
  assumes "128 \<le> n" and "n < 256"
  shows "decode_uri_component (escape_byte (192 + n div 64) @ escape_byte (128 + n mod 64) @ r) =
    map_option ((#) (char_of n)) (decode_uri_component r)"
proof -
  have q: "2 \<le> n div 64" "n div 64 < 4" using assms by auto
  have m: "\<not> 64 \<le> n mod 64" by (simp add: not_le)
  have "hex_byte (hex_char ((192 + n div 64) div 16)) (hex_char ((192 + n div 64) mod 16)) = Some (192 + n div 64)"
    "hex_byte (hex_char ((128 + n mod 64) div 16)) (hex_char ((128 + n mod 64) mod 16)) = Some (128 + n mod 64)"
    by (rule hex_byte_escape; use q in simp)+
  moreover have "(192 + n div 64 - 192) * 64 + (128 + n mod 64 - 128) = n" by simp
  ultimately show ?thesis using q m by (simp add: escape_byte_def)
qed

lemma percent_reserved: "unreserved c \<Longrightarrow> c \<noteq> CHR ''%''"
  by (auto simp: unreserved_def is_alnum_def is_digit_def is_lower_def is_upper_def in_range_def)

lemma decode_encode: "decode_uri_component (encode_uri_component s) = Some s"
proof (induction s)
  case Nil
  then show ?case by (simp add: encode_uri_component_def)
next
  case (Cons c s)
  show ?case
  proof (cases "unreserved c")
    case True
    with Cons percent_reserved[OF True] show ?thesis by (simp add: encode_uri_component_def)
  next
    case False
    have n: "(of_char c :: nat) < 256" by simp
    show ?thesis
    proof (cases "(of_char c :: nat) < 128")
      case True
      with False Cons show ?thesis
        by (simp add: encode_uri_component_def utf8_bytes_def decode_escape_low)
    next
      case high: False
      with False Cons n show ?thesis
        by (simp add: encode_uri_component_def utf8_bytes_def Let_def decode_escape_high)
    qed
  qed
qed

section \<open>The header a browser sends\<close>

definition cookie_name_char :: "char \<Rightarrow> bool" where
  "cookie_name_char c \<longleftrightarrow> is_alnum c \<or> c = CHR ''_'' \<or> c = CHR ''-''"

definition plain_name :: "string \<Rightarrow> bool" where
  "plain_name k \<longleftrightarrow> k \<noteq> [] \<and> (\<forall>c\<in>set k. cookie_name_char c)"

lemma hex_char_plain: "n < 16 \<Longrightarrow> is_alnum (hex_char n)"
  by (auto simp: hex_char_def is_alnum_def is_digit_def is_upper_def in_range_def)

lemma escape_chars: "n < 256 \<Longrightarrow> c \<in> set (escape_byte n) \<Longrightarrow> c = CHR ''%'' \<or> unreserved c"
  using hex_char_plain[of "n div 16"] hex_char_plain[of "n mod 16"]
  by (auto simp: escape_byte_def unreserved_def less_mult_imp_div_less)

lemma utf8_below: "n \<in> set (utf8_bytes c) \<Longrightarrow> n < 256"
proof -
  assume n: "n \<in> set (utf8_bytes c)"
  have "(of_char c :: nat) div 64 < 4" by (simp add: less_mult_imp_div_less)
  moreover have "(of_char c :: nat) mod 64 < 64" by simp
  ultimately show ?thesis using n unfolding utf8_bytes_def Let_def by (auto split: if_splits)
qed

lemma encoded_chars: "c \<in> set (encode_uri_component s) \<Longrightarrow> c = CHR ''%'' \<or> unreserved c"
  by (auto simp: encode_uri_component_def split: if_splits dest!: escape_chars[OF utf8_below])

lemma unreserved_plain: "c = CHR ''%'' \<or> unreserved c \<Longrightarrow> c \<noteq> CHR '';'' \<and> \<not> js_space c"
  by (auto simp: unreserved_def is_alnum_def is_digit_def is_lower_def is_upper_def in_range_def js_space_def Let_def)

lemma name_char_plain: "cookie_name_char c \<Longrightarrow> c \<noteq> CHR '';'' \<and> c \<noteq> CHR ''='' \<and> \<not> js_space c"
  by (auto simp: cookie_name_char_def is_alnum_def is_digit_def is_lower_def is_upper_def in_range_def js_space_def Let_def)

lemma trim_word:
  assumes "\<forall>c\<in>set w. \<not> js_space c"
  shows "js_trim w = w" and "js_trim (CHR '' '' # w) = w"
proof -
  have none: "dropWhile js_space u = u" if "\<forall>c\<in>set u. \<not> js_space c" for u using that by (cases u) auto
  have start: "dropWhile js_space w = w" using assms by (rule none)
  have "dropWhile js_space (rev w) = rev w" using assms by (intro none) simp
  with start show "js_trim w = w" by (simp add: js_trim_def js_trim_start_def js_trim_end_def)
  moreover have "js_trim (CHR '' '' # w) = js_trim w" by (simp add: js_trim_def js_trim_start_def js_space_def)
  ultimately show "js_trim (CHR '' '' # w) = w" by simp
qed

definition cookie_pair :: "string \<times> string \<Rightarrow> string" where
  "cookie_pair kv = fst kv @ ''='' @ encode_uri_component (snd kv)"

lemma cookie_pair_chars:
  assumes "plain_name k" and "c \<in> set (cookie_pair (k, v))"
  shows "c \<noteq> CHR '';'' \<and> \<not> js_space c"
  using assms name_char_plain unreserved_plain[OF encoded_chars]
  by (auto simp: cookie_pair_def plain_name_def js_space_def Let_def)

lemma cookie_prefix:
  assumes "plain_name k" and "plain_name n"
  shows "prefix (n @ ''='') (cookie_pair (k, v)) \<longleftrightarrow> k = n"
proof
  assume p: "prefix (n @ ''='') (cookie_pair (k, v))"
  have "takeWhile (\<lambda>c. c \<noteq> CHR ''='') (cookie_pair (k, v)) = k"
    using assms(1) name_char_plain by (auto simp: cookie_pair_def plain_name_def takeWhile_append2)
  moreover obtain r where "cookie_pair (k, v) = (n @ ''='') @ r" using p by (auto simp: prefix_def)
  moreover have "takeWhile (\<lambda>c. c \<noteq> CHR ''='') ((n @ ''='') @ r) = n"
    using assms(2) name_char_plain by (auto simp: plain_name_def takeWhile_append2)
  ultimately show "k = n" by simp
qed (simp add: cookie_pair_def)

lemma trim_part:
  assumes "x \<in> {[], '' ''}" and "\<forall>c\<in>set w. c \<noteq> CHR '';'' \<and> \<not> js_space c"
  shows "\<forall>c\<in>set (x @ w). c \<noteq> CHR '';''" and "js_trim (x @ w) = w"
proof -
  have w: "\<forall>c\<in>set w. \<not> js_space c" "\<forall>c\<in>set w. c \<noteq> CHR '';''" using assms(2) by blast+
  from assms(1) consider "x = []" | "x = '' ''" by blast
  then have "(\<forall>c\<in>set (x @ w). c \<noteq> CHR '';'') \<and> js_trim (x @ w) = w"
  proof cases
    case 1
    then show ?thesis using w trim_word(1)[OF w(1)] by simp
  next
    case 2
    then show ?thesis using w trim_word(2)[OF w(1)] by simp
  qed
  then show "\<forall>c\<in>set (x @ w). c \<noteq> CHR '';''" "js_trim (x @ w) = w" by blast+
qed

lemma split_joined:
  assumes "ws \<noteq> []" and "\<forall>w\<in>set ws. \<forall>c\<in>set w. c \<noteq> CHR '';'' \<and> \<not> js_space c"
  shows "map js_trim (split_on (\<lambda>c. c = CHR '';'') (join_with ''; '' ws)) = ws"
    and "map js_trim (split_on (\<lambda>c. c = CHR '';'') (CHR '' '' # join_with ''; '' ws)) = ws"
proof -
  have both: "map js_trim (split_on (\<lambda>c. c = CHR '';'') (x @ join_with ''; '' ws)) = ws" if "x \<in> {[], '' ''}" for x
    using assms that
  proof (induction ws arbitrary: x rule: induct_list012)
    case (2 w)
    then have "\<forall>c\<in>set (x @ w). c \<noteq> CHR '';''" "js_trim (x @ w) = w"
      using trim_part[of x w] by simp_all
    then show ?case by (simp add: split_on_word)
  next
    case (3 w v vs)
    then have w: "\<forall>c\<in>set (x @ w). c \<noteq> CHR '';''" "js_trim (x @ w) = w"
      using trim_part[of x w] by simp_all
    have "x @ join_with ''; '' (w # v # vs) = (x @ w) @ CHR '';'' # ('' '' @ join_with ''; '' (v # vs))" by simp
    then have "split_on (\<lambda>c. c = CHR '';'') (x @ join_with ''; '' (w # v # vs)) =
        (x @ w) # split_on (\<lambda>c. c = CHR '';'') ('' '' @ join_with ''; '' (v # vs))"
      using split_on_append_sep[of "\<lambda>c. c = CHR '';''" "CHR '';''" "x @ w"] w(1) by (simp only: simp_thms)
    moreover have "map js_trim (split_on (\<lambda>c. c = CHR '';'') ('' '' @ join_with ''; '' (v # vs))) = v # vs"
      by (rule 3(2)) (use 3(4) in simp_all)
    ultimately show ?case using w(2) by simp
  qed simp
  show "map js_trim (split_on (\<lambda>c. c = CHR '';'') (join_with ''; '' ws)) = ws" using both[of "[]"] by simp
  show "map js_trim (split_on (\<lambda>c. c = CHR '';'') (CHR '' '' # join_with ''; '' ws)) = ws" using both[of "'' ''"] by simp
qed

lemma find_map: "map_option f (List.find (\<lambda>x. P (f x)) xs) = List.find P (map f xs)"
  by (induction xs) auto

lemma find_pair:
  assumes "\<forall>kv\<in>set kvs. plain_name (fst kv)" and "plain_name n"
  shows "List.find (prefix (n @ ''='')) (map cookie_pair kvs) =
    map_option (\<lambda>v. cookie_pair (n, v)) (map_of kvs n)"
  using assms(1)
proof (induction kvs)
  case (Cons kv kvs)
  then show ?case using cookie_prefix[OF _ assms(2), of "fst kv" "snd kv"] by (cases kv) auto
qed simp

lemma parse_cookie_header:
  assumes "\<forall>kv\<in>set kvs. plain_name (fst kv)" and "plain_name n"
  shows "parse_cookie (Some (cookie_header kvs)) n = Inr (map_of kvs n)"
proof (cases "kvs = []")
  case False
  then obtain kv rest where kvs: "kvs = kv # rest" by (cases kvs) auto
  have header: "cookie_header kvs = join_with ''; '' (map cookie_pair kvs)"
    unfolding cookie_header_def by (rule arg_cong[where f = "join_with _"]) (simp add: cookie_pair_def split_beta)
  have "\<forall>w\<in>set (map cookie_pair kvs). \<forall>c\<in>set w. c \<noteq> CHR '';'' \<and> \<not> js_space c"
    using assms(1) cookie_pair_chars by fastforce
  with False have parts: "map js_trim (split_on (\<lambda>c. c = CHR '';'') (cookie_header kvs)) = map cookie_pair kvs"
    unfolding header by (intro split_joined) simp_all
  have "cookie_header kvs \<noteq> []"
    unfolding header by (cases rest) (simp_all add: kvs cookie_pair_def)
  moreover have "map_option js_trim (List.find (\<lambda>p. prefix (n @ ''='') (js_trim p))
      (split_on (\<lambda>c. c = CHR '';'') (cookie_header kvs))) = map_option (\<lambda>v. cookie_pair (n, v)) (map_of kvs n)"
    using find_pair[OF assms] parts by (simp add: find_map)
  ultimately show ?thesis
    by (cases "map_of kvs n")
      (auto simp: parse_cookie_def cookie_pair_def decode_encode split: option.split)
qed (simp add: parse_cookie_def cookie_header_def)

end
