(* ===== verification/Bootstrap_Texts.thy ===== *)
theory Bootstrap_Texts
  imports Web_Text
begin

text \<open>
  The texts a bootstrap command is made of, \<^verbatim>\<open>server-bootstrap.service.ts\<close>: quoting for the shell and the
  names of services.
\<close>

section \<open>Texts\<close>

definition shell_quote :: "string \<Rightarrow> string" where
  "shell_quote v = [CHR 0x27] @
     concat (map (\<lambda>c. if c = CHR 0x27 then [CHR 0x27, CHR 0x22, CHR 0x27, CHR 0x22, CHR 0x27] else [c]) v) @
     [CHR 0x27]"

text \<open>
  The slug of a service name; \<open>fold\<close> is everything that depends on Unicode (the Russian lower case, the
  transliteration and the removal of accents). Runs of other characters become one hyphen.
\<close>

definition slug_char :: "char \<Rightarrow> bool" where
  "slug_char c \<longleftrightarrow> is_digit c \<or> is_lower c"

fun hyphenate :: "bool \<Rightarrow> string \<Rightarrow> string" where
  "hyphenate gap [] = []"
| "hyphenate gap (c # cs) =
     (if slug_char c then c # hyphenate False cs
      else if gap then hyphenate True cs else CHR ''-'' # hyphenate True cs)"

definition drop_hyphens :: "string \<Rightarrow> string" where
  "drop_hyphens s = dropWhile (\<lambda>c. c = CHR ''-'') s"

definition drop_last_hyphens :: "string \<Rightarrow> string" where
  "drop_last_hyphens s = rev (drop_hyphens (rev s))"

definition server_service_slug :: "(string \<Rightarrow> string) \<Rightarrow> string \<Rightarrow> string \<Rightarrow> string" where
  "server_service_slug fold_text name bindingId =
     (let slug = drop_last_hyphens (take 64 (drop_last_hyphens (drop_hyphens (hyphenate False (fold_text name)))))
      in if slug \<noteq> [] then slug else ''server-'' @ js_lower (take 8 bindingId))"

text \<open>Fields of a parsed configuration.\<close>

definition texts_field :: "json \<Rightarrow> string \<Rightarrow> string list" where
  "texts_field v k = (case json_field v k of Some (JArr xs) \<Rightarrow> json_strings xs | _ \<Rightarrow> [])"

definition words :: "string list \<Rightarrow> string" where
  "words ws = join_with '' '' ws"

section \<open>The parts of a command line\<close>

definition jvm_options :: "json \<Rightarrow> string" where
  "jvm_options b = words ([''-Xms'' @ text_field b ''xms'', ''-Xmx'' @ text_field b ''xmx''] @
     texts_field b ''jvmArgs'' @
     [''-Dlauncher.authlib.inlineClass=pro.gravit.launcher.server.ServerWrapperInlineInitializer'',
      ''-Dlauncher.useSlf4j=true''])"

definition game_args :: "json \<Rightarrow> string" where
  "game_args b = words (map shell_quote (texts_field b ''gameArgs''))"

definition service_name :: "(string \<Rightarrow> string) \<Rightarrow> string \<Rightarrow> string \<Rightarrow> string" where
  "service_name fold_text name i = ''gravit-'' @ server_service_slug fold_text name i"

definition legacy_service_names :: "string \<Rightarrow> string list" where
  "legacy_service_names i = [''gravit-'' @ take 8 i, ''gravit-server-'' @ i]"

text \<open>\<open>parseInt(text, 16)\<close> of the four digits of a UUID.\<close>

definition hex_value :: "char \<Rightarrow> nat" where
  "hex_value c = (if is_digit c then of_char c - 48
     else if in_range CHR ''a'' CHR ''f'' c then of_char c - 87 else of_char c - 55)"

definition is_hex_digit :: "char \<Rightarrow> bool" where
  "is_hex_digit c \<longleftrightarrow> is_digit c \<or> in_range CHR ''a'' CHR ''f'' c \<or> in_range CHR ''A'' CHR ''F'' c"

definition parse_hex :: "string \<Rightarrow> nat option" where
  "parse_hex s = (let ds = takeWhile is_hex_digit s in
     if ds = [] then None else Some (foldl (\<lambda>n c. 16 * n + hex_value c) 0 ds))"

definition rcon_port :: "string \<Rightarrow> nat option" where
  "rcon_port i = map_option (\<lambda>n. 26000 + n mod 10000) (parse_hex (take 4 i))"

definition core_command :: "json \<Rightarrow> string" where
  \<open>core_command cfg =
     (if text_field cfg ''coreInstall'' = ''vanilla''
      then ''install -m 0644 "$PAYLOAD/server.jar" "$WORKDIR/server.jar"''
      else if text_field cfg ''coreInstall'' = ''fabric''
      then ''"$JAVA" -jar "$PAYLOAD/core-installer.jar" server -dir "$WORKDIR" -mcversion '' @
        shell_quote (text_field cfg ''minecraftVersion'') @ '' -loader '' @
        shell_quote (text_field cfg ''loaderVersion'') @ '' -downloadMinecraft''
      else ''"$JAVA" -jar "$PAYLOAD/core-installer.jar" --installServer "$WORKDIR"'')\<close>

definition launch_command :: "json \<Rightarrow> string \<Rightarrow> string" where
  \<open>launch_command cfg args =
     (let tail = (if args \<noteq> [] then args else ''nogui'') in
      if text_field cfg ''coreInstall'' = ''vanilla'' then ''exec "$JAVA" -jar server.jar '' @ tail
      else if text_field cfg ''coreInstall'' = ''fabric''
      then ''exec "$JAVA" -jar fabric-server-launch.jar '' @ tail
      else ''export PATH="$WORKDIR/.gravit-panel/jre/bin:$PATH"'' @ [CHR 0x0A] @ ''exec ./run.sh '' @ tail)\<close>

definition https_curl :: string where
  "https_curl = ''curl --proto '' @ shell_quote ''=https'' @ '' --tlsv1.2''"

definition curl_of :: "string \<Rightarrow> string" where
  "curl_of publicUrl = (if prefix ''https:'' publicUrl then https_curl else ''curl'')"

definition issue_command :: "string \<Rightarrow> string \<Rightarrow> string" where
  "issue_command publicUrl claim = curl_of publicUrl @ '' -fsSL '' @
     shell_quote (publicUrl @ ''/api/server-bootstrap/'' @ claim) @ '' | sudo bash''"

text \<open>The second stage: a script that downloads the installer and runs it.\<close>

definition loader_script :: "string \<Rightarrow> string \<Rightarrow> string" where
  \<open>loader_script publicUrl claim = join_with [CHR 0x0A]
     [''#!/usr/bin/env bash'',
      ''set -Eeuo pipefail'',
      ''TMP="$(mktemp /tmp/gravit-bootstrap-stage2.XXXXXXXX)"'',
      ''cleanup() { rm -f "$TMP"; }'',
      ''trap cleanup EXIT'',
      curl_of publicUrl @ '' -fsSL -X POST '' @
        shell_quote (publicUrl @ ''/api/server-bootstrap/'' @ claim @ ''/start'') @ '' -o "$TMP"'',
      ''bash "$TMP"'',
      []]\<close>

end
