(* ===== verification/Bootstrap_Store.thy ===== *)
theory Bootstrap_Store
  imports Effects Tables
begin

text \<open>
  The table of bootstrap drafts, \<^verbatim>\<open>server-bootstrap.store.ts\<close>: a draft is prepared, issued as a claim
  token, claimed by the installer and reported. The hash of tokens, new ids and tokens and the clock
  are arguments.
\<close>

section \<open>Rows\<close>

datatype draft_status = Preparing | DraftReady | Issued | Claimed | Installed | DraftFailed

record draft =
  dr_id :: string
  dr_binding :: string
  dr_installation :: string
  dr_profile :: string
  dr_server :: string
  dr_status :: draft_status
  dr_error :: "string option"
  dr_config :: json
  dr_bundle_path :: "string option"
  dr_bundle_sha256 :: "string option"
  dr_jre_x64_path :: "string option"
  dr_jre_x64_sha256 :: "string option"
  dr_jre_aarch64_path :: "string option"
  dr_jre_aarch64_sha256 :: "string option"
  dr_claim_hash :: "string option"
  dr_claim_expires :: "instant option"
  dr_artifact_hash :: "string option"
  dr_artifact_expires :: "instant option"
  dr_report_hash :: "string option"
  dr_created :: instant
  dr_prepared :: "instant option"
  dr_issued :: "instant option"
  dr_claimed :: "instant option"
  dr_installed :: "instant option"

type_synonym drafts = "draft list"

text \<open>The columns the panel shows.\<close>

record draft_view =
  dv_id :: string
  dv_binding :: string
  dv_installation :: string
  dv_profile :: string
  dv_server :: string
  dv_status :: draft_status
  dv_error :: "string option"
  dv_created :: instant
  dv_prepared :: "instant option"
  dv_issued :: "instant option"
  dv_claimed :: "instant option"
  dv_installed :: "instant option"

definition to_draft :: "draft \<Rightarrow> draft_view" where
  "to_draft r = \<lparr>dv_id = dr_id r, dv_binding = dr_binding r, dv_installation = dr_installation r,
     dv_profile = dr_profile r, dv_server = dr_server r, dv_status = dr_status r, dv_error = dr_error r,
     dv_created = dr_created r, dv_prepared = dr_prepared r, dv_issued = dr_issued r,
     dv_claimed = dr_claimed r, dv_installed = dr_installed r\<rparr>"

section \<open>Statements\<close>

definition draft_row :: "string \<Rightarrow> drafts \<Rightarrow> draft option" where
  "draft_row i t = get_by dr_id i t"

definition get_draft :: "string \<Rightarrow> drafts \<Rightarrow> draft_view option" where
  "get_draft i t = map_option to_draft (draft_row i t)"

definition list_drafts :: "string \<Rightarrow> drafts \<Rightarrow> draft_view list" where
  "list_drafts b t = map to_draft (order_desc (\<lambda>r. iso_rank (dr_created r)) (sql_select (\<lambda>r. dr_binding r = b) t))"

definition is_open :: "draft \<Rightarrow> bool" where
  "is_open r \<longleftrightarrow> dr_status r = Issued \<or> dr_status r = Claimed"

record draft_input =
  di_binding :: string
  di_installation :: string
  di_profile :: string
  di_server :: string
  di_config :: json

definition new_draft :: "string \<Rightarrow> instant \<Rightarrow> draft_input \<Rightarrow> draft" where
  "new_draft i now inp = \<lparr>dr_id = i, dr_binding = di_binding inp, dr_installation = di_installation inp,
     dr_profile = di_profile inp, dr_server = di_server inp, dr_status = Preparing, dr_error = None,
     dr_config = di_config inp, dr_bundle_path = None, dr_bundle_sha256 = None, dr_jre_x64_path = None,
     dr_jre_x64_sha256 = None, dr_jre_aarch64_path = None, dr_jre_aarch64_sha256 = None,
     dr_claim_hash = None, dr_claim_expires = None, dr_artifact_hash = None, dr_artifact_expires = None,
     dr_report_hash = None, dr_created = now, dr_prepared = None, dr_issued = None, dr_claimed = None,
     dr_installed = None\<rparr>"

definition create_draft_row :: "string \<Rightarrow> instant \<Rightarrow> draft_input \<Rightarrow> drafts \<Rightarrow> (js_error + draft_view) \<times> drafts" where
  "create_draft_row i now inp t =
     (case sql_insert dr_id (new_draft i now inp) t of
        Inl _ \<Rightarrow> (Inl (Error ''UNIQUE constraint failed: server_bootstrap_drafts.id''), t)
      | Inr u \<Rightarrow> (Inr (the (get_draft i u)), u))"

text \<open>\<open>claim_hash = NULL\<close> and the four other columns of tokens.\<close>

definition without_tokens :: "draft \<Rightarrow> draft" where
  "without_tokens r = r\<lparr>dr_claim_hash := None, dr_claim_expires := None, dr_artifact_hash := None,
     dr_artifact_expires := None, dr_report_hash := None\<rparr>"

definition invalidate_binding :: "string \<Rightarrow> string \<Rightarrow> drafts \<Rightarrow> drafts" where
  "invalidate_binding b reason = sql_update
     (\<lambda>r. dr_binding r = b \<and> dr_status r \<in> {Preparing, DraftReady, Issued, Claimed})
     (\<lambda>r. without_tokens (r\<lparr>dr_status := DraftFailed, dr_error := Some (take 2000 reason)\<rparr>))"

record draft_artifacts =
  da_bundle_path :: string
  da_bundle_sha256 :: string
  da_jre_x64_path :: string
  da_jre_x64_sha256 :: string
  da_jre_aarch64_path :: string
  da_jre_aarch64_sha256 :: string
  da_config :: json

definition ready_draft :: "instant \<Rightarrow> string \<Rightarrow> draft_artifacts \<Rightarrow> drafts \<Rightarrow> drafts" where
  "ready_draft now i a = sql_update (\<lambda>r. dr_id r = i)
     (\<lambda>r. r\<lparr>dr_status := DraftReady, dr_error := None, dr_config := da_config a,
        dr_bundle_path := Some (da_bundle_path a), dr_bundle_sha256 := Some (da_bundle_sha256 a),
        dr_jre_x64_path := Some (da_jre_x64_path a), dr_jre_x64_sha256 := Some (da_jre_x64_sha256 a),
        dr_jre_aarch64_path := Some (da_jre_aarch64_path a),
        dr_jre_aarch64_sha256 := Some (da_jre_aarch64_sha256 a), dr_prepared := Some now\<rparr>)"

definition fail_draft :: "string \<Rightarrow> string \<Rightarrow> drafts \<Rightarrow> drafts" where
  "fail_draft i e = sql_update (\<lambda>r. dr_id r = i)
     (\<lambda>r. r\<lparr>dr_status := DraftFailed, dr_error := Some (take 2000 e)\<rparr>)"

definition issued_row :: "instant \<Rightarrow> string \<Rightarrow> draft \<Rightarrow> draft" where
  "issued_row now x r = (without_tokens r)\<lparr>dr_status := Issued, dr_claim_hash := Some x, dr_issued := Some now\<rparr>"

definition issue_draft ::
  "(string \<Rightarrow> string) \<Rightarrow> instant \<Rightarrow> string \<Rightarrow> string \<Rightarrow> drafts \<Rightarrow> (js_error + string \<times> draft_view) \<times> drafts" where
  "issue_draft h now claim i t =
     (case draft_row i t of
        None \<Rightarrow> (Inl (Error ''Bootstrap draft is not ready for issuance''), t)
      | Some r \<Rightarrow>
          if dr_status r \<noteq> DraftReady then (Inl (Error ''Bootstrap draft is not ready for issuance''), t)
          else if \<exists>q\<in>set t. dr_id q \<noteq> i \<and> dr_claim_hash q = Some (h claim)
            then (Inl (Error ''UNIQUE constraint failed: server_bootstrap_drafts.claim_hash''), t)
          else let u = sql_update (\<lambda>r. dr_id r = i) (issued_row now (h claim)) t
            in (Inr (claim, the (get_draft i u)), u))"

definition artifact_by_claim :: "(string \<Rightarrow> string) \<Rightarrow> string \<Rightarrow> drafts \<Rightarrow> draft option" where
  "artifact_by_claim h claim t = sql_get (\<lambda>r. dr_claim_hash r = Some (h claim) \<and> is_open r) t"

definition claim_installation_id :: "(string \<Rightarrow> string) \<Rightarrow> string \<Rightarrow> drafts \<Rightarrow> string option" where
  "claim_installation_id h claim t = map_option dr_installation (artifact_by_claim h claim t)"

definition begin_claim :: "(string \<Rightarrow> string) \<Rightarrow> instant \<Rightarrow> string \<Rightarrow> drafts \<Rightarrow> draft option \<times> drafts" where
  "begin_claim h now claim t =
     (case artifact_by_claim h claim t of
        None \<Rightarrow> (None, t)
      | Some r \<Rightarrow> let u = sql_update (\<lambda>q. dr_id q = dr_id r \<and> is_open q)
            (\<lambda>q. q\<lparr>dr_status := Claimed, dr_claimed := Some now\<rparr>) t
          in (draft_row (dr_id r) u, u))"

definition report_claim ::
  "(string \<Rightarrow> string) \<Rightarrow> instant \<Rightarrow> string \<Rightarrow> bool \<Rightarrow> string option \<Rightarrow> drafts \<Rightarrow> draft_view option \<times> drafts" where
  "report_claim h now claim installed err t =
     (case artifact_by_claim h claim t of
        None \<Rightarrow> (None, t)
      | Some r \<Rightarrow> let u = sql_update (\<lambda>q. dr_id q = dr_id r)
            (\<lambda>q. without_tokens (q\<lparr>dr_status := (if installed then Installed else DraftFailed),
               dr_error := map_option (take 2000) err,
               dr_installed := (if installed then Some now else None)\<rparr>)) t
          in (get_draft (dr_id r) u, u))"

definition revoke_draft :: "string \<Rightarrow> string \<Rightarrow> drafts \<Rightarrow> drafts" where
  "revoke_draft i reason = sql_update (\<lambda>r. dr_id r = i \<and> dr_status r \<in> {DraftReady, Issued, Claimed})
     (\<lambda>r. without_tokens (r\<lparr>dr_status := DraftFailed, dr_error := Some reason\<rparr>))"

text \<open>\<open>ON DELETE CASCADE\<close> of the binding.\<close>

definition drop_binding_drafts :: "string \<Rightarrow> drafts \<Rightarrow> drafts" where
  "drop_binding_drafts b = sql_delete (\<lambda>r. dr_binding r = b)"

section \<open>Open claims\<close>

text \<open>
  The hash that opens a draft. Ids are the primary key, \<open>claim_hash\<close> is unique.
\<close>

definition open_claim :: "draft \<Rightarrow> string option" where
  "open_claim r = (if is_open r then dr_claim_hash r else None)"

definition drafts_ok :: "drafts \<Rightarrow> bool" where
  "drafts_ok t \<longleftrightarrow> keys_distinct dr_id t \<and> (\<forall>q\<in>set t. \<forall>r\<in>set t. \<forall>x.
     dr_claim_hash q = Some x \<longrightarrow> dr_claim_hash r = Some x \<longrightarrow> dr_id q = dr_id r)"

lemma drafts_okD:
  assumes "drafts_ok t" and "q \<in> set t" and "r \<in> set t" and "dr_claim_hash q = Some x" and "dr_claim_hash r = Some x"
  shows "dr_id q = dr_id r"
  using assms unfolding drafts_ok_def by blast

lemma without_tokens_simps [simp]:
  "dr_id (without_tokens r) = dr_id r" "dr_claim_hash (without_tokens r) = None"
  "dr_status (without_tokens r) = dr_status r" "dr_binding (without_tokens r) = dr_binding r"
  by (simp_all add: without_tokens_def)

lemma draft_row_update:
  assumes "\<And>r. dr_id (f r) = dr_id r"
  shows "draft_row i (sql_update P f t) = map_option (\<lambda>r. if P r then f r else r) (draft_row i t)"
  unfolding draft_row_def by (rule get_by_update[where key = dr_id and f = f, OF assms])

lemma draft_row_id: "draft_row i t = Some r \<Longrightarrow> dr_id r = i \<and> r \<in> set t"
  unfolding draft_row_def using get_by_key get_by_in by fastforce

lemma artifact_by_claim_found:
  assumes "artifact_by_claim h c t = Some r"
  shows "r \<in> set t" and "dr_claim_hash r = Some (h c)" and "is_open r"
  using sql_get_Some[of _ t r] assms unfolding artifact_by_claim_def by blast+

lemma artifact_by_claim_row:
  assumes "drafts_ok t" and "artifact_by_claim h c t = Some r"
  shows "draft_row (dr_id r) t = Some r" and "open_claim r = Some (h c)"
proof -
  have "keys_distinct dr_id t" using assms(1) unfolding drafts_ok_def by blast
  with artifact_by_claim_found(1)[OF assms(2)] show "draft_row (dr_id r) t = Some r"
    unfolding draft_row_def by (intro get_by_self)
  show "open_claim r = Some (h c)"
    using artifact_by_claim_found(2,3)[OF assms(2)] by (simp add: open_claim_def)
qed

lemma artifact_by_claim_iff:
  assumes "drafts_ok t"
  shows "artifact_by_claim h c t = Some r \<longleftrightarrow> draft_row (dr_id r) t = Some r \<and> open_claim r = Some (h c)"
proof
  assume r: "draft_row (dr_id r) t = Some r \<and> open_claim r = Some (h c)"
  then have in_t: "r \<in> set t" "is_open r" "dr_claim_hash r = Some (h c)"
    using draft_row_id by (auto simp: open_claim_def split: if_splits)
  then obtain q where q: "artifact_by_claim h c t = Some q"
    by (cases "artifact_by_claim h c t") (auto simp: artifact_by_claim_def sql_get_None)
  have "dr_id q = dr_id r"
    using drafts_okD[OF assms artifact_by_claim_found(1)[OF q] in_t(1) artifact_by_claim_found(2)[OF q] in_t(3)] .
  then have "draft_row (dr_id q) t = Some r" using r by simp
  with artifact_by_claim_row(1)[OF assms q] q show "artifact_by_claim h c t = Some r" by simp
qed (use artifact_by_claim_row[OF assms] in blast)

section \<open>The invariant\<close>

lemma drafts_okI:
  assumes "keys_distinct dr_id t"
    and "\<And>q r x. q \<in> set t \<Longrightarrow> r \<in> set t \<Longrightarrow> dr_claim_hash q = Some x \<Longrightarrow> dr_claim_hash r = Some x \<Longrightarrow> dr_id q = dr_id r"
  shows "drafts_ok t"
  using assms unfolding drafts_ok_def by blast

text \<open>An update that invents no claim.\<close>

lemma drafts_ok_update:
  assumes "drafts_ok t" and f: "\<And>r. dr_id (f r) = dr_id r"
    and hash: "\<And>r x. P r \<Longrightarrow> dr_claim_hash (f r) = Some x \<Longrightarrow> dr_claim_hash r = Some x"
  shows "drafts_ok (sql_update P f t)"
proof (rule drafts_okI)
  show "keys_distinct dr_id (sql_update P f t)"
    using assms(1) by (simp add: keys_distinct_update[where key = dr_id and f = f, OF f] drafts_ok_def)
  have origin: "\<exists>q\<in>set t. dr_id q = dr_id q' \<and> dr_claim_hash q = Some x"
    if m: "q' \<in> set (sql_update P f t)" "dr_claim_hash q' = Some x" for q' x
  proof -
    obtain q where q: "q \<in> set t" "q' = (if P q then f q else q)" using m(1) unfolding set_sql_update by blast
    show ?thesis
    proof (cases "P q")
      case True
      with q have "q' = f q" by simp
      with f[of q] hash[OF True, of x] m(2) q(1) show ?thesis by (intro bexI[of _ q]) simp_all
    next
      case False
      with q m(2) show ?thesis by (intro bexI[of _ q]) simp_all
    qed
  qed
  fix q r x
  assume q: "q \<in> set (sql_update P f t)" "dr_claim_hash q = Some x"
    and r: "r \<in> set (sql_update P f t)" "dr_claim_hash r = Some x"
  obtain q0 where q0: "q0 \<in> set t" "dr_id q0 = dr_id q" "dr_claim_hash q0 = Some x" using origin[OF q] by blast
  obtain r0 where r0: "r0 \<in> set t" "dr_id r0 = dr_id r" "dr_claim_hash r0 = Some x" using origin[OF r] by blast
  show "dr_id q = dr_id r"
    by (rule box_equals[OF drafts_okD[OF assms(1) q0(1) r0(1) q0(3) r0(3)] q0(2) r0(2)])
qed

lemma drafts_ok_Nil: "drafts_ok []"
  by (simp add: drafts_ok_def keys_distinct_def)

lemma drafts_ok_delete: "drafts_ok t \<Longrightarrow> drafts_ok (sql_delete P t)"
  unfolding drafts_ok_def using keys_distinct_delete[of dr_id t P] set_sql_delete[of P t] by blast

lemma create_ok:
  assumes "drafts_ok t"
  shows "drafts_ok (snd (create_draft_row i now inp t))"
proof (cases "i \<in> dr_id ` set t")
  case False
  have n: "dr_id (new_draft i now inp) = i" "dr_claim_hash (new_draft i now inp) = None" by (simp_all add: new_draft_def)
  have "drafts_ok (t @ [new_draft i now inp])"
  proof (rule drafts_okI)
    show "keys_distinct dr_id (t @ [new_draft i now inp])"
      using assms False n by (simp add: drafts_ok_def keys_distinct_def)
    fix q r x
    assume q: "q \<in> set (t @ [new_draft i now inp])" "r \<in> set (t @ [new_draft i now inp])"
      and x: "dr_claim_hash q = Some x" "dr_claim_hash r = Some x"
    from q x n(2) have "q \<in> set t" "r \<in> set t" by auto
    from drafts_okD[OF assms this x] show "dr_id q = dr_id r" .
  qed
  with False n show ?thesis by (simp add: create_draft_row_def sql_insert_def)
qed (use assms in \<open>simp add: create_draft_row_def sql_insert_def new_draft_def\<close>)

lemma issued_row_simps [simp]:
  "dr_id (issued_row now x r) = dr_id r" "dr_claim_hash (issued_row now x r) = Some x"
  "is_open (issued_row now x r)"
  by (simp_all add: issued_row_def is_open_def)

lemma issue_cases:
  obtains (refused) e where "issue_draft h now c i t = (Inl e, t)"
  | (issued) r v where "draft_row i t = Some r" "dr_status r = DraftReady"
      "\<forall>q\<in>set t. dr_claim_hash q = Some (h c) \<longrightarrow> dr_id q = i"
      "issue_draft h now c i t = (Inr (c, v), sql_update (\<lambda>r. dr_id r = i) (issued_row now (h c)) t)"
proof (cases "draft_row i t")
  case None
  then show ?thesis using refused by (simp add: issue_draft_def)
next
  case (Some r)
  then show ?thesis using refused issued by (cases "dr_status r = DraftReady";
    cases "\<exists>q\<in>set t. dr_id q \<noteq> i \<and> dr_claim_hash q = Some (h c)") (auto simp: issue_draft_def Let_def)
qed

lemma issue_ok:
  assumes "drafts_ok t"
  shows "drafts_ok (snd (issue_draft h now c i t))"
proof (cases rule: issue_cases[of h now c i t])
  case refused
  with assms show ?thesis by simp
next
  case (issued r v)
  let ?f = "issued_row now (h c)"
  have "drafts_ok (sql_update (\<lambda>r. dr_id r = i) ?f t)"
  proof (rule drafts_okI)
    show "keys_distinct dr_id (sql_update (\<lambda>r. dr_id r = i) ?f t)"
      using assms by (simp add: keys_distinct_update[where key = dr_id and f = ?f] drafts_ok_def)
    have origin: "(dr_id q' = i \<and> x = h c) \<or> (dr_id q' \<noteq> i \<and> q' \<in> set t)"
      if "q' \<in> set (sql_update (\<lambda>r. dr_id r = i) ?f t)" "dr_claim_hash q' = Some x" for q' x
      using that unfolding set_sql_update by (auto split: if_splits)
    fix q r x
    assume q: "q \<in> set (sql_update (\<lambda>r. dr_id r = i) ?f t)" "dr_claim_hash q = Some x"
      and r: "r \<in> set (sql_update (\<lambda>r. dr_id r = i) ?f t)" "dr_claim_hash r = Some x"
    have only: "dr_id p = i" if "p \<in> set t" "dr_claim_hash p = Some x" "x = h c" for p
      using issued(3) that by blast
    show "dr_id q = dr_id r"
    proof (cases "x = h c")
      case True
      with origin[OF q] origin[OF r] only[of q] only[of r] q(2) r(2) have "dr_id q = i" "dr_id r = i" by blast+
      then show ?thesis by (rule trans[OF _ sym])
    next
      case False
      with origin[OF q] origin[OF r] have "q \<in> set t" "r \<in> set t" by blast+
      from drafts_okD[OF assms this q(2) r(2)] show ?thesis .
    qed
  qed
  with issued(4) show ?thesis by simp
qed

end
