(* ===== verification/Bootstrap_Script.thy ===== *)
theory Bootstrap_Script
  imports Bootstrap_Texts Bootstrap_Store Profile_Service
begin

text \<open>
  The installer that \<open>renderScript\<close> of \<^verbatim>\<open>server-bootstrap.service.ts\<close> writes, line by line: the sections of
  the template are lists of lines over the values it interpolates.
\<close>

record script_values =
  sv_public :: string
  sv_curl :: string
  sv_artifacts :: string
  sv_report :: string
  sv_jvm :: string
  sv_service :: string
  sv_legacy :: "string list"
  sv_port :: string
  sv_core :: string
  sv_launch :: string
  sv_id :: string
  sv_name :: string
  sv_auth :: string
  sv_address :: string
  sv_token :: string
  sv_bundle :: string
  sv_x64 :: string
  sv_aarch64 :: string

definition apos :: string where
  "apos = [CHR 0x27]"

definition bslash :: string where
  "bslash = [CHR 0x5C]"

definition agent_config_text :: "'w host \<Rightarrow> string \<Rightarrow> string" where
  "agent_config_text H url = h_stringify H (JObj
     [(''panelUrl'', JStr url), (''bindingsDir'', JStr ''/etc/gravit-agent/bindings.d'')])"

section \<open>The template\<close>

definition script_guard :: "script_values \<Rightarrow> string list" where
  \<open>script_guard v =
  [''#!/usr/bin/env bash'',
   ''set -Eeuo pipefail'',
   ''umask 077'',
   [],
   ''REPORT_URL='' @ shell_quote (sv_report v),
   ''PAYLOAD='',
   ''BACKUP='',
   ''UNIT_TMP_DIR='',
   ''WORKDIR='',
   ''UPDATE=false'',
   ''report_failure() {'',
   ''  local code="$?"'',
   ''  set +e'',
   ''  ['' @ ''[ -z "$PAYLOAD" ]'' @ ''] || rm -rf "$PAYLOAD"'',
   ''  ['' @ ''[ -z "$UNIT_TMP_DIR" ]'' @ ''] || rm -rf "$UNIT_TMP_DIR"'',
   ''  if ['' @ ''[ -n "$WORKDIR" && -n "$BACKUP" && -f "$BACKUP" ]'' @ '']; then'',
   ''    tar -xzf "$BACKUP" -C "$WORKDIR" || true'',
   ''    systemctl start '' @ sv_service v @ ''.service >/dev/null 2>&1 || true'',
   ''  fi'',
   ''  curl -fsS -X POST -H \'content-type: application/json\' '' @ bslash,
   ''    --data "{'' @ bslash @ ''"status'' @ bslash @ ''":'' @ bslash @ ''"failed'' @ bslash @ ''",'' @ bslash @ ''"error'' @ bslash @ ''":'' @ bslash @ ''"installer exited with code $code'' @ bslash @ ''"}" '' @ bslash,
   ''    "$REPORT_URL" >/dev/null 2>&1 || true'',
   ''}'',
   ''trap report_failure EXIT'',
   [],
   ''if ['' @ ''[ "$EUID" -ne 0 || -z "${SUDO_USER:-}" || "$SUDO_USER" == root ]'' @ '']; then'',
   ''  echo "Run this command from a non-root account through sudo." >&2'',
   ''  exit 1'',
   ''fi'',
   ''for command in curl tar sha256sum systemctl systemd-analyze install ln sed base64 head tr grep find nft ss; do'',
   ''  command -v "$command" >/dev/null || { echo "Missing dependency: $command" >&2; exit 1; }'',
   ''done'',
   []]\<close>

definition script_workdir :: "script_values \<Rightarrow> string list" where
  \<open>script_workdir v =
  [''WORKDIR="$(pwd -P)"'',
   ''SERVICE_USER="$SUDO_USER"'',
   ''SERVICE_GROUP="$(id -gn "$SERVICE_USER")"'',
   ''SERVICE_UID="$(id -u "$SERVICE_USER")"'',
   ''SERVICE_GID="$(id -g "$SERVICE_USER")"'',
   ''SERVICE_ROOT=/var/lib/gravit-panel/servers/'' @ sv_id v,
   ''if ['' @ ''[ "$SERVICE_UID" -eq 0 || ! -d "$WORKDIR" ]'' @ '']; then'',
   ''  echo "Unable to resolve the non-root service account or working directory." >&2'',
   ''  exit 1'',
   ''fi'',
   ''MARKER="$WORKDIR/.gravit-panel-server"'',
   ''if ['' @ ''[ -f "$MARKER" ]'' @ '']; then'',
   ''  grep -qx '' @ shell_quote (sv_id v) @ '' "$MARKER" || {'',
   ''    echo "This directory belongs to another bootstrap deployment." >&2'',
   ''    exit 1'',
   ''  }'',
   ''  UPDATE=true'',
   ''elif ['' @ ''[ -n "$(find "$WORKDIR" -mindepth 1 -maxdepth 1 -print -quit)" ]'' @ '']; then'',
   ''  echo "Initial installation requires an empty current directory." >&2'',
   ''  exit 1'',
   ''fi'',
   ''printf \'%s'' @ bslash @ ''n\' '' @ shell_quote (sv_id v) @ '' > "$MARKER"'',
   []]\<close>

definition script_update :: "script_values \<Rightarrow> string list" where
  \<open>script_update v =
  [''mkdir -p "$WORKDIR/.gravit-panel/download" "$WORKDIR/.gravit-panel/jre"'',
   ''if ['' @ ''[ "$UPDATE" == true ]'' @ '']; then'',
   ''  for SERVER_SERVICE in '' @ words (map shell_quote (sv_service v # sv_legacy v)) @ ''; do'',
   ''    systemctl stop "$SERVER_SERVICE.service" >/dev/null 2>&1 || true'',
   ''  done'',
   ''  mkdir -p "$WORKDIR/.gravit-panel/backups"'',
   ''  BACKUP="$WORKDIR/.gravit-panel/backups/$(date -u +%Y%m%dT%H%M%SZ).tar.gz"'',
   ''  ('',
   ''    cd "$WORKDIR"'',
   ''    find . -type f '' @ bslash @ ''( -name \'*.jar\' -o -name \'run.sh\' -o -name \'user_jvm_args.txt\' '' @ bslash,
   ''      -o -name \'gravit-server.env\' -o -name \'start-gravit-server.sh\' -o -name \'eula.txt\' '' @ bslash @ '') '' @ bslash,
   ''      -not -path \'./.gravit-panel/download/*\' -print0 |'',
   ''      tar --null -czf "$BACKUP" --files-from=-'',
   ''  )'',
   ''fi'']\<close>

definition script_artifacts :: "script_values \<Rightarrow> string list" where
  \<open>script_artifacts v =
  [''ARCH="$(uname -m)"'',
   ''case "$ARCH" in'',
   ''  x86_64|amd64) JRE_KIND=jre-x64; JRE_SHA='' @ shell_quote (sv_x64 v) @ '' ;;'',
   ''  aarch64|arm64) JRE_KIND=jre-aarch64; JRE_SHA='' @ shell_quote (sv_aarch64 v) @ '' ;;'',
   ''  *) echo "Unsupported architecture: $ARCH" >&2; exit 1 ;;'',
   ''esac'',
   ''BUNDLE="$WORKDIR/.gravit-panel/download/bundle.tar.gz"'',
   ''JRE_ARCHIVE="$WORKDIR/.gravit-panel/download/jre.tar.gz"'',
   sv_curl v @ '' -fL --retry 3 -o "$BUNDLE" '' @ shell_quote (sv_artifacts v @ ''/bundle''),
   ''echo '' @ shell_quote (sv_bundle v) @ ''"  $BUNDLE" | sha256sum -c -'',
   sv_curl v @ '' -fL --retry 3 -o "$JRE_ARCHIVE" "'' @ sv_artifacts v @ ''/$JRE_KIND"'',
   ''echo "$JRE_SHA  $JRE_ARCHIVE" | sha256sum -c -'',
   [],
   ''rm -rf "$WORKDIR/.gravit-panel/jre"'',
   ''mkdir -p "$WORKDIR/.gravit-panel/jre"'',
   ''PAYLOAD="$(mktemp -d /tmp/gravit-bootstrap.XXXXXXXX)"'',
   ''tar -xzf "$BUNDLE" --no-same-owner -C "$PAYLOAD"'',
   ''tar -xzf "$JRE_ARCHIVE" --no-same-owner --strip-components=1 -C "$WORKDIR/.gravit-panel/jre"'',
   ''JAVA="$WORKDIR/.gravit-panel/jre/bin/java"'',
   []]\<close>

definition script_install :: "script_values \<Rightarrow> string list" where
  \<open>script_install v =
  [sv_core v,
   ''"$JAVA" -jar "$PAYLOAD/ServerWrapper.jar" installAuthlib "$PAYLOAD/LauncherAuthlib.jar"'',
   ''"$JAVA" -jar "$PAYLOAD/ServerWrapper.jar" installAuthlib "$PAYLOAD/ServerWrapperInline.jar"'',
   ''install -m 0644 "$PAYLOAD/ServerWrapper.jar" "$WORKDIR/ServerWrapper.jar"'',
   ''install -m 0644 "$PAYLOAD/ServerWrapperInline.jar" "$WORKDIR/ServerWrapperInline.jar"'',
   ''printf \'eula=true'' @ bslash @ ''n\' > "$WORKDIR/eula.txt"'',
   []]\<close>

definition script_rcon :: "script_values \<Rightarrow> string list" where
  \<open>script_rcon v =
  [''RCON_PORT='' @ sv_port v,
   ''for attempt in {1..100}; do'',
   ''  if ! ss -H -ltn "sport = :$RCON_PORT" | grep -q .; then break; fi'',
   ''  RCON_PORT=$((RCON_PORT + 1))'',
   ''  ['' @ ''[ "$RCON_PORT" -le 35999 ]'' @ ''] || RCON_PORT=26000'',
   ''  ['' @ ''[ "$attempt" -lt 100 ]'' @ ''] || { echo "Unable to allocate a local RCON port" >&2; exit 1; }'',
   ''done'',
   ''RCON_PASSWORD="$(head -c 32 /dev/urandom | base64 | tr \'/+\' \'_-\' | tr -d '' @ apos @ bslash @ ''n\')"'',
   ''touch "$WORKDIR/server.properties"'',
   ''sed -i \'/^enable-rcon=/d;/^rcon'' @ bslash @ ''.port=/d;/^rcon'' @ bslash @ ''.password=/d;/^broadcast-rcon-to-ops=/d\' "$WORKDIR/server.properties"'',
   ''cat >> "$WORKDIR/server.properties" <<RCON_PROPERTIES'',
   ''enable-rcon=true'',
   ''rcon.port=$RCON_PORT'',
   ''rcon.password=$RCON_PASSWORD'',
   ''broadcast-rcon-to-ops=false'',
   ''RCON_PROPERTIES'',
   []]\<close>

definition script_start :: "script_values \<Rightarrow> string list" where
  \<open>script_start v =
  [''cat > "$WORKDIR/gravit-server.env" <<\'GRAVIT_ENV'' @ apos,
   ''SERVERWRAPPER_ADDRESS='' @ shell_quote (sv_address v),
   ''SERVERWRAPPER_SERVER_NAME='' @ shell_quote (sv_name v),
   ''SERVERWRAPPER_AUTH_ID='' @ shell_quote (sv_auth v),
   ''SERVERWRAPPER_CHECK_SERVER_TOKEN='' @ shell_quote (sv_token v),
   ''_JAVA_OPTIONS='' @ shell_quote (sv_jvm v),
   ''GRAVIT_ENV'',
   ''chmod 0600 "$WORKDIR/gravit-server.env"'',
   [],
   ''cat > "$WORKDIR/start-gravit-server.sh" <<\'GRAVIT_START'' @ apos,
   ''#!/usr/bin/env bash'',
   ''set -Eeuo pipefail'',
   ''WORKDIR="$(cd "$(dirname "$0")" && pwd -P)"'',
   ''set -a'',
   ''source "$WORKDIR/gravit-server.env"'',
   ''set +a'',
   ''JAVA="$WORKDIR/.gravit-panel/jre/bin/java"'',
   ''cd "$WORKDIR"'',
   sv_launch v,
   ''GRAVIT_START'',
   ''chmod 0750 "$WORKDIR/start-gravit-server.sh"'',
   ''chown -R "$SERVICE_USER:$SERVICE_GROUP" "$WORKDIR"'',
   ''install -d -m 0755 /var/lib/gravit-panel/servers'',
   ''if ['' @ ''[ -e "$SERVICE_ROOT" && ! -L "$SERVICE_ROOT" ]'' @ '']; then'',
   ''  echo "Reserved service path is not a symbolic link: $SERVICE_ROOT" >&2'',
   ''  exit 1'',
   ''fi'',
   ''ln -sfn "$WORKDIR" "$SERVICE_ROOT"'',
   []]\<close>

definition script_firewall :: "script_values \<Rightarrow> string list" where
  \<open>script_firewall v =
  [''UNIT_TMP_DIR="$(mktemp -d /run/gravit-systemd.XXXXXXXX)"'',
   ''UNIT_TMP="$UNIT_TMP_DIR/'' @ sv_service v @ ''.service"'',
   ''FIREWALL_ROOT=/usr/local/lib/gravit-panel-agent'',
   ''install -d -m 0755 "$FIREWALL_ROOT"'',
   ''cat > "$FIREWALL_ROOT/allow-local-rcon.sh" <<\'RCON_FIREWALL'' @ apos,
   ''#!/usr/bin/env bash'',
   ''set -Eeuo pipefail'',
   ''PORT="$1"'',
   ''nft list table inet gravit_panel_agent >/dev/null 2>&1 || nft add table inet gravit_panel_agent'',
   ''nft list set inet gravit_panel_agent rcon_ports >/dev/null 2>&1 ||   nft \'add set inet gravit_panel_agent rcon_ports { type inet_service; }'' @ apos,
   ''nft list chain inet gravit_panel_agent input >/dev/null 2>&1 ||   nft \'add chain inet gravit_panel_agent input { type filter hook input priority 0; policy accept; }'' @ apos,
   ''nft list chain inet gravit_panel_agent input | grep -Fq \'ip saddr 127.0.0.0/8 tcp dport @rcon_ports accept\' ||   nft insert rule inet gravit_panel_agent input ip saddr 127.0.0.0/8 tcp dport @rcon_ports accept'',
   ''nft list chain inet gravit_panel_agent input | grep -Fq \'ip6 saddr ::1 tcp dport @rcon_ports accept\' ||   nft insert rule inet gravit_panel_agent input ip6 saddr ::1 tcp dport @rcon_ports accept'',
   ''nft list chain inet gravit_panel_agent input | grep -Fq \'tcp dport @rcon_ports drop\' ||   nft add rule inet gravit_panel_agent input iifname != lo tcp dport @rcon_ports drop'',
   ''nft add element inet gravit_panel_agent rcon_ports "{ $PORT }" 2>/dev/null || true'',
   ''nft get element inet gravit_panel_agent rcon_ports "{ $PORT }" >/dev/null'',
   ''RCON_FIREWALL'',
   ''chmod 0755 "$FIREWALL_ROOT/allow-local-rcon.sh"'']\<close>

definition script_unit :: "script_values \<Rightarrow> string list" where
  \<open>script_unit v =
  [''cat > "$UNIT_TMP" <<SYSTEMD_UNIT'',
   ''[Unit]'',
   ''Description=Gravit Minecraft server'',
   ''After=network-online.target'',
   ''Wants=network-online.target'',
   [],
   ''[Service]'',
   ''Type=simple'',
   ''User=$SERVICE_UID'',
   ''Group=$SERVICE_GID'',
   ''WorkingDirectory=$SERVICE_ROOT'',
   ''ExecStartPre=+$FIREWALL_ROOT/allow-local-rcon.sh $RCON_PORT'',
   ''ExecStart=$SERVICE_ROOT/start-gravit-server.sh'',
   ''Restart=on-failure'',
   ''RestartSec=10'',
   ''TimeoutStopSec=120'',
   ''KillSignal=SIGINT'',
   [],
   ''[Install]'',
   ''WantedBy=multi-user.target'',
   ''SYSTEMD_UNIT'']\<close>

definition script_agent :: "'w host \<Rightarrow> script_values \<Rightarrow> string list" where
  \<open>script_agent H v =
  [''UPDATER_TOKEN="$(head -c 32 /dev/urandom | base64 | tr -d '' @ apos @ bslash @ ''n\')"'',
   ''AGENT_UNIT_TMP='',
   ''case "$ARCH" in'',
   ''  x86_64|amd64) AGENT_BINARY="$PAYLOAD/gravit-agent-amd64" ;;'',
   ''  aarch64|arm64) AGENT_BINARY="$PAYLOAD/gravit-agent-arm64" ;;'',
   ''esac'',
   ''if ['' @ ''[ -f "$AGENT_BINARY" ]'' @ '']; then'',
   ''  AGENT_CONFIG_ROOT=/etc/gravit-agent'',
   ''  AGENT_BINDINGS_DIR="$AGENT_CONFIG_ROOT/bindings.d"'',
   ''  install -d -m 0700 "$AGENT_CONFIG_ROOT" "$AGENT_BINDINGS_DIR"'',
   ''  install -m 0755 "$AGENT_BINARY" /usr/local/bin/gravit-agent'',
   ''  cat > "$AGENT_CONFIG_ROOT/config.json" <<\'AGENT_CONFIG'' @ apos,
   agent_config_text H (sv_public v),
   ''AGENT_CONFIG'',
   ''  chmod 0600 "$AGENT_CONFIG_ROOT/config.json"'',
   ''  cat > "$AGENT_BINDINGS_DIR/'' @ sv_id v @ ''.json" <<AGENT_BINDING'',
   ''{'',
   ''  "id": '' @ h_stringify H (JStr (sv_id v)) @ '','',
   ''  "token": "$UPDATER_TOKEN",'',
   ''  "unit": '' @ h_stringify H (JStr (sv_service v @ ''.service'')) @ '','',
   ''  "root": '' @ h_stringify H (JStr (''/var/lib/gravit-panel/servers/'' @ sv_id v)) @ '','',
   ''  "rcon": {'',
   ''    "address": "127.0.0.1:$RCON_PORT",'',
   ''    "password": "$RCON_PASSWORD",'',
   ''    "timeoutSeconds": 10'',
   ''  }'',
   ''}'',
   ''AGENT_BINDING'',
   ''  chmod 0600 "$AGENT_BINDINGS_DIR/'' @ sv_id v @ ''.json"'',
   ''  AGENT_UNIT_TMP="$UNIT_TMP_DIR/gravit-agent.service"'',
   ''  cat > "$AGENT_UNIT_TMP" <<AGENT_SERVICE'',
   ''[Unit]'',
   ''Description=Gravit Panel host agent'',
   ''After=network-online.target'',
   ''Wants=network-online.target'',
   [],
   ''[Service]'',
   ''Type=simple'',
   ''ExecStart=/usr/local/bin/gravit-agent -config /etc/gravit-agent/config.json'',
   ''Restart=always'',
   ''RestartSec=5'',
   ''NoNewPrivileges=true'',
   ''PrivateTmp=true'',
   ''ProtectHome=false'',
   [],
   ''[Install]'',
   ''WantedBy=multi-user.target'',
   ''AGENT_SERVICE'',
   ''fi'']\<close>

definition script_verify :: "script_values \<Rightarrow> string list" where
  \<open>script_verify v =
  [''UNITS=("$UNIT_TMP")'',
   ''['' @ ''[ -z "$AGENT_UNIT_TMP" ]'' @ ''] || UNITS+=("$AGENT_UNIT_TMP")'',
   ''if ! systemd-analyze verify "${UNITS[@]}"; then'',
   ''  echo "Generated systemd units are invalid:" >&2'',
   ''  sed -n \'1,200p\' "${UNITS[@]}" >&2'',
   ''  exit 1'',
   ''fi'',
   ''install -m 0644 "$UNIT_TMP" /etc/systemd/system/'' @ sv_service v @ ''.service'',
   ''if ['' @ ''[ -n "$AGENT_UNIT_TMP" ]'' @ '']; then'',
   ''  install -m 0644 "$AGENT_UNIT_TMP" /etc/systemd/system/gravit-agent.service'',
   ''fi'',
   ''rm -rf "$UNIT_TMP_DIR"'',
   ''UNIT_TMP_DIR='',
   ''systemctl daemon-reload'']\<close>

definition script_legacy :: "script_values \<Rightarrow> string list" where
  \<open>script_legacy v =
  [''for PACK_SERVICE in '' @ words (map (\<lambda>n. shell_quote (n @ ''-pack-update'')) (sv_service v # sv_legacy v)) @ ''; do'',
   ''  systemctl disable --now "$PACK_SERVICE.service" "$PACK_SERVICE.timer" >/dev/null 2>&1 || true'',
   ''  rm -f "/etc/systemd/system/$PACK_SERVICE.service" "/etc/systemd/system/$PACK_SERVICE.timer"'',
   ''done'',
   ''for LEGACY_SERVICE in '' @ words (map shell_quote (sv_legacy v)) @ ''; do'',
   ''  ['' @ ''[ "$LEGACY_SERVICE" == '' @ shell_quote (sv_service v) @ '' ]'' @ ''] && continue'',
   ''  systemctl disable --now "$LEGACY_SERVICE.service" "$LEGACY_SERVICE-pack-update.timer" >/dev/null 2>&1 || true'',
   ''  rm -f "/etc/systemd/system/$LEGACY_SERVICE.service"     "/etc/systemd/system/$LEGACY_SERVICE-pack-update.service"     "/etc/systemd/system/$LEGACY_SERVICE-pack-update.timer"'',
   ''done'',
   ''systemctl daemon-reload'',
   ''systemctl enable --now '' @ sv_service v @ ''.service'',
   ''if ['' @ ''[ -n "$AGENT_UNIT_TMP" ]'' @ '']; then'',
   ''  systemctl enable gravit-agent.service'',
   ''  systemctl restart gravit-agent.service'',
   ''fi'']\<close>

definition script_report :: "script_values \<Rightarrow> string list" where
  \<open>script_report v =
  [''systemctl is-active --quiet '' @ sv_service v @ ''.service'',
   ''rm -rf "$PAYLOAD"'',
   ''PAYLOAD='',
   ''curl -f --retry 3 -sS -X POST -H \'content-type: application/json\' '' @ bslash,
   ''  --data "{'' @ bslash @ ''"status'' @ bslash @ ''":'' @ bslash @ ''"installed'' @ bslash @ ''",'' @ bslash @ ''"updaterToken'' @ bslash @ ''":'' @ bslash @ ''"$UPDATER_TOKEN'' @ bslash @ ''"}"   "$REPORT_URL" >/dev/null'',
   ''trap - EXIT'',
   ''echo "Server installed and started as '' @ sv_service v @ ''.service"'',
   []]\<close>

definition bootstrap_script :: "'w host \<Rightarrow> script_values \<Rightarrow> string" where
  "bootstrap_script H v = join_with [CHR 0x0A]
     (script_guard v @ script_workdir v @ script_update v @ script_artifacts v @ script_install v @ script_rcon v @
      script_start v @ script_firewall v @ script_unit v @ script_agent H v @ script_verify v @
      script_legacy v @ script_report v)"

section \<open>The values\<close>

text \<open>
  \<open>renderScript\<close> reads the configuration a draft was frozen with and the digests of its row; a port
  that is no number shows as \<^verbatim>\<open>NaN\<close>.
\<close>

definition script_values_of ::
  "(string \<Rightarrow> string) \<Rightarrow> string \<Rightarrow> json \<Rightarrow> draft \<Rightarrow> string \<Rightarrow> string \<Rightarrow> script_values" where
  "script_values_of fold_text publicUrl cfg row token claim =
     (let b = (case json_field cfg ''binding'' of Some v \<Rightarrow> v | None \<Rightarrow> JNull);
          i = text_field b ''id'';
          base = publicUrl @ ''/api/server-bootstrap/'' @ claim in
      \<lparr>sv_public = publicUrl, sv_curl = curl_of publicUrl, sv_artifacts = base @ ''/artifacts'',
       sv_report = base @ ''/report'', sv_jvm = jvm_options b,
       sv_service = service_name fold_text (text_field b ''name'') i,
       sv_legacy = legacy_service_names i,
       sv_port = (case rcon_port i of Some n \<Rightarrow> show_nat n | None \<Rightarrow> ''NaN''),
       sv_core = core_command cfg, sv_launch = launch_command cfg (game_args b), sv_id = i,
       sv_name = text_field b ''name'', sv_auth = text_field b ''authId'',
       sv_address = text_field cfg ''launchServerAddress'', sv_token = token,
       sv_bundle = the (dr_bundle_sha256 row), sv_x64 = the (dr_jre_x64_sha256 row),
       sv_aarch64 = the (dr_jre_aarch64_sha256 row)\<rparr>)"

definition render_script ::
  "'w host \<Rightarrow> (string \<Rightarrow> string) \<Rightarrow> string \<Rightarrow> json \<Rightarrow> draft \<Rightarrow> string \<Rightarrow> string \<Rightarrow> string" where
  "render_script H fold_text publicUrl cfg row token claim =
     bootstrap_script H (script_values_of fold_text publicUrl cfg row token claim)"

end
