(* ===== verification/Bootstrap_Service.thy ===== *)
theory Bootstrap_Service
  imports Bootstrap_Script Binding_Service Compatibility
begin

text \<open>
  Installing a server on a host: \<^verbatim>\<open>server-bootstrap.service.ts\<close>. A draft is prepared (profile and
  binding are frozen into a configuration, artifacts are fetched and packed), issued as a shell
  command with a claim token, and started, downloaded and reported under that token. The network, the files of the host, URLs, digests and
  the control transport are fields of \<open>boot\<close>.
\<close>

section \<open>The world of the service\<close>

record http_response =
  re_ok :: bool
  re_status :: nat
  re_length :: "rat option"
  re_body :: string

record url =
  u_protocol :: string
  u_host :: string
  u_path :: string
  u_search :: string
  u_hash :: string

record 'w boot =
  bt_host :: "'w host"
  bt_public_url :: "string option"
  bt_launch_url :: string
  bt_agent_dir :: string
  bt_parse_url :: "string \<Rightarrow> url option"
  bt_url_text :: "url \<Rightarrow> string"
  bt_sha256 :: "string \<Rightarrow> string"
  bt_sha1 :: "string \<Rightarrow> string"
  bt_fetch :: "string \<Rightarrow> ('w, http_response) io"
  bt_mkdtemp :: "('w, string) io"
  bt_mkdir :: "string \<Rightarrow> ('w, unit) io"
  bt_write :: "string \<Rightarrow> string \<Rightarrow> ('w, unit) io"
  bt_read :: "string \<Rightarrow> ('w, string option) io"
  bt_stat :: "string \<Rightarrow> ('w, bool option) io"
  bt_copy :: "string \<Rightarrow> string \<Rightarrow> ('w, unit) io"
  bt_rm :: "string \<Rightarrow> ('w, unit) io"
  bt_tar :: "string \<Rightarrow> string \<Rightarrow> ('w, unit) io"
  bt_server_token :: "string \<Rightarrow> string \<Rightarrow> ('w, string) io"
  bt_iso :: "instant \<Rightarrow> string"
  bt_now :: "'w \<Rightarrow> instant"
  bt_uuid :: "'w \<Rightarrow> string"
  bt_token :: "'w \<Rightarrow> string"
  bt_fold :: "string \<Rightarrow> string"

type_synonym ('w, 'a) booting = "('w \<times> bindings \<times> drafts, js_error, 'a) exec"

definition on_world :: "('w, 'a) io \<Rightarrow> ('w, 'a) booting" where
  "on_world p = (\<lambda>(w, b, d). case p w of (r, v) \<Rightarrow> (r, (v, b, d)))"

definition from_bindings :: "(bindings \<Rightarrow> 'a) \<Rightarrow> ('w, 'a) booting" where
  "from_bindings f = reading (\<lambda>(w, b, d). f b)"

definition change_bindings :: "(bindings \<Rightarrow> bindings) \<Rightarrow> ('w, unit) booting" where
  "change_bindings f = writing (\<lambda>(w, b, d). (w, f b, d))"

definition from_drafts :: "(drafts \<Rightarrow> 'a) \<Rightarrow> ('w, 'a) booting" where
  "from_drafts f = reading (\<lambda>(w, b, d). f d)"

definition on_drafts :: "(drafts \<Rightarrow> 'a \<times> drafts) \<Rightarrow> ('w, 'a) booting" where
  "on_drafts f = (\<lambda>(w, b, d). case f d of (x, e) \<Rightarrow> (Inr x, (w, b, e)))"

definition on_drafts_sum :: "(drafts \<Rightarrow> (js_error + 'a) \<times> drafts) \<Rightarrow> ('w, 'a) booting" where
  "on_drafts_sum f = (\<lambda>(w, b, d). case f d of (x, e) \<Rightarrow> (x, (w, b, e)))"

definition change_drafts :: "(drafts \<Rightarrow> drafts) \<Rightarrow> ('w, unit) booting" where
  "change_drafts f = on_drafts (\<lambda>d. ((), f d))"

section \<open>Addresses\<close>

definition launch_server_address :: "'w boot \<Rightarrow> string \<Rightarrow> js_error + string" where
  "launch_server_address B publicUrl =
     (case bt_parse_url B publicUrl of
        None \<Rightarrow> Inl (Error ''Invalid URL'')
      | Some u \<Rightarrow>
          let protocol = (if u_protocol u = ''https:'' then Some ''wss:''
                else if u_protocol u = ''http:'' then Some ''ws:''
                else if u_protocol u \<noteq> ''wss:'' \<and> u_protocol u \<noteq> ''ws:'' then None else Some (u_protocol u));
              base = drop_slashes (u_path u)
          in (case protocol of
                None \<Rightarrow> Inl (Error ''LAUNCHSERVER_PUBLIC_URL must use HTTP, HTTPS, WS, or WSS'')
              | Some p \<Rightarrow> Inr (bt_url_text B (u\<lparr>u_protocol := p,
                  u_path := (if suffix ''/api'' base then base else base @ ''/api''), u_search := [], u_hash := []\<rparr>))))"

definition require_public_url :: "'w boot \<Rightarrow> js_error + string" where
  "require_public_url B =
     (case bt_public_url B of
        None \<Rightarrow> Inl (Error ''PANEL_PUBLIC_URL is required for server bootstrap'')
      | Some p \<Rightarrow>
          if p = [] then Inl (Error ''PANEL_PUBLIC_URL is required for server bootstrap'')
          else (case bt_parse_url B p of
              None \<Rightarrow> Inl (Error ''Invalid URL'')
            | Some u \<Rightarrow>
                if u_protocol u \<noteq> ''https:'' \<and>
                   \<not> (u_protocol u = ''http:'' \<and> u_host u \<in> {''localhost'', ''127.0.0.1''})
                then Inl (Error ''PANEL_PUBLIC_URL must use HTTPS'')
                else Inr (drop_slashes p)))"

section \<open>Downloads\<close>

definition fetch_bytes :: "'w boot \<Rightarrow> string \<Rightarrow> nat \<Rightarrow> ('w, string) io" where
  "fetch_bytes B u maximum =
     andThen (bt_fetch B u) (\<lambda>r.
     thenDo (throwIf (\<not> re_ok r) (Error (''Artifact request failed with HTTP '' @ show_nat (re_status r) @ '': '' @ u)))
     (thenDo (throwIf (case re_length r of Some n \<Rightarrow> of_nat maximum < n | None \<Rightarrow> False)
        (Error (''Artifact exceeds size limit: '' @ u)))
     (thenDo (throwIf (re_body r = [] \<or> maximum < length (re_body r))
        (Error (''Artifact has an invalid size: '' @ u)))
       (ret (re_body r)))))"

definition artifact_limit :: nat where
  "artifact_limit = 512 * 1024 * 1024"

definition fetch_sha256_verified :: "'w boot \<Rightarrow> string \<Rightarrow> string \<Rightarrow> ('w, string) io" where
  "fetch_sha256_verified B u expected =
     andThen (fetch_bytes B u artifact_limit) (\<lambda>bytes.
     thenDo (throwIf (bt_sha256 B bytes \<noteq> js_lower expected) (Error (''Artifact checksum mismatch for '' @ u)))
       (ret bytes))"

definition forge_base :: "loader \<Rightarrow> string \<Rightarrow> string \<Rightarrow> string" where
  "forge_base l version loaderVersion =
     (if l = FORGE then
        (let a = version @ ''-'' @ loaderVersion in
         ''https://maven.minecraftforge.net/net/minecraftforge/forge/'' @ a @ ''/forge-'' @ a @ ''-installer.jar'')
      else ''https://maven.neoforged.net/releases/net/neoforged/neoforge/'' @ loaderVersion @ ''/neoforge-'' @
        loaderVersion @ ''-installer.jar'')"

definition hex_digest_rx :: rx where
  "hex_digest_rx = times 64 (Cls (\<lambda>c. is_digit c \<or> in_range CHR ''a'' CHR ''f'' c))"

text \<open>\<open>trim().split(/\\s+/, 1)[0]\<close>\<close>

definition first_word :: "string \<Rightarrow> string" where
  "first_word s = takeWhile (\<lambda>c. \<not> js_space c) (js_trim s)"

definition loader_text :: "loader \<Rightarrow> string" where
  "loader_text l = (case l of VANILLA \<Rightarrow> ''VANILLA'' | FORGE \<Rightarrow> ''FORGE'' | NEOFORGE \<Rightarrow> ''NEOFORGE''
     | FABRIC \<Rightarrow> ''FABRIC'' | QUILT \<Rightarrow> ''QUILT'')"

definition metadata_url :: "json \<Rightarrow> string \<Rightarrow> string" where
  "metadata_url manifest version =
     (case json_field manifest ''versions'' of
        Some (JArr xs) \<Rightarrow> (case List.find (\<lambda>v. json_field v ''id'' = Some (JStr version)) xs of
            Some v \<Rightarrow> text_field v ''url'' | None \<Rightarrow> [])
      | _ \<Rightarrow> [])"

definition parse_bytes :: "'w boot \<Rightarrow> string \<Rightarrow> ('w, json) io" where
  "parse_bytes B s = (case h_parse (bt_host B) s of None \<Rightarrow> throw_error ''JSON'' | Some JNull \<Rightarrow> throw_error ''null''
     | Some v \<Rightarrow> ret v)"

definition resolve_vanilla :: "'w boot \<Rightarrow> string \<Rightarrow> ('w, string) io" where
  "resolve_vanilla B version =
     andThen (fetch_bytes B ''https://piston-meta.mojang.com/mc/game/version_manifest_v2.json'' (4 * 1024 * 1024)) (\<lambda>raw.
     andThen (parse_bytes B raw) (\<lambda>manifest.
     let u = metadata_url manifest version in
     thenDo (throwIf (u = []) (Error (''Mojang metadata does not contain Minecraft '' @ version)))
     (andThen (fetch_bytes B u (4 * 1024 * 1024)) (\<lambda>raw.
      andThen (parse_bytes B raw) (\<lambda>metadata.
      let server = (case Option.bind (json_field metadata ''downloads'') (\<lambda>d. json_field d ''server'') of
              Some v \<Rightarrow> v | None \<Rightarrow> JNull);
          link = text_field server ''url''; digest = text_field server ''sha1'' in
      thenDo (throwIf (link = [] \<or> digest = []) (Error (''Minecraft '' @ version @ '' server is unavailable'')))
      (andThen (fetch_bytes B link artifact_limit) (\<lambda>bytes.
       thenDo (throwIf (bt_sha1 B bytes \<noteq> js_lower digest) (Error ''Mojang server checksum mismatch''))
         (ret bytes))))))))"

definition fabric_installer_url :: string where
  "fabric_installer_url = ''https://maven.fabricmc.net/net/fabricmc/fabric-installer/1.1.1/fabric-installer-1.1.1.jar''"

definition fabric_installer_sha256 :: string where
  "fabric_installer_sha256 = ''2487a69dd6f9d9c2605265a7142d77c26ab62edc620e6bcf810d581d2ee31b79''"

definition resolve_core :: "'w boot \<Rightarrow> loader \<Rightarrow> string \<Rightarrow> string option \<Rightarrow> ('w, string) io" where
  "resolve_core B l version loaderVersion =
     (if l = VANILLA then resolve_vanilla B version
      else if l = FABRIC then fetch_sha256_verified B fabric_installer_url fabric_installer_sha256
      else let base = forge_base l version (the loaderVersion) in
        andThen (fetch_bytes B (base @ ''.sha256'') 4096) (\<lambda>text.
        let expected = js_lower (first_word text) in
        thenDo (throwIf (\<not> full_match hex_digest_rx expected)
          (Error (loader_text l @ '' installer returned an invalid checksum'')))
          (fetch_sha256_verified B base expected)))"

datatype architecture = X64 | Aarch64

definition jre_url :: "architecture \<Rightarrow> string" where
  "jre_url a = ''https://github.com/adoptium/temurin21-binaries/releases/download/jdk-21.0.12%2B8/'' @
     (case a of X64 \<Rightarrow> ''OpenJDK21U-jre_x64_linux_hotspot_21.0.12_8.tar.gz''
      | Aarch64 \<Rightarrow> ''OpenJDK21U-jre_aarch64_linux_hotspot_21.0.12_8.tar.gz'')"

definition jre_sha256 :: "architecture \<Rightarrow> string" where
  "jre_sha256 a = (case a of
     X64 \<Rightarrow> ''8a379a67c91a3ae61ffb33d46e0a40c7ba35e70713c4db31cfca30492f792eff''
   | Aarch64 \<Rightarrow> ''5f9c96b656827b9d14ebeda7739e25be554fa6d25669b03847c1df6e869c0679'')"

definition jre_name :: "architecture \<Rightarrow> string" where
  "jre_name a = (case a of X64 \<Rightarrow> ''jre-x64.tar.gz'' | Aarch64 \<Rightarrow> ''jre-aarch64.tar.gz'')"

text \<open>A missing or unreadable file is \<open>None\<close>, as after \<open>catch(() => null)\<close>.\<close>

definition resolve_jre :: "'w boot \<Rightarrow> architecture \<Rightarrow> string \<Rightarrow> ('w, string) io" where
  "resolve_jre B a cacheRoot =
     (let path = path_join [cacheRoot, jre_name a] in
      andThen (tryCatch (bt_read B path) (\<lambda>_. ret None)) (\<lambda>existing.
      thenDo (do_when (case existing of Some b \<Rightarrow> bt_sha256 B b \<noteq> jre_sha256 a | None \<Rightarrow> True)
        (andThen (fetch_sha256_verified B (jre_url a) (jre_sha256 a)) (\<lambda>bytes. bt_write B path bytes)))
        (ret path)))"

section \<open>Readiness and drafts\<close>

text \<open>
  \<open>bt_stat\<close> and \<open>bt_read\<close> give \<open>None\<close> for a file that is missing (\<open>ENOENT\<close>) and reject for any other
  failure.
\<close>

definition agent_artifacts :: "string list" where
  "agent_artifacts = [''gravit-agent-amd64'', ''gravit-agent-arm64'']"

fun artifacts_message :: "'w boot \<Rightarrow> string list \<Rightarrow> ('w, string option) io" where
  "artifacts_message B [] = ret None"
| "artifacts_message B (f # fs) =
     (let path = path_join [bt_agent_dir B, f] in
      andThen (tryCatch (andThen (bt_stat B path) (\<lambda>r. ret (case r of
          Some True \<Rightarrow> None
        | Some False \<Rightarrow> Some (''Server agent artifact is not a file: '' @ path)
        | None \<Rightarrow> Some (''Server agent artifact is missing: '' @ path))))
        (\<lambda>e. ret (Some (''Server agent artifact cannot be accessed: '' @ error_message e @ '': '' @ path))))
      (\<lambda>m. case m of Some t \<Rightarrow> ret (Some t) | None \<Rightarrow> artifacts_message B fs))"

definition agent_artifacts_readiness :: "'w boot \<Rightarrow> ('w, bool \<times> string option) io" where
  "agent_artifacts_readiness B =
     andThen (artifacts_message B agent_artifacts) (\<lambda>m. ret (m = None, m))"

definition require_binding :: "string \<Rightarrow> string \<Rightarrow> ('w, binding) booting" where
  "require_binding inst bindingId =
     andThen (from_bindings (get_binding bindingId)) (\<lambda>r. case r of
       None \<Rightarrow> raise (Error ''Managed server binding not found'')
     | Some b \<Rightarrow>
         if sb_installation b \<noteq> inst \<or> sb_id b = [] then raise (Error ''Managed server binding not found'')
         else ret b)"

text \<open>The clock, a new id and a new token are read from the world.\<close>

definition from_world :: "('w \<Rightarrow> 'a) \<Rightarrow> ('w, 'a) booting" where
  "from_world f = reading (\<lambda>(w, b, d). f w)"

definition create_draft :: "'w boot \<Rightarrow> string \<Rightarrow> string \<Rightarrow> ('w, draft_view) booting" where
  "create_draft B inst bindingId =
     andThen (require_binding inst bindingId) (\<lambda>b.
     case sb_eula b of
       None \<Rightarrow> raise (Error ''Minecraft EULA must be accepted before preparing the first installation'')
     | Some t \<Rightarrow>
         andThen (from_world (bt_uuid B)) (\<lambda>i. andThen (from_world (bt_now B)) (\<lambda>now.
         on_drafts_sum (create_draft_row i now
           \<lparr>di_binding = bindingId, di_installation = inst, di_profile = sb_profile b, di_server = sb_name b,
            di_config = JObj [(''eulaAcceptedAt'', JStr (bt_iso B t))]\<rparr>))))"

definition accept_binding_eula :: "'w boot \<Rightarrow> string \<Rightarrow> string \<Rightarrow> ('w, binding option) booting" where
  "accept_binding_eula B inst bindingId =
     thenDo (require_binding inst bindingId)
     (andThen (from_world (bt_now B)) (\<lambda>now.
      thenDo (change_bindings (accept_eula now bindingId))
        (from_bindings (get_binding bindingId))))"

section \<open>The frozen configuration\<close>

definition opt_text :: "string option \<Rightarrow> json" where
  "opt_text v = (case v of None \<Rightarrow> JNull | Some s \<Rightarrow> JStr s)"

definition state_text :: "deployment_state \<Rightarrow> string" where
  "state_text d = (case d of DPending \<Rightarrow> ''pending'' | DReady \<Rightarrow> ''ready''
     | DRequiresUpdate \<Rightarrow> ''requires-update'' | DInstalled \<Rightarrow> ''installed'' | DFailed \<Rightarrow> ''failed'')"

definition binding_json :: "'w boot \<Rightarrow> binding \<Rightarrow> json" where
  "binding_json B b = (let time = (\<lambda>t. opt_text (map_option (bt_iso B) t)) in JObj
     [(''id'', JStr (sb_id b)), (''installationId'', JStr (sb_installation b)),
      (''profileName'', JStr (sb_profile b)), (''name'', JStr (sb_name b)),
      (''serverAddress'', JStr (sb_address b)), (''serverPort'', JNum (of_int (sb_port b))),
      (''isDefault'', JBool (sb_default b)), (''protocol'', JNum (of_int (sb_protocol b))),
      (''socketPing'', JBool (sb_ping b)), (''authId'', JStr (sb_auth b)),
      (''packVersionId'', opt_text (sb_pack b)), (''appliedPackVersionId'', opt_text (sb_applied_pack b)),
      (''eulaAcceptedAt'', time (sb_eula b)), (''updaterInstalledAt'', time (sb_updater_installed b)),
      (''updaterLastSeenAt'', time (sb_updater_seen b)), (''updaterError'', opt_text (sb_updater_error b)),
      (''xms'', JStr (sb_xms b)), (''xmx'', JStr (sb_xmx b)), (''jvmArgs'', args_json (sb_jvm_args b)),
      (''gameArgs'', args_json (sb_game_args b)), (''managed'', JBool True),
      (''deploymentState'', JStr (state_text (sb_state b))),
      (''updatedAt'', JStr (bt_iso B (sb_updated b)))])"

definition core_file :: "loader \<Rightarrow> string" where
  "core_file l = (if l = VANILLA then ''server.jar'' else ''core-installer.jar'')"

definition bootstrap_config ::
  "'w boot \<Rightarrow> string \<Rightarrow> descriptor \<Rightarrow> loader \<Rightarrow> string \<Rightarrow> string \<Rightarrow> binding \<Rightarrow> json" where
  "bootstrap_config B eula profile l authlib address b = JObj
     [(''eulaAcceptedAt'', JStr eula), (''profileUuid'', opt_text (d_uuid profile)),
      (''minecraftVersion'', opt_text (d_version profile)), (''loader'', JStr (loader_text l)),
      (''loaderVersion'', opt_text (d_loader_version profile)), (''authlibArtifact'', JStr authlib),
      (''coreFile'', JStr (core_file l)), (''coreInstall'', JStr (js_lower (loader_text l))),
      (''launchServerAddress'', JStr address), (''binding'', binding_json B b)]"

text \<open>\<open>a !== b\<close> for a field of the profile or binding and the same field of the configuration.\<close>

definition differs :: "json \<Rightarrow> json \<Rightarrow> string \<Rightarrow> bool" where
  "differs v cfg k \<longleftrightarrow> json_field cfg k \<noteq> Some v"

definition profile_differs :: "descriptor \<Rightarrow> json \<Rightarrow> bool" where
  "profile_differs p cfg \<longleftrightarrow>
     differs (opt_text (d_uuid p)) cfg ''profileUuid'' \<or>
     differs (opt_text (d_version p)) cfg ''minecraftVersion'' \<or>
     differs (opt_text (map_option loader_text (d_loader p))) cfg ''loader'' \<or>
     differs (opt_text (d_loader_version p)) cfg ''loaderVersion''"

definition binding_differs :: "binding \<Rightarrow> json \<Rightarrow> bool" where
  "binding_differs b frozen \<longleftrightarrow>
     differs (JStr (sb_name b)) frozen ''name'' \<or>
     differs (JStr (sb_address b)) frozen ''serverAddress'' \<or>
     differs (JNum (of_int (sb_port b))) frozen ''serverPort'' \<or>
     differs (JStr (sb_auth b)) frozen ''authId'' \<or>
     differs (JStr (sb_xms b)) frozen ''xms'' \<or>
     differs (JStr (sb_xmx b)) frozen ''xmx'' \<or>
     differs (args_json (sb_jvm_args b)) frozen ''jvmArgs'' \<or>
     differs (args_json (sb_game_args b)) frozen ''gameArgs''"

text \<open>Reading a property of a \<open>binding\<close> that is absent or null is a type error.\<close>

definition draft_changed :: "descriptor \<Rightarrow> binding \<Rightarrow> json \<Rightarrow> js_error + bool" where
  "draft_changed p b cfg =
     (if profile_differs p cfg then Inr True
      else (case json_field cfg ''binding'' of
          None \<Rightarrow> Inl (Error ''undefined is not an object'')
        | Some JNull \<Rightarrow> Inl (Error ''null is not an object'')
        | Some frozen \<Rightarrow> Inr (binding_differs b frozen)))"

definition stale_message :: string where
  "stale_message = ''Profile or server binding changed; prepare a new bootstrap bundle''"

definition assert_draft_current :: "'w boot \<Rightarrow> string \<Rightarrow> draft \<Rightarrow> ('w, unit) booting" where
  "assert_draft_current B inst row =
     andThen (on_world (get_profile (bt_host B) (dr_profile row))) (\<lambda>profile.
     andThen (require_binding inst (dr_binding row)) (\<lambda>b.
     andThen (ofSum (draft_changed profile b (dr_config row))) (\<lambda>changed.
     if changed then
       thenDo (change_drafts (invalidate_binding (dr_binding row) stale_message))
         (raise (Error stale_message))
     else ret ())))"

section \<open>Preparing\<close>

text \<open>A profile that may be installed: its loader and version, or the first complaint.\<close>

definition preparable :: "descriptor \<Rightarrow> binding \<Rightarrow> js_error + loader \<times> string" where
  "preparable p b =
     (case (d_uuid p, d_version p, d_loader p) of
        (Some u, Some v, Some l) \<Rightarrow>
          if u = [] \<or> v = [] then Inl (Error ''Profile compatibility metadata is incomplete'')
          else if l = QUILT then Inl (Error ''Quilt bootstrap is not supported'')
          else if l \<noteq> VANILLA \<and> d_loader_version p \<in> {None, Some []}
            then Inl (Error ''Exact loader version cannot be derived from the profile'')
          else if sb_auth b = [] \<or> sb_xms b = [] \<or> sb_xmx b = []
            then Inl (Error ''Server binding bootstrap settings are incomplete'')
          else Inr (l, v)
      | _ \<Rightarrow> Inl (Error ''Profile compatibility metadata is incomplete''))"

definition wrapper_url :: string where
  "wrapper_url = ''https://github.com/GravitLauncher/Launcher/releases/download/v5.7.9/ServerWrapper.jar''"

definition wrapper_sha256 :: string where
  "wrapper_sha256 = ''7dc5bc4fe1ef84c37468a48f320a2065dc1aad9ae941a4d29770c09aef500ef6''"

definition inline_url :: string where
  "inline_url = ''https://github.com/GravitLauncher/Launcher/releases/download/v5.7.9/ServerWrapperInline.jar''"

definition inline_sha256 :: string where
  "inline_sha256 = ''3b3522e4d46f3804bed6d4078e41ea90557da14db8562b97a10c4fd0be301d7b''"

definition read_agent :: "'w boot \<Rightarrow> string \<Rightarrow> ('w, string) io" where
  "read_agent B f =
     (let path = path_join [bt_agent_dir B, f] in
      andThen (bt_read B path) (\<lambda>r. case r of
        Some bytes \<Rightarrow> ret bytes
      | None \<Rightarrow> throw_error (''Server agent artifact is missing from the API image: '' @ path @
          ''. Pull and redeploy the current gravit-panel-api image.'')))"

definition bundle_manifest :: "'w boot \<Rightarrow> descriptor \<Rightarrow> loader \<Rightarrow> string \<Rightarrow> string \<Rightarrow> json" where
  "bundle_manifest B p l core authlib = JObj
     [(''launcherVersion'', JStr ''5.7.9''), (''javaRuntime'', JStr ''Temurin 21.0.12+8''),
      (''minecraftVersion'', opt_text (d_version p)), (''loader'', JStr (loader_text l)),
      (''loaderVersion'', opt_text (d_loader_version p)),
      (''fabricInstaller'', if l = FABRIC then JStr ''1.1.1'' else JNull),
      (''coreSha256'', JStr (bt_sha256 B core)), (''authlibArtifact'', JStr authlib)]"

definition authlib_path :: "'w boot \<Rightarrow> string \<Rightarrow> string" where
  "authlib_path B authlib = path_join [h_root (bt_host B), ''launcher'', ''config'', ''MirrorHelper'',
     ''workspace'', ''authlib'', authlib]"

definition stage_downloads :: "'w boot \<Rightarrow> descriptor \<Rightarrow> loader \<Rightarrow> string \<Rightarrow> string \<Rightarrow> ('w, string) io" where
  "stage_downloads B p l version staging =
     andThen (promise_all
       [fetch_sha256_verified B wrapper_url wrapper_sha256,
        fetch_sha256_verified B inline_url inline_sha256,
        resolve_core B l version (d_loader_version p)]) (\<lambda>files.
     thenDo (promise_all
       [bt_write B (path_join [staging, ''ServerWrapper.jar'']) (files ! 0),
        bt_write B (path_join [staging, ''ServerWrapperInline.jar'']) (files ! 1),
        bt_write B (path_join [staging, core_file l]) (files ! 2)])
       (ret (files ! 2)))"

definition stage_agents :: "'w boot \<Rightarrow> string \<Rightarrow> ('w, unit) io" where
  "stage_agents B staging =
     andThen (promise_all (map (read_agent B) agent_artifacts)) (\<lambda>agents.
     thenDo (promise_all
       [bt_write B (path_join [staging, ''gravit-agent-amd64'']) (agents ! 0),
        bt_write B (path_join [staging, ''gravit-agent-arm64'']) (agents ! 1)])
       (ret ()))"

definition stage_authlib :: "'w boot \<Rightarrow> string \<Rightarrow> string \<Rightarrow> ('w, unit) io" where
  "stage_authlib B authlib staging =
     andThen (bt_stat B (authlib_path B authlib)) (\<lambda>r. case r of
       None \<Rightarrow> throw_error ''ENOENT''
     | Some f \<Rightarrow>
         thenDo (throwIf (\<not> f) (Error (authlib @ '' is absent from MirrorHelper workspace'')))
           (bt_copy B (authlib_path B authlib) (path_join [staging, ''LauncherAuthlib.jar''])))"

definition build_bundle ::
  "'w boot \<Rightarrow> string \<Rightarrow> descriptor \<Rightarrow> loader \<Rightarrow> string \<Rightarrow> string \<Rightarrow> json \<Rightarrow> string \<Rightarrow> ('w, draft_artifacts) io" where
  "build_bundle B draftId p l version authlib cfg staging =
     (let base = path_join [h_root (bt_host B), ''server-bootstrap'', draftId];
          cacheRoot = path_join [h_root (bt_host B), ''server-bootstrap'', ''cache''];
          bundle = path_join [base, ''bundle.tar.gz''] in
      andThen (stage_downloads B p l version staging) (\<lambda>core.
      thenDo (stage_agents B staging)
      (thenDo (stage_authlib B authlib staging)
      (thenDo (bt_write B (path_join [staging, ''bootstrap-manifest.json''])
         (h_stringify (bt_host B) (bundle_manifest B p l core authlib) @ [CHR 0x0A]))
      (thenDo (h_progress (bt_host B) 45 ''Packing bootstrap payload'')
      (thenDo (bt_tar B staging bundle)
      (andThen (bt_read B bundle) (\<lambda>packed.
       case packed of
         None \<Rightarrow> throw_error ''ENOENT''
       | Some bytes \<Rightarrow>
       thenDo (h_progress (bt_host B) 60 ''Downloading pinned portable Java 21 runtimes'')
       (andThen (promise_all [resolve_jre B X64 cacheRoot, resolve_jre B Aarch64 cacheRoot]) (\<lambda>jres.
        ret \<lparr>da_bundle_path = bundle, da_bundle_sha256 = bt_sha256 B bytes,
             da_jre_x64_path = jres ! 0, da_jre_x64_sha256 = jre_sha256 X64,
             da_jre_aarch64_path = jres ! 1, da_jre_aarch64_sha256 = jre_sha256 Aarch64,
             da_config = cfg\<rparr>))))))))))"

definition prepare_body :: "'w boot \<Rightarrow> string \<Rightarrow> draft \<Rightarrow> ('w, draft_view option) booting" where
  "prepare_body B inst row =
     andThen (require_binding inst (dr_binding row)) (\<lambda>b.
     andThen (on_world (get_profile (bt_host B) (sb_profile b))) (\<lambda>p.
     andThen (ofSum (preparable p b)) (\<lambda>(l, version).
     andThen (ofSum (resolve_client_compatibility version)) (\<lambda>authlib.
     andThen (ofSum (launch_server_address B (bt_launch_url B))) (\<lambda>address.
     andThen (from_world (bt_now B)) (\<lambda>now.
     let cfg = bootstrap_config B (case json_field (dr_config row) ''eulaAcceptedAt'' of
               Some (JStr t) \<Rightarrow> t | _ \<Rightarrow> bt_iso B now) p l authlib address b;
         base = path_join [h_root (bt_host B), ''server-bootstrap'', dr_id row];
         cacheRoot = path_join [h_root (bt_host B), ''server-bootstrap'', ''cache''] in
     thenDo (on_world (h_progress (bt_host B) 10 ''Resolving verified ServerWrapper and core artifacts''))
     (andThen (on_world (bt_mkdtemp B)) (\<lambda>staging.
      thenDo (on_world (promise_all [bt_mkdir B base, bt_mkdir B cacheRoot]))
      (try_always
        (andThen (on_world (build_bundle B (dr_id row) p l version authlib cfg staging)) (\<lambda>artifacts.
         andThen (from_world (bt_now B)) (\<lambda>finish.
         thenDo (change_drafts (ready_draft finish (dr_id row) artifacts))
         (andThen (from_drafts (get_draft (dr_id row))) (\<lambda>shown.
         thenDo (change_bindings (set_binding_state finish (dr_binding row) DReady))
         (thenDo (on_world (h_progress (bt_host B) 95 ''Bootstrap bundles are ready for one-time issuance''))
           (ret shown)))))))
        (on_world (bt_rm B staging)))))))))))"

definition prepare_draft :: "'w boot \<Rightarrow> string \<Rightarrow> string \<Rightarrow> ('w, draft_view option) booting" where
  "prepare_draft B inst draftId =
     andThen (from_drafts (draft_row draftId)) (\<lambda>r. case r of
       None \<Rightarrow> raise (Error ''Bootstrap draft is not available for preparation'')
     | Some row \<Rightarrow>
         if dr_installation row \<noteq> inst \<or> dr_status row \<noteq> Preparing
         then raise (Error ''Bootstrap draft is not available for preparation'')
         else tryCatch (prepare_body B inst row) (\<lambda>e.
           thenDo (change_drafts (fail_draft draftId (error_message e)))
           (andThen (from_world (bt_now B)) (\<lambda>now.
            thenDo (change_bindings (set_binding_state now (dr_binding row) DFailed))
              (raise e)))))"

section \<open>Issuing, starting and reporting\<close>

definition issue_bootstrap :: "'w boot \<Rightarrow> string \<Rightarrow> string \<Rightarrow> ('w, draft_view \<times> string) booting" where
  "issue_bootstrap B inst draftId =
     andThen (ofSum (require_public_url B)) (\<lambda>base.
     andThen (from_drafts (draft_row draftId)) (\<lambda>r. case r of
       None \<Rightarrow> raise (Error ''Bootstrap draft not found'')
     | Some row \<Rightarrow>
         if dr_installation row \<noteq> inst then raise (Error ''Bootstrap draft not found'')
         else thenDo (assert_draft_current B inst row)
           (andThen (from_world (bt_token B)) (\<lambda>claim. andThen (from_world (bt_now B)) (\<lambda>now.
            andThen (on_drafts_sum (issue_draft (bt_sha256 B) now claim draftId)) (\<lambda>(token, shown).
              ret (shown, issue_command base token)))))))"

definition bootstrap_loader :: "'w boot \<Rightarrow> string \<Rightarrow> js_error + string" where
  "bootstrap_loader B claim = (case require_public_url B of Inl e \<Rightarrow> Inl e | Inr base \<Rightarrow> Inr (loader_script base claim))"

definition start_bootstrap :: "'w boot \<Rightarrow> string \<Rightarrow> string \<Rightarrow> ('w, string option) booting" where
  "start_bootstrap B inst claim =
     andThen (from_world (bt_now B)) (\<lambda>now.
     andThen (on_drafts (begin_claim (bt_sha256 B) now claim)) (\<lambda>r. case r of
       None \<Rightarrow> ret None
     | Some row \<Rightarrow>
         if dr_installation row \<noteq> inst then ret None
         else thenDo (assert_draft_current B inst row)
           (andThen (on_world (bt_server_token B (text_field (dr_config row) ''profileUuid'')
              (text_field (the (json_field (dr_config row) ''binding'')) ''authId''))) (\<lambda>token.
            andThen (ofSum (require_public_url B)) (\<lambda>base.
            andThen (from_drafts (draft_row (dr_id row))) (\<lambda>frozen.
              ret (Some (render_script (bt_host B) (bt_fold B) base (dr_config row) (the frozen) token claim))))))))"

datatype artifact_kind = BundleFile | JreX64 | JreAarch64

definition claimed_artifact :: "'w boot \<Rightarrow> string \<Rightarrow> artifact_kind \<Rightarrow> drafts \<Rightarrow> (string \<times> string) option" where
  "claimed_artifact B claim k t =
     (case artifact_by_claim (bt_sha256 B) claim t of
        None \<Rightarrow> None
      | Some r \<Rightarrow>
          (case (case k of BundleFile \<Rightarrow> (dr_bundle_path r, dr_bundle_sha256 r)
              | JreX64 \<Rightarrow> (dr_jre_x64_path r, dr_jre_x64_sha256 r)
              | JreAarch64 \<Rightarrow> (dr_jre_aarch64_path r, dr_jre_aarch64_sha256 r)) of
             (Some p, Some d) \<Rightarrow> if p \<noteq> [] \<and> d \<noteq> [] then Some (p, d) else None
           | _ \<Rightarrow> None))"

definition report_bootstrap ::
  "'w boot \<Rightarrow> string \<Rightarrow> bool \<Rightarrow> string option \<Rightarrow> string option \<Rightarrow> ('w, draft_view option) booting" where
  "report_bootstrap B claim installed err updaterToken =
     andThen (from_world (bt_now B)) (\<lambda>now.
     andThen (on_drafts (report_claim (bt_sha256 B) now claim installed err)) (\<lambda>r. case r of
       None \<Rightarrow> ret None
     | Some d \<Rightarrow>
         thenDo (change_bindings (set_binding_state now (dv_binding d) (if installed then DInstalled else DFailed)))
         (thenDo (do_when (installed \<and> updaterToken \<notin> {None, Some []})
           (change_bindings (save_updater_token now (dv_binding d) (bt_sha256 B (the updaterToken)))))
           (ret (Some d)))))"

definition revoked_reason :: string where
  "revoked_reason = ''Bootstrap command revoked''"

definition revoke_bootstrap :: "string \<Rightarrow> string \<Rightarrow> ('w, draft_view option) booting" where
  "revoke_bootstrap inst draftId =
     andThen (from_drafts (draft_row draftId)) (\<lambda>r. case r of
       None \<Rightarrow> raise (Error ''Bootstrap draft not found'')
     | Some row \<Rightarrow>
         if dr_installation row \<noteq> inst then raise (Error ''Bootstrap draft not found'')
         else thenDo (change_drafts (revoke_draft draftId revoked_reason)) (from_drafts (get_draft draftId)))"

definition updater_binding :: "'w boot \<Rightarrow> string \<Rightarrow> ('w, binding option) booting" where
  "updater_binding B token =
     (if token = [] then ret None
      else andThen (from_bindings (get_binding_by_token (bt_sha256 B token))) (\<lambda>r. case r of
        None \<Rightarrow> ret None
      | Some b \<Rightarrow>
          if sb_id b = [] then ret None
          else andThen (from_world (bt_now B)) (\<lambda>now.
            thenDo (change_bindings (touch_updater now (sb_id b))) (from_bindings (get_binding (sb_id b))))))"

end
