(* ===== verification/Bootstrap_Properties.thy ===== *)
theory Bootstrap_Properties
  imports Bootstrap_Service
begin

text \<open>
  What the bootstrap keeps: the table of drafts refines a state machine with one phase per draft, a
  claim token opens exactly the draft it was issued for, and quoted texts reach the shell unchanged.
\<close>

section \<open>The state machine of the drafts\<close>

text \<open>
  A draft is unprepared, prepared, open under the hash of a token, or closed. The abstract state maps
  ids to the binding and the phase of a draft.
\<close>

datatype phase = Unprepared | Prepared | Open "string option" | Closed

type_synonym stages = "string \<rightharpoonup> string \<times> phase"

definition draft_phase :: "draft \<Rightarrow> phase" where
  "draft_phase r = (case dr_status r of Preparing \<Rightarrow> Unprepared | DraftReady \<Rightarrow> Prepared
     | Issued \<Rightarrow> Open (dr_claim_hash r) | Claimed \<Rightarrow> Open (dr_claim_hash r)
     | Installed \<Rightarrow> Closed | DraftFailed \<Rightarrow> Closed)"

definition draft_stage :: "draft \<Rightarrow> string \<times> phase" where
  "draft_stage r = (dr_binding r, draft_phase r)"

definition stages :: "drafts \<Rightarrow> stages" where
  "stages t = (\<lambda>i. map_option draft_stage (draft_row i t))"

text \<open>The statements that write the table, with the ids, tokens and instants they draw.\<close>

datatype draft_act =
    CreateDraft string instant draft_input
  | ReadyDraft instant string draft_artifacts
  | FailDraft string string
  | IssueDraft instant string string
  | BeginClaim instant string
  | ReportClaim instant string bool "string option"
  | RevokeDraft string string
  | InvalidateBinding string string
  | DropBinding string

fun do_draft :: "(string \<Rightarrow> string) \<Rightarrow> draft_act \<Rightarrow> drafts \<Rightarrow> drafts" where
  "do_draft h (CreateDraft i now inp) t = snd (create_draft_row i now inp t)"
| "do_draft h (ReadyDraft now i a) t = ready_draft now i a t"
| "do_draft h (FailDraft i e) t = fail_draft i e t"
| "do_draft h (IssueDraft now c i) t = snd (issue_draft h now c i t)"
| "do_draft h (BeginClaim now c) t = snd (begin_claim h now c t)"
| "do_draft h (ReportClaim now c installed err) t = snd (report_claim h now c installed err t)"
| "do_draft h (RevokeDraft i reason) t = revoke_draft i reason t"
| "do_draft h (InvalidateBinding b reason) t = invalidate_binding b reason t"
| "do_draft h (DropBinding b) t = drop_binding_drafts b t"

text \<open>One phase after another.\<close>

definition advance :: "(string \<Rightarrow> string \<times> phase \<Rightarrow> phase) \<Rightarrow> stages \<Rightarrow> stages" where
  "advance g m = (\<lambda>i. map_option (\<lambda>v. (fst v, g i v)) (m i))"

fun stage_step :: "(string \<Rightarrow> string) \<Rightarrow> draft_act \<Rightarrow> stages \<Rightarrow> stages" where
  "stage_step h (CreateDraft i now inp) m =
     (if m i = None then m(i \<mapsto> (di_binding inp, Unprepared)) else m)"
| "stage_step h (ReadyDraft now i a) m = advance (\<lambda>j (b, p). if j = i then Prepared else p) m"
| "stage_step h (FailDraft i e) m = advance (\<lambda>j (b, p). if j = i then Closed else p) m"
| "stage_step h (IssueDraft now c i) m =
     advance (\<lambda>j (b, p). if j = i \<and> p = Prepared then Open (Some (h c)) else p) m"
| "stage_step h (BeginClaim now c) m = m"
| "stage_step h (ReportClaim now c installed err) m =
     advance (\<lambda>j (b, p). if p = Open (Some (h c)) then Closed else p) m"
| "stage_step h (RevokeDraft i reason) m =
     advance (\<lambda>j (b, p). if j = i \<and> p \<noteq> Unprepared then Closed else p) m"
| "stage_step h (InvalidateBinding b reason) m = advance (\<lambda>j (b', p). if b' = b then Closed else p) m"
| "stage_step h (DropBinding b) m = (\<lambda>i. case m i of Some (b', p) \<Rightarrow> if b' = b then None else m i | None \<Rightarrow> None)"

text \<open>A token drawn by \<open>issue\<close> is new: no row holds its hash.\<close>

fun fresh_token :: "(string \<Rightarrow> string) \<Rightarrow> draft_act \<Rightarrow> drafts \<Rightarrow> bool" where
  "fresh_token h (IssueDraft now c i) t \<longleftrightarrow> (\<forall>r\<in>set t. dr_claim_hash r \<noteq> Some (h c))"
| "fresh_token h a t \<longleftrightarrow> True"

lemma stages_update:
  assumes f: "\<And>r. dr_id (f r) = dr_id r" and b: "\<And>r. dr_binding (f r) = dr_binding r"
    and g: "\<And>r. draft_row (dr_id r) t = Some r \<Longrightarrow>
      draft_phase (if P r then f r else r) = g (dr_id r) (draft_stage r)"
  shows "stages (sql_update P f t) = advance g (stages t)"
proof
  fix i
  show "stages (sql_update P f t) i = advance g (stages t) i"
  proof (cases "draft_row i t")
    case None
    then show ?thesis by (simp add: stages_def advance_def draft_row_update[where f = f, OF f])
  next
    case (Some r)
    then have i: "dr_id r = i" using draft_row_id by blast
    with Some have "draft_phase (if P r then f r else r) = g i (draft_stage r)" using g[of r] by simp
    with Some b show ?thesis
      by (simp add: stages_def advance_def draft_row_update[where f = f, OF f] draft_stage_def)
  qed
qed

lemma advance_same: "(\<And>i v. m i = Some v \<Longrightarrow> g i v = snd v) \<Longrightarrow> advance g m = m"
  by (rule ext) (simp add: advance_def map_option_case split: option.split)

lemma phase_closed [simp]:
  "draft_phase (without_tokens (r\<lparr>dr_status := DraftFailed, dr_error := e\<rparr>)) = Closed"
  "draft_phase (r\<lparr>dr_status := DraftFailed, dr_error := e\<rparr>) = Closed"
  by (simp_all add: draft_phase_def without_tokens_def)

lemma open_phase: "open_claim r = Some x \<longleftrightarrow> draft_phase r = Open (Some x)"
  by (simp add: open_claim_def is_open_def draft_phase_def split: draft_status.split)

text \<open>Each statement is its step.\<close>

lemma stages_create:
  "stages (snd (create_draft_row i now inp t)) = stage_step h (CreateDraft i now inp) (stages t)"
proof (cases "i \<in> dr_id ` set t")
  case True
  then have "draft_row i t \<noteq> None" by (simp add: draft_row_def get_by_None)
  then have "stages t i \<noteq> None" by (simp add: stages_def)
  with True show ?thesis by (auto simp: create_draft_row_def sql_insert_def new_draft_def)
next
  case False
  then have "draft_row i t = None" by (simp add: draft_row_def get_by_None)
  moreover have "dr_id (new_draft i now inp) = i" by (simp add: new_draft_def)
  ultimately show ?thesis using False
    by (auto simp: fun_eq_iff create_draft_row_def sql_insert_def stages_def draft_row_def table_simps
        draft_stage_def draft_phase_def new_draft_def split: option.split)
qed

lemma stages_begin: "stages (snd (begin_claim h now c t)) = stages t"
proof (cases "artifact_by_claim h c t")
  case (Some r)
  have "stages (sql_update (\<lambda>q. dr_id q = dr_id r \<and> is_open q) (\<lambda>q. q\<lparr>dr_status := Claimed, dr_claimed := Some now\<rparr>) t) =
      advance (\<lambda>i v. snd v) (stages t)"
    by (rule stages_update) (simp_all add: draft_phase_def draft_stage_def is_open_def split: draft_status.split)
  with Some show ?thesis by (simp add: begin_claim_def advance_same Let_def)
qed (simp add: begin_claim_def)

lemma claim_holder:
  assumes "drafts_ok t" and "artifact_by_claim h c t = Some r" and "draft_row (dr_id q) t = Some q"
  shows "dr_id q = dr_id r \<longleftrightarrow> draft_phase q = Open (Some (h c))"
proof
  assume "draft_phase q = Open (Some (h c))"
  then have "open_claim q = Some (h c)" by (simp add: open_phase)
  then have "artifact_by_claim h c t = Some q" using artifact_by_claim_iff[OF assms(1)] assms(3) by blast
  with assms(2) show "dr_id q = dr_id r" by simp
next
  assume "dr_id q = dr_id r"
  then have "draft_row (dr_id q) t = Some r" using artifact_by_claim_row(1)[OF assms(1,2)] by simp
  with assms(3) artifact_by_claim_row(2)[OF assms(1,2)] show "draft_phase q = Open (Some (h c))"
    by (simp add: open_phase)
qed

lemma stages_report:
  assumes "drafts_ok t"
  shows "stages (snd (report_claim h now c installed err t)) =
    advance (\<lambda>j (b, p). if p = Open (Some (h c)) then Closed else p) (stages t)"
proof (cases "artifact_by_claim h c t")
  case None
  have closed: "draft_phase q \<noteq> Open (Some (h c))" if "draft_row i t = Some q" for q i
  proof
    assume "draft_phase q = Open (Some (h c))"
    then have "open_claim q = Some (h c)" by (simp add: open_phase)
    moreover have "draft_row (dr_id q) t = Some q" using that draft_row_id[OF that] by simp
    ultimately have "artifact_by_claim h c t = Some q" using artifact_by_claim_iff[OF assms] by blast
    with None show False by simp
  qed
  have "advance (\<lambda>j (b, p). if p = Open (Some (h c)) then Closed else p) (stages t) = stages t"
    by (rule advance_same) (auto simp: stages_def draft_stage_def dest: closed)
  with None show ?thesis by (simp add: report_claim_def)
next
  case (Some r)
  have "stages (sql_update (\<lambda>q. dr_id q = dr_id r)
      (\<lambda>q. without_tokens (q\<lparr>dr_status := (if installed then Installed else DraftFailed),
         dr_error := map_option (take 2000) err, dr_installed := (if installed then Some now else None)\<rparr>)) t) =
    advance (\<lambda>j (b, p). if p = Open (Some (h c)) then Closed else p) (stages t)"
  proof (rule stages_update)
    fix q
    assume q: "draft_row (dr_id q) t = Some q"
    show "draft_phase (if dr_id q = dr_id r then without_tokens (q\<lparr>dr_status := (if installed then Installed else DraftFailed),
         dr_error := map_option (take 2000) err, dr_installed := (if installed then Some now else None)\<rparr>) else q) =
       (case draft_stage q of (b, p) \<Rightarrow> if p = Open (Some (h c)) then Closed else p)"
      unfolding claim_holder[OF assms Some q] by (simp add: draft_stage_def draft_phase_def[of "without_tokens _"])
  qed (simp_all add: without_tokens_def)
  with Some show ?thesis by (simp add: report_claim_def Let_def)
qed

lemma prepared: "draft_phase r = Prepared \<longleftrightarrow> dr_status r = DraftReady"
  by (cases "dr_status r") (simp_all add: draft_phase_def)

lemma stages_issue:
  assumes "fresh_token h (IssueDraft now c i) t"
  shows "stages (snd (issue_draft h now c i t)) = stage_step h (IssueDraft now c i) (stages t)"
proof -
  have step: "stages (sql_update (\<lambda>r. dr_id r = i) (issued_row now (h c)) t) = stage_step h (IssueDraft now c i) (stages t)"
    if "draft_row i t = Some r" "dr_status r = DraftReady" for r
    unfolding stage_step.simps
  proof (rule stages_update)
    fix q
    assume "draft_row (dr_id q) t = Some q"
    then have "dr_id q = i \<Longrightarrow> dr_status q = DraftReady" using that by simp
    then show "draft_phase (if dr_id q = i then issued_row now (h c) q else q) =
        (case draft_stage q of (b, p) \<Rightarrow> if dr_id q = i \<and> p = Prepared then Open (Some (h c)) else p)"
      by (simp add: draft_stage_def draft_phase_def issued_row_def)
  qed (simp_all add: issued_row_def)
  have same: "stage_step h (IssueDraft now c i) (stages t) = stages t"
    if "\<And>r. draft_row i t = Some r \<Longrightarrow> dr_status r \<noteq> DraftReady"
    unfolding stage_step.simps
    by (rule advance_same) (use that in \<open>auto simp: stages_def draft_stage_def prepared\<close>)
  show ?thesis
  proof (cases "draft_row i t")
    case None
    with same show ?thesis by (simp add: issue_draft_def)
  next
    case (Some r)
    show ?thesis
    proof (cases "dr_status r = DraftReady")
      case True
      have "\<not> (\<exists>q\<in>set t. dr_id q \<noteq> i \<and> dr_claim_hash q = Some (h c))" using assms by simp
      with Some True step[OF Some True] show ?thesis by (simp only: issue_draft_def Let_def option.case not_True_eq_False if_False snd_conv simp_thms)
    next
      case False
      with Some same show ?thesis by (simp add: issue_draft_def)
    qed
  qed
qed

lemma stages_updates:
  "stages (ready_draft now i a t) = advance (\<lambda>j (b, p). if j = i then Prepared else p) (stages t)"
  "stages (fail_draft i e t) = advance (\<lambda>j (b, p). if j = i then Closed else p) (stages t)"
  "stages (revoke_draft i reason t) = advance (\<lambda>j (b, p). if j = i \<and> p \<noteq> Unprepared then Closed else p) (stages t)"
  "stages (invalidate_binding b reason t) = advance (\<lambda>j (b', p). if b' = b then Closed else p) (stages t)"
  unfolding ready_draft_def fail_draft_def revoke_draft_def invalidate_binding_def
  by (rule stages_update; simp add: draft_stage_def draft_phase_def without_tokens_def split: draft_status.split)+

lemma stages_drop:
  assumes "drafts_ok t"
  shows "stages (drop_binding_drafts b t) = stage_step h (DropBinding b) (stages t)"
proof
  fix i
  have "keys_distinct dr_id t" using assms unfolding drafts_ok_def by blast
  then show "stages (drop_binding_drafts b t) i = stage_step h (DropBinding b) (stages t) i"
    by (simp add: stages_def drop_binding_drafts_def draft_row_def get_by_delete draft_stage_def split: option.split)
qed

lemma do_draft_stages:
  assumes "drafts_ok t" and "fresh_token h a t"
  shows "stages (do_draft h a t) = stage_step h a (stages t)"
  using assms(2)
  by (cases a) (simp_all add: stages_create stages_updates stages_begin stages_report[OF assms(1)]
      stages_drop[OF assms(1), where h = h] stages_issue del: fresh_token.simps(1) stage_step.simps(1,4,9))

lemma do_draft_ok:
  assumes "drafts_ok t"
  shows "drafts_ok (do_draft h a t)"
proof (cases a)
  case (BeginClaim now c)
  with assms show ?thesis
    by (cases "artifact_by_claim h c t") (auto simp: begin_claim_def Let_def intro!: drafts_ok_update)
next
  case (ReportClaim now c installed err)
  with assms show ?thesis
    by (cases "artifact_by_claim h c t") (auto simp: report_claim_def Let_def intro!: drafts_ok_update)
qed (use assms in \<open>auto simp: create_ok issue_ok drop_binding_drafts_def drafts_ok_delete ready_draft_def
    fail_draft_def revoke_draft_def invalidate_binding_def intro!: drafts_ok_update\<close>)

lemma holder_iff:
  assumes "drafts_ok t"
  shows "map_option dr_id (artifact_by_claim h c t) = Some i \<longleftrightarrow> map_option snd (stages t i) = Some (Open (Some (h c)))"
proof
  assume "map_option dr_id (artifact_by_claim h c t) = Some i"
  then obtain r where r: "artifact_by_claim h c t = Some r" "dr_id r = i" by blast
  with artifact_by_claim_row[OF assms r(1)] show "map_option snd (stages t i) = Some (Open (Some (h c)))"
    by (simp add: stages_def draft_stage_def open_phase)
next
  assume "map_option snd (stages t i) = Some (Open (Some (h c)))"
  then obtain r where r: "draft_row i t = Some r" "open_claim r = Some (h c)"
    by (auto simp: stages_def draft_stage_def open_phase)
  then have i: "dr_id r = i" using draft_row_id by blast
  with r have "artifact_by_claim h c t = Some r" using artifact_by_claim_iff[OF assms] by simp
  with i show "map_option dr_id (artifact_by_claim h c t) = Some i" by simp
qed

text \<open>C21:
  The table of bootstrap drafts is a state machine with one phase per draft (refinement): whatever
  statement runs (create, ready, fail, issue, begin, report, revoke, invalidate, cascade), the invariant
  of the table is kept and the phases move as the abstract step says; and a claim token finds a draft
  exactly while that draft is open under the token's hash. The token an \<open>issue\<close> draws is new.
\<close>

theorem bootstrap_claims_refine:
  assumes "drafts_ok t" and "fresh_token h a t"
  shows "drafts_ok (do_draft h a t) \<and> stages (do_draft h a t) = stage_step h a (stages t) \<and>
    (\<forall>c i. map_option dr_id (artifact_by_claim h c t) = Some i \<longleftrightarrow> map_option snd (stages t i) = Some (Open (Some (h c))))"
  using do_draft_ok[OF assms(1)] do_draft_stages[OF assms] holder_iff[OF assms(1)] by blast

definition sample_drafts :: drafts where
  "sample_drafts = ready_draft 2 ''d''
     \<lparr>da_bundle_path = ''p'', da_bundle_sha256 = ''s'', da_jre_x64_path = ''p'', da_jre_x64_sha256 = ''s'',
      da_jre_aarch64_path = ''p'', da_jre_aarch64_sha256 = ''s'', da_config = JObj []\<rparr>
     (snd (create_draft_row ''d'' 1 \<lparr>di_binding = ''b'', di_installation = ''i'', di_profile = ''p'',
        di_server = ''s'', di_config = JObj []\<rparr> []))"

lemma bootstrap_claims_refine_witness:
  "stages (do_draft id (IssueDraft 3 ''token'' ''d'') sample_drafts) ''d'' = Some (''b'', Open (Some ''token'')) \<and>
   stages (do_draft id (IssueDraft 3 ''token'' ''d'') sample_drafts) =
     stage_step id (IssueDraft 3 ''token'' ''d'') (stages sample_drafts)"
proof
  have ok: "drafts_ok sample_drafts" "fresh_token id (IssueDraft 3 ''token'' ''d'') sample_drafts"
    by (simp_all add: sample_drafts_def ready_draft_def create_draft_row_def sql_insert_def sql_update_def
        new_draft_def drafts_ok_def keys_distinct_def)
  show "stages (do_draft id (IssueDraft 3 ''token'' ''d'') sample_drafts) =
     stage_step id (IssueDraft 3 ''token'' ''d'') (stages sample_drafts)"
    using bootstrap_claims_refine[OF ok] by blast
  show "stages (do_draft id (IssueDraft 3 ''token'' ''d'') sample_drafts) ''d'' = Some (''b'', Open (Some ''token''))"
    by code_simp
qed

section \<open>Quoting\<close>

text \<open>
  How a POSIX shell reads the words of a command: bare text up to a blank, single quotes that take
  everything, double quotes that take everything but an expansion. A text that holds an expansion, an
  operator or an open quote is \<open>None\<close>.
\<close>

datatype quoting = Bare | InSingle | InDouble

definition blank :: "char \<Rightarrow> bool" where
  "blank c \<longleftrightarrow> c = CHR '' '' \<or> c = CHR 0x09 \<or> c = CHR 0x0A"

definition expands :: "char \<Rightarrow> bool" where
  "expands c \<longleftrightarrow> c \<in> {CHR ''$'', CHR 0x60, CHR 0x5C}"

definition operator :: "char \<Rightarrow> bool" where
  "operator c \<longleftrightarrow> c \<in> {CHR ''|'', CHR ''&'', CHR '';'', CHR ''<'', CHR ''>'', CHR ''('', CHR '')'',
     CHR ''*'', CHR ''?'', CHR ''['', CHR ''#'', CHR ''~'', CHR ''{'', CHR ''!''}"

definition prepend :: "char \<Rightarrow> (string \<times> string) option \<Rightarrow> (string \<times> string) option" where
  "prepend c = map_option (\<lambda>(w, r). (c # w, r))"

fun shell_word :: "quoting \<Rightarrow> string \<Rightarrow> (string \<times> string) option" where
  "shell_word Bare [] = Some ([], [])"
| "shell_word Bare (c # cs) =
     (if blank c then Some ([], c # cs)
      else if c = CHR 0x27 then shell_word InSingle cs
      else if c = CHR 0x22 then shell_word InDouble cs
      else if expands c \<or> operator c then None
      else prepend c (shell_word Bare cs))"
| "shell_word InSingle [] = None"
| "shell_word InSingle (c # cs) = (if c = CHR 0x27 then shell_word Bare cs else prepend c (shell_word InSingle cs))"
| "shell_word InDouble [] = None"
| "shell_word InDouble (c # cs) =
     (if c = CHR 0x22 then shell_word Bare cs
      else if expands c then None
      else prepend c (shell_word InDouble cs))"

lemma shell_word_shortens: "shell_word q s = Some (w, r) \<Longrightarrow> length r \<le> length s"
  by (induction q s arbitrary: w r rule: shell_word.induct)
    (auto simp: prepend_def le_Suc_eq split: if_splits)

lemma shell_word_advances:
  "shell_word Bare s = Some (w, r) \<Longrightarrow> s \<noteq> [] \<Longrightarrow> \<not> blank (hd s) \<Longrightarrow> length r < length s"
  by (cases s) (auto simp: prepend_def less_Suc_eq_le split: if_splits dest: shell_word_shortens)

function shell_words :: "string \<Rightarrow> string list option" where
  "shell_words s =
     (let t = dropWhile blank s in
      if t = [] then Some []
      else (case shell_word Bare t of
          None \<Rightarrow> None
        | Some (w, r) \<Rightarrow> map_option ((#) w) (shell_words r)))"
  by pat_completeness auto

termination
proof (relation "measure length")
  fix s t x w r
  assume t: "t = dropWhile blank s" "t \<noteq> []" and x: "shell_word Bare t = Some x" "(w, r) = x"
  have "length r < length t"
    using x t hd_dropWhile[of blank s] by (intro shell_word_advances[of t w r]) auto
  with t(1) length_dropWhile_le[of blank s] show "(r, s) \<in> measure length" by simp
qed simp

declare shell_words.simps [simp del]

lemma shell_word_quoted:
  "shell_word InSingle (concat (map (\<lambda>c. if c = CHR 0x27 then [CHR 0x27, CHR 0x22, CHR 0x27, CHR 0x22, CHR 0x27] else [c]) v) @
     CHR 0x27 # r) = map_option (\<lambda>(w, u). (v @ w, u)) (shell_word Bare r)"
proof (induction v)
  case Nil
  then show ?case by (cases "shell_word Bare r") auto
next
  case (Cons c v)
  then show ?case
    by (cases "shell_word Bare r") (auto simp: prepend_def blank_def expands_def operator_def)
qed

lemma shell_word_quote:
  assumes "r = [] \<or> blank (hd r)"
  shows "shell_word Bare (shell_quote v @ r) = Some (v, r)"
proof -
  have "shell_word Bare r = Some ([], r)" using assms by (cases r) auto
  then show ?thesis by (simp add: shell_quote_def shell_word_quoted blank_def)
qed

lemma shell_quote_first: "shell_quote v = CHR 0x27 # tl (shell_quote v)" "shell_quote v \<noteq> []"
  by (simp_all add: shell_quote_def)

lemma shell_words_quote:
  assumes "r = [] \<or> blank (hd r)"
  shows "shell_words (shell_quote v @ r) = map_option ((#) v) (shell_words r)"
proof -
  have "dropWhile blank (shell_quote v @ r) = shell_quote v @ r"
    by (subst (1 2) shell_quote_first(1)) (simp add: blank_def)
  with shell_word_quote[OF assms] show ?thesis
    by (subst shell_words.simps) (simp add: Let_def shell_quote_first(2))
qed

lemma shell_words_blank: "shell_words (CHR '' '' # s) = shell_words s"
  by (subst (1 2) shell_words.simps) (simp add: blank_def)

text \<open>C22:
  What the installer passes to the server is what the panel holds (round trip): for every list of texts,
  quotes, blanks, line ends and dollar signs included, a shell that reads the quoted arguments of the
  command line gets exactly these texts, and the game arguments of a frozen configuration in particular.
\<close>

theorem quoted_arguments_round_trip:
  "shell_words (words (map shell_quote vs)) = Some vs \<and>
   shell_words (game_args b) = Some (texts_field b ''gameArgs'')"
proof -
  have quoted: "shell_words (words (map shell_quote vs)) = Some vs" for vs
  proof (induction vs)
    case Nil
    then show ?case by (subst shell_words.simps) (simp add: words_def)
  next
    case (Cons v vs)
    show ?case
    proof (cases vs)
      case Nil
      have "shell_words [] = Some []" by (subst shell_words.simps) simp
      with Nil shell_words_quote[of "[]" v] show ?thesis by (simp add: words_def)
    next
      case (Cons u us)
      have "words (map shell_quote (v # vs)) = shell_quote v @ CHR '' '' # words (map shell_quote vs)"
        by (simp add: Cons words_def)
      then show ?thesis using Cons.IH shell_words_quote[of "CHR '' '' # words (map shell_quote vs)" v]
        by (simp add: blank_def shell_words_blank)
    qed
  qed
  then show ?thesis by (simp add: game_args_def)
qed

end
