(* ===== verification/Panel_Auth.thy ===== *)
theory Panel_Auth
  imports Web_Text Tables
begin

text \<open>
  Signing in to the panel with Discord: \<^verbatim>\<open>panel-auth.service.ts\<close>. The tables of OAuth states and of sessions
  hold hashes of random tokens. The URL parser (\<open>pa_relative\<close> resolves against \<^verbatim>\<open>https://panel.invalid\<close>) and
  its search parameters, the form encoder, \<open>fetch\<close>, the clock, the random tokens and the hash are fields of
  \<open>panel_auth\<close>.
\<close>

section \<open>State and configuration\<close>

record web_url =
  wu_protocol :: string
  wu_origin :: string
  wu_path :: string
  wu_search :: string
  wu_hash :: string

record 'w panel_auth =
  pa_mode :: string
  pa_public_url :: "string option"
  pa_redirect_uri :: "string option"
  pa_client_id :: string
  pa_client_secret :: string
  pa_allowed :: "string list"
  pa_secure :: bool
  pa_url :: "string \<Rightarrow> web_url option"
  pa_relative :: "string \<Rightarrow> web_url option"
  pa_drop_param :: "string \<Rightarrow> string \<Rightarrow> string"
  pa_set_param :: "string \<Rightarrow> string \<Rightarrow> string \<Rightarrow> string"
  pa_form :: "(string \<times> string) list \<Rightarrow> string"
  pa_fetch :: "string \<Rightarrow> (string \<times> string) list \<Rightarrow> ('w, bool \<times> json option) web"
  pa_hash :: "string \<Rightarrow> string"
  pa_now :: "'w \<Rightarrow> instant"
  pa_token :: "'w \<Rightarrow> string"

record oauth_state =
  os_hash :: string
  os_expires :: instant

record panel_session =
  ps_hash :: string
  ps_discord :: string
  ps_username :: string
  ps_global :: "string option"
  ps_avatar :: "string option"
  ps_expires :: instant
  ps_created :: instant

record panel_db =
  pd_states :: "oauth_state list"
  pd_sessions :: "panel_session list"

datatype auth_error = AuthError js_error | AccessDenied

type_synonym ('w, 'a) auth = "('w \<times> panel_db, auth_error, 'a) exec"

definition auth_failure :: "string \<Rightarrow> auth_error" where
  "auth_failure m = AuthError (Error m)"

definition from_web :: "('w, 'a) web \<Rightarrow> ('w, 'a) auth" where
  "from_web p = (\<lambda>(w, d). case p w of
     (Inl e, v) \<Rightarrow> (Inl (AuthError e), (v, d))
   | (Inr x, v) \<Rightarrow> (Inr x, (v, d)))"

definition web_read :: "('w \<Rightarrow> 'a) \<Rightarrow> ('w, 'a) auth" where
  "web_read f = reading (\<lambda>(w, d). f w)"

definition panel_write :: "(panel_db \<Rightarrow> panel_db) \<Rightarrow> ('w, unit) auth" where
  "panel_write f = writing (\<lambda>(w, d). (w, f d))"

definition panel_insert :: "(panel_db \<Rightarrow> db_error + panel_db) \<Rightarrow> ('w, unit) auth" where
  "panel_insert f = (\<lambda>(w, d). case f d of
     Inl _ \<Rightarrow> (Inl (auth_failure ''UNIQUE constraint failed''), (w, d))
   | Inr e \<Rightarrow> (Inr (), (w, e)))"

definition state_lifetime :: int where
  "state_lifetime = 10 * 60 * 1000"

definition session_lifetime :: int where
  "session_lifetime = 7 * 24 * 60 * 60 * 1000"

section \<open>Configuration\<close>

definition callback_path :: string where
  "callback_path = ''/api/panel-auth/callback''"

definition infer_public_url :: "'w panel_auth \<Rightarrow> string option" where
  "infer_public_url A = (case pa_redirect_uri A of
     None \<Rightarrow> None
   | Some r \<Rightarrow>
       if r = [] then None
       else (case pa_url A r of
           None \<Rightarrow> None
         | Some u \<Rightarrow>
             if \<not> suffix callback_path (wu_path u) then Some (wu_origin u)
             else Some (wu_origin u @ drop_slashes (take (length (wu_path u) - length callback_path) (wu_path u)))))"

definition public_url :: "'w panel_auth \<Rightarrow> string option" where
  "public_url A =
     (case (case pa_public_url A of Some u \<Rightarrow> Some u | None \<Rightarrow> infer_public_url A) of
        None \<Rightarrow> None
      | Some configured \<Rightarrow>
          if configured = [] then None
          else (case pa_url A configured of
              None \<Rightarrow> None
            | Some u \<Rightarrow>
                if wu_protocol u \<noteq> ''http:'' \<and> wu_protocol u \<noteq> ''https:'' then None
                else if wu_search u \<noteq> [] \<or> wu_hash u \<noteq> [] then None
                else Some (wu_origin u @ (if wu_path u = ''/'' then [] else drop_slashes (wu_path u)))))"

text \<open>\<open>new URL\<close> may throw.\<close>

definition public_path :: "'w panel_auth \<Rightarrow> js_error + string" where
  "public_path A = (case public_url A of
     None \<Rightarrow> Inr ''/''
   | Some p \<Rightarrow>
       if p = [] then Inr ''/''
       else (case pa_url A p of
           None \<Rightarrow> Inl (Error ''Invalid URL'')
         | Some u \<Rightarrow> Inr (if wu_path u = [] then ''/'' else wu_path u)))"

definition redirect_uri :: "'w panel_auth \<Rightarrow> string option" where
  "redirect_uri A = (case public_url A of
     None \<Rightarrow> None | Some p \<Rightarrow> if p = [] then None else Some (p @ callback_path))"

definition auth_cookie_path :: "'w panel_auth \<Rightarrow> js_error + string" where
  "auth_cookie_path A = map_sum id (\<lambda>p. (if p = ''/'' then [] else p) @ ''/api/panel-auth'') (public_path A)"

definition auth_enabled :: "'w panel_auth \<Rightarrow> bool" where
  "auth_enabled A \<longleftrightarrow> pa_mode A = ''discord''"

text \<open>An absent client id or secret is the empty text.\<close>

definition auth_configured :: "'w panel_auth \<Rightarrow> bool" where
  "auth_configured A \<longleftrightarrow> auth_enabled A \<and> redirect_uri A \<noteq> None \<and> pa_client_id A \<noteq> [] \<and>
     pa_client_secret A \<noteq> [] \<and> pa_allowed A \<noteq> []"

definition require_configured :: "'w panel_auth \<Rightarrow> ('w, unit) auth" where
  "require_configured A =
     throwIf (\<not> auth_configured A) (auth_failure ''Discord panel authentication is not configured.'')"

section \<open>States\<close>

definition cleanup_expired :: "instant \<Rightarrow> panel_db \<Rightarrow> panel_db" where
  "cleanup_expired now d = d\<lparr>
     pd_states := sql_delete (\<lambda>r. iso_le (os_expires r) now) (pd_states d),
     pd_sessions := sql_delete (\<lambda>r. iso_le (ps_expires r) now) (pd_sessions d)\<rparr>"

definition insert_state :: "oauth_state \<Rightarrow> panel_db \<Rightarrow> db_error + panel_db" where
  "insert_state r d = map_sum id (\<lambda>t. d\<lparr>pd_states := t\<rparr>) (sql_insert os_hash r (pd_states d))"

definition create_state :: "'w panel_auth \<Rightarrow> ('w, string \<times> instant) auth" where
  "create_state A =
     thenDo (require_configured A)
     (andThen (web_read (pa_now A)) (\<lambda>now.
      thenDo (panel_write (cleanup_expired now))
      (andThen (web_read (pa_token A)) (\<lambda>state.
       let expires = now + state_lifetime in
       thenDo (panel_insert (insert_state \<lparr>os_hash = pa_hash A state, os_expires = expires\<rparr>))
         (ret (state, expires))))))"

definition consume_state :: "'w panel_auth \<Rightarrow> string \<Rightarrow> ('w, bool) auth" where
  "consume_state A state =
     andThen (web_read (pa_now A)) (\<lambda>now.
     thenDo (panel_write (cleanup_expired now))
     (\<lambda>(w, d). (Inr (length (sql_select (\<lambda>r. os_hash r = pa_hash A state) (pd_states d)) = 1),
        (w, d\<lparr>pd_states := sql_delete (\<lambda>r. os_hash r = pa_hash A state) (pd_states d)\<rparr>))))"

definition authorization_url :: "'w panel_auth \<Rightarrow> string \<Rightarrow> ('w, string) auth" where
  "authorization_url A state =
     thenDo (require_configured A)
       (ret (''https://discord.com/oauth2/authorize?'' @ pa_form A
          [(''client_id'', pa_client_id A), (''redirect_uri'', the (redirect_uri A)),
           (''response_type'', ''code''), (''scope'', ''identify''), (''state'', state)]))"

section \<open>Sessions\<close>

definition insert_session :: "panel_session \<Rightarrow> panel_db \<Rightarrow> db_error + panel_db" where
  "insert_session r d = map_sum id (\<lambda>t. d\<lparr>pd_sessions := t\<rparr>) (sql_insert ps_hash r (pd_sessions d))"

definition json_body :: "json option \<Rightarrow> ('w, json) auth" where
  "json_body b = (case b of None \<Rightarrow> raise (auth_failure ''JSON'') | Some JNull \<Rightarrow> raise (auth_failure ''null is not an object'')
     | Some v \<Rightarrow> ret v)"

definition discord_user :: "'w panel_auth \<Rightarrow> string \<Rightarrow> ('w, json) auth" where
  "discord_user A code =
     andThen (from_web (pa_fetch A ''https://discord.com/api/oauth2/token''
       [(''client_id'', pa_client_id A), (''client_secret'', pa_client_secret A),
        (''grant_type'', ''authorization_code''), (''code'', code), (''redirect_uri'', the (redirect_uri A))]))
     (\<lambda>(good, body).
      thenDo (throwIf (\<not> good) (auth_failure ''Discord rejected the authorization code.''))
      (andThen (json_body body) (\<lambda>token.
       thenDo (throwIf (text_field token ''access_token'' = []) (auth_failure ''Discord returned no access token.''))
       (andThen (from_web (pa_fetch A ''https://discord.com/api/v10/users/@me''
          [(''authorization'', ''Bearer '' @ text_field token ''access_token'')])) (\<lambda>(good, body).
        thenDo (throwIf (\<not> good) (auth_failure ''Discord user lookup failed.''))
          (json_body body))))))"

definition complete_login :: "'w panel_auth \<Rightarrow> string \<Rightarrow> ('w, string \<times> panel_session) auth" where
  "complete_login A code =
     thenDo (require_configured A)
     (andThen (discord_user A code) (\<lambda>user.
      let i = text_field user ''id''; name = text_field user ''username'' in
      thenDo (throwIf (i = [] \<or> name = []) (auth_failure ''Discord returned an invalid user.''))
      (thenDo (throwIf (i \<notin> set (pa_allowed A)) AccessDenied)
      (andThen (web_read (pa_now A)) (\<lambda>now.
       thenDo (panel_write (cleanup_expired now))
       (andThen (web_read (pa_token A)) (\<lambda>token.
        let row = \<lparr>ps_hash = pa_hash A token, ps_discord = i, ps_username = name,
              ps_global = string_field user ''global_name'', ps_avatar = string_field user ''avatar'',
              ps_expires = now + session_lifetime, ps_created = now\<rparr> in
        thenDo (panel_insert (insert_session row)) (ret (token, row))))))))) "

text \<open>An absent cookie is \<open>None\<close>.\<close>

definition panel_session_of ::
  "(string \<Rightarrow> string) \<Rightarrow> instant \<Rightarrow> string option \<Rightarrow> panel_db \<Rightarrow> panel_session option \<times> panel_db" where
  "panel_session_of h now token d =
     (case token of
        None \<Rightarrow> (None, d)
      | Some t \<Rightarrow>
          if t = [] then (None, d)
          else let e = cleanup_expired now d in (sql_get (\<lambda>r. ps_hash r = h t) (pd_sessions e), e))"

definition revoke_session :: "(string \<Rightarrow> string) \<Rightarrow> string option \<Rightarrow> panel_db \<Rightarrow> panel_db" where
  "revoke_session h token d =
     (case token of
        None \<Rightarrow> d
      | Some t \<Rightarrow> if t = [] then d
          else d\<lparr>pd_sessions := sql_delete (\<lambda>r. ps_hash r = h t) (pd_sessions d)\<rparr>)"

end
