(* ===== verification/Public_Portal.thy ===== *)
theory Public_Portal
  imports Web_Text Tables
begin

text \<open>
  The public portal: \<^verbatim>\<open>public-portal.service.ts\<close>. A player enters with a ticket the LaunchServer signs; its
  nonce is stored until the ticket expires, and the session of the player is stored under the hash of a
  random token. The hash, the HMAC, the decoder of a payload and the clock are arguments; a call reads
  the clock once. The column of hidden variants holds the JSON value.
\<close>

section \<open>Tables\<close>

record ticket_nonce =
  tn_nonce :: string
  tn_expires :: instant

record player_session =
  pl_hash :: string
  pl_uuid :: string
  pl_discord :: string
  pl_avatar :: "string option"
  pl_username :: string
  pl_expires :: instant
  pl_created :: instant

record player_skin =
  sk_uuid :: string
  sk_username :: string
  sk_image :: string
  sk_sha256 :: string
  sk_width :: nat
  sk_height :: nat
  sk_updated :: instant

record page_row =
  pg_title :: string
  pg_description :: string
  pg_variants :: json
  pg_updated :: instant

record portal_db =
  po_nonces :: "ticket_nonce list"
  po_players :: "player_session list"
  po_skins :: "player_skin list"
  po_page :: "page_row option"

definition player_lifetime :: int where
  "player_lifetime = 7 * 24 * 60 * 60 * 1000"

definition portal_cleanup :: "instant \<Rightarrow> portal_db \<Rightarrow> portal_db" where
  "portal_cleanup now d = d\<lparr>
     po_nonces := sql_delete (\<lambda>r. iso_le (tn_expires r) now) (po_nonces d),
     po_players := sql_delete (\<lambda>r. iso_le (pl_expires r) now) (po_players d)\<rparr>"

section \<open>The page\<close>

record page_settings =
  pp_title :: string
  pp_description :: string
  pp_hidden :: "string list"
  pp_updated :: "instant option"

definition launcher_variant :: "json \<Rightarrow> bool" where
  "launcher_variant v \<longleftrightarrow> v = JStr ''jar'' \<or> v = JStr ''windows-x64''"

definition parse_variants :: "json \<Rightarrow> string list" where
  "parse_variants v = (case v of JArr xs \<Rightarrow> if list_all launcher_variant xs then json_strings xs else [] | _ \<Rightarrow> [])"

text \<open>The title and description shown before the first update are arguments: they are Russian texts.\<close>

definition portal_settings :: "string \<Rightarrow> string \<Rightarrow> portal_db \<Rightarrow> page_settings" where
  "portal_settings title description d = (case po_page d of
     None \<Rightarrow> \<lparr>pp_title = title, pp_description = description, pp_hidden = [], pp_updated = None\<rparr>
   | Some r \<Rightarrow> \<lparr>pp_title = pg_title r, pp_description = pg_description r,
       pp_hidden = parse_variants (pg_variants r), pp_updated = Some (pg_updated r)\<rparr>)"

definition update_settings :: "instant \<Rightarrow> string \<Rightarrow> string \<Rightarrow> string list \<Rightarrow> portal_db \<Rightarrow> portal_db" where
  "update_settings now title description hidden d = d\<lparr>po_page := Some
     \<lparr>pg_title = js_trim title, pg_description = js_trim description, pg_variants = JArr (map JStr hidden),
      pg_updated = now\<rparr>\<rparr>"

section \<open>Tickets\<close>

text \<open>
  \<open>RegExp.test\<close> turns its argument into a text first: an absent field is tested as \<^verbatim>\<open>undefined\<close>. The
  text of a fraction or of a number from \<open>10^21\<close> on has a point or a plus sign, which none of the
  patterns takes; here it is the point or plus sign alone.
\<close>

definition number_text :: "rat \<Rightarrow> string" where
  "number_text r = (case quotient_of r of (n, d) \<Rightarrow>
     if d \<noteq> 1 then ''.'' else if \<bar>n\<bar> \<ge> 10 ^ 21 then ''+'' else show_int n)"

fun js_text :: "json \<Rightarrow> string" where
  "js_text JNull = ''null''"
| "js_text (JBool b) = (if b then ''true'' else ''false'')"
| "js_text (JNum r) = number_text r"
| "js_text (JStr s) = s"
| "js_text (JArr xs) = join_with '','' (map (\<lambda>x. if x = JNull then [] else js_text x) xs)"
| "js_text (JObj kvs) = ''[object Object]''"

definition tested_text :: "json option \<Rightarrow> string" where
  "tested_text v = (case v of None \<Rightarrow> ''undefined'' | Some x \<Rightarrow> js_text x)"

text \<open>A value bound to a \<open>TEXT NOT NULL\<close> column; \<open>None\<close> is refused.\<close>

definition bound_text :: "json option \<Rightarrow> string option" where
  "bound_text v = (case v of Some (JStr s) \<Rightarrow> Some s | Some (JNum r) \<Rightarrow> Some (number_text r)
     | Some (JBool b) \<Rightarrow> Some (if b then ''1'' else ''0'') | _ \<Rightarrow> None)"

definition hex_dash :: "char \<Rightarrow> bool" where
  "hex_dash c \<longleftrightarrow> caseless is_hex c \<or> c = CHR ''-''"

definition player_uuid_rx :: rx where
  "player_uuid_rx = cats [times 8 (Cls (caseless is_hex)), lit ''-'', times 27 (Cls hex_dash)]"

definition discord_id_rx :: rx where
  "discord_id_rx = between_times 5 30 (Cls is_digit)"

definition username_rx :: rx where
  "username_rx = between_times 2 16 (Cls (\<lambda>c. is_alnum c \<or> c = CHR ''_''))"

definition nonce_rx :: rx where
  "nonce_rx = Cat (times 20 (Cls (\<lambda>c. is_alnum c \<or> c = CHR ''_'' \<or> c = CHR ''-'')))
     (Star (Cls (\<lambda>c. is_alnum c \<or> c = CHR ''_'' \<or> c = CHR ''-'')))"

definition avatar_rx :: rx where
  "avatar_rx = between_times 2 128 (Cls (\<lambda>c. is_alnum c \<or> c = CHR ''_''))"

definition invalid_ticket :: js_error where
  "invalid_ticket = Error ''Authorization ticket is invalid or expired.''"

definition check_payload :: "instant \<Rightarrow> json \<Rightarrow> js_error + json \<times> int" where
  "check_payload now p =
     (case p of
        JNull \<Rightarrow> Inl (Error ''null is not an object'')
      | _ \<Rightarrow>
          if full_match player_uuid_rx (tested_text (json_field p ''uuid'')) \<and>
             full_match discord_id_rx (tested_text (json_field p ''discordId'')) \<and>
             full_match username_rx (tested_text (json_field p ''username'')) \<and>
             full_match nonce_rx (tested_text (json_field p ''nonce''))
          then (case Option.bind (json_field p ''exp'') safe_int of
              None \<Rightarrow> Inl invalid_ticket
            | Some e \<Rightarrow> if e * 1000 \<le> now then Inl invalid_ticket else Inr (p, e))
          else Inl invalid_ticket)"

definition verify_ticket ::
  "string option \<Rightarrow> (string \<Rightarrow> string \<Rightarrow> string) \<Rightarrow> (string \<Rightarrow> json option) \<Rightarrow> instant \<Rightarrow> string \<Rightarrow> js_error + json \<times> int" where
  "verify_ticket secret hmac decode now ticket =
     (case secret of
        None \<Rightarrow> Inl (Error ''Public portal HMAC secret is not configured.'')
      | Some key \<Rightarrow>
          if length key < 32 then Inl (Error ''Public portal HMAC secret is not configured.'')
          else (case split_on (\<lambda>c. c = CHR ''.'') ticket of
              [payload, signature] \<Rightarrow>
                if payload = [] \<or> signature = [] then Inl (Error ''Invalid authorization ticket.'')
                else if signature \<noteq> hmac key payload then Inl (Error ''Invalid authorization ticket signature.'')
                else (case decode payload of
                    None \<Rightarrow> Inl (Error ''Invalid authorization ticket payload.'')
                  | Some p \<Rightarrow> check_payload now p)
            | _ \<Rightarrow> Inl (Error ''Invalid authorization ticket.'')))"

definition valid_avatar :: "json option \<Rightarrow> string option" where
  "valid_avatar v = (case v of Some (JStr s) \<Rightarrow> if full_match avatar_rx s then Some s else None | _ \<Rightarrow> None)"

text \<open>A statement that is refused throws; what ran before it stays.\<close>

definition statement_refused :: js_error where
  "statement_refused = Error ''constraint failed''"

definition use_nonce :: "string \<Rightarrow> instant \<Rightarrow> portal_db \<Rightarrow> (js_error + unit) \<times> portal_db" where
  "use_nonce n expires d =
     (if max_date < \<bar>expires\<bar> then (Inl (Error ''Invalid Date''), d)
      else (case sql_insert tn_nonce \<lparr>tn_nonce = n, tn_expires = expires\<rparr> (po_nonces d) of
          Inl _ \<Rightarrow> (Inl (Error ''The authorization ticket has already been used.''), d)
        | Inr t \<Rightarrow> (Inr (), d\<lparr>po_nonces := t\<rparr>)))"

definition open_player ::
  "(string \<Rightarrow> string) \<Rightarrow> instant \<Rightarrow> string \<Rightarrow> json \<Rightarrow> portal_db \<Rightarrow> (js_error + string \<times> player_session) \<times> portal_db" where
  "open_player h now token p d =
     (case (bound_text (json_field p ''uuid''), bound_text (json_field p ''discordId''), bound_text (json_field p ''username'')) of
        (Some uuid, Some discord, Some name) \<Rightarrow>
          (let row = \<lparr>pl_hash = h token, pl_uuid = uuid, pl_discord = discord,
                 pl_avatar = valid_avatar (json_field p ''avatarHash''), pl_username = name,
                 pl_expires = now + player_lifetime, pl_created = now\<rparr> in
           case sql_insert pl_hash row (po_players d) of
             Inl _ \<Rightarrow> (Inl statement_refused, d)
           | Inr t \<Rightarrow> (Inr (token, row), d\<lparr>po_players := t\<rparr>))
      | _ \<Rightarrow> (Inl statement_refused, d))"

definition complete_ticket ::
  "string option \<Rightarrow> (string \<Rightarrow> string \<Rightarrow> string) \<Rightarrow> (string \<Rightarrow> json option) \<Rightarrow> (string \<Rightarrow> string) \<Rightarrow>
   instant \<Rightarrow> string \<Rightarrow> string \<Rightarrow> portal_db \<Rightarrow> (js_error + string \<times> player_session) \<times> portal_db" where
  "complete_ticket secret hmac decode h now token ticket d =
     (case verify_ticket secret hmac decode now ticket of
        Inl e \<Rightarrow> (Inl e, d)
      | Inr (p, e) \<Rightarrow>
          (case bound_text (json_field p ''nonce'') of
             None \<Rightarrow> (Inl statement_refused, portal_cleanup now d)
           | Some n \<Rightarrow>
               (case use_nonce n (e * 1000) (portal_cleanup now d) of
                  (Inl e, d') \<Rightarrow> (Inl e, d')
                | (Inr _, d') \<Rightarrow> open_player h now token p d')))"

definition player_session_of ::
  "(string \<Rightarrow> string) \<Rightarrow> instant \<Rightarrow> string option \<Rightarrow> portal_db \<Rightarrow> player_session option \<times> portal_db" where
  "player_session_of h now token d =
     (case token of
        None \<Rightarrow> (None, d)
      | Some t \<Rightarrow>
          if t = [] then (None, d)
          else let e = portal_cleanup now d in (sql_get (\<lambda>r. pl_hash r = h t) (po_players e), e))"

definition revoke_player :: "(string \<Rightarrow> string) \<Rightarrow> string option \<Rightarrow> portal_db \<Rightarrow> portal_db" where
  "revoke_player h token d =
     (case token of
        None \<Rightarrow> d
      | Some t \<Rightarrow> if t = [] then d
          else d\<lparr>po_players := sql_delete (\<lambda>r. pl_hash r = h t) (po_players d)\<rparr>)"

section \<open>Skins\<close>

definition png_magic :: string where
  "png_magic = map char_of [137::nat, 80, 78, 71, 13, 10, 26, 10]"

definition uint32_at :: "nat \<Rightarrow> string \<Rightarrow> nat" where
  "uint32_at i bytes = foldl (\<lambda>n c. 256 * n + of_char c) 0 (take 4 (drop i bytes))"

definition max_skin_bytes :: nat where
  "max_skin_bytes = 1024 * 1024"

definition png_dimensions :: "string \<Rightarrow> js_error + nat \<times> nat" where
  "png_dimensions bytes =
     (if length bytes < 24 \<or> max_skin_bytes < length bytes \<or> \<not> prefix png_magic bytes
      then Inl (Error ''Skin must be a PNG file up to 1 MiB.'')
      else let width = uint32_at 16 bytes; height = uint32_at 20 bytes in
        if \<not> (width = 64 \<and> height = 64 \<or> width = 128 \<and> height = 128)
        then Inl (Error ''Skin must be 64x64 or 128x128 pixels.'')
        else Inr (width, height))"

text \<open>\<open>COLLATE NOCASE\<close>\<close>

definition ascii_lower :: "string \<Rightarrow> string" where
  "ascii_lower s = map (\<lambda>c. if is_upper c then js_lower_char c else c) s"

definition overwrite_skin :: "player_skin \<Rightarrow> player_skin \<Rightarrow> player_skin" where
  "overwrite_skin n r = r\<lparr>sk_username := sk_username n, sk_image := sk_image n, sk_sha256 := sk_sha256 n,
     sk_width := sk_width n, sk_height := sk_height n, sk_updated := sk_updated n\<rparr>"

definition upsert_skin :: "player_skin \<Rightarrow> player_skin list \<Rightarrow> db_error + player_skin list" where
  "upsert_skin n t =
     (if \<exists>r\<in>set t. sk_uuid r \<noteq> sk_uuid n \<and> ascii_lower (sk_username r) = ascii_lower (sk_username n)
      then Inl UniqueViolation
      else if get_by sk_uuid (sk_uuid n) t = None then Inr (t @ [n])
      else Inr (sql_update (\<lambda>r. sk_uuid r = sk_uuid n) (overwrite_skin n) t))"

definition set_skin ::
  "(string \<Rightarrow> string) \<Rightarrow> instant \<Rightarrow> player_session \<Rightarrow> string \<Rightarrow> portal_db \<Rightarrow> (js_error + player_skin) \<times> portal_db" where
  "set_skin h now player bytes d =
     (case png_dimensions bytes of
        Inl e \<Rightarrow> (Inl e, d)
      | Inr (width, height) \<Rightarrow>
          (let n = \<lparr>sk_uuid = pl_uuid player, sk_username = pl_username player, sk_image = bytes,
                 sk_sha256 = h bytes, sk_width = width, sk_height = height, sk_updated = now\<rparr> in
           case upsert_skin n (po_skins d) of
             Inl _ \<Rightarrow> (Inl statement_refused, d)
           | Inr t \<Rightarrow> (Inr n, d\<lparr>po_skins := t\<rparr>)))"

definition skin_for_username :: "string \<Rightarrow> portal_db \<Rightarrow> player_skin option" where
  "skin_for_username name d = sql_get (\<lambda>r. ascii_lower (sk_username r) = ascii_lower name) (po_skins d)"

definition skin_for_player :: "player_session \<Rightarrow> portal_db \<Rightarrow> player_skin option" where
  "skin_for_player player d = get_by sk_uuid (pl_uuid player) (po_skins d)"

end
