(* ===== verification/Panel_Routes.thy ===== *)
theory Panel_Routes
  imports Panel_Auth Public_Portal
begin

text \<open>
  The routes of \<^verbatim>\<open>panel-auth.routes.ts\<close>: signing in over Discord, signing out, and the guard every request
  to the API passes first. A response is its status, the location it redirects to and its cookies.
\<close>

section \<open>Redirects\<close>

record request =
  rq_origin :: string
  rq_path :: string
  rq_cookie :: "string option"

record response =
  rs_status :: nat
  rs_location :: "string option"
  rs_cookies :: "string list"

definition redirect_to :: "string \<Rightarrow> string list \<Rightarrow> response" where
  "redirect_to location cookies = \<lparr>rs_status = 302, rs_location = Some location, rs_cookies = cookies\<rparr>"

definition session_cookie :: string where
  "session_cookie = ''gravit_panel_session''"

definition state_cookie :: string where
  "state_cookie = ''gravit_panel_oauth_state''"

definition return_cookie :: string where
  "return_cookie = ''gravit_panel_oauth_return_to''"

definition default_admin_path :: string where
  "default_admin_path = ''/panel/status''"

definition admin_paths :: "string list" where
  "admin_paths = [''/panel'', ''/panel/setup'', ''/panel/status'', ''/panel/jobs'', ''/panel/modules'',
     ''/panel/files'', ''/panel/auth'', ''/panel/users'', ''/panel/launcher'', ''/panel/clients'', ''/panel/mods'',
     ''/panel/servers'', ''/panel/server/overview'', ''/panel/server/console'', ''/panel/server/files'',
     ''/panel/server/mods'', ''/panel/server/deployment'', ''/panel/public-settings'']"

definition safe_return_to :: "'w panel_auth \<Rightarrow> string option \<Rightarrow> string" where
  "safe_return_to A v =
     (case v of
        None \<Rightarrow> default_admin_path
      | Some s \<Rightarrow>
          if \<not> prefix ''/'' s \<or> prefix ''//'' s then default_admin_path
          else (case pa_relative A s of
              None \<Rightarrow> default_admin_path
            | Some u \<Rightarrow>
                if wu_origin u \<noteq> ''https://panel.invalid'' \<or> wu_path u \<notin> set admin_paths \<or> wu_hash u \<noteq> []
                then default_admin_path
                else wu_path u @ pa_drop_param A (wu_search u) ''authError''))"

definition panel_location :: "'w panel_auth \<Rightarrow> request \<Rightarrow> string \<Rightarrow> js_error + string" where
  "panel_location A rq returnTo =
     (let base = (case public_url A of Some p \<Rightarrow> p | None \<Rightarrow> rq_origin rq);
          target = safe_return_to A (Some returnTo) in
      map_sum id (\<lambda>path. let publicPath = (if path = ''/'' then [] else path) in
        base @ (if publicPath \<noteq> [] \<and> prefix (publicPath @ ''/'') target
          then drop (length publicPath) target else target)) (public_path A))"

definition with_auth_error :: "'w panel_auth \<Rightarrow> string \<Rightarrow> string \<Rightarrow> js_error + string" where
  "with_auth_error A returnTo e =
     (case pa_relative A (safe_return_to A (Some returnTo)) of
        None \<Rightarrow> Inl (Error ''Invalid URL'')
      | Some u \<Rightarrow> Inr (wu_path u @ pa_set_param A (wu_search u) ''authError'' e))"

definition or_fail :: "js_error + 'a \<Rightarrow> ('w, 'a) auth" where
  "or_fail r = ofSum (map_sum AuthError id r)"

definition to_panel :: "'w panel_auth \<Rightarrow> request \<Rightarrow> string \<Rightarrow> string list \<Rightarrow> ('w, response) auth" where
  "to_panel A rq returnTo cookies =
     andThen (or_fail (panel_location A rq returnTo)) (\<lambda>l. ret (redirect_to l cookies))"

definition to_error :: "'w panel_auth \<Rightarrow> request \<Rightarrow> string \<Rightarrow> string \<Rightarrow> string list \<Rightarrow> ('w, response) auth" where
  "to_error A rq returnTo e cookies =
     andThen (or_fail (with_auth_error A returnTo e)) (\<lambda>target. to_panel A rq target cookies)"

section \<open>Signing in and out\<close>

record session_view =
  sv_configured :: bool
  sv_enabled :: bool
  sv_allowed_users :: nat
  sv_user :: "panel_session option"

definition cookie_of :: "request \<Rightarrow> string \<Rightarrow> ('w, string option) auth" where
  "cookie_of rq name = or_fail (parse_cookie (rq_cookie rq) name)"

definition ask_session :: "'w panel_auth \<Rightarrow> string option \<Rightarrow> ('w, panel_session option) auth" where
  "ask_session A token = (\<lambda>(w, d). case panel_session_of (pa_hash A) (pa_now A w) token d of (r, e) \<Rightarrow> (Inr r, (w, e)))"

definition session_route :: "'w panel_auth \<Rightarrow> request \<Rightarrow> ('w, session_view) auth" where
  "session_route A rq =
     andThen (cookie_of rq session_cookie) (\<lambda>token.
     andThen (ask_session A token) (\<lambda>r.
       ret \<lparr>sv_configured = auth_configured A, sv_enabled = auth_enabled A,
            sv_allowed_users = length (pa_allowed A), sv_user = r\<rparr>))"

definition login_route :: "'w panel_auth \<Rightarrow> request \<Rightarrow> string option \<Rightarrow> ('w, response) auth" where
  "login_route A rq wanted =
     (let returnTo = safe_return_to A wanted in
      if \<not> auth_enabled A then to_panel A rq returnTo []
      else if \<not> auth_configured A then to_error A rq returnTo ''configuration'' []
      else andThen (create_state A) (\<lambda>(state, expires).
        andThen (authorization_url A state) (\<lambda>target.
        andThen (or_fail (auth_cookie_path A)) (\<lambda>path.
          ret (redirect_to target
            [serialize_cookie state_cookie state 600 (pa_secure A) path,
             serialize_cookie return_cookie returnTo 600 (pa_secure A) path])))))"

definition absent :: "string option \<Rightarrow> bool" where
  "absent v \<longleftrightarrow> v = None \<or> v = Some []"

definition finish_login :: "'w panel_auth \<Rightarrow> request \<Rightarrow> string \<Rightarrow> string \<Rightarrow> string list \<Rightarrow> ('w, response) auth" where
  "finish_login A rq returnTo code clear =
     tryCatch
       (andThen (complete_login A code) (\<lambda>(token, row).
        andThen (or_fail (panel_location A rq returnTo)) (\<lambda>l.
        andThen (or_fail (public_path A)) (\<lambda>path.
          ret (redirect_to l (clear @ [serialize_cookie session_cookie token 604800 (pa_secure A) path]))))))
       (\<lambda>e. to_error A rq returnTo (if e = AccessDenied then ''not-authorized'' else ''discord'') clear)"

definition callback_route :: "'w panel_auth \<Rightarrow> request \<Rightarrow> string option \<Rightarrow> string option \<Rightarrow> ('w, response) auth" where
  "callback_route A rq code state =
     andThen (cookie_of rq return_cookie) (\<lambda>wanted.
     let returnTo = safe_return_to A wanted in
     andThen (or_fail (auth_cookie_path A)) (\<lambda>path.
     let clear = [serialize_cookie state_cookie [] 0 (pa_secure A) path,
                  serialize_cookie return_cookie [] 0 (pa_secure A) path] in
     andThen (cookie_of rq state_cookie) (\<lambda>kept.
     if absent code \<or> absent state \<or> absent kept \<or> state \<noteq> kept
     then to_error A rq returnTo ''state'' clear
     else andThen (consume_state A (the state)) (\<lambda>consumed.
       if \<not> consumed then to_error A rq returnTo ''state'' clear
       else finish_login A rq returnTo (the code) clear))))"

definition logout_route :: "'w panel_auth \<Rightarrow> request \<Rightarrow> ('w, response) auth" where
  "logout_route A rq =
     andThen (cookie_of rq session_cookie) (\<lambda>token.
     thenDo (panel_write (revoke_session (pa_hash A) token))
     (andThen (or_fail (public_path A)) (\<lambda>path.
       ret \<lparr>rs_status = 204, rs_location = None,
            rs_cookies = [serialize_cookie session_cookie [] 0 (pa_secure A) path]\<rparr>)))"

section \<open>The guard\<close>

definition token_char :: "char \<Rightarrow> bool" where
  "token_char c \<longleftrightarrow> is_alnum c \<or> c = CHR ''_'' \<or> c = CHR ''-''"

definition bootstrap_path_rx :: rx where
  "bootstrap_path_rx = cats [lit ''/api/server-bootstrap/'', between_times 32 128 (Cls token_char),
     opt (Alt (lit ''/start'') (Alt (lit ''/report'')
       (Cat (lit ''/artifacts/'') (Alt (lit ''bundle'') (Alt (lit ''jre-x64'') (lit ''jre-aarch64''))))))]"

definition agent_path_rx :: rx where
  "agent_path_rx = Cat (lit ''/api/server-agent/'')
     (Alt (lit ''connect'') (Alt (lit ''update'') (Alt (lit ''report'')
       (Cat (lit ''archive/'') (times 36 (Cls (\<lambda>c. is_hex c \<or> c = CHR ''-'')))))))"

definition artifact_path_rx :: rx where
  "artifact_path_rx = Cat (lit ''/api/clients/launcher/artifacts/'') (Alt (lit ''jar'') (lit ''windows-x64''))"

definition public_paths :: "string list" where
  "public_paths = [''/api/health'', ''/api/docker/launchserver'', ''/api/clients/launcher/artifacts'']"

definition open_path :: "string \<Rightarrow> bool" where
  "open_path p \<longleftrightarrow> p \<in> set public_paths \<or> prefix ''/api/panel-auth/'' p \<or>
     (prefix ''/api/public/'' p \<and> \<not> prefix ''/api/public/settings'' p) \<or>
     full_match bootstrap_path_rx p \<or> full_match agent_path_rx p"

definition player_cookie :: string where
  "player_cookie = ''gravit_player_session''"

text \<open>\<open>playerSessionForRequest\<close>\<close>

definition player_for_request ::
  "(string \<Rightarrow> string) \<Rightarrow> instant \<Rightarrow> request \<Rightarrow> portal_db \<Rightarrow> (js_error + player_session option) \<times> portal_db" where
  "player_for_request h now rq p =
     (case parse_cookie (rq_cookie rq) player_cookie of
        Inl e \<Rightarrow> (Inl e, p)
      | Inr token \<Rightarrow> (case player_session_of h now token p of (r, q) \<Rightarrow> (Inr r, q)))"

datatype verdict = Admit | Unauthorized

definition guard_session ::
  "(string \<Rightarrow> string) \<Rightarrow> instant \<Rightarrow> request \<Rightarrow> panel_db \<Rightarrow> (js_error + verdict) \<times> panel_db" where
  "guard_session h now rq d =
     (case parse_cookie (rq_cookie rq) session_cookie of
        Inl e \<Rightarrow> (Inl e, d)
      | Inr token \<Rightarrow> (case panel_session_of h now token d of
            (Some _, e) \<Rightarrow> (Inr Admit, e)
          | (None, e) \<Rightarrow> (Inr Unauthorized, e)))"

definition panel_guard ::
  "'w panel_auth \<Rightarrow> instant \<Rightarrow> request \<Rightarrow> panel_db \<times> portal_db \<Rightarrow> (js_error + verdict) \<times> panel_db \<times> portal_db" where
  "panel_guard A now rq = (\<lambda>(d, p).
     if \<not> auth_enabled A \<or> open_path (rq_path rq) then (Inr Admit, d, p)
     else if full_match artifact_path_rx (rq_path rq) then
       (case player_for_request (pa_hash A) now rq p of
          (Inl e, q) \<Rightarrow> (Inl e, d, q)
        | (Inr (Some _), q) \<Rightarrow> (Inr Admit, d, q)
        | (Inr None, q) \<Rightarrow> (case guard_session (pa_hash A) now rq d of (r, e) \<Rightarrow> (r, e, q)))
     else (case guard_session (pa_hash A) now rq d of (r, e) \<Rightarrow> (r, e, p)))"

end
