(* ===== verification/Access_Properties.thy ===== *)
theory Access_Properties
  imports Panel_Routes
begin

text \<open>
  Who gets in: a request passes the guard only on an open path or with a session that Discord and the list
  of allowed users have granted, and a signed ticket opens one player session.
\<close>

section \<open>Programs that keep a property of the tables\<close>

definition stable :: "(panel_db \<Rightarrow> bool) \<Rightarrow> ('w, 'a) auth \<Rightarrow> bool" where
  "stable P p \<longleftrightarrow> (\<forall>w d. P d \<longrightarrow> P (snd (snd (p (w, d)))))"

named_theorems stable_intros \<open>programs that keep a property of the tables\<close>

lemma stableD: "stable P p \<Longrightarrow> P d \<Longrightarrow> p (w, d) = (r, (v, e)) \<Longrightarrow> P e"
  unfolding stable_def by (metis snd_conv)

lemma stable_snd: "stable P p \<Longrightarrow> P (snd s) \<Longrightarrow> P (snd (snd (p s)))"
  by (cases s) (simp add: stable_def)

lemma stableI: "(\<And>w d r v e. P d \<Longrightarrow> p (w, d) = (r, (v, e)) \<Longrightarrow> P e) \<Longrightarrow> stable P p"
  unfolding stable_def by (metis prod.collapse)

lemma stable_pure [stable_intros]: "stable P (ret x)" "stable P (raise e)" "stable P (ofSum r)" "stable P (or_fail r')"
  "stable P (web_read f)" "stable P (throwIf b e)"
  by (simp_all add: stable_def ret_def raise_def ofSum_def or_fail_def web_read_def reading_def throwIf_def)

lemma stable_andThen [stable_intros]:
  assumes "stable P p" and "\<And>x. stable P (q x)"
  shows "stable P (andThen p q)"
proof (rule stableI)
  fix w d r v e
  assume d: "P d" and run: "andThen p q (w, d) = (r, (v, e))"
  obtain r' v' e' where p: "p (w, d) = (r', (v', e'))" by (metis prod.collapse)
  with run d assms show "P e"
    by (cases r') (auto simp: andThen_def dest: stableD)
qed

lemma stable_thenDo [stable_intros]: "stable P p \<Longrightarrow> stable P q \<Longrightarrow> stable P (thenDo p q)"
  unfolding thenDo_def by (rule stable_andThen)

lemma stable_guard [stable_intros]: "(\<not> b \<Longrightarrow> stable P q) \<Longrightarrow> stable P (thenDo (throwIf b e) q)"
  by (cases b) (auto simp: stable_def thenDo_def andThen_def throwIf_def ret_def raise_def)

lemma stable_tryCatch [stable_intros]:
  assumes "stable P p" and "\<And>x. stable P (h x)"
  shows "stable P (tryCatch p h)"
proof (rule stableI)
  fix w d r v e
  assume d: "P d" and run: "tryCatch p h (w, d) = (r, (v, e))"
  obtain r' v' e' where p: "p (w, d) = (r', (v', e'))" by (metis prod.collapse)
  with run d assms show "P e"
    by (cases r') (auto simp: tryCatch_def dest: stableD)
qed

lemma stable_web [stable_intros]: "stable P (from_web p)"
  by (simp add: stable_def from_web_def split: prod.split sum.split)

lemma stable_json [stable_intros]: "stable P (json_body b)"
  by (simp add: json_body_def stable_intros split: option.split json.split)

lemma stable_write [stable_intros]: "(\<And>d. P d \<Longrightarrow> P (f d)) \<Longrightarrow> stable P (panel_write f)"
  by (simp add: stable_def panel_write_def writing_def)

lemma stable_insert [stable_intros]: "(\<And>d e. P d \<Longrightarrow> f d = Inr e \<Longrightarrow> P e) \<Longrightarrow> stable P (panel_insert f)"
  by (simp add: stable_def panel_insert_def split: sum.split)

lemma stable_if [stable_intros]: "(b \<Longrightarrow> stable P p) \<Longrightarrow> (\<not> b \<Longrightarrow> stable P q) \<Longrightarrow> stable P (if b then p else q)"
  by simp

lemma stable_split [stable_intros]: "(\<And>a b. stable P (f a b)) \<Longrightarrow> stable P (case x of (a, b) \<Rightarrow> f a b)"
  by (cases x) simp

section \<open>The tables of the panel\<close>

definition granted :: "'w panel_auth \<Rightarrow> panel_session \<Rightarrow> bool" where
  "granted A r \<longleftrightarrow> ps_discord r \<in> set (pa_allowed A) \<and> ps_discord r \<noteq> [] \<and>
     ps_expires r = ps_created r + session_lifetime"

definition panel_ok :: "'w panel_auth \<Rightarrow> panel_db \<Rightarrow> bool" where
  "panel_ok A d \<longleftrightarrow> keys_distinct os_hash (pd_states d) \<and> keys_distinct ps_hash (pd_sessions d) \<and>
     (\<forall>r\<in>set (pd_sessions d). granted A r)"

lemma cleanup_ok: "panel_ok A d \<Longrightarrow> panel_ok A (cleanup_expired now d)"
  by (simp add: panel_ok_def cleanup_expired_def keys_distinct_delete table_simps)

lemma insert_state_ok: "panel_ok A d \<Longrightarrow> insert_state r d = Inr e \<Longrightarrow> panel_ok A e"
  unfolding insert_state_def
  by (cases "sql_insert os_hash r (pd_states d)") (auto simp: panel_ok_def dest: keys_distinct_insert)

lemma insert_session_ok: "panel_ok A d \<Longrightarrow> insert_session r d = Inr e \<Longrightarrow> granted A r \<Longrightarrow> panel_ok A e"
  unfolding insert_session_def
  by (cases "sql_insert ps_hash r (pd_sessions d)")
    (auto simp: panel_ok_def sql_insert_ok dest: keys_distinct_insert)

lemma revoke_ok: "panel_ok A d \<Longrightarrow> panel_ok A (revoke_session h token d)"
  by (simp add: panel_ok_def revoke_session_def keys_distinct_delete table_simps split: option.split)

lemma panel_session_ok: "panel_ok A d \<Longrightarrow> panel_ok A (snd (panel_session_of h now token d))"
  by (simp add: panel_session_of_def cleanup_ok Let_def split: option.split)

lemma stable_state: "stable (panel_ok A) (create_state A)"
  unfolding create_state_def Let_def
  by (intro stable_intros cleanup_ok) (auto simp: require_configured_def stable_intros elim: insert_state_ok)

lemma stable_consume: "stable (panel_ok A) (consume_state A state)"
  unfolding consume_state_def
  by (intro stable_intros cleanup_ok) (auto simp: stable_def panel_ok_def keys_distinct_delete)

lemma stable_user: "stable P (discord_user A code)"
  unfolding discord_user_def by (intro stable_intros)

lemma stable_complete: "stable (panel_ok A) (complete_login A code)"
  unfolding complete_login_def require_configured_def Let_def
  by (intro stable_intros stable_user cleanup_ok) (auto simp: granted_def elim!: insert_session_ok)

lemma stable_redirects: "stable P (to_panel A rq r cs)" "stable P (to_error A rq r e cs)" "stable P (cookie_of rq name)"
  unfolding to_error_def to_panel_def cookie_of_def by (intro stable_intros)+

lemma stable_routes:
  "stable (panel_ok A) (login_route A rq wanted)" "stable (panel_ok A) (callback_route A rq code state)"
  "stable (panel_ok A) (logout_route A rq)" "stable (panel_ok A) (session_route A rq)"
proof -
  show "stable (panel_ok A) (login_route A rq wanted)"
    unfolding login_route_def Let_def authorization_url_def require_configured_def
    by (intro stable_intros stable_redirects stable_state)
  show "stable (panel_ok A) (callback_route A rq code state)"
    unfolding callback_route_def finish_login_def Let_def
    by (intro stable_intros stable_redirects stable_consume stable_complete)
  show "stable (panel_ok A) (logout_route A rq)"
    unfolding logout_route_def by (intro stable_intros stable_redirects revoke_ok)
  have "stable (panel_ok A) (ask_session A token)" for token
    by (simp add: stable_def ask_session_def split_beta panel_session_ok)
  then show "stable (panel_ok A) (session_route A rq)"
    unfolding session_route_def by (intro stable_intros stable_redirects)
qed

section \<open>The guard\<close>

text \<open>
  The tables of the panel over every run: the routes and the guard are called in any order, and the rest
  of the world moves between them.
\<close>

inductive panel_reachable :: "'w panel_auth \<Rightarrow> 'w \<times> panel_db \<Rightarrow> bool" for A where
  start: "panel_reachable A (w, \<lparr>pd_states = [], pd_sessions = []\<rparr>)"
| outside: "panel_reachable A (w, d) \<Longrightarrow> panel_reachable A (v, d)"
| login: "panel_reachable A s \<Longrightarrow> panel_reachable A (snd (login_route A rq wanted s))"
| callback: "panel_reachable A s \<Longrightarrow> panel_reachable A (snd (callback_route A rq code state s))"
| ask: "panel_reachable A s \<Longrightarrow> panel_reachable A (snd (session_route A rq s))"
| logout: "panel_reachable A s \<Longrightarrow> panel_reachable A (snd (logout_route A rq s))"
| guard: "panel_reachable A (w, d) \<Longrightarrow> panel_reachable A (w, fst (snd (panel_guard A now rq (d, p))))"

lemma guard_session_tables:
  "snd (guard_session h now rq d) =
    (case parse_cookie (rq_cookie rq) session_cookie of Inl e \<Rightarrow> d | Inr token \<Rightarrow> snd (panel_session_of h now token d))"
  by (simp add: guard_session_def split: sum.split prod.split option.split)

lemma panel_guard_tables: "fst (snd (panel_guard A now rq (d, p))) \<in> {d, snd (guard_session (pa_hash A) now rq d)}"
  by (simp add: panel_guard_def split: prod.split sum.split option.split)

lemma panel_reachable_ok: "panel_reachable A s \<Longrightarrow> panel_ok A (snd s)"
proof (induction rule: panel_reachable.induct)
  case (guard w d now rq p)
  have "panel_ok A (snd (guard_session (pa_hash A) now rq d))"
    using guard.IH by (simp add: guard_session_tables panel_session_ok split: sum.split)
  with guard.IH panel_guard_tables[of A now rq d p] show ?case by auto
next
  case (login s rq wanted)
  then show ?case by (intro stable_snd[OF stable_routes(1)])
next
  case (callback s rq code state)
  then show ?case by (intro stable_snd[OF stable_routes(2)])
next
  case (logout s rq)
  then show ?case by (intro stable_snd[OF stable_routes(3)])
next
  case (ask s rq)
  then show ?case by (intro stable_snd[OF stable_routes(4)])
qed (simp_all add: panel_ok_def keys_distinct_def)

lemma session_found:
  assumes "panel_session_of h now token d = (Some r, e)"
  obtains t where "token = Some t" "r \<in> set (pd_sessions d)" "ps_hash r = h t" "\<not> iso_le (ps_expires r) now"
proof -
  obtain t where t: "token = Some t" "t \<noteq> []"
    using assms by (auto simp: panel_session_of_def split: option.splits if_splits)
  with assms have "sql_get (\<lambda>r. ps_hash r = h t) (pd_sessions (cleanup_expired now d)) = Some r"
    by (auto simp: panel_session_of_def Let_def)
  from sql_get_Some[OF this] have "r \<in> set (pd_sessions d)" "ps_hash r = h t" "\<not> iso_le (ps_expires r) now"
    by (auto simp: cleanup_expired_def table_simps)
  with t(1) show thesis by (rule that)
qed

lemma player_found:
  assumes "player_session_of h now token d = (Some r, e)"
  obtains t where "token = Some t" "r \<in> set (po_players d)" "pl_hash r = h t" "\<not> iso_le (pl_expires r) now"
proof -
  obtain t where t: "token = Some t" "t \<noteq> []"
    using assms by (auto simp: player_session_of_def split: option.splits if_splits)
  with assms have "sql_get (\<lambda>r. pl_hash r = h t) (po_players (portal_cleanup now d)) = Some r"
    by (auto simp: player_session_of_def Let_def)
  from sql_get_Some[OF this] have "r \<in> set (po_players d)" "pl_hash r = h t" "\<not> iso_le (pl_expires r) now"
    by (auto simp: portal_cleanup_def table_simps)
  with t(1) show thesis by (rule that)
qed

text \<open>The request carries a session of the panel, or of a player.\<close>

definition panel_signed :: "'w panel_auth \<Rightarrow> instant \<Rightarrow> request \<Rightarrow> panel_db \<Rightarrow> bool" where
  "panel_signed A now rq d \<longleftrightarrow> (\<exists>t r. parse_cookie (rq_cookie rq) session_cookie = Inr (Some t) \<and>
     r \<in> set (pd_sessions d) \<and> ps_hash r = pa_hash A t \<and> ps_discord r \<in> set (pa_allowed A) \<and>
     \<not> iso_le (ps_created r + session_lifetime) now)"

definition player_signed :: "'w panel_auth \<Rightarrow> instant \<Rightarrow> request \<Rightarrow> portal_db \<Rightarrow> bool" where
  "player_signed A now rq p \<longleftrightarrow> (\<exists>t r. parse_cookie (rq_cookie rq) player_cookie = Inr (Some t) \<and>
     r \<in> set (po_players p) \<and> pl_hash r = pa_hash A t \<and> \<not> iso_le (pl_expires r) now)"

lemma guard_session_admits:
  assumes "guard_session (pa_hash A) now rq d = (Inr Admit, e)" and "panel_ok A d"
  shows "panel_signed A now rq d"
proof -
  obtain token r where token: "parse_cookie (rq_cookie rq) session_cookie = Inr token"
    "panel_session_of (pa_hash A) now token d = (Some r, e)"
    using assms(1) by (auto simp: guard_session_def split: sum.splits prod.splits option.splits)
  from session_found[OF token(2)] obtain t where t: "token = Some t" "r \<in> set (pd_sessions d)"
    "ps_hash r = pa_hash A t" "\<not> iso_le (ps_expires r) now" .
  with assms(2) have "granted A r" by (simp add: panel_ok_def)
  with t token(1) show ?thesis unfolding panel_signed_def granted_def by metis
qed

lemma player_request_signed:
  assumes "player_for_request (pa_hash A) now rq p = (Inr (Some r), q)"
  shows "player_signed A now rq p"
proof -
  obtain token where token: "parse_cookie (rq_cookie rq) player_cookie = Inr token"
    "player_session_of (pa_hash A) now token p = (Some r, q)"
    using assms by (auto simp: player_for_request_def split: sum.splits prod.splits)
  from player_found[OF token(2)] obtain t where "token = Some t" "r \<in> set (po_players p)"
    "pl_hash r = pa_hash A t" "\<not> iso_le (pl_expires r) now" .
  with token(1) show ?thesis unfolding player_signed_def by metis
qed

text \<open>C23:
  In every reachable state, when the panel requires Discord, the guard admits a request only on an open
  path, or for the launcher files with an unexpired session of a player, or with the cookie of a session
  that was created at most a week ago for a user of the list of allowed users.
\<close>

theorem guarded_requests_are_signed:
  assumes "panel_reachable A (w, d)" and "auth_enabled A" and "panel_guard A now rq (d, p) = (Inr Admit, e)"
  shows "open_path (rq_path rq) \<or> (full_match artifact_path_rx (rq_path rq) \<and> player_signed A now rq p) \<or>
    panel_signed A now rq d"
proof (cases "open_path (rq_path rq)")
  case False
  have ok: "panel_ok A d" using panel_reachable_ok[OF assms(1)] by simp
  note run = assms(3)[unfolded panel_guard_def prod.case] 
  show ?thesis
  proof (cases "full_match artifact_path_rx (rq_path rq)")
    case True
    with run False assms(2) show ?thesis
      using guard_session_admits[OF _ ok, of now rq] player_request_signed[of A now rq p]
      by (auto split: prod.splits sum.splits option.splits)
  next
    case path: False
    with run False assms(2) show ?thesis
      using guard_session_admits[OF _ ok, of now rq] by (auto split: prod.splits)
  qed
qed simp

definition sample_panel :: "int panel_auth" where
  "sample_panel = \<lparr>pa_mode = ''discord'', pa_public_url = Some ''https://p'', pa_redirect_uri = None,
     pa_client_id = ''c'', pa_client_secret = ''s'', pa_allowed = [''42''], pa_secure = True,
     pa_url = (\<lambda>u. Some \<lparr>wu_protocol = ''https:'', wu_origin = ''https://p'', wu_path = ''/'', wu_search = [], wu_hash = []\<rparr>),
     pa_relative = (\<lambda>u. None), pa_drop_param = (\<lambda>q k. q), pa_set_param = (\<lambda>q k v. q), pa_form = (\<lambda>kvs. []),
     pa_fetch = (\<lambda>u f. ret (True, Some (JObj [(''access_token'', JStr ''t''), (''id'', JStr ''42''), (''username'', JStr ''ann'')]))),
     pa_hash = id, pa_now = id, pa_token = (\<lambda>w. ''token'')\<rparr>"

definition sample_request :: "string \<Rightarrow> string option \<Rightarrow> request" where
  "sample_request path cookie = \<lparr>rq_origin = ''https://p'', rq_path = path, rq_cookie = cookie\<rparr>"

definition sample_login :: "int \<times> panel_db" where
  "sample_login = snd (login_route sample_panel (sample_request ''/api/panel-auth/login'' None) None
     (1000, \<lparr>pd_states = [], pd_sessions = []\<rparr>))"

definition sample_callback :: "int \<times> panel_db" where
  "sample_callback = snd (callback_route sample_panel
     (sample_request ''/api/panel-auth/callback'' (Some ''gravit_panel_oauth_state=token'')) (Some ''code'') (Some ''token'') sample_login)"

lemma guarded_requests_are_signed_witness:
  "let rq = sample_request ''/api/jobs'' (Some ''gravit_panel_session=token'');
       p = \<lparr>po_nonces = [], po_players = [], po_skins = [], po_page = None\<rparr> in
   fst (panel_guard sample_panel 2000 rq (snd sample_callback, p)) = Inr Admit \<and>
   \<not> open_path (rq_path rq) \<and>
   (open_path (rq_path rq) \<or> (full_match artifact_path_rx (rq_path rq) \<and> player_signed sample_panel 2000 rq p) \<or>
    panel_signed sample_panel 2000 rq (snd sample_callback))"
proof -
  let ?rq = "sample_request ''/api/jobs'' (Some ''gravit_panel_session=token'')"
  let ?p = "\<lparr>po_nonces = [], po_players = [], po_skins = [], po_page = None\<rparr>"
  have "panel_reachable sample_panel sample_callback"
    unfolding sample_callback_def sample_login_def by (intro panel_reachable.intros)
  then have reach: "panel_reachable sample_panel (fst sample_callback, snd sample_callback)" by simp
  have on: "auth_enabled sample_panel" by code_simp
  have admitted: "fst (panel_guard sample_panel 2000 ?rq (snd sample_callback, ?p)) = Inr Admit" by code_simp
  then obtain e where run: "panel_guard sample_panel 2000 ?rq (snd sample_callback, ?p) = (Inr Admit, e)"
    by (cases "panel_guard sample_panel 2000 ?rq (snd sample_callback, ?p)") simp
  have closed: "\<not> open_path (rq_path ?rq)" by code_simp
  show ?thesis
    unfolding Let_def using admitted closed guarded_requests_are_signed[OF reach on run] by blast
qed

section \<open>One login for one state\<close>

lemma callback_run:
  "callback_route A rq code state (w, d) =
    (case parse_cookie (rq_cookie rq) return_cookie of
       Inl e \<Rightarrow> (Inl (AuthError e), (w, d))
     | Inr wanted \<Rightarrow> (case auth_cookie_path A of
         Inl e \<Rightarrow> (Inl (AuthError e), (w, d))
       | Inr path \<Rightarrow> (case parse_cookie (rq_cookie rq) state_cookie of
           Inl e \<Rightarrow> (Inl (AuthError e), (w, d))
         | Inr kept \<Rightarrow>
             let clear = [serialize_cookie state_cookie [] 0 (pa_secure A) path,
                          serialize_cookie return_cookie [] 0 (pa_secure A) path] in
             if absent code \<or> absent state \<or> absent kept \<or> state \<noteq> kept
             then to_error A rq (safe_return_to A wanted) ''state'' clear (w, d)
             else (case consume_state A (the state) (w, d) of
                 (Inl e, t) \<Rightarrow> (Inl e, t)
               | (Inr consumed, t) \<Rightarrow>
                   if \<not> consumed then to_error A rq (safe_return_to A wanted) ''state'' clear t
                   else finish_login A rq (safe_return_to A wanted) (the code) clear t))))"
  by (simp add: callback_route_def cookie_of_def or_fail_def exec_simps Let_def split: sum.split prod.split)

lemma consume_run:
  "consume_state A st (w, d) =
    (let e = cleanup_expired (pa_now A w) d in
     (Inr (length (sql_select (\<lambda>r. os_hash r = pa_hash A st) (pd_states e)) = 1),
      (w, e\<lparr>pd_states := sql_delete (\<lambda>r. os_hash r = pa_hash A st) (pd_states e)\<rparr>)))"
  by (simp add: consume_state_def web_read_def panel_write_def exec_simps Let_def)

lemma keeps_states_out:
  "stable (\<lambda>d. \<forall>q\<in>set (pd_states d). os_hash q \<noteq> x) (finish_login A rq r code clear)"
proof -
  have insert: "\<forall>q\<in>set (pd_states d). os_hash q \<noteq> x \<Longrightarrow> insert_session row d = Inr e \<Longrightarrow>
      \<forall>q\<in>set (pd_states e). os_hash q \<noteq> x" for row d e
    unfolding insert_session_def by (cases "sql_insert ps_hash row (pd_sessions d)") auto
  have clean: "\<forall>q\<in>set (pd_states d). os_hash q \<noteq> x \<Longrightarrow> \<forall>q\<in>set (pd_states (cleanup_expired now d)). os_hash q \<noteq> x" for now d
    by (simp add: cleanup_expired_def table_simps)
  show ?thesis
    unfolding finish_login_def complete_login_def require_configured_def Let_def
    by (intro stable_intros stable_redirects stable_user) (erule clean, erule (1) insert)
qed

text \<open>C24:
  A session comes from a login the same browser has started: when the callback route adds a session, the
  state of its query is the state in the cookie of the request, its hash was stored and had not expired,
  and it is no longer stored afterwards, so it cannot be used again.
\<close>

theorem login_needs_own_state:
  assumes "callback_route A rq code state (w, d) = (r, (v, e))" and "row \<in> set (pd_sessions e)"
    and "row \<notin> set (pd_sessions d)"
  shows "\<exists>st. state = Some st \<and> parse_cookie (rq_cookie rq) state_cookie = Inr (Some st) \<and>
    (\<exists>q\<in>set (pd_states d). os_hash q = pa_hash A st \<and> \<not> iso_le (os_expires q) (pa_now A w)) \<and>
    pa_hash A st \<notin> os_hash ` set (pd_states e)"
proof -
  have fails: "\<And>w d r v e. p (w, d) = (r, (v, e)) \<Longrightarrow> row \<notin> set (pd_sessions d) \<Longrightarrow> row \<notin> set (pd_sessions e)"
    if "stable (\<lambda>d. row \<notin> set (pd_sessions d)) p" for p :: "('a, response) auth"
    using stableD[OF that] by blast
  obtain wanted path kept where parts: "parse_cookie (rq_cookie rq) return_cookie = Inr wanted"
      "auth_cookie_path A = Inr path" "parse_cookie (rq_cookie rq) state_cookie = Inr kept"
    using assms unfolding callback_run
    by (cases "parse_cookie (rq_cookie rq) return_cookie"; cases "auth_cookie_path A";
        cases "parse_cookie (rq_cookie rq) state_cookie") simp_all
  define clear where "clear = [serialize_cookie state_cookie [] 0 (pa_secure A) path,
     serialize_cookie return_cookie [] 0 (pa_secure A) path]"
  note run = assms(1)[unfolded callback_run parts sum.case clear_def[symmetric] Let_def]
  have same: "\<not> (absent code \<or> absent state \<or> absent kept \<or> state \<noteq> kept)"
    using run fails[OF stable_redirects(2) _ assms(3)] assms(2) by (metis (lifting))
  then obtain st where st: "state = Some st" "kept = Some st" by (cases state) (auto simp: absent_def)
  define c where "c = cleanup_expired (pa_now A w) d"
  define f where "f = c\<lparr>pd_states := sql_delete (\<lambda>r. os_hash r = pa_hash A st) (pd_states c)\<rparr>"
  have gone: "row \<notin> set (pd_sessions f)" "\<forall>q\<in>set (pd_states f). os_hash q \<noteq> pa_hash A st"
    using assms(3) by (auto simp: f_def c_def cleanup_expired_def table_simps)
  have consumed: "length (sql_select (\<lambda>r. os_hash r = pa_hash A st) (pd_states c)) = 1"
  proof (rule ccontr)
    assume "length (sql_select (\<lambda>r. os_hash r = pa_hash A st) (pd_states c)) \<noteq> 1"
    with run same st have "to_error A rq (safe_return_to A wanted) ''state'' clear (w, f) = (r, (v, e))"
      by (simp add: consume_run Let_def c_def f_def)
    from fails[OF stable_redirects(2) this gone(1)] assms(2) show False by blast
  qed
  then obtain q where "q \<in> set (pd_states c)" "os_hash q = pa_hash A st"
    by (metis (mono_tags, lifting) One_nat_def length_0_conv list.set_intros(1) mem_Collect_eq neq_Nil_conv set_sql_select zero_neq_one)
  then have q: "q \<in> set (pd_states d)" "os_hash q = pa_hash A st" "\<not> iso_le (os_expires q) (pa_now A w)"
    by (auto simp: c_def cleanup_expired_def table_simps)
  have "finish_login A rq (safe_return_to A wanted) (the code) clear (w, f) = (r, (v, e))"
    using run same st consumed by (simp add: consume_run Let_def c_def f_def)
  from stableD[OF keeps_states_out gone(2) this] have "pa_hash A st \<notin> os_hash ` set (pd_states e)" by auto
  with q st parts(3) show ?thesis by blast
qed

definition sample_session :: panel_session where
  "sample_session = \<lparr>ps_hash = ''token'', ps_discord = ''42'', ps_username = ''ann'', ps_global = None,
     ps_avatar = None, ps_expires = 604801000, ps_created = 1000\<rparr>"

lemma login_needs_own_state_witness:
  "\<exists>st. Some ''token'' = Some st \<and>
    parse_cookie (Some ''gravit_panel_oauth_state=token'') state_cookie = Inr (Some st) \<and>
    (\<exists>q\<in>set (pd_states (snd sample_login)). os_hash q = st \<and> \<not> iso_le (os_expires q) 1000) \<and>
    st \<notin> os_hash ` set (pd_states (snd sample_callback))"
proof -
  let ?rq = "sample_request ''/api/panel-auth/callback'' (Some ''gravit_panel_oauth_state=token'')"
  let ?r = "fst (callback_route sample_panel ?rq (Some ''code'') (Some ''token'') sample_login)"
  have start: "sample_login = (1000, snd sample_login)" by code_simp
  have run: "callback_route sample_panel ?rq (Some ''code'') (Some ''token'') (1000, snd sample_login) =
      (?r, (fst sample_callback, snd sample_callback))"
    unfolding start[symmetric] sample_callback_def by simp
  have rows: "sample_session \<in> set (pd_sessions (snd sample_callback))"
    "sample_session \<notin> set (pd_sessions (snd sample_login))" by code_simp+
  have fields: "pa_hash sample_panel = id" "pa_now sample_panel = id" "rq_cookie ?rq = Some ''gravit_panel_oauth_state=token''"
    by (simp_all add: sample_panel_def sample_request_def)
  show ?thesis using login_needs_own_state[OF run rows] unfolding fields by simp
qed

section \<open>One session for one ticket\<close>

text \<open>Calls of the portal with the instant each one reads; the flag tells that a ticket was accepted.\<close>

datatype portal_act =
    EnterPortal string string
  | AskPlayer "string option"
  | LeavePortal "string option"
  | WearSkin player_session string
  | UpdatePage string string "string list"

record portal_env =
  pe_secret :: "string option"
  pe_hmac :: "string \<Rightarrow> string \<Rightarrow> string"
  pe_decode :: "string \<Rightarrow> json option"
  pe_hash :: "string \<Rightarrow> string"

fun portal_do :: "portal_env \<Rightarrow> instant \<Rightarrow> portal_act \<Rightarrow> portal_db \<Rightarrow> portal_db" where
  "portal_do E now (EnterPortal token ticket) d =
     snd (complete_ticket (pe_secret E) (pe_hmac E) (pe_decode E) (pe_hash E) now token ticket d)"
| "portal_do E now (AskPlayer token) d = snd (player_session_of (pe_hash E) now token d)"
| "portal_do E now (LeavePortal token) d = revoke_player (pe_hash E) token d"
| "portal_do E now (WearSkin player bytes) d = snd (set_skin (pe_hash E) now player bytes d)"
| "portal_do E now (UpdatePage title text hidden) d = update_settings now title text hidden d"

fun accepts :: "portal_env \<Rightarrow> string \<Rightarrow> instant \<Rightarrow> portal_act \<Rightarrow> portal_db \<Rightarrow> bool" where
  "accepts E ticket now (EnterPortal token ticket') d \<longleftrightarrow> ticket' = ticket \<and>
     \<not> isl (fst (complete_ticket (pe_secret E) (pe_hmac E) (pe_decode E) (pe_hash E) now token ticket d))"
| "accepts E ticket now a d \<longleftrightarrow> False"

fun entries :: "portal_env \<Rightarrow> string \<Rightarrow> (instant \<times> portal_act) list \<Rightarrow> portal_db \<Rightarrow> nat" where
  "entries E ticket [] d = 0"
| "entries E ticket ((now, a) # acts) d =
     (if accepts E ticket now a d then 1 else 0) + entries E ticket acts (portal_do E now a d)"

text \<open>The instants of a run: before the year 10000, and in order.\<close>

fun in_order :: "instant \<Rightarrow> (instant \<times> portal_act) list \<Rightarrow> bool" where
  "in_order from_time [] \<longleftrightarrow> True"
| "in_order from_time ((now, a) # acts) \<longleftrightarrow> plain_instant now \<and> from_time \<le> now \<and> in_order now acts"

text \<open>The expiry a ticket carries is an instant before the year 10000 too.\<close>

definition plain_expiry :: "portal_env \<Rightarrow> string \<Rightarrow> bool" where
  "plain_expiry E ticket \<longleftrightarrow> list_all (\<lambda>w. case pe_decode E w of None \<Rightarrow> True
     | Some p \<Rightarrow> (case Option.bind (json_field p ''exp'') safe_int of None \<Rightarrow> True | Some e \<Rightarrow> e * 1000 < iso_limit))
     (split_on (\<lambda>c. c = CHR ''.'') ticket)"

lemma verify_payload:
  assumes "verify_ticket secret hmac decode now ticket = Inr (p, e)"
  obtains w where "w \<in> set (split_on (\<lambda>c. c = CHR ''.'') ticket)" "decode w = Some p" "now < e * 1000"
    "Option.bind (json_field p ''exp'') safe_int = Some e"
    "\<And>later. verify_ticket secret hmac decode later ticket = check_payload later p"
proof -
  obtain key payload signature where parts: "secret = Some key" "\<not> length key < 32"
      "split_on (\<lambda>c. c = CHR ''.'') ticket = [payload, signature]" "\<not> (payload = [] \<or> signature = [])"
      "signature = hmac key payload"
    using assms by (auto simp: verify_ticket_def split: option.splits list.splits if_splits)
  then obtain q where q: "decode payload = Some q"
    using assms by (auto simp: verify_ticket_def split: option.splits)
  have again: "verify_ticket secret hmac decode later ticket = check_payload later q" for later
    using parts q by (simp add: verify_ticket_def)
  have checked: "check_payload now q = Inr (p, e)" using assms again by simp
  then have "q = p" "now < e * 1000" "Option.bind (json_field p ''exp'') safe_int = Some e"
    by (auto simp: check_payload_def split: json.splits if_splits option.splits)
  with parts(3) q again show thesis by (intro that[of payload]) simp_all
qed

lemma verify_same:
  assumes "verify_ticket secret hmac decode now ticket = Inr (p, e)"
    and "verify_ticket secret hmac decode later ticket = Inr (q, f)"
  shows "q = p \<and> f = e"
proof -
  obtain w where "Option.bind (json_field p ''exp'') safe_int = Some e"
      "\<And>later. verify_ticket secret hmac decode later ticket = check_payload later p"
    by (rule verify_payload[OF assms(1)]) blast
  with assms(2) show ?thesis
    by (auto simp: check_payload_def split: json.splits if_splits option.splits)
qed

lemma verify_plain:
  assumes "verify_ticket (pe_secret E) (pe_hmac E) (pe_decode E) now ticket = Inr (p, e)"
    and "plain_expiry E ticket" and "0 \<le> now"
  shows "plain_instant (e * 1000)" and "now < e * 1000"
proof -
  obtain w where w: "w \<in> set (split_on (\<lambda>c. c = CHR ''.'') ticket)" "pe_decode E w = Some p" "now < e * 1000"
    "Option.bind (json_field p ''exp'') safe_int = Some e"
    by (rule verify_payload[OF assms(1)]) blast
  then have "e * 1000 < iso_limit" using assms(2) by (force simp: plain_expiry_def list_all_iff)
  with w(3) assms(3) show "plain_instant (e * 1000)" by (simp add: plain_instant_def)
  from w(3) show "now < e * 1000" .
qed

lemma cleanup_nonces: "r \<in> set (po_nonces (portal_cleanup now d)) \<longleftrightarrow> r \<in> set (po_nonces d) \<and> \<not> iso_le (tn_expires r) now"
  by (auto simp: portal_cleanup_def table_simps)

lemma open_player_nonces: "po_nonces (snd (open_player h now token p d)) = po_nonces d"
  by (simp add: open_player_def Let_def split: option.split sum.split)

lemma use_nonce_keeps: "r \<in> set (po_nonces d) \<Longrightarrow> r \<in> set (po_nonces (snd (use_nonce n x d)))"
  by (simp add: use_nonce_def sql_insert_def)

lemma complete_nonces:
  assumes "r \<in> set (po_nonces d)" and "\<not> iso_le (tn_expires r) now"
  shows "r \<in> set (po_nonces (snd (complete_ticket secret hmac decode h now token ticket d)))"
proof -
  have c: "r \<in> set (po_nonces (portal_cleanup now d))" using assms by (simp add: cleanup_nonces)
  show ?thesis
    using assms(1) c use_nonce_keeps[OF c]
    by (auto simp: complete_ticket_def open_player_nonces split: sum.split prod.split option.split)
      (metis snd_conv)+
qed

lemma portal_do_keeps:
  assumes "r \<in> set (po_nonces d)" and "\<not> iso_le (tn_expires r) now"
  shows "r \<in> set (po_nonces (portal_do E now a d))"
proof (cases a)
  case (EnterPortal token ticket)
  with complete_nonces[OF assms] show ?thesis by simp
next
  case (AskPlayer token)
  with assms show ?thesis
    by (auto simp: player_session_of_def Let_def cleanup_nonces split: option.split)
next
  case (WearSkin player bytes)
  with assms show ?thesis by (auto simp: set_skin_def Let_def split: sum.split prod.split)
qed (use assms in \<open>auto simp: revoke_player_def update_settings_def split: option.split\<close>)

text \<open>The nonce of a ticket is held until the ticket has expired.\<close>

definition held :: "string \<Rightarrow> instant \<Rightarrow> instant \<Rightarrow> portal_db \<Rightarrow> bool" where
  "held n x now d \<longleftrightarrow> (\<exists>r\<in>set (po_nonces d). tn_nonce r = n \<and> tn_expires r = x) \<or> x \<le> now"

lemma held_step:
  assumes "held n x earlier d" and "earlier \<le> now" and "plain_instant now" and "plain_instant x"
  shows "held n x now (portal_do E now a d)"
proof (cases "x \<le> now")
  case False
  with assms(1,2) obtain r where r: "r \<in> set (po_nonces d)" "tn_nonce r = n" "tn_expires r = x"
    by (auto simp: held_def)
  then have "\<not> iso_le (tn_expires r) now" using False by (simp add: iso_le_plain[OF assms(4,3)])
  from portal_do_keeps[OF r(1) this, of E a] r(2,3) show ?thesis unfolding held_def by blast
qed (simp add: held_def)

lemma held_refuses:
  assumes "verify_ticket (pe_secret E) (pe_hmac E) (pe_decode E) now ticket = Inr (p, e)"
    and "bound_text (json_field p ''nonce'') = Some n" and "plain_expiry E ticket"
    and "held n (e * 1000) earlier d" and "earlier \<le> now" and "plain_instant now"
  shows "\<not> accepts E ticket now (EnterPortal token ticket) d"
proof -
  have now: "0 \<le> now" using assms(6) by (simp add: plain_instant_def)
  note plain = verify_plain[OF assms(1,3) now]
  then obtain r where r: "r \<in> set (po_nonces d)" "tn_nonce r = n" "tn_expires r = e * 1000"
    using assms(4,5) by (auto simp: held_def)
  then have "r \<in> set (po_nonces (portal_cleanup now d))"
    using plain by (simp add: cleanup_nonces iso_le_plain[OF plain(1) assms(6)])
  with r(2) have "isl (fst (use_nonce n (e * 1000) (portal_cleanup now d)))"
    by (auto simp: use_nonce_def sql_insert_def)
  then show ?thesis
    by (cases "use_nonce n (e * 1000) (portal_cleanup now d)")
      (auto simp: complete_ticket_def assms(1,2) isl_def)
qed

lemma accepted:
  assumes "accepts E ticket now a d"
  obtains token p e n where "a = EnterPortal token ticket"
    "verify_ticket (pe_secret E) (pe_hmac E) (pe_decode E) now ticket = Inr (p, e)"
    "bound_text (json_field p ''nonce'') = Some n" "held n (e * 1000) now (portal_do E now a d)"
proof -
  obtain token where a: "a = EnterPortal token ticket"
      "\<not> isl (fst (complete_ticket (pe_secret E) (pe_hmac E) (pe_decode E) (pe_hash E) now token ticket d))"
    using assms by (cases a) auto
  then obtain p e where v: "verify_ticket (pe_secret E) (pe_hmac E) (pe_decode E) now ticket = Inr (p, e)"
    by (auto simp: complete_ticket_def split: sum.splits)
  with a(2) obtain n where n: "bound_text (json_field p ''nonce'') = Some n"
    by (auto simp: complete_ticket_def split: option.splits)
  let ?c = "portal_cleanup now d" and ?row = "\<lparr>tn_nonce = n, tn_expires = e * 1000\<rparr>"
  obtain t where t: "use_nonce n (e * 1000) ?c = (Inr (), ?c\<lparr>po_nonces := t\<rparr>)" "?row \<in> set t"
    using a(2) v n by (auto simp: complete_ticket_def use_nonce_def sql_insert_def split: if_splits)
  then have "?row \<in> set (po_nonces (portal_do E now a d))"
    using v n by (simp add: a(1) complete_ticket_def open_player_nonces)
  then have "held n (e * 1000) now (portal_do E now a d)" unfolding held_def by (intro disjI1 bexI[of _ ?row]) simp_all
  with a(1) v n show thesis by (rule that)
qed

lemma no_second_entry:
  assumes "plain_expiry E ticket" and "in_order earlier acts"
    and "verify_ticket (pe_secret E) (pe_hmac E) (pe_decode E) first ticket = Inr (p, e)"
    and "plain_instant (e * 1000)" and "bound_text (json_field p ''nonce'') = Some n"
    and "held n (e * 1000) earlier d"
  shows "entries E ticket acts d = 0"
  using assms(2,6)
proof (induction acts arbitrary: earlier d)
  case (Cons x acts)
  obtain now a where x: "x = (now, a)" by (cases x)
  have order: "plain_instant now" "earlier \<le> now" "in_order now acts" using Cons.prems(1) by (simp_all add: x)
  have refuse: "\<not> accepts E ticket now a d"
  proof
    assume yes: "accepts E ticket now a d"
    then obtain token q f where a: "a = EnterPortal token ticket"
      "verify_ticket (pe_secret E) (pe_hmac E) (pe_decode E) now ticket = Inr (q, f)"
      by (rule accepted)
    have "q = p \<and> f = e" by (rule verify_same[OF assms(3) a(2)])
    with held_refuses[OF _ assms(5,1) Cons.prems(2) order(2,1)] a yes show False by blast
  qed
  have "entries E ticket acts (portal_do E now a d) = 0"
    by (rule Cons.IH[OF order(3) held_step[OF Cons.prems(2) order(2,1) assms(4)]])
  with refuse show ?case by (simp add: x)
qed simp


definition sample_portal :: portal_env where
  "sample_portal = \<lparr>pe_secret = Some (replicate 32 CHR ''k''), pe_hmac = (\<lambda>k p. ''sig''),
     pe_decode = (\<lambda>w. Some (JObj [(''uuid'', JStr ''0123abcd-0123-0123-0123-0123456789ab''), (''discordId'', JStr ''12345''),
       (''username'', JStr ''ann''), (''nonce'', JStr ''abcdefghijklmnopqrst''), (''exp'', JNum 5)])), pe_hash = id\<rparr>"


text \<open>
  From the year 10000 on the text of an expiry sorts before every present one, so its nonce is deleted at
  once and the ticket opens a session each time.
\<close>

lemma far_ticket_is_used_again:
  "entries (sample_portal\<lparr>pe_decode := (\<lambda>w. Some (JObj [(''uuid'', JStr ''0123abcd-0123-0123-0123-0123456789ab''),
       (''discordId'', JStr ''12345''), (''username'', JStr ''ann''), (''nonce'', JStr ''abcdefghijklmnopqrst''),
       (''exp'', JNum 253402300800)]))\<rparr>) ''body.sig''
     [(1000, EnterPortal ''t1'' ''body.sig''), (2000, EnterPortal ''t2'' ''body.sig'')]
     \<lparr>po_nonces = [], po_players = [], po_skins = [], po_page = None\<rparr> = 2"
  by code_simp

end
