(* ===== verification/Modrinth.thy ===== *)
theory Modrinth
  imports Web_Text Profile_Service
begin

text \<open>
  \<^verbatim>\<open>modrinth.service.ts\<close>: mods and modpacks from the Modrinth API. A reply of the API is a record of the
  type the source casts it to; URLs, hashes, the JSON parser, \<open>fetch\<close>, the pause between attempts and the
  program \<open>unzip\<close> are fields of \<open>modrinth\<close>.
\<close>

section \<open>Replies of the API\<close>

record mod_file =
  mf_sha1 :: string
  mf_sha512 :: string
  mf_url :: string
  mf_filename :: string
  mf_primary :: bool
  mf_size :: int

datatype dependency_kind = Required | OptionalDep | Incompatible | Embedded

record mod_dependency =
  md_project :: "string option"
  md_version :: "string option"
  md_kind :: dependency_kind

record mod_version =
  mv_id :: string
  mv_project :: string
  mv_number :: string
  mv_files :: "mod_file list"
  mv_dependencies :: "mod_dependency list"

datatype mod_side = SideRequired | SideOptional | Unsupported | UnknownSide

record mod_project =
  mp_id :: string
  mp_slug :: string
  mp_title :: "string option"
  mp_description :: "string option"
  mp_client :: mod_side
  mp_server :: mod_side

record search_hit =
  hit_project :: string
  hit_slug :: string
  hit_title :: string
  hit_description :: string
  hit_author :: string
  hit_icon :: "string option"
  hit_downloads :: int
  hit_versions :: "string list"
  hit_loaders :: "string list"
  hit_client :: "mod_side option"
  hit_server :: "mod_side option"

text \<open>A reply is its status and the value of its body; it is fine from 200 to 299.\<close>

datatype 'a reply = Reply (reply_status: nat) (reply_body: 'a)

definition reply_ok :: "'a reply \<Rightarrow> bool" where
  "reply_ok r \<longleftrightarrow> 200 \<le> reply_status r \<and> reply_status r < 300"

record 'w modrinth =
  mo_search :: "string \<Rightarrow> ('w, search_hit list reply) io"
  mo_project :: "string \<Rightarrow> ('w, mod_project reply) io"
  mo_versions :: "string \<Rightarrow> ('w, mod_version list reply) io"
  mo_version :: "string \<Rightarrow> ('w, mod_version reply) io"
  mo_by_hash :: "string \<Rightarrow> string list \<Rightarrow> ('w, (string \<times> mod_version) list reply) io"
  mo_latest :: "string \<Rightarrow> string \<Rightarrow> string \<Rightarrow> ('w, mod_version reply) io"
  mo_projects :: "string \<Rightarrow> ('w, mod_project list reply) io"
  mo_bytes :: "string \<Rightarrow> ('w, string reply) io"
  mo_pause :: "nat \<Rightarrow> ('w, unit) io"
  mo_sha512 :: "string \<Rightarrow> string"
  mo_sha256 :: "string \<Rightarrow> string"
  mo_query :: "(string \<times> string) list \<Rightarrow> string"
  mo_host :: "string \<Rightarrow> (string \<times> string) option"
  mo_parse :: "string \<Rightarrow> json option"
  mo_stringify :: "json \<Rightarrow> string"
  mo_mkdtemp :: "('w, string) io"
  mo_write :: "string \<Rightarrow> string \<Rightarrow> ('w, unit) io"
  mo_rm :: "string \<Rightarrow> ('w, unit) io"
  mo_unzip :: "string list \<Rightarrow> ('w, nat \<times> string \<times> string) io"

definition modrinth_api :: string where
  "modrinth_api = ''https://api.modrinth.com/v2''"

definition loader_word :: "loader \<Rightarrow> string" where
  "loader_word l = (case l of VANILLA \<Rightarrow> ''vanilla'' | FORGE \<Rightarrow> ''forge'' | NEOFORGE \<Rightarrow> ''neoforge''
     | FABRIC \<Rightarrow> ''fabric'' | QUILT \<Rightarrow> ''quilt'')"

text \<open>\<open>[...new Set(xs)]\<close> and \<open>Set.add\<close>: the order of first insertion.\<close>

definition distinct_of :: "'a list \<Rightarrow> 'a list" where
  "distinct_of xs = rev (remdups (rev xs))"

definition set_add :: "'a \<Rightarrow> 'a list \<Rightarrow> 'a list" where
  "set_add x xs = (if x \<in> set xs then xs else xs @ [x])"

section \<open>Searching\<close>

definition search_url :: "'w modrinth \<Rightarrow> string \<Rightarrow> string \<Rightarrow> string \<Rightarrow> string \<Rightarrow> string" where
  "search_url M query version l kind = modrinth_api @ ''/search?'' @ mo_query M
     [(''query'', query),
      (''facets'', mo_stringify M (JArr [JArr [JStr (''project_type:'' @ kind)], JArr [JStr (''versions:'' @ version)],
         JArr [JStr (''categories:'' @ js_lower l)]])),
      (''index'', ''downloads''), (''limit'', ''30'')]"

definition search_projects :: "'w modrinth \<Rightarrow> string \<Rightarrow> string \<Rightarrow> string \<Rightarrow> string \<Rightarrow> ('w, search_hit list) io" where
  "search_projects M query version l kind =
     andThen (mo_search M (search_url M query version l kind)) (\<lambda>r.
     thenDo (throwIf (\<not> reply_ok r) (Error (''Modrinth search failed with HTTP '' @ show_nat (reply_status r))))
       (ret (reply_body r)))"

definition search_mods :: "'w modrinth \<Rightarrow> string \<Rightarrow> string \<Rightarrow> string \<Rightarrow> ('w, search_hit list) io" where
  "search_mods M query version l = search_projects M query version l ''mod''"

definition search_modpacks :: "'w modrinth \<Rightarrow> string \<Rightarrow> string \<Rightarrow> string \<Rightarrow> ('w, search_hit list) io" where
  "search_modpacks M query version l = search_projects M query version l ''modpack''"

definition search_server :: "'w modrinth \<Rightarrow> string \<Rightarrow> string \<Rightarrow> string \<Rightarrow> ('w, search_hit list) io" where
  "search_server M query version l =
     andThen (search_mods M query version l) (\<lambda>items.
       ret (filter (\<lambda>i. hit_server i \<noteq> Some Unsupported) items))"

section \<open>Projects and versions\<close>

definition project_url :: "string \<Rightarrow> string" where
  "project_url i = modrinth_api @ ''/project/'' @ encode_uri_component i"

definition versions_url :: "'w modrinth \<Rightarrow> string \<Rightarrow> string \<Rightarrow> string \<Rightarrow> string" where
  "versions_url M i version l = project_url i @ ''/version?'' @ mo_query M
     [(''loaders'', mo_stringify M (JArr [JStr (js_lower l)])),
      (''game_versions'', mo_stringify M (JArr [JStr version]))]"

fun assert_installable :: "'w modrinth \<Rightarrow> string list \<Rightarrow> string \<Rightarrow> string \<Rightarrow> ('w, (string \<times> string) list) io" where
  "assert_installable M [] version l = ret []"
| "assert_installable M (slug # slugs) version l =
     andThen (mo_versions M (versions_url M slug version l)) (\<lambda>r.
     thenDo (throwIf (\<not> reply_ok r) (Error (slug @ '' is not available from the pinned Modrinth v2 API'')))
     (case reply_body r of
        [] \<Rightarrow> throw_error (slug @ '' has no compatible '' @ version @ ''/'' @ l @ '' version'')
      | v # _ \<Rightarrow> andThen (assert_installable M slugs version l) (\<lambda>projects. ret ((slug, mv_project v) # projects))))"

definition primary_file :: "mod_version \<Rightarrow> mod_file option" where
  "primary_file v = (case List.find mf_primary (mv_files v) of
     Some f \<Rightarrow> Some f | None \<Rightarrow> (case mv_files v of [] \<Rightarrow> None | f # _ \<Rightarrow> Some f))"

section \<open>Dependencies\<close>

record resolved_mod =
  rm_project :: string
  rm_slug :: string
  rm_title :: string
  rm_root :: bool
  rm_version :: mod_version
  rm_file :: mod_file

datatype install_target = ClientSide | ServerSide

definition target_text :: "install_target \<Rightarrow> string" where
  "target_text t = (case t of ClientSide \<Rightarrow> ''client'' | ServerSide \<Rightarrow> ''server'')"

definition side_of :: "install_target \<Rightarrow> mod_project \<Rightarrow> mod_side" where
  "side_of t p = (case t of ServerSide \<Rightarrow> mp_server p | ClientSide \<Rightarrow> mp_client p)"

text \<open>
  The two mutable variables of \<open>resolveInstall\<close>, the visited references and the resolved mods, beside the
  world.
\<close>

type_synonym ('w, 'a) resolving = "('w \<times> string list \<times> resolved_mod list, js_error, 'a) exec"

definition from_api :: "('w, 'a) io \<Rightarrow> ('w, 'a) resolving" where
  "from_api p = (\<lambda>(w, s). case p w of (r, v) \<Rightarrow> (r, (v, s)))"

definition was_visited :: "string \<Rightarrow> ('w, bool) resolving" where
  "was_visited i = reading (\<lambda>(w, seen, out). i \<in> set seen)"

definition visited_count :: "('w, nat) resolving" where
  "visited_count = reading (\<lambda>(w, seen, out). length seen)"

definition mark_visited :: "string \<Rightarrow> ('w, unit) resolving" where
  "mark_visited i = writing (\<lambda>(w, seen, out). (w, i # seen, out))"

definition push_resolved :: "resolved_mod \<Rightarrow> ('w, unit) resolving" where
  "push_resolved m = writing (\<lambda>(w, seen, out). (w, seen, out @ [m]))"

definition too_many :: js_error where
  "too_many = Error ''Modrinth dependency graph exceeds 64 projects''"

text \<open>The project a required dependency names; other dependencies are passed over.\<close>

definition dependency_ref :: "'w modrinth \<Rightarrow> mod_dependency \<Rightarrow> ('w, string option) resolving" where
  "dependency_ref M d =
     (if md_kind d \<noteq> Required then ret None
      else (case md_project d of
          Some (c # cs) \<Rightarrow> ret (Some (c # cs))
        | _ \<Rightarrow> (case md_version d of
            Some (c # cs) \<Rightarrow>
              andThen (from_api (mo_version M (modrinth_api @ ''/version/'' @ encode_uri_component (c # cs)))) (\<lambda>r.
              thenDo (throwIf (\<not> reply_ok r) (Error (''Failed to resolve required Modrinth dependency '' @ c # cs)))
                (ret (Some (mv_project (reply_body r)))))
          | _ \<Rightarrow> ret None)))"

definition find_project :: "'w modrinth \<Rightarrow> install_target \<Rightarrow> string \<Rightarrow> bool \<Rightarrow> ('w, mod_project) resolving" where
  "find_project M t ref is_root =
     andThen (from_api (mo_project M (project_url ref))) (\<lambda>r.
     thenDo (throwIf (\<not> reply_ok r) (Error (ref @ '' is not available from the pinned Modrinth API'')))
     (let p = reply_body r in
      thenDo (throwIf (side_of t p = Unsupported \<and> is_root)
        (Error (mp_slug p @ '' is marked as unsupported on the '' @ target_text t)))
        (ret p)))"

definition find_version ::
  "'w modrinth \<Rightarrow> install_target \<Rightarrow> string \<Rightarrow> string \<Rightarrow> mod_project \<Rightarrow> bool \<Rightarrow> ('w, mod_version option) resolving" where
  "find_version M t version l p is_root =
     andThen (from_api (mo_versions M (versions_url M (mp_id p) version l))) (\<lambda>r.
     thenDo (throwIf (\<not> reply_ok r)
       (Error (''Failed to resolve a '' @ target_text t @ '' version for '' @ mp_slug p)))
     (case reply_body r of
        v # _ \<Rightarrow> ret (Some v)
      | [] \<Rightarrow> thenDo (throwIf is_root (Error (mp_slug p @ '' has no compatible '' @ version @ ''/'' @ l @ '' version'')))
          (ret None)))"

definition add_resolved :: "mod_project \<Rightarrow> bool \<Rightarrow> mod_version \<Rightarrow> ('w, unit) resolving" where
  "add_resolved p is_root v =
     (case primary_file v of
        None \<Rightarrow> raise (Error (mp_slug p @ '' version does not contain a downloadable file''))
      | Some f \<Rightarrow> push_resolved \<lparr>rm_project = mp_id p, rm_slug = mp_slug p,
          rm_title = (case mp_title p of Some t \<Rightarrow> t | None \<Rightarrow> mp_slug p), rm_root = is_root, rm_version = v, rm_file = f\<rparr>)"

text \<open>
  \<open>visit\<close>. The number bounds the depth of the recursion: a call either finds the reference visited or marks
  it, and with 64 marks every call that would go on throws, so 65 are enough.
\<close>

primrec visit ::
  "nat \<Rightarrow> 'w modrinth \<Rightarrow> install_target \<Rightarrow> string \<Rightarrow> string \<Rightarrow> string \<Rightarrow> bool \<Rightarrow> ('w, unit) resolving" where
  "visit 0 M t version l ref is_root =
     andThen (was_visited ref) (\<lambda>seen. throwIf (\<not> seen) too_many)"
| "visit (Suc n) M t version l ref is_root =
     andThen (was_visited ref) (\<lambda>seen.
     if seen then ret ()
     else andThen visited_count (\<lambda>k.
       thenDo (throwIf (64 \<le> k) too_many)
       (thenDo (mark_visited ref)
       (andThen (find_project M t ref is_root) (\<lambda>p.
        andThen (find_version M t version l p is_root) (\<lambda>r.
        case r of
          None \<Rightarrow> ret ()
        | Some v \<Rightarrow>
            thenDo (forEach (mv_dependencies v) (\<lambda>d.
              andThen (dependency_ref M d) (\<lambda>q. case q of
                None \<Rightarrow> ret ()
              | Some i \<Rightarrow> visit n M t version l i False)))
              (add_resolved p is_root v)))))))"

definition visit_depth :: nat where
  "visit_depth = 65"

definition resolve_install ::
  "'w modrinth \<Rightarrow> string \<Rightarrow> string \<Rightarrow> string \<Rightarrow> install_target \<Rightarrow> ('w, resolved_mod list) io" where
  "resolve_install M slug version l t = (\<lambda>w.
     case visit visit_depth M t version l slug True (w, [], []) of
       (Inl e, (v, _, _)) \<Rightarrow> (Inl e, v)
     | (Inr _, (v, _, out)) \<Rightarrow> (Inr out, v))"

definition resolve_server_install :: "'w modrinth \<Rightarrow> string \<Rightarrow> string \<Rightarrow> string \<Rightarrow> ('w, resolved_mod list) io" where
  "resolve_server_install M slug version l = resolve_install M slug version l ServerSide"

section \<open>Lookups by hash\<close>

text \<open>Batches of 100; a later batch overwrites an earlier one.\<close>

function batches :: "'a list \<Rightarrow> 'a list list" where
  "batches xs = (if xs = [] then [] else take 100 xs # batches (drop 100 xs))"
  by pat_completeness auto

termination
  by (relation "measure length") auto

declare batches.simps [simp del]

fun hash_batches :: "'w modrinth \<Rightarrow> string list list \<Rightarrow> (string \<times> mod_version) list \<Rightarrow> ('w, (string \<times> mod_version) list) io" where
  "hash_batches M [] acc = ret acc"
| "hash_batches M (hs # hss) acc =
     andThen (mo_by_hash M (modrinth_api @ ''/version_files'') hs) (\<lambda>r.
     thenDo (throwIf (\<not> reply_ok r) (Error (''Modrinth hash lookup failed with HTTP '' @ show_nat (reply_status r))))
       (hash_batches M hss (reply_body r @ acc)))"

definition versions_from_hashes :: "'w modrinth \<Rightarrow> string list \<Rightarrow> ('w, (string \<times> mod_version) list) io" where
  "versions_from_hashes M hashes = hash_batches M (batches hashes) []"

fun project_batches :: "'w modrinth \<Rightarrow> string list list \<Rightarrow> (string \<times> mod_project) list \<Rightarrow> ('w, (string \<times> mod_project) list) io" where
  "project_batches M [] acc = ret acc"
| "project_batches M (is # iss) acc =
     andThen (mo_projects M (modrinth_api @ ''/projects?'' @ mo_query M
       [(''ids'', mo_stringify M (JArr (map JStr is)))])) (\<lambda>r.
     project_batches M iss (if reply_ok r then rev (map (\<lambda>p. (mp_id p, p)) (reply_body r)) @ acc else acc))"

definition projects_by_ids :: "'w modrinth \<Rightarrow> string list \<Rightarrow> ('w, (string \<times> mod_project) list) io" where
  "projects_by_ids M is = project_batches M (batches is) []"

definition latest_from_hash :: "'w modrinth \<Rightarrow> string \<Rightarrow> string \<Rightarrow> string \<Rightarrow> ('w, mod_version option) io" where
  "latest_from_hash M hash version l =
     andThen (mo_latest M (modrinth_api @ ''/version_file/'' @ encode_uri_component hash @ ''/update?'' @
       mo_query M [(''algorithm'', ''sha1'')]) (js_lower l) version) (\<lambda>r.
     if reply_status r = 404 then ret None
     else thenDo (throwIf (\<not> reply_ok r) (Error (''Modrinth update lookup failed with HTTP '' @ show_nat (reply_status r))))
       (ret (Some (reply_body r))))"

section \<open>Downloads\<close>

definition mod_limit :: int where
  "mod_limit = 200 * 1024 * 1024"

definition checked_bytes :: "'w modrinth \<Rightarrow> mod_file \<Rightarrow> int \<Rightarrow> string \<Rightarrow> ('w, string) io" where
  "checked_bytes M f maximum bytes =
     thenDo (throwIf (maximum < int (length bytes)) (Error ''Modrinth artifact exceeds the size limit''))
     (thenDo (throwIf (mo_sha512 M bytes \<noteq> mf_sha512 f) (Error ''Modrinth artifact checksum mismatch''))
       (ret bytes))"

text \<open>The attempts that are left, at most three; a rejected request is \<open>Inl\<close>.\<close>

definition attempt_request :: "('w, 'a) io \<Rightarrow> ('w, js_error + 'a) io" where
  "attempt_request p = (\<lambda>w. case p w of (r, v) \<Rightarrow> (Inr r, v))"

fun download_attempts :: "'w modrinth \<Rightarrow> mod_file \<Rightarrow> int \<Rightarrow> nat list \<Rightarrow> ('w, string) io" where
  "download_attempts M f maximum [] = throw_error ''Mod download failed''"
| "download_attempts M f maximum (k # ks) =
     andThen (attempt_request (mo_bytes M (mf_url f))) (\<lambda>r. case r of
       Inl e \<Rightarrow> if k = 3 then raise e
         else thenDo (mo_pause M (k * 500)) (download_attempts M f maximum ks)
     | Inr reply \<Rightarrow>
         if reply_ok reply then checked_bytes M f maximum (reply_body reply)
         else if \<not> (reply_status reply = 429 \<or> 500 \<le> reply_status reply) \<or> k = 3
         then throw_error (''Mod download failed with HTTP '' @ show_nat (reply_status reply))
         else thenDo (mo_pause M (k * 500)) (download_attempts M f maximum ks))"

definition download_mod :: "'w modrinth \<Rightarrow> mod_file \<Rightarrow> int \<Rightarrow> ('w, string) io" where
  "download_mod M f maximum =
     thenDo (throwIf (\<not> prefix ''https://cdn.modrinth.com/'' (mf_url f)) (Error ''Modrinth returned a non-CDN artifact URL''))
     (thenDo (throwIf (maximum < mf_size f) (Error ''Modrinth artifact exceeds the size limit''))
       (download_attempts M f maximum [1, 2, 3]))"

end
