(* ===== verification/Modpacks.thy ===== *)
theory Modpacks
  imports Modrinth
begin

text \<open>
  Modpacks of \<^verbatim>\<open>modrinth.service.ts\<close>: reading and checking a \<^verbatim>\<open>.mrpack\<close> archive, describing it with what the API
  knows of its files, and downloading a file of it.
\<close>

section \<open>The manifest\<close>

record pack_file =
  pf_path :: string
  pf_sha1 :: string
  pf_sha512 :: string
  pf_client :: "string option"
  pf_server :: "string option"
  pf_downloads :: "string list"
  pf_size :: int

record pack_index =
  pi_name :: string
  pi_version :: string
  pi_summary :: "string option"
  pi_files :: "pack_file list"
  pi_dependencies :: json

datatype override_side = CommonSide | ClientOnly | ServerOnly

record pack_override =
  ov_side :: override_side
  ov_path :: string
  ov_bytes :: string

definition drive_letter :: "string \<Rightarrow> bool" where
  "drive_letter v \<longleftrightarrow> (case v of c # d # _ \<Rightarrow> (is_lower c \<or> is_upper c) \<and> d = CHR '':'' | _ \<Rightarrow> False)"

definition safe_pack_path :: "string \<Rightarrow> bool" where
  "safe_pack_path v \<longleftrightarrow> v \<noteq> [] \<and> CHR 0x5C \<notin> set v \<and> \<not> prefix ''/'' v \<and> \<not> drive_letter v \<and>
     \<not> list_ex (\<lambda>p. p = [] \<or> p = ''.'' \<or> p = ''..'') (split_slash v)"

text \<open>A text that is not empty; other true values are not told from a missing one.\<close>

definition some_text :: "json option \<Rightarrow> string option" where
  "some_text v = (case v of Some (JStr (c # cs)) \<Rightarrow> Some (c # cs) | _ \<Rightarrow> None)"

definition at_field :: "json option \<Rightarrow> string \<Rightarrow> json option" where
  "at_field v k = Option.bind v (\<lambda>x. json_field x k)"

definition text_of :: "json option \<Rightarrow> string option" where
  "text_of v = (case v of Some (JStr s) \<Rightarrow> Some s | _ \<Rightarrow> None)"

definition parse_pack_file :: "json \<Rightarrow> js_error + pack_file" where
  "parse_pack_file v =
     (let path = text_field v ''path''; hashes = json_field v ''hashes''; env = json_field v ''env'' in
      case (some_text (at_field hashes ''sha1''), some_text (at_field hashes ''sha512''), json_field v ''downloads'',
            Option.bind (json_field v ''fileSize'') safe_int) of
        (Some sha1, Some sha512, Some (JArr urls), Some n) \<Rightarrow>
          if safe_pack_path path \<and> 0 < n
          then Inr \<lparr>pf_path = path, pf_sha1 = sha1, pf_sha512 = sha512, pf_client = text_of (at_field env ''client''),
                 pf_server = text_of (at_field env ''server''), pf_downloads = json_strings urls, pf_size = n\<rparr>
          else Inl (Error (''Invalid Modrinth modpack file entry: '' @ path))
      | _ \<Rightarrow> Inl (Error (''Invalid Modrinth modpack file entry: '' @ path)))"

fun parse_pack_files :: "json list \<Rightarrow> js_error + pack_file list" where
  "parse_pack_files [] = Inr []"
| "parse_pack_files (v # vs) = (case parse_pack_file v of
     Inl e \<Rightarrow> Inl e
   | Inr f \<Rightarrow> (case parse_pack_files vs of Inl e \<Rightarrow> Inl e | Inr fs \<Rightarrow> Inr (f # fs)))"

definition is_js_array :: "json \<Rightarrow> bool" where
  "is_js_array v \<longleftrightarrow> (case v of JArr xs \<Rightarrow> True | _ \<Rightarrow> False)"

definition unsupported_manifest :: js_error where
  "unsupported_manifest = Error ''Unsupported Modrinth modpack manifest''"

definition parse_pack_index :: "json \<Rightarrow> js_error + pack_index" where
  "parse_pack_index v =
     (case (json_field v ''name'', json_field v ''versionId'', json_field v ''files'', json_field v ''dependencies'') of
        (Some (JStr name), Some (JStr version), Some (JArr files), Some deps) \<Rightarrow>
          if json_field v ''formatVersion'' \<noteq> Some (JNum 1) \<or> json_field v ''game'' \<noteq> Some (JStr ''minecraft'') \<or>
             js_trim name = [] \<or> js_trim version = [] \<or>
             \<not> (is_js_object deps \<or> is_js_array deps)
          then Inl unsupported_manifest
          else if 2000 < length files then Inl (Error ''Modpack contains too many downloads'')
          else (case parse_pack_files files of
              Inl e \<Rightarrow> Inl e
            | Inr fs \<Rightarrow> Inr \<lparr>pi_name = name, pi_version = version, pi_summary = text_of (json_field v ''summary''),
                pi_files = fs, pi_dependencies = deps\<rparr>)
      | _ \<Rightarrow> Inl unsupported_manifest)"

section \<open>The archive\<close>

text \<open>\<open>split(/\\r?\\n/)\<close>\<close>

fun chop_returns :: "string list \<Rightarrow> string list" where
  "chop_returns [] = []"
| "chop_returns [w] = [w]"
| "chop_returns (w # v # ws) =
     (if w \<noteq> [] \<and> last w = CHR 0x0D then butlast w else w) # chop_returns (v # ws)"

definition split_lines :: "string \<Rightarrow> string list" where
  "split_lines s = chop_returns (split_on (\<lambda>c. c = CHR 0x0A) s)"

text \<open>\<open>/^\\s*(\\d+)\\s+\\d{4}-\\d{2}-\\d{2}\\s+\\d{2}:\\d{2}\\s+(.+)$/\<close>: the size and the name.\<close>

definition line_char :: "char \<Rightarrow> bool" where
  "line_char c \<longleftrightarrow> c \<noteq> CHR 0x0A \<and> c \<noteq> CHR 0x0D"

definition name_line_rx :: rx where
  "name_line_rx = (let d = Cls is_digit; sp = Cls js_space in
     cats [Star sp, many1 d, many1 sp, times 4 d, lit ''-'', times 2 d, lit ''-'', times 2 d,
       many1 sp, times 2 d, lit '':'', times 2 d, many1 sp, Cap (many1 (Cls line_char))])"

definition listed_entry :: "string \<Rightarrow> (nat \<times> string) option" where
  "listed_entry line =
     (case List.find (\<lambda>(c, r). r = []) (rx_run name_line_rx (None, line)) of
        Some (Some name, _) \<Rightarrow> map_option (\<lambda>n. (n, name)) (listed_size line)
      | _ \<Rightarrow> None)"

fun entry_sizes :: "string list \<Rightarrow> (string \<times> int) list \<Rightarrow> js_error + (string \<times> int) list" where
  "entry_sizes [] acc = Inr acc"
| "entry_sizes (line # ls) acc =
     (case listed_entry line of
        None \<Rightarrow> entry_sizes ls acc
      | Some (n, name) \<Rightarrow>
          if max_safe_integer < int n then Inl (Error ''Modpack archive contains an invalid expanded size'')
          else entry_sizes ls ((name, int n) # acc))"

definition size_of_entry :: "(string \<times> int) list \<Rightarrow> string \<Rightarrow> int" where
  "size_of_entry sizes e = (case map_of sizes e of Some n \<Rightarrow> n | None \<Rightarrow> 0)"

definition run_unzip :: "'w modrinth \<Rightarrow> string list \<Rightarrow> ('w, string) io" where
  "run_unzip M args =
     andThen (mo_unzip M args) (\<lambda>(code, out, err).
     thenDo (throwIf (code \<noteq> 0) (Error (''Invalid Modrinth modpack archive: '' @ js_trim err)))
       (ret out))"

definition read_zip_entry :: "'w modrinth \<Rightarrow> string \<Rightarrow> string \<Rightarrow> ('w, string) io" where
  "read_zip_entry M archive entry =
     andThen (mo_unzip M [''-p'', archive, entry]) (\<lambda>(code, out, err).
     thenDo (throwIf (code \<noteq> 0) (Error (''Failed to read '' @ entry @ '' from Modrinth modpack'')))
       (ret out))"

definition index_name :: string where
  "index_name = ''modrinth.index.json''"

definition check_pack_entries :: "string list \<Rightarrow> js_error + unit" where
  "check_pack_entries entries =
     (if 4000 < length entries then Inl (Error ''Modpack archive contains too many files'')
      else if index_name \<notin> set entries then Inl (Error ''Modpack archive has no modrinth.index.json'')
      else if list_ex (\<lambda>e. prefix ''/'' e \<or> sublist ''../'' e) entries
      then Inl (Error ''Modpack archive contains an unsafe path'')
      else Inr ())"

definition check_pack_sizes :: "(string \<times> int) list \<Rightarrow> js_error + unit" where
  "check_pack_sizes sizes =
     (if 512 * 1024 * 1024 < sum_list (map snd sizes) then Inl (Error ''Modpack archive expands beyond 512 MiB'')
      else if 4 * 1024 * 1024 < size_of_entry sizes index_name then Inl (Error ''Modpack manifest exceeds 4 MiB'')
      else Inr ())"

definition override_scope :: "string \<Rightarrow> override_side option" where
  "override_scope e =
     (if prefix ''overrides/'' e then Some CommonSide
      else if prefix ''client-overrides/'' e then Some ClientOnly
      else if prefix ''server-overrides/'' e then Some ServerOnly else None)"

definition override_limit :: int where
  "override_limit = 64 * 1024 * 1024"

definition below_first_slash :: "string \<Rightarrow> string" where
  "below_first_slash e = drop 1 (dropWhile (\<lambda>c. c \<noteq> CHR ''/'') e)"

definition read_override ::
  "'w modrinth \<Rightarrow> string \<Rightarrow> bool \<Rightarrow> (string \<times> int) list \<Rightarrow> string \<Rightarrow> ('w, pack_override option) io" where
  "read_override M archive include sizes entry =
     (case override_scope entry of
        None \<Rightarrow> ret None
      | Some scope \<Rightarrow>
          if suffix ''/'' entry then ret None
          else let path = below_first_slash entry in
            thenDo (throwIf (\<not> safe_pack_path path) (Error (''Unsafe modpack override: '' @ entry)))
            (thenDo (throwIf (override_limit < size_of_entry sizes entry)
               (Error (''Modpack override exceeds 64 MiB: '' @ entry)))
            (andThen (if include then read_zip_entry M archive entry else ret []) (\<lambda>content.
             thenDo (throwIf (include \<and> override_limit < int (length content))
               (Error (''Modpack override exceeds 64 MiB: '' @ entry)))
               (ret (Some \<lparr>ov_side = scope, ov_path = path, ov_bytes = content\<rparr>))))))"

definition parse_index_text :: "'w modrinth \<Rightarrow> string \<Rightarrow> js_error + pack_index" where
  "parse_index_text M text =
     (case mo_parse M text of
        None \<Rightarrow> Inl (Error ''JSON'')
      | Some JNull \<Rightarrow> Inl (Error ''null is not an object'')
      | Some v \<Rightarrow> parse_pack_index v)"

definition read_archive :: "'w modrinth \<Rightarrow> string \<Rightarrow> string \<Rightarrow> bool \<Rightarrow> ('w, pack_index \<times> pack_override list) io" where
  "read_archive M bytes archive include =
     thenDo (mo_write M archive bytes)
     (andThen (run_unzip M [''-Z1'', archive]) (\<lambda>names.
      let entries = filter (\<lambda>e. e \<noteq> []) (split_lines names) in
      thenDo (ofSum (check_pack_entries entries))
      (andThen (run_unzip M [''-l'', archive]) (\<lambda>listing.
       andThen (ofSum (entry_sizes (split_lines listing) [])) (\<lambda>sizes.
       thenDo (ofSum (check_pack_sizes sizes))
       (andThen (read_zip_entry M archive index_name) (\<lambda>text.
        thenDo (throwIf (4 * 1024 * 1024 < int (length text)) (Error ''Modpack manifest exceeds 4 MiB''))
        (andThen (ofSum (parse_index_text M text)) (\<lambda>index.
         andThen (traverse (read_override M archive include sizes) entries) (\<lambda>overrides.
           ret (index, List.map_filter id overrides)))))))))))"

definition read_modpack_archive :: "'w modrinth \<Rightarrow> string \<Rightarrow> bool \<Rightarrow> ('w, pack_index \<times> pack_override list) io" where
  "read_modpack_archive M bytes include =
     andThen (mo_mkdtemp M) (\<lambda>directory.
       try_always (read_archive M bytes (path_join [directory, ''pack.mrpack'']) include) (mo_rm M directory))"

section \<open>Describing a pack\<close>

record pack_meta =
  me_project :: string
  me_slug :: string
  me_name :: string
  me_summary :: string
  me_version :: string
  me_version_name :: string

record inspected_file =
  if_path :: string
  if_size :: int
  if_sha1 :: string
  if_client :: string
  if_server :: string
  if_project :: "string option"
  if_name :: string
  if_description :: string

record inspection =
  is_meta :: pack_meta
  is_minecraft :: string
  is_loader :: loader
  is_loader_version :: string
  is_files :: "inspected_file list"
  is_client_overrides :: nat
  is_server_overrides :: nat

record resolved_pack =
  rp_inspection :: inspection
  rp_files :: "pack_file list"
  rp_overrides :: "pack_override list"

definition loader_dependency :: "loader \<Rightarrow> string" where
  "loader_dependency l = (case l of FABRIC \<Rightarrow> ''fabric-loader'' | FORGE \<Rightarrow> ''forge''
     | NEOFORGE \<Rightarrow> ''neoforge'' | QUILT \<Rightarrow> ''quilt-loader'' | VANILLA \<Rightarrow> [])"

text \<open>\<open>Object.values\<close> of an object that was assigned in order, the latest entry of a key first.\<close>

fun object_values :: "string list \<Rightarrow> (string \<times> 'a) list \<Rightarrow> 'a list" where
  "object_values seen [] = []"
| "object_values seen ((k, v) # kvs) =
     (if k \<in> set seen then object_values seen kvs else v # object_values (k # seen) kvs)"

definition env_side :: "string option \<Rightarrow> string" where
  "env_side v = (case v of Some s \<Rightarrow> s | None \<Rightarrow> ''required'')"

definition inspect_file :: "(string \<times> mod_version) list \<Rightarrow> (string \<times> mod_project) list \<Rightarrow> pack_file \<Rightarrow> inspected_file" where
  "inspect_file versions projects f =
     (let v = map_of versions (pf_sha1 f); p = Option.bind v (\<lambda>x. map_of projects (mv_project x)) in
      \<lparr>if_path = pf_path f, if_size = pf_size f, if_sha1 = pf_sha1 f, if_client = env_side (pf_client f),
       if_server = env_side (pf_server f), if_project = map_option mv_project v,
       if_name = (case Option.bind p mp_title of Some t \<Rightarrow> t | None \<Rightarrow> path_basename (pf_path f)),
       if_description = (case Option.bind p mp_description of Some d \<Rightarrow> d | None \<Rightarrow> [])\<rparr>)"

definition describe_modpack ::
  "'w modrinth \<Rightarrow> pack_index \<times> pack_override list \<Rightarrow> string \<Rightarrow> loader \<Rightarrow> pack_meta \<Rightarrow> ('w, resolved_pack) io" where
  "describe_modpack M parsed version l meta =
     (case parsed of (index, overrides) \<Rightarrow>
      let found = text_field (pi_dependencies index) (loader_dependency l) in
      thenDo (throwIf (json_field (pi_dependencies index) ''minecraft'' \<noteq> Some (JStr version) \<or> found = [])
        (Error ''Modpack dependencies do not match the selected profile''))
      (andThen (versions_from_hashes M (map pf_sha1 (pi_files index))) (\<lambda>versions.
       andThen (projects_by_ids M (distinct_of (map mv_project (object_values [] versions)))) (\<lambda>projects.
       ret \<lparr>rp_inspection = \<lparr>is_meta = meta, is_minecraft = version, is_loader = l, is_loader_version = found,
              is_files = map (inspect_file versions projects) (pi_files index),
              is_client_overrides = length (filter (\<lambda>o'. ov_side o' \<noteq> ServerOnly) overrides),
              is_server_overrides = length (filter (\<lambda>o'. ov_side o' \<noteq> ClientOnly) overrides)\<rparr>,
            rp_files = pi_files index, rp_overrides = overrides\<rparr>))))"

definition pack_limit :: int where
  "pack_limit = 100 * 1024 * 1024"

definition resolve_modpack :: "'w modrinth \<Rightarrow> string \<Rightarrow> string \<Rightarrow> loader \<Rightarrow> bool \<Rightarrow> ('w, resolved_pack) io" where
  "resolve_modpack M projectId version l include =
     andThen (mo_project M (project_url projectId)) (\<lambda>r.
     thenDo (throwIf (\<not> reply_ok r) (Error ''Modrinth modpack project was not found''))
     (let project = reply_body r in
      andThen (mo_versions M (versions_url M (mp_id project) version (loader_word l))) (\<lambda>r.
      thenDo (throwIf (\<not> reply_ok r) (Error (''Modrinth modpack versions failed with HTTP '' @ show_nat (reply_status r))))
      (case reply_body r of
         [] \<Rightarrow> throw_error (''The modpack has no '' @ version @ ''/'' @ map js_upper_char (loader_word l) @ '' version'')
       | v # _ \<Rightarrow> (case List.find (\<lambda>f. suffix ''.mrpack'' (mf_filename f)) (mv_files v) of
           None \<Rightarrow> throw_error ''The selected Modrinth version has no .mrpack file''
         | Some f \<Rightarrow>
             andThen (download_mod M f pack_limit) (\<lambda>archive.
             andThen (read_modpack_archive M archive include) (\<lambda>parsed.
             describe_modpack M parsed version l
               \<lparr>me_project = mp_id project, me_slug = mp_slug project,
                me_name = (if pi_name (fst parsed) \<noteq> [] then pi_name (fst parsed)
                  else case mp_title project of Some (c # cs) \<Rightarrow> c # cs | _ \<Rightarrow> mp_slug project),
                me_summary = (case pi_summary (fst parsed) of Some t \<Rightarrow> t
                  | None \<Rightarrow> (case mp_description project of Some t \<Rightarrow> t | None \<Rightarrow> [])),
                me_version = mv_id v, me_version_name = mv_number v\<rparr>)))))))"

definition inspect_modpack :: "'w modrinth \<Rightarrow> string \<Rightarrow> string \<Rightarrow> loader \<Rightarrow> ('w, inspection) io" where
  "inspect_modpack M projectId version l =
     andThen (resolve_modpack M projectId version l False) (\<lambda>p. ret (rp_inspection p))"

definition resolve_local_modpack :: "'w modrinth \<Rightarrow> string \<Rightarrow> string \<Rightarrow> loader \<Rightarrow> bool \<Rightarrow> ('w, resolved_pack) io" where
  "resolve_local_modpack M archive version l include =
     thenDo (throwIf (archive = [] \<or> pack_limit < int (length archive))
       (Error ''Local .mrpack must be between 1 byte and 100 MiB''))
     (andThen (read_modpack_archive M archive include) (\<lambda>parsed.
      describe_modpack M parsed version l
        \<lparr>me_project = ''local-'' @ take 40 (mo_sha256 M archive), me_slug = ''local-mrpack'',
         me_name = pi_name (fst parsed),
         me_summary = (case pi_summary (fst parsed) of Some t \<Rightarrow> t | None \<Rightarrow> []),
         me_version = pi_version (fst parsed), me_version_name = pi_version (fst parsed)\<rparr>))"

definition inspect_local_modpack :: "'w modrinth \<Rightarrow> string \<Rightarrow> string \<Rightarrow> loader \<Rightarrow> ('w, inspection) io" where
  "inspect_local_modpack M archive version l =
     andThen (resolve_local_modpack M archive version l False) (\<lambda>p. ret (rp_inspection p))"

section \<open>Downloading a file of a pack\<close>

definition allowed_hosts :: "string list" where
  "allowed_hosts = [''cdn.modrinth.com'', ''github.com'', ''raw.githubusercontent.com'', ''gitlab.com'']"

definition allowed_download :: "'w modrinth \<Rightarrow> string \<Rightarrow> bool" where
  "allowed_download M u = (case mo_host M u of
     None \<Rightarrow> False | Some (protocol, name) \<Rightarrow> protocol = ''https:'' \<and> name \<in> set allowed_hosts)"

definition download_pack_file :: "'w modrinth \<Rightarrow> pack_file \<Rightarrow> ('w, string) io" where
  "download_pack_file M f =
     thenDo (throwIf (mod_limit < pf_size f) (Error (''Modpack file exceeds 200 MiB: '' @ pf_path f)))
     (case List.find (allowed_download M) (pf_downloads f) of
        None \<Rightarrow> throw_error (''Modpack file has no allowed HTTPS download: '' @ pf_path f)
      | Some u \<Rightarrow>
          andThen (mo_bytes M u) (\<lambda>r.
          thenDo (throwIf (\<not> reply_ok r) (Error (''Modpack file download failed with HTTP '' @ show_nat (reply_status r))))
          (let bytes = reply_body r in
           thenDo (throwIf (int (length bytes) \<noteq> pf_size f \<or> mod_limit < int (length bytes))
             (Error (''Modpack file size mismatch: '' @ pf_path f)))
           (thenDo (throwIf (mo_sha512 M bytes \<noteq> pf_sha512 f) (Error (''Modpack file checksum mismatch: '' @ pf_path f)))
             (ret bytes)))))"

end
