(* ===== verification/Mod_Manager.thy ===== *)
theory Mod_Manager
  imports Modpacks Client_Build Binding_Service Profile_Updates
begin

text \<open>
  \<^verbatim>\<open>mod-manager.service.ts\<close>: the mods of a profile and of its servers. It writes the volume of the LaunchServer,
  edits the profile through the build service, and reaches the files of a server through the host agent.
  The services its constructor takes are all present, as in \<^verbatim>\<open>mods.routes.ts\<close>.
\<close>

section \<open>The world of the service\<close>

datatype local_kind = LocalFile | LocalDirectory | LocalOther

record ('w, 'r) mods =
  ma_builder :: "('w, 'r) builder"
  ma_modrinth :: "'w modrinth"
  ma_installation :: string
  ma_collate :: "string \<Rightarrow> string \<Rightarrow> int"
  ma_bindings :: "'w \<Rightarrow> bindings"
  ma_agent :: "string \<Rightarrow> string \<Rightarrow> (string \<times> json) list \<Rightarrow> ('w, json) io"
  ma_stat :: "string \<Rightarrow> ('w, (local_kind \<times> nat) option) io"
  ma_readdir :: "string \<Rightarrow> ('w, string list) io"
  ma_sha1_file :: "string \<Rightarrow> ('w, string) io"
  ma_sha1 :: "string \<Rightarrow> string"
  ma_base64 :: "string \<Rightarrow> string"
  ma_uuid :: "'w \<Rightarrow> string"
  ma_aborted :: "'w \<Rightarrow> bool"

abbreviation ma_host :: "('w, 'r) mods \<Rightarrow> 'w host" where
  "ma_host A \<equiv> b_host (ma_builder A)"

abbreviation ma_volume :: "('w, 'r) mods \<Rightarrow> 'w volume_ops" where
  "ma_volume A \<equiv> h_volume (ma_host A)"

section \<open>Names and paths\<close>

definition jar_filename_rx :: rx where
  "jar_filename_rx = Cat (between_times 1 255 (Cls (\<lambda>c. c \<noteq> CHR ''/'' \<and> c \<noteq> CHR 0x5C \<and> c \<noteq> CHR 0x00)))
     (Cat (lit ''.jar'') (opt (lit ''.disabled'')))"

definition safe_filename :: "string \<Rightarrow> js_error + string" where
  "safe_filename f = (if \<not> full_match jar_filename_rx f \<or> path_basename f \<noteq> f
     then Inl (Error ''Unsafe mod filename'') else Inr f)"

definition mods_relative :: "string \<Rightarrow> js_error + string" where
  "mods_relative profile = (if \<not> full_match profile_rx profile
     then Inl (Error ''Profile name contains unsupported characters'')
     else Inr (path_join [''updates'', profile, ''mods'']))"

definition mods_directory :: "('w, 'r) mods \<Rightarrow> string \<Rightarrow> string" where
  "mods_directory A relative = path_join [h_root (ma_host A), ''launcher'', relative]"

definition assert_regular_mod :: "('w, 'r) mods \<Rightarrow> string \<Rightarrow> ('w, unit) io" where
  "assert_regular_mod A path =
     andThen (ma_stat A path) (\<lambda>r. case r of
       None \<Rightarrow> throw_error ''ENOENT''
     | Some (k, _) \<Rightarrow> throwIf (k \<noteq> LocalFile) (Error ''Mod target must be a regular file''))"

definition disabled_suffix :: string where
  "disabled_suffix = ''.disabled''"

definition without_disabled :: "string \<Rightarrow> string" where
  "without_disabled f = (if suffix disabled_suffix f then take (length f - length disabled_suffix) f else f)"

section \<open>Listing\<close>

record installed_mod =
  im_filename :: string
  im_disabled :: bool
  im_size :: nat
  im_sha1 :: string
  im_project :: "string option"
  im_version :: "string option"
  im_version_name :: "string option"
  im_name :: "string option"
  im_description :: "string option"
  im_slug :: "string option"
  im_server :: "mod_side option"

definition local_mod :: "('w, 'r) mods \<Rightarrow> string \<Rightarrow> string \<Rightarrow> ('w, (string \<times> nat \<times> string) option) io" where
  "local_mod A directory f =
     (let path = path_join [directory, f] in
      andThen (ma_stat A path) (\<lambda>r. case r of
        None \<Rightarrow> throw_error ''ENOENT''
      | Some (k, n) \<Rightarrow>
          if k \<noteq> LocalFile then ret None
          else andThen (ma_sha1_file A path) (\<lambda>h. ret (Some (f, n, h)))))"

definition installed_of ::
  "(string \<times> mod_version) list \<Rightarrow> (string \<times> mod_project) list \<Rightarrow> string \<times> nat \<times> string \<Rightarrow> installed_mod" where
  "installed_of versions projects item =
     (case item of (f, n, h) \<Rightarrow>
      let v = map_of versions h; p = Option.bind v (\<lambda>x. map_of projects (mv_project x)) in
      \<lparr>im_filename = f, im_disabled = suffix disabled_suffix f, im_size = n, im_sha1 = h,
       im_project = map_option mv_project v, im_version = map_option mv_id v, im_version_name = map_option mv_number v,
       im_name = Option.bind p mp_title, im_description = Option.bind p mp_description,
       im_slug = map_option mp_slug p, im_server = map_option mp_server p\<rparr>)"

definition list_mods :: "('w, 'r) mods \<Rightarrow> string \<Rightarrow> ('w, installed_mod list) io" where
  "list_mods A profile =
     andThen (ofSum (mods_relative profile)) (\<lambda>relative.
     let directory = mods_directory A relative in
     andThen (ma_stat A directory) (\<lambda>r. case r of
       None \<Rightarrow> ret []
     | Some (k, _) \<Rightarrow>
         thenDo (throwIf (k \<noteq> LocalDirectory) (Error ''Profile mods path is not a directory''))
         (andThen (ma_readdir A directory) (\<lambda>names.
          andThen (promise_all (map (local_mod A directory)
            (sort (filter (\<lambda>f. suffix ''.jar'' f \<or> suffix ''.jar.disabled'' f) names)))) (\<lambda>found.
          let valid = List.map_filter id found in
          andThen (versions_from_hashes (ma_modrinth A) (map (\<lambda>(f, n, h). h) valid)) (\<lambda>versions.
          andThen (projects_by_ids (ma_modrinth A) (distinct_of (map mv_project (object_values [] versions)))) (\<lambda>projects.
            ret (map (installed_of versions projects) valid))))))))"

section \<open>Files of a server\<close>

definition server_file_limit :: int where
  "server_file_limit = 256 * 1024 * 1024"

text \<open>Each directory above the file is listed, or made when it cannot be listed.\<close>

fun make_directories :: "('w, 'r) mods \<Rightarrow> string \<Rightarrow> string \<Rightarrow> string list \<Rightarrow> ('w, unit) io" where
  "make_directories A binding upper [] = ret ()"
| "make_directories A binding upper (part # parts) =
     (let directory = (if upper \<noteq> [] then upper @ ''/'' @ part else part) in
      thenDo (tryCatch (ma_agent A binding ''list'' [(''path'', JStr directory)])
        (\<lambda>_. ma_agent A binding ''mkdir'' [(''path'', JStr directory)]))
        (make_directories A binding directory parts))"

definition write_live_file :: "('w, 'r) mods \<Rightarrow> string \<Rightarrow> string \<Rightarrow> string \<Rightarrow> ('w, unit) io" where
  "write_live_file A binding path bytes =
     thenDo (throwIf (server_file_limit < int (length bytes)) (Error ''Server file exceeds 256 MiB''))
     (thenDo (make_directories A binding [] (butlast (split_slash path)))
     (thenDo (ma_agent A binding ''write''
        [(''path'', JStr path), (''data'', JStr (ma_base64 A bytes)), (''overwrite'', JBool True),
         (''maxBytes'', JNum (of_int server_file_limit))])
       (ret ())))"

definition is_live_entry :: "string \<Rightarrow> json \<Rightarrow> bool" where
  "is_live_entry path e \<longleftrightarrow> json_field e ''type'' = Some (JStr ''file'') \<and> json_field e ''path'' = Some (JStr path)"

definition has_live_entry :: "string \<Rightarrow> json \<Rightarrow> bool" where
  "has_live_entry path v = (case json_field v ''entries'' of Some (JArr xs) \<Rightarrow> list_ex (is_live_entry path) xs | _ \<Rightarrow> False)"

definition remove_live_mod :: "('w, 'r) mods \<Rightarrow> string \<Rightarrow> string \<Rightarrow> ('w, bool) io" where
  "remove_live_mod A binding f =
     (let path = ''mods/'' @ f in
      andThen (tryCatch (andThen (ma_agent A binding ''list'' [(''path'', JStr ''mods'')]) (\<lambda>v. ret (Some v)))
        (\<lambda>e. if sublist ''directory is unavailable'' (error_message e) then ret None else raise e)) (\<lambda>listed.
      case listed of
        None \<Rightarrow> ret False
      | Some v \<Rightarrow>
          if \<not> has_live_entry path v then ret False
          else thenDo (ma_agent A binding ''delete'' [(''paths'', JArr [JStr path]), (''confirm'', JBool True)]) (ret True)))"

text \<open>The files a server has got so far in this installation.\<close>

fun write_live_mods :: "('w, 'r) mods \<Rightarrow> string \<Rightarrow> resolved_mod list \<Rightarrow> string list \<Rightarrow> ('w, string list) io" where
  "write_live_mods A binding [] written = ret written"
| "write_live_mods A binding (m # ms) written =
     (let f = mf_filename (rm_file m) in
      if f \<in> set written then write_live_mods A binding ms written
      else andThen (download_mod (ma_modrinth A) (rm_file m) mod_limit) (\<lambda>bytes.
        thenDo (write_live_file A binding (path_join [''mods'', f]) bytes)
          (write_live_mods A binding ms (written @ [f]))))"

fun install_live_slugs ::
  "('w, 'r) mods \<Rightarrow> string \<Rightarrow> string list \<Rightarrow> string \<Rightarrow> string \<Rightarrow> string list \<Rightarrow> ('w, string list) io" where
  "install_live_slugs A binding [] version l written = ret written"
| "install_live_slugs A binding (slug # slugs) version l written =
     andThen (resolve_install (ma_modrinth A) slug version l ServerSide) (\<lambda>ms.
     andThen (write_live_mods A binding ms written) (\<lambda>done_so_far.
       install_live_slugs A binding slugs version l done_so_far))"

definition install_live_mods :: "('w, 'r) mods \<Rightarrow> string \<Rightarrow> string list \<Rightarrow> string \<Rightarrow> string \<Rightarrow> ('w, unit) io" where
  "install_live_mods A binding slugs version l =
     andThen (install_live_slugs A binding slugs version l []) (\<lambda>written.
       h_log (ma_host A) (''Applied '' @ show_nat (length written) @ '' server mod file(s) immediately''))"

section \<open>One file of a profile\<close>

text \<open>The paths of a file: on the host, and in the volume.\<close>

definition mod_path :: "('w, 'r) mods \<Rightarrow> string \<Rightarrow> string \<Rightarrow> string" where
  "mod_path A relative f = path_join [mods_directory A relative, f]"

definition refuse_target :: "('w, 'r) mods \<Rightarrow> string \<Rightarrow> string \<Rightarrow> ('w, unit) io" where
  "refuse_target A path m =
     andThen (ma_stat A path) (\<lambda>r. throwIf (r \<noteq> None) (Error m))"

definition toggle_target :: "bool \<Rightarrow> string \<Rightarrow> string" where
  "toggle_target enabled f = (if enabled then without_disabled f
     else if suffix disabled_suffix f then f else f @ disabled_suffix)"

definition toggle_mod :: "('w, 'r) mods \<Rightarrow> string \<Rightarrow> string \<Rightarrow> bool \<Rightarrow> bool \<Rightarrow> ('w, string) io" where
  "toggle_mod A profile f enabled sync =
     andThen (ofSum (mods_relative profile)) (\<lambda>relative.
     andThen (ofSum (safe_filename f)) (\<lambda>cur.
     thenDo (assert_regular_mod A (mod_path A relative cur))
     (let target = toggle_target enabled cur in
      if mod_path A relative cur = mod_path A relative target then ret target
      else
        thenDo (refuse_target A (mod_path A relative target) (''Target mod file already exists: '' @ target))
        (thenDo (vol_move (ma_volume A) (path_join [relative, cur]) (path_join [relative, target]))
        (thenDo (do_when sync (reload_profiles (ma_host A) 96))
        (thenDo (h_log (ma_host A) ((if enabled then ''Enabled '' else ''Disabled '') @ cur))
        (thenDo (h_progress (ma_host A) 95 ''Mod state updated'') (ret target))))))))"

definition remove_from_servers :: "('w, 'r) mods \<Rightarrow> string \<Rightarrow> string \<Rightarrow> ('w, unit) io" where
  "remove_from_servers A profile f =
     andThen (reading (\<lambda>w. list_bindings (ma_installation A) profile (ma_bindings A w))) (\<lambda>bs.
       forEach bs (\<lambda>b.
         if sb_id b = [] then ret ()
         else andThen (remove_live_mod A (sb_id b) f) (\<lambda>r.
           do_when r (h_log (ma_host A) (''Removed '' @ f @ '' from '' @ sb_name b)))))"

definition remove_mod :: "('w, 'r) mods \<Rightarrow> string \<Rightarrow> string \<Rightarrow> bool \<Rightarrow> bool \<Rightarrow> ('w, string) io" where
  "remove_mod A profile f from_server sync =
     andThen (ofSum (mods_relative profile)) (\<lambda>relative.
     andThen (ofSum (safe_filename f)) (\<lambda>cur.
     thenDo (assert_regular_mod A (mod_path A relative cur))
     (thenDo (do_when from_server (remove_from_servers A profile (without_disabled cur)))
     (thenDo (vol_remove (ma_volume A) (path_join [relative, cur]) False)
     (thenDo (do_when sync (reload_profiles (ma_host A) 96))
     (thenDo (h_log (ma_host A) (''Deleted '' @ cur @ '' permanently''))
     (thenDo (h_progress (ma_host A) 95 ''Mod deleted from profile'') (ret cur))))))))"

datatype update_result = AlreadyCurrent string | UpdatedTo string mod_version

definition scratch_name :: "('w, 'r) mods \<Rightarrow> string \<Rightarrow> string \<Rightarrow> ('w, string) io" where
  "scratch_name A relative ending =
     reading (\<lambda>w. path_join [relative, ''.gravit-panel-'' @ ma_uuid A w @ ending])"

text \<open>The new file takes the place of the old one, which is put back when that fails.\<close>

definition swap_files ::
  "'w volume_ops \<Rightarrow> string \<Rightarrow> string \<Rightarrow> string \<Rightarrow> string \<Rightarrow> ('w, unit) io" where
  "swap_files V cur target pending backup =
     thenDo (vol_move V cur backup)
     (thenDo (tryCatch (vol_move V pending target)
        (\<lambda>e. thenDo (vol_move V backup cur) (thenDo (vol_remove V pending False) (raise e))))
       (vol_remove V backup False))"

definition replace_mod ::
  "('w, 'r) mods \<Rightarrow> string \<Rightarrow> string \<Rightarrow> string \<Rightarrow> string \<Rightarrow> ('w, unit) io" where
  "replace_mod A relative cur target bytes =
     andThen (scratch_name A relative ''.pending'') (\<lambda>pending.
     thenDo (vol_write (ma_volume A) pending bytes M0644)
     (andThen (scratch_name A relative ''.backup'') (\<lambda>backup.
       swap_files (ma_volume A) (path_join [relative, cur]) (path_join [relative, target]) pending backup)))"

definition update_mod ::
  "('w, 'r) mods \<Rightarrow> string \<Rightarrow> string \<Rightarrow> string \<Rightarrow> string \<Rightarrow> bool \<Rightarrow> ('w, update_result) io" where
  "update_mod A profile f version l sync =
     andThen (ofSum (mods_relative profile)) (\<lambda>relative.
     andThen (ofSum (safe_filename f)) (\<lambda>cur.
     thenDo (assert_regular_mod A (mod_path A relative cur))
     (andThen (ma_sha1_file A (mod_path A relative cur)) (\<lambda>hash.
      thenDo (h_progress (ma_host A) 15 ''Resolving latest compatible Modrinth version'')
      (andThen (latest_from_hash (ma_modrinth A) hash version l) (\<lambda>latest.
       case latest of
         None \<Rightarrow> throw_error ''The selected file is not recognized by Modrinth''
       | Some v \<Rightarrow>
       (case primary_file v of
         None \<Rightarrow> throw_error ''Modrinth version does not contain a downloadable file''
       | Some g \<Rightarrow>
         if mf_sha1 g = hash then
           thenDo (h_progress (ma_host A) 95 ''Mod is already current'') (ret (AlreadyCurrent cur))
         else
           andThen (ofSum (safe_filename (mf_filename g))) (\<lambda>downloaded.
           let target = (if suffix disabled_suffix cur then downloaded @ disabled_suffix else downloaded) in
           thenDo (do_when (mod_path A relative target \<noteq> mod_path A relative cur)
             (refuse_target A (mod_path A relative target) (''Update target already exists: '' @ target)))
           (thenDo (h_progress (ma_host A) 45 (''Downloading '' @ mv_number v))
           (andThen (download_mod (ma_modrinth A) g mod_limit) (\<lambda>bytes.
            thenDo (replace_mod A relative cur target bytes)
            (thenDo (do_when sync (reload_profiles (ma_host A) 96))
            (thenDo (h_log (ma_host A) (''Updated '' @ cur @ '' to '' @ target @ ''; previous file deleted''))
            (thenDo (h_progress (ma_host A) 95 ''Mod update verified and installed'')
              (ret (UpdatedTo target v))))))))))))))))"

section \<open>Many files\<close>

datatype bulk_action = EnableMods | DisableMods | UpdateMods | RemoveMods

record bulk_input =
  bi_profile :: string
  bi_filenames :: "string list"
  bi_action :: bulk_action
  bi_version :: "string option"
  bi_loader :: "string option"
  bi_from_server :: bool

datatype bulk_result = Toggled string | Updated update_result | Removed string

definition action_text :: "bulk_action \<Rightarrow> string" where
  "action_text a = (case a of EnableMods \<Rightarrow> ''enable'' | DisableMods \<Rightarrow> ''disable''
     | UpdateMods \<Rightarrow> ''update'' | RemoveMods \<Rightarrow> ''remove'')"

text \<open>\<open>Math.round(5 + (index / n) * 90)\<close>, over the exact quotient.\<close>

definition bulk_percent :: "nat \<Rightarrow> nat \<Rightarrow> nat" where
  "bulk_percent i n = (2 * (5 * n + 90 * i) + n) div (2 * n)"

text \<open>The steps of one file report to the log.\<close>

definition scoped :: "('w, 'r) mods \<Rightarrow> string \<Rightarrow> ('w, 'r) mods" where
  "scoped A f = A\<lparr>ma_builder := (ma_builder A)\<lparr>b_host :=
     (ma_host A)\<lparr>h_progress := (\<lambda>_ m. h_log (ma_host A) (f @ '': '' @ m))\<rparr>\<rparr>\<rparr>"

definition text_or_empty :: "string option \<Rightarrow> string" where
  "text_or_empty v = (case v of Some s \<Rightarrow> s | None \<Rightarrow> [])"

definition bulk_one :: "('w, 'r) mods \<Rightarrow> bulk_input \<Rightarrow> string \<Rightarrow> ('w, bulk_result) io" where
  "bulk_one A i f = (case bi_action i of
       EnableMods \<Rightarrow> andThen (toggle_mod A (bi_profile i) f True False) (\<lambda>r. ret (Toggled r))
     | DisableMods \<Rightarrow> andThen (toggle_mod A (bi_profile i) f False False) (\<lambda>r. ret (Toggled r))
     | UpdateMods \<Rightarrow> andThen (update_mod A (bi_profile i) f (text_or_empty (bi_version i)) (text_or_empty (bi_loader i)) False)
         (\<lambda>r. ret (Updated r))
     | RemoveMods \<Rightarrow> andThen (remove_mod A (bi_profile i) f (bi_from_server i) False) (\<lambda>r. ret (Removed r)))"

fun bulk_files :: "('w, 'r) mods \<Rightarrow> bulk_input \<Rightarrow> nat \<Rightarrow> nat \<Rightarrow> string list \<Rightarrow> ('w, bulk_result list) io" where
  "bulk_files A i index n [] = ret []"
| "bulk_files A i index n (f # fs) =
     andThen (reading (ma_aborted A)) (\<lambda>aborted.
     thenDo (throwIf aborted (Error ''Bulk mod operation cancelled''))
     (thenDo (h_progress (ma_host A) (bulk_percent index n) (action_text (bi_action i) @ '' '' @ f))
     (andThen (bulk_one (scoped A f) i f) (\<lambda>r.
      andThen (bulk_files A i (Suc index) n fs) (\<lambda>rs. ret (r # rs))))))"

fun safe_filenames :: "string list \<Rightarrow> js_error + string list" where
  "safe_filenames [] = Inr []"
| "safe_filenames (f # fs) = (case safe_filename f of
     Inl e \<Rightarrow> Inl e
   | Inr g \<Rightarrow> (case safe_filenames fs of Inl e \<Rightarrow> Inl e | Inr gs \<Rightarrow> Inr (g # gs)))"

definition bulk_mods :: "('w, 'r) mods \<Rightarrow> bulk_input \<Rightarrow> ('w, bulk_result list) io" where
  "bulk_mods A i =
     thenDo (validate_profile (bi_profile i))
     (andThen (ofSum (safe_filenames (bi_filenames i))) (\<lambda>safe.
      let fs = distinct_of safe in
      thenDo (throwIf (fs = [] \<or> length fs \<noteq> length (bi_filenames i)) (Error ''Bulk mod selection must contain unique files''))
      (thenDo (throwIf (bi_action i = UpdateMods \<and> (text_or_empty (bi_version i) = [] \<or> text_or_empty (bi_loader i) = []))
        (Error ''Minecraft version and loader are required for bulk updates''))
      (andThen (bulk_files A i 0 (length fs) fs) (\<lambda>results.
       thenDo (reload_profiles (ma_host A) 96)
       (thenDo (h_progress (ma_host A) 98
         (''Bulk '' @ action_text (bi_action i) @ '' completed for '' @ show_nat (length results) @ '' mods''))
         (ret results)))))))"

section \<open>Installing\<close>

datatype client_mode = ClientRequired | ClientOptional | ClientNone

record mod_selection =
  se_slug :: string
  se_mode :: client_mode
  se_enabled :: "bool option"
  se_name :: "string option"
  se_description :: "string option"
  se_bindings :: "string list"

record install_input =
  ii_profile :: string
  ii_version :: string
  ii_loader :: string
  ii_slugs :: "string list"
  ii_selections :: "mod_selection list"

definition check_selections :: "install_input \<Rightarrow> js_error + unit" where
  "check_selections i =
     (let selected = map se_slug (ii_selections i);
          missing = filter (\<lambda>s. se_mode s = ClientNone \<and> se_bindings s = []) (ii_selections i) in
      if \<not> distinct (ii_slugs i) \<or> \<not> distinct selected \<or> length (ii_slugs i) \<noteq> length selected \<or>
         \<not> list_all (\<lambda>s. s \<in> set selected) (ii_slugs i)
      then Inl (Error ''Selected mods and destination assignments do not match'')
      else if missing \<noteq> []
      then Inl (Error (''Select an install destination for: '' @ join_with '', '' (map se_slug missing)))
      else Inr ())"

text \<open>\<open>Map.set\<close>: a key keeps its place.\<close>

definition map_put :: "'k \<Rightarrow> 'v \<Rightarrow> ('k \<times> 'v) list \<Rightarrow> ('k \<times> 'v) list" where
  "map_put k v kvs =
     (if k \<in> fst ` set kvs then map (\<lambda>(a, b). (a, if a = k then v else b)) kvs else kvs @ [(k, v)])"

record client_changes =
  cc_required :: bool
  cc_dependencies :: "string list"
  cc_optionals :: "(string \<times> optional_input) list"

definition no_changes :: client_changes where
  "no_changes = \<lparr>cc_required = False, cc_dependencies = [], cc_optionals = []\<rparr>"

definition trimmed_or :: "string option \<Rightarrow> string \<Rightarrow> string" where
  "trimmed_or v d = (case v of Some s \<Rightarrow> if js_trim s \<noteq> [] then js_trim s else d | None \<Rightarrow> d)"

definition optional_of :: "mod_selection \<Rightarrow> resolved_mod \<Rightarrow> string \<Rightarrow> optional_input" where
  "optional_of s m source = \<lparr>oi_project = rm_project m, oi_title = trimmed_or (se_name s) (rm_title m),
     oi_filename = mf_filename (rm_file m), oi_source = source, oi_destination = None,
     oi_enabled = Some (case se_enabled s of Some b \<Rightarrow> b | None \<Rightarrow> False),
     oi_description = Some (trimmed_or (se_description s) []), oi_category = None\<rparr>"

definition optional_source :: "string \<Rightarrow> string \<Rightarrow> string" where
  "optional_source project f = path_join [''.gravit-panel-optional'', ''mods'', project, f]"

definition install_client_mod ::
  "('w, 'r) mods \<Rightarrow> string \<Rightarrow> mod_selection \<Rightarrow> client_changes \<Rightarrow> resolved_mod \<Rightarrow> ('w, client_changes) io" where
  "install_client_mod A profile s acc m =
     andThen (download_mod (ma_modrinth A) (rm_file m) mod_limit) (\<lambda>bytes.
     if se_mode s = ClientRequired \<or> \<not> rm_root m then
       andThen (ofSum (mods_relative profile)) (\<lambda>relative.
       thenDo (vol_write (ma_volume A) (path_join [relative, mf_filename (rm_file m)]) bytes M0644)
         (ret (acc\<lparr>cc_required := True,
            cc_dependencies := (if se_mode s = ClientOptional \<and> \<not> rm_root m
              then set_add (rm_project m) (cc_dependencies acc) else cc_dependencies acc)\<rparr>)))
     else
       (let source = optional_source (rm_project m) (mf_filename (rm_file m)) in
        thenDo (vol_write (ma_volume A) (path_join [''updates'', profile, source]) bytes M0644)
          (ret (acc\<lparr>cc_optionals := map_put (rm_project m) (optional_of s m source) (cc_optionals acc)\<rparr>))))"

definition install_client_selection ::
  "('w, 'r) mods \<Rightarrow> install_input \<Rightarrow> client_changes \<Rightarrow> mod_selection \<Rightarrow> ('w, client_changes) io" where
  "install_client_selection A i acc s =
     andThen (resolve_install (ma_modrinth A) (se_slug s) (ii_version i) (ii_loader i) ClientSide) (\<lambda>ms.
       exec_fold (install_client_mod A (ii_profile i) s) acc ms)"

text \<open>The slugs each server gets, in the order the servers are first named.\<close>

definition own_binding :: "('w, 'r) mods \<Rightarrow> string \<Rightarrow> string \<Rightarrow> ('w, binding) io" where
  "own_binding A profile i =
     andThen (reading (\<lambda>w. get_binding i (ma_bindings A w))) (\<lambda>r. case r of
       None \<Rightarrow> throw_error ''Selected server does not belong to the target profile''
     | Some b \<Rightarrow>
         if sb_installation b \<noteq> ma_installation A \<or> sb_profile b \<noteq> profile
         then throw_error ''Selected server does not belong to the target profile'' else ret b)"

definition assign_server ::
  "('w, 'r) mods \<Rightarrow> string \<Rightarrow> mod_selection \<Rightarrow> (string \<times> string list) list \<Rightarrow> string \<Rightarrow> ('w, (string \<times> string list) list) io" where
  "assign_server A profile s acc i =
     thenDo (own_binding A profile i)
       (ret (map_put i (set_add (se_slug s) (case map_of acc i of Some ss \<Rightarrow> ss | None \<Rightarrow> [])) acc))"

definition assign_servers ::
  "('w, 'r) mods \<Rightarrow> string \<Rightarrow> (string \<times> string list) list \<Rightarrow> mod_selection \<Rightarrow> ('w, (string \<times> string list) list) io" where
  "assign_servers A profile acc s = exec_fold (assign_server A profile s) acc (distinct_of (se_bindings s))"

datatype install_result = SelectionsInstalled | ModsInstalled "installed_mod list"

fun install_servers :: "('w, 'r) mods \<Rightarrow> install_input \<Rightarrow> (string \<times> string list) list \<Rightarrow> ('w, unit) io" where
  "install_servers A i [] = ret ()"
| "install_servers A i ((b, slugs) # bs) =
     thenDo (install_live_mods A b slugs (ii_version i) (ii_loader i)) (install_servers A i bs)"

definition install_selections :: "('w, 'r) mods \<Rightarrow> install_input \<Rightarrow> ('w, install_result) io" where
  "install_selections A i =
     thenDo (ofSum (check_selections i))
     (andThen (exec_fold (install_client_selection A i) no_changes
        (filter (\<lambda>s. se_mode s \<noteq> ClientNone) (ii_selections i))) (\<lambda>c.
      thenDo (if cc_optionals c \<noteq> []
        then andThen (upsert_optional_mods (ma_host A) (ii_profile i) (map snd (cc_optionals c)) (cc_dependencies c)) (\<lambda>_. ret ())
        else ret ())
      (andThen (exec_fold (assign_servers A (ii_profile i)) [] (ii_selections i)) (\<lambda>servers.
       thenDo (install_servers A i servers)
       (thenDo (do_when (cc_required c \<or> cc_optionals c \<noteq> []) (reload_profiles (ma_host A) 96))
       (thenDo (h_progress (ma_host A) 95 ''Selected client and server mod destinations updated'')
         (ret SelectionsInstalled)))))))"

definition install_command_text :: "install_input \<Rightarrow> string" where
  "install_command_text i = ''installMods '' @ ii_profile i @ '' '' @ ii_version i @ '' '' @ js_lower (ii_loader i) @
     '' '' @ join_with '','' (ii_slugs i)"

definition install_by_mirror :: "('w, 'r) mods \<Rightarrow> install_input \<Rightarrow> ('w, install_result) io" where
  "install_by_mirror A i =
     thenDo (h_progress (ma_host A) 10 ''Verifying selected mods against Modrinth'')
     (andThen (assert_installable (ma_modrinth A) (ii_slugs i) (ii_version i) (ii_loader i)) (\<lambda>expected.
      thenDo (h_progress (ma_host A) 35
        (''Installing '' @ show_nat (length (ii_slugs i)) @ '' selected mods through MirrorHelper''))
      (andThen (b_client_command (ma_builder A) (install_command_text i)) (\<lambda>lines.
       thenDo (log_lines (ma_host A) lines)
       (thenDo (h_progress (ma_host A) 90 ''Detecting installed mod files by hash'')
       (andThen (list_mods A (ii_profile i)) (\<lambda>items.
        let missing = filter (\<lambda>e. Some (snd e) \<notin> set (map im_project items)) expected in
        thenDo (throwIf (missing \<noteq> []) (Error (''MirrorHelper did not install the requested mods: '' @
          join_with '', '' (map fst missing))))
        (thenDo (reload_profiles (ma_host A) 96) (ret (ModsInstalled items)))))))))) "

definition install_mods :: "('w, 'r) mods \<Rightarrow> install_input \<Rightarrow> ('w, install_result) io" where
  "install_mods A i =
     thenDo (validate_profile (ii_profile i))
       (if ii_selections i \<noteq> [] then install_selections A i else install_by_mirror A i)"

section \<open>Optional mods\<close>

definition list_optional :: "('w, 'r) mods \<Rightarrow> string \<Rightarrow> ('w, optional_mod list) io" where
  "list_optional A profile = list_optional_mods (ma_host A) profile"

definition update_optional :: "('w, 'r) mods \<Rightarrow> string \<Rightarrow> optional_edit \<Rightarrow> ('w, optional_mod list) io" where
  "update_optional A profile e =
     andThen (update_optional_mod (ma_host A) profile e) (\<lambda>r.
     thenDo (reload_profiles (ma_host A) 96) (ret r))"

definition remove_optional :: "('w, 'r) mods \<Rightarrow> string \<Rightarrow> string \<Rightarrow> ('w, unit) io" where
  "remove_optional A profile project =
     thenDo (remove_optional_mod (ma_host A) profile project) (reload_profiles (ma_host A) 96)"

section \<open>Modpacks\<close>

record file_selection =
  fs_path :: string
  fs_mode :: client_mode
  fs_on_server :: bool
  fs_name :: string
  fs_description :: string
  fs_enabled :: bool

record import_input =
  mi_profile :: string
  mi_project :: string
  mi_version :: string
  mi_loader :: loader
  mi_loader_version :: string
  mi_bindings :: "string list"
  mi_files :: "file_selection list"

record pack_changes =
  pc_client :: bool
  pc_server :: bool
  pc_optionals :: "(string \<times> optional_input) list"

definition write_update :: "('w, 'r) mods \<Rightarrow> string \<Rightarrow> string \<Rightarrow> string \<Rightarrow> ('w, unit) io" where
  "write_update A profile path bytes = vol_write (ma_volume A) (path_join [''updates'', profile, path]) bytes M0644"

definition write_to_servers :: "('w, 'r) mods \<Rightarrow> binding list \<Rightarrow> string \<Rightarrow> string \<Rightarrow> ('w, unit) io" where
  "write_to_servers A bs path bytes = forEach bs (\<lambda>b. write_live_file A (sb_id b) path bytes)"

definition pack_project :: "('w, 'r) mods \<Rightarrow> resolved_pack \<Rightarrow> string \<Rightarrow> string" where
  "pack_project A p path = ''mrpack-'' @ me_project (is_meta (rp_inspection p)) @ ''-'' @ take 12 (ma_sha1 A path)"

definition first_text :: "string list \<Rightarrow> string" where
  "first_text ss = (case List.find (\<lambda>s. s \<noteq> []) ss of Some s \<Rightarrow> s | None \<Rightarrow> [])"

definition pack_optional :: "('w, 'r) mods \<Rightarrow> resolved_pack \<Rightarrow> pack_file \<Rightarrow> file_selection \<Rightarrow> optional_input" where
  "pack_optional A p f s =
     (let known = List.find (\<lambda>i. if_path i = pf_path f) (is_files (rp_inspection p));
          project = pack_project A p (pf_path f); name = path_basename (pf_path f) in
      \<lparr>oi_project = project,
       oi_title = first_text [js_trim (fs_name s), case known of Some i \<Rightarrow> if_name i | None \<Rightarrow> [], name],
       oi_filename = name, oi_source = optional_source project name, oi_destination = Some (pf_path f),
       oi_enabled = Some (fs_enabled s),
       oi_description = Some (first_text [js_trim (fs_description s), case known of Some i \<Rightarrow> if_description i | None \<Rightarrow> []]),
       oi_category = None\<rparr>)"

definition install_pack_file ::
  "('w, 'r) mods \<Rightarrow> string \<Rightarrow> resolved_pack \<Rightarrow> (string \<times> file_selection) list \<Rightarrow> binding list \<Rightarrow>
   pack_changes \<Rightarrow> pack_file \<Rightarrow> ('w, pack_changes) io" where
  "install_pack_file A profile p selections bs acc f =
     (let s = the (map_of selections (pf_path f)) in
      thenDo (throwIf (fs_mode s \<noteq> ClientNone \<and> env_side (pf_client f) = ''unsupported'')
        (Error (''Client-unsupported file selected for client: '' @ pf_path f)))
      (thenDo (throwIf (fs_on_server s \<and> env_side (pf_server f) = ''unsupported'')
        (Error (''Server-unsupported file selected for server: '' @ pf_path f)))
      (if fs_mode s = ClientNone \<and> \<not> fs_on_server s then ret acc
       else andThen (download_pack_file (ma_modrinth A) f) (\<lambda>bytes.
         andThen (case fs_mode s of
             ClientRequired \<Rightarrow> thenDo (write_update A profile (pf_path f) bytes) (ret (acc\<lparr>pc_client := True\<rparr>))
           | ClientOptional \<Rightarrow>
               (let i = pack_optional A p f s in
                thenDo (write_update A profile (oi_source i) bytes)
                  (ret (acc\<lparr>pc_optionals := map_put (oi_project i) i (pc_optionals acc)\<rparr>)))
           | ClientNone \<Rightarrow> ret acc) (\<lambda>c.
         if fs_on_server s then
           thenDo (write_to_servers A bs (pf_path f) bytes) (ret (c\<lparr>pc_server := pc_server c \<or> bs \<noteq> []\<rparr>))
         else ret c)))))"

definition apply_override ::
  "('w, 'r) mods \<Rightarrow> string \<Rightarrow> binding list \<Rightarrow> pack_changes \<Rightarrow> pack_override \<Rightarrow> ('w, pack_changes) io" where
  "apply_override A profile bs acc v =
     andThen (if ov_side v \<noteq> ServerOnly
        then thenDo (write_update A profile (ov_path v) (ov_bytes v)) (ret (acc\<lparr>pc_client := True\<rparr>))
        else ret acc) (\<lambda>c.
     if ov_side v \<noteq> ClientOnly then
       thenDo (write_to_servers A bs (ov_path v) (ov_bytes v)) (ret (c\<lparr>pc_server := pc_server c \<or> bs \<noteq> []\<rparr>))
     else ret c)"

definition check_pack_selection :: "resolved_pack \<Rightarrow> import_input \<Rightarrow> js_error + (string \<times> file_selection) list" where
  "check_pack_selection p i =
     (let selections = map (\<lambda>s. (fs_path s, s)) (mi_files i) in
      if \<not> distinct (map fst selections) \<or> length (rp_files p) \<noteq> length selections \<or>
         \<not> list_all (\<lambda>f. pf_path f \<in> fst ` set selections) (rp_files p)
      then Inl (Error ''Modpack file selections do not match the resolved version'')
      else Inr selections)"

text \<open>The profile is rebuilt when its versions are not those of the pack and the loader has an installer.\<close>

definition fit_profile :: "('w, 'r) mods \<Rightarrow> import_input \<Rightarrow> resolved_pack \<Rightarrow> descriptor \<Rightarrow> ('w, unit) io" where
  "fit_profile A i p cur =
     (let n = rp_inspection p in
      if d_version cur = Some (is_minecraft n) \<and> d_loader cur = Some (is_loader n) \<and>
         d_loader_version cur = Some (is_loader_version n) then ret ()
      else
        thenDo (throwIf (mi_loader i \<noteq> FORGE \<and> mi_loader i \<noteq> NEOFORGE)
          (Error (''Profile loader '' @ (case d_loader_version cur of Some v \<Rightarrow> v | None \<Rightarrow> ''unknown'') @
            '' does not match modpack loader '' @ mi_loader_version i)))
        (thenDo (h_progress (ma_host A) 10
           (''Rebuilding '' @ mi_profile i @ '' with '' @ map js_upper_char (loader_word (mi_loader i)) @ '' '' @ mi_loader_version i))
        (andThen (build_client (ma_builder A)
           \<lparr>bu_name = mi_profile i, bu_version = mi_version i, bu_loader = mi_loader i,
            bu_loader_version = Some (mi_loader_version i), bu_mods = []\<rparr>) (\<lambda>_. ret ()))))"

definition apply_resolved_modpack ::
  "('w, 'r) mods \<Rightarrow> import_input \<Rightarrow> resolved_pack \<Rightarrow> ('w, inspection \<times> nat \<times> bool) io" where
  "apply_resolved_modpack A i p =
     thenDo (validate_profile (mi_profile i))
     (thenDo (throwIf (mi_loader_version i \<noteq> is_loader_version (rp_inspection p))
       (Error ''Modpack loader version changed after inspection''))
     (andThen (list_profiles (ma_host A) (ma_collate A)) (\<lambda>profiles.
      (case List.find (\<lambda>d. d_name d = mi_profile i) profiles of
         None \<Rightarrow> throw_error (''Profile '' @ mi_profile i @ '' must be created before importing a modpack'')
       | Some cur \<Rightarrow>
       thenDo (fit_profile A i p cur)
       (andThen (ofSum (check_pack_selection p i)) (\<lambda>selections.
        andThen (traverse (own_binding A (mi_profile i)) (distinct_of (mi_bindings i))) (\<lambda>bs.
        thenDo (h_progress (ma_host A) 15 (''Installing '' @ show_nat (length (rp_files p)) @ '' modpack files''))
        (andThen (exec_fold (install_pack_file A (mi_profile i) p selections bs)
           \<lparr>pc_client = False, pc_server = False, pc_optionals = []\<rparr> (rp_files p)) (\<lambda>c.
         thenDo (h_progress (ma_host A) 65 ''Applying Modrinth modpack overrides'')
         (andThen (exec_fold (apply_override A (mi_profile i) bs) c (rp_overrides p)) (\<lambda>c.
          thenDo (if pc_optionals c \<noteq> []
            then andThen (upsert_optional_mods (ma_host A) (mi_profile i) (map snd (pc_optionals c)) []) (\<lambda>_. ret ())
            else ret ())
          (thenDo (do_when (pc_client c \<or> pc_optionals c \<noteq> []) (reload_profiles (ma_host A) 96))
          (thenDo (h_progress (ma_host A) 98 (''Imported '' @ me_name (is_meta (rp_inspection p))))
            (ret (rp_inspection p, length (pc_optionals c), pc_server c)))))))))))))))"

definition import_modpack :: "('w, 'r) mods \<Rightarrow> import_input \<Rightarrow> ('w, inspection \<times> nat \<times> bool) io" where
  "import_modpack A i =
     thenDo (h_progress (ma_host A) 5 ''Resolving and validating Modrinth modpack'')
     (andThen (resolve_modpack (ma_modrinth A) (mi_project i) (mi_version i) (mi_loader i) True) (\<lambda>p.
       apply_resolved_modpack A i p))"

definition import_local_modpack :: "('w, 'r) mods \<Rightarrow> import_input \<Rightarrow> string \<Rightarrow> ('w, inspection \<times> nat \<times> bool) io" where
  "import_local_modpack A i archive =
     thenDo (h_progress (ma_host A) 5 ''Reading and validating local Modrinth modpack'')
     (andThen (resolve_local_modpack (ma_modrinth A) archive (mi_version i) (mi_loader i) True) (\<lambda>p.
      thenDo (throwIf (me_project (is_meta (rp_inspection p)) \<noteq> mi_project i)
        (Error ''Local .mrpack changed after inspection''))
        (apply_resolved_modpack A i p)))"

end
