(* ===== verification/Mod_Resolve.thy ===== *)
theory Mod_Resolve
  imports Mod_Manager
begin

text \<open>
  What \<^verbatim>\<open>resolveInstall\<close> returns: it ends within its bound of 64 projects, the mod that was asked for comes last, and
  every mod before it is a dependency.
\<close>

section \<open>The visited references only grow\<close>

abbreviation seen_of :: "'w \<times> string list \<times> resolved_mod list \<Rightarrow> string list" where
  "seen_of s \<equiv> fst (snd s)"

abbreviation out_of :: "'w \<times> string list \<times> resolved_mod list \<Rightarrow> resolved_mod list" where
  "out_of s \<equiv> snd (snd s)"

text \<open>From a state with a given visited set and result, a step adds dependencies only, at most one for each reference
  that it marks.\<close>

definition adds :: "'w \<times> string list \<times> resolved_mod list \<Rightarrow> nat \<Rightarrow> 'w \<times> string list \<times> resolved_mod list \<Rightarrow> bool" where
  "adds s k t \<longleftrightarrow> (\<exists>xs. out_of t = out_of s @ xs \<and> list_all (\<lambda>m. \<not> rm_root m) xs \<and>
     length xs + length (seen_of s) + k \<le> length (seen_of t)) \<and> length (seen_of t) \<le> max 64 (length (seen_of s))"

lemma adds_refl: "adds s 0 s"
  by (simp add: adds_def)

lemma adds_trans: "adds s j t \<Longrightarrow> adds t k u \<Longrightarrow> adds s (j + k) u"
  unfolding adds_def by auto

lemma adds_weaken: "adds s j t \<Longrightarrow> k \<le> j \<Longrightarrow> adds s k t"
  unfolding adds_def by force

lemma wp_from_api: "wp (from_api p) (\<lambda>_ t. snd t = snd s) (\<lambda>_ t. snd t = snd s) s"
  by (cases s) (auto simp: wp_def from_api_def split: prod.splits sum.splits)

text \<open>A step that only asks the API.\<close>

lemma asks:
  assumes "wp p (\<lambda>x t. snd t = snd s) (\<lambda>e t. snd t = snd s) s"
    and "\<And>x t. snd t = snd s \<Longrightarrow> Q x t" and "\<And>e t. snd t = snd s \<Longrightarrow> E e t"
  shows "wp p Q E s"
  by (rule wp_mono[OF assms])

lemma find_project_asks: "wp (find_project M t i r) (\<lambda>_ u. snd u = snd s) (\<lambda>_ u. snd u = snd s) s"
  unfolding find_project_def Let_def wp_andThen
  by (rule asks[OF wp_from_api]) (simp_all add: wp_simps)

lemma find_version_asks:
  "wp (find_version M t v l p r) (\<lambda>x u. snd u = snd s \<and> (r \<longrightarrow> x \<noteq> None)) (\<lambda>_ u. snd u = snd s) s"
  unfolding find_version_def Let_def wp_andThen
  by (rule asks[OF wp_from_api]) (simp_all add: wp_simps split: list.split)

lemma dependency_ref_asks:
  fixes s :: "'w \<times> string list \<times> resolved_mod list"
  shows "wp (dependency_ref M d) (\<lambda>_ u. snd u = snd s) (\<lambda>_ u. snd u = snd s) s"
proof -
  have "wp (andThen (from_api p) (\<lambda>r. thenDo (throwIf (b r) (m :: js_error)) (ret (f r))))
      (\<lambda>_ u. snd u = snd s) (\<lambda>_ u. snd u = snd s) s"
    for p :: "('w, 'b) io" and b and m and f :: "'b \<Rightarrow> string option"
    unfolding wp_andThen by (rule asks[OF wp_from_api]) (simp_all add: wp_simps)
  then show ?thesis unfolding dependency_ref_def by (auto simp: wp_ret split: option.split list.split)
qed

lemma adds_asked: "adds s k t \<Longrightarrow> snd u = snd t \<Longrightarrow> adds s k u"
  by (simp add: adds_def)

lemma wp_forEach_adds:
  assumes "\<And>x t. wp (f x) (\<lambda>_. adds t 0) (\<lambda>_. adds t 0) t"
  shows "wp (forEach xs f) (\<lambda>_. adds s 0) (\<lambda>_. adds s 0) s"
proof (induction xs arbitrary: s)
  case Nil
  then show ?case by (simp add: wp_simps adds_refl)
next
  case (Cons x xs)
  have "wp (forEach xs f) (\<lambda>_. adds s 0) (\<lambda>_. adds s 0) t" if "adds s 0 t" for t
    by (rule wp_mono[OF Cons.IH[of t]]) (use adds_trans[OF that, of 0] in auto)
  then show ?case by (auto simp: wp_simps intro: wp_mono[OF assms[of x s]])
qed

section \<open>One visit\<close>

definition visit_body ::
  "'w modrinth \<Rightarrow> install_target \<Rightarrow> string \<Rightarrow> string \<Rightarrow> string \<Rightarrow> bool \<Rightarrow> (string \<Rightarrow> ('w, unit) resolving) \<Rightarrow> ('w, unit) resolving" where
  "visit_body M t version l ref is_root go =
     andThen (find_project M t ref is_root) (\<lambda>p.
     andThen (find_version M t version l p is_root) (\<lambda>r. case r of
       None \<Rightarrow> ret ()
     | Some v \<Rightarrow>
         thenDo (forEach (mv_dependencies v) (\<lambda>d.
           andThen (dependency_ref M d) (\<lambda>q. case q of None \<Rightarrow> ret () | Some i \<Rightarrow> go i)))
           (add_resolved p is_root v)))"

lemma visit_Suc:
  "visit (Suc n) M t version l ref is_root =
     andThen (was_visited ref) (\<lambda>seen. if seen then ret ()
       else andThen visited_count (\<lambda>k. thenDo (throwIf (64 \<le> k) too_many)
         (thenDo (mark_visited ref) (visit_body M t version l ref is_root (\<lambda>i. visit n M t version l i False)))))"
  by (simp only: visit_body_def visit.simps)

text \<open>What a visit of an asked reference leaves.\<close>

definition ended :: "bool \<Rightarrow> 'w \<times> string list \<times> resolved_mod list \<Rightarrow> 'w \<times> string list \<times> resolved_mod list \<Rightarrow> bool" where
  "ended is_root s t \<longleftrightarrow> (if is_root
     then \<exists>u r. adds s 1 u \<and> rm_root r \<and> seen_of t = seen_of u \<and> out_of t = out_of u @ [r]
     else adds s 0 t)"

lemma wp_dependency:
  fixes u :: "'w \<times> string list \<times> resolved_mod list"
  assumes "\<And>i s. wp (go i) (\<lambda>_. adds s 0) (\<lambda>_. adds s 0) s"
  shows "wp (andThen (dependency_ref M d) (\<lambda>q. case q of None \<Rightarrow> ret () | Some i \<Rightarrow> go i))
      (\<lambda>_. adds u 0) (\<lambda>_. adds u 0) u"
proof -
  have "wp (go i) (\<lambda>_. adds u 0) (\<lambda>_. adds u 0) x" if "snd x = snd u" for i x
  proof -
    have "adds x 0 = adds u 0" using that by (intro ext) (simp add: adds_def)
    with assms[of i x] show ?thesis by simp
  qed
  moreover have "wp (ret ()) (\<lambda>_. adds u 0) (\<lambda>_. adds u 0) x" if "snd x = snd u" for x
    using that by (simp add: wp_ret adds_def)
  ultimately show ?thesis unfolding wp_andThen
    by (intro wp_mono[OF dependency_ref_asks]) (auto simp: adds_def split: option.split)
qed

lemma wp_body:
  fixes s' :: "'w \<times> string list \<times> resolved_mod list"
  assumes "\<And>i s. wp (go i) (\<lambda>_. adds s 0) (\<lambda>_. adds s 0) s"
    and "adds s 1 s'"
  shows "wp (visit_body M t version l ref is_root go) (\<lambda>_. ended is_root s) (\<lambda>_. adds s 0) s'"
proof -
  have loop: "wp (forEach ds (\<lambda>d. andThen (dependency_ref M d) (\<lambda>q. case q of None \<Rightarrow> ret () | Some i \<Rightarrow> go i)))
      (\<lambda>_. adds s 1) (\<lambda>_. adds s 0) x" if "adds s 1 x" for x ds
  proof (rule wp_mono[OF wp_forEach_adds[OF wp_dependency[OF assms(1)]]])
    show "adds s 1 u" if "adds x 0 u" for u using adds_trans[OF \<open>adds s 1 x\<close> that] by simp
    then show "adds s 0 u" if "adds x 0 u" for u using adds_weaken[of s 1 u 0] that by simp
  qed
  have add: "wp (add_resolved p is_root v) (\<lambda>_. ended is_root s) (\<lambda>_. adds s 0) x" if a: "adds s 1 x" for p v x
  proof (cases "primary_file v")
    case None
    with adds_weaken[OF a] show ?thesis by (simp add: add_resolved_def wp_raise)
  next
    case (Some f)
    from a show ?thesis unfolding add_resolved_def push_resolved_def Some ended_def
      by (cases x) (auto simp: wp_writing adds_def split: option.split)
  qed
  show ?thesis unfolding visit_body_def wp_andThen
  proof (rule asks[OF find_project_asks])
    fix p and x :: "'w \<times> string list \<times> resolved_mod list"
    assume x: "snd x = snd s'"
    show "wp (find_version M t version l p is_root) (\<lambda>r. wp (case r of None \<Rightarrow> ret ()
        | Some v \<Rightarrow> thenDo (forEach (mv_dependencies v) (\<lambda>d.
            andThen (dependency_ref M d) (\<lambda>q. case q of None \<Rightarrow> ret () | Some i \<Rightarrow> go i)))
          (add_resolved p is_root v)) (\<lambda>_. ended is_root s) (\<lambda>_. adds s 0)) (\<lambda>_. adds s 0) x"
    proof (rule wp_mono[OF find_version_asks], goal_cases)
      case (1 r y)
      then have y: "adds s 1 y" using adds_asked[OF assms(2)] x by simp
      show ?case
      proof (cases r)
        case None
        with 1 adds_weaken[OF y, of 0] show ?thesis by (simp add: wp_ret ended_def)
      next
        case (Some v)
        with wp_mono[OF loop[OF y] add] show ?thesis by (simp add: wp_thenDo)
      qed
    next
      case (2 e y)
      with adds_asked[OF adds_weaken[OF assms(2)]] x show ?case by simp
    qed
  next
    fix e and x :: "'w \<times> string list \<times> resolved_mod list"
    assume "snd x = snd s'"
    with adds_asked[OF adds_weaken[OF assms(2)]] show "adds s 0 x" by simp
  qed
qed

lemma adds_mark: "length (seen_of s) < 64 \<Longrightarrow> adds s 1 (fst s, ref # seen_of s, out_of s)"
  by (simp add: adds_def)

lemma wp_visit:
  "wp (visit n M t version l ref is_root)
     (\<lambda>_ u. (ref \<in> set (seen_of s) \<and> u = s) \<or> (ref \<notin> set (seen_of s) \<and> ended is_root s u)) (\<lambda>_. adds s 0) s"
proof (induction n arbitrary: ref is_root s)
  case 0
  then show ?case by (simp add: was_visited_def wp_simps adds_refl split_beta)
next
  case (Suc n)
  have "wp (visit n M t version l i False) (\<lambda>_. adds u 0) (\<lambda>_. adds u 0) u" for i u
    by (rule wp_mono[OF Suc]) (auto simp: ended_def adds_refl)
  note body = wp_body[OF this adds_mark]
  show ?case unfolding visit_Suc
    by (simp add: was_visited_def visited_count_def mark_visited_def wp_simps adds_refl split_beta)
      (auto intro!: wp_mono[OF body])
qed

section \<open>The bound on the depth\<close>

lemma andThen_agree:
  "(\<And>x t. p s = (Inr x, t) \<Longrightarrow> k x t = k' x t) \<Longrightarrow> andThen p k s = andThen p k' s"
  by (simp add: andThen_def split: prod.split sum.split)

lemma thenDo_agree: "p s = p' s \<Longrightarrow> thenDo p q s = thenDo p' q s"
  by (simp add: thenDo_def andThen_def)

lemma forEach_agree:
  assumes "\<And>x u. K \<le> length (seen_of u) \<Longrightarrow> f x u = g x u"
    and "\<And>x u. wp (f x) (\<lambda>_. adds u 0) (\<lambda>_. adds u 0) u"
    and "K \<le> length (seen_of s)"
  shows "forEach xs f s = forEach xs g s"
  using assms(3)
proof (induction xs arbitrary: s)
  case Nil
  then show ?case by simp
next
  case (Cons x xs)
  have "forEach xs f u = forEach xs g u" if "f x s = (Inr y, u)" for y u
  proof (rule Cons.IH)
    have "adds s 0 u" by (rule wp_returns[OF assms(2) that])
    with Cons.prems show "K \<le> length (seen_of u)" by (auto simp: adds_def)
  qed
  moreover have "f x s = g x s" by (rule assms(1)[OF Cons.prems])
  ultimately show ?case by (auto simp: thenDo_def andThen_def split: prod.split sum.split)
qed

lemma body_agree:
  assumes go: "\<And>i u. K \<le> length (seen_of u) \<Longrightarrow> go i u = go' i u"
    and adds: "\<And>i u. wp (go i) (\<lambda>_. adds u 0) (\<lambda>_. adds u 0) u"
    and K: "K \<le> length (seen_of s)"
  shows "visit_body M t version l ref is_root go s = visit_body M t version l ref is_root go' s"
proof -
  let ?f = "\<lambda>g d. andThen (dependency_ref M d) (\<lambda>q. case q of None \<Rightarrow> ret () | Some i \<Rightarrow> g i)"
  have ref: "snd u' = snd u" if "dependency_ref M d u = (Inr q, u')" for d u q u'
    by (rule wp_returns[OF dependency_ref_asks that])
  have f: "?f go d u = ?f go' d u" if "K \<le> length (seen_of u)" for d u
    using that by (intro andThen_agree) (auto dest!: ref intro!: go split: option.split)
  have w: "wp (?f go d) (\<lambda>_. adds u 0) (\<lambda>_. adds u 0) u" for d u
    by (rule wp_dependency[OF adds])
  show ?thesis unfolding visit_body_def
  proof (intro andThen_agree, goal_cases)
    case (1 p u r x)
    have "snd u = snd s" by (rule wp_returns[OF find_project_asks 1(1)])
    moreover have "snd x = snd u" using wp_returns[OF find_version_asks 1(2)] by simp
    ultimately have "K \<le> length (seen_of x)" using K by simp
    then have "forEach ds (?f go) x = forEach ds (?f go') x" for ds
      by (intro forEach_agree[where K = K]) (rule f w, assumption?)+
    then show ?case by (cases r) (auto intro: thenDo_agree)
  qed
qed

lemma visit_full:
  "64 \<le> length (seen_of s) \<Longrightarrow>
   visit n M t version l ref is_root s = (if ref \<in> set (seen_of s) then Inr () else Inl too_many, s)"
  by (cases s; cases n)
    (auto simp: was_visited_def visited_count_def throwIf_def exec_simps andThen_def reading_def)

lemma visit_mark:
  "length (seen_of s) < 64 \<Longrightarrow>
   visit (Suc n) M t version l ref is_root s = (if ref \<in> set (seen_of s) then (Inr (), s)
     else visit_body M t version l ref is_root (\<lambda>i. visit n M t version l i False) (fst s, ref # seen_of s, out_of s))"
  by (cases s) (auto simp: visit_Suc was_visited_def visited_count_def mark_visited_def throwIf_def exec_simps
      andThen_def thenDo_def reading_def writing_def simp del: visit.simps)

lemma visit_enough:
  "64 \<le> n + length (seen_of s) \<Longrightarrow> 64 \<le> m + length (seen_of s) \<Longrightarrow>
   visit n M t version l ref is_root s = visit m M t version l ref is_root s"
proof (induction n arbitrary: m ref is_root s)
  case 0
  then show ?case by (simp only: visit_full)
next
  case (Suc n)
  show ?case
  proof (cases "64 \<le> length (seen_of s)")
    case True
    then show ?thesis by (simp only: visit_full)
  next
    case False
    with Suc.prems obtain k where k: "m = Suc k" by (cases m) auto
    have "visit_body M t version l ref is_root (\<lambda>i. visit n M t version l i False) (fst s, ref # seen_of s, out_of s) =
      visit_body M t version l ref is_root (\<lambda>i. visit k M t version l i False) (fst s, ref # seen_of s, out_of s)"
    proof (rule body_agree)
      fix i and u :: "'a \<times> string list \<times> resolved_mod list"
      show "wp (visit n M t version l i False) (\<lambda>_. adds u 0) (\<lambda>_. adds u 0) u"
        by (rule wp_mono[OF wp_visit]) (auto simp: ended_def adds_refl)
      assume "Suc (length (seen_of s)) \<le> length (seen_of u)"
      then show "visit n M t version l i False u = visit k M t version l i False u"
        using Suc.prems k by (intro Suc.IH) auto
    qed simp
    with False k show ?thesis by (simp add: visit_mark del: visit.simps)
  qed
qed

section \<open>Results\<close>

text \<open>C26: \<open>resolveInstall\<close> ends: the recursion over the dependency graph, whatever cycles the API
  reports, never needs more than 64 calls on top of each other, so that a deeper bound gives the same
  outcome in the same world. A result has at most 64 mods; the last is the one that was asked for, and the
  mods in front of it are its dependencies.\<close>

theorem dependencies_are_resolved_within_64:
  "visit (64 + n) M t version l slug True (w, [], []) = visit visit_depth M t version l slug True (w, [], []) \<and>
   (case resolve_install M slug version l t w of
      (Inl e, v) \<Rightarrow> True
    | (Inr ms, v) \<Rightarrow> length ms \<le> 64 \<and> ms \<noteq> [] \<and> rm_root (last ms) \<and> list_all (\<lambda>m. \<not> rm_root m) (butlast ms))"
proof (rule conjI)
  show "visit (64 + n) M t version l slug True (w, [], []) = visit visit_depth M t version l slug True (w, [], [])"
    by (intro visit_enough) (simp_all add: visit_depth_def)
next
  have w: "wp (visit visit_depth M t version l slug True) (\<lambda>_ u. length (out_of u) \<le> 64 \<and> out_of u \<noteq> [] \<and>
      rm_root (last (out_of u)) \<and> list_all (\<lambda>m. \<not> rm_root m) (butlast (out_of u))) (\<lambda>_ _. True) (w, [], [])"
    by (rule wp_mono[OF wp_visit]) (auto simp: ended_def adds_def)
  then show "case resolve_install M slug version l t w of
      (Inl e, v) \<Rightarrow> True
    | (Inr ms, v) \<Rightarrow> length ms \<le> 64 \<and> ms \<noteq> [] \<and> rm_root (last ms) \<and> list_all (\<lambda>m. \<not> rm_root m) (butlast ms)"
    by (auto simp: resolve_install_def wp_def split: prod.splits sum.splits)
qed

end
