(* ===== verification/Volume_Moves.thy ===== *)
theory Volume_Moves
  imports Volume_Contract
begin

text \<open>
  Renaming inside the volume: the contract the updates of mods rely on, as a locale over the absolute paths of
  the container, and the proof that \<^verbatim>\<open>container-volume.service.ts\<close> keeps it where \<open>mv\<close> renames as POSIX
  documents.
\<close>

section \<open>The contract\<close>

text \<open>A failed move changed nothing, or was complete before the failure was reported.\<close>

locale moving_volume =
  fixes V :: "'w volume_ops"
    and fs :: "'w \<Rightarrow> string \<Rightarrow> string option"
    and isdir :: "'w \<Rightarrow> string \<Rightarrow> bool"
  assumes written: "vol_absolute p = Inr a \<Longrightarrow> \<forall>v. \<not> isdir v a \<Longrightarrow> vol_write V p b m w = (r, t) \<Longrightarrow>
      (r = Inr () \<longrightarrow> fs t a = Some b) \<and>
      (\<forall>x. x \<noteq> a \<longrightarrow> \<not> prefix (a @ ''.pending-'') x \<longrightarrow> fs t x = fs w x)"
    and renamed: "vol_absolute p = Inr a \<Longrightarrow> vol_absolute q = Inr b \<Longrightarrow> a \<noteq> b \<Longrightarrow> \<forall>v. \<not> isdir v b \<Longrightarrow>
      fs w a = Some c \<Longrightarrow> vol_move V p q w = (r, t) \<Longrightarrow>
      fs t = (fs w)(a := None, b := Some c) \<or> (r \<noteq> Inr () \<and> fs t = fs w)"
    and erased: "vol_absolute p = Inr a \<Longrightarrow> vol_remove V p rec w = (r, t) \<Longrightarrow>
      x \<noteq> a \<Longrightarrow> \<not> prefix (a @ ''/'') x \<Longrightarrow> fs t x = fs w x"
begin

lemma wp_written:
  assumes "vol_absolute p = Inr a" and "\<forall>v. \<not> isdir v a"
    and "x \<noteq> a" and "\<not> prefix (a @ ''.pending-'') x"
    and "\<And>t. fs t a = Some b \<Longrightarrow> fs t x = fs w x \<Longrightarrow> Q () t"
    and "\<And>e t. fs t x = fs w x \<Longrightarrow> E e t"
  shows "wp (vol_write V p b m) Q E w"
  using assms(3-) written[OF assms(1,2)] unfolding wp_result by fastforce

lemma wp_renamed:
  assumes "vol_absolute p = Inr a" and "vol_absolute q = Inr b" and "a \<noteq> b" and "\<forall>v. \<not> isdir v b"
    and "fs w a = Some c"
    and "\<And>t. fs t = (fs w)(a := None, b := Some c) \<Longrightarrow> Q () t"
    and "\<And>e t. fs t = (fs w)(a := None, b := Some c) \<or> fs t = fs w \<Longrightarrow> E e t"
  shows "wp (vol_move V p q) Q E w"
  using assms(6-) renamed[OF assms(1-5)] unfolding wp_result by fastforce

lemma wp_erased:
  assumes "vol_absolute p = Inr a" and "x \<noteq> a" and "\<not> prefix (a @ ''/'') x"
    and "\<And>t. fs t x = fs w x \<Longrightarrow> Q () t" and "\<And>e t. fs t x = fs w x \<Longrightarrow> E e t"
  shows "wp (vol_remove V p rec) Q E w"
  using assms(4-) erased[OF assms(1) _ assms(2,3)] unfolding wp_result by fastforce

end

section \<open>The container keeps it\<close>

locale posix_renames = posix_container +
  assumes rename: "run [''mv'', ''--'', p, d] None w = (r, t) \<Longrightarrow> p \<noteq> d \<Longrightarrow> files w p = Some c \<Longrightarrow> \<not> isdir w d \<Longrightarrow>
      files t = (files w)(p := None, d := Some c) \<or> (\<not> succeeded r \<and> files t = files w)"
begin

lemma write_names:
  assumes a: "vol_absolute p = Inr a" and nd: "\<forall>v. \<not> isdir v a"
    and w: "cv_write_file_atomic run uuid p b m w = (r, t)"
  shows "(r = Inr () \<longrightarrow> files t a = Some b) \<and>
    (\<forall>x. x \<noteq> a \<longrightarrow> \<not> prefix (a @ ''.pending-'') x \<longrightarrow> files t x = files w x)"
proof -
  let ?pend = "pending_name a (uuid w)"
  obtain e v where e: "ensure_parent run p w = (e, v)" by fastforce
  have v: "files v = files w" using keepsD[OF ensure_parent_keeps e] .
  show ?thesis
  proof (cases e)
    case (Inl x)
    then have "r = Inl x \<and> t = v" using w a e by (simp add: cv_write_file_atomic_def exec_simps Let_def)
    with v show ?thesis by simp
  next
    case (Inr x)
    have lt: "length a < length ?pend" by (simp add: pending_name_def)
    have "(files t a = files v a \<or> files t a = Some b) \<and> (r = Inr () \<longrightarrow> files t a = Some b) \<and>
        (\<forall>q. q \<noteq> a \<longrightarrow> q \<noteq> ?pend \<longrightarrow> \<not> prefix (?pend @ ''/'') q \<longrightarrow> files t q = files v q)"
      by (rule publish_pending[OF nd[rule_format] lt])
        (use w a e Inr in \<open>simp add: cv_write_file_atomic_def exec_simps Let_def\<close>)
    with v show ?thesis by (auto simp: pending_name_def prefix_def)
  qed
qed

lemma move_names:
  assumes "vol_absolute p = Inr a" and "vol_absolute q = Inr b" and "a \<noteq> b" and "\<forall>v. \<not> isdir v b"
    and "files w a = Some c" and m: "cv_move run p q w = (r, t)"
  shows "files t = (files w)(a := None, b := Some c) \<or> (r \<noteq> Inr () \<and> files t = files w)"
proof -
  obtain e v where e: "ensure_parent run q w = (e, v)" by fastforce
  have v: "files v = files w" using keepsD[OF ensure_parent_keeps e] .
  show ?thesis
  proof (cases e)
    case (Inl x)
    then have "r = Inl x \<and> t = v" using m e by (simp add: cv_move_def exec_simps)
    with v show ?thesis by simp
  next
    case (Inr x)
    with m e assms(1,2) have "checked run [''mv'', ''--'', a, b] ''move volume path'' None v = (r, t)"
      by (simp add: cv_move_def exec_simps)
    then obtain o' where o': "run [''mv'', ''--'', a, b] None v = (o', t)" "r = Inr () \<longleftrightarrow> succeeded o'"
      by (rule checked_cases)
    from rename[OF o'(1)] assms(3-5) v o'(2) show ?thesis by simp
  qed
qed

lemma remove_names:
  assumes "vol_absolute p = Inr a" and "cv_remove run p rec w = (r, t)" and "x \<noteq> a" and "\<not> prefix (a @ ''/'') x"
  shows "files t x = files w x"
proof -
  have "checked run [''rm'', if rec then ''-rf'' else ''-f'', ''--'', a] ''remove volume path'' None w = (r, t)"
    using assms(1,2) by (simp add: cv_remove_def exec_simps)
  then obtain o' where "run [''rm'', if rec then ''-rf'' else ''-f'', ''--'', a] None w = (o', t)"
    by (rule checked_cases)
  from rm[OF this assms(3,4)] show ?thesis .
qed

lemma moves_contract: "moving_volume (container_ops run uuid le uid gid) files isdir"
  by unfold_locales (simp_all add: container_ops_def write_names move_names remove_names)

end

sublocale posix_renames \<subseteq> container_moves: moving_volume "container_ops run uuid le uid gid" files isdir
  by (rule moves_contract)

interpretation memory_moves: posix_renames mem_run "\<lambda>w. w" "\<lambda>_ _. False"
  by unfold_locales (auto simp: mem_run_simps split: option.splits if_splits)

end
