(* ===== verification/Mod_Properties.thy ===== *)
theory Mod_Properties
  imports Mod_Manager Volume_Moves Client_Build_Properties
begin

text \<open>
  What the mods of a profile rely on: an update never loses the mod it replaces, what is downloaded is what was
  announced, and the files of a modpack stay in the profile.
\<close>

section \<open>Names of mods\<close>

definition mods_abs :: "string \<Rightarrow> string \<Rightarrow> string" where
  "mods_abs profile f = ''/app/data/updates/'' @ profile @ ''/mods/'' @ f"

lemma mods_abs_inject [simp]: "mods_abs p f = mods_abs p g \<longleftrightarrow> f = g"
  by (simp add: mods_abs_def)

lemma mods_abs_prefix: "CHR ''/'' \<notin> set f \<Longrightarrow> \<not> prefix (mods_abs p g @ ''/'') (mods_abs p f)"
  by (auto simp: mods_abs_def prefix_def)

lemma mods_abs_ext: "prefix (mods_abs p g @ x) (mods_abs p f) \<longleftrightarrow> prefix (g @ x) f"
  by (simp add: mods_abs_def)

lemma profile_plain:
  assumes "full_match profile_rx p"
  shows "plain_segment p \<and> CHR 0x00 \<notin> set p"
proof -
  have "\<forall>c\<in>set p. c \<noteq> CHR ''/'' \<and> c \<noteq> CHR 0x00"
    using profile_name_chars[OF assms] is_name_char_plain by blast
  moreover have "p \<noteq> []" "p \<noteq> ''.''" "p \<noteq> ''..''"
    using assms by (auto simp: profile_rx_def full_match_name is_alnum_def is_lower_def is_upper_def is_digit_def in_range_def)
  ultimately show ?thesis by (auto simp: plain_segment_def)
qed

lemma relative_ok: "mods_relative p = Inr r \<Longrightarrow> full_match profile_rx p \<and> r = path_join [''updates'', p, ''mods'']"
  by (auto simp: mods_relative_def split: if_splits)

lemma mods_relative_plain:
  assumes "full_match profile_rx p"
  shows "path_join [''updates'', p, ''mods''] = ''updates/'' @ p @ ''/mods''"
  using path_join_plain[of "[''updates'', p, ''mods'']"] profile_plain[OF assms] by (simp add: plain_segment_def)

lemma mods_name:
  assumes "mods_relative p = Inr r" and "plain_segment f" and "CHR 0x00 \<notin> set f"
  shows "vol_absolute (path_join [r, f]) = Inr (mods_abs p f)"
proof -
  have p: "plain_segment p" "CHR 0x00 \<notin> set p" and r: "r = ''updates/'' @ p @ ''/mods''"
    using relative_ok[OF assms(1)] profile_plain mods_relative_plain by auto
  have "path_join [r, f] = path_normalize (r @ ''/'' @ f)"
    using assms(2) by (simp add: path_join_def r plain_segment_def)
  also have "\<dots> = path_normalize (below_form [''updates'', p, ''mods'', f] False)"
    by (simp add: below_form_def r)
  also have "\<dots> = join_with ''/'' [''updates'', p, ''mods'', f]"
    using p assms(2) by (subst normalize_below_form) (simp_all add: below_form_def plain_segment_def)
  finally show ?thesis
    using vol_absolute_plain[of "[''updates'', p, ''mods'', f]"] p assms(2,3) by (simp add: mods_abs_def plain_segment_def)
qed

lemma run_lit: "(k', t) \<in> set (rx_run (lit w) (k, u)) \<longleftrightarrow> k' = k \<and> u = w @ t"
  by (induction w arbitrary: u) (auto split: list.splits)

lemma run_lit_end: "x \<in> set (rx_run (lit w) y) \<longleftrightarrow> fst x = fst y \<and> snd y = w @ snd x"
  by (cases x; cases y) (simp add: run_lit)

lemma safe_filename_plain:
  assumes "safe_filename f = Inr g"
  shows "g = f \<and> plain_segment f \<and> CHR 0x00 \<notin> set f \<and> (suffix ''.jar'' f \<or> suffix ''.jar.disabled'' f)"
proof -
  have m: "full_match jar_filename_rx f" and g: "g = f" using assms by (auto simp: safe_filename_def split: if_splits)
  have c: "c \<noteq> CHR ''/'' \<and> c \<noteq> CHR 0x00" if "c \<in> set f" for c
    using full_match_alphabet[OF m that] by (auto simp: jar_filename_rx_def between_times_def opt_def)
  let ?x = "between_times 1 255 (Cls (\<lambda>c. c \<noteq> CHR ''/'' \<and> c \<noteq> CHR 0x5C \<and> c \<noteq> CHR 0x00))"
  obtain t where t: "t \<in> set (rx_run ?x (None, f))"
    and e: "[] \<in> snd ` set (rx_run (Cat (lit ''.jar'') (opt (lit ''.disabled''))) t)"
    using m unfolding jar_filename_rx_def full_match_Cat_iff by blast
  obtain u where u: "f = u @ snd t" using consumesD[OF run_consumes t] by auto
  from e obtain a where a: "a \<in> set (rx_run (lit ''.jar'') t)" "[] \<in> snd ` set (rx_run (opt (lit ''.disabled'')) a)"
    by (auto simp del: lit.simps simp: opt_def)
  from a(2) have "snd a = [] \<or> snd a = ''.disabled''"
    by (auto simp: opt_def run_lit_end simp del: lit.simps)
  with a(1) u have s: "suffix ''.jar'' f \<or> suffix ''.jar.disabled'' f"
    by (auto simp: run_lit_end suffix_def simp del: lit.simps)
  then have "f \<noteq> []" "f \<noteq> ''.''" "f \<noteq> ''..''" by (auto simp: suffix_def)
  with c s g show ?thesis by (auto simp: plain_segment_def)
qed

section \<open>An update of a mod\<close>

definition backup_name :: "string \<Rightarrow> string" where
  "backup_name u = ''.gravit-panel-'' @ u @ ''.backup''"

definition old_kept :: "('w \<Rightarrow> string \<Rightarrow> string option) \<Rightarrow> string \<Rightarrow> string \<Rightarrow> string \<Rightarrow> 'w \<Rightarrow> bool" where
  "old_kept fs profile f old t \<longleftrightarrow> fs t (mods_abs profile f) = Some old \<or>
     (\<exists>u. fs t (mods_abs profile (backup_name u)) = Some old)"

definition holds_announced ::
  "('w, 'r) mods \<Rightarrow> ('w \<Rightarrow> string \<Rightarrow> string option) \<Rightarrow> string \<Rightarrow> string \<Rightarrow> mod_file \<Rightarrow> 'w \<Rightarrow> bool" where
  "holds_announced A fs profile g file t \<longleftrightarrow> (\<exists>b. fs t (mods_abs profile g) = Some b \<and>
     mo_sha512 (ma_modrinth A) b = mf_sha512 file \<and> int (length b) \<le> mod_limit)"

text \<open>A file that some answer of the API names as the latest one.\<close>

definition offered :: "('w, 'r) mods \<Rightarrow> mod_file \<Rightarrow> bool" where
  "offered A file \<longleftrightarrow> (\<exists>url l v w r w'. mo_latest (ma_modrinth A) url l v w = (Inr r, w') \<and>
     reply_ok r \<and> primary_file (reply_body r) = Some file)"

lemma old_keptI:
  "fs t (mods_abs p f) = Some old \<Longrightarrow> old_kept fs p f old t"
  "fs t (mods_abs p (backup_name u)) = Some old \<Longrightarrow> old_kept fs p f old t"
  by (auto simp: old_kept_def)

definition replaced_by ::
  "('w, 'r) mods \<Rightarrow> ('w \<Rightarrow> string \<Rightarrow> string option) \<Rightarrow> string \<Rightarrow> string \<Rightarrow> mod_file \<Rightarrow> 'w \<Rightarrow> bool" where
  "replaced_by A fs profile g file t \<longleftrightarrow> offered A file \<and>
     (g = mf_filename file \<or> g = mf_filename file @ disabled_suffix) \<and> holds_announced A fs profile g file t"

definition update_outcome ::
  "('w, 'r) mods \<Rightarrow> ('w \<Rightarrow> string \<Rightarrow> string option) \<Rightarrow> string \<Rightarrow> string \<Rightarrow> string \<Rightarrow> update_result \<Rightarrow> 'w \<Rightarrow> bool" where
  "update_outcome A fs profile f old r t \<longleftrightarrow> (case r of
     AlreadyCurrent g \<Rightarrow> g = f \<and> fs t (mods_abs profile f) = Some old
   | UpdatedTo g v \<Rightarrow> (\<exists>file. primary_file v = Some file \<and> replaced_by A fs profile g file t))"

definition nothing_lost ::
  "('w, 'r) mods \<Rightarrow> ('w \<Rightarrow> string \<Rightarrow> string option) \<Rightarrow> string \<Rightarrow> string \<Rightarrow> string \<Rightarrow> 'w \<Rightarrow> bool" where
  "nothing_lost A fs profile f old t \<longleftrightarrow>
     old_kept fs profile f old t \<or> (\<exists>g file. replaced_by A fs profile g file t)"

locale mod_files = moving_volume "h_volume (b_host (ma_builder A))" fs isdir
  for A :: "('w, 'r) mods" and fs :: "'w \<Rightarrow> string \<Rightarrow> string option" and isdir +
  assumes stat_keeps: "keeps fs (ma_stat A path)"
    and sha1_keeps: "keeps fs (ma_sha1_file A path)"
    and latest_keeps: "keeps fs (mo_latest (ma_modrinth A) url l v)"
    and bytes_keeps: "keeps fs (mo_bytes (ma_modrinth A) url)"
    and pause_keeps: "keeps fs (mo_pause (ma_modrinth A) n)"
    and log_keeps: "keeps fs (h_log (b_host (ma_builder A)) m)"
    and progress_keeps: "keeps fs (h_progress (b_host (ma_builder A)) n m)"
    and sync_keeps: "keeps fs (h_sync_profiles (b_host (ma_builder A)))"
    and uuid_plain: "CHR ''/'' \<notin> set (ma_uuid A w) \<and> CHR 0x00 \<notin> set (ma_uuid A w)"
begin

text \<open>A step that leaves every file alone.\<close>

lemma quiet_step:
  assumes "keeps fs p" and "\<And>x t. fs t = fs s \<Longrightarrow> Q x t" and "\<And>e t. fs t = fs s \<Longrightarrow> E e t"
  shows "wp p Q E s"
  by (rule wp_mono[OF keeps_wp[OF assms(1)]]) (auto intro: assms)

lemma download_bytes:
  "wp (download_mod (ma_modrinth A) f n) (\<lambda>b t. fs t = fs s \<and> mo_sha512 (ma_modrinth A) b = mf_sha512 f \<and> int (length b) \<le> n)
     (\<lambda>_ t. fs t = fs s) s"
proof -
  have a: "wp (attempt_request p) Q E t = wp p (\<lambda>x. Q (Inr x)) (\<lambda>e. Q (Inl e)) t" for p :: "('w, string reply) io" and Q E t
    by (auto simp: attempt_request_def wp_def split: prod.split sum.split)
  have "wp (download_attempts (ma_modrinth A) f n ks)
      (\<lambda>b t. fs t = fs s \<and> mo_sha512 (ma_modrinth A) b = mf_sha512 f \<and> int (length b) \<le> n) (\<lambda>_ t. fs t = fs s) u"
    if "fs u = fs s" for ks u
    using that
  proof (induction ks arbitrary: u)
    case Nil
    then show ?case by (simp add: throw_error_def wp_simps)
  next
    case (Cons k ks)
    have again: "wp (thenDo (mo_pause (ma_modrinth A) (k * 500)) (download_attempts (ma_modrinth A) f n ks))
        (\<lambda>b t. fs t = fs s \<and> mo_sha512 (ma_modrinth A) b = mf_sha512 f \<and> int (length b) \<le> n) (\<lambda>_ t. fs t = fs s) v"
      if "fs v = fs s" for v
      unfolding wp_thenDo by (rule quiet_step[OF pause_keeps]) (use that Cons.IH in auto)
    show ?case
      unfolding download_attempts.simps wp_andThen a
      by (rule quiet_step[OF bytes_keeps])
        (use Cons.prems again in \<open>auto simp: throw_error_def checked_bytes_def wp_simps\<close>)
  qed
  then show ?thesis by (simp add: download_mod_def wp_simps del: download_attempts.simps)
qed

lemma swap_keeps_or_replaces:
  assumes c: "vol_absolute pc = Inr (mods_abs pr c)" and g: "vol_absolute pg = Inr (mods_abs pr g)"
    and p: "vol_absolute pp = Inr (mods_abs pr p)" and k: "vol_absolute pk = Inr (mods_abs pr (backup_name u))"
    and distinct: "p \<noteq> c" "p \<noteq> g" "p \<noteq> backup_name u" "backup_name u \<noteq> c" "backup_name u \<noteq> g"
    and flat: "\<forall>x\<in>{c, g, p, backup_name u}. CHR ''/'' \<notin> set x"
    and nodir: "\<forall>v x. \<not> isdir v (mods_abs pr x)"
    and old: "fs s (mods_abs pr c) = Some old" and new: "fs s (mods_abs pr p) = Some b"
  shows "wp (swap_files (ma_volume A) pc pg pp pk) (\<lambda>_ t. fs t (mods_abs pr g) = Some b)
    (\<lambda>_ t. old_kept fs pr c old t \<or> fs t (mods_abs pr g) = Some b) s"
proof -
  let ?k = "backup_name u"
  have nd: "\<forall>v. \<not> isdir v (mods_abs pr x)" for x using nodir by simp
  have restore: "wp (thenDo (vol_move (ma_volume A) pk pc) (thenDo (vol_remove (ma_volume A) pp False) (raise e)))
      (\<lambda>_ t. False) (\<lambda>_ t. old_kept fs pr c old t) v" if v: "fs v (mods_abs pr ?k) = Some old" for e v
    unfolding wp_thenDo wp_raise
  proof (rule wp_renamed[OF k c _ nd v])
    fix t assume t: "fs t = (fs v)(mods_abs pr ?k := None, mods_abs pr c := Some old)"
    show "wp (vol_remove (ma_volume A) pp False) (\<lambda>_. old_kept fs pr c old) (\<lambda>_. old_kept fs pr c old) t"
      by (rule wp_erased[OF p, where x = "mods_abs pr c"])
        (use distinct flat t in \<open>auto simp: mods_abs_prefix intro: old_keptI\<close>)
  qed (use v distinct in \<open>auto intro: old_keptI\<close>)
  have third: "wp (vol_remove (ma_volume A) pk False) (\<lambda>_ t. fs t (mods_abs pr g) = Some b)
      (\<lambda>_ t. old_kept fs pr c old t \<or> fs t (mods_abs pr g) = Some b) v" if "fs v (mods_abs pr g) = Some b" for v
    by (rule wp_erased[OF k, where x = "mods_abs pr g"]) (use that distinct flat in \<open>auto simp: mods_abs_prefix\<close>)
  let ?undo = "\<lambda>e. thenDo (vol_move (ma_volume A) pk pc) (thenDo (vol_remove (ma_volume A) pp False) (raise e))"
  let ?Q = "\<lambda>t. fs t (mods_abs pr g) = Some b" and ?E = "\<lambda>t. old_kept fs pr c old t \<or> fs t (mods_abs pr g) = Some b"
  have second: "wp (tryCatch (vol_move (ma_volume A) pp pg) ?undo)
      (\<lambda>_. wp (vol_remove (ma_volume A) pk False) (\<lambda>_. ?Q) (\<lambda>_. ?E)) (\<lambda>_. ?E) v"
    if v: "fs v = (fs s)(mods_abs pr c := None, mods_abs pr ?k := Some old)" for v
    unfolding wp_tryCatch
  proof (rule wp_renamed[OF p g _ nd])
    fix e t assume "fs t = (fs v)(mods_abs pr p := None, mods_abs pr g := Some b) \<or> fs t = fs v"
    then have "fs t (mods_abs pr ?k) = Some old" using v distinct by auto
    then show "wp (?undo e) (\<lambda>_. wp (vol_remove (ma_volume A) pk False) (\<lambda>_. ?Q) (\<lambda>_. ?E)) (\<lambda>_. ?E) t"
      by (rule wp_mono[OF restore]) simp_all
  qed (use third v new distinct in auto)
  show ?thesis unfolding swap_files_def wp_thenDo[of "vol_move (ma_volume A) pc pk"]
    wp_thenDo[of "tryCatch p' h'" for p' h']
    by (rule wp_renamed[OF c k _ nd old]) (use second old distinct in \<open>auto intro: old_keptI\<close>)
qed

lemma then_quiet:
  assumes "keeps fs p" and "\<And>x t. fs t = fs s \<Longrightarrow> wp (k x) Q E t" and "\<And>e t. fs t = fs s \<Longrightarrow> E e t"
  shows "wp (andThen p k) Q E s"
  unfolding wp_andThen by (rule quiet_step[OF assms])

lemma do_quiet:
  assumes "keeps fs p" and "\<And>t. fs t = fs s \<Longrightarrow> wp k Q E t" and "\<And>e t. fs t = fs s \<Longrightarrow> E e t"
  shows "wp (thenDo p k) Q E s"
  unfolding wp_thenDo by (rule quiet_step[OF assms(1)]) (auto intro: assms)

lemma regular_keeps: "keeps fs (assert_regular_mod A path)"
  unfolding assert_regular_mod_def throw_error_def
  by (rule keeps_andThen[OF stat_keeps]) (auto intro: keeps_intros split: option.split)

lemma refuse_keeps: "keeps fs (refuse_target A path m)"
  unfolding refuse_target_def by (intro keeps_intros stat_keeps)

lemma latest_is_offered:
  "wp (latest_from_hash (ma_modrinth A) h v l)
     (\<lambda>x t. fs t = fs s \<and> (\<forall>mv file. x = Some mv \<longrightarrow> primary_file mv = Some file \<longrightarrow> offered A file)) (\<lambda>_ t. fs t = fs s) s"
proof -
  have "wp (mo_latest (ma_modrinth A) u w x) (\<lambda>r t. fs t = fs s \<and> (reply_ok r \<longrightarrow>
      (\<forall>file. primary_file (reply_body r) = Some file \<longrightarrow> offered A file))) (\<lambda>_ t. fs t = fs s) s" for u w x
    using keepsD[OF latest_keeps] unfolding wp_result offered_def by metis
  from wp_mono[OF this] show ?thesis
    unfolding latest_from_hash_def wp_andThen by (auto simp: wp_simps)
qed

lemma keeps_name: "keeps fs q \<Longrightarrow> keeps (\<lambda>w. fs w x) q"
  by (simp add: keeps_def)

lemma reload_keeps: "keeps (\<lambda>w. fs w (mods_abs p g)) (reload_profiles (ma_host A) n)"
proof -
  have a: "vol_absolute ''.updates-cache'' = Inr ''/app/data/.updates-cache''" by code_simp
  have "keeps (\<lambda>w. fs w (mods_abs p g)) (vol_remove (ma_volume A) ''.updates-cache'' False)"
    unfolding keeps_def using erased[OF a surjective_pairing] by (simp add: mods_abs_def)
  then show ?thesis unfolding reload_profiles_def log_lines_def
    by (intro keeps_intros; (assumption | intro keeps_name log_keeps progress_keeps sync_keeps))
qed

text \<open>After the swap nothing touches the files of the profile.\<close>

lemma finish_keeps:
  "keeps (\<lambda>w. fs w (mods_abs p g)) (thenDo (do_when sync (reload_profiles (ma_host A) 96))
     (thenDo (h_log (ma_host A) m) (thenDo (h_progress (ma_host A) n m') (ret x))))"
  by (intro keeps_intros reload_keeps keeps_name log_keeps progress_keeps)

lemma replace_keeps_or_replaces:
  assumes r: "mods_relative pr = Inr relative" and c: "safe_filename c = Inr c'"
    and g: "plain_segment g" "CHR 0x00 \<notin> set g" "suffix ''.jar'' g \<or> suffix ''.disabled'' g"
    and nodir: "\<forall>v x. \<not> isdir v (mods_abs pr x)" and own: "\<not> prefix ''.gravit-panel-'' c"
    and old: "fs s (mods_abs pr c) = Some old"
  shows "wp (replace_mod A relative c g b) (\<lambda>_ t. fs t (mods_abs pr g) = Some b)
    (\<lambda>_ t. old_kept fs pr c old t \<or> fs t (mods_abs pr g) = Some b) s"
proof -
  let ?name = "\<lambda>u e. ''.gravit-panel-'' @ u @ e"
  have c': "plain_segment c" "CHR 0x00 \<notin> set c" "suffix ''.jar'' c \<or> suffix ''.jar.disabled'' c"
    using safe_filename_plain[OF c] by auto
  have tmp: "plain_segment (?name (ma_uuid A w) e)" "CHR 0x00 \<notin> set (?name (ma_uuid A w) e)"
    if "e \<in> {''.pending'', ''.backup''}" for w e
    using uuid_plain[of w] that by (auto simp: plain_segment_def)
  note name = mods_name[OF r]
  have ends: "?name u ''.pending'' \<noteq> x" "backup_name u \<noteq> x"
    if "suffix ''.jar'' x \<or> suffix ''.disabled'' x" for u x
    using that by (auto simp: suffix_def backup_name_def)
  have two: "?name u ''.pending'' \<noteq> backup_name u'" for u u' by (auto simp: backup_name_def)
  have jc: "suffix ''.jar'' c \<or> suffix ''.disabled'' c" using c'(3) by (auto simp: suffix_def)
  have pend: "vol_absolute (path_join [relative, ?name (ma_uuid A s) ''.pending'']) =
      Inr (mods_abs pr (?name (ma_uuid A s) ''.pending''))" by (intro name tmp) simp_all
  have bak: "vol_absolute (path_join [relative, backup_name (ma_uuid A t)]) = Inr (mods_abs pr (backup_name (ma_uuid A t)))" for t
    unfolding backup_name_def by (intro name tmp) simp_all
  have swap: "wp (swap_files (ma_volume A) (path_join [relative, c]) (path_join [relative, g])
        (path_join [relative, ?name (ma_uuid A s) ''.pending'']) (path_join [relative, backup_name (ma_uuid A t)]))
      (\<lambda>_ t. fs t (mods_abs pr g) = Some b) (\<lambda>_ t. old_kept fs pr c old t \<or> fs t (mods_abs pr g) = Some b) t"
    if "fs t (mods_abs pr (?name (ma_uuid A s) ''.pending'')) = Some b" "fs t (mods_abs pr c) = Some old" for t
  proof (rule swap_keeps_or_replaces[OF name[OF c'(1,2)] name[OF g(1,2)] pend bak])
    show "\<forall>x\<in>{c, g, ?name (ma_uuid A s) ''.pending'', backup_name (ma_uuid A t)}. CHR ''/'' \<notin> set x"
      using c'(1) g(1) uuid_plain[of s] uuid_plain[of t] by (auto simp: plain_segment_def backup_name_def)
  qed (use ends[OF jc] ends[OF g(3)] two nodir that in auto)
  have far: "mods_abs pr c \<noteq> mods_abs pr (?name (ma_uuid A s) ''.pending'')"
    "\<not> prefix (mods_abs pr (?name (ma_uuid A s) ''.pending'') @ ''.pending-'') (mods_abs pr c)"
    using ends(1)[OF jc] own by (auto simp: mods_abs_def prefix_def)
  show ?thesis
    unfolding replace_mod_def scratch_name_def wp_andThen wp_reading wp_thenDo
    by (rule wp_written[OF pend _ far])
      (use swap[unfolded backup_name_def] nodir old in \<open>auto simp: wp_reading intro: old_keptI\<close>)
qed

lemma update_keeps_or_replaces:
  assumes nodir: "\<forall>v x. \<not> isdir v (mods_abs pr x)" and own: "\<not> prefix ''.gravit-panel-'' f"
    and old: "fs s (mods_abs pr f) = Some old"
  shows "wp (update_mod A pr f version l sync) (update_outcome A fs pr f old) (\<lambda>_. nothing_lost A fs pr f old) s"
proof -
  let ?E = "nothing_lost A fs pr f old"
  have same: "?E t" if "fs t = fs s" for t
    using old that by (simp add: nothing_lost_def old_keptI)
  have swap: "wp (thenDo (replace_mod A relative f g b) (thenDo (do_when sync (reload_profiles (ma_host A) 96))
        (thenDo (h_log (ma_host A) m) (thenDo (h_progress (ma_host A) 95 m') (ret (UpdatedTo g v))))))
      (update_outcome A fs pr f old) (\<lambda>_. ?E) t"
    if r: "mods_relative pr = Inr relative" and c: "safe_filename f = Inr f" and d: "safe_filename (mf_filename it) = Inr d"
      and g: "g = d \<or> g = d @ disabled_suffix" and p: "primary_file v = Some it" and o': "offered A it"
      and b: "mo_sha512 (ma_modrinth A) b = mf_sha512 it" "int (length b) \<le> mod_limit" and t: "fs t = fs s"
    for relative g d b m m' v it t
  proof -
    have n: "d = mf_filename it" "plain_segment g" "CHR 0x00 \<notin> set g" "suffix ''.jar'' g \<or> suffix ''.disabled'' g"
      using safe_filename_plain[OF d] g by (auto simp: disabled_suffix_def plain_segment_def suffix_def)
    have new: "replaced_by A fs pr g it u" if "fs u (mods_abs pr g) = Some b" for u
      using that o' g b n(1) by (auto simp: replaced_by_def holds_announced_def)
    have rest: "wp (thenDo (do_when sync (reload_profiles (ma_host A) 96))
        (thenDo (h_log (ma_host A) m) (thenDo (h_progress (ma_host A) 95 m') (ret (UpdatedTo g v)))))
        (update_outcome A fs pr f old) (\<lambda>_. ?E) u" if u: "fs u (mods_abs pr g) = Some b" for u
    proof -
      have "wp (thenDo (do_when sync (reload_profiles (ma_host A) 96))
          (thenDo (h_log (ma_host A) m) (thenDo (h_progress (ma_host A) 95 m') (ret (UpdatedTo g v)))))
          (\<lambda>r _. r = UpdatedTo g v) (\<lambda>_ _. True) u"
        by (simp add: wp_thenDo wp_ret wp_any)
      from wp_conj[OF this keeps_wp[OF finish_keeps[where p = pr and g = g]]] show ?thesis
        by (rule wp_mono) (use u new p in \<open>auto simp: update_outcome_def nothing_lost_def\<close>)
    qed
    have "fs t (mods_abs pr f) = Some old" using old t by simp
    from replace_keeps_or_replaces[OF r c n(2-4) nodir own this]
    show ?thesis unfolding wp_thenDo[of "replace_mod A relative f g b"]
      by (rule wp_mono) (use rest new in \<open>auto simp: nothing_lost_def\<close>)
  qed
  have got: "wp (case latest of None \<Rightarrow> throw_error m0
       | Some v \<Rightarrow> (case primary_file v of None \<Rightarrow> throw_error m1
         | Some g \<Rightarrow> if mf_sha1 g = hash then thenDo (h_progress (ma_host A) 95 m2) (ret (AlreadyCurrent f))
           else andThen (ofSum (safe_filename (mf_filename g))) (\<lambda>downloaded.
             let target = (if suffix disabled_suffix f then downloaded @ disabled_suffix else downloaded) in
             thenDo (do_when (mod_path A relative target \<noteq> mod_path A relative f) (refuse_target A (mod_path A relative target) (m3 target)))
             (thenDo (h_progress (ma_host A) 45 (m4 v))
             (andThen (download_mod (ma_modrinth A) g mod_limit) (\<lambda>bytes.
              thenDo (replace_mod A relative f target bytes)
              (thenDo (do_when sync (reload_profiles (ma_host A) 96))
              (thenDo (h_log (ma_host A) (m5 target)) (thenDo (h_progress (ma_host A) 95 m6) (ret (UpdatedTo target v))))))))))
       ) (update_outcome A fs pr f old) (\<lambda>_. ?E) t"
    if r: "mods_relative pr = Inr relative" and c: "safe_filename f = Inr f" and t: "fs t = fs s"
      and o': "\<forall>mv it. latest = Some mv \<longrightarrow> primary_file mv = Some it \<longrightarrow> offered A it"
    for latest relative hash t m0 m1 m2 m3 m4 m5 m6
  proof (cases latest)
    case None
    with same[OF t] show ?thesis by (simp add: throw_error_def wp_raise)
  next
    case v: (Some v)
    show ?thesis
    proof (cases "primary_file v")
      case None
      with v same[OF t] show ?thesis by (simp add: throw_error_def wp_raise)
    next
      case g: (Some g)
      have tail: "wp (thenDo (do_when q (refuse_target A x y)) (thenDo (h_progress (ma_host A) 45 z)
          (andThen (download_mod (ma_modrinth A) g mod_limit) (\<lambda>bytes. thenDo (replace_mod A relative f target bytes)
            (thenDo (do_when sync (reload_profiles (ma_host A) 96))
            (thenDo (h_log (ma_host A) m) (thenDo (h_progress (ma_host A) 95 m') (ret (UpdatedTo target v)))))))))
          (update_outcome A fs pr f old) (\<lambda>_. ?E) t"
        if d: "safe_filename (mf_filename g) = Inr d" "target = d \<or> target = d @ disabled_suffix" for q x y z m m' d target
      proof (rule do_quiet[OF keeps_do_when[OF refuse_keeps]])
        fix u assume u: "fs u = fs t"
        show "wp (thenDo (h_progress (ma_host A) 45 z)
          (andThen (download_mod (ma_modrinth A) g mod_limit) (\<lambda>bytes. thenDo (replace_mod A relative f target bytes)
            (thenDo (do_when sync (reload_profiles (ma_host A) 96))
            (thenDo (h_log (ma_host A) m) (thenDo (h_progress (ma_host A) 95 m') (ret (UpdatedTo target v))))))))
          (update_outcome A fs pr f old) (\<lambda>_. ?E) u"
          by (rule do_quiet[OF progress_keeps], unfold wp_andThen, rule wp_mono[OF download_bytes])
            (use swap[OF r c d g] o' v g t u same in auto)
      qed (use same t in simp)
      show ?thesis
        using v g same[OF t] tail t old c
        by (auto simp: wp_andThen wp_ofSum Let_def intro!: do_quiet[OF progress_keeps]
            simp: wp_ret update_outcome_def same split: sum.split)
    qed
  qed
  show ?thesis
  proof (cases "mods_relative pr"; cases "safe_filename f")
    fix relative cur assume r: "mods_relative pr = Inr relative" and "safe_filename f = Inr cur"
    then have c: "safe_filename f = Inr f" using safe_filename_plain by blast
    show ?thesis
      unfolding update_mod_def r c wp_andThen[of "ofSum x" for x] wp_ofSum sum.case
      by (rule do_quiet[OF regular_keeps], rule then_quiet[OF sha1_keeps], rule do_quiet[OF progress_keeps],
          unfold wp_andThen[of "latest_from_hash a b c d" for a b c d], rule wp_mono[OF latest_is_offered])
        (use got[OF r c] same in auto)
  qed (use same in \<open>auto simp: update_mod_def wp_andThen wp_ofSum\<close>)
qed

end

text \<open>A profile in memory, and an API that knows one newer version of every mod.\<close>

definition sample_version :: mod_version where
  "sample_version = \<lparr>mv_id = ''v2'', mv_project = ''p'', mv_number = ''2.0'',
     mv_files = [\<lparr>mf_sha1 = ''2'', mf_sha512 = ''new'', mf_url = ''https://cdn.modrinth.com/b.jar'', mf_filename = ''b.jar'',
       mf_primary = True, mf_size = 3\<rparr>], mv_dependencies = []\<rparr>"

definition memory_modrinth :: "memory modrinth" where
  "memory_modrinth = \<lparr>mo_search = (\<lambda>_. ret (Reply 404 [])), mo_project = (\<lambda>_. raise (Error ''offline'')),
     mo_versions = (\<lambda>_. ret (Reply 404 [])), mo_version = (\<lambda>_. ret (Reply 200 sample_version)),
     mo_by_hash = (\<lambda>_ _. ret (Reply 404 [])), mo_latest = (\<lambda>_ _ _. ret (Reply 200 sample_version)),
     mo_projects = (\<lambda>_. ret (Reply 404 [])), mo_bytes = (\<lambda>_. ret (Reply 200 ''new'')), mo_pause = (\<lambda>_. ret ()),
     mo_sha512 = (\<lambda>b. b), mo_sha256 = (\<lambda>b. b), mo_query = (\<lambda>_. []), mo_host = (\<lambda>_. None), mo_parse = (\<lambda>_. None),
     mo_stringify = (\<lambda>_. []), mo_mkdtemp = ret ''/tmp/x'', mo_write = (\<lambda>_ _. ret ()), mo_rm = (\<lambda>_. ret ()),
     mo_unzip = (\<lambda>_. ret (1, [], []))\<rparr>"

text \<open>The host sees the volume below \<^verbatim>\<open>/srv/launcher\<close>.\<close>

definition memory_stat :: "string \<Rightarrow> (memory, (local_kind \<times> nat) option) io" where
  "memory_stat path = reading (\<lambda>w. case w (''/app/data'' @ drop (length ''/srv/launcher'') path) of
     Some b \<Rightarrow> Some (LocalFile, length b) | None \<Rightarrow> None)"

definition memory_mods :: "(memory, unit) mods" where
  "memory_mods = \<lparr>ma_builder = memory_builder (\<lambda>_. None) (\<lambda>_. []) (\<lambda>w. w), ma_modrinth = memory_modrinth,
     ma_installation = ''i'', ma_collate = (\<lambda>_ _. 0), ma_bindings = (\<lambda>_. []),
     ma_agent = (\<lambda>_ _ _. raise (Error ''offline'')), ma_stat = memory_stat, ma_readdir = (\<lambda>_. ret []),
     ma_sha1_file = (\<lambda>_. ret ''1''), ma_sha1 = (\<lambda>b. b), ma_base64 = (\<lambda>b. b), ma_uuid = (\<lambda>_. ''7''),
     ma_aborted = (\<lambda>_. False)\<rparr>"

interpretation memory_updates: mod_files memory_mods "\<lambda>w. w" "\<lambda>_ _. False"
proof -
  have "moving_volume (h_volume (b_host (ma_builder memory_mods))) (\<lambda>w. w) (\<lambda>_ _. False)"
    using memory_moves.moves_contract[of "\<lambda>_. ''1''" "\<lambda>a b. a \<le> b" 0 0]
    by (simp add: moving_volume_def memory_mods_def memory_builder_def)
  then show "mod_files memory_mods (\<lambda>w. w) (\<lambda>_ _. False)"
    unfolding mod_files_def mod_files_axioms_def
    by (auto simp: memory_mods_def memory_modrinth_def memory_builder_def memory_host_def memory_stat_def
        keeps_def reading_def exec_simps)
qed



section \<open>The files of a modpack\<close>

lemma safe_pack_plain: "safe_pack_path p \<Longrightarrow> plain_path (split_slash p)"
  using split_slash_no_slash[of p] by (auto simp: safe_pack_path_def list_ex_iff plain_path_def plain_segment_def)

lemma join_pack_path:
  assumes "full_match profile_rx profile" and "safe_pack_path p"
  shows "path_join [''updates'', profile, p] = ''updates/'' @ profile @ ''/'' @ p"
proof -
  have q: "plain_segment profile" using profile_plain[OF assms(1)] by simp
  have ne: "p \<noteq> []" using assms(2) by (simp add: safe_pack_path_def)
  have j: "join_with ''/'' (''updates'' # profile # split_slash p) = ''updates/'' @ profile @ ''/'' @ p"
    using join_with_append[of "[''updates'', profile]" "split_slash p" "''/''"] by (simp add: join_split_slash)
  have "path_join [''updates'', profile, p] = path_normalize (below_form (''updates'' # profile # split_slash p) False)"
    using q ne j by (simp add: path_join_def below_form_def plain_segment_def)
  also have "\<dots> = below_form (''updates'' # profile # split_slash p) False"
    using q safe_pack_plain[OF assms(2)] by (intro normalize_below_form) (simp add: plain_segment_def)
  finally show ?thesis using j by (simp add: below_form_def)
qed

lemma parsed_file_safe: "parse_pack_file v = Inr f \<Longrightarrow> safe_pack_path (pf_path f)"
  by (auto simp: parse_pack_file_def Let_def split: option.splits json.splits if_splits)

lemma parsed_files_safe: "parse_pack_files vs = Inr fs \<Longrightarrow> length fs = length vs \<and> list_all (\<lambda>f. safe_pack_path (pf_path f)) fs"
  by (induction vs arbitrary: fs) (auto split: sum.splits dest: parsed_file_safe)

lemma parsed_index_safe:
  "parse_pack_index v = Inr i \<Longrightarrow> length (pi_files i) \<le> 2000 \<and> list_all (\<lambda>f. safe_pack_path (pf_path f)) (pi_files i)"
  by (auto simp: parse_pack_index_def split: option.splits json.splits if_splits sum.splits dest!: parsed_files_safe)

lemma wp_traverse_all:
  "(\<And>x t. wp (f x) (\<lambda>y _. P y) (\<lambda>_ _. True) t) \<Longrightarrow> wp (traverse f xs) (\<lambda>ys _. list_all P ys) (\<lambda>_ _. True) s"
proof (induction xs arbitrary: s)
  case Nil
  then show ?case by (simp add: wp_ret)
next
  case (Cons x xs)
  have "wp (traverse f xs) (\<lambda>ys _. list_all P ys) (\<lambda>_ _. True) t" for t by (rule Cons.IH[OF Cons.prems])
  then have "wp (traverse f xs) (\<lambda>ys _. list_all P (y # ys)) (\<lambda>_ _. True) t" if "P y" for y t
    by (rule wp_mono) (use that in simp_all)
  then show ?case by (auto simp: wp_andThen wp_ret intro: wp_mono[OF Cons.prems])
qed

definition override_safe :: "pack_override option \<Rightarrow> bool" where
  "override_safe v \<longleftrightarrow> (case v of None \<Rightarrow> True | Some o' \<Rightarrow> safe_pack_path (ov_path o'))"

lemma override_read_safe: "wp (read_override M a include sizes e) (\<lambda>v _. override_safe v) (\<lambda>_ _. True) t"
  unfolding read_override_def
  by (auto simp: wp_thenDo wp_throwIf wp_ret wp_any wp_andThen Let_def override_safe_def split: option.split
      intro!: wp_mono[OF wp_any[of "\<lambda>_ _. True" "\<lambda>_ _. True"]])

definition pack_inside :: "pack_index \<times> pack_override list \<Rightarrow> bool" where
  "pack_inside r \<longleftrightarrow> length (pi_files (fst r)) \<le> 2000 \<and>
     list_all (\<lambda>f. safe_pack_path (pf_path f)) (pi_files (fst r)) \<and> list_all (\<lambda>v. safe_pack_path (ov_path v)) (snd r)"

lemma wp_try_always: "wp (try_always p q) Q E = wp p (\<lambda>x. wp q (\<lambda>_. Q x) E) (\<lambda>e. wp q (\<lambda>_. E e) E)"
  by (rule ext) (auto simp: wp_def try_always_def split: prod.splits sum.splits)

lemma then_any: "(\<And>x t. wp (k x) Q (\<lambda>_ _. True) t) \<Longrightarrow> wp (andThen p k) Q (\<lambda>_ _. True) s"
  by (simp add: wp_andThen wp_any)

lemma do_any: "(\<And>t. wp k Q (\<lambda>_ _. True) t) \<Longrightarrow> wp (thenDo p k) Q (\<lambda>_ _. True) s"
  by (simp add: wp_thenDo wp_any)

lemma parsed_text_safe: "parse_index_text M text = Inr i \<Longrightarrow>
    length (pi_files i) \<le> 2000 \<and> list_all (\<lambda>f. safe_pack_path (pf_path f)) (pi_files i)"
  by (auto simp: parse_index_text_def split: option.splits json.splits dest: parsed_index_safe)

lemma read_archive_inside: "wp (read_archive M bytes a include) (\<lambda>r _. pack_inside r) (\<lambda>_ _. True) s"
  unfolding read_archive_def Let_def
proof (rule do_any, rule then_any, rule do_any, rule then_any, rule then_any, rule do_any, rule then_any, rule do_any, goal_cases)
  case 1
  have tr: "wp (traverse (read_override M a include sizes) es) (\<lambda>vs _. list_all override_safe vs) (\<lambda>_ _. True) t" for es t sizes
    by (rule wp_traverse_all[OF override_read_safe])
  have mf: "list_all (\<lambda>v. safe_pack_path (ov_path v)) (List.map_filter id vs)" if "list_all override_safe vs" for vs
    using that by (induction vs) (auto simp: override_safe_def map_filter_simps split: option.splits)
  have "wp (andThen (traverse (read_override M a include sizes) es) (\<lambda>vs. ret (i, List.map_filter id vs)))
      (\<lambda>r _. pack_inside r) (\<lambda>_ _. True) t" if "parse_index_text M raw = Inr i" for raw i es t sizes
    using parsed_text_safe[OF that] by (auto simp: wp_andThen wp_ret pack_inside_def intro!: wp_mono[OF tr] mf)
  then show ?case by (simp add: wp_andThen[of "ofSum x" for x] wp_ofSum split: sum.split)
qed

text \<open>C28: a modpack cannot write outside the profile it is imported into. What is read of an archive, from the
  API or uploaded, has at most 2000 downloads, and the path of each of its files and overrides, joined to the
  profile's directory, is that directory followed by the path, none of whose segments is empty, a dot or two
  dots.\<close>

theorem pack_files_stay_in_the_profile:
  assumes "full_match profile_rx profile"
  shows "case read_modpack_archive M bytes include s of
      (Inl e, t) \<Rightarrow> True
    | (Inr (index, overrides), t) \<Rightarrow> length (pi_files index) \<le> 2000 \<and>
        list_all (\<lambda>p. path_join [''updates'', profile, p] = ''updates/'' @ profile @ ''/'' @ p \<and> plain_path (split_slash p))
          (map pf_path (pi_files index) @ map ov_path overrides)"
proof -
  have "wp (read_modpack_archive M bytes include) (\<lambda>r _. pack_inside r) (\<lambda>_ _. True) s"
    unfolding read_modpack_archive_def
    by (rule then_any) (auto simp: wp_try_always wp_any intro!: wp_mono[OF read_archive_inside])
  then show ?thesis using join_pack_path[OF assms] safe_pack_plain
    by (auto simp: wp_def pack_inside_def list_all_iff split: prod.splits sum.splits)
qed

text \<open>An archive with one override, as \<^verbatim>\<open>unzip\<close> shows it.\<close>

definition sample_manifest :: json where
  "sample_manifest = JObj [(''formatVersion'', JNum 1), (''game'', JStr ''minecraft''), (''versionId'', JStr ''1''), (''name'', JStr ''Pack''),
     (''files'', JArr [JObj [(''path'', JStr ''mods/a.jar''), (''hashes'', JObj [(''sha1'', JStr ''1''), (''sha512'', JStr ''2'')]),
       (''downloads'', JArr [JStr ''https://cdn.modrinth.com/a.jar'']), (''fileSize'', JNum 3)]]),
     (''dependencies'', JObj [(''minecraft'', JStr ''1.20'')])]"

definition pack_modrinth :: "memory modrinth" where
  "pack_modrinth = memory_modrinth\<lparr>mo_parse := (\<lambda>_. Some sample_manifest),
     mo_unzip := (\<lambda>args. ret (0, if hd args = ''-Z1'' then join_with [CHR 0x0A] [index_name, ''overrides/config/b.txt''] else ''x'', []))\<rparr>"

lemma pack_files_stay_in_the_profile_witness:
  "\<exists>i v t. read_modpack_archive pack_modrinth ''zip'' True Map.empty = (Inr (i, [v]), t) \<and> ov_path v = ''config/b.txt'' \<and>
     path_join [''updates'', ''main'', ov_path v] = ''updates/main/config/b.txt''"
proof -
  let ?o = "read_modpack_archive pack_modrinth ''zip'' True Map.empty"
  have e: "(case fst ?o of Inr (i, [v]) \<Rightarrow> ov_path v = ''config/b.txt'' | _ \<Rightarrow> False)" by code_simp
  obtain i v t where o': "?o = (Inr (i, [v]), t)" "ov_path v = ''config/b.txt''"
    using e by (cases ?o; cases "fst ?o") (auto split: list.split_asm)
  have "full_match profile_rx ''main''" by code_simp
  from pack_files_stay_in_the_profile[OF this, of pack_modrinth "''zip''" True Map.empty] o'
  show ?thesis by auto
qed

end
