(* ===== verification/Installations_Store.thy ===== *)
theory Installations_Store
  imports Tables Effects Patterns
begin

text \<open>
  \<^verbatim>\<open>installations.store.ts\<close> and \<^verbatim>\<open>remote-control.store.ts\<close>: the registered LaunchServer and the encrypted
  token of its HTTP endpoint, with \<^verbatim>\<open>credential-cipher.ts\<close>, which seals tokens, and \<^verbatim>\<open>credential-key.service.ts\<close>,
  which finds or makes the key. AES-GCM, base64 and random bytes are fields of the record \<open>gcm\<close>.
\<close>

section \<open>Sealing tokens\<close>

record gcm =
  g_seal :: "string \<Rightarrow> string \<Rightarrow> string \<Rightarrow> string \<times> string"
  g_open :: "string \<Rightarrow> string \<Rightarrow> string \<Rightarrow> string \<Rightarrow> js_error + string"
  g_encode :: "string \<Rightarrow> string"
  g_decode :: "string \<Rightarrow> string"

text \<open>What the client relies on: what was sealed opens again under the same key, and base64 can be decoded.\<close>

definition sound_gcm :: "gcm \<Rightarrow> bool" where
  "sound_gcm G \<longleftrightarrow> (\<forall>k iv m. g_open G k iv (snd (g_seal G k iv m)) (fst (g_seal G k iv m)) = Inr m) \<and>
     (\<forall>b. g_decode G (g_encode G b) = b)"

lemma sound_gcm_open: "sound_gcm G \<Longrightarrow> g_seal G k iv m = (c, t) \<Longrightarrow> g_open G k iv t c = Inr m"
  unfolding sound_gcm_def by (metis fst_conv snd_conv)

lemma sound_gcm_decode: "sound_gcm G \<Longrightarrow> g_decode G (g_encode G b) = b"
  by (simp add: sound_gcm_def)

text \<open>The key of the cipher, when it is configured.\<close>

type_synonym cipher = "string option"

definition key_text_rx :: rx where
  "key_text_rx = Cat (many1 (Cls (\<lambda>c. is_alnum c \<or> c = CHR ''+'' \<or> c = CHR ''/''))) (between_times 0 2 (lit ''=''))"

definition cipher_configure :: "gcm \<Rightarrow> string \<Rightarrow> js_error + cipher" where
  "cipher_configure G encoded =
     (if \<not> full_match key_text_rx encoded
      then Inl (Error ''CREDENTIAL_ENCRYPTION_KEY must be a base64-encoded 32-byte key'')
      else if length (g_decode G encoded) \<noteq> 32
      then Inl (Error ''CREDENTIAL_ENCRYPTION_KEY must decode to exactly 32 bytes'')
      else Inr (Some (g_decode G encoded)))"

record encrypted =
  e_ciphertext :: string
  e_iv :: string
  e_tag :: string

definition cipher_encrypt :: "gcm \<Rightarrow> cipher \<Rightarrow> string \<Rightarrow> string \<Rightarrow> js_error + encrypted" where
  "cipher_encrypt G key iv text_value = (case key of
     None \<Rightarrow> Inl (Error ''Credential encryption is not configured'')
   | Some k \<Rightarrow> (case g_seal G k iv text_value of (c, t) \<Rightarrow>
       Inr \<lparr>e_ciphertext = g_encode G c, e_iv = g_encode G iv, e_tag = g_encode G t\<rparr>))"

definition cipher_decrypt :: "gcm \<Rightarrow> cipher \<Rightarrow> encrypted \<Rightarrow> js_error + string" where
  "cipher_decrypt G key e = (case key of
     None \<Rightarrow> Inl (Error ''Credential encryption is not configured'')
   | Some k \<Rightarrow> g_open G k (g_decode G (e_iv e)) (g_decode G (e_tag e)) (g_decode G (e_ciphertext e)))"

lemma decrypt_encrypt:
  "sound_gcm G \<Longrightarrow> cipher_encrypt G key iv m = Inr e \<Longrightarrow> cipher_decrypt G key e = Inr m"
  by (auto simp: cipher_encrypt_def cipher_decrypt_def sound_gcm_decode sound_gcm_open
      split: option.splits prod.splits)

section \<open>The key\<close>

datatype key_source = Environment | Generated | Memory

text \<open>The service: the cipher, where the key came from, and the path it is kept at.\<close>

record key_service =
  ks_cipher :: cipher
  ks_source :: "key_source option"
  ks_path :: "string option"

text \<open>The file system the service uses; writing is exclusive, and says whether the file was there before.\<close>

record 'w key_files =
  kf_exists :: "string \<Rightarrow> 'w \<Rightarrow> bool"
  kf_read :: "string \<Rightarrow> ('w, js_error, string) exec"
  kf_mkdir :: "string \<Rightarrow> ('w, js_error, unit) exec"
  kf_write_new :: "string \<Rightarrow> string \<Rightarrow> ('w, js_error, bool) exec"
  kf_chmod :: "string \<Rightarrow> ('w, js_error, unit) exec"
  kf_dirname :: "string \<Rightarrow> string"
  kf_random :: "'w \<Rightarrow> string"

definition key_service_start ::
  "gcm \<Rightarrow> 'w key_files \<Rightarrow> string option \<Rightarrow> string option \<Rightarrow> ('w, js_error, key_service) exec" where
  "key_service_start G F path env_key =
     (case env_key of
        Some (c # cs) \<Rightarrow> andThen (ofSum (cipher_configure G (c # cs))) (\<lambda>k.
          ret \<lparr>ks_cipher = k, ks_source = Some Environment, ks_path = path\<rparr>)
      | _ \<Rightarrow> (case path of
          Some (d # ds) \<Rightarrow> andThen (reading (kf_exists F (d # ds))) (\<lambda>there.
            if there then andThen (kf_read F (d # ds)) (\<lambda>s.
              andThen (ofSum (cipher_configure G (js_trim s))) (\<lambda>k.
              ret \<lparr>ks_cipher = k, ks_source = Some Generated, ks_path = path\<rparr>))
            else ret \<lparr>ks_cipher = None, ks_source = None, ks_path = path\<rparr>)
        | _ \<Rightarrow> ret \<lparr>ks_cipher = None, ks_source = None, ks_path = path\<rparr>))"

definition can_generate :: "key_service \<Rightarrow> bool" where
  "can_generate s \<longleftrightarrow> ks_cipher s = None"

definition generate_key :: "gcm \<Rightarrow> 'w key_files \<Rightarrow> key_service \<Rightarrow> ('w, js_error, key_service) exec" where
  "generate_key G F s =
     (if ks_cipher s \<noteq> None then raise (Error ''Credential encryption is already configured'')
      else andThen (reading (kf_random F)) (\<lambda>bytes.
        let encoded = g_encode G bytes in
        case ks_path s of
          Some (d # ds) \<Rightarrow>
            thenDo (kf_mkdir F (kf_dirname F (d # ds)))
            (andThen (kf_write_new F (d # ds) (encoded @ [CHR 0x0A])) (\<lambda>fresh.
             if fresh then thenDo (kf_chmod F (d # ds)) (andThen (ofSum (cipher_configure G encoded)) (\<lambda>k.
               ret (s\<lparr>ks_cipher := k, ks_source := Some Generated\<rparr>)))
             else andThen (kf_read F (d # ds)) (\<lambda>old.
               andThen (ofSum (cipher_configure G (js_trim old))) (\<lambda>k.
               ret (s\<lparr>ks_cipher := k, ks_source := Some Generated\<rparr>)))))
        | _ \<Rightarrow> andThen (ofSum (cipher_configure G encoded)) (\<lambda>k.
            ret (s\<lparr>ks_cipher := k, ks_source := Some Memory\<rparr>))))"

section \<open>The registered LaunchServer\<close>

record installation =
  i_id :: string
  i_name :: string
  i_path :: string
  i_address :: string
  i_project :: string
  i_repository :: string
  i_revision :: string
  i_created :: instant
  i_updated :: instant

record install_result =
  ir_path :: string
  ir_address :: string
  ir_project :: string
  ir_repository :: string
  ir_revision :: string

record credential_row =
  c_installation :: string
  c_endpoint :: string
  c_token :: encrypted
  c_revision :: string
  c_configured :: instant

record panel_db =
  db_installations :: "installation list"
  db_credentials :: "credential_row list"

definition get_installation :: "string \<Rightarrow> panel_db \<Rightarrow> installation option" where
  "get_installation i db = get_by i_id i (db_installations db)"

definition list_installations :: "panel_db \<Rightarrow> installation list" where
  "list_installations db = order_desc (\<lambda>r. iso_rank (i_updated r)) (db_installations db)"

definition installation_at :: "string \<Rightarrow> panel_db \<Rightarrow> installation option" where
  "installation_at p db = get_by i_path p (db_installations db)"

text \<open>
  \<open>INSERT ... ON CONFLICT(path) DO UPDATE\<close>: SQLite tests the target of the clause before the primary key.
\<close>

definition put_installation :: "installation \<Rightarrow> installation list \<Rightarrow> db_error + installation list" where
  "put_installation r t =
     (if \<exists>x\<in>set t. i_path x = i_path r
      then Inr (sql_update (\<lambda>x. i_path x = i_path r) (\<lambda>x. x\<lparr>i_name := i_name r, i_address := i_address r,
        i_project := i_project r, i_repository := i_repository r, i_revision := i_revision r,
        i_updated := i_updated r\<rparr>) t)
      else sql_insert i_id r t)"

definition upsert_installation ::
  "string \<Rightarrow> instant \<Rightarrow> string \<Rightarrow> install_result \<Rightarrow> (panel_db, js_error, installation) exec" where
  "upsert_installation uuid now name res = (\<lambda>db.
     let current = installation_at (ir_path res) db;
         ident = (case current of Some c \<Rightarrow> i_id c | None \<Rightarrow> uuid);
         created = (case current of Some c \<Rightarrow> i_created c | None \<Rightarrow> now)
     in case (list_installations db, current) of
       (r # _, None) \<Rightarrow> (Inl (Error (''This panel already manages LaunchServer at '' @ i_path r @
          ''; a second server cannot be registered'')), db)
     | _ \<Rightarrow> (case put_installation \<lparr>i_id = ident, i_name = name, i_path = ir_path res, i_address = ir_address res,
            i_project = ir_project res, i_repository = ir_repository res, i_revision = ir_revision res,
            i_created = created, i_updated = now\<rparr> (db_installations db) of
          Inl e \<Rightarrow> (Inl (Error ''UNIQUE constraint failed: gravit_installations.id''), db)
        | Inr t \<Rightarrow> (case get_installation ident (db\<lparr>db_installations := t\<rparr>) of
              None \<Rightarrow> (Inl (Error ''Failed to persist LauncherDockered installation''), db\<lparr>db_installations := t\<rparr>)
            | Some r \<Rightarrow> (Inr r, db\<lparr>db_installations := t\<rparr>))))"

text \<open>Deleting cascades to the credentials.\<close>

definition delete_installation :: "string \<Rightarrow> panel_db \<Rightarrow> bool \<times> panel_db" where
  "delete_installation i db = (1 \<le> sql_changes (\<lambda>r. i_id r = i) (db_installations db),
     \<lparr>db_installations = sql_delete (\<lambda>r. i_id r = i) (db_installations db),
      db_credentials = (if \<exists>r\<in>set (db_installations db). i_id r = i
        then sql_delete (\<lambda>c. c_installation c = i) (db_credentials db) else db_credentials db)\<rparr>)"

section \<open>The token of its endpoint\<close>

record credential =
  rc_installation :: string
  rc_endpoint :: string
  rc_token :: string
  rc_revision :: string
  rc_configured :: instant

definition put_credential :: "credential_row \<Rightarrow> credential_row list \<Rightarrow> credential_row list" where
  "put_credential r t =
     (if \<exists>x\<in>set t. c_installation x = c_installation r
      then sql_update (\<lambda>x. c_installation x = c_installation r) (\<lambda>x. r) t else t @ [r])"

definition save_credential ::
  "gcm \<Rightarrow> cipher \<Rightarrow> string \<Rightarrow> instant \<Rightarrow> string \<Rightarrow> string \<Rightarrow> string \<Rightarrow> string \<Rightarrow> (panel_db, js_error, unit) exec" where
  "save_credential G key iv now i endpoint token revision = (\<lambda>db.
     case cipher_encrypt G key iv token of
       Inl e \<Rightarrow> (Inl e, db)
     | Inr sealed \<Rightarrow>
         if \<not> (\<exists>r\<in>set (db_installations db). i_id r = i) then (Inl (Error ''FOREIGN KEY constraint failed''), db)
         else (Inr (), db\<lparr>db_credentials := put_credential \<lparr>c_installation = i, c_endpoint = endpoint,
           c_token = sealed, c_revision = revision, c_configured = now\<rparr> (db_credentials db)\<rparr>))"

definition get_credential :: "gcm \<Rightarrow> cipher \<Rightarrow> string \<Rightarrow> panel_db \<Rightarrow> js_error + credential option" where
  "get_credential G key i db = (case get_by c_installation i (db_credentials db) of
     None \<Rightarrow> Inr None
   | Some r \<Rightarrow> map_sum id (\<lambda>token. Some \<lparr>rc_installation = c_installation r, rc_endpoint = c_endpoint r, rc_token = token,
       rc_revision = c_revision r, rc_configured = c_configured r\<rparr>) (cipher_decrypt G key (c_token r)))"

definition configured_installations :: "panel_db \<Rightarrow> string list" where
  "configured_installations db = map c_installation (order_desc (\<lambda>c. iso_rank (c_configured c)) (db_credentials db))"

definition has_encrypted :: "panel_db \<Rightarrow> bool" where
  "has_encrypted db \<longleftrightarrow> 0 < length (db_credentials db)"

definition delete_credential :: "string \<Rightarrow> panel_db \<Rightarrow> panel_db" where
  "delete_credential i db = db\<lparr>db_credentials := sql_delete (\<lambda>c. c_installation c = i) (db_credentials db)\<rparr>"

end
