(* ===== verification/Control_Transport.thy ===== *)
theory Control_Transport
  imports Web_Text Container_Volume Installations_Store
begin

text \<open>
  Commands for the LaunchServer: \<^verbatim>\<open>control-file.service.ts\<close> (a socket in the container),
  \<^verbatim>\<open>remote-control-http.service.ts\<close> (an HTTP endpoint),
  \<^verbatim>\<open>launchserver-transport.service.ts\<close>, which tries the second and falls back to the first, and
  \<^verbatim>\<open>launchserver-operations.service.ts\<close>. The process that \<open>docker compose exec\<close> starts, the clock, pauses, URLs,
  \<open>fetch\<close> and the cipher are fields of the records \<open>control\<close> and \<open>remote\<close>.
\<close>

section \<open>Lines of output\<close>

text \<open>\<open>split(/\r?\n/)\<close>, \<open>trimEnd\<close> and \<open>filter(Boolean)\<close>. A return before the line feed is white space, which
  \<open>trimEnd\<close> removes.\<close>

definition ansi_rx :: rx where
  "ansi_rx = (let d = Cls is_digit in
     cats [Cls (\<lambda>c. c = CHR 0x1B \<or> c = CHR 0x9B), Star (Cls (\<lambda>c. c \<in> set ''[]()#;?'')),
       Alt (Cat (opt (Cat (Star (Cls is_alnum))
              (Star (Cat (lit '';'') (many1 (Cls (\<lambda>c. is_alnum c \<or> c \<in> set ''-/#&.:=?%@~_'')))))))
            (Cls (\<lambda>c. c = CHR 0x07)))
         (Cat (opt (Cat (between_times 1 4 d) (Star (Cat (Cls (\<lambda>c. c = CHR '';'' \<or> c = CHR '':'')) (Upto 4 d)))))
            (Cls (\<lambda>c. is_digit c \<or> in_range CHR ''A'' CHR ''P'' c \<or> in_range CHR ''R'' CHR ''T'' c \<or> c = CHR ''Z'' \<or>
               c = CHR ''c'' \<or> in_range CHR ''f'' CHR ''n'' c \<or> in_range CHR ''q'' CHR ''u'' c \<or> c \<in> set ''y=><~'')))])"

text \<open>\<open>replace(/r/g, '')\<close> for a pattern that matches no empty text.\<close>

function remove_matches :: "rx \<Rightarrow> string \<Rightarrow> string" where
  "remove_matches r s = (case s of
     [] \<Rightarrow> []
   | c # cs \<Rightarrow> (case rx_run r (None, s) of
       t # _ \<Rightarrow> if length (snd t) < length s then remove_matches r (snd t) else c # remove_matches r cs
     | [] \<Rightarrow> c # remove_matches r cs))"
  by pat_completeness auto

termination
  by (relation "measure (length \<circ> snd)") auto

declare remove_matches.simps [simp del]

definition strip_ansi :: "string \<Rightarrow> string" where
  "strip_ansi = remove_matches ansi_rx"

definition parse_lines :: "string \<Rightarrow> string list" where
  "parse_lines out = filter (\<lambda>l. l \<noteq> []) (map js_trim_end (split_on (\<lambda>c. c = CHR 0x0A) (strip_ansi out)))"

text \<open>\<open>/text/i.test(value)\<close>\<close>

definition mentions :: "string \<Rightarrow> string \<Rightarrow> bool" where
  "mentions t v \<longleftrightarrow> sublist (js_lower t) (js_lower v)"

definition transient_failure :: "string \<Rightarrow> bool" where
  "transient_failure m \<longleftrightarrow> mentions ''ENOENT'' m \<or> mentions ''no such file or directory'' m \<or> mentions ''connection refused'' m"

definition assert_succeeded :: "string \<Rightarrow> string list \<Rightarrow> js_error + string list" where
  "assert_succeeded cmd ls = (case List.find (mentions ''error when execute command'') ls of
     Some f \<Rightarrow> Inl (Error (''LaunchServer rejected command \"'' @ cmd @ ''\": '' @ f))
   | None \<Rightarrow> Inr ls)"

section \<open>The control socket\<close>

record 'w control =
  ct_run :: "string list \<Rightarrow> string \<Rightarrow> string \<Rightarrow> nat \<Rightarrow> ('w, command_result) io"
  ct_now :: "'w \<Rightarrow> int"
  ct_sleep :: "nat \<Rightarrow> ('w, unit) io"
  ct_iso :: "'w \<Rightarrow> string"
  ct_readiness :: nat
  ct_timeout :: nat
  ct_long :: nat

definition control_socket :: string where
  "control_socket = ''/app/data/control-file''"

definition probe_command :: "string list" where
  "probe_command = [''docker'', ''compose'', ''exec'', ''-T'', ''gravitlauncher'', ''test'', ''-S'', control_socket]"

definition socket_command :: "string list" where
  "socket_command = [''docker'', ''compose'', ''exec'', ''-T'', ''-w'', ''/app'', ''gravitlauncher'', ''socat'',
     ''UNIX-CONNECT:'' @ control_socket, ''STDIO,ignoreeof'']"

text \<open>One round: the lines of the command, or nothing when the socket is not ready.\<close>

definition failure_details :: "command_result \<Rightarrow> string" where
  "failure_details r = js_trim (strip_ansi (if std_err r \<noteq> [] then std_err r else std_out r))"

definition send_once :: "'w control \<Rightarrow> string \<Rightarrow> string \<Rightarrow> nat \<Rightarrow> ('w, string list option) io" where
  "send_once C path cmd limit =
     andThen (ct_run C probe_command path [] (ct_timeout C)) (\<lambda>p.
     if exit_code p = 0 then
       andThen (ct_run C socket_command path (cmd @ [CHR 0x0A]) limit) (\<lambda>r.
       if exit_code r = 0 then andThen (ofSum (assert_succeeded cmd (parse_lines (std_out r)))) (\<lambda>ls. ret (Some ls))
       else if \<not> transient_failure (failure_details r) then
         raise (Error (if failure_details r \<noteq> [] then failure_details r
           else ''LaunchServer control command exited with code '' @ show_int (exit_code r)))
       else ret None)
     else if js_trim (std_err p) \<noteq> [] then raise (Error (js_trim (strip_ansi (std_err p))))
     else ret None)"

text \<open>The loop, for at most so many rounds; without a result when they are used up.\<close>

primrec send_rounds :: "nat \<Rightarrow> 'w control \<Rightarrow> string \<Rightarrow> string \<Rightarrow> nat \<Rightarrow> int \<Rightarrow> ('w, string list option) io" where
  "send_rounds 0 C path cmd limit deadline = ret None"
| "send_rounds (Suc n) C path cmd limit deadline =
     andThen (reading (ct_now C)) (\<lambda>now.
     if deadline < now then
       raise (Error (''LaunchServer control socket did not become ready within '' @ show_nat (ct_readiness C) @ ''ms''))
     else andThen (send_once C path cmd limit) (\<lambda>r. case r of
         Some ls \<Rightarrow> ret (Some ls)
       | None \<Rightarrow> thenDo (ct_sleep C 250) (send_rounds n C path cmd limit deadline)))"

text \<open>
  A pause takes 250 ms at least, so these rounds pass the deadline; were they used up, the call would
  fail as it does after the deadline.
\<close>

definition control_rounds :: "'w control \<Rightarrow> nat" where
  "control_rounds C = ct_readiness C div 250 + 2"

definition not_ready :: "'w control \<Rightarrow> js_error" where
  "not_ready C = Error (''LaunchServer control socket did not become ready within '' @ show_nat (ct_readiness C) @ ''ms'')"

definition send_when_ready :: "'w control \<Rightarrow> string \<Rightarrow> string \<Rightarrow> nat \<Rightarrow> ('w, string list) io" where
  "send_when_ready C path cmd limit =
     andThen (reading (ct_now C)) (\<lambda>now.
     andThen (send_rounds (control_rounds C) C path cmd limit (now + int (ct_readiness C))) (\<lambda>r. case r of
       Some ls \<Rightarrow> ret ls
     | None \<Rightarrow> raise (not_ready C)))"

section \<open>One command at a time\<close>

text \<open>The set \<open>activeInstallations\<close> is beside the world; a busy service is told from other failures.\<close>

datatype control_error = Busy string | Failed js_error

type_synonym ('w, 'a) controlling = "('w \<times> string list, control_error, 'a) exec"

definition begin_command :: "string \<Rightarrow> string list \<Rightarrow> control_error + string list" where
  "begin_command i active = (if i \<in> set active then Inl (Busy ''Another LaunchServer command is already running'')
     else Inr (i # active))"

definition end_command :: "string \<Rightarrow> string list \<Rightarrow> string list" where
  "end_command i active = removeAll i active"

definition execute_command :: "'w control \<Rightarrow> string \<Rightarrow> string \<Rightarrow> string \<Rightarrow> nat \<Rightarrow> ('w, string list) controlling" where
  "execute_command C i path cmd limit = (\<lambda>(w, active).
     case begin_command i active of
       Inl e \<Rightarrow> (Inl e, (w, active))
     | Inr during \<Rightarrow> (case send_when_ready C path cmd limit w of
           (Inl e, v) \<Rightarrow> (Inl (Failed e), (v, end_command i during))
         | (Inr ls, v) \<Rightarrow> (Inr ls, (v, end_command i during))))"

text \<open>The message of an error, which is all that most callers see of it.\<close>

definition control_message :: "control_error \<Rightarrow> string" where
  "control_message e = (case e of Busy m \<Rightarrow> m | Failed r \<Rightarrow> error_message r)"

datatype transport_kind = ControlFile | RemoteControl

record command_outcome =
  co_installation :: string
  co_command :: string
  co_transport :: transport_kind
  co_fallback :: "string option"
  co_lines :: "string list"
  co_started :: string
  co_finished :: string

definition control_read :: "('w \<Rightarrow> 'a) \<Rightarrow> ('w, 'a) controlling" where
  "control_read f = reading (\<lambda>(w, active). f w)"

definition execute_inspection :: "'w control \<Rightarrow> string \<Rightarrow> string \<Rightarrow> string \<Rightarrow> ('w, command_outcome) controlling" where
  "execute_inspection C i path cmd =
     andThen (control_read (ct_iso C)) (\<lambda>started.
     andThen (execute_command C i path cmd (ct_timeout C)) (\<lambda>ls.
     andThen (control_read (ct_iso C)) (\<lambda>finished.
       ret \<lparr>co_installation = i, co_command = cmd, co_transport = ControlFile, co_fallback = None, co_lines = ls,
            co_started = started, co_finished = finished\<rparr>)))"

definition execute_setup_command :: "'w control \<Rightarrow> string \<Rightarrow> string \<Rightarrow> string \<Rightarrow> ('w, string list) controlling" where
  "execute_setup_command C i path cmd = execute_command C i path cmd (ct_timeout C)"

definition is_busy :: "control_error \<Rightarrow> bool" where
  "is_busy e \<longleftrightarrow> (case e of Busy m \<Rightarrow> True
     | Failed r \<Rightarrow> mentions ''control socket stayed busy'' (error_message r) \<or> mentions ''command stalled'' (error_message r))"

definition execute_module_command :: "'w control \<Rightarrow> string \<Rightarrow> string \<Rightarrow> string \<Rightarrow> ('w, string list) controlling" where
  "execute_module_command C i path cmd =
     tryCatch (execute_command C i path cmd (min (ct_timeout C) 5000)) (\<lambda>e.
       raise (if is_busy e then Busy ''LaunchServer is busy with another command'' else e))"

definition execute_build_command :: "'w control \<Rightarrow> string \<Rightarrow> string \<Rightarrow> ('w, string list) controlling" where
  "execute_build_command C i path = execute_command C i path ''build'' (ct_long C)"

definition execute_auth_command :: "'w control \<Rightarrow> string \<Rightarrow> string \<Rightarrow> string \<Rightarrow> ('w, string list) controlling" where
  "execute_auth_command C i path cmd = execute_command C i path cmd (ct_timeout C)"

definition execute_client_command :: "'w control \<Rightarrow> string \<Rightarrow> string \<Rightarrow> string \<Rightarrow> ('w, string list) controlling" where
  "execute_client_command C i path cmd = execute_command C i path cmd (ct_long C)"

definition sync_profile_provider :: "'w control \<Rightarrow> string \<Rightarrow> string \<Rightarrow> ('w, string list) controlling" where
  "sync_profile_provider C i path = execute_command C i path ''config profileprovider sync'' (ct_timeout C)"

section \<open>Server tokens\<close>

definition uuid_text_rx :: rx where
  "uuid_text_rx = times 36 (Cls (caseless (\<lambda>c. is_hex c \<or> c = CHR ''-'')))"

definition auth_word_rx :: rx where
  "auth_word_rx = name_rx is_alnum (\<lambda>c. is_alnum c \<or> c \<in> set ''._-'') 63"

definition jwt_rx :: rx where
  "jwt_rx = (let w = many1 (Cls (\<lambda>c. is_alnum c \<or> c \<in> set ''_-'')) in cats [w, lit ''.'', w, lit ''.'', w])"

definition server_token_command :: "string \<Rightarrow> string \<Rightarrow> string" where
  "server_token_command uuid auth = ''token server '' @ uuid @ '' '' @ auth @ '' false''"

text \<open>The rest of a text after the first occurrence of another.\<close>

fun after_first :: "string \<Rightarrow> string \<Rightarrow> string option" where
  "after_first p [] = (if p = [] then Some [] else None)"
| "after_first p (c # cs) = (if prefix p (c # cs) then Some (drop (length p) (c # cs)) else after_first p cs)"

definition token_of_lines :: "string \<Rightarrow> string \<Rightarrow> string list \<Rightarrow> string option" where
  "token_of_lines uuid auth ls =
     map_option js_trim (Option.bind (List.find (sublist (''Server token '' @ uuid @ '' authId '' @ auth @ '': '')) ls)
       (after_first (''Server token '' @ uuid @ '' authId '' @ auth @ '': '')))"

definition create_server_token :: "'w control \<Rightarrow> string \<Rightarrow> string \<Rightarrow> string \<Rightarrow> string \<Rightarrow> ('w, string) controlling" where
  "create_server_token C i path uuid auth =
     (if \<not> full_match uuid_text_rx uuid \<or> \<not> full_match auth_word_rx auth
      then raise (Failed (Error ''Unsafe server token command arguments''))
      else andThen (execute_command C i path (server_token_command uuid auth) (ct_timeout C)) (\<lambda>ls.
        case token_of_lines uuid auth ls of
          Some token \<Rightarrow> if full_match jwt_rx token then ret token
            else raise (Failed (Error ''LaunchServer did not return a valid server token''))
        | None \<Rightarrow> raise (Failed (Error ''LaunchServer did not return a valid server token''))))"

section \<open>The HTTP endpoint\<close>

record endpoint_url =
  eu_protocol :: string
  eu_username :: string
  eu_password :: string
  eu_search :: string
  eu_hash :: string
  eu_origin :: string

record remote_line =
  rl_level :: string
  rl_message :: string
  rl_exception :: "string option"

record remote_data =
  rd_success :: bool
  rd_exception :: "string option"
  rd_lines :: "remote_line list option"

record remote_body =
  rb_error :: "string option"
  rb_data :: "remote_data option"

text \<open>A response: its status, and its body unless that is no JSON.\<close>

record 'w remote =
  rc_url :: "string \<Rightarrow> endpoint_url option"
  rc_query :: "(string \<times> string) list \<Rightarrow> string"
  rc_fetch :: "string \<Rightarrow> ('w, nat \<times> remote_body option) io"
  rc_iso :: "'w \<Rightarrow> string"

definition validate_endpoint :: "'w remote \<Rightarrow> string \<Rightarrow> js_error + string" where
  "validate_endpoint R endpoint = (case rc_url R endpoint of
     None \<Rightarrow> Inl (Error ''Invalid URL'')
   | Some u \<Rightarrow>
       if eu_protocol u \<noteq> ''http:'' \<and> eu_protocol u \<noteq> ''https:''
       then Inl (Error ''RemoteControl endpoint must use http or https'')
       else if eu_username u \<noteq> [] \<or> eu_password u \<noteq> [] \<or> eu_search u \<noteq> [] \<or> eu_hash u \<noteq> []
       then Inl (Error ''RemoteControl endpoint must not contain credentials, query, or fragment'')
       else Inr (eu_origin u))"

definition command_url :: "'w remote \<Rightarrow> string \<Rightarrow> string \<Rightarrow> string \<Rightarrow> string" where
  "command_url R origin token cmd = origin @ ''/webapi/remotecontrol/command?'' @
     rc_query R [(''token'', token), (''command'', cmd), (''log'', ''true'')]"

definition remote_text :: "remote_line \<Rightarrow> string" where
  "remote_text l = ''['' @ rl_level l @ ''] '' @ rl_message l @
     (case rl_exception l of Some (c # cs) \<Rightarrow> '' ('' @ c # cs @ '')'' | _ \<Rightarrow> [])"

definition remote_lines :: "nat \<Rightarrow> remote_body \<Rightarrow> js_error + string list" where
  "remote_lines status b =
     (if \<not> (200 \<le> status \<and> status < 300) \<or> (rb_error b \<noteq> None \<and> rb_error b \<noteq> Some [])
      then Inl (Error (case rb_error b of Some m \<Rightarrow> m | None \<Rightarrow> ''RemoteControl returned HTTP '' @ show_nat status))
      else (case rb_data b of
          None \<Rightarrow> Inl (Error ''RemoteControl command failed'')
        | Some d \<Rightarrow>
            if \<not> rd_success d
            then Inl (Error (case rd_exception d of Some m \<Rightarrow> m | None \<Rightarrow> ''RemoteControl command failed''))
            else Inr (map remote_text (case rd_lines d of Some ls \<Rightarrow> ls | None \<Rightarrow> []))))"

definition remote_execute :: "'w remote \<Rightarrow> string \<Rightarrow> string \<Rightarrow> string \<Rightarrow> string \<Rightarrow> ('w, command_outcome) io" where
  "remote_execute R i endpoint token cmd =
     andThen (ofSum (validate_endpoint R endpoint)) (\<lambda>origin.
     andThen (reading (rc_iso R)) (\<lambda>started.
     andThen (tryCatch (rc_fetch R (command_url R origin token cmd)) (\<lambda>e.
       raise (Error (''RemoteControl endpoint '' @ origin @
         '' is unreachable. Ensure its nginx/HTTP proxy is running. '' @ error_message e)))) (\<lambda>(status, body).
     case body of
       None \<Rightarrow> raise (Error (''RemoteControl endpoint '' @ origin @ '' returned a non-JSON HTTP '' @ show_nat status @ '' response''))
     | Some b \<Rightarrow>
         andThen (ofSum (remote_lines status b)) (\<lambda>ls.
         andThen (reading (rc_iso R)) (\<lambda>finished.
           ret \<lparr>co_installation = i, co_command = cmd, co_transport = RemoteControl, co_fallback = None, co_lines = ls,
                co_started = started, co_finished = finished\<rparr>)))))"

section \<open>The jobs that call it\<close>

text \<open>The context of a job: its log and its progress.\<close>

record 'w job_log =
  jl_log :: "string \<Rightarrow> ('w, unit) io"
  jl_progress :: "nat \<Rightarrow> string \<Rightarrow> ('w, unit) io"

definition log_lines :: "'w job_log \<Rightarrow> string list \<Rightarrow> ('w, unit) io" where
  "log_lines J ls = forEach ls (jl_log J)"

text \<open>A service of the world alone, beside the set of busy installations; and errors as their callers see them.\<close>

definition beside_active :: "('w, 'a) io \<Rightarrow> ('w, 'a) controlling" where
  "beside_active p = (\<lambda>(w, active). case p w of
     (Inl e, v) \<Rightarrow> (Inl (Failed e), (v, active))
   | (Inr x, v) \<Rightarrow> (Inr x, (v, active)))"

definition as_io :: "('w, 'a) controlling \<Rightarrow> ('w \<times> string list, 'a) io" where
  "as_io p = (\<lambda>s. case p s of
     (Inl e, t) \<Rightarrow> (Inl (Error (control_message e)), t)
   | (Inr x, t) \<Rightarrow> (Inr x, t))"

section \<open>The transport with a fallback\<close>

text \<open>\<open>replaceAll\<close> with a text to find: the occurrences from left to right that do not overlap.\<close>

function replace_all :: "string \<Rightarrow> string \<Rightarrow> string \<Rightarrow> string" where
  "replace_all old new s =
     (if old = [] then concat (map (\<lambda>c. new @ [c]) s) @ new
      else case s of
        [] \<Rightarrow> []
      | c # cs \<Rightarrow> if prefix old s then new @ replace_all old new (drop (length old) s)
          else c # replace_all old new cs)"
  by pat_completeness auto

termination
  by (relation "measure (\<lambda>(old, new, s). length s)") auto

declare replace_all.simps [simp del]

record 'w transport =
  tr_control :: "'w control"
  tr_remote :: "'w remote"
  tr_credentials :: "string \<Rightarrow> 'w \<Rightarrow> js_error + credential option"

definition transport_execute ::
  "'w transport \<Rightarrow> installation \<Rightarrow> string \<Rightarrow> ('w, command_outcome) controlling" where
  "transport_execute T inst cmd =
     (let socket = execute_inspection (tr_control T) (i_id inst) (i_path inst) cmd in
      andThen (control_read (tr_credentials T (i_id inst))) (\<lambda>cr. case cr of
        Inl e \<Rightarrow> andThen socket (\<lambda>f. ret (f\<lparr>co_fallback := Some (error_message e)\<rparr>))
      | Inr None \<Rightarrow> socket
      | Inr (Some c) \<Rightarrow>
          tryCatch (beside_active (remote_execute (tr_remote T) (i_id inst) (rc_endpoint c) (rc_token c) cmd)) (\<lambda>e.
            andThen socket (\<lambda>f.
              ret (f\<lparr>co_fallback := Some (replace_all (rc_token c) ''[redacted]'' (control_message e))\<rparr>)))))"

section \<open>Operations\<close>

definition transport_name :: "transport_kind \<Rightarrow> string" where
  "transport_name t = (case t of ControlFile \<Rightarrow> ''control-file'' | RemoteControl \<Rightarrow> ''remote-control'')"

definition inspect :: "'w transport \<Rightarrow> 'w job_log \<Rightarrow> installation \<Rightarrow> string \<Rightarrow> ('w, command_outcome) controlling" where
  "inspect T J inst cmd =
     thenDo (beside_active (jl_progress J 20 (''Executing '' @ cmd)))
     (andThen (transport_execute T inst cmd) (\<lambda>r.
      thenDo (beside_active (jl_log J (''Transport: '' @ transport_name (co_transport r))))
      (thenDo (case co_fallback r of
          Some (c # cs) \<Rightarrow> beside_active (jl_log J (''RemoteControl fallback: '' @ c # cs))
        | _ \<Rightarrow> ret ())
      (thenDo (beside_active (log_lines J (co_lines r)))
      (thenDo (beside_active (jl_progress J 90 (cmd @ '' completed'')))
        (ret r))))))"

definition sync_profiles :: "'w control \<Rightarrow> 'w job_log \<Rightarrow> installation \<Rightarrow> ('w, string list) controlling" where
  "sync_profiles C J inst =
     thenDo (beside_active (jl_progress J 20 ''Synchronizing LaunchServer profiles and updates''))
     (andThen (sync_profile_provider C (i_id inst) (i_path inst)) (\<lambda>ls.
      thenDo (beside_active (log_lines J ls))
      (thenDo (beside_active (jl_progress J 90 ''LaunchServer profiles and updates synchronized''))
        (ret ls))))"

end
