(* ===== verification/Launch_Modules.thy ===== *)
theory Launch_Modules
  imports Profile_Service Control_Transport
begin

text \<open>
  \<^verbatim>\<open>module-catalog.ts\<close>, \<^verbatim>\<open>module-management.service.ts\<close> and \<^verbatim>\<open>discord-auth-system-build.service.ts\<close>: the
  modules of LaunchServer, how they are loaded and removed, and the build of the one that the panel brings along. What
  the service is given is the record \<open>module_env\<close>: the record \<open>host\<close> of the volume and the job, the commands of
  LaunchServer, its restart, and the commands and files of the machine the panel runs on.
\<close>

section \<open>The catalogue\<close>

datatype module_kind = ServerModule | LauncherModule
datatype module_category = AuthCategory | ServerCategory | LauncherCategory

record module_item =
  mi_id :: string
  mi_name :: string
  mi_directory :: string
  mi_jar :: string
  mi_kind :: module_kind
  mi_category :: module_category
  mi_description :: string

definition auth_module_names :: "string list" where
  "auth_module_names = [''AdditionalHash'', ''DiscordAuthSystem'', ''FileAuthSystem'', ''MojangSupport'']"

definition module_directory :: "string \<Rightarrow> module_kind \<Rightarrow> string" where
  "module_directory name kind = name @ (case kind of ServerModule \<Rightarrow> ''_module'' | LauncherModule \<Rightarrow> ''_lmodule'')"

definition module_category :: "string \<Rightarrow> module_kind \<Rightarrow> module_category" where
  "module_category name kind = (case kind of
     ServerModule \<Rightarrow> if name \<in> set auth_module_names then AuthCategory else ServerCategory
   | LauncherModule \<Rightarrow> LauncherCategory)"

definition catalog_module :: "string \<Rightarrow> module_kind \<Rightarrow> string \<Rightarrow> module_item" where
  "catalog_module name kind description =
     \<lparr>mi_id = module_directory name kind, mi_name = name, mi_directory = module_directory name kind,
      mi_jar = module_directory name kind @ ''.jar'', mi_kind = kind, mi_category = module_category name kind,
      mi_description = description\<rparr>"

definition all_server_modules :: "module_item list" where
  "all_server_modules = map (\<lambda>(n, d). catalog_module n ServerModule d)
     [(''AdditionalHash'', ''Adds PHPASS password hash verification.''),
      (''DiscordAuthSystem'', ''Built-in standalone Discord OAuth auth provider with auto-register, guild checks, and safe nickname formatting.''),
      (''FileAuthSystem'', ''Provides file-backed authentication for development setups.''),
      (''FxRuntimeOptimizer'', ''Optimizes JavaFX runtime packaging.''),
      (''GenerateCertificate'', ''Generates certificates for launcher artifact signing.''),
      (''MirrorHelper'', ''Adds client, mod, workspace, and authlib helper commands.''),
      (''MojangSupport'', ''Adds Mojang and Microsoft account support.''),
      (''OpenSSLSignCode'', ''Signs Windows executables through OpenSSL tooling.''),
      (''Prestarter'', ''Integrates LauncherPrestarter into launcher builds.''),
      (''RemoteControl'', ''Exposes allowlisted LaunchServer commands over HTTP.''),
      (''SentryProGuardUpload'', ''Uploads ProGuard mappings for Sentry symbolication.''),
      (''Sentry'', ''Reports LaunchServer errors to Sentry.''),
      (''SystemdNotifer'', ''Reports LaunchServer readiness to systemd.''),
      (''UnsafeCommandPack'', ''Adds advanced commands that require careful review.'')]"

definition launcher_modules :: "module_item list" where
  "launcher_modules = map (\<lambda>(n, d). catalog_module n LauncherModule d)
     [(''DiscordGame'', ''Publishes launcher game activity to Discord.''),
      (''LauncherGuard'', ''Adds native launcher protection integration.''),
      (''LauncherStartScreen'', ''Shows a loading screen before runtime initialization.''),
      (''Sentry'', ''Reports launcher runtime errors to Sentry.'')]"

definition auth_modules :: "module_item list" where
  "auth_modules = filter (\<lambda>m. mi_category m = AuthCategory) all_server_modules"

definition server_modules :: "module_item list" where
  "server_modules = filter (\<lambda>m. mi_category m = ServerCategory) all_server_modules"

definition module_catalog_items :: "module_item list" where
  "module_catalog_items = all_server_modules @ launcher_modules"

definition find_catalog_module :: "string \<Rightarrow> module_item option" where
  "find_catalog_module i = List.find (\<lambda>m. mi_id m = i) module_catalog_items"

section \<open>What LaunchServer reports\<close>

text \<open>The first word after a marker, in lower case.\<close>

definition first_token_after :: "string \<Rightarrow> string \<Rightarrow> string option" where
  "first_token_after line marker =
     map_option (\<lambda>s. takeWhile (\<lambda>c. \<not> js_space c) (js_trim s)) (after_first marker (js_lower line))"

definition is_available :: "module_item \<Rightarrow> string list \<Rightarrow> bool" where
  "is_available m ls =
     (let marker = (case mi_kind m of ServerModule \<Rightarrow> ''found launchserver module'' | LauncherModule \<Rightarrow> ''found launcher module'')
      in \<exists>l\<in>set ls. first_token_after l marker = Some (js_lower (mi_name m)))"

definition is_loaded :: "module_item \<Rightarrow> string list \<Rightarrow> bool" where
  "is_loaded m ls =
     (let marker = (case mi_kind m of ServerModule \<Rightarrow> ''[module]'' | LauncherModule \<Rightarrow> ''[launcher module]'');
          ident = (case mi_kind m of ServerModule \<Rightarrow> js_lower (mi_name m) | LauncherModule \<Rightarrow> js_lower (mi_jar m))
      in \<exists>l\<in>set ls. first_token_after l marker = Some ident)"

definition locally_built :: "module_item \<Rightarrow> bool" where
  "locally_built m \<longleftrightarrow> mi_id m = ''DiscordAuthSystem_module''"

text \<open>A job as far as the service looks at it.\<close>

record module_job =
  mj_id :: string
  mj_type :: string
  mj_installation :: "string option"
  mj_module :: "string option"

definition pending_job_for :: "string \<Rightarrow> string \<Rightarrow> module_job list \<Rightarrow> string option" where
  "pending_job_for inst m js = map_option mj_id (List.find (\<lambda>j.
     (mj_type j = ''gravit.module.install'' \<or> mj_type j = ''gravit.module.remove'') \<and>
     mj_installation j = Some inst \<and> mj_module j = Some m) js)"

section \<open>The service\<close>

record 'w module_env =
  me_host :: "'w host"
  me_command :: "string \<Rightarrow> ('w, string list) io"
  me_installation :: string
  me_restart :: "(('w, unit) io) option"
  me_volume :: bool
  me_uuid :: "'w \<Rightarrow> string"

abbreviation module_volume :: "'w module_env \<Rightarrow> 'w volume_ops" where
  "module_volume M \<equiv> h_volume (me_host M)"

definition log_all :: "'w host \<Rightarrow> string list \<Rightarrow> ('w, unit) io" where
  "log_all H ls = forEach ls (h_log H)"

definition is_built_locally :: "'w module_env \<Rightarrow> module_item \<Rightarrow> ('w, bool) io" where
  "is_built_locally M m =
     (if \<not> locally_built m \<or> \<not> me_volume M then ret False
      else vol_exists (module_volume M) (''modules/'' @ mi_jar m) AFile)"

record module_state =
  mt_id :: string
  mt_available :: bool
  mt_built :: bool
  mt_loaded :: bool
  mt_pending :: "string option"

definition module_states :: "'w module_env \<Rightarrow> module_job list \<Rightarrow> ('w, module_state list) io" where
  "module_states M js =
     andThen (me_command M ''modules available'') (\<lambda>available.
     andThen (me_command M ''modules list'') (\<lambda>loaded.
       promise_all (map (\<lambda>m. andThen (is_built_locally M m) (\<lambda>built.
         ret \<lparr>mt_id = mi_id m, mt_available = is_available m available \<or> built, mt_built = built,
              mt_loaded = is_loaded m loaded, mt_pending = pending_job_for (me_installation M) (mi_id m) js\<rparr>))
         module_catalog_items)))"

definition load_command :: "module_item \<Rightarrow> string" where
  "load_command m =
     (if locally_built m then ''modules load /app/data/modules/'' @ mi_jar m
      else (case mi_kind m of
          ServerModule \<Rightarrow> ''modules load '' @ mi_name m
        | LauncherModule \<Rightarrow> ''modules launcher-load '' @ mi_name m))"

record module_result =
  mr_module :: string
  mr_command :: string
  mr_loaded_before :: bool

definition module_result :: "module_item \<Rightarrow> string \<Rightarrow> bool \<Rightarrow> module_result" where
  "module_result m cmd before = \<lparr>mr_module = mi_id m, mr_command = cmd, mr_loaded_before = before\<rparr>"

record install_progress =
  ip_checking :: nat
  ip_loading :: nat
  ip_verifying :: nat
  ip_completed :: nat

definition default_progress :: install_progress where
  "default_progress = \<lparr>ip_checking = 10, ip_loading = 45, ip_verifying = 75, ip_completed = 95\<rparr>"

definition check_artifact :: "'w module_env \<Rightarrow> module_item \<Rightarrow> ('w, unit) io" where
  "check_artifact M m =
     (if locally_built m then
        andThen (is_built_locally M m) (\<lambda>built.
        thenDo (throwIf (\<not> built) (Error (mi_name m @
          '' has not been built for this installation. Build and publish the module first.'')))
          (h_log (me_host M) (''Using locally built module JAR: modules/'' @ mi_jar m)))
      else
        andThen (me_command M ''modules available'') (\<lambda>available.
        thenDo (log_all (me_host M) available)
          (throwIf (\<not> is_available m available) (Error (mi_name m @
            '' is not available in this LaunchServer image; unsupported artifacts cannot be installed'')))))"

definition install_module :: "'w module_env \<Rightarrow> module_item \<Rightarrow> install_progress \<Rightarrow> ('w, module_result) io" where
  "install_module M m p =
     (let H = me_host M; cmd = load_command m in
      thenDo (h_progress H (ip_checking p) (''Checking '' @ mi_name m @ '' runtime availability''))
      (thenDo (check_artifact M m)
      (andThen (me_command M ''modules list'') (\<lambda>before.
       thenDo (log_all H before)
       (if is_loaded m before then
          thenDo (h_progress H (ip_completed p) (mi_name m @ '' is already loaded'')) (ret (module_result m cmd True))
        else
          thenDo (h_progress H (ip_loading p) (''Loading '' @ mi_name m @ '' through LaunchServer''))
          (andThen (me_command M cmd) (\<lambda>ls.
           thenDo (log_all H ls)
           (thenDo (h_progress H (ip_verifying p) (''Verifying '' @ mi_name m @ '' loaded state''))
           (andThen (me_command M ''modules list'') (\<lambda>after.
            thenDo (log_all H after)
            (thenDo (throwIf (\<not> is_loaded m after) (Error (''LaunchServer did not report '' @ mi_name m @ '' as loaded'')))
            (thenDo (h_progress H (ip_completed p) (mi_name m @ '' loaded and persisted in modules.json''))
              (ret (module_result m cmd False))))))))))))))"

section \<open>Removal\<close>

definition module_references :: "module_item \<Rightarrow> string list" where
  "module_references m = [mi_id m, mi_name m, mi_jar m, ''modules/'' @ mi_jar m, ''/app/data/modules/'' @ mi_jar m]"

definition without_reference :: "module_item \<Rightarrow> string \<Rightarrow> json option \<Rightarrow> js_error + json" where
  "without_reference m key v =
     (case (case v of None \<Rightarrow> JArr [] | Some JNull \<Rightarrow> JArr [] | Some x \<Rightarrow> x) of
        JArr xs \<Rightarrow>
          if list_all (\<lambda>x. as_string x \<noteq> None) xs
          then Inr (JArr (filter (\<lambda>x. case x of JStr s \<Rightarrow> s \<notin> set (module_references m) | _ \<Rightarrow> True) xs))
          else Inl (Error (''Unable to parse modules.json: '' @ key @ '' must be an array of strings''))
      | _ \<Rightarrow> Inl (Error (''Unable to parse modules.json: '' @ key @ '' must be an array of strings'')))"

definition without_module :: "'w host \<Rightarrow> string \<Rightarrow> module_item \<Rightarrow> js_error + json" where
  "without_module H config m = (case h_parse H config of
     None \<Rightarrow> Inl (Error (''Unable to parse modules.json: JSON''))
   | Some (JObj kvs) \<Rightarrow> (case without_reference m ''loadModules'' (map_of kvs ''loadModules'') of
         Inl e \<Rightarrow> Inl e
       | Inr server \<Rightarrow> (case without_reference m ''loadLauncherModules'' (map_of kvs ''loadLauncherModules'') of
           Inl e \<Rightarrow> Inl e
         | Inr launcher \<Rightarrow> Inr (JObj (obj_put ''loadLauncherModules'' launcher (obj_put ''loadModules'' server kvs)))))
   | Some _ \<Rightarrow> Inl (Error ''Unable to parse modules.json: expected an object''))"

definition recovery_step :: "string \<Rightarrow> ('w, unit) io \<Rightarrow> ('w, string list) io" where
  "recovery_step label p = tryCatch (thenDo p (ret [])) (\<lambda>e. ret [label @ '': '' @ error_message e])"

definition removal_failed :: "module_item \<Rightarrow> string list \<Rightarrow> js_error" where
  "removal_failed m issues = Error (''Unable to remove '' @ mi_name m @ ''; the previous module state was restored.'' @
     (if issues = [] then [] else '' Recovery issues: '' @ join_with ''; '' issues))"

definition put_back_module ::
  "'w module_env \<Rightarrow> module_item \<Rightarrow> ('w, unit) io \<Rightarrow> string \<Rightarrow> string \<Rightarrow> ('w, 'a) io" where
  "put_back_module M m restart config backup =
     (let V = module_volume M in
      andThen (recovery_step ''JAR restore failed'' (vol_move V backup (''modules/'' @ mi_jar m))) (\<lambda>a.
      andThen (recovery_step ''modules.json restore failed'' (vol_write V ''modules.json'' config M0644)) (\<lambda>b.
      andThen (recovery_step ''recovery restart failed'' restart) (\<lambda>c.
        raise (removal_failed m (a @ b @ c))))))"

definition backup_of :: "module_item \<Rightarrow> string \<Rightarrow> string" where
  "backup_of m uuid = ''modules/.'' @ mi_jar m @ ''.remove-'' @ uuid"

definition stage_removal :: "'w module_env \<Rightarrow> module_item \<Rightarrow> string \<Rightarrow> string \<Rightarrow> ('w, unit) io" where
  "stage_removal M m config backup = tryCatch
     (thenDo (h_progress (me_host M) 45 (''Staging '' @ mi_jar m @ '' for removal''))
       (vol_move (module_volume M) (''modules/'' @ mi_jar m) backup))
     (\<lambda>e. thenDo (vol_write (module_volume M) ''modules.json'' config M0644) (raise e))"

definition unload_removed ::
  "'w module_env \<Rightarrow> module_item \<Rightarrow> ('w, unit) io \<Rightarrow> string \<Rightarrow> string \<Rightarrow> ('w, unit) io" where
  "unload_removed M m restart config backup = tryCatch
     (thenDo (h_progress (me_host M) 60 ''Restarting LaunchServer to unload the module'') restart)
     (\<lambda>e. put_back_module M m restart config backup)"

definition finish_removal :: "'w module_env \<Rightarrow> module_item \<Rightarrow> string \<Rightarrow> ('w, unit) io" where
  "finish_removal M m backup =
     thenDo (h_progress (me_host M) 92 (''Finalizing '' @ mi_name m @ '' removal''))
     (thenDo (vol_remove (module_volume M) backup False)
       (h_progress (me_host M) 95 (mi_name m @ '' removed and LaunchServer restarted'')))"

definition remove_with ::
  "'w module_env \<Rightarrow> module_item \<Rightarrow> ('w, unit) io \<Rightarrow> string \<Rightarrow> json \<Rightarrow> string \<Rightarrow> ('w, unit) io" where
  "remove_with M m restart config changed backup =
     thenDo (h_progress (me_host M) 30 (''Removing '' @ mi_name m @ '' from LaunchServer startup configuration''))
     (thenDo (vol_write (module_volume M) ''modules.json'' (h_stringify (me_host M) changed @ [CHR 0x0A]) M0644)
     (thenDo (stage_removal M m config backup)
     (thenDo (unload_removed M m restart config backup)
       (finish_removal M m backup))))"

definition remove_module :: "'w module_env \<Rightarrow> module_item \<Rightarrow> ('w, unit) io" where
  "remove_module M m =
     (case (me_volume M, me_restart M, vol_read_file (module_volume M)) of
        (True, Some restart, Some read) \<Rightarrow>
          thenDo (h_progress (me_host M) 10 (''Checking '' @ mi_name m @ '' module files''))
          (andThen (vol_exists (module_volume M) (''modules/'' @ mi_jar m) AFile) (\<lambda>there.
           thenDo (throwIf (\<not> there) (Error (mi_name m @ '' module JAR is not installed in this LaunchServer volume'')))
           (andThen (read ''modules.json'') (\<lambda>config.
            andThen (ofSum (without_module (me_host M) config m)) (\<lambda>changed.
            andThen (reading (me_uuid M)) (\<lambda>uuid. remove_with M m restart config changed (backup_of m uuid)))))))
      | _ \<Rightarrow> raise (Error ''Module removal service is not configured''))"

section \<open>The module of the panel\<close>

record 'w docker_build =
  db_host :: "'w host"
  db_run :: "string list \<Rightarrow> bool \<Rightarrow> ('w, command_result) io"
  db_source :: string
  db_source_exists :: "'w \<Rightarrow> bool"
  db_output :: string
  db_mkdir :: "string \<Rightarrow> ('w, unit) io"
  db_rename :: "string \<Rightarrow> string \<Rightarrow> ('w, unit) io"
  db_bytes :: "string \<Rightarrow> ('w, string) io"
  db_uuid :: "'w \<Rightarrow> string"
  db_next :: "('w, unit) io"
  db_name :: string

definition discord_jar :: string where
  "discord_jar = ''DiscordAuthSystem_module.jar''"

definition discord_version :: string where
  "discord_version = ''1.0.11''"

definition discord_version_path :: string where
  "discord_version_path = ''modules/.gravit-panel-discordauthsystem-version''"

definition result_text :: "command_result \<Rightarrow> string" where
  "result_text r = (if std_err r \<noteq> [] then std_err r else std_out r)"

text \<open>A random identifier, after which the source of randomness moves on.\<close>

definition fresh_uuid :: "'w docker_build \<Rightarrow> ('w, string) io" where
  "fresh_uuid D = andThen (reading (db_uuid D)) (\<lambda>u. thenDo (db_next D) (ret u))"

definition run_docker_build :: "'w docker_build \<Rightarrow> ('w, string) io" where
  "run_docker_build D =
     (let H = db_host D in
      thenDo (h_progress H 5 ''Preparing Docker build for DiscordAuthSystem module'')
      (andThen (reading (db_source_exists D)) (\<lambda>there.
       thenDo (throwIf (\<not> there) (Error (''DiscordAuthSystem module source not found at '' @ db_source D)))
       (andThen (fresh_uuid D) (\<lambda>u1.
        andThen (fresh_uuid D) (\<lambda>u2.
        let image_tag = ''gravit-panel/discord-auth-module-builder:'' @ u1; container = ''discord-auth-module-extract-'' @ u2 in
        thenDo (h_progress H 15 ''Building module image with Docker'')
        (andThen (db_run D [''docker'', ''build'', ''-t'', image_tag, ''.''] True) (\<lambda>built.
         thenDo (throwIf (exit_code built \<noteq> 0) (Error (''Docker build failed: '' @ result_text built)))
         (thenDo (h_progress H 60 ''Extracting module JAR from image'')
         (andThen (db_run D [''docker'', ''create'', ''--name'', container, image_tag] False) (\<lambda>created.
          thenDo (throwIf (exit_code created \<noteq> 0) (Error (''Unable to create extraction container: '' @ result_text created)))
          (try_always
            (thenDo (db_mkdir D (db_output D))
             (andThen (fresh_uuid D) (\<lambda>u3.
              let target = path_join [db_output D, discord_jar]; temp = target @ ''.pending-'' @ u3 in
              andThen (db_run D [''docker'', ''cp'', container @ '':/'' @ discord_jar, temp] False) (\<lambda>copied.
              thenDo (throwIf (exit_code copied \<noteq> 0) (Error (''Unable to extract module JAR: '' @ result_text copied)))
              (thenDo (db_rename D temp target)
              (thenDo (h_progress H 80 (''Module JAR written to '' @ target))
                (ret target)))))))
            (thenDo (quiet (db_run D [''docker'', ''rm'', ''-f'', container] False))
              (quiet (db_run D [''docker'', ''rmi'', ''-f'', image_tag] False)))))))))))))))"

definition copy_jar :: "'w docker_build \<Rightarrow> string \<Rightarrow> ('w, unit) io" where
  "copy_jar D jar =
     (let H = db_host D; V = h_volume H; target = ''modules/'' @ discord_jar in
      andThen (db_bytes D jar) (\<lambda>bytes.
      thenDo (h_progress H 85 (''Copying JAR to installation '' @ db_name D @ '' modules directory''))
      (thenDo (vol_write V target bytes M0644)
      (andThen (vol_exists V target AFile) (\<lambda>there.
       thenDo (throwIf (\<not> there) (Error ''DiscordAuthSystem module JAR was not published to the LaunchServer volume''))
       (thenDo (vol_write V discord_version_path (discord_version @ [CHR 0x0A]) M0644)
         (h_progress H 95 ''Module JAR published to LaunchServer modules directory'')))))))"

definition build_discord_module :: "'w docker_build \<Rightarrow> ('w, string) io" where
  "build_discord_module D = andThen (run_docker_build D) (\<lambda>jar. thenDo (copy_jar D jar) (ret jar))"

end
