(* ===== verification/Module_Properties.thy ===== *)
theory Module_Properties
  imports Launch_Modules Mod_Properties
begin

text \<open>
  What the removal of a module keeps: its jar file is there, or its backup, or LaunchServer starts without it; and a
  removal that reports a clean recovery has put everything back.
\<close>

section \<open>Names\<close>

definition jar_abs :: "module_item \<Rightarrow> string" where
  "jar_abs m = ''/app/data/modules/'' @ mi_jar m"

definition modules_abs :: string where
  "modules_abs = ''/app/data/modules.json''"

definition jar_backup_abs :: "module_item \<Rightarrow> string \<Rightarrow> string" where
  "jar_backup_abs m u = ''/app/data/modules/.'' @ mi_jar m @ ''.remove-'' @ u"

definition plain_file :: "string \<Rightarrow> bool" where
  "plain_file s \<longleftrightarrow> s \<noteq> [] \<and> list_all (\<lambda>c. c \<noteq> CHR ''/'' \<and> c \<noteq> CHR 0x00) s \<and> s \<noteq> ''.'' \<and> s \<noteq> ''..''"

lemma catalog_jars: "list_all (\<lambda>m. plain_file (mi_jar m)) module_catalog_items"
  by code_simp

lemma catalog_jar_plain:
  assumes "m \<in> set module_catalog_items"
  shows "plain_segment (mi_jar m) \<and> CHR 0x00 \<notin> set (mi_jar m)"
  using catalog_jars assms by (auto simp: list_all_iff plain_file_def plain_segment_def)

lemma in_modules_abs:
  assumes "plain_segment f" and "CHR 0x00 \<notin> set f"
  shows "vol_absolute (''modules/'' @ f) = Inr (''/app/data/modules/'' @ f)"
  using vol_absolute_plain[of "[''modules'', f]"] assms by (simp add: plain_segment_def)

lemma modules_json_abs: "vol_absolute ''modules.json'' = Inr modules_abs"
  using vol_absolute_plain[of "[''modules.json'']"] by (simp add: modules_abs_def plain_segment_def)

section \<open>The removal\<close>

definition jar_kept :: "('w \<Rightarrow> string \<Rightarrow> string option) \<Rightarrow> module_item \<Rightarrow> string \<Rightarrow> 'w \<Rightarrow> bool" where
  "jar_kept fs m bytes t \<longleftrightarrow> fs t (jar_abs m) = Some bytes \<or> (\<exists>u. fs t (jar_backup_abs m u) = Some bytes)"

definition removed :: "'w module_env \<Rightarrow> ('w \<Rightarrow> string \<Rightarrow> string option) \<Rightarrow> module_item \<Rightarrow> string \<Rightarrow> 'w \<Rightarrow> bool" where
  "removed M fs m config t \<longleftrightarrow> fs t (jar_abs m) = None \<and>
     (\<exists>j. without_module (me_host M) config m = Inr j \<and> fs t modules_abs = Some (h_stringify (me_host M) j @ [CHR 0x0A]))"

locale module_files = moving_volume "module_volume M" fs isdir
  for M :: "'w module_env" and fs :: "'w \<Rightarrow> string \<Rightarrow> string option" and isdir +
  assumes exists_keeps: "keeps fs (vol_exists (module_volume M) p k)"
    and read_is: "vol_read_file (module_volume M) = Some rd \<Longrightarrow> vol_absolute p = Inr a \<Longrightarrow> rd p w = (r, t) \<Longrightarrow>
      fs t = fs w \<and> (\<forall>s. r = Inr s \<longrightarrow> fs w a = Some s)"
    and restart_keeps: "me_restart M = Some rs \<Longrightarrow> keeps fs rs"
    and progress_keeps: "keeps fs (h_progress (me_host M) n msg)"
    and uuid_plain: "CHR ''/'' \<notin> set (me_uuid M w) \<and> CHR 0x00 \<notin> set (me_uuid M w)"
    and files_only: "\<not> isdir w modules_abs \<and> \<not> isdir w (''/app/data/modules/'' @ x)"
begin

lemma quiet_step:
  assumes "keeps fs p" and "\<And>x t. fs t = fs s \<Longrightarrow> Q x t" and "\<And>e t. fs t = fs s \<Longrightarrow> E e t"
  shows "wp p Q E s"
  by (rule wp_mono[OF keeps_wp[OF assms(1)]]) (auto intro: assms)

lemma names:
  assumes "m \<in> set module_catalog_items"
  shows "vol_absolute (''modules/'' @ mi_jar m) = Inr (jar_abs m)"
    and "vol_absolute (backup_of m (me_uuid M w)) = Inr (jar_backup_abs m (me_uuid M w))"
proof -
  note j = catalog_jar_plain[OF assms]
  show "vol_absolute (''modules/'' @ mi_jar m) = Inr (jar_abs m)"
    using in_modules_abs j by (simp add: jar_abs_def)
  have "plain_segment (''.'' @ mi_jar m @ ''.remove-'' @ me_uuid M w)"
    using j uuid_plain[of w] by (auto simp: plain_segment_def)
  then show "vol_absolute (backup_of m (me_uuid M w)) = Inr (jar_backup_abs m (me_uuid M w))"
    using in_modules_abs[of "''.'' @ mi_jar m @ ''.remove-'' @ me_uuid M w"] j uuid_plain[of w]
    by (simp add: backup_of_def jar_backup_abs_def)
qed

lemma apart:
  "jar_abs m \<noteq> modules_abs" "jar_backup_abs m u \<noteq> modules_abs" "jar_backup_abs m u \<noteq> jar_abs m"
  "\<not> prefix (modules_abs @ ''.pending-'') (jar_abs m)" "\<not> prefix (modules_abs @ ''.pending-'') (jar_backup_abs m u)"
  "\<not> prefix (jar_backup_abs m u @ ''/'') (jar_abs m)" "\<not> prefix (jar_backup_abs m u @ ''/'') modules_abs"
  by (auto simp: jar_abs_def modules_abs_def jar_backup_abs_def dest: prefix_length_le arg_cong[where f = length])

lemma write_config:
  assumes "\<And>t. fs t modules_abs = Some b \<Longrightarrow> fs t (jar_abs m) = fs s (jar_abs m) \<Longrightarrow>
      fs t (jar_backup_abs m u) = fs s (jar_backup_abs m u) \<Longrightarrow> Q () t"
    and "\<And>e t. fs t (jar_abs m) = fs s (jar_abs m) \<Longrightarrow> fs t (jar_backup_abs m u) = fs s (jar_backup_abs m u) \<Longrightarrow> E e t"
  shows "wp (vol_write (module_volume M) ''modules.json'' b md) Q E s"
proof -
  have nd: "\<forall>v. \<not> isdir v modules_abs" using files_only by blast
  have "(r = Inr () \<longrightarrow> fs t modules_abs = Some b) \<and> fs t (jar_abs m) = fs s (jar_abs m) \<and>
      fs t (jar_backup_abs m u) = fs s (jar_backup_abs m u)"
    if "vol_write (module_volume M) ''modules.json'' b md s = (r, t)" for r t
    using written[OF modules_json_abs nd that] apart by blast
  with assms show ?thesis unfolding wp_result by fastforce
qed

definition kept :: "module_item \<Rightarrow> string \<Rightarrow> string \<Rightarrow> 'w \<Rightarrow> bool" where
  "kept m u bytes t \<longleftrightarrow> fs t (jar_abs m) = Some bytes \<or> fs t (jar_backup_abs m u) = Some bytes"

lemma stage_module:
  assumes "m \<in> set module_catalog_items" and "u = me_uuid M w" and "fs s (jar_abs m) = Some bytes"
    and "\<And>t. fs t = (fs s)(jar_abs m := None, jar_backup_abs m u := Some bytes) \<Longrightarrow> Q () t"
    and "\<And>e t. kept m u bytes t \<Longrightarrow> E e t"
  shows "wp (vol_move (module_volume M) (''modules/'' @ mi_jar m) (backup_of m u)) Q E s"
proof (rule wp_renamed[OF names(1)[OF assms(1)] names(2)[OF assms(1), of w, folded assms(2)] apart(3)[symmetric] _ assms(3)])
  show "\<forall>v. \<not> isdir v (jar_backup_abs m u)"
    using files_only[of _ "''.'' @ mi_jar m @ ''.remove-'' @ u"] by (simp add: jar_backup_abs_def)
  show "E e t" if "fs t = (fs s)(jar_abs m := None, jar_backup_abs m u := Some bytes) \<or> fs t = fs s" for e t
    using that assms(3) apart(3) by (intro assms(5)) (auto simp: kept_def)
qed (rule assms(4))

lemma unstage_module:
  assumes "m \<in> set module_catalog_items" and "u = me_uuid M w" and "fs s (jar_backup_abs m u) = Some bytes"
    and "\<And>t. fs t = (fs s)(jar_backup_abs m u := None, jar_abs m := Some bytes) \<Longrightarrow> Q () t"
    and "\<And>e t. kept m u bytes t \<Longrightarrow> E e t"
  shows "wp (vol_move (module_volume M) (backup_of m u) (''modules/'' @ mi_jar m)) Q E s"
proof (rule wp_renamed[OF names(2)[OF assms(1), of w, folded assms(2)] names(1)[OF assms(1)] apart(3) _ assms(3)])
  show "\<forall>v. \<not> isdir v (jar_abs m)"
    using files_only[of _ "mi_jar m"] by (simp add: jar_abs_def)
  show "E e t" if "fs t = (fs s)(jar_backup_abs m u := None, jar_abs m := Some bytes) \<or> fs t = fs s" for e t
    using that assms(3) apart(3) by (intro assms(5)) (auto simp: kept_def)
qed (rule assms(4))

lemma put_back_keeps:
  assumes m: "m \<in> set module_catalog_items" and u: "u = me_uuid M w" and rs: "me_restart M = Some rs"
    and b: "fs s (jar_backup_abs m u) = Some bytes"
  shows "wp (put_back_module M m rs config (backup_of m u)) (\<lambda>_ _. False)
    (\<lambda>e t. kept m u bytes t \<and> (e = removal_failed m [] \<longrightarrow>
       fs t (jar_abs m) = Some bytes \<and> fs t modules_abs = Some config)) s"
proof -
  have failed: "removal_failed m xs = removal_failed m [] \<longleftrightarrow> xs = []" for "xs"
    by (cases "xs") (auto simp: removal_failed_def)
  let ?P = "\<lambda>xs t. kept m u bytes t \<and> (xs = [] \<longrightarrow> fs t (jar_abs m) = Some bytes)"
  let ?R = "\<lambda>xs t. ?P xs t \<and> (xs = [] \<longrightarrow> fs t modules_abs = Some config)"
  have third: "wp (recovery_step ''recovery restart failed'' rs) (\<lambda>c. wp (raise (removal_failed m (xs @ c)))
      (\<lambda>_ _. False) (\<lambda>e t. kept m u bytes t \<and> (e = removal_failed m [] \<longrightarrow>
       fs t (jar_abs m) = Some bytes \<and> fs t modules_abs = Some config))) E t" if "?R xs t" for xs t E
    unfolding recovery_step_def wp_tryCatch wp_thenDo
    by (rule quiet_step[OF restart_keeps[OF rs]]; use that in \<open>simp add: wp_simps failed kept_def\<close>)
  have second: "wp (recovery_step ''modules.json restore failed'' (vol_write (module_volume M) ''modules.json'' config M0644))
      (\<lambda>b. ?R (xs @ b)) E t" if "?P xs t" for xs t E
    unfolding recovery_step_def wp_tryCatch wp_thenDo
    by (rule write_config[where m = m and u = u]; use that in \<open>simp add: wp_simps kept_def\<close>)
  have first: "wp (recovery_step ''JAR restore failed'' (vol_move (module_volume M) (backup_of m u) (''modules/'' @ mi_jar m)))
      ?P E s" for E
    unfolding recovery_step_def wp_tryCatch wp_thenDo
    by (rule unstage_module[OF m u b]) (simp_all add: wp_simps kept_def)
  show ?thesis
    unfolding put_back_module_def Let_def wp_andThen
  proof (rule wp_mono[OF first])
    fix a :: "string list" and t assume p: "?P a t"
    show "wp (recovery_step ''modules.json restore failed'' (vol_write (module_volume M) ''modules.json'' config M0644))
      (\<lambda>b. wp (recovery_step ''recovery restart failed'' rs) (\<lambda>c. wp (raise (removal_failed m (a @ b @ c)))
        (\<lambda>_ _. False) (\<lambda>e t. kept m u bytes t \<and> (e = removal_failed m [] \<longrightarrow>
         fs t (jar_abs m) = Some bytes \<and> fs t modules_abs = Some config)))
        (\<lambda>e t. kept m u bytes t \<and> (e = removal_failed m [] \<longrightarrow>
         fs t (jar_abs m) = Some bytes \<and> fs t modules_abs = Some config)))
      (\<lambda>e t. kept m u bytes t \<and> (e = removal_failed m [] \<longrightarrow>
         fs t (jar_abs m) = Some bytes \<and> fs t modules_abs = Some config)) t"
    proof (rule wp_mono[OF second[OF p]])
      fix b :: "string list" and v assume "?R (a @ b) v"
      from third[OF this] show "wp (recovery_step ''recovery restart failed'' rs) (\<lambda>c. wp (raise (removal_failed m (a @ b @ c)))
        (\<lambda>_ _. False) (\<lambda>e t. kept m u bytes t \<and> (e = removal_failed m [] \<longrightarrow>
         fs t (jar_abs m) = Some bytes \<and> fs t modules_abs = Some config)))
        (\<lambda>e t. kept m u bytes t \<and> (e = removal_failed m [] \<longrightarrow>
         fs t (jar_abs m) = Some bytes \<and> fs t modules_abs = Some config)) v"
        by (simp only: append_assoc)
    qed
  qed
qed

abbreviation done_or_kept :: "module_item \<Rightarrow> string \<Rightarrow> string \<Rightarrow> js_error \<Rightarrow> 'w \<Rightarrow> bool" where
  "done_or_kept m bytes config \<equiv> \<lambda>e t. jar_kept fs m bytes t \<or> removed M fs m config t"

abbreviation started_without :: "module_item \<Rightarrow> string \<Rightarrow> 'w \<Rightarrow> bool" where
  "started_without m config t \<equiv>
     \<exists>j. without_module (me_host M) config m = Inr j \<and> fs t modules_abs = Some (h_stringify (me_host M) j @ [CHR 0x0A])"

lemma finish_ok:
  assumes m: "m \<in> set module_catalog_items" and r: "removed M fs m config t"
  shows "wp (finish_removal M m (backup_of m (me_uuid M w))) (\<lambda>_. removed M fs m config) (done_or_kept m bytes config) t"
  unfolding finish_removal_def wp_thenDo
proof (rule quiet_step[OF progress_keeps])
  fix u assume u: "fs u = fs t"
  have "removed M fs m config v" if "vol_remove (module_volume M) (backup_of m (me_uuid M w)) False u = (x, v)" for x v
  proof -
    have "fs v (jar_abs m) = fs u (jar_abs m)" "fs v modules_abs = fs u modules_abs"
      using erased[OF names(2)[OF m] that] apart by metis+
    with r u show ?thesis by (simp add: removed_def)
  qed
  then show "wp (vol_remove (module_volume M) (backup_of m (me_uuid M w)) False)
      (\<lambda>_. wp (h_progress (me_host M) 95 (mi_name m @ '' removed and LaunchServer restarted''))
        (\<lambda>_. removed M fs m config) (done_or_kept m bytes config)) (done_or_kept m bytes config) u"
    unfolding wp_result[of "vol_remove _ _ _"] by (auto intro!: quiet_step[OF progress_keeps] simp: removed_def)
qed (use r in \<open>simp add: removed_def\<close>)

lemma unload_ok:
  assumes m: "m \<in> set module_catalog_items" and rs: "me_restart M = Some rs"
    and gone: "fs t (jar_abs m) = None" and saved: "fs t (jar_backup_abs m (me_uuid M w)) = Some bytes"
    and new: "started_without m config t"
  shows "wp (unload_removed M m rs config (backup_of m (me_uuid M w))) (\<lambda>_. removed M fs m config) (done_or_kept m bytes config) t"
proof -
  have undo: "wp (put_back_module M m rs config (backup_of m (me_uuid M w))) (\<lambda>_. removed M fs m config) (done_or_kept m bytes config) u"
    if "fs u = fs t" for u
    by (rule wp_mono[OF put_back_keeps[OF m refl rs]]) (use saved that in \<open>auto simp: kept_def jar_kept_def\<close>)
  show ?thesis
    unfolding unload_removed_def wp_tryCatch wp_thenDo
    by (rule quiet_step[OF progress_keeps]; (rule quiet_step[OF restart_keeps[OF rs]])?)
      (use gone new undo in \<open>auto simp: removed_def\<close>)
qed

lemma stage_ok:
  assumes m: "m \<in> set module_catalog_items" and there: "fs t (jar_abs m) = Some bytes" and new: "started_without m config t"
  shows "wp (stage_removal M m config (backup_of m (me_uuid M w)))
    (\<lambda>_ u. fs u (jar_abs m) = None \<and> fs u (jar_backup_abs m (me_uuid M w)) = Some bytes \<and> started_without m config u)
    (done_or_kept m bytes config) t"
proof -
  have undo: "wp (thenDo (vol_write (module_volume M) ''modules.json'' config M0644) (raise e)) Q (done_or_kept m bytes config) u"
    if "kept m (me_uuid M w) bytes u" for e u and Q :: "unit \<Rightarrow> 'w \<Rightarrow> bool"
    unfolding wp_thenDo
    by (rule write_config[where m = m and u = "me_uuid M w"]; use that in \<open>auto simp: wp_simps kept_def jar_kept_def\<close>)
  have ne: "modules_abs \<noteq> jar_abs m" "modules_abs \<noteq> jar_backup_abs m (me_uuid M w)"
    "jar_abs m \<noteq> jar_backup_abs m (me_uuid M w)" using apart(1-3) by metis+
  show ?thesis
    unfolding stage_removal_def wp_tryCatch wp_thenDo[of "h_progress _ _ _"]
    by (rule quiet_step[OF progress_keeps], rule stage_module[OF m refl, where w = w])
      (use there new ne in \<open>auto intro!: undo simp: kept_def\<close>)
qed

lemma remove_with_ok:
  assumes m: "m \<in> set module_catalog_items" and rs: "me_restart M = Some rs"
    and there: "fs t (jar_abs m) = Some bytes" and new: "without_module (me_host M) config m = Inr changed"
  shows "wp (remove_with M m rs config changed (backup_of m (me_uuid M w))) (\<lambda>_. removed M fs m config)
    (done_or_kept m bytes config) t"
  unfolding remove_with_def wp_thenDo
proof (rule quiet_step[OF progress_keeps], rule write_config[where m = m and u = "[]"])
  fix u v assume "fs u = fs t" "fs v modules_abs = Some (h_stringify (me_host M) changed @ [CHR 0x0A])"
    "fs v (jar_abs m) = fs u (jar_abs m)"
  with there new have "fs v (jar_abs m) = Some bytes" "started_without m config v" by auto
  from stage_ok[OF m this, of w] show "wp (stage_removal M m config (backup_of m (me_uuid M w)))
      (\<lambda>_. wp (unload_removed M m rs config (backup_of m (me_uuid M w)))
        (\<lambda>_. wp (finish_removal M m (backup_of m (me_uuid M w))) (\<lambda>_. removed M fs m config) (done_or_kept m bytes config))
        (done_or_kept m bytes config)) (done_or_kept m bytes config) v"
    by (rule wp_mono) (auto intro!: wp_mono[OF unload_ok[OF m rs]] finish_ok[OF m])
qed (use there in \<open>auto simp: jar_kept_def\<close>)

lemma remove_keeps:
  assumes m: "m \<in> set module_catalog_items" and j: "fs s (jar_abs m) = Some bytes" and c: "fs s modules_abs = Some config"
  shows "wp (remove_module M m) (\<lambda>_. removed M fs m config) (done_or_kept m bytes config) s"
proof (cases "me_volume M \<and> me_restart M \<noteq> None \<and> vol_read_file (module_volume M) \<noteq> None")
  case False
  then have "remove_module M m = raise (Error ''Module removal service is not configured'')"
    by (auto simp: remove_module_def split: option.splits bool.splits)
  with j show ?thesis by (simp add: wp_simps jar_kept_def)
next
  case True
  then obtain rs rd where rs: "me_restart M = Some rs" and rd: "vol_read_file (module_volume M) = Some rd" and v: "me_volume M"
    by auto
  have read: "wp (rd ''modules.json'') (\<lambda>x t. x = config \<and> fs t = fs s) (\<lambda>_ t. fs t = fs s) t" if "fs t = fs s" for t
    unfolding wp_result using read_is[OF rd modules_json_abs] that c by fastforce
  have body: "wp (andThen (rd ''modules.json'') (\<lambda>config. andThen (ofSum (without_module (me_host M) config m)) (\<lambda>changed.
      andThen (reading (me_uuid M)) (\<lambda>uuid. remove_with M m rs config changed (backup_of m uuid)))))
      (\<lambda>_. removed M fs m config) (done_or_kept m bytes config) t" if "fs t = fs s" for t
    unfolding wp_andThen[of "rd ''modules.json''"]
  proof (rule wp_mono[OF read[OF that]])
    fix x v assume x: "x = config \<and> fs v = fs s"
    then have "fs v (jar_abs m) = Some bytes" "jar_kept fs m bytes v" using j by (simp_all add: jar_kept_def)
    with x show "wp (andThen (ofSum (without_module (me_host M) x m)) (\<lambda>changed.
        andThen (reading (me_uuid M)) (\<lambda>uuid. remove_with M m rs x changed (backup_of m uuid))))
        (\<lambda>_. removed M fs m config) (done_or_kept m bytes config) v"
      by (auto simp: wp_simps intro: remove_with_ok[OF m rs] split: sum.split)
  qed (use j in \<open>simp add: jar_kept_def\<close>)
  show ?thesis
    using True rs rd
    by (simp add: remove_module_def wp_andThen wp_thenDo)
      (rule quiet_step[OF progress_keeps]; (rule quiet_step[OF exists_keeps])?; use j body[unfolded wp_andThen] in \<open>simp add: wp_throwIf jar_kept_def\<close>)
qed

end

text \<open>A LaunchServer of files in memory, whose restart fails or not.\<close>

definition modules_before :: json where
  "modules_before = JObj [(''loadModules'', JArr [JStr ''MirrorHelper_module'', JStr ''Prestarter_module''])]"

definition memory_modules :: "bool \<Rightarrow> memory module_env" where
  "memory_modules ok = \<lparr>me_host = memory_host True (\<lambda>_. Some modules_before) (\<lambda>_. ''new''), me_command = (\<lambda>_. ret []),
     me_installation = ''u1'', me_restart = Some (if ok then ret () else raise (Error ''down'')), me_volume = True,
     me_uuid = (\<lambda>_. ''7'')\<rparr>"

interpretation memory_removal: module_files "memory_modules ok" "\<lambda>w. w" "\<lambda>_ _. False"
proof -
  have "moving_volume (module_volume (memory_modules ok)) (\<lambda>w. w) (\<lambda>_ _. False)"
    using memory_moves.moves_contract[of "\<lambda>_. ''1''" "\<lambda>a b. a \<le> b" 0 0]
    by (simp add: memory_modules_def memory_host_def)
  moreover have "keeps (\<lambda>w. w) (vol_exists memory_ops p k)" for p k
    by (auto simp: keeps_def container_ops_def cv_exists_def mem_run_simps exec_simps split: sum.splits)
  moreover have "t = w \<and> (\<forall>s. r = Inr s \<longrightarrow> w a = Some s)"
    if "vol_absolute p = Inr a" "cv_read_file mem_run p w = (r, t)" for p a w r t
    using that by (auto simp: cv_read_file_def mem_run_simps exec_simps split: option.splits if_splits)
  ultimately show "module_files (memory_modules ok) (\<lambda>w. w) (\<lambda>_ _. False)"
    unfolding module_files_def module_files_axioms_def
    by (auto simp: memory_modules_def memory_host_def container_ops_def intro: keeps_intros)
qed


definition mirror_helper :: module_item where
  "mirror_helper = catalog_module ''MirrorHelper'' ServerModule ''Adds client, mod, workspace, and authlib helper commands.''"

lemma mirror_helper_listed: "mirror_helper \<in> set module_catalog_items"
  by (simp add: mirror_helper_def module_catalog_items_def all_server_modules_def)

definition modules_memory :: memory where
  "modules_memory = [''/app/data/modules/MirrorHelper_module.jar'' \<mapsto> ''jar'', ''/app/data/modules.json'' \<mapsto> ''old'']"


text \<open>A recovery that reports no issues has put both files back.\<close>

lemma clean_recovery_restores:
  assumes "module_files M fs isdir" and "m \<in> set module_catalog_items" and "me_restart M = Some rs"
    and "fs s (jar_backup_abs m (me_uuid M w)) = Some bytes"
    and "put_back_module M m rs config (backup_of m (me_uuid M w)) s = (Inl (removal_failed m []), t)"
  shows "fs t (jar_abs m) = Some bytes \<and> fs t modules_abs = Some config"
  using wp_throws[OF module_files.put_back_keeps[OF assms(1,2) refl assms(3,4)] assms(5)] by simp

end
