(* ===== verification/Launch_Files.thy ===== *)
theory Launch_Files
  imports Profile_Service Control_Transport
begin

text \<open>
  \<^verbatim>\<open>launchserver-files.service.ts\<close>, the file browser of the data directory;
  \<^verbatim>\<open>remote-control-setup.service.ts\<close>, which writes a restricted token for the HTTP endpoint and stores it;
  and \<^verbatim>\<open>launchserver-startup.service.ts\<close>, which restarts an unhealthy LaunchServer. The command runner of
  the container, UTF-8 and base64 decoding and SHA-256 are fields of the record \<open>browser_env\<close>.
\<close>

section \<open>Paths that are open\<close>

definition file_limit :: nat where
  "file_limit = 512 * 1024"

definition trash_root :: string where
  "trash_root = ''.gravit-panel-trash''"

definition blocked_paths :: "string list" where
  "blocked_paths = [''control-file'', ''build-secrets.json'', ''launchserver.json'', ''null'', ''truststore'',
     ''config/discordauthsystem'', ''config/fileauthsystem'', ''config/launchserver.json'', ''config/remotecontrol'']"

definition is_protected :: "string \<Rightarrow> bool" where
  "is_protected normalized \<longleftrightarrow>
     list_ex (prefix ''.'') (split_slash normalized) \<or>
     list_ex (\<lambda>b. js_lower normalized = b \<or> prefix (b @ ''/'') (js_lower normalized)) blocked_paths"

definition safe_path :: "string \<Rightarrow> bool \<Rightarrow> js_error + string" where
  "safe_path path allowRoot =
     (if CHR 0x00 \<in> set path \<or> CHR 0x5C \<in> set path \<or> is_absolute path then Inl (Error ''Invalid file path'')
      else let normalized = path_normalize (if path = [] then ''.'' else path) in
        if normalized = ''.'' then (if allowRoot then Inr [] else Inl (Error ''A file path is required''))
        else if normalized = ''..'' \<or> prefix ''../'' normalized \<or> 32 < length (split_slash normalized)
        then Inl (Error ''File path escapes the LaunchServer data directory'')
        else if is_protected normalized then Inl (Error ''This LaunchServer path is protected'')
        else Inr normalized)"

section \<open>The browser\<close>

record 'w browser_env =
  fb_run :: "'w container_run"
  fb_number :: "string \<Rightarrow> rat option"
  fb_date :: "string \<Rightarrow> js_error + string"
  fb_base64 :: "string \<Rightarrow> string"
  fb_utf8 :: "string \<Rightarrow> js_error + string"
  fb_sha256 :: "string \<Rightarrow> string"
  fb_uuid :: "'w \<Rightarrow> string"
  fb_now :: "'w \<Rightarrow> nat"

definition is_ok :: "'e + 'a \<Rightarrow> bool" where
  "is_ok r \<longleftrightarrow> (case r of Inl _ \<Rightarrow> False | Inr _ \<Rightarrow> True)"

definition ls_list :: "'w browser_env \<Rightarrow> string \<Rightarrow> ('w, string \<times> volume_entry list) io" where
  "ls_list B path =
     andThen (ofSum (safe_path path True)) (\<lambda>safe.
     thenDo (do_when (safe \<noteq> []) (cv_assert_no_symlinks (fb_run B) safe True))
     (andThen (cv_list_entries (fb_run B) (fb_number B) (fb_date B) safe) (\<lambda>es.
        ret (safe, take 500 (filter (\<lambda>e. is_ok (safe_path (entry_path e) False)) es)))))"

record text_file =
  tf_path :: string
  tf_content :: string
  tf_size :: nat
  tf_sha256 :: string

definition ls_read :: "'w browser_env \<Rightarrow> string \<Rightarrow> ('w, text_file) io" where
  "ls_read B path =
     andThen (ofSum (safe_path path False)) (\<lambda>safe.
     thenDo (cv_assert_no_symlinks (fb_run B) safe True)
     (andThen (cv_read_file_bytes (fb_run B) (fb_base64 B) safe file_limit) (\<lambda>bytes.
      thenDo (throwIf (CHR 0x00 \<in> set bytes) (Error ''Binary files cannot be opened in the text editor''))
      (andThen (ofSum (fb_utf8 B bytes)) (\<lambda>content.
        ret \<lparr>tf_path = safe, tf_content = content, tf_size = length bytes, tf_sha256 = fb_sha256 B bytes\<rparr>)))))"

definition ls_write :: "'w browser_env \<Rightarrow> string \<Rightarrow> string \<Rightarrow> bool \<Rightarrow> ('w, string \<times> nat) io" where
  "ls_write B path bytes overwrite =
     thenDo (throwIf (file_limit < length bytes) (Error ''File exceeds 512 KiB''))
     (andThen (ofSum (safe_path path False)) (\<lambda>safe.
      thenDo (cv_assert_no_symlinks (fb_run B) safe False)
      (andThen (if overwrite then ret False else cv_exists (fb_run B) safe AFile) (\<lambda>there.
       thenDo (throwIf there (Error ''Destination already exists''))
       (thenDo (cv_write_file_atomic (fb_run B) (fb_uuid B) safe bytes M0644)
         (ret (safe, length bytes)))))))"

definition ls_mkdir :: "'w browser_env \<Rightarrow> string \<Rightarrow> ('w, string) io" where
  "ls_mkdir B path =
     andThen (ofSum (safe_path path False)) (\<lambda>safe.
     thenDo (cv_assert_no_symlinks (fb_run B) safe False)
     (andThen (cv_exists (fb_run B) safe ADirectory) (\<lambda>there.
      thenDo (throwIf there (Error ''Destination already exists''))
      (thenDo (cv_ensure_directory (fb_run B) safe) (ret safe)))))"

definition ls_move :: "'w browser_env \<Rightarrow> string \<Rightarrow> string \<Rightarrow> ('w, string \<times> string) io" where
  "ls_move B sourcePath destinationPath =
     andThen (ofSum (safe_path sourcePath False)) (\<lambda>source.
     andThen (ofSum (safe_path destinationPath False)) (\<lambda>destination.
     thenDo (cv_assert_no_symlinks (fb_run B) source True)
     (thenDo (cv_assert_no_symlinks (fb_run B) destination False)
     (andThen (cv_exists (fb_run B) destination AFile) (\<lambda>f.
      andThen (if f then ret True else cv_exists (fb_run B) destination ADirectory) (\<lambda>there.
      thenDo (throwIf there (Error ''Destination already exists''))
      (thenDo (cv_move (fb_run B) source destination) (ret (source, destination)))))))))"

definition trash_path :: "nat \<Rightarrow> string \<Rightarrow> string \<Rightarrow> string" where
  "trash_path now uuid safe = trash_root @ ''/'' @ show_nat now @ ''-'' @ uuid @ ''-'' @ path_basename safe"

definition remove_one :: "'w browser_env \<Rightarrow> string list \<Rightarrow> string \<Rightarrow> ('w, string list) io" where
  "remove_one B removed path =
     andThen (ofSum (safe_path path False)) (\<lambda>safe.
     thenDo (cv_assert_no_symlinks (fb_run B) safe True)
     (andThen (reading (fb_now B)) (\<lambda>now.
      andThen (reading (fb_uuid B)) (\<lambda>uuid.
      thenDo (cv_move (fb_run B) safe (trash_path now uuid safe))
        (ret (removed @ [safe]))))))"

definition ls_remove :: "'w browser_env \<Rightarrow> string list \<Rightarrow> ('w, string list) io" where
  "ls_remove B paths =
     thenDo (cv_ensure_directory (fb_run B) trash_root) (exec_fold (remove_one B) [] paths)"

section \<open>Setting up the endpoint\<close>

text \<open>The state is the world beside the database that holds the credential.\<close>

type_synonym ('w, 'a) with_db = "('w \<times> panel_db, js_error, 'a) exec"

definition on_world :: "('w, 'a) io \<Rightarrow> ('w, 'a) with_db" where
  "on_world p = (\<lambda>(w, db). case p w of (r, v) \<Rightarrow> (r, (v, db)))"

definition on_db :: "(panel_db, js_error, 'a) exec \<Rightarrow> ('w, 'a) with_db" where
  "on_db p = (\<lambda>(w, db). case p db of (r, db') \<Rightarrow> (r, (w, db')))"

record 'w setup_env =
  se_host :: "'w host"
  se_remote :: "'w remote"
  se_command :: "string \<Rightarrow> ('w, string list) io"
  se_gcm :: gcm
  se_cipher :: cipher
  se_iv :: "'w \<Rightarrow> string"
  se_token :: "'w \<Rightarrow> string"
  se_instant :: "'w \<Rightarrow> instant"
  se_installation :: string
  se_path :: string

definition remote_revision :: string where
  "remote_revision = ''0fcdfade1960c353a9f0bbb2f92055f05e22867d''"

definition remote_config_path :: string where
  "remote_config_path = ''config/RemoteControl/Config.json''"

definition safe_config :: "string option \<Rightarrow> json" where
  "safe_config token = JObj
     [(''list'', JArr (case token of
         Some (c # cs) \<Rightarrow> [JObj [(''token'', JStr (c # cs)), (''permissions'', JNum 0), (''allowAll'', JBool False),
           (''startWithMode'', JBool False), (''commands'', JArr [JStr ''serverStatus'', JStr ''securitycheck''])]]
       | _ \<Rightarrow> [])),
      (''enabled'', JBool (token \<noteq> None \<and> token \<noteq> Some []))]"

definition write_remote_config :: "'w setup_env \<Rightarrow> json \<Rightarrow> ('w, unit) io" where
  "write_remote_config S v = vol_write (h_volume (se_host S)) remote_config_path
     (h_stringify (se_host S) v @ [CHR 0x0A]) M0600"

definition setup_log :: "'w setup_env \<Rightarrow> string list \<Rightarrow> ('w, unit) io" where
  "setup_log S ls = forEach ls (h_log (se_host S))"

text \<open>A colon of the time becomes a dash.\<close>

definition setup_backup :: "'w setup_env \<Rightarrow> ('w, string option) io" where
  "setup_backup S =
     andThen (vol_exists (h_volume (se_host S)) remote_config_path AFile) (\<lambda>there.
     if there then
       andThen (reading (h_timestamp (se_host S))) (\<lambda>time.
       let backup = remote_config_path @ ''.backup-'' @ map (\<lambda>c. if c = CHR '':'' then CHR ''-'' else c) time in
       thenDo (vol_copy (h_volume (se_host S)) remote_config_path backup)
       (thenDo (h_log (se_host S) (''RemoteControl config snapshot created: '' @ path_join [se_path S, ''launcher'', backup]))
         (ret (Some backup))))
     else ret None)"

text \<open>What runs once the configuration is written.\<close>

definition setup_commit :: "'w setup_env \<Rightarrow> string \<Rightarrow> string \<Rightarrow> ('w, unit) with_db" where
  "setup_commit S endpoint token =
     (let H = se_host S in
      thenDo (on_world (h_progress H 50 ''Restricted RemoteControl token config written''))
      (andThen (on_world (se_command S ''modules list'')) (\<lambda>modules.
       thenDo (on_world (setup_log S modules))
       (andThen (on_world (se_command S (if \<exists>l\<in>set modules. sublist ''remotecontrol'' (js_lower l)
           then ''remotecontrol reload'' else ''modules load RemoteControl''))) (\<lambda>ls.
        thenDo (on_world (setup_log S ls))
        (thenDo (on_world (h_progress H 70 ''RemoteControl module loaded with restricted token''))
        (thenDo (on_world (remote_execute (se_remote S) (se_installation S) endpoint token ''serverStatus''))
        (thenDo (on_world (h_progress H 90 ''RemoteControl HTTP transport verified''))
        (andThen (on_world (reading (\<lambda>w. (se_iv S w, se_instant S w)))) (\<lambda>(iv, now).
         thenDo (on_db (save_credential (se_gcm S) (se_cipher S) iv now (se_installation S) endpoint token remote_revision))
           (on_world (h_log H ''Encrypted RemoteControl credential stored''))))))))))))"

definition setup_undo :: "'w setup_env \<Rightarrow> ('w, unit) with_db" where
  "setup_undo S =
     thenDo (on_world (write_remote_config S (safe_config None)))
     (thenDo (on_db (writing (delete_credential (se_installation S))))
     (thenDo (on_world (h_log (se_host S) ''RemoteControl disabled and token list cleared after setup failure''))
       (on_world (tryCatch
         (andThen (se_command S ''remotecontrol reload'') (setup_log S))
         (\<lambda>e. h_log (se_host S) ''RemoteControl config will remain disabled on the next module load'')))))"

record setup_result =
  sr_endpoint :: string
  sr_backup :: "string option"

definition remote_setup :: "'w setup_env \<Rightarrow> string \<Rightarrow> ('w, setup_result) with_db" where
  "remote_setup S input_endpoint =
     (let H = se_host S in
      andThen (ofSum (validate_endpoint (se_remote S) input_endpoint)) (\<lambda>endpoint.
      andThen (on_world (reading (se_token S))) (\<lambda>token.
      thenDo (on_world (h_progress H 5 ''RemoteControl setup request validated''))
      (andThen (on_world (se_command S ''modules available'')) (\<lambda>available.
       thenDo (on_world (setup_log S available))
       (thenDo (throwIf (\<not> (\<exists>l\<in>set available. sublist ''found launchserver module'' (js_lower l) \<and>
           sublist ''remotecontrol'' (js_lower l)))
         (Error ''RemoteControl is not available in this LaunchServer image''))
       (thenDo (on_world (h_progress H 30 ''Bundled RemoteControl module artifact verified''))
       (andThen (on_world (setup_backup S)) (\<lambda>backup.
        thenDo (on_world (write_remote_config S (safe_config (Some token))))
        (thenDo (tryCatch (setup_commit S endpoint token) (\<lambda>e. thenDo (setup_undo S) (raise e)))
          (ret \<lparr>sr_endpoint = endpoint,
             sr_backup = map_option (\<lambda>b. path_join [se_path S, ''launcher'', b]) backup\<rparr>)))))))))))"

section \<open>Recovery at the start of the panel\<close>

record 'w recovery_env =
  rv_info :: "string \<Rightarrow> ('w, unit) io"
  rv_warn :: "string \<Rightarrow> ('w, unit) io"
  rv_error :: "string \<Rightarrow> js_error \<Rightarrow> ('w, unit) io"
  rv_check :: "installation \<Rightarrow> ('w, bool) io"
  rv_restart :: "installation \<Rightarrow> ('w, unit) io"
  rv_repair :: "(installation \<Rightarrow> ('w, string list) io) option"

definition repair_runtimes :: "'w recovery_env \<Rightarrow> installation \<Rightarrow> ('w, unit) io" where
  "repair_runtimes R i = (case rv_repair R of
     None \<Rightarrow> ret ()
   | Some repair \<Rightarrow> tryCatch
       (andThen (repair i) (\<lambda>ds. do_when (ds \<noteq> [])
         (rv_info R (''Prepared '' @ show_nat (length ds) @ '' Java runtime(s) for download''))))
       (rv_error R (''Java runtime startup repair failed for '' @ i_name i)))"

definition recover_installation :: "'w recovery_env \<Rightarrow> installation \<Rightarrow> ('w, unit) io" where
  "recover_installation R i =
     andThen (rv_check R i) (\<lambda>healthy.
     if healthy then
       thenDo (rv_info R (''LaunchServer '' @ i_name i @ '' is healthy at API startup'')) (repair_runtimes R i)
     else
       thenDo (rv_warn R (''LaunchServer '' @ i_name i @ '' is unhealthy at API startup; restarting''))
       (andThen (tryCatch
           (thenDo (rv_restart R i)
           (thenDo (rv_info R (''LaunchServer '' @ i_name i @ '' restarted successfully at API startup'')) (ret True)))
           (\<lambda>e. thenDo (rv_error R (''LaunchServer '' @ i_name i @ '' startup recovery failed'') e) (ret False)))
         (\<lambda>up. do_when up (repair_runtimes R i))))"

definition recover_unhealthy :: "'w recovery_env \<Rightarrow> panel_db \<Rightarrow> ('w, unit) io" where
  "recover_unhealthy R db = forEach (list_installations db) (recover_installation R)"

end
