(* ===== verification/Control_Properties.thy ===== *)
theory Control_Properties
  imports Control_Transport
begin

text \<open>
  What the stores of the LaunchServer and the ways to command it guarantee: one LaunchServer, tokens that come back
  as they were saved and never show in a reason, and a wait for the socket that ends.
\<close>

section \<open>One LaunchServer\<close>

text \<open>The operations of both stores, as steps of the database.\<close>

inductive store_step :: "panel_db \<Rightarrow> panel_db \<Rightarrow> bool" where
  Upsert: "upsert_installation uuid now name res db = (r, db') \<Longrightarrow> store_step db db'"
| Delete: "delete_installation i db = (b, db') \<Longrightarrow> store_step db db'"
| Save: "save_credential G key iv now i endpoint token revision db = (r, db') \<Longrightarrow> store_step db db'"
| Forget: "store_step db (delete_credential i db)"

inductive_cases store_stepE: "store_step db db'"

definition one_server :: "panel_db \<Rightarrow> bool" where
  "one_server db \<longleftrightarrow> length (db_installations db) \<le> 1 \<and> keys_distinct c_installation (db_credentials db) \<and>
     c_installation ` set (db_credentials db) \<subseteq> i_id ` set (db_installations db)"

lemma order_desc_Nil: "order_desc k t = [] \<longleftrightarrow> t = []"
  by (metis order_desc_def set_empty set_sort)

lemma put_installation_ids: "put_installation r t = Inr u \<Longrightarrow> i_id ` set t \<subseteq> i_id ` set u"
  by (auto simp: put_installation_def sql_insert_def keys_image_update split: if_splits)

lemma put_installation_one:
  assumes "put_installation r t = Inr u" and "length t \<le> 1" and "t = [] \<or> (\<exists>x\<in>set t. i_path x = i_path r)"
  shows "length u \<le> 1"
  using assms by (auto simp: put_installation_def sql_insert_def split: if_splits)

lemma upsert_one:
  assumes "one_server db" and u: "upsert_installation uuid now name res db = (r, db')"
  shows "one_server db'"
proof (cases "db' = db")
  case False
  obtain row t where t: "put_installation row (db_installations db) = Inr t" and db': "db' = db\<lparr>db_installations := t\<rparr>"
    and p: "i_path row = ir_path res"
    and reg: "list_installations db = [] \<or> installation_at (ir_path res) db \<noteq> None"
    using u False unfolding upsert_installation_def Let_def
    by (auto split: option.splits sum.splits list.splits)
  have "db_installations db = [] \<or> (\<exists>x\<in>set (db_installations db). i_path x = i_path row)"
    using reg p by (auto simp: list_installations_def order_desc_Nil installation_at_def get_by_None)
  with put_installation_one[OF t] assms(1) have "length t \<le> 1" by (simp add: one_server_def)
  with assms(1) order_trans[OF _ put_installation_ids[OF t]] show ?thesis by (simp add: one_server_def db')
qed (use assms in simp)

lemma put_credential_map:
  "map c_installation (sql_update (\<lambda>x. c_installation x = c_installation r) (\<lambda>x. r) t) = map c_installation t"
  by (simp add: sql_update_def)

lemma put_credential_distinct:
  "keys_distinct c_installation t \<Longrightarrow> keys_distinct c_installation (put_credential r t)"
  unfolding put_credential_def keys_distinct_def by (auto simp: put_credential_map)

lemma put_credential_ids:
  "c_installation ` set (put_credential r t) = insert (c_installation r) (c_installation ` set t)"
proof (cases "\<exists>x\<in>set t. c_installation x = c_installation r")
  case True
  then have "c_installation r \<in> c_installation ` set t" by (metis imageI)
  with True arg_cong[OF put_credential_map, of set r t] show ?thesis
    by (simp add: put_credential_def insert_absorb)
qed (simp add: put_credential_def)

lemma get_put_credential: "get_by c_installation (c_installation r) (put_credential r t) = Some r"
proof (cases "\<exists>x\<in>set t. c_installation x = c_installation r")
  case True
  then have "get_by c_installation (c_installation r)
      (sql_update (\<lambda>x. c_installation x = c_installation r) (\<lambda>x. r) t) = Some r"
    by (induction t) (auto simp: sql_update_def table_simps)
  with True show ?thesis by (simp add: put_credential_def)
next
  case False
  then have "get_by c_installation (c_installation r) t = None" by (auto simp: get_by_None)
  with False show ?thesis by (auto simp: put_credential_def table_simps)
qed

lemma delete_one:
  assumes "one_server db"
  shows "one_server (snd (delete_installation i db))"
proof -
  let ?is = "db_installations db" and ?cs = "db_credentials db"
  have sub: "\<exists>r\<in>set ?is. i_id r = c_installation c" if "c \<in> set ?cs" for c
    using assms that unfolding one_server_def by (metis image_iff image_subset_iff)
  have len: "length (sql_delete P ?is) \<le> 1" for P
    using assms order_trans[OF length_filter_le] by (auto simp: one_server_def sql_delete_def)
  have kd: "keys_distinct c_installation (sql_delete P ?cs)" for P
    using assms by (simp add: one_server_def keys_distinct_delete)
  show ?thesis
  proof (cases "\<exists>r\<in>set ?is. i_id r = i")
    case True
    have "c_installation ` set (sql_delete (\<lambda>c. c_installation c = i) ?cs) \<subseteq> i_id ` set (sql_delete (\<lambda>r. i_id r = i) ?is)"
    proof
      fix x assume "x \<in> c_installation ` set (sql_delete (\<lambda>c. c_installation c = i) ?cs)"
      then obtain c where "c \<in> set ?cs" "x = c_installation c" "x \<noteq> i" by (auto simp: set_sql_delete)
      with sub obtain r where "r \<in> set ?is" "i_id r = x" by blast
      with \<open>x \<noteq> i\<close> show "x \<in> i_id ` set (sql_delete (\<lambda>r. i_id r = i) ?is)" by (auto simp: set_sql_delete)
    qed
    with True len kd show ?thesis by (simp add: delete_installation_def one_server_def)
  next
    case False
    then have "sql_delete (\<lambda>r. i_id r = i) ?is = ?is" by (simp add: sql_delete_def filter_id_conv)
    with False assms show ?thesis by (simp add: delete_installation_def one_server_def)
  qed
qed

lemma step_one: "store_step db db' \<Longrightarrow> one_server db \<Longrightarrow> one_server db'"
proof (induction rule: store_step.induct)
  case (Upsert uuid now name res db r db')
  then show ?case using upsert_one by blast
next
  case (Delete i db b db')
  then show ?case using delete_one[of db i] by simp
next
  case (Save G key iv now i endpoint token revision db r db')
  from Save.hyps consider "db' = db" | row where "db' = db\<lparr>db_credentials := put_credential row (db_credentials db)\<rparr>"
      "c_installation row \<in> i_id ` set (db_installations db)"
    unfolding save_credential_def by (auto split: sum.splits if_splits)
  then show ?case
    by cases (use Save.prems in \<open>simp_all add: one_server_def put_credential_ids put_credential_distinct\<close>)
next
  case (Forget db i)
  then show ?case
    by (auto simp: delete_credential_def one_server_def set_sql_delete keys_distinct_delete)
qed

text \<open>
  CNUM: Whatever sequence of registrations, removals and changes of credentials the panel runs, it manages at most
  one LaunchServer, keeps at most one credential for it, and keeps none for a LaunchServer that is not registered.
\<close>

theorem one_server_at_most:
  assumes "store_step\<^sup>*\<^sup>* \<lparr>db_installations = [], db_credentials = []\<rparr> db"
  shows "length (db_installations db) \<le> 1 \<and> keys_distinct c_installation (db_credentials db) \<and>
    c_installation ` set (db_credentials db) \<subseteq> i_id ` set (db_installations db)"
  using assms unfolding one_server_def[symmetric]
proof (induction rule: rtranclp_induct)
  case base
  then show ?case by (simp add: one_server_def keys_distinct_def)
next
  case (step db db')
  then show ?case using step_one by blast
qed

definition sample_result :: install_result where
  "sample_result = \<lparr>ir_path = ''/srv/ls'', ir_address = ''ls.example'', ir_project = ''ls'', ir_repository = ''repo'', ir_revision = ''r1''\<rparr>"

definition sample_installation :: installation where
  "sample_installation = \<lparr>i_id = ''u1'', i_name = ''main'', i_path = ''/srv/ls'', i_address = ''ls.example'', i_project = ''ls'',
     i_repository = ''repo'', i_revision = ''r1'', i_created = 5, i_updated = 5\<rparr>"

definition sample_db :: panel_db where
  "sample_db = \<lparr>db_installations = [sample_installation], db_credentials = []\<rparr>"

lemma sample_upsert: "upsert_installation ''u1'' 5 ''main'' sample_result \<lparr>db_installations = [], db_credentials = []\<rparr> =
    (Inr sample_installation, sample_db)"
  by (simp add: upsert_installation_def sample_result_def sample_installation_def sample_db_def Let_def
      installation_at_def get_installation_def list_installations_def order_desc_def table_simps
      put_installation_def sql_insert_def)

lemma one_server_at_most_witness: "length (db_installations sample_db) \<le> 1 \<and>
    keys_distinct c_installation (db_credentials sample_db) \<and>
    c_installation ` set (db_credentials sample_db) \<subseteq> i_id ` set (db_installations sample_db)"
  by (rule one_server_at_most) (use sample_upsert store_step.Upsert in blast)

section \<open>Tokens that come back\<close>

text \<open>
  A token that was saved for a LaunchServer is read back as it was, with its endpoint and revision, under the
  same key, whether or not another one was stored before.
\<close>

lemma token_comes_back:
  assumes "sound_gcm G" and s: "save_credential G key iv now i endpoint token revision db = (Inr (), db')"
  shows "get_credential G key i db' = Inr (Some \<lparr>rc_installation = i, rc_endpoint = endpoint, rc_token = token,
      rc_revision = revision, rc_configured = now\<rparr>)"
proof -
  obtain e where e: "cipher_encrypt G key iv token = Inr e"
    and db': "db' = db\<lparr>db_credentials := put_credential \<lparr>c_installation = i, c_endpoint = endpoint,
           c_token = e, c_revision = revision, c_configured = now\<rparr> (db_credentials db)\<rparr>"
    using s by (auto simp: save_credential_def split: sum.splits if_splits)
  have "get_by c_installation i (put_credential r t) = Some r" if "c_installation r = i" for r t
    using that get_put_credential by blast
  then show ?thesis
    using decrypt_encrypt[OF assms(1) e] by (simp add: db' get_credential_def)
qed

text \<open>A cipher for an example: the text beside the key, which opening compares.\<close>

definition toy_gcm :: gcm where
  "toy_gcm = \<lparr>g_seal = (\<lambda>k iv m. (m, k)), g_open = (\<lambda>k iv t c. if t = k then Inr c else Inl (Error ''bad tag'')),
     g_encode = (\<lambda>b. b), g_decode = (\<lambda>b. b)\<rparr>"

section \<open>Tokens that stay secret\<close>

definition unbracketed :: "string \<Rightarrow> bool" where
  "unbracketed s \<longleftrightarrow> (\<forall>c\<in>set s. c \<noteq> CHR ''['' \<and> c \<noteq> CHR '']'')"

lemma replace_all_none: "old \<noteq> [] \<Longrightarrow> replace_all old new [] = []"
  by (simp add: replace_all.simps)

lemma replace_all_match: "old \<noteq> [] \<Longrightarrow> prefix old s \<Longrightarrow>
    replace_all old new s = new @ replace_all old new (drop (length old) s)"
  by (subst replace_all.simps) (cases s; simp)

lemma replace_all_skip: "old \<noteq> [] \<Longrightarrow> \<not> prefix old (c # cs) \<Longrightarrow>
    replace_all old new (c # cs) = c # replace_all old new cs"
  by (subst replace_all.simps) simp

lemma prefix_before_mark:
  assumes "unbracketed p" and "prefix p (replace_all old (CHR ''['' # m) s)" and "old \<noteq> []"
  shows "prefix p s"
  using assms(1,2)
proof (induction s arbitrary: p)
  case Nil
  then show ?case by (simp add: replace_all_none assms(3))
next
  case (Cons c cs)
  show ?case
  proof (cases p)
    case p: (Cons d p')
    have "\<not> prefix old (c # cs)"
    proof
      assume "prefix old (c # cs)"
      with Cons.prems p show False by (simp add: replace_all_match[OF assms(3)] unbracketed_def)
    qed
    with Cons.prems(2) p have "d = c" "prefix p' (replace_all old (CHR ''['' # m) cs)"
      by (simp_all add: replace_all_skip[OF assms(3)])
    moreover have "unbracketed p'" using Cons.prems(1) p by (simp add: unbracketed_def)
    ultimately show ?thesis using Cons.IH[of p'] p by simp
  qed simp
qed

lemma sublist_after_mark:
  assumes "unbracketed p" and "length m + 2 < length p" and "sublist p (CHR ''['' # m @ CHR '']'' # t)"
  shows "sublist p t"
proof -
  have "sublist p ((CHR ''['' # m @ [CHR '']'']) @ t)" using assms(3) by simp
  then consider "sublist p (CHR ''['' # m @ [CHR '']''])" | "sublist p t"
    | p1 p2 where "p = p1 @ p2" "suffix p1 (CHR ''['' # m @ [CHR '']''])" "prefix p2 t"
    unfolding sublist_append by blast
  then show ?thesis
  proof cases
    case 1
    then have "length p \<le> length m + 2" using sublist_length_le by fastforce
    with assms(2) show ?thesis by simp
  next
    case 3
    have "p1 = []"
    proof (rule ccontr)
      assume "p1 \<noteq> []"
      with 3(2) have "last p1 = CHR '']''" by (auto simp: suffix_def dest!: arg_cong[where f = last])
      with \<open>p1 \<noteq> []\<close> 3(1) assms(1) show False by (auto simp: unbracketed_def dest!: last_in_set)
    qed
    with 3 show ?thesis by (simp add: prefix_imp_sublist)
  qed
qed

lemma replaced_everywhere:
  assumes "unbracketed old" and "length m + 2 < length old"
  shows "\<not> sublist old (replace_all old (CHR ''['' # m @ [CHR '']'']) s)"
proof (induction "length s" arbitrary: s rule: less_induct)
  case less
  from assms(2) have ne: "old \<noteq> []" by auto
  show ?case
  proof (cases s)
    case Nil
    with ne show ?thesis by (simp add: replace_all_none)
  next
    case (Cons c cs)
    show ?thesis
    proof (cases "prefix old s")
      case True
      then have e: "replace_all old (CHR ''['' # m @ [CHR '']'']) s =
          CHR ''['' # m @ CHR '']'' # replace_all old (CHR ''['' # m @ [CHR '']'']) (drop (length old) s)"
        using replace_all_match[OF ne True] by simp
      have "length (drop (length old) s) < length s" using ne Cons by (cases old) auto
      from less[OF this] show ?thesis using sublist_after_mark[OF assms] e by metis
    next
      case False
      with ne Cons have e: "replace_all old (CHR ''['' # m @ [CHR '']'']) s =
          c # replace_all old (CHR ''['' # m @ [CHR '']'']) cs"
        by (simp add: replace_all_skip)
      have "\<not> prefix old (replace_all old (CHR ''['' # m @ [CHR '']'']) s)"
        using prefix_before_mark[OF assms(1) _ ne] False by metis
      with less[of cs] Cons e show ?thesis by (simp add: sublist_Cons_right)
    qed
  qed
qed

lemma socket_has_no_reason: "execute_inspection C i path cmd s = (Inr r, t) \<Longrightarrow> co_fallback r = None"
  by (auto simp: execute_inspection_def exec_simps split: prod.splits sum.splits)

lemma remote_has_no_reason: "remote_execute R i e k cmd w = (Inr r, t) \<Longrightarrow> co_fallback r = None"
  by (auto simp: remote_execute_def exec_simps split: prod.splits sum.splits option.splits)

text \<open>
  CNUM: When a command falls back from the HTTP endpoint to the socket, the reason that is reported and stored with
  the job never contains the token, whatever the endpoint or the network answered. The tokens the panel makes are 43
  letters, digits, dashes and underscores.
\<close>

theorem reason_hides_token:
  assumes "transport_execute T inst cmd (w, active) = (Inr r, s)"
    and "tr_credentials T (i_id inst) w = Inr (Some c)"
    and "unbracketed (rc_token c)" and "10 < length (rc_token c)"
    and "co_fallback r = Some reason"
  shows "\<not> sublist (rc_token c) reason"
proof -
  let ?mark = "CHR ''['' # ''redacted'' @ [CHR '']'']"
  have "\<exists>e. reason = replace_all (rc_token c) ?mark e"
    using assms(1,2,5)
    by (auto simp: transport_execute_def Let_def exec_simps control_read_def beside_active_def
        split: prod.splits sum.splits dest!: socket_has_no_reason remote_has_no_reason)
  then show ?thesis using replaced_everywhere[OF assms(3), of "''redacted''"] assms(4) by auto
qed

text \<open>An endpoint that answers with the address it was asked for, and a socket that works; the world is the clock.\<close>

definition echo_remote :: "int remote" where
  "echo_remote = \<lparr>rc_url = (\<lambda>e. Some \<lparr>eu_protocol = ''https:'', eu_username = [], eu_password = [], eu_search = [],
       eu_hash = [], eu_origin = ''https://ls''\<rparr>),
     rc_query = (\<lambda>kvs. join_with ''&'' (map (\<lambda>(k, v). k @ ''='' @ v) kvs)),
     rc_fetch = (\<lambda>u. raise (Error (''no route to '' @ u))), rc_iso = (\<lambda>_. ''2024-01-01'')\<rparr>"

definition ready_control :: "int control" where
  "ready_control = \<lparr>ct_run = (\<lambda>cmd path inp limit. ret \<lparr>exit_code = 0, std_out = ''ok'', std_err = []\<rparr>),
     ct_now = (\<lambda>w. w), ct_sleep = (\<lambda>n. writing (\<lambda>w. w + int n)), ct_iso = (\<lambda>_. ''2024-01-01''),
     ct_readiness = 3, ct_timeout = 4, ct_long = 5\<rparr>"

definition sample_token :: string where
  "sample_token = ''abcdefghijk-123''"

definition sample_transport :: "int transport" where
  "sample_transport = \<lparr>tr_control = ready_control, tr_remote = echo_remote, tr_credentials = (\<lambda>_ _. Inr (Some
     \<lparr>rc_installation = ''u1'', rc_endpoint = ''https://ls'', rc_token = sample_token, rc_revision = ''r1'', rc_configured = 5\<rparr>))\<rparr>"

definition sample_outcome :: command_outcome where
  "sample_outcome = \<lparr>co_installation = ''u1'', co_command = ''version'', co_transport = ControlFile,
     co_fallback = Some (''RemoteControl endpoint https://ls is unreachable. Ensure its nginx/HTTP proxy is running. '' @
       ''no route to https://ls/webapi/remotecontrol/command?token=[redacted]&command=version&log=true''),
     co_lines = [''ok''], co_started = ''2024-01-01'', co_finished = ''2024-01-01''\<rparr>"

lemma sample_fallback: "transport_execute sample_transport sample_installation ''version'' (5, []) = (Inr sample_outcome, (5, []))"
  by code_simp

lemma reason_hides_token_witness: "\<not> sublist sample_token (the (co_fallback sample_outcome))"
  by (rule reason_hides_token[OF sample_fallback, where c = "\<lparr>rc_installation = ''u1'', rc_endpoint = ''https://ls'',
      rc_token = sample_token, rc_revision = ''r1'', rc_configured = 5\<rparr>", simplified])
    (simp_all add: sample_transport_def sample_token_def unbracketed_def sample_outcome_def)

section \<open>A wait that ends\<close>

text \<open>A command does not turn back the clock, and a pause lasts as long as it was asked to.\<close>

definition steady_clock :: "'w control \<Rightarrow> bool" where
  "steady_clock C \<longleftrightarrow>
     (\<forall>w cmd path inp limit. ct_now C w \<le> ct_now C (snd (ct_run C cmd path inp limit w))) \<and>
     (\<forall>w. ct_now C w + 250 \<le> ct_now C (snd (ct_sleep C 250 w)))"

lemma clock_run: "steady_clock C \<Longrightarrow> ct_run C cmd path inp limit w = (r, t) \<Longrightarrow> ct_now C w \<le> ct_now C t"
  unfolding steady_clock_def by (metis snd_conv)

lemma clock_sleep: "steady_clock C \<Longrightarrow> ct_sleep C 250 w = (r, t) \<Longrightarrow> ct_now C w + 250 \<le> ct_now C t"
  unfolding steady_clock_def by (metis snd_conv)

lemma clock_once:
  assumes "steady_clock C" and "send_once C path cmd limit w = (r, t)"
  shows "ct_now C w \<le> ct_now C t"
proof -
  obtain p v where p: "ct_run C probe_command path [] (ct_timeout C) w = (p, v)" by fastforce
  obtain q u where q: "ct_run C socket_command path (cmd @ [CHR 0x0A]) limit v = (q, u)" by fastforce
  have "t = v \<or> t = u"
    using assms(2) p q by (auto simp: send_once_def exec_simps split: sum.splits if_splits)
  then show ?thesis using clock_run[OF assms(1) p] clock_run[OF assms(1) q] by auto
qed

lemma rounds_run_out:
  assumes "steady_clock C" and "send_rounds n C path cmd limit deadline w = (Inr None, t)"
  shows "n = 0 \<or> ct_now C w + 250 * int (n - 1) \<le> deadline"
  using assms(2)
proof (induction n arbitrary: w)
  case (Suc n)
  from Suc.prems obtain v u x where now: "ct_now C w \<le> deadline"
    and once: "send_once C path cmd limit w = (Inr None, v)" and sleep: "ct_sleep C 250 v = (Inr x, u)"
    and more: "send_rounds n C path cmd limit deadline u = (Inr None, t)"
    by (auto simp: exec_simps split: prod.splits sum.splits option.splits if_splits)
  show ?case
    using Suc.IH[OF more] now clock_once[OF assms(1) once] clock_sleep[OF assms(1) sleep]
    by (cases n) (auto simp: algebra_simps)
qed simp

lemma more_rounds:
  assumes "fst (send_rounds n C path cmd limit deadline w) \<noteq> Inr None"
  shows "send_rounds (n + k) C path cmd limit deadline w = send_rounds n C path cmd limit deadline w"
  using assms
proof (induction n arbitrary: w)
  case 0
  then show ?case by (simp add: exec_simps)
next
  case (Suc n)
  obtain r v where once: "send_once C path cmd limit w = (r, v)" by fastforce
  obtain x u where sleep: "ct_sleep C 250 v = (x, u)" by fastforce
  consider (late) "deadline < ct_now C w" | (failed) e where "r = Inl e" | (sent) ls where "r = Inr (Some ls)"
    | (stopped) e where "r = Inr None" "x = Inl e"
    | (again) "\<not> deadline < ct_now C w" "r = Inr None" "x = Inr ()"
    by (cases r; cases x; auto)
  then show ?case
  proof cases
    case again
    with once sleep Suc.prems Suc.IH[of u] show ?thesis by (simp add: exec_simps)
  qed (use once sleep in \<open>simp_all add: exec_simps\<close>)
qed

text \<open>
  The wait for the control socket ends: under a clock that goes on, the rounds of the model end with the lines
  of the command or an error before they are used up, and no larger number of rounds gives another outcome.
\<close>

theorem wait_ends:
  assumes "steady_clock C" and "control_rounds C \<le> n"
  shows "fst (send_rounds n C path cmd limit (ct_now C w + int (ct_readiness C)) w) \<noteq> Inr None \<and>
    send_rounds n C path cmd limit (ct_now C w + int (ct_readiness C)) w =
    send_rounds (control_rounds C) C path cmd limit (ct_now C w + int (ct_readiness C)) w"
proof -
  let ?run = "\<lambda>n. send_rounds n C path cmd limit (ct_now C w + int (ct_readiness C)) w"
  have "fst (?run (control_rounds C)) \<noteq> Inr None"
  proof
    assume "fst (?run (control_rounds C)) = Inr None"
    then have "?run (control_rounds C) = (Inr None, snd (?run (control_rounds C)))" by (simp add: prod_eq_iff)
    from rounds_run_out[OF assms(1) this] have "250 * int (ct_readiness C div 250 + 1) \<le> int (ct_readiness C)"
      by (simp only: control_rounds_def) linarith
    moreover obtain d m where "ct_readiness C div 250 = d" "ct_readiness C = 250 * d + m" "m < 250"
      by (metis mod_less_divisor mult_div_mod_eq zero_less_numeral)
    ultimately show False by simp
  qed
  with more_rounds[of "control_rounds C" C path cmd limit _ w "n - control_rounds C"] assms(2) show ?thesis by simp
qed

text \<open>A socket that is never there.\<close>

definition absent_control :: "int control" where
  "absent_control = ready_control\<lparr>ct_run := (\<lambda>cmd path inp limit. ret \<lparr>exit_code = 1, std_out = [], std_err = []\<rparr>)\<rparr>"

lemma absent_steady: "steady_clock absent_control" "control_rounds absent_control \<le> 9"
    "ct_now absent_control w = w" "ct_readiness absent_control = 3"
  by (simp_all add: absent_control_def ready_control_def steady_clock_def control_rounds_def ret_def writing_def)

lemma wait_ends_witness: "fst (send_rounds 9 absent_control ''/srv'' ''version'' 10 (3 + int 3) 3) \<noteq> Inr None \<and>
    send_rounds 9 absent_control ''/srv'' ''version'' 10 (3 + int 3) 3 =
    send_rounds (control_rounds absent_control) absent_control ''/srv'' ''version'' 10 (3 + int 3) 3"
  using wait_ends[OF absent_steady(1,2), of "''/srv''" "''version''" 10 3] unfolding absent_steady(3,4) .

end
