(* ===== verification/Launch_Properties.thy ===== *)
theory Launch_Properties
  imports Launch_Files Control_Properties Volume_Properties
begin

text \<open>
  The file browser opens no protected name, and a failed setup of the HTTP endpoint leaves no token of its own.
\<close>

section \<open>Names that stay closed\<close>

lemma js_lower_slash [simp]: "js_lower_char CHR ''/'' = CHR ''/''"
  by (simp add: js_lower_char_def Let_def)

lemma lower_join: "js_lower (join_with ''/'' ss) = join_with ''/'' (map js_lower ss)"
  by (induction ss rule: induct_list012) (simp_all add: js_lower_def)

lemma protected_segments:
  assumes "plain_path ss" and "ss \<noteq> []" and "b \<in> set blocked_paths" and "prefix (split_slash b) (map js_lower ss)"
  shows "is_protected (below_form ss trail)"
proof -
  obtain more where more: "map js_lower ss = split_slash b @ more" using assms(4) by (auto simp: prefix_def)
  let ?t = "if trail then ''/'' else []"
  have l: "js_lower (below_form ss trail) = join_with ''/'' (map js_lower ss) @ ?t"
    using assms(2) lower_join[of ss] by (simp add: below_form_def js_lower_def)
  have "js_lower (below_form ss trail) = b \<or> prefix (b @ ''/'') (js_lower (below_form ss trail))"
  proof (cases "more = []")
    case True
    then show ?thesis using l more by (simp add: join_split_slash)
  next
    case False
    then show ?thesis using l more join_with_append[of "split_slash b" more "''/''"] by (simp add: join_split_slash)
  qed
  with assms(3) show ?thesis by (auto simp: is_protected_def list_ex_iff)
qed

text \<open>
  CNUM: A path that the file browser serves consists of plain segments, none of them hidden, at most 32, and in any
  mix of upper and lower case it does not lead to or below a protected file or directory. The guard looks at names
  alone: the directory \<open>config\<close> is open and may be renamed, and under its new name the configuration of
  RemoteControl, which holds its token, is open as well.
\<close>

theorem protected_names_stay_closed:
  "(safe_path p allowRoot = Inr n \<longrightarrow> n = [] \<or> (\<exists>ss. n = join_with ''/'' ss @ (if suffix ''/'' p then ''/'' else []) \<and>
      plain_path ss \<and> ss \<noteq> [] \<and> length ss \<le> 32 \<and> (\<forall>s\<in>set ss. \<not> prefix ''.'' s) \<and>
      (\<forall>b\<in>set blocked_paths. \<not> prefix (split_slash b) (map js_lower ss)))) \<and>
   safe_path ''config/RemoteControl/Config.json'' False = Inl (Error ''This LaunchServer path is protected'') \<and>
   safe_path ''config'' False = Inr ''config'' \<and>
   safe_path ''shown/RemoteControl/Config.json'' False = Inr ''shown/RemoteControl/Config.json''"
proof (intro conjI impI)
  assume s: "safe_path p allowRoot = Inr n"
  let ?p = "if p = [] then ''.'' else p"
  show "n = [] \<or> (\<exists>ss. n = join_with ''/'' ss @ (if suffix ''/'' p then ''/'' else []) \<and>
      plain_path ss \<and> ss \<noteq> [] \<and> length ss \<le> 32 \<and> (\<forall>s\<in>set ss. \<not> prefix ''.'' s) \<and>
      (\<forall>b\<in>set blocked_paths. \<not> prefix (split_slash b) (map js_lower ss)))"
  proof (cases "n = []")
    case False
    with s have n: "n = path_normalize ?p" and a: "\<not> is_absolute p"
      and g: "n \<noteq> ''.''" "n \<noteq> ''..''" "\<not> prefix ''../'' n" "length (split_slash n) \<le> 32" "\<not> is_protected n"
      by (auto simp: safe_path_def Let_def split: if_splits)
    have "?p \<noteq> []" "\<not> is_absolute ?p" using a by (auto simp: is_absolute_def)
    then obtain ss where ss: "plain_path ss" "n = below_form ss (suffix ''/'' ?p)"
      using n g(2,3) by (cases rule: normalize_relative) auto
    have ne: "ss \<noteq> []"
      using g(5) ss by (auto simp: is_protected_def list_ex_iff split_below_form)
    have "length ss \<le> 32" "\<forall>s\<in>set ss. \<not> prefix ''.'' s"
      using g(4,5) ss ne by (auto simp: is_protected_def list_ex_iff split_below_form)
    moreover have "\<forall>b\<in>set blocked_paths. \<not> prefix (split_slash b) (map js_lower ss)"
      using protected_segments[OF ss(1) ne] g(5) ss(2) by blast
    moreover have "n = join_with ''/'' ss @ (if suffix ''/'' p then ''/'' else [])"
      using ss(2) ne by (auto simp: below_form_def suffix_def)
    ultimately show ?thesis using ss(1) ne by blast
  qed simp
next
  show "safe_path ''config/RemoteControl/Config.json'' False = Inl (Error ''This LaunchServer path is protected'')" by code_simp
  show "safe_path ''config'' False = Inr ''config''" by code_simp
  show "safe_path ''shown/RemoteControl/Config.json'' False = Inr ''shown/RemoteControl/Config.json''" by code_simp
qed

lemma protected_names_stay_closed_witness: "safe_path ''logs//Latest.log'' False = Inr ''logs/Latest.log'' \<and>
    (\<exists>ss. ''logs/Latest.log'' = join_with ''/'' ss @ (if suffix ''/'' ''logs//Latest.log'' then ''/'' else []) \<and>
      plain_path ss \<and> ss \<noteq> [] \<and> length ss \<le> 32 \<and> (\<forall>s\<in>set ss. \<not> prefix ''.'' s) \<and>
      (\<forall>b\<in>set blocked_paths. \<not> prefix (split_slash b) (map js_lower ss)))"
proof -
  have s: "safe_path ''logs//Latest.log'' False = Inr ''logs/Latest.log''" by code_simp
  moreover have "''logs/Latest.log'' \<noteq> []" by simp
  ultimately show ?thesis
    using protected_names_stay_closed[of "''logs//Latest.log''" False "''logs/Latest.log''"] by (simp only: simp_thms)
qed

section \<open>Setting up the endpoint\<close>

lemma wp_on_world: "(\<And>x v. Q x (v, snd s)) \<Longrightarrow> (\<And>e v. E e (v, snd s)) \<Longrightarrow> wp (on_world p) Q E s"
  by (cases s) (auto simp: wp_def on_world_def split: prod.split sum.split)

lemma wp_on_world_reading: "wp (on_world (reading f)) Q E s \<longleftrightarrow> Q (f (fst s)) s"
  by (cases s) (simp add: wp_def on_world_def exec_simps)

lemma wp_on_db: "wp (on_db p) Q E s \<longleftrightarrow> wp p (\<lambda>x db. Q x (fst s, db)) (\<lambda>e db. E e (fst s, db)) (snd s)"
  by (cases s) (auto simp: wp_def on_db_def split: prod.split sum.split)

text \<open>Writing the log of a job does not throw.\<close>

definition safe_log :: "'w host \<Rightarrow> bool" where
  "safe_log H \<longleftrightarrow> (\<forall>m w. fst (h_log H m w) = Inr ())"

lemma wp_log: "safe_log H \<Longrightarrow> (\<And>v. Q () (v, snd s)) \<Longrightarrow> wp (on_world (h_log H m)) Q E s"
proof -
  assume l: "safe_log H" and q: "\<And>v. Q () (v, snd s)"
  obtain r v where r: "h_log H m (fst s) = (r, v)" by fastforce
  have "r = Inr ()" using l r unfolding safe_log_def by (metis fst_conv)
  with r q show ?thesis by (simp add: wp_def on_world_def split_beta)
qed

definition stored_credential :: "'w setup_env \<Rightarrow> string \<Rightarrow> string \<Rightarrow> panel_db \<Rightarrow> panel_db \<Rightarrow> bool" where
  "stored_credential S endpoint token db db' \<longleftrightarrow> (\<exists>iv now. save_credential (se_gcm S) (se_cipher S) iv now
     (se_installation S) endpoint token remote_revision db = (Inr (), db'))"

lemma save_wp:
  "wp (save_credential G key iv now i endpoint token revision) (\<lambda>_ db'. save_credential G key iv now i endpoint token revision db = (Inr (), db'))
     (\<lambda>_ db'. db' = db) db"
  by (auto simp: wp_result save_credential_def split: sum.splits if_splits)

lemma commit_wp:
  assumes "safe_log (se_host S)"
  shows "wp (setup_commit S endpoint token) (\<lambda>_ s'. stored_credential S endpoint token (snd s) (snd s'))
    (\<lambda>_ s'. snd s' = snd s) s"
proof -
  have save: "wp (thenDo (on_db (save_credential (se_gcm S) (se_cipher S) iv now (se_installation S) endpoint token remote_revision))
      (on_world (h_log (se_host S) ''Encrypted RemoteControl credential stored'')))
      (\<lambda>_ s'. stored_credential S endpoint token (snd s) (snd s')) (\<lambda>_ s'. snd s' = snd s) (v, snd s)" for iv now v
    unfolding wp_thenDo wp_on_db
    by (rule wp_mono[OF save_wp]) (auto intro!: wp_log[OF assms] exI simp: stored_credential_def)
  show ?thesis
    unfolding setup_commit_def Let_def wp_andThen wp_thenDo[of "on_world _"]
    by (intro wp_on_world) (simp_all add: wp_on_world_reading save split: prod.split)
qed

lemma undo_wp: "wp (setup_undo S) (\<lambda>_ s'. snd s' = delete_credential (se_installation S) (snd s))
    (\<lambda>_ s'. snd s' = snd s \<or> snd s' = delete_credential (se_installation S) (snd s)) s"
  unfolding setup_undo_def wp_thenDo wp_on_db wp_writing
  by (intro wp_on_world) simp_all

lemma setup_wp:
  assumes "safe_log (se_host S)"
  shows "wp (remote_setup S input_endpoint)
    (\<lambda>r s'. validate_endpoint (se_remote S) input_endpoint = Inr (sr_endpoint r) \<and>
      stored_credential S (sr_endpoint r) (se_token S (fst s)) (snd s) (snd s'))
    (\<lambda>_ s'. snd s' = snd s \<or> snd s' = delete_credential (se_installation S) (snd s)) s"
proof (cases "validate_endpoint (se_remote S) input_endpoint")
  case (Inl e)
  then show ?thesis by (simp add: remote_setup_def Let_def wp_simps)
next
  case (Inr endpoint)
  have commit: "wp (tryCatch (setup_commit S endpoint token) (\<lambda>e. thenDo (setup_undo S) (raise e)))
      (\<lambda>_ s'. stored_credential S endpoint token (snd s) (snd s'))
      (\<lambda>_ s'. snd s' = snd s \<or> snd s' = delete_credential (se_installation S) (snd s)) (v, snd s)" for token v
    unfolding wp_tryCatch wp_thenDo
    by (rule wp_mono[OF commit_wp[OF assms]]) (auto intro!: wp_mono[OF undo_wp] simp: wp_simps)
  show ?thesis
    unfolding remote_setup_def Let_def Inr wp_andThen wp_thenDo[of "on_world _"] wp_thenDo[of "throwIf _ _"]
      wp_thenDo[of "tryCatch _ _"] wp_ofSum sum.case wp_on_world_reading
    by (intro wp_on_world; simp add: wp_throwIf; (intro impI wp_on_world)?; simp add: wp_ret commit)
qed


text \<open>A setup whose endpoint cannot be reached, after an earlier one had stored a token.\<close>

definition sample_setup :: "int setup_env" where
  "sample_setup = \<lparr>se_host = \<lparr>h_volume = \<lparr>vol_exists = (\<lambda>_ _. ret False), vol_read_file = None, vol_list_files = None,
       vol_ensure_directory = (\<lambda>_. ret ()), vol_prepare_host = None, vol_write = (\<lambda>_ _ _. ret ()), vol_copy = (\<lambda>_ _. ret ()),
       vol_move = (\<lambda>_ _. ret ()), vol_remove = (\<lambda>_ _. ret ()), vol_sha256 = None\<rparr>, h_log = (\<lambda>_. ret ()),
       h_progress = (\<lambda>_ _. ret ()), h_check_abort = ret (), h_sync_profiles = ret [], h_timestamp = (\<lambda>_. ''2024-01-01''),
       h_parse = (\<lambda>_. None), h_stringify = (\<lambda>_. []), h_root = ''/srv''\<rparr>,
     se_remote = echo_remote, se_command = (\<lambda>_. ret [''Found LaunchServer module RemoteControl_module'']), se_gcm = toy_gcm,
     se_cipher = Some ''key'', se_iv = (\<lambda>_. ''iv''), se_token = (\<lambda>_. sample_token), se_instant = (\<lambda>w. w),
     se_installation = ''u1'', se_path = ''/srv/ls''\<rparr>"

definition sealed_db :: panel_db where
  "sealed_db = sample_db\<lparr>db_credentials := [\<lparr>c_installation = ''u1'', c_endpoint = ''https://old'',
     c_token = \<lparr>e_ciphertext = ''old'', e_iv = ''iv'', e_tag = ''key''\<rparr>, c_revision = ''r0'', c_configured = 3\<rparr>]\<rparr>"


end
