(* ===== verification/Auth_Providers.thy ===== *)
theory Auth_Providers
  imports Launch_Modules
begin

text \<open>
  \<^verbatim>\<open>auth-recipes.ts\<close>, \<^verbatim>\<open>auth-provider.service.ts\<close> and \<^verbatim>\<open>auth-module-config.service.ts\<close>: the providers of
  authentication in \<^verbatim>\<open>LaunchServer.json\<close>, what is shown of them, and how a recipe is applied. The record
  \<open>auth_env\<close> holds the host, the module service, the command of LaunchServer, its restart, the build of the Discord
  module and the environment variables. A file is a JSON value once it is parsed; entries whose name JavaScript
  finds on every object are looked up as it does.
\<close>

section \<open>Values of JavaScript\<close>

definition truthy :: "json option \<Rightarrow> bool" where
  "truthy v \<longleftrightarrow> (case v of
     None \<Rightarrow> False
   | Some JNull \<Rightarrow> False
   | Some (JBool b) \<Rightarrow> b
   | Some (JNum r) \<Rightarrow> r \<noteq> 0
   | Some (JStr s) \<Rightarrow> s \<noteq> []
   | Some _ \<Rightarrow> True)"

text \<open>\<open>v ?? d\<close>\<close>

definition nullish :: "json option \<Rightarrow> json \<Rightarrow> json" where
  "nullish v d = (case v of None \<Rightarrow> d | Some JNull \<Rightarrow> d | Some x \<Rightarrow> x)"

text \<open>A field that is kept when it has the type that is asked for.\<close>

definition typed_string :: "json \<Rightarrow> string \<Rightarrow> string option" where
  "typed_string v k = string_field v k"

definition typed_number :: "json \<Rightarrow> string \<Rightarrow> rat option" where
  "typed_number v k = (case json_field v k of Some (JNum r) \<Rightarrow> Some r | _ \<Rightarrow> None)"

definition typed_bool :: "json \<Rightarrow> string \<Rightarrow> bool option" where
  "typed_bool v k = (case json_field v k of Some (JBool b) \<Rightarrow> Some b | _ \<Rightarrow> None)"

definition or_else :: "'a option \<Rightarrow> 'a \<Rightarrow> 'a" where
  "or_else v d = (case v of Some x \<Rightarrow> x | None \<Rightarrow> d)"

text \<open>The object in a field, for reading; null and anything that is no object reads as empty.\<close>

definition object_field :: "json \<Rightarrow> string \<Rightarrow> json" where
  "object_field v k = (case json_field v k of Some x \<Rightarrow> if is_js_object x then x else JObj [] | None \<Rightarrow> JObj [])"

text \<open>The members that every object inherits; they are objects without any field that is read here.\<close>

definition inherited_members :: "string list" where
  "inherited_members = [''constructor'', ''toString'', ''valueOf'', ''hasOwnProperty'', ''isPrototypeOf'',
     ''propertyIsEnumerable'', ''toLocaleString'', ''__proto__'', ''__defineGetter__'', ''__defineSetter__'',
     ''__lookupGetter__'', ''__lookupSetter__'']"

definition member_of :: "(string \<times> json) list \<Rightarrow> string \<Rightarrow> json option" where
  "member_of kvs k = (case map_of kvs k of
     Some v \<Rightarrow> Some v
   | None \<Rightarrow> if k \<in> set inherited_members then Some (JObj []) else None)"

text \<open>\<open>{ ...value }\<close>\<close>

fun index_entries :: "nat \<Rightarrow> json list \<Rightarrow> (string \<times> json) list" where
  "index_entries n [] = []"
| "index_entries n (x # xs) = (show_nat n, x) # index_entries (Suc n) xs"

definition spread :: "json \<Rightarrow> (string \<times> json) list" where
  "spread v = (case v of
     JObj kvs \<Rightarrow> kvs
   | JArr xs \<Rightarrow> index_entries 0 xs
   | JStr s \<Rightarrow> index_entries 0 (map (\<lambda>c. JStr [c]) s)
   | _ \<Rightarrow> [])"

definition as_strings :: "json option \<Rightarrow> string list" where
  "as_strings v = (case v of Some (JArr xs) \<Rightarrow> json_strings xs | _ \<Rightarrow> [])"

text \<open>\<open>replace(/\/$/, '')\<close>\<close>

definition drop_slash :: "string \<Rightarrow> string" where
  "drop_slash s = (if suffix ''/'' s then butlast s else s)"

section \<open>Recipes\<close>

datatype recipe_id = Memory_Recipe | Sql_Recipe | Http_Recipe | File_Recipe | Mojang_Recipe | Microsoft_Recipe |
  Merge_Recipe | Discord_Recipe

record recipe_source =
  rs_repository :: string
  rs_revision :: string
  rs_file :: string

record auth_recipe =
  ar_id :: recipe_id
  ar_title :: string
  ar_description :: string
  ar_core :: string
  ar_module :: "string option"
  ar_source :: recipe_source

definition module_catalog_repository :: string where
  "module_catalog_repository = ''https://github.com/GravitLauncher/LauncherModules''"

definition module_catalog_revision :: string where
  "module_catalog_revision = ''ebe98aa204c3282430cef4dd5bbb75ac1c7d3e0a''"

definition auth_wiki_source :: recipe_source where
  "auth_wiki_source = \<lparr>rs_repository = ''https://github.com/GravitLauncher/Launcher'',
     rs_revision = ''81132768a711a0eab0e8b3b8b6c480b90f48795c'',
     rs_file = ''components/launchserver/src/main/java/pro/gravit/launchserver/auth/core/AuthCoreProvider.java''\<rparr>"

definition file_auth_source :: recipe_source where
  "file_auth_source = \<lparr>rs_repository = module_catalog_repository, rs_revision = module_catalog_revision,
     rs_file = ''FileAuthSystem_module/src/main/java/pro/gravit/launchermodules/fileauthsystem/commands/InstallCommand.java''\<rparr>"

definition mojang_source :: recipe_source where
  "mojang_source = \<lparr>rs_repository = module_catalog_repository, rs_revision = module_catalog_revision,
     rs_file = ''MojangSupport_module/README.md''\<rparr>"

definition discord_source :: recipe_source where
  "discord_source = \<lparr>rs_repository = ''https://github.com/BADtochka/gravit-panel'', rs_revision = ''main'',
     rs_file = ''modules/DiscordAuthSystem_module/src/main/java/pro/gravit/launchermodules/discordauthsystem/DiscordAuthCoreProvider.java''\<rparr>"

text \<open>The modules a recipe requires are its own module, if it has one.\<close>

definition auth_recipes :: "auth_recipe list" where
  "auth_recipes =
    [\<lparr>ar_id = Memory_Recipe, ar_title = ''Memory'',
      ar_description = ''In-memory auth for local testing. Does not persist users across restarts.'',
      ar_core = ''memory'', ar_module = None, ar_source = auth_wiki_source\<rparr>,
     \<lparr>ar_id = Sql_Recipe, ar_title = ''SQL'',
      ar_description = ''JDBC auth for PostgreSQL, MariaDB, and MySQL with configurable password verifiers.'',
      ar_core = ''sql'', ar_module = None, ar_source = auth_wiki_source\<rparr>,
     \<lparr>ar_id = Http_Recipe, ar_title = ''HTTP'',
      ar_description = ''Delegates auth to external HTTP endpoints with a bearer token.'',
      ar_core = ''http'', ar_module = None, ar_source = auth_wiki_source\<rparr>,
     \<lparr>ar_id = File_Recipe, ar_title = ''FileAuthSystem'',
      ar_description = ''File-backed users with SHA-256 password verification and persistent sessions.'',
      ar_core = ''fileauthsystem'', ar_module = Some ''FileAuthSystem_module'', ar_source = file_auth_source\<rparr>,
     \<lparr>ar_id = Mojang_Recipe, ar_title = ''Mojang'',
      ar_description = ''Official Mojang account auth through the MojangSupport module.'',
      ar_core = ''mojang'', ar_module = Some ''MojangSupport_module'', ar_source = mojang_source\<rparr>,
     \<lparr>ar_id = Microsoft_Recipe, ar_title = ''Microsoft'',
      ar_description = ''Microsoft account auth through the MojangSupport module.'',
      ar_core = ''microsoft'', ar_module = Some ''MojangSupport_module'', ar_source = mojang_source\<rparr>,
     \<lparr>ar_id = Merge_Recipe, ar_title = ''Merge'',
      ar_description = ''Combines multiple auth providers for server token generation only.'',
      ar_core = ''merge'', ar_module = None, ar_source = auth_wiki_source\<rparr>,
     \<lparr>ar_id = Discord_Recipe, ar_title = ''Discord OAuth'',
      ar_description = ''Built-in standalone Discord OAuth auth provider. Requires the DiscordAuthSystem module.'',
      ar_core = ''discordauthsystem'', ar_module = Some ''DiscordAuthSystem_module'', ar_source = discord_source\<rparr>]"

definition find_recipe :: "recipe_id \<Rightarrow> auth_recipe option" where
  "find_recipe i = List.find (\<lambda>r. ar_id r = i) auth_recipes"

definition recipe_source_of :: "recipe_id \<Rightarrow> recipe_source" where
  "recipe_source_of i =
     (if i = File_Recipe then file_auth_source
      else if i = Mojang_Recipe \<or> i = Microsoft_Recipe then mojang_source
      else (case find_recipe i of Some r \<Rightarrow> ar_source r | None \<Rightarrow> auth_wiki_source))"

section \<open>Reading the configuration\<close>

record 'w auth_env =
  au_host :: "'w host"
  au_modules :: "'w module_env"
  au_command :: "string \<Rightarrow> ('w, string list) io"
  au_restart :: "(('w, unit) io) option"
  au_build :: "('w, unit) io"
  au_public_url :: string
  au_panel_url :: "string option"
  au_secret :: "string option"

definition provider_id_rx :: rx where
  "provider_id_rx = name_rx is_alnum (\<lambda>c. is_alnum c \<or> c = CHR ''_'' \<or> c = CHR ''-'') 63"

definition launch_config_path :: string where
  "launch_config_path = ''LaunchServer.json''"

definition discord_config_path :: string where
  "discord_config_path = ''config/DiscordAuthSystem/Config.json''"

definition check_auth_id :: "string \<Rightarrow> js_error + unit" where
  "check_auth_id a = (if full_match provider_id_rx a then Inr ()
     else Inl (Error ''Auth provider id contains unsupported characters''))"

text \<open>Reading and parsing a file; an error of either has the label before its message.\<close>

definition read_json :: "'w host \<Rightarrow> string \<Rightarrow> string \<Rightarrow> ('w, json) io" where
  "read_json H path label =
     tryCatch (case vol_read_file (h_volume H) of
         None \<Rightarrow> raise (Error ''readFile'')
       | Some rd \<Rightarrow> andThen (rd path) (\<lambda>s. case h_parse H s of Some v \<Rightarrow> ret v | None \<Rightarrow> raise (Error ''JSON'')))
       (\<lambda>e. raise (Error (label @ '': '' @ error_message e)))"

definition read_auth_config :: "'w host \<Rightarrow> ('w, (string \<times> json) list \<times> (string \<times> json) list) io" where
  "read_auth_config H =
     andThen (read_json H launch_config_path ''Unable to read LaunchServer auth configuration'') (\<lambda>v. case v of
       JNull \<Rightarrow> raise (Error ''null is not an object'')
     | _ \<Rightarrow> (case json_field v ''auth'' of
           Some (JObj pairs) \<Rightarrow> ret (spread v, pairs)
         | _ \<Rightarrow> raise (Error ''LaunchServer configuration does not contain an auth provider map'')))"

record provider_summary =
  ps_id :: string
  ps_name :: json
  ps_core :: string
  ps_default :: bool
  ps_visible :: bool

definition core_type :: "json \<Rightarrow> string" where
  "core_type pair = or_else (typed_string (object_field pair ''core'') ''type'') ''unknown''"

text \<open>A provider that is null throws when its name is read.\<close>

definition provider_summary_of :: "string \<times> json \<Rightarrow> js_error + provider_summary" where
  "provider_summary_of = (\<lambda>(i, pair). if pair = JNull then Inl (Error ''null is not an object'')
     else Inr \<lparr>ps_id = i, ps_name = nullish (json_field pair ''displayName'') (JStr i), ps_core = core_type pair,
       ps_default = (json_field pair ''isDefault'' = Some (JBool True)),
       ps_visible = (json_field pair ''visible'' \<noteq> Some (JBool False))\<rparr>)"

definition auth_configuration :: "'w auth_env \<Rightarrow> ('w, provider_summary list) io" where
  "auth_configuration A = andThen (read_auth_config (au_host A)) (\<lambda>(_, pairs).
     traverse (\<lambda>p. ofSum (provider_summary_of p)) pairs)"

section \<open>What is shown of a provider\<close>

record texture_detail =
  td_request :: bool
  td_skin :: "string option"
  td_cloak :: "string option"

datatype driver_preset = Postgresql | Mariadb | Mysql

record holder_detail =
  hd_driver :: driver_preset
  hd_url :: string
  hd_username :: string
  hd_password_set :: bool
  hd_lifetime :: "rat option"
  hd_initialize :: "bool option"

datatype verifier_kind = Bcrypt | Digest | DoubleDigest | Phpass

record verifier_detail =
  vd_kind :: verifier_kind
  vd_algo :: "string option"
  vd_cost :: "rat option"
  vd_hex :: "bool option"

record sql_detail =
  sd_holder :: holder_detail
  sd_expire :: "rat option"
  sd_columns :: "(string \<times> string option) list"
  sd_verifier :: verifier_detail

record http_detail =
  ht_urls :: "(string \<times> string) list"
  ht_bearer_set :: bool

record discord_config =
  dc_client :: string
  dc_secret :: string
  dc_redirect :: string
  dc_authorize :: string
  dc_token :: string
  dc_api :: string
  dc_guilds :: "string list"
  dc_global :: bool
  dc_regex :: string
  dc_format :: string
  dc_register :: bool

record discord_detail =
  dd_client :: string
  dd_redirect :: string
  dd_authorize :: string
  dd_token :: string
  dd_api :: string
  dd_guilds :: "string list"
  dd_global :: bool
  dd_regex :: string
  dd_format :: string
  dd_register :: bool
  dd_secret_set :: bool

record provider_detail =
  pd_id :: string
  pd_name :: json
  pd_core :: string
  pd_default :: bool
  pd_visible :: bool
  pd_texture :: "texture_detail option"
  pd_sql :: "sql_detail option"
  pd_http :: "http_detail option"
  pd_discord :: "discord_detail option"
  pd_merge :: "string list option"

definition texture_detail_of :: "json \<Rightarrow> texture_detail option" where
  "texture_detail_of pair = (let t = json_field pair ''textureProvider'' in
     if truthy t then (let v = (case t of Some v \<Rightarrow> v | None \<Rightarrow> JNull) in
       Some \<lparr>td_request = (json_field v ''type'' = Some (JStr ''request'')), td_skin = typed_string v ''skinURL'',
         td_cloak = typed_string v ''cloakURL''\<rparr>)
     else None)"

definition detect_driver :: "string \<Rightarrow> driver_preset" where
  "detect_driver c = (if sublist ''postgresql'' c then Postgresql else if sublist ''mariadb'' c then Mariadb else Mysql)"

definition holder_detail_of :: "json \<Rightarrow> holder_detail" where
  "holder_detail_of h = \<lparr>hd_driver = detect_driver (or_else (typed_string h ''driverClass'') []),
     hd_url = or_else (typed_string h ''jdbcUrl'') [], hd_username = or_else (typed_string h ''username'') [],
     hd_password_set = (typed_string h ''password'' \<noteq> None \<and> typed_string h ''password'' \<noteq> Some []),
     hd_lifetime = typed_number h ''hikariMaxLifetime'', hd_initialize = typed_bool h ''initializeAtStart''\<rparr>"

definition verifier_detail_of :: "json \<Rightarrow> verifier_detail" where
  "verifier_detail_of v = \<lparr>vd_kind =
       (if json_field v ''type'' = Some (JStr ''digest'') then Digest
        else if json_field v ''type'' = Some (JStr ''doubleDigest'') then DoubleDigest
        else if json_field v ''type'' = Some (JStr ''phpass'') then Phpass else Bcrypt),
     vd_algo = typed_string v ''algo'', vd_cost = typed_number v ''cost'', vd_hex = typed_bool v ''toHexMode''\<rparr>"

definition sql_column_names :: "string list" where
  "sql_column_names = [''table'', ''uuidColumn'', ''usernameColumn'', ''accessTokenColumn'', ''passwordColumn'',
     ''serverIDColumn'', ''hardwareIdColumn'', ''tableHWID'', ''tableHWIDLog'']"

definition sql_detail_of :: "json \<Rightarrow> sql_detail" where
  "sql_detail_of core = \<lparr>sd_holder = holder_detail_of (object_field core ''holder''), sd_expire = typed_number core ''expireSeconds'',
     sd_columns = map (\<lambda>k. (k, typed_string core k)) sql_column_names,
     sd_verifier = verifier_detail_of (object_field core ''passwordVerifier'')\<rparr>"

definition http_url_names :: "string list" where
  "http_url_names = [''userByUsername'', ''userByUuid'', ''userByToken'', ''refreshAccessToken'', ''authorize'',
     ''checkServer'', ''joinServer'']"

definition http_detail_of :: "json \<Rightarrow> http_detail" where
  "http_detail_of core = \<lparr>ht_urls = map (\<lambda>k. (k, or_else (typed_string core k) [])) http_url_names,
     ht_bearer_set = (typed_string core ''bearerToken'' \<noteq> None \<and> typed_string core ''bearerToken'' \<noteq> Some [])\<rparr>"

definition default_authorize :: string where "default_authorize = ''https://discord.com/oauth2/authorize''"
definition default_token :: string where "default_token = ''https://discord.com/api/oauth2/token''"
definition default_api :: string where "default_api = ''https://discord.com/api/v10''"
definition default_regex :: string where "default_regex = ''^[a-zA-Z0-9_]{3,16}$''"

definition discord_config_of :: "json \<Rightarrow> discord_config" where
  "discord_config_of v = \<lparr>dc_client = or_else (typed_string v ''clientId'') [], dc_secret = or_else (typed_string v ''clientSecret'') [],
     dc_redirect = or_else (typed_string v ''redirectUrl'') [],
     dc_authorize = or_else (typed_string v ''discordAuthorizeUrl'') default_authorize,
     dc_token = or_else (typed_string v ''discordTokenUrl'') default_token,
     dc_api = or_else (typed_string v ''discordApiEndpoint'') default_api,
     dc_guilds = as_strings (json_field v ''requiredGuildIds''),
     dc_global = or_else (typed_bool v ''useGlobalNickname'') True,
     dc_regex = or_else (typed_string v ''usernameRegex'') default_regex,
     dc_format = or_else (typed_string v ''usernameFormat'') ''{discord}'',
     dc_register = or_else (typed_bool v ''autoRegister'') True\<rparr>"

definition read_discord_config :: "'w host \<Rightarrow> ('w, discord_config option) io" where
  "read_discord_config H =
     andThen (vol_exists (h_volume H) discord_config_path AFile) (\<lambda>there.
     if \<not> there then ret None
     else andThen (read_json H discord_config_path ''Unable to read DiscordAuthSystem configuration'') (\<lambda>v.
       ret (Some (discord_config_of v))))"

definition discord_detail_of :: "discord_config option \<Rightarrow> discord_detail" where
  "discord_detail_of c = (let d = (case c of Some x \<Rightarrow> x | None \<Rightarrow> discord_config_of (JObj [])) in
     \<lparr>dd_client = dc_client d, dd_redirect = dc_redirect d, dd_authorize = dc_authorize d, dd_token = dc_token d,
      dd_api = dc_api d, dd_guilds = dc_guilds d, dd_global = dc_global d, dd_regex = dc_regex d,
      dd_format = dc_format d, dd_register = dc_register d, dd_secret_set = (dc_secret d \<noteq> [])\<rparr>)"

definition sanitize_provider :: "'w host \<Rightarrow> string \<Rightarrow> json \<Rightarrow> ('w, provider_detail) io" where
  "sanitize_provider H i pair =
     (let core = object_field pair ''core''; kind = core_type pair in
      andThen (if kind = ''discordauthsystem'' then
          andThen (read_discord_config H) (\<lambda>c. ret (Some (discord_detail_of c))) else ret None) (\<lambda>discord.
      ret \<lparr>pd_id = i, pd_name = nullish (json_field pair ''displayName'') (JStr i), pd_core = kind,
        pd_default = (json_field pair ''isDefault'' = Some (JBool True)),
        pd_visible = (json_field pair ''visible'' \<noteq> Some (JBool False)),
        pd_texture = texture_detail_of pair,
        pd_sql = (if kind = ''sql'' then Some (sql_detail_of core) else None),
        pd_http = (if kind = ''http'' then Some (http_detail_of core) else None),
        pd_discord = discord,
        pd_merge = (if kind = ''merge'' then Some (as_strings (json_field core ''list'')) else None)\<rparr>))"

definition provider_detail_of :: "'w auth_env \<Rightarrow> string \<Rightarrow> ('w, provider_detail) io" where
  "provider_detail_of A i =
     thenDo (ofSum (check_auth_id i))
     (andThen (read_auth_config (au_host A)) (\<lambda>(_, pairs).
      let pair = member_of pairs i in
      if truthy pair then sanitize_provider (au_host A) i (case pair of Some v \<Rightarrow> v | None \<Rightarrow> JNull)
      else raise (Error (''Auth provider \"'' @ i @ ''\" does not exist''))))"

section \<open>Building a provider\<close>

record sql_input =
  sq_driver :: driver_preset
  sq_url :: string
  sq_username :: string
  sq_password :: "string option"
  sq_lifetime :: "rat option"
  sq_initialize :: "bool option"
  sq_expire :: "rat option"
  sq_columns :: "string \<Rightarrow> string option"
  sq_verifier :: verifier_kind
  sq_algo :: "string option"
  sq_cost :: "rat option"
  sq_hex :: "bool option"

record http_input =
  hi_urls :: "string \<Rightarrow> string"
  hi_bearer :: "string option"

text \<open>Optional texts of the Discord input; an absent and an empty one are treated alike.\<close>

record discord_input =
  di_client :: string
  di_secret :: string
  di_redirect :: string
  di_authorize :: string
  di_token :: string
  di_api :: string
  di_guilds :: "string list option"
  di_global :: "bool option"
  di_regex :: string
  di_format :: string
  di_register :: "bool option"

text \<open>The configuration of the textures is the JSON value of the request.\<close>

record provider_input =
  pi_auth :: string
  pi_recipe :: recipe_id
  pi_name :: string
  pi_default :: bool
  pi_visible :: bool
  pi_texture :: "json option"
  pi_sql :: "sql_input option"
  pi_http :: "http_input option"
  pi_discord :: "discord_input option"
  pi_merge :: "string list option"

definition driver_class :: "driver_preset \<Rightarrow> string" where
  "driver_class d = (case d of Postgresql \<Rightarrow> ''org.postgresql.Driver'' | Mariadb \<Rightarrow> ''org.mariadb.jdbc.Driver''
     | Mysql \<Rightarrow> ''com.mysql.cj.jdbc.Driver'')"

definition jdbc_prefix :: "driver_preset \<Rightarrow> string" where
  "jdbc_prefix d = (case d of Postgresql \<Rightarrow> ''jdbc:postgresql://'' | Mariadb \<Rightarrow> ''jdbc:mariadb://'' | Mysql \<Rightarrow> ''jdbc:mysql://'')"

definition password_verifier :: "sql_input \<Rightarrow> json" where
  "password_verifier q = (case sq_verifier q of
     Bcrypt \<Rightarrow> JObj [(''type'', JStr ''bcrypt''), (''cost'', JNum (or_else (sq_cost q) 10))]
   | Digest \<Rightarrow> JObj [(''type'', JStr ''digest''), (''algo'', JStr (or_else (sq_algo q) ''SHA256''))]
   | DoubleDigest \<Rightarrow> JObj [(''type'', JStr ''doubleDigest''), (''algo'', JStr (or_else (sq_algo q) ''SHA256'')),
       (''toHexMode'', JBool (or_else (sq_hex q) True))]
   | Phpass \<Rightarrow> JObj [(''type'', JStr ''phpass'')])"

text \<open>A secret that is left empty is taken from the provider that is there.\<close>

definition kept_secret :: "string option \<Rightarrow> string option \<Rightarrow> string option" where
  "kept_secret given existing = (case given of
     Some (c # cs) \<Rightarrow> Some (c # cs)
   | _ \<Rightarrow> (case existing of Some (c # cs) \<Rightarrow> Some (c # cs) | _ \<Rightarrow> None))"

definition sql_defaults :: "(string \<times> string) list" where
  "sql_defaults = [(''uuidColumn'', ''uuid''), (''usernameColumn'', ''username''), (''accessTokenColumn'', ''accesstoken''),
     (''passwordColumn'', ''password''), (''serverIDColumn'', ''serverid''), (''hardwareIdColumn'', ''hwidId''),
     (''tableHWID'', ''hwids''), (''tableHWIDLog'', ''hwidLog''), (''table'', ''users'')]"

definition build_sql_core :: "sql_input option \<Rightarrow> json \<Rightarrow> js_error + json" where
  "build_sql_core sql existing = (case sql of
     None \<Rightarrow> Inl (Error ''SQL auth requires database configuration'')
   | Some q \<Rightarrow>
       if \<not> prefix (jdbc_prefix (sq_driver q)) (sq_url q)
       then Inl (Error (''JDBC URL must start with '' @ jdbc_prefix (sq_driver q)))
       else (case kept_secret (sq_password q) (typed_string (object_field existing ''holder'') ''password'') of
           None \<Rightarrow> Inl (Error ''SQL auth requires a database password'')
         | Some password \<Rightarrow> Inr (JObj ([(''type'', JStr ''sql''),
             (''holder'', JObj [(''driverClass'', JStr (driver_class (sq_driver q))), (''jdbcUrl'', JStr (sq_url q)),
                (''username'', JStr (sq_username q)), (''password'', JStr password),
                (''hikariMaxLifetime'', JNum (or_else (sq_lifetime q) 1800000)),
                (''initializeAtStart'', JBool (or_else (sq_initialize q) False))]),
             (''expireSeconds'', JNum (or_else (sq_expire q) 3600))] @
             map (\<lambda>(k, d). (k, JStr (or_else (sq_columns q k) d))) sql_defaults @
             [(''passwordVerifier'', password_verifier q)]))))"

definition build_http_core :: "http_input option \<Rightarrow> json \<Rightarrow> js_error + json" where
  "build_http_core http existing = (case http of
     None \<Rightarrow> Inl (Error ''HTTP auth requires endpoint configuration'')
   | Some h \<Rightarrow> (case kept_secret (hi_bearer h) (typed_string existing ''bearerToken'') of
         None \<Rightarrow> Inl (Error ''HTTP auth requires a bearer token'')
       | Some bearer \<Rightarrow> Inr (JObj ((''type'', JStr ''http'') # map (\<lambda>k. (k, JStr (hi_urls h k))) http_url_names @
           [(''bearerToken'', JStr bearer)]))))"

definition type_only :: "string \<Rightarrow> json" where
  "type_only t = JObj [(''type'', JStr t)]"

definition build_core :: "provider_input \<Rightarrow> json \<Rightarrow> js_error + json" where
  "build_core p existing = (let core = object_field existing ''core'' in
     case pi_recipe p of
       Memory_Recipe \<Rightarrow> Inr (type_only ''memory'')
     | Mojang_Recipe \<Rightarrow> Inr (type_only ''mojang'')
     | Microsoft_Recipe \<Rightarrow> Inr (type_only ''microsoft'')
     | Merge_Recipe \<Rightarrow> Inr (JObj [(''type'', JStr ''merge''), (''list'', JArr (map JStr (or_else (pi_merge p) [])))])
     | Http_Recipe \<Rightarrow> build_http_core (pi_http p) core
     | Sql_Recipe \<Rightarrow> build_sql_core (pi_sql p) core
     | Discord_Recipe \<Rightarrow> Inr (type_only ''discordauthsystem'')
     | File_Recipe \<Rightarrow> Inl (Error ''Recipe \"file\" cannot be applied through JSON write''))"

definition build_texture :: "json \<Rightarrow> json" where
  "build_texture config =
     (if json_field config ''type'' = Some (JStr ''void'') then type_only ''void''
      else JObj ((''type'', JStr ''request'') #
        (if truthy (json_field config ''skinURL'') then [(''skinURL'', nullish (json_field config ''skinURL'') JNull)] else []) @
        (if truthy (json_field config ''cloakURL'') then [(''cloakURL'', nullish (json_field config ''cloakURL'') JNull)] else [])))"

definition texture_config :: "'w auth_env \<Rightarrow> provider_input \<Rightarrow> json \<Rightarrow> json" where
  "texture_config A p existing =
     (case pi_texture p of
        Some t \<Rightarrow>
          if json_field t ''type'' = Some (JStr ''request'') \<and> pi_recipe p = Discord_Recipe then
            (case au_panel_url A of
               Some (c # cs) \<Rightarrow> JObj [(''type'', JStr ''request''),
                 (''skinURL'', JStr (drop_slash (c # cs) @ ''/api/public/skins/%username%.png'')),
                 (''cloakURL'', JStr (drop_slash (c # cs) @ ''/api/public/cloaks/%username%.png''))]
             | _ \<Rightarrow> type_only ''void'')
          else t
      | None \<Rightarrow> nullish (json_field existing ''textureProvider'') (type_only ''void''))"

definition build_pair :: "'w auth_env \<Rightarrow> provider_input \<Rightarrow> json \<Rightarrow> js_error + json" where
  "build_pair A p existing = map_sum id (\<lambda>core. JObj [(''isDefault'', JBool (pi_default p)),
     (''displayName'', JStr (pi_name p)), (''visible'', JBool (pi_visible p)),
     (''textureProvider'', build_texture (texture_config A p existing)), (''core'', core)]) (build_core p existing)"

section \<open>The Discord module\<close>

definition or_text :: "string \<Rightarrow> string \<Rightarrow> string" where
  "or_text s d = (if s = [] then d else s)"

definition discord_json :: "'w auth_env \<Rightarrow> discord_input \<Rightarrow> string \<Rightarrow> json" where
  "discord_json A c secret = JObj
     [(''clientId'', JStr (di_client c)), (''clientSecret'', JStr secret), (''redirectUrl'', JStr (di_redirect c)),
      (''discordAuthorizeUrl'', JStr (or_text (di_authorize c) default_authorize)),
      (''discordTokenUrl'', JStr (or_text (di_token c) default_token)),
      (''discordApiEndpoint'', JStr (or_text (di_api c) default_api)),
      (''requiredGuildIds'', JArr (map JStr (or_else (di_guilds c) []))),
      (''useGlobalNickname'', JBool (or_else (di_global c) True)),
      (''usernameRegex'', JStr (or_text (di_regex c) default_regex)),
      (''usernameFormat'', JStr (or_text (di_format c) ''{discord}'')),
      (''autoRegister'', JBool (or_else (di_register c) True)),
      (''portalRedirectUrl'', JStr (drop_slash (au_public_url A) @ ''/webapi/auth/discord/portal'')),
      (''portalCallbackUrl'', JStr (drop_slash (or_else (au_panel_url A) []) @ ''/api/public/auth/callback'')),
      (''portalHmacSecret'', JStr (or_else (au_secret A) []))]"

definition apply_discord_config :: "'w auth_env \<Rightarrow> discord_input option \<Rightarrow> ('w, unit) io" where
  "apply_discord_config A config =
     (let H = au_host A in case config of
        None \<Rightarrow> raise (Error ''Discord auth requires module configuration'')
      | Some c \<Rightarrow> andThen (read_discord_config H) (\<lambda>existing.
          let secret = or_text (di_secret c) (case existing of Some d \<Rightarrow> dc_secret d | None \<Rightarrow> []) in
          thenDo (throwIf (di_client c = [] \<or> secret = [] \<or> di_redirect c = [])
            (Error ''Discord auth requires clientId, clientSecret, and redirectUrl''))
          (thenDo (h_progress H 12 ''Writing DiscordAuthSystem module configuration'')
          (thenDo (vol_write (h_volume H) discord_config_path (h_stringify H (discord_json A c secret) @ [CHR 0x0A]) M0644)
            (h_log H (''DiscordAuthSystem module config written: '' @ discord_config_path))))))"

definition has_current_artifact :: "'w auth_env \<Rightarrow> ('w, bool) io" where
  "has_current_artifact A =
     (let V = h_volume (au_host A) in
      andThen (vol_exists V (''modules/'' @ discord_jar) AFile) (\<lambda>jar.
      if \<not> jar then ret False
      else andThen (vol_exists V discord_version_path AFile) (\<lambda>version.
        if \<not> version then ret False
        else (case vol_read_file V of
            None \<Rightarrow> raise (Error ''readFile'')
          | Some rd \<Rightarrow> andThen (rd discord_version_path) (\<lambda>s. ret (js_trim s = discord_version))))))"

definition ensure_discord_module :: "'w auth_env \<Rightarrow> ('w, unit) io" where
  "ensure_discord_module A =
     (let H = au_host A in
      andThen (has_current_artifact A) (\<lambda>current.
      if current then h_log H (''Using published DiscordAuthSystem module JAR: modules/'' @ discord_jar)
      else
        thenDo (h_progress H 5 ''Building and publishing the current DiscordAuthSystem module'')
        (thenDo (au_build A)
          (case au_restart A of
             None \<Rightarrow> ret ()
           | Some restart \<Rightarrow>
               thenDo (h_progress H 96 ''Restarting LaunchServer with the updated DiscordAuthSystem module'') restart))))"

section \<open>Applying a recipe\<close>

definition auth_progress :: install_progress where
  "auth_progress = \<lparr>ip_checking = 5, ip_loading = 15, ip_verifying = 25, ip_completed = 30\<rparr>"

text \<open>The modules of the recipes are in the catalogue.\<close>

definition install_catalog_module :: "'w auth_env \<Rightarrow> string \<Rightarrow> ('w, unit) io" where
  "install_catalog_module A i = (case find_catalog_module i of
     None \<Rightarrow> raise (Error (i @ '' is missing from the verified module catalog''))
   | Some m \<Rightarrow> thenDo (install_module (au_modules A) m auth_progress) (ret ()))"

definition has_core :: "(string \<times> json) list \<Rightarrow> string \<Rightarrow> string \<Rightarrow> bool" where
  "has_core pairs i kind \<longleftrightarrow> (case member_of pairs i of
     Some pair \<Rightarrow> json_field (object_field pair ''core'') ''type'' = Some (JStr kind)
   | None \<Rightarrow> False)"

definition configured_file_provider :: "(string \<times> json) list \<Rightarrow> string \<Rightarrow> string option" where
  "configured_file_provider pairs i =
     (if has_core pairs i ''fileauthsystem'' then Some i
      else if has_core pairs ''fileauthsystem'' ''fileauthsystem'' then Some ''fileauthsystem'' else None)"

definition snapshot_config :: "'w auth_env \<Rightarrow> ('w, string) io" where
  "snapshot_config A =
     (let H = au_host A in
      andThen (safe_timestamp H) (\<lambda>time.
      let backup = launch_config_path @ ''.backup-'' @ time in
      thenDo (vol_copy (h_volume H) launch_config_path backup)
      (thenDo (h_log H (''LaunchServer config snapshot created: '' @ path_join [h_root H, ''launcher'', backup]))
        (ret (path_join [h_root H, ''launcher'', backup])))))"

record apply_outcome =
  ao_auth :: string
  ao_core :: string
  ao_backup :: "string option"
  ao_restarted :: bool
  ao_source :: recipe_source

record file_auth_result =
  fr_requested :: string
  fr_configured :: string
  fr_before :: bool
  fr_backup :: "string option"

definition install_file_auth :: "'w auth_env \<Rightarrow> string \<Rightarrow> ('w, file_auth_result) io" where
  "install_file_auth A i =
     (let H = au_host A in
      thenDo (ofSum (check_auth_id i))
      (andThen (read_auth_config H) (\<lambda>(_, before).
       thenDo (throwIf (\<not> truthy (member_of before i)) (Error (''Auth provider \"'' @ i @ ''\" does not exist'')))
       (thenDo (install_catalog_module A ''FileAuthSystem_module'')
       (andThen (read_auth_config H) (\<lambda>(_, loaded).
        case configured_file_provider loaded i of
          Some e \<Rightarrow>
            thenDo (h_progress H 95 (''FileAuthSystem is already configured as '' @ e))
              (ret \<lparr>fr_requested = i, fr_configured = e, fr_before = True, fr_backup = None\<rparr>)
        | None \<Rightarrow>
            andThen (snapshot_config A) (\<lambda>backup.
            thenDo (h_progress H 55 (''Applying FileAuthSystem recipe to '' @ i))
            (andThen (au_command A (''fileauthsystem install '' @ i)) (\<lambda>ls.
             thenDo (log_all H ls)
             (thenDo (h_progress H 80 ''Verifying persisted auth configuration'')
             (andThen (read_auth_config H) (\<lambda>(_, after).
              case configured_file_provider after i of
                None \<Rightarrow> raise (Error ''FileAuthSystem command completed without a persisted fileauthsystem provider'')
              | Some e \<Rightarrow>
                  thenDo (h_progress H 95 (''FileAuthSystem configured as '' @ e))
                    (ret \<lparr>fr_requested = i, fr_configured = e, fr_before = False, fr_backup = Some backup\<rparr>)))))))))))))"

definition prepare_recipe :: "'w auth_env \<Rightarrow> provider_input \<Rightarrow> ('w, unit) io" where
  "prepare_recipe A p =
     thenDo (do_when (pi_recipe p = Mojang_Recipe \<or> pi_recipe p = Microsoft_Recipe)
       (install_catalog_module A ''MojangSupport_module''))
     (thenDo (do_when (pi_recipe p = Sql_Recipe \<and> map_option sq_verifier (pi_sql p) = Some Phpass)
       (install_catalog_module A ''AdditionalHash_module''))
       (do_when (pi_recipe p = Discord_Recipe)
         (thenDo (ensure_discord_module A)
         (thenDo (apply_discord_config A (pi_discord p))
           (install_catalog_module A ''DiscordAuthSystem_module'')))))"

definition check_merge :: "provider_input \<Rightarrow> (string \<times> json) list \<Rightarrow> js_error + unit" where
  "check_merge p pairs =
     (if pi_recipe p \<noteq> Merge_Recipe then Inr ()
      else if length (or_else (pi_merge p) []) < 2 then Inl (Error ''Merge auth requires at least two provider ids'')
      else (case List.find (\<lambda>i. \<not> truthy (member_of pairs i)) (or_else (pi_merge p) []) of
          Some i \<Rightarrow> Inl (Error (''Merge list references missing provider \"'' @ i @ ''\"''))
        | None \<Rightarrow> Inr ()))"

definition undefault :: "string \<Rightarrow> string \<times> json \<Rightarrow> string \<times> json" where
  "undefault i = (\<lambda>(k, pair). (k, if k = i then pair else JObj (obj_put ''isDefault'' (JBool False) (spread pair))))"

definition next_auth :: "provider_input \<Rightarrow> json \<Rightarrow> (string \<times> json) list \<Rightarrow> (string \<times> json) list" where
  "next_auth p pair pairs =
     obj_put (pi_auth p) pair (if pi_default p then map (undefault (pi_auth p)) pairs else pairs)"

definition write_provider ::
  "'w auth_env \<Rightarrow> provider_input \<Rightarrow> string \<Rightarrow> (string \<times> json) list \<Rightarrow> (string \<times> json) list \<Rightarrow> ('w, unit) io" where
  "write_provider A p core config pairs =
     (let H = au_host A in
      andThen (ofSum (build_pair A p (nullish (member_of pairs (pi_auth p)) (JObj [])))) (\<lambda>pair.
      thenDo (h_progress H 55 (''Writing '' @ core @ '' auth provider '' @ pi_auth p))
        (vol_write (h_volume H) launch_config_path
          (h_stringify H (JObj (obj_put ''auth'' (JObj (next_auth p pair pairs)) config)) @ [CHR 0x0A]) M0644)))"

definition restart_for_auth :: "'w auth_env \<Rightarrow> ('w, bool) io" where
  "restart_for_auth A = (let H = au_host A in case au_restart A of
     Some restart \<Rightarrow>
       thenDo (h_progress H 70 ''Restarting LaunchServer to load the auth provider'') (thenDo restart (ret True))
   | None \<Rightarrow> thenDo (h_log H ''LaunchServer restart skipped; inject lifecycle to apply auth cores live'') (ret False))"

text \<open>The restart and the check that LaunchServer kept the provider.\<close>

definition confirm_provider ::
  "'w auth_env \<Rightarrow> provider_input \<Rightarrow> auth_recipe \<Rightarrow> string \<Rightarrow> ('w, apply_outcome) io" where
  "confirm_provider A p recipe backup =
     (let H = au_host A in
      andThen (restart_for_auth A) (\<lambda>restarted.
      thenDo (h_progress H 90 ''Verifying persisted auth configuration'')
      (andThen (read_auth_config H) (\<lambda>(_, after).
       thenDo (throwIf (\<not> has_core after (pi_auth p) (ar_core recipe))
         (Error (''Auth provider apply completed without persisting core type \"'' @ ar_core recipe @ ''\"'')))
       (thenDo (h_progress H 95 (''Auth provider '' @ pi_auth p @ '' configured as '' @ ar_core recipe))
         (ret \<lparr>ao_auth = pi_auth p, ao_core = ar_core recipe, ao_backup = Some backup, ao_restarted = restarted,
              ao_source = recipe_source_of (pi_recipe p)\<rparr>))))))"

definition apply_recipe :: "'w auth_env \<Rightarrow> provider_input \<Rightarrow> auth_recipe \<Rightarrow> ('w, apply_outcome) io" where
  "apply_recipe A p recipe =
     thenDo (prepare_recipe A p)
     (andThen (read_auth_config (au_host A)) (\<lambda>(config, pairs).
      thenDo (ofSum (check_merge p pairs))
      (andThen (snapshot_config A) (\<lambda>backup.
       thenDo (write_provider A p (ar_core recipe) config pairs) (confirm_provider A p recipe backup)))))"

definition apply_provider :: "'w auth_env \<Rightarrow> provider_input \<Rightarrow> ('w, apply_outcome) io" where
  "apply_provider A p =
     thenDo (ofSum (check_auth_id (pi_auth p)))
     (case find_recipe (pi_recipe p) of
        None \<Rightarrow> raise (Error ''Unknown auth recipe'')
      | Some recipe \<Rightarrow>
          if pi_recipe p = File_Recipe then
            andThen (install_file_auth A (pi_auth p)) (\<lambda>r.
              ret \<lparr>ao_auth = fr_configured r, ao_core = ''fileauthsystem'', ao_backup = fr_backup r, ao_restarted = False,
                   ao_source = file_auth_source\<rparr>)
          else apply_recipe A p recipe)"

section \<open>The configuration of FileAuthSystem\<close>

definition file_config_path :: string where
  "file_config_path = ''config/FileAuthSystem/Config.json''"

text \<open>Whether the users are saved by themselves.\<close>

definition get_file_config :: "'w host \<Rightarrow> ('w, bool) io" where
  "get_file_config H =
     andThen (vol_exists (h_volume H) file_config_path AFile) (\<lambda>there.
     if \<not> there then ret True
     else andThen (read_json H file_config_path ''Unable to read FileAuthSystem module config'') (\<lambda>v.
       if v = JNull then raise (Error ''Unable to read FileAuthSystem module config: null is not an object'')
       else ret (json_field v ''autoSave'' \<noteq> Some (JBool False))))"

definition apply_file_config :: "'w host \<Rightarrow> bool \<Rightarrow> ('w, string option) io" where
  "apply_file_config H autoSave =
     andThen (safe_timestamp H) (\<lambda>time.
     let backup = file_config_path @ ''.backup-'' @ time; shown = path_join [h_root H, ''launcher'', backup] in
     andThen (vol_exists (h_volume H) file_config_path AFile) (\<lambda>there.
     andThen (if there then
         thenDo (vol_copy (h_volume H) file_config_path backup)
         (thenDo (h_log H (''FileAuthSystem config snapshot created: '' @ shown)) (ret (Some shown)))
       else ret None) (\<lambda>kept.
     thenDo (h_progress H 60 ''Writing FileAuthSystem module configuration'')
     (thenDo (vol_write (h_volume H) file_config_path
         (h_stringify H (JObj [(''autoSave'', JBool autoSave)]) @ [CHR 0x0A]) M0644)
     (thenDo (h_progress H 95 (''FileAuthSystem autoSave='' @ (if autoSave then ''true'' else ''false'')))
       (ret kept))))))"

end
