(* ===== verification/Auth_Users.thy ===== *)
theory Auth_Users
  imports Auth_Providers
begin

text \<open>
  \<^verbatim>\<open>auth-users.service.ts\<close> and \<^verbatim>\<open>auth-module-artifacts.service.ts\<close>: the users of FileAuthSystem, changed by
  commands of LaunchServer and, for a deletion, in its database file; and the removal of old builds of the Discord
  module. \<open>String(value)\<close> and \<open>localeCompare\<close> are fields of the record \<open>users_env\<close>.
\<close>

section \<open>What a provider allows\<close>

record 'w users_env =
  us_host :: "'w host"
  us_command :: "string \<Rightarrow> ('w, string list) io"
  us_text :: "json \<Rightarrow> string"
  us_le :: "string \<Rightarrow> string \<Rightarrow> bool"

definition account_name_rx :: rx where
  "account_name_rx = (let w = Cls (\<lambda>c. is_alnum c \<or> c = CHR ''_'') in Cat w (between_times 1 15 w))"

definition email_rx :: rx where
  "email_rx = (let w = many1 (Cls (\<lambda>c. \<not> js_space c \<and> c \<noteq> CHR ''@'')) in cats [w, lit ''@'', w, lit ''.'', w])"

definition database_path :: string where
  "database_path = ''config/FileAuthSystem/Database.json''"

definition unmanaged_reason :: "'w users_env \<Rightarrow> json \<Rightarrow> string" where
  "unmanaged_reason U core =
     (if core = JStr ''memory'' then ''Memory auth does not persist users. Configure FileAuthSystem for managed accounts.''
      else if core = JStr ''sql'' then ''SQL auth users live in the external database. Manage them through your CMS or SQL tools.''
      else if core = JStr ''http'' then ''HTTP auth delegates user storage to your external API endpoints.''
      else if core = JStr ''mojang'' \<or> core = JStr ''microsoft'' then ''Official account auth has no local user directory.''
      else if core = JStr ''merge'' then ''Merge auth only combines providers for server tokens and cannot manage users directly.''
      else ''Provider core \"'' @ us_text U core @ ''\" does not support in-panel user management.'')"

text \<open>The entries an index finds in a value: those of an object, the places and the length of an array or a text.\<close>

definition own_entries :: "json \<Rightarrow> (string \<times> json) list" where
  "own_entries v = (case v of
     JArr xs \<Rightarrow> spread v @ [(''length'', JNum (of_nat (length xs)))]
   | JStr s \<Rightarrow> spread v @ [(''length'', JNum (of_nat (length s)))]
   | _ \<Rightarrow> spread v)"

definition provider_core :: "'w users_env \<Rightarrow> string \<Rightarrow> ('w, json) io" where
  "provider_core U i =
     andThen (read_json (us_host U) launch_config_path ''Unable to read LaunchServer auth configuration'') (\<lambda>v.
     if v = JNull then raise (Error ''null is not an object'')
     else (let pair = (case json_field v ''auth'' of None \<Rightarrow> None | Some JNull \<Rightarrow> None | Some auth \<Rightarrow> member_of (own_entries auth) i)
       in if truthy pair
          then ret (nullish (json_field (object_field (nullish pair JNull) ''core'') ''type'') (JStr ''unknown''))
          else raise (Error (''Auth provider \"'' @ i @ ''\" does not exist''))))"

definition managed_core :: json where
  "managed_core = JStr ''fileauthsystem''"

definition assert_managed :: "'w users_env \<Rightarrow> string \<Rightarrow> ('w, unit) io" where
  "assert_managed U i = andThen (provider_core U i) (\<lambda>core.
     throwIf (core \<noteq> managed_core) (Error (unmanaged_reason U core)))"

definition check_username :: "string \<Rightarrow> js_error + unit" where
  "check_username u = (if full_match account_name_rx u then Inr ()
     else Inl (Error ''Username must be 2-16 characters of letters, numbers, or underscores''))"

definition check_password :: "string \<Rightarrow> js_error + unit" where
  "check_password p =
     (if length p < 4 \<or> 128 < length p then Inl (Error ''Password must be between 4 and 128 characters'')
      else if list_ex js_space p then Inl (Error ''Password must not contain whitespace'')
      else Inr ())"

definition check_email :: "string \<Rightarrow> js_error + unit" where
  "check_email m = (if full_match email_rx m then Inr () else Inl (Error ''Email address is invalid''))"

section \<open>Commands\<close>

definition provider_command :: "string \<Rightarrow> string \<Rightarrow> string" where
  "provider_command i rest_of = ''config auth.'' @ i @ ''.core '' @ rest_of"

definition register_command :: "string \<Rightarrow> string \<Rightarrow> string \<Rightarrow> string \<Rightarrow> string" where
  "register_command i u m p = provider_command i (''register '' @ u @ '' '' @ m @ '' '' @ p)"

definition password_command :: "string \<Rightarrow> string \<Rightarrow> string \<Rightarrow> string" where
  "password_command i u p = provider_command i (''changePassword '' @ u @ '' '' @ p)"

definition lookup_command :: "string \<Rightarrow> string \<Rightarrow> string" where
  "lookup_command i u = provider_command i (''getuserbyusername '' @ u)"

definition save_users :: "'w users_env \<Rightarrow> string \<Rightarrow> ('w, unit) io" where
  "save_users U i = thenDo (us_command U (provider_command i ''save'')) (ret ())"

definition names_user :: "string \<Rightarrow> string \<Rightarrow> bool" where
  "names_user u line \<longleftrightarrow> prefix (js_lower (''User '' @ u @ '':'')) (js_lower (js_trim line)) \<or>
     mentions (''User '' @ [CHR 0x27] @ u @ [CHR 0x27]) line"

definition user_exists :: "'w users_env \<Rightarrow> string \<Rightarrow> string \<Rightarrow> ('w, bool) io" where
  "user_exists U i u = andThen (us_command U (lookup_command i u)) (\<lambda>ls. ret (\<exists>l\<in>set ls. names_user u l))"

section \<open>The database file\<close>

definition read_database :: "'w users_env \<Rightarrow> ('w, (string \<times> json) list) io" where
  "read_database U =
     (let H = us_host U; label = ''Unable to read FileAuthSystem database'' in
      andThen (vol_exists (h_volume H) database_path AFile) (\<lambda>there.
      if \<not> there then ret []
      else andThen (read_json H database_path label) (\<lambda>v. case v of
        JObj kvs \<Rightarrow> ret kvs
      | _ \<Rightarrow> raise (Error (label @ '': Database.json must be an object map'')))))"

record user_summary =
  su_name :: string
  su_uuid :: string

fun summaries :: "json list \<Rightarrow> js_error + user_summary list" where
  "summaries [] = Inr []"
| "summaries (u # us) =
     (if u = JNull then Inl (Error ''null is not an object'')
      else (case summaries us of
          Inl e \<Rightarrow> Inl e
        | Inr ss \<Rightarrow> (case (typed_string u ''username'', typed_string u ''uuid'') of
            (Some n, Some i) \<Rightarrow> Inr (\<lparr>su_name = n, su_uuid = i\<rparr> # ss)
          | _ \<Rightarrow> Inr ss)))"

definition read_users :: "'w users_env \<Rightarrow> ('w, user_summary list) io" where
  "read_users U = andThen (read_database U) (\<lambda>kvs. andThen (ofSum (summaries (map snd kvs))) (\<lambda>us.
     ret (sort_by (\<lambda>a b. us_le U (su_name a) (su_name b)) us)))"

text \<open>\<open>user.username?.toLowerCase()\<close>\<close>

definition lower_name :: "json \<Rightarrow> js_error + string option" where
  "lower_name u = (if u = JNull then Inl (Error ''null is not an object'')
     else (case json_field u ''username'' of
         None \<Rightarrow> Inr None
       | Some JNull \<Rightarrow> Inr None
       | Some (JStr s) \<Rightarrow> Inr (Some (js_lower s))
       | Some _ \<Rightarrow> Inl (Error ''user.username.toLowerCase is not a function'')))"

fun find_user :: "string \<Rightarrow> (string \<times> json) list \<Rightarrow> js_error + string option" where
  "find_user u [] = Inr None"
| "find_user u ((k, v) # kvs) = (case lower_name v of
     Inl e \<Rightarrow> Inl e
   | Inr n \<Rightarrow> if n = Some (js_lower u) then Inr (Some k) else find_user u kvs)"

section \<open>The service\<close>

record users_response =
  ur_core :: json
  ur_managed :: bool
  ur_reason :: "string option"
  ur_users :: "user_summary list"

definition list_users :: "'w users_env \<Rightarrow> string \<Rightarrow> ('w, users_response) io" where
  "list_users U i =
     thenDo (ofSum (check_auth_id i))
     (andThen (provider_core U i) (\<lambda>core.
      if core \<noteq> managed_core then
        ret \<lparr>ur_core = core, ur_managed = False, ur_reason = Some (unmanaged_reason U core), ur_users = []\<rparr>
      else thenDo (save_users U i) (andThen (read_users U) (\<lambda>us.
        ret \<lparr>ur_core = core, ur_managed = True, ur_reason = None, ur_users = us\<rparr>))))"

definition create_user :: "'w users_env \<Rightarrow> string \<Rightarrow> string \<Rightarrow> string \<Rightarrow> string \<Rightarrow> ('w, unit) io" where
  "create_user U i u m p =
     (let H = us_host U; taken = Error (''User \"'' @ u @ ''\" is already registered'') in
      thenDo (assert_managed U i)
      (thenDo (ofSum (check_username u))
      (thenDo (ofSum (check_email m))
      (thenDo (ofSum (check_password p))
      (andThen (user_exists U i u) (\<lambda>there.
       thenDo (throwIf there taken)
       (thenDo (h_progress H 40 (''Registering FileAuthSystem user '' @ u))
       (thenDo (tryCatch
          (andThen (us_command U (register_command i u m p)) (log_all H))
          (\<lambda>e. andThen (user_exists U i u) (\<lambda>now. if now then raise taken else raise e)))
       (thenDo (h_progress H 75 ''Persisting FileAuthSystem database'')
       (thenDo (save_users U i)
         (h_progress H 90 (''Registered '' @ u))))))))))))"

definition set_user_password :: "'w users_env \<Rightarrow> string \<Rightarrow> string \<Rightarrow> string \<Rightarrow> ('w, unit) io" where
  "set_user_password U i u p =
     (let H = us_host U in
      thenDo (assert_managed U i)
      (thenDo (ofSum (check_username u))
      (thenDo (ofSum (check_password p))
      (andThen (user_exists U i u) (\<lambda>there.
       thenDo (throwIf (\<not> there) (Error (''User \"'' @ u @ ''\" was not found'')))
       (thenDo (h_progress H 40 (''Updating password for '' @ u))
       (thenDo (andThen (us_command U (password_command i u p)) (log_all H))
       (thenDo (h_progress H 75 ''Persisting FileAuthSystem database'')
       (thenDo (save_users U i)
         (h_progress H 90 (''Password updated for '' @ u)))))))))))"

definition remove_entry :: "'w users_env \<Rightarrow> string \<Rightarrow> string \<Rightarrow> (string \<times> json) list \<Rightarrow> ('w, unit) io" where
  "remove_entry U i u kvs =
     (let H = us_host U in
      andThen (ofSum (find_user u kvs)) (\<lambda>found. case found of
         None \<Rightarrow> raise (Error (''User \"'' @ u @ ''\" was not found''))
       | Some k \<Rightarrow>
           thenDo (h_progress H 55 (''Removing '' @
             or_else (typed_string (or_else (map_of kvs k) JNull) ''username'') u @ '' from Database.json''))
           (thenDo (vol_write (h_volume H) database_path
              (h_stringify H (JObj (filter (\<lambda>kv. fst kv \<noteq> k) kvs)) @ [CHR 0x0A]) M0644)
           (thenDo (h_progress H 80 ''Reloading FileAuthSystem database'')
           (thenDo (andThen (us_command U (provider_command i ''reload'')) (log_all H))
             (h_progress H 95 (''Deleted '' @ u)))))))"

definition delete_user :: "'w users_env \<Rightarrow> string \<Rightarrow> string \<Rightarrow> ('w, unit) io" where
  "delete_user U i u =
     (let H = us_host U in
      thenDo (assert_managed U i)
      (thenDo (ofSum (check_username u))
      (thenDo (h_progress H 15 ''Flushing FileAuthSystem database before delete'')
      (thenDo (save_users U i)
      (thenDo (h_progress H 30 ''Loading FileAuthSystem database'')
      (andThen (read_database U) (remove_entry U i u)))))))"

section \<open>Old builds of the Discord module\<close>

record 'w artifact_env =
  ae_directory :: string
  ae_readdir :: "('w, (string \<times> bool) list option) io"
  ae_stat :: "string \<Rightarrow> ('w, bool \<times> nat) io"
  ae_rm :: "string \<Rightarrow> ('w, unit) io"

definition is_auth_artifact :: "string \<Rightarrow> bool" where
  "is_auth_artifact name \<longleftrightarrow> name = discord_jar \<or> prefix (discord_jar @ ''.pending-'') name"

definition clean_entry ::
  "'w artifact_env \<Rightarrow> string list \<times> nat \<Rightarrow> string \<times> bool \<Rightarrow> ('w, string list \<times> nat) io" where
  "clean_entry A acc e = (case (acc, e) of ((files, bytes), (name, isfile)) \<Rightarrow>
     if \<not> isfile \<or> \<not> is_auth_artifact name then ret acc
     else let path = path_join [ae_directory A, name] in
       andThen (ae_stat A path) (\<lambda>(regular, n).
         if \<not> regular then ret acc
         else thenDo (ae_rm A path) (ret (files @ [name], bytes + n))))"

text \<open>The listing is \<open>None\<close> when there is no such directory.\<close>

definition cleanup_artifacts :: "'w artifact_env \<Rightarrow> ('w, string list \<times> nat) io" where
  "cleanup_artifacts A = andThen (ae_readdir A) (\<lambda>es.
     exec_fold (clean_entry A) ([], 0) (case es of Some xs \<Rightarrow> xs | None \<Rightarrow> []))"

end
