(* ===== verification/Auth_Properties.thy ===== *)
theory Auth_Properties
  imports Auth_Users Module_Properties
begin

text \<open>
  What the services of authentication promise: the details of a provider tell nothing of its secrets, a recipe changes
  one provider and leaves one default, the commands about users are the words they are made of, and a deletion takes
  one user out of the database.
\<close>

section \<open>Secrets\<close>

text \<open>A provider with this database password and this bearer token.\<close>

definition with_secrets :: "string \<Rightarrow> string \<Rightarrow> json \<Rightarrow> json" where
  "with_secrets password bearer pair =
     (let core = object_field pair ''core''; holder = object_field core ''holder'' in
      JObj (obj_put ''core'' (JObj (obj_put ''bearerToken'' (JStr bearer)
        (obj_put ''holder'' (JObj (obj_put ''password'' (JStr password) (spread holder))) (spread core)))) (spread pair)))"

definition with_client_secret :: "string \<Rightarrow> json \<Rightarrow> json" where
  "with_client_secret secret v = JObj (obj_put ''clientSecret'' (JStr secret) (spread v))"

lemma object_field_put [simp]:
  "object_field (JObj (obj_put k (JObj xs) kvs)) k' = (if k' = k then JObj xs else object_field (JObj kvs) k')"
  by (simp add: object_field_def map_of_obj_put)

lemma object_field_put_text [simp]:
  "k' \<noteq> k \<Longrightarrow> object_field (JObj (obj_put k v kvs)) k' = object_field (JObj kvs) k'"
  by (simp add: object_field_def map_of_obj_put)

lemmas shown_simps = typed_string_def typed_number_def typed_bool_def string_field_def map_of_obj_put

lemma holder_hides: "p \<noteq> [] \<Longrightarrow> q \<noteq> [] \<Longrightarrow>
    holder_detail_of (JObj (obj_put ''password'' (JStr p) kvs)) = holder_detail_of (JObj (obj_put ''password'' (JStr q) kvs))"
  by (simp add: holder_detail_of_def shown_simps)

lemma sql_hides:
  assumes "p \<noteq> []" and "q \<noteq> []"
  shows "sql_detail_of (JObj (obj_put ''bearerToken'' b (obj_put ''holder'' (JObj (obj_put ''password'' (JStr p) h)) kvs))) =
    sql_detail_of (JObj (obj_put ''bearerToken'' c (obj_put ''holder'' (JObj (obj_put ''password'' (JStr q) h)) kvs)))"
  using holder_hides[OF assms, of h]
  by (simp add: sql_detail_of_def sql_column_names_def shown_simps)

lemma http_hides:
  assumes "b \<noteq> []" and "c \<noteq> []"
  shows "http_detail_of (JObj (obj_put ''bearerToken'' (JStr b) (obj_put ''holder'' h kvs))) =
    http_detail_of (JObj (obj_put ''bearerToken'' (JStr c) (obj_put ''holder'' h' kvs)))"
  using assms by (simp add: http_detail_of_def http_url_names_def shown_simps)

lemma discord_hides:
  assumes "x \<noteq> []" and "y \<noteq> []"
  shows "discord_detail_of (Some (discord_config_of (with_client_secret x v))) =
    discord_detail_of (Some (discord_config_of (with_client_secret y v)))"
  using assms by (simp add: discord_detail_of_def discord_config_of_def with_client_secret_def or_else_def Let_def shown_simps)

text \<open>
  CNUM: The details of a provider do not depend on its database password, its bearer token or the client secret of
  Discord, as long as there is one: only whether it is set is shown.
\<close>

theorem details_hide_secrets:
  assumes "p \<noteq> []" and "q \<noteq> []" and "b \<noteq> []" and "c \<noteq> []"
  shows "sanitize_provider H i (with_secrets p b pair) = sanitize_provider H i (with_secrets q c pair) \<and>
    discord_detail_of (Some (discord_config_of (with_client_secret p v))) =
    discord_detail_of (Some (discord_config_of (with_client_secret q v)))"
proof -
  let ?k = "spread (object_field pair ''core'')" and ?h = "spread (object_field (object_field pair ''core'') ''holder'')"
  let ?c = "\<lambda>x y. JObj (obj_put ''bearerToken'' (JStr y) (obj_put ''holder'' (JObj (obj_put ''password'' (JStr x) ?h)) ?k))"
  have core: "object_field (with_secrets x y pair) ''core'' = ?c x y" for x y
    by (simp add: with_secrets_def Let_def)
  have other: "json_field (with_secrets x y pair) k = json_field (JObj (spread pair)) k" if "k \<noteq> ''core''" for x y k
    using that by (simp add: with_secrets_def Let_def map_of_obj_put)
  have kept: "json_field (?c x y) k = json_field (JObj ?k) k" if "k \<noteq> ''holder''" "k \<noteq> ''bearerToken''" for x y k
    using that by (simp add: map_of_obj_put)
  have "sanitize_provider H i (with_secrets p b pair) = sanitize_provider H i (with_secrets q c pair)"
    unfolding sanitize_provider_def Let_def core core_type_def texture_detail_of_def typed_string_def string_field_def
      sql_hides[OF assms(1,2), of "JStr b" ?h ?k "JStr c"]
      http_hides[OF assms(3,4), of "JObj (obj_put ''password'' (JStr p) ?h)" ?k "JObj (obj_put ''password'' (JStr q) ?h)"]
    by (simp add: other kept del: json_field_obj_put json_field.simps)
  with discord_hides[OF assms(1,2)] show ?thesis by blast
qed

definition sample_pair :: json where
  "sample_pair = JObj [(''core'', JObj [(''type'', JStr ''sql''), (''holder'', JObj [(''username'', JStr ''db'')])])]"

lemma details_hide_secrets_witness:
  "sanitize_provider (memory_host True (\<lambda>_. None) (\<lambda>_. [])) ''std'' (with_secrets ''hunter'' ''b'' sample_pair) =
   sanitize_provider (memory_host True (\<lambda>_. None) (\<lambda>_. [])) ''std'' (with_secrets ''other'' ''c'' sample_pair)"
  using details_hide_secrets[of "''hunter''" "''other''" "''b''" "''c''" "memory_host True (\<lambda>_. None) (\<lambda>_. [])" "''std''" sample_pair JNull]
  by simp

section \<open>The commands about users\<close>

definition one_word :: "string \<Rightarrow> bool" where
  "one_word w \<longleftrightarrow> w \<noteq> [] \<and> list_all (\<lambda>c. \<not> js_space c) w"

definition words :: "string \<Rightarrow> string list" where
  "words s = split_on js_space s"

lemma words_step: "one_word w \<Longrightarrow> words (w @ CHR '' '' # s) = w # words s"
  using split_on_append_sep[of js_space "CHR '' ''" w s] by (simp add: words_def one_word_def list_all_iff js_space_def)

lemma words_last: "one_word w \<Longrightarrow> words w = [w]"
  using split_on_word[of w js_space] by (simp add: words_def one_word_def list_all_iff)

lemma word_char_space: "is_alnum c \<or> c = CHR ''_'' \<or> c = CHR ''-'' \<Longrightarrow> \<not> js_space c"
  by (auto simp: is_alnum_def is_lower_def is_upper_def is_digit_def in_range_def js_space_def Let_def)

lemma provider_id_word: "check_auth_id i = Inr () \<Longrightarrow> one_word i"
  by (auto simp: check_auth_id_def provider_id_rx_def full_match_name one_word_def list_all_iff word_char_space split: if_splits)

lemma user_name_word:
  assumes "check_username u = Inr ()"
  shows "one_word u"
proof -
  have m: "full_match account_name_rx u" using assms by (simp add: check_username_def split: if_splits)
  have "u \<noteq> []" using m by (auto simp: full_match_def account_name_rx_def Let_def)
  moreover have "\<not> js_space c" if "c \<in> set u" for c
    using full_match_alphabet[OF m that] word_char_space[of c]
    by (auto simp: account_name_rx_def Let_def between_times_def numeral_eq_Suc)
  ultimately show ?thesis by (simp add: one_word_def list_all_iff)
qed

lemma email_word:
  assumes "check_email m = Inr ()"
  shows "one_word m"
proof -
  have f: "full_match email_rx m" using assms by (simp add: check_email_def split: if_splits)
  have "m \<noteq> []" using f by (auto simp: full_match_def email_rx_def many1_def Let_def)
  moreover have "\<not> js_space c" if "c \<in> set m" for c
    using full_match_alphabet[OF f that] by (auto simp: email_rx_def many1_def Let_def js_space_def)
  ultimately show ?thesis by (simp add: one_word_def list_all_iff)
qed

lemma password_word: "check_password p = Inr () \<Longrightarrow> one_word p"
  by (auto simp: check_password_def one_word_def list_all_iff list_ex_iff split: if_splits)

lemma core_word: "one_word i \<Longrightarrow> one_word (''auth.'' @ i @ ''.core'')"
  by (auto simp: one_word_def list_all_iff js_space_def)

lemma command_words:
  assumes "one_word i" and "one_word c"
  shows "words (provider_command i (c @ CHR '' '' # s)) = [''config'', ''auth.'' @ i @ ''.core'', c] @ words s"
proof -
  have "one_word ''config''" by (simp add: one_word_def js_space_def)
  then show ?thesis using words_step[of "''config''"] words_step[OF core_word[OF assms(1)]] words_step[OF assms(2)]
    by (simp add: provider_command_def)
qed

text \<open>
  CNUM: Values that pass the checks cannot change a command: the lines that register a user, change a password or look
  a user up consist of exactly the words they are put together from, so no value adds an argument or a line.
\<close>

theorem user_commands_keep_their_words:
  assumes "check_auth_id i = Inr ()" and "check_username u = Inr ()" and "check_email m = Inr ()"
    and "check_password p = Inr ()"
  shows "words (register_command i u m p) = [''config'', ''auth.'' @ i @ ''.core'', ''register'', u, m, p] \<and>
    words (password_command i u p) = [''config'', ''auth.'' @ i @ ''.core'', ''changePassword'', u, p] \<and>
    words (lookup_command i u) = [''config'', ''auth.'' @ i @ ''.core'', ''getuserbyusername'', u]"
proof -
  note w = provider_id_word[OF assms(1)] user_name_word[OF assms(2)] email_word[OF assms(3)] password_word[OF assms(4)]
  have c: "one_word ''register''" "one_word ''changePassword''" "one_word ''getuserbyusername''"
    by (simp_all add: one_word_def js_space_def)
  show ?thesis
    using w command_words[OF w(1) c(1)] command_words[OF w(1) c(2)] command_words[OF w(1) c(3)]
    by (simp add: register_command_def password_command_def lookup_command_def words_step words_last)
qed

lemma user_commands_keep_their_words_witness:
  "words (register_command ''std'' ''Steve'' ''a@b.c'' ''1234'') = [''config'', ''auth.std.core'', ''register'', ''Steve'', ''a@b.c'', ''1234'']"
proof -
  have "check_auth_id ''std'' = Inr ()" "check_username ''Steve'' = Inr ()" "check_email ''a@b.c'' = Inr ()"
    "check_password ''1234'' = Inr ()" by code_simp+
  from user_commands_keep_their_words[OF this] show ?thesis by simp
qed

text \<open>A password is not protected in the other direction: when LaunchServer refuses the command, the error repeats it.\<close>

lemma refused_registration_shows_password:
  assumes "mentions ''error when execute command'' l"
  shows "\<exists>a b. assert_succeeded (register_command i u m p) [l] = Inl (Error (a @ p @ b))"
proof (intro exI)
  show "assert_succeeded (register_command i u m p) [l] = Inl (Error
    ((''LaunchServer rejected command \"'' @ provider_command i (''register '' @ u @ '' '' @ m @ '' '')) @ p @ (''\": '' @ l)))"
    using assms by (simp add: assert_succeeded_def register_command_def provider_command_def)
qed

section \<open>Reading JSON files\<close>

context profile_host begin

lemma json_read:
  assumes "\<And>raw v t. file_at t = file_at s \<Longrightarrow> file_at s p = Some raw \<Longrightarrow> h_parse H raw = Some v \<Longrightarrow> Q v t"
    and "\<And>e t. file_at t = file_at s \<Longrightarrow> E e t"
  shows "wp (read_json H p label) Q E s"
proof (cases "vol_read_file (h_volume H)")
  case None
  with assms(2) show ?thesis by (simp add: read_json_def wp_simps)
next
  case (Some rd)
  then show ?thesis
    unfolding read_json_def Some option.case wp_tryCatch wp_andThen wp_raise
    by (intro wp_read[OF Some]) (use assms in \<open>auto simp: wp_simps split: option.splits\<close>)
qed

lemma database_read:
  assumes "\<And>raw kvs t. file_at t = file_at s \<Longrightarrow> file_at s database_path = Some raw \<Longrightarrow>
      h_parse H raw = Some (JObj kvs) \<Longrightarrow> Q kvs t"
    and "\<And>t. file_at t = file_at s \<Longrightarrow> Q [] t"
    and "\<And>e t. file_at t = file_at s \<Longrightarrow> E e t"
    and "us_host U = H"
  shows "wp (read_database U) Q E s"
proof -
  let ?l = "''Unable to read FileAuthSystem database''"
  have r: "wp (read_json H database_path ?l) (\<lambda>v. wp (case v of JObj kvs \<Rightarrow> ret kvs
      | _ \<Rightarrow> raise (Error (?l @ '': Database.json must be an object map''))) Q E) E t" if "file_at t = file_at s" for t
    by (rule json_read) (use that assms in \<open>auto simp: wp_simps split: json.split\<close>)
  show ?thesis
    unfolding read_database_def Let_def assms(4) wp_andThen[of "vol_exists _ _ _"]
    by (rule wp_exists, rule wp_if_intro; (unfold wp_andThen wp_ret)?) (fact assms(2) assms(3) r | erule assms(2,3) r)+
qed

lemma quiet_progress:
  assumes "\<And>t. file_at t = file_at s \<Longrightarrow> Q () t" and "\<And>e t. file_at t = file_at s \<Longrightarrow> E e t"
  shows "wp (h_progress H n m) Q E s"
  by (rule wp_mono[OF keeps_wp[OF progress_keeps]]) (auto intro: assms)

lemma quiet_log:
  assumes "\<And>t. file_at t = file_at s \<Longrightarrow> Q () t" and "\<And>e t. file_at t = file_at s \<Longrightarrow> E e t"
  shows "wp (h_log H m) Q E s"
  by (rule wp_mono[OF keeps_wp[OF log_keeps]]) (auto intro: assms)

lemma log_all_keeps: "keeps file_at (log_all H ls)"
  unfolding log_all_def by (intro keeps_intros log_keeps)

end

section \<open>Deleting a user\<close>

text \<open>An entry whose name is that of the user, in any letter case.\<close>

definition names_account :: "string \<Rightarrow> json \<Rightarrow> bool" where
  "names_account u v \<longleftrightarrow> lower_name v = Inr (Some (js_lower u))"

lemma find_user_first:
  assumes "find_user u kvs = Inr (Some k)"
  shows "\<exists>pre v post. kvs = pre @ (k, v) # post \<and> names_account u v \<and> (\<forall>e\<in>set pre. \<not> names_account u (snd e))"
  using assms
proof (induction kvs)
  case (Cons e kvs)
  obtain k' v where e: "e = (k', v)" by (cases e)
  show ?case
  proof (cases "names_account u v")
    case True
    with Cons.prems e have "k' = k" by (simp add: names_account_def)
    with True e show ?thesis by (intro exI[of _ "[]"] exI[of _ v] exI[of _ kvs]) simp
  next
    case False
    with Cons.prems e have "find_user u kvs = Inr (Some k)"
      by (auto simp: names_account_def split: sum.splits if_splits)
    from Cons.IH[OF this] obtain pre w post where "kvs = pre @ (k, w) # post" "names_account u w"
      "\<forall>e\<in>set pre. \<not> names_account u (snd e)" by blast
    with False e show ?thesis by (intro exI[of _ "e # pre"] exI[of _ w] exI[of _ post]) simp
  qed
qed simp

lemma without_key:
  assumes "distinct (map fst (pre @ (k, v) # post))"
  shows "filter (\<lambda>kv. fst kv \<noteq> k) (pre @ (k, v) # post) = pre @ post"
proof -
  have "\<forall>kv\<in>set (pre @ post). fst kv \<noteq> k" using assms by (auto simp: image_iff)
  then have "filter (\<lambda>kv. fst kv \<noteq> k) (pre @ post) = pre @ post" by (simp only: filter_id_conv)
  then show ?thesis by simp
qed

text \<open>The database \<open>raw\<close> without the first entry of the user is \<open>new\<close>.\<close>

definition one_user_less :: "'w host \<Rightarrow> string \<Rightarrow> string \<Rightarrow> string \<Rightarrow> bool" where
  "one_user_less H u raw new \<longleftrightarrow> (\<exists>pre k v post. h_parse H raw = Some (JObj (pre @ (k, v) # post)) \<and> names_account u v \<and>
     (\<forall>e\<in>set pre. \<not> names_account u (snd e)) \<and> new = h_stringify H (JObj (pre @ post)) @ [CHR 0x0A])"

definition parses_distinct :: "'w host \<Rightarrow> bool" where
  "parses_distinct H \<longleftrightarrow> (\<forall>raw kvs. h_parse H raw = Some (JObj kvs) \<longrightarrow> distinct (map fst kvs))"

context profile_host begin

lemma user_save_wp:
  assumes "\<And>w ls t. us_command U (provider_command i ''save'') w = (Inr ls, t) \<Longrightarrow> file_at t database_path = Some raw"
    and "\<And>t. file_at t database_path = Some raw \<Longrightarrow> Q () t" and "\<And>e t. E e t"
  shows "wp (save_users U i) Q E s"
  unfolding save_users_def wp_thenDo wp_ret by (auto simp: wp_result intro: assms)

lemma write_wp:
  assumes U: "us_host U = H" and d: "parses_distinct H" and raw: "file_at s database_path = Some raw"
    and kvs: "h_parse H raw = Some (JObj kvs)" and k: "find_user u kvs = Inr (Some k)"
    and "\<And>t new. one_user_less H u raw new \<Longrightarrow> file_at t database_path = Some new \<Longrightarrow> Q () t" and "\<And>e t. E e t"
  shows "wp (vol_write (h_volume H) database_path (h_stringify H (JObj (filter (\<lambda>kv. fst kv \<noteq> k) kvs)) @ [CHR 0x0A]) M0644) Q E s"
proof (rule wp_write)
  obtain pre v post where split: "kvs = pre @ (k, v) # post" "names_account u v" "\<forall>e\<in>set pre. \<not> names_account u (snd e)"
    using find_user_first[OF k] by blast
  have "distinct (map fst (pre @ (k, v) # post))" using d kvs split(1) unfolding parses_distinct_def by blast
  from without_key[OF this] split kvs
  have "one_user_less H u raw (h_stringify H (JObj (filter (\<lambda>kv. fst kv \<noteq> k) kvs)) @ [CHR 0x0A])"
    unfolding one_user_less_def by metis
  with assms(6) show "file_at t database_path = Some (h_stringify H (JObj (filter (\<lambda>kv. fst kv \<noteq> k) kvs)) @ [CHR 0x0A]) \<Longrightarrow> Q () t" for t
    by blast
qed (use raw assms(7) in auto)

abbreviation (input) user_removed :: "string \<Rightarrow> string \<Rightarrow> unit \<Rightarrow> 'w \<Rightarrow> bool" where
  "user_removed u raw \<equiv> \<lambda>_ t. \<exists>new. one_user_less H u raw new \<and> file_at t database_path = Some new"

lemma remove_entry_wp:
  assumes U: "us_host U = H" and d: "parses_distinct H" and raw: "file_at s database_path = Some raw"
    and kvs: "h_parse H raw = Some (JObj kvs) \<or> kvs = []"
    and reload: "keeps file_at (us_command U (provider_command i ''reload''))"
  shows "wp (remove_entry U i u kvs) (user_removed u raw) (\<lambda>_ _. True) s"
proof (cases "find_user u kvs")
  case (Inl e)
  then show ?thesis by (simp add: remove_entry_def U Let_def wp_simps)
next
  case (Inr found)
  show ?thesis
  proof (cases found)
    case None
    with Inr show ?thesis by (simp add: remove_entry_def U Let_def wp_simps)
  next
    case (Some k)
    with Inr kvs have p: "h_parse H raw = Some (JObj kvs)" and k: "find_user u kvs = Inr (Some k)" by auto
    have reloaded: "wp (andThen (us_command U (provider_command i ''reload'')) (log_all H))
        (\<lambda>_. wp (h_progress H 95 m) (user_removed u raw) (\<lambda>_ _. True)) (\<lambda>_ _. True) t" if "user_removed u raw () t" for t m
      by (rule wp_mono[OF keeps_wp[of file_at]])
        (use that in \<open>auto intro!: quiet_progress keeps_intros reload log_all_keeps\<close>)
    show ?thesis
      unfolding remove_entry_def U Let_def k wp_andThen[of "ofSum _"] wp_ofSum sum.case option.case wp_thenDo
    proof (rule quiet_progress)
      fix t assume "file_at t = file_at s"
      with raw have "file_at t database_path = Some raw" by simp
      then show "wp (vol_write (h_volume H) database_path (h_stringify H (JObj (filter (\<lambda>kv. fst kv \<noteq> k) kvs)) @ [CHR 0x0A]) M0644)
          (\<lambda>_. wp (h_progress H 80 ''Reloading FileAuthSystem database'')
            (\<lambda>_. wp (andThen (us_command U (provider_command i ''reload'')) (log_all H))
              (\<lambda>_. wp (h_progress H 95 (''Deleted '' @ u)) (user_removed u raw) (\<lambda>_ _. True)) (\<lambda>_ _. True))
            (\<lambda>_ _. True)) (\<lambda>_ _. True) t"
        by (rule write_wp[OF U d _ p k]) (auto intro!: quiet_progress reloaded)
    qed simp
  qed
qed

lemma delete_wp:
  assumes U: "us_host U = H" and d: "parses_distinct H"
    and save: "\<And>w ls t. us_command U (provider_command i ''save'') w = (Inr ls, t) \<Longrightarrow> file_at t database_path = Some raw"
    and reload: "keeps file_at (us_command U (provider_command i ''reload''))"
  shows "wp (delete_user U i u) (user_removed u raw) (\<lambda>_ _. True) s"
proof -
  let ?T = "\<lambda>(_::js_error) _. True"
  have loaded: "wp (read_database U) (\<lambda>kvs. wp (remove_entry U i u kvs) (user_removed u raw) ?T) ?T t"
    if "file_at t database_path = Some raw" for t
    by (rule database_read[OF _ _ _ U]) (use that in \<open>auto intro!: remove_entry_wp[OF U d _ _ reload]\<close>)
  let ?read = "\<lambda>_. wp (read_database U) (\<lambda>kvs. wp (remove_entry U i u kvs) (user_removed u raw) ?T) ?T"
  let ?load = "\<lambda>_. wp (h_progress H 30 ''Loading FileAuthSystem database'') ?read ?T"
  let ?save = "\<lambda>_. wp (save_users U i) ?load ?T"
  have saved: "?save () t" for t by (rule user_save_wp[OF save]) (auto intro!: quiet_progress loaded)
  have start: "wp (h_progress H 15 ''Flushing FileAuthSystem database before delete'') ?save ?T t" for t
    by (rule quiet_progress) (auto intro: saved)
  show ?thesis
    unfolding delete_user_def Let_def U wp_thenDo wp_andThen[of "read_database _"]
    by (rule wp_mono[where Q = "\<lambda>_ _. True" and E = ?T]) (simp_all add: wp_any start wp_ofSum split: sum.split)
qed

end


definition users_json :: "(string \<times> json) list" where
  "users_json = [(''1'', JObj [(''username'', JStr ''Alex'')]), (''2'', JObj [(''username'', JStr ''Steve'')])]"

definition users_config :: json where
  "users_config = JObj [(''auth'', JObj [(''std'', JObj [(''core'', JObj [(''type'', JStr ''fileauthsystem'')])])])]"

definition users_host :: "memory host" where
  "users_host = memory_host True (\<lambda>s. if s = ''c'' then Some users_config else if s = ''d'' then Some (JObj users_json) else None)
     (\<lambda>_. ''new'')"

definition users_sample :: "memory users_env" where
  "users_sample = \<lparr>us_host = users_host,
     us_command = (\<lambda>c. if suffix ''save'' c then thenDo (writing (\<lambda>w. w(''/app/data/config/FileAuthSystem/Database.json'' \<mapsto> ''d'')))
       (ret []) else ret []), us_text = (\<lambda>_. []), us_le = (\<lambda>_ _. True)\<rparr>"


section \<open>Applying a recipe\<close>

definition is_default :: "json option \<Rightarrow> bool" where
  "is_default v \<longleftrightarrow> (case v of Some pair \<Rightarrow> json_field pair ''isDefault'' = Some (JBool True) | None \<Rightarrow> False)"

text \<open>
  The map of providers after \<open>pair\<close> was applied: it is the provider of that name, every other one is as it was,
  except that it is not the default any more when the new one is.
\<close>

definition applied_map :: "provider_input \<Rightarrow> json \<Rightarrow> (string \<rightharpoonup> json) \<Rightarrow> (string \<rightharpoonup> json) \<Rightarrow> bool" where
  "applied_map p pair old new \<longleftrightarrow> new (pi_auth p) = Some pair \<and>
     (\<forall>k. k \<noteq> pi_auth p \<longrightarrow> new k = map_option (\<lambda>v. if pi_default p
        then JObj (obj_put ''isDefault'' (JBool False) (spread v)) else v) (old k)) \<and>
     (pi_default p \<longrightarrow> (\<forall>k. is_default (new k) \<longleftrightarrow> k = pi_auth p))"

lemma map_of_undefault:
  "map_of (map (undefault i) pairs) k =
     map_option (\<lambda>v. if k = i then v else JObj (obj_put ''isDefault'' (JBool False) (spread v))) (map_of pairs k)"
  by (induction pairs) (auto simp: undefault_def)

lemma built_default: "build_pair A p existing = Inr pair \<Longrightarrow> pi_default p \<Longrightarrow> is_default (Some pair)"
  by (cases "build_core p existing") (auto simp: build_pair_def is_default_def)

lemma next_auth_applied:
  assumes "build_pair A p existing = Inr pair"
  shows "applied_map p pair (map_of pairs) (map_of (next_auth p pair pairs))"
proof -
  have "is_default (map_of (next_auth p pair pairs) k) \<longleftrightarrow> k = pi_auth p" if "pi_default p" for k
    using built_default[OF assms that] that
    by (auto simp: next_auth_def map_of_obj_put map_of_undefault is_default_def split: option.splits)
  then show ?thesis
    by (auto simp: applied_map_def next_auth_def map_of_obj_put map_of_undefault option.map_ident)
qed

text \<open>The text of \<^verbatim>\<open>LaunchServer.json\<close> after the recipe was applied to \<open>raw\<close>.\<close>

definition applied_text :: "'w auth_env \<Rightarrow> provider_input \<Rightarrow> string \<Rightarrow> string \<Rightarrow> bool" where
  "applied_text A p raw new \<longleftrightarrow> (\<exists>v pairs pair nxt. h_parse (au_host A) raw = Some v \<and>
     json_field v ''auth'' = Some (JObj pairs) \<and>
     build_pair A p (nullish (member_of pairs (pi_auth p)) (JObj [])) = Inr pair \<and>
     applied_map p pair (map_of pairs) (map_of nxt) \<and>
     new = h_stringify (au_host A) (JObj (obj_put ''auth'' (JObj nxt) (spread v))) @ [CHR 0x0A])"

lemma launch_config_abs: "vol_absolute launch_config_path = Inr ''/app/data/LaunchServer.json''"
  by code_simp

lemma snapshot_apart:
  assumes "\<forall>c\<in>set ts. c \<noteq> CHR ''/'' \<and> c \<noteq> CHR 0x00"
  shows "apart (launch_config_path @ ''.backup-'' @ ts) launch_config_path"
proof -
  have "vol_absolute (launch_config_path @ ''.backup-'' @ ts) = Inr (''/app/data/LaunchServer.json.backup-'' @ ts)"
    using vol_absolute_plain[of "[launch_config_path @ ''.backup-'' @ ts]"] assms
    by (auto simp: plain_segment_def launch_config_path_def)
  with launch_config_abs show ?thesis by (simp add: apart_def)
qed

context profile_host begin

abbreviation (input) config_at :: "'w \<Rightarrow> string option" where
  "config_at t \<equiv> file_at t launch_config_path"

lemma auth_config_read:
  assumes "\<And>raw v pairs t. file_at t = file_at s \<Longrightarrow> config_at s = Some raw \<Longrightarrow> h_parse H raw = Some v \<Longrightarrow>
      json_field v ''auth'' = Some (JObj pairs) \<Longrightarrow> Q (spread v, pairs) t"
    and "\<And>e t. file_at t = file_at s \<Longrightarrow> E e t"
  shows "wp (read_auth_config H) Q E s"
  unfolding read_auth_config_def wp_andThen
  by (rule json_read) (use assms in \<open>auto simp: wp_simps split: json.splits option.splits\<close>)

lemma snapshot_wp:
  assumes "au_host A = H" and "\<And>b t. config_at t = config_at s \<Longrightarrow> Q b t" and "\<And>e t. config_at t = config_at s \<Longrightarrow> E e t"
  shows "wp (snapshot_config A) Q E s"
proof -
  have "\<forall>c\<in>set (map (\<lambda>c. if c = CHR '':'' \<or> c = CHR ''.'' then CHR ''-'' else c) (h_timestamp H s)).
      c \<noteq> CHR ''/'' \<and> c \<noteq> CHR 0x00" using timestamp_plain[of s] by auto
  from snapshot_apart[OF this] show ?thesis
    unfolding snapshot_config_def Let_def assms(1) safe_timestamp_def wp_andThen wp_reading wp_thenDo wp_ret
    by (rule wp_copy) (auto intro!: quiet_log assms(2,3))
qed

lemma write_provider_wp:
  assumes A: "au_host A = H" and raw: "config_at s = Some raw" "h_parse H raw = Some v"
    "json_field v ''auth'' = Some (JObj pairs)"
    and Q: "\<And>t new. applied_text A p raw new \<Longrightarrow> config_at t = Some new \<Longrightarrow> Q () t"
    and E: "\<And>e t. config_at t = Some raw \<or> (\<exists>new. applied_text A p raw new \<and> config_at t = Some new) \<Longrightarrow> E e t"
  shows "wp (write_provider A p core (spread v) pairs) Q E s"
proof (cases "build_pair A p (nullish (member_of pairs (pi_auth p)) (JObj []))")
  case (Inl e)
  with raw E show ?thesis by (simp add: write_provider_def Let_def wp_simps)
next
  case (Inr pair)
  let ?new = "h_stringify H (JObj (obj_put ''auth'' (JObj (next_auth p pair pairs)) (spread v))) @ [CHR 0x0A]"
  have new: "applied_text A p raw ?new"
    using A raw(2,3) Inr next_auth_applied[OF Inr] unfolding applied_text_def by blast
  have "wp (vol_write (h_volume H) launch_config_path ?new M0644) Q E t" if "file_at t = file_at s" for t
    by (rule wp_write) (use that raw(1) new in \<open>auto intro!: Q E\<close>)
  then show ?thesis
    unfolding write_provider_def Let_def A Inr wp_andThen wp_ofSum sum.case wp_thenDo
    by (rule quiet_progress) (use raw(1) in \<open>auto intro!: E\<close>)
qed

lemma restart_wp:
  assumes "au_host A = H" and "\<And>rs. au_restart A = Some rs \<Longrightarrow> keeps file_at rs"
    and "\<And>b t. file_at t = file_at s \<Longrightarrow> Q b t" and "\<And>e t. file_at t = file_at s \<Longrightarrow> E e t"
  shows "wp (restart_for_auth A) Q E s"
proof -
  have "keeps file_at (restart_for_auth A)" unfolding restart_for_auth_def Let_def assms(1)
    by (auto split: option.splits intro!: keeps_intros progress_keeps log_keeps assms(2))
  from keeps_wp[OF this] show ?thesis by (rule wp_mono) (auto intro: assms(3,4))
qed

abbreviation (input) written_in :: "'w auth_env \<Rightarrow> provider_input \<Rightarrow> 'w \<Rightarrow> 'w \<Rightarrow> bool" where
  "written_in A p s t \<equiv> \<exists>raw new. config_at s = Some raw \<and> applied_text A p raw new \<and> config_at t = Some new"

lemma confirm_wp:
  assumes A: "au_host A = H" and rs: "\<And>rs. au_restart A = Some rs \<Longrightarrow> keeps file_at rs" and t: "written_in A p s t"
  shows "wp (confirm_provider A p recipe backup) (\<lambda>x u. ao_auth x = pi_auth p \<and> written_in A p s u) (\<lambda>_. written_in A p s) t"
  unfolding confirm_provider_def Let_def A wp_andThen[of "restart_for_auth A"] wp_thenDo[of "h_progress H 90 _"]
    wp_andThen[of "read_auth_config H"]
  by (rule restart_wp[OF A rs], assumption, rule quiet_progress, rule auth_config_read)
    (use t in \<open>auto simp: wp_simps intro!: quiet_progress\<close>)

lemma apply_recipe_wp:
  assumes A: "au_host A = H" and rs: "\<And>rs. au_restart A = Some rs \<Longrightarrow> keeps file_at rs"
    and plain: "\<And>Q E. wp (prepare_recipe A p) Q E s = Q () s"
  shows "wp (apply_recipe A p recipe) (\<lambda>x t. ao_auth x = pi_auth p \<and> written_in A p s t)
    (\<lambda>_ t. config_at t = config_at s \<or> written_in A p s t) s"
proof -
  let ?Q = "\<lambda>x t. ao_auth x = pi_auth p \<and> written_in A p s t" and ?E = "\<lambda>_ t. config_at t = config_at s \<or> written_in A p s t"
  show ?thesis
    unfolding apply_recipe_def A wp_thenDo[of "prepare_recipe A p"] plain wp_andThen[of "read_auth_config H"]
  proof (rule auth_config_read, unfold prod.case)
    fix raw v pairs t
    assume same: "file_at t = file_at s" and raw: "config_at s = Some raw" "h_parse H raw = Some v"
      "json_field v ''auth'' = Some (JObj pairs)"
    have confirmed: "wp (confirm_provider A p recipe b) ?Q ?E u" if "written_in A p s u" for u b
      by (rule wp_mono[OF confirm_wp[OF A rs that]]) auto
    have "wp (thenDo (write_provider A p (ar_core recipe) (spread v) pairs) (confirm_provider A p recipe b)) ?Q ?E u"
      if "config_at u = config_at t" for u b
      unfolding wp_thenDo
      by (rule write_provider_wp[OF A _ raw(2,3)]) (use that same raw(1) confirmed in auto)
    then have "wp (andThen (snapshot_config A) (\<lambda>b. thenDo (write_provider A p (ar_core recipe) (spread v) pairs)
        (confirm_provider A p recipe b))) ?Q ?E t"
      unfolding wp_andThen by (intro snapshot_wp[OF A]) (auto simp: same)
    then show "wp (thenDo (ofSum (check_merge p pairs)) (andThen (snapshot_config A) (\<lambda>b.
        thenDo (write_provider A p (ar_core recipe) (spread v) pairs) (confirm_provider A p recipe b)))) ?Q ?E t"
      by (simp add: wp_thenDo wp_ofSum same split: sum.split)
  qed simp
qed

end

text \<open>The recipes that need no module.\<close>

definition plain_recipe :: "provider_input \<Rightarrow> bool" where
  "plain_recipe p \<longleftrightarrow> pi_recipe p \<in> {Memory_Recipe, Http_Recipe, Merge_Recipe} \<or>
     pi_recipe p = Sql_Recipe \<and> map_option sq_verifier (pi_sql p) \<noteq> Some Phpass"

lemma prepare_plain: "plain_recipe p \<Longrightarrow> wp (prepare_recipe A p) Q E s = Q () s"
  by (auto simp: plain_recipe_def prepare_recipe_def wp_simps)

lemma apply_provider_wp:
  assumes "profile_host (au_host A) fs" and "plain_recipe p" and "\<And>rs. au_restart A = Some rs \<Longrightarrow> keeps fs rs"
  shows "wp (apply_provider A p) (\<lambda>x t. ao_auth x = pi_auth p \<and> (\<exists>raw new. fs s launch_config_path = Some raw \<and>
      applied_text A p raw new \<and> fs t launch_config_path = Some new))
    (\<lambda>_ t. fs t launch_config_path = fs s launch_config_path \<or> (\<exists>raw new. fs s launch_config_path = Some raw \<and>
      applied_text A p raw new \<and> fs t launch_config_path = Some new)) s"
proof -
  have "pi_recipe p \<noteq> File_Recipe" using assms(2) by (auto simp: plain_recipe_def)
  moreover note profile_host.apply_recipe_wp[OF assms(1) refl assms(3) prepare_plain[OF assms(2)]]
  ultimately show ?thesis
    unfolding apply_provider_def by (simp add: wp_thenDo wp_ofSum wp_raise split: sum.split option.split)
qed


definition providers_json :: json where
  "providers_json = JObj [(''auth'', JObj
     [(''std'', JObj [(''core'', JObj [(''type'', JStr ''memory'')]), (''isDefault'', JBool True)]),
      (''new'', JObj [(''core'', JObj [(''type'', JStr ''memory'')])])])]"

definition auth_sample :: "memory auth_env" where
  "auth_sample = \<lparr>au_host = memory_host True (\<lambda>_. Some providers_json) (\<lambda>_. ''text''), au_modules = memory_modules True,
     au_command = (\<lambda>_. ret []), au_restart = None, au_build = ret (), au_public_url = ''https://l'', au_panel_url = None,
     au_secret = None\<rparr>"

definition sample_provider :: provider_input where
  "sample_provider = \<lparr>pi_auth = ''new'', pi_recipe = Memory_Recipe, pi_name = ''New'', pi_default = True, pi_visible = True,
     pi_texture = None, pi_sql = None, pi_http = None, pi_discord = None, pi_merge = None\<rparr>"


end
