(* ===== verification/Java_Runtimes.thy ===== *)
theory Java_Runtimes
  imports Auth_Users
begin

text \<open>
  \<^verbatim>\<open>verified-artifact.ts\<close>, \<^verbatim>\<open>adoptium.service.ts\<close> and \<^verbatim>\<open>java-runtime-manager.service.ts\<close>: downloads with a
  checksum, the releases of Temurin, and the Java runtimes that are registered in \<^verbatim>\<open>LaunchServer.json\<close>. \<open>fetch\<close>, hashes,
  \<open>new URL\<close> and the JSON parser are fields of the record \<open>net\<close>. Names of an object that look like numbers, which
  JavaScript lists first, stay in the order they were added.
\<close>

section \<open>Downloads\<close>

text \<open>A response: its status, its declared length if that is a number, and the reading of its body.\<close>

record 'w web_response =
  wr_status :: nat
  wr_length :: "int option"
  wr_body :: "('w, string) io"

record link_url =
  wu_protocol :: string
  wu_host :: string
  wu_path :: string

record 'w net =
  nt_fetch :: "string \<Rightarrow> ('w, 'w web_response) io"
  nt_sha256 :: "string \<Rightarrow> string"
  nt_sha1 :: "string \<Rightarrow> string"
  nt_parse :: "string \<Rightarrow> json option"
  nt_url :: "string \<Rightarrow> link_url option"
  nt_text :: "json \<Rightarrow> string"

definition web_ok :: "'w web_response \<Rightarrow> bool" where
  "web_ok r \<longleftrightarrow> 200 \<le> wr_status r \<and> wr_status r < 300"

definition declared_over :: "nat \<Rightarrow> 'w web_response \<Rightarrow> bool" where
  "declared_over maximum r \<longleftrightarrow> (case wr_length r of Some n \<Rightarrow> int maximum < n | None \<Rightarrow> False)"

text \<open>Lengths of megabytes are compared as integers.\<close>

definition longer_than :: "nat \<Rightarrow> string \<Rightarrow> bool" where
  "longer_than maximum bytes \<longleftrightarrow> int maximum < int (length bytes)"

definition fetch_verified :: "'w net \<Rightarrow> string \<Rightarrow> string \<Rightarrow> nat \<Rightarrow> ('w, string) io" where
  "fetch_verified N url expected maximum =
     andThen (nt_fetch N url) (\<lambda>r.
     thenDo (throwIf (\<not> web_ok r) (Error (''Pinned artifact download failed with HTTP '' @ show_nat (wr_status r))))
     (thenDo (throwIf (declared_over maximum r) (Error ''Pinned artifact exceeds the size limit''))
     (andThen (wr_body r) (\<lambda>bytes.
      thenDo (throwIf (longer_than maximum bytes) (Error ''Pinned artifact exceeds the size limit''))
      (thenDo (throwIf (nt_sha256 N bytes \<noteq> expected)
         (Error (''Pinned artifact checksum mismatch: expected '' @ expected @ '', got '' @ nt_sha256 N bytes)))
        (ret bytes))))))"

section \<open>Releases of Temurin\<close>

datatype java_os = Mustdie | Linux | Macosx
datatype java_arch = X86 | X86_64 | ARM32 | ARM64
datatype java_image = Jre | Jdk
datatype archive_format = Zip | TarGz

record temurin_request =
  tr_version :: int
  tr_os :: java_os
  tr_arch :: java_arch
  tr_image :: java_image

record temurin_download =
  tw_bytes :: string
  tw_format :: archive_format
  tw_build :: int
  tw_release :: json
  tw_filename :: string
  tw_sha256 :: string
  tw_url :: string

definition maximum_runtime_bytes :: nat where
  "maximum_runtime_bytes = 300 * 1024 * 1024"

definition adoptium_arch :: "java_arch \<Rightarrow> string" where
  "adoptium_arch a = (case a of X86 \<Rightarrow> ''x86'' | X86_64 \<Rightarrow> ''x64'' | ARM32 \<Rightarrow> ''arm'' | ARM64 \<Rightarrow> ''aarch64'')"

definition adoptium_os :: "java_os \<Rightarrow> string" where
  "adoptium_os s = (case s of Mustdie \<Rightarrow> ''windows'' | Macosx \<Rightarrow> ''mac'' | Linux \<Rightarrow> ''linux'')"

definition image_word :: "java_image \<Rightarrow> string" where
  "image_word i = (case i of Jre \<Rightarrow> ''jre'' | Jdk \<Rightarrow> ''jdk'')"

text \<open>The values of the query need no escapes.\<close>

definition adoptium_url :: "temurin_request \<Rightarrow> string" where
  "adoptium_url q = ''https://api.adoptium.net/v3/assets/feature_releases/'' @ show_int (tr_version q) @ ''/ga?architecture='' @
     adoptium_arch (tr_arch q) @ ''&heap_size=normal&image_type='' @ image_word (tr_image q) @ ''&jvm_impl=hotspot&os='' @
     adoptium_os (tr_os q) @ ''&page=0&page_size=1&project=jdk&sort_method=DEFAULT&sort_order=DESC&vendor=eclipse''"

text \<open>\<open>v?.k\<close> and \<open>v?.[0]\<close>\<close>

definition field_of :: "json option \<Rightarrow> string \<Rightarrow> json option" where
  "field_of v k = Option.bind v (\<lambda>x. json_field x k)"

definition first_of :: "json option \<Rightarrow> json option" where
  "first_of v = Option.bind v (\<lambda>x. map_of (spread x) ''0'')"

definition sha256_hex_rx :: rx where
  "sha256_hex_rx = times 64 (Cls is_hex)"

record temurin_package =
  tp_build :: int
  tp_link :: string
  tp_checksum :: string
  tp_name :: string
  tp_size :: int

definition json_text_of :: "json option \<Rightarrow> string option" where
  "json_text_of v = Option.bind v as_string"

text \<open>What the answer offers, if it is what was asked for.\<close>

definition temurin_package :: "temurin_request \<Rightarrow> json option \<Rightarrow> temurin_package option" where
  "temurin_package q release =
     (let data = field_of release ''version_data''; binary = first_of (field_of release ''binaries'');
          artifact = field_of binary ''package'' in
      if field_of data ''major'' = Some (JNum (of_int (tr_version q))) \<and>
         field_of binary ''architecture'' = Some (JStr (adoptium_arch (tr_arch q))) \<and>
         field_of binary ''image_type'' = Some (JStr (image_word (tr_image q))) \<and>
         field_of binary ''os'' = Some (JStr (adoptium_os (tr_os q)))
      then Option.bind (field_of data ''build'') (\<lambda>b. Option.bind (safe_int b) (\<lambda>build.
           Option.bind (json_text_of (field_of artifact ''link'')) (\<lambda>link.
           Option.bind (json_text_of (field_of artifact ''checksum'')) (\<lambda>checksum.
           Option.bind (json_text_of (field_of artifact ''name'')) (\<lambda>name.
           Option.bind (field_of artifact ''size'') (\<lambda>s. Option.bind (safe_int s) (\<lambda>n.
             if full_match sha256_hex_rx checksum \<and> 0 < n \<and> n \<le> int maximum_runtime_bytes
             then Some \<lparr>tp_build = build, tp_link = link, tp_checksum = checksum, tp_name = name, tp_size = n\<rparr>
             else None)))))))
      else None)"

definition trusted_runtime_url :: "link_url \<Rightarrow> bool" where
  "trusted_runtime_url u \<longleftrightarrow> wu_protocol u = ''https:'' \<and> wu_host u = ''github.com'' \<and> prefix ''/adoptium/temurin'' (wu_path u)"

definition format_of_name :: "string \<Rightarrow> archive_format option" where
  "format_of_name name = (if suffix ''.zip'' name then Some Zip else if suffix ''.tar.gz'' name then Some TarGz else None)"

definition check_temurin :: "temurin_request \<Rightarrow> js_error + unit" where
  "check_temurin q = (if \<bar>tr_version q\<bar> > max_safe_integer \<or> tr_version q < 8 \<or> 99 < tr_version q
     then Inl (Error ''Temurin version must be between 8 and 99'') else Inr ())"

definition release_name :: "json option \<Rightarrow> string \<Rightarrow> json" where
  "release_name release name =
     nullish (field_of release ''release_name'')
       (nullish (field_of (field_of release ''version_data'') ''openjdk_version'') (JStr name))"

text \<open>The fetcher of the bytes is an argument, as in the constructor.\<close>

definition download_latest ::
  "'w net \<Rightarrow> (string \<Rightarrow> string \<Rightarrow> nat \<Rightarrow> ('w, string) io) \<Rightarrow> temurin_request \<Rightarrow> ('w, temurin_download) io" where
  "download_latest N artifacts q =
     thenDo (ofSum (check_temurin q))
     (andThen (nt_fetch N (adoptium_url q)) (\<lambda>r.
      thenDo (throwIf (\<not> web_ok r) (Error (''Adoptium release lookup failed with HTTP '' @ show_nat (wr_status r))))
      (andThen (wr_body r) (\<lambda>body. case nt_parse N body of
         None \<Rightarrow> raise (Error ''JSON'')
       | Some JNull \<Rightarrow> raise (Error ''null is not an object'')
       | Some v \<Rightarrow>
          (let release = first_of (Some v) in
           case temurin_package q release of
             None \<Rightarrow> raise (Error ''Adoptium returned an invalid or unavailable runtime release'')
           | Some p \<Rightarrow> (case nt_url N (tp_link p) of
               None \<Rightarrow> raise (Error ''Invalid URL'')
             | Some u \<Rightarrow>
                 thenDo (throwIf (\<not> trusted_runtime_url u) (Error ''Adoptium returned an untrusted runtime download URL''))
                 (case format_of_name (tp_name p) of
                    None \<Rightarrow> raise (Error ''Adoptium returned an unsupported archive format'')
                  | Some f \<Rightarrow>
                      andThen (artifacts (tp_link p) (tp_checksum p) maximum_runtime_bytes) (\<lambda>bytes.
                      thenDo (throwIf (int (length bytes) \<noteq> tp_size p)
                        (Error ''Adoptium runtime size does not match release metadata''))
                        (ret \<lparr>tw_bytes = bytes, tw_format = f, tw_build = tp_build p,
                             tw_release = release_name release (tp_name p), tw_filename = tp_name p,
                             tw_sha256 = tp_checksum p, tw_url = tp_link p\<rparr>)))))))))"

section \<open>The manager\<close>

record ('w, 'b) java_env =
  jr_host :: "'w host"
  jr_restart :: "('w, unit) io"
  jr_build :: "('w, 'b) io"
  jr_extract_zip :: "string \<Rightarrow> string \<Rightarrow> bool \<Rightarrow> int \<Rightarrow> ('w, unit) io"
  jr_extract_tar :: "string \<Rightarrow> string \<Rightarrow> bool \<Rightarrow> ('w, unit) io"
  jr_permissions :: "string \<Rightarrow> ('w, unit) io"
  jr_download :: "temurin_request \<Rightarrow> ('w, temurin_download) io"
  jr_uuid :: "'w \<Rightarrow> string"
  jr_text :: "json \<Rightarrow> string"

abbreviation java_volume :: "('w, 'b) java_env \<Rightarrow> 'w volume_ops" where
  "java_volume J \<equiv> h_volume (jr_host J)"

record java_input =
  ji_directory :: string
  ji_version :: int
  ji_build :: int
  ji_os :: java_os
  ji_arch :: java_arch
  ji_javafx :: bool
  ji_format :: "archive_format option"

record managed_runtime =
  mr_directory :: string
  mr_version :: nat
  mr_build :: nat
  mr_os :: java_os
  mr_arch :: java_arch
  mr_javafx :: bool
  mr_descriptor :: string
  mr_installed :: bool

record java_state =
  js_force :: bool
  js_items :: "managed_runtime list"

definition runtime_directory_rx :: rx where
  "runtime_directory_rx = name_rx is_alnum (\<lambda>c. is_alnum c \<or> c = CHR ''.'' \<or> c = CHR ''_'' \<or> c = CHR ''-'') 63"

definition runtime_target :: "string \<Rightarrow> string" where
  "runtime_target d = ''updates/'' @ d"

definition os_word :: "java_os \<Rightarrow> string" where
  "os_word s = (case s of Mustdie \<Rightarrow> ''mustdie'' | Linux \<Rightarrow> ''linux'' | Macosx \<Rightarrow> ''macosx'')"

definition arch_word :: "java_arch \<Rightarrow> string" where
  "arch_word a = (case a of X86 \<Rightarrow> ''X86'' | X86_64 \<Rightarrow> ''X86_64'' | ARM32 \<Rightarrow> ''ARM32'' | ARM64 \<Rightarrow> ''ARM64'')"

definition bool_word :: "bool \<Rightarrow> string" where
  "bool_word b = (if b then ''true'' else ''false'')"

definition format_word :: "archive_format \<Rightarrow> string" where
  "format_word f = (case f of Zip \<Rightarrow> ''zip'' | TarGz \<Rightarrow> ''tar.gz'')"

definition java_descriptor :: "java_input \<Rightarrow> string" where
  "java_descriptor i = ''Java '' @ show_int (ji_version i) @ '' b'' @ show_int (ji_build i) @ '' '' @ os_word (ji_os i) @ '' '' @
     arch_word (ji_arch i) @ '' javafx '' @ bool_word (ji_javafx i)"

text \<open>
  The groups of the pattern, which has a single blank between its words and none inside them; \<open>\d+\<close> is a word of
  digits, and an alternative one of its words.
\<close>

definition word_among :: "('a \<Rightarrow> string) \<Rightarrow> 'a list \<Rightarrow> string \<Rightarrow> 'a option" where
  "word_among f xs w = List.find (\<lambda>x. f x = w) xs"

definition digits_word :: "string \<Rightarrow> nat option" where
  "digits_word w = (if full_match (many1 (Cls is_digit)) w then Some (read_digits w) else None)"

definition build_word :: "string \<Rightarrow> nat option" where
  "build_word w = (case w of c # cs \<Rightarrow> if c = CHR ''b'' then digits_word cs else None | [] \<Rightarrow> None)"

definition parse_descriptor :: "string \<Rightarrow> string \<Rightarrow> managed_runtime option" where
  "parse_descriptor dir d = (case split_on (\<lambda>c. c = CHR '' '') d of
     [j, v, b, s, a, x, y] \<Rightarrow>
       (if j \<noteq> ''Java'' \<or> x \<noteq> ''javafx'' then None
        else (case (digits_word v, build_word b, word_among os_word [Mustdie, Linux, Macosx] s,
              word_among arch_word [X86, X86_64, ARM32, ARM64] a, word_among bool_word [True, False] y) of
            (Some version, Some build, Some sys, Some arch, Some fx) \<Rightarrow>
              Some \<lparr>mr_directory = dir, mr_version = version, mr_build = build, mr_os = sys, mr_arch = arch,
                mr_javafx = fx, mr_descriptor = d, mr_installed = False\<rparr>
          | _ \<Rightarrow> None))
   | _ \<Rightarrow> None)"

definition read_java_config :: "('w, 'b) java_env \<Rightarrow> ('w, string \<times> (string \<times> json) list) io" where
  "read_java_config J = (case vol_read_file (java_volume J) of
     None \<Rightarrow> raise (Error ''readFile'')
   | Some rd \<Rightarrow> andThen (rd launch_config_path) (\<lambda>raw. case h_parse (jr_host J) raw of
       None \<Rightarrow> raise (Error ''LaunchServer.json contains invalid JSON'')
     | Some (JObj kvs) \<Rightarrow> ret (raw, kvs)
     | Some _ \<Rightarrow> raise (Error ''LaunchServer.json has an invalid structure'')))"

text \<open>\<open>config.launcher?.customJavaDownload\<close> and a member of it\<close>

definition java_entries :: "(string \<times> json) list \<Rightarrow> json option" where
  "java_entries config = field_of (map_of config ''launcher'') ''customJavaDownload''"

definition java_registered :: "(string \<times> json) list \<Rightarrow> string \<Rightarrow> bool" where
  "java_registered config d = (case java_entries config of
     None \<Rightarrow> False | Some JNull \<Rightarrow> False | Some v \<Rightarrow> member_of (own_entries v) d \<noteq> None)"

definition with_launcher :: "(string \<times> json) list \<Rightarrow> (string \<times> json) list \<times> (string \<times> json) list" where
  "with_launcher config =
     (case map_of config ''launcher'' of Some v \<Rightarrow> if is_js_object v then spread v else [] | None \<Rightarrow> [],
      case java_entries config of Some (JObj kvs) \<Rightarrow> kvs | _ \<Rightarrow> [])"

definition launcher_config ::
  "(string \<times> json) list \<Rightarrow> (string \<times> json) list \<Rightarrow> (string \<times> json) list \<Rightarrow> (string \<times> json) list" where
  "launcher_config config launcher downloads =
     obj_put ''launcher'' (JObj (obj_put ''customJavaDownload'' (JObj downloads) launcher)) config"

definition write_java_config :: "('w, 'b) java_env \<Rightarrow> (string \<times> json) list \<Rightarrow> ('w, unit) io" where
  "write_java_config J config =
     vol_write (java_volume J) launch_config_path (h_stringify (jr_host J) (JObj config) @ [CHR 0x0A]) M0644"

text \<open>The words of the systems and architectures in the order of \<open>localeCompare\<close>.\<close>

definition os_rank :: "java_os \<Rightarrow> nat" where
  "os_rank s = (case s of Linux \<Rightarrow> 0 | Macosx \<Rightarrow> 1 | Mustdie \<Rightarrow> 2)"

definition arch_rank :: "java_arch \<Rightarrow> nat" where
  "arch_rank a = (case a of ARM32 \<Rightarrow> 0 | ARM64 \<Rightarrow> 1 | X86 \<Rightarrow> 2 | X86_64 \<Rightarrow> 3)"

definition runtime_le :: "managed_runtime \<Rightarrow> managed_runtime \<Rightarrow> bool" where
  "runtime_le a b \<longleftrightarrow> mr_version a < mr_version b \<or> mr_version a = mr_version b \<and>
     (os_rank (mr_os a) < os_rank (mr_os b) \<or> mr_os a = mr_os b \<and> arch_rank (mr_arch a) \<le> arch_rank (mr_arch b))"

definition java_items :: "(string \<times> json) list \<Rightarrow> managed_runtime list" where
  "java_items config = List.map_filter (\<lambda>(d, v). case v of
       JStr s \<Rightarrow> if full_match runtime_directory_rx d then parse_descriptor d s else None
     | _ \<Rightarrow> None) (spread (nullish (java_entries config) (JObj [])))"

definition with_installed_state :: "('w, 'b) java_env \<Rightarrow> managed_runtime \<Rightarrow> ('w, managed_runtime) io" where
  "with_installed_state J r = andThen (vol_exists (java_volume J) (runtime_target (mr_directory r)) ADirectory) (\<lambda>there.
     ret (r\<lparr>mr_installed := there\<rparr>))"

definition java_state_of :: "('w, 'b) java_env \<Rightarrow> ('w, java_state) io" where
  "java_state_of J = andThen (read_java_config J) (\<lambda>(raw, config).
     andThen (promise_all (map (with_installed_state J) (java_items config))) (\<lambda>items.
       ret \<lparr>js_force = (field_of (map_of config ''launcher'') ''forceUseCustomJava'' = Some (JBool True)),
            js_items = sort_by runtime_le items\<rparr>))"

definition repair_runtime :: "('w, 'b) java_env \<Rightarrow> string list \<Rightarrow> string \<Rightarrow> ('w, string list) io" where
  "repair_runtime J repaired d =
     (if \<not> full_match runtime_directory_rx d then ret repaired
      else andThen (vol_exists (java_volume J) (runtime_target d) ADirectory) (\<lambda>there.
        if \<not> there then ret repaired
        else thenDo (jr_permissions J (runtime_target d)) (ret (repaired @ [d]))))"

definition repair_registered :: "('w, 'b) java_env \<Rightarrow> ('w, string list) io" where
  "repair_registered J = andThen (read_java_config J) (\<lambda>(raw, config).
     exec_fold (repair_runtime J) [] (map fst (spread (nullish (java_entries config) (JObj [])))))"

definition check_java_input :: "java_input \<Rightarrow> js_error + unit" where
  "check_java_input i =
     (if \<not> full_match runtime_directory_rx (ji_directory i)
      then Inl (Error ''Java runtime directory contains unsupported characters'')
      else if max_safe_integer < \<bar>ji_version i\<bar> \<or> ji_version i < 8 \<or> 99 < ji_version i
      then Inl (Error ''Java version must be between 8 and 99'')
      else if max_safe_integer < \<bar>ji_build i\<bar> \<or> ji_build i < 0 \<or> 999999 < ji_build i
      then Inl (Error ''Java build must be between 0 and 999999'')
      else Inr ())"

definition reload_and_build :: "('w, 'b) java_env \<Rightarrow> ('w, 'b) io" where
  "reload_and_build J = (let H = jr_host J in
     thenDo (h_progress H 60 ''Reloading LaunchServer Java configuration'')
     (thenDo (vol_remove (java_volume J) ''.updates-cache'' False)
     (thenDo (jr_restart J)
     (thenDo (h_progress H 75 ''Rebuilding launcher with custom Java catalog'') (jr_build J)))))"

definition restore_runtime_config :: "('w, 'b) java_env \<Rightarrow> ('w, unit) io" where
  "restore_runtime_config J = thenDo (quiet (vol_remove (java_volume J) ''.updates-cache'' False)) (quiet (jr_restart J))"

definition java_backup_path :: "('w, 'b) java_env \<Rightarrow> ('w, string) io" where
  "java_backup_path J = andThen (safe_timestamp (jr_host J)) (\<lambda>time.
     ret (''.gravit-panel-config-backups/LaunchServer.java-'' @ time @ ''.json''))"

record 'b java_result =
  jx_state :: java_state
  jx_build :: 'b
  jx_backup :: string

definition executable_of :: "java_os \<Rightarrow> string" where
  "executable_of s = (if s = Mustdie then ''bin/java.exe'' else ''bin/java'')"

text \<open>The archive is stored and unpacked.\<close>

definition unpack_runtime :: "('w, 'b) java_env \<Rightarrow> java_input \<Rightarrow> string \<Rightarrow> string \<Rightarrow> ('w, unit) io" where
  "unpack_runtime J i path bytes = (let target = runtime_target (ji_directory i) in
     thenDo (h_progress (jr_host J) 10 (''Uploading '' @ ji_directory i))
     (thenDo (vol_write (java_volume J) path bytes M0600)
       (case or_else (ji_format i) Zip of
          TarGz \<Rightarrow> jr_extract_tar J path target True
        | Zip \<Rightarrow> jr_extract_zip J path target True (2 * 1024 * 1024 * 1024))))"

definition register_runtime ::
  "('w, 'b) java_env \<Rightarrow> java_input \<Rightarrow> (string \<times> json) list \<Rightarrow> string \<Rightarrow> ('w, 'b java_result) io" where
  "register_runtime J i config backup = (let target = runtime_target (ji_directory i) in
     andThen (vol_exists (java_volume J) (target @ ''/'' @ executable_of (ji_os i)) AFile) (\<lambda>there.
     thenDo (throwIf (\<not> there) (Error (''Java archive must contain '' @ executable_of (ji_os i) @
       '' at its root or inside one top-level directory'')))
     (thenDo (jr_permissions J target)
     (thenDo (vol_copy (java_volume J) launch_config_path backup)
     (case with_launcher config of (launcher, downloads) \<Rightarrow>
       thenDo (write_java_config J (launcher_config config launcher
         (obj_put (ji_directory i) (JStr (java_descriptor i)) downloads)))
       (andThen (reload_and_build J) (\<lambda>built.
        thenDo (h_progress (jr_host J) 98 (''Java runtime '' @ ji_directory i @ '' installed''))
        (andThen (java_state_of J) (\<lambda>st.
          ret \<lparr>jx_state = st, jx_build = built, jx_backup = backup\<rparr>)))))))))"

text \<open>The handler of an installation that fails.\<close>

definition undo_install :: "('w, 'b) java_env \<Rightarrow> string \<Rightarrow> string \<Rightarrow> bool \<Rightarrow> js_error \<Rightarrow> ('w, 'c) io" where
  "undo_install J target raw extracted e =
     thenDo (do_when extracted (vol_remove (java_volume J) target True))
     (thenDo (quiet (vol_write (java_volume J) launch_config_path raw M0644))
     (thenDo (restore_runtime_config J) (raise e)))"

definition install_with ::
  "('w, 'b) java_env \<Rightarrow> java_input \<Rightarrow> string \<Rightarrow> string \<Rightarrow> (string \<times> json) list \<Rightarrow> string \<Rightarrow> string \<Rightarrow> ('w, 'b java_result) io" where
  "install_with J i bytes raw config path backup = (let target = runtime_target (ji_directory i) in
     try_always
       (thenDo (tryCatch (unpack_runtime J i path bytes) (undo_install J target raw False))
         (tryCatch (register_runtime J i config backup) (undo_install J target raw True)))
       (quiet (vol_remove (java_volume J) path False)))"

definition install_runtime :: "('w, 'b) java_env \<Rightarrow> java_input \<Rightarrow> string \<Rightarrow> ('w, 'b java_result) io" where
  "install_runtime J i bytes =
     thenDo (ofSum (check_java_input i))
     (thenDo (throwIf (bytes = [] \<or> longer_than maximum_runtime_bytes bytes)
        (Error ''Java runtime archive must be between 1 byte and 300 MiB''))
     (andThen (read_java_config J) (\<lambda>(raw, config).
      thenDo (throwIf (java_registered config (ji_directory i))
        (Error (''Java runtime '' @ ji_directory i @ '' is already registered'')))
      (andThen (vol_exists (java_volume J) (runtime_target (ji_directory i)) ADirectory) (\<lambda>there.
       thenDo (throwIf there (Error (''Updates directory already exists: '' @ ji_directory i)))
       (andThen (reading (jr_uuid J)) (\<lambda>uuid.
        andThen (java_backup_path J) (\<lambda>backup.
         install_with J i bytes raw config
           (''.gravit-panel-java/'' @ uuid @ ''.'' @ format_word (or_else (ji_format i) Zip)) backup))))))))"

record 'b temurin_result =
  tx_result :: "'b java_result"
  tx_image :: java_image
  tx_release :: json
  tx_filename :: string
  tx_sha256 :: string
  tx_url :: string

definition install_temurin :: "('w, 'b) java_env \<Rightarrow> string \<Rightarrow> temurin_request \<Rightarrow> ('w, 'b temurin_result) io" where
  "install_temurin J directory q = (let H = jr_host J in
     thenDo (throwIf (\<not> full_match runtime_directory_rx directory)
       (Error ''Java runtime directory contains unsupported characters''))
     (thenDo (h_progress H 5 (''Resolving latest Temurin '' @ (case tr_image q of Jre \<Rightarrow> ''JRE'' | Jdk \<Rightarrow> ''JDK'') @ '' '' @
        show_int (tr_version q)))
     (andThen (jr_download J q) (\<lambda>d.
      thenDo (h_progress H 8 (''Verified '' @ tw_filename d @ '' from '' @ jr_text J (tw_release d)))
      (andThen (install_runtime J \<lparr>ji_directory = directory, ji_version = tr_version q, ji_build = tw_build d,
          ji_os = tr_os q, ji_arch = tr_arch q, ji_javafx = False, ji_format = Some (tw_format d)\<rparr> (tw_bytes d)) (\<lambda>r.
        ret \<lparr>tx_result = r, tx_image = tr_image q, tx_release = tw_release d, tx_filename = tw_filename d,
             tx_sha256 = tw_sha256 d, tx_url = tw_url d\<rparr>))))))"

record 'b java_removal =
  jd_state :: java_state
  jd_build :: 'b
  jd_trash :: "string option"
  jd_backup :: string

definition undo_removal :: "('w, 'b) java_env \<Rightarrow> string \<Rightarrow> string \<Rightarrow> string \<Rightarrow> bool \<Rightarrow> js_error \<Rightarrow> ('w, 'c) io" where
  "undo_removal J target trash raw installed e =
     thenDo (quiet (vol_write (java_volume J) launch_config_path raw M0644))
     (thenDo (do_when installed (quiet (vol_move (java_volume J) trash target)))
     (thenDo (restore_runtime_config J) (raise e)))"

definition without_runtime :: "string \<Rightarrow> (string \<times> json) list \<Rightarrow> (string \<times> json) list" where
  "without_runtime d downloads = filter (\<lambda>kv. fst kv \<noteq> d) downloads"

definition unregister_runtime ::
  "('w, 'b) java_env \<Rightarrow> string \<Rightarrow> (string \<times> json) list \<Rightarrow> string option \<Rightarrow> string \<Rightarrow> ('w, 'b java_removal) io" where
  "unregister_runtime J d config trash backup = (case with_launcher config of (launcher, downloads) \<Rightarrow>
     thenDo (write_java_config J (launcher_config config launcher (without_runtime d downloads)))
     (andThen (reload_and_build J) (\<lambda>built.
      thenDo (h_progress (jr_host J) 98 (''Java runtime '' @ d @ '' removed''))
      (andThen (java_state_of J) (\<lambda>st.
        ret \<lparr>jd_state = st, jd_build = built, jd_trash = trash, jd_backup = backup\<rparr>)))))"

definition remove_with_trash ::
  "('w, 'b) java_env \<Rightarrow> string \<Rightarrow> string \<Rightarrow> (string \<times> json) list \<Rightarrow> string \<Rightarrow> bool \<Rightarrow> string \<Rightarrow> ('w, 'b java_removal) io" where
  "remove_with_trash J d raw config trash installed backup = (let target = runtime_target d; V = java_volume J in
     thenDo (vol_copy V launch_config_path backup)
     (thenDo (do_when installed (vol_move V target trash))
       (tryCatch (unregister_runtime J d config (if installed then Some trash else None) backup)
         (undo_removal J target trash raw installed))))"

definition remove_runtime :: "('w, 'b) java_env \<Rightarrow> string \<Rightarrow> ('w, 'b java_removal) io" where
  "remove_runtime J d =
     thenDo (throwIf (\<not> full_match runtime_directory_rx d) (Error ''Invalid Java runtime directory''))
     (andThen (read_java_config J) (\<lambda>(raw, config).
      thenDo (throwIf (\<not> java_registered config d) (Error (''Java runtime '' @ d @ '' is not registered'')))
      (andThen (safe_timestamp (jr_host J)) (\<lambda>time.
       andThen (vol_exists (java_volume J) (runtime_target d) ADirectory) (\<lambda>installed.
       andThen (java_backup_path J) (\<lambda>backup.
         remove_with_trash J d raw config (''.gravit-panel-java-trash/'' @ time @ ''-'' @ d) installed backup))))))"

definition built_state :: "('w, 'b) java_env \<Rightarrow> string \<Rightarrow> ('w, 'b java_result) io" where
  "built_state J backup = andThen (reload_and_build J) (\<lambda>built. andThen (java_state_of J) (\<lambda>st.
     ret \<lparr>jx_state = st, jx_build = built, jx_backup = backup\<rparr>))"

definition store_settings ::
  "('w, 'b) java_env \<Rightarrow> string \<Rightarrow> (string \<times> json) list \<Rightarrow> string \<Rightarrow> ('w, 'b java_result) io" where
  "store_settings J raw changed backup =
     thenDo (vol_copy (java_volume J) launch_config_path backup)
     (thenDo (write_java_config J changed) (tryCatch (built_state J backup) (undo_install J [] raw False)))"

definition forced_config :: "bool \<Rightarrow> (string \<times> json) list \<Rightarrow> (string \<times> json) list" where
  "forced_config force config = (case with_launcher config of (launcher, downloads) \<Rightarrow>
     obj_put ''launcher'' (JObj (obj_put ''forceUseCustomJava'' (JBool force)
       (obj_put ''customJavaDownload'' (JObj downloads) launcher))) config)"

definition update_java_settings :: "('w, 'b) java_env \<Rightarrow> bool \<Rightarrow> ('w, 'b java_result) io" where
  "update_java_settings J force =
     andThen (read_java_config J) (\<lambda>(raw, config).
     andThen (java_backup_path J) (\<lambda>backup. store_settings J raw (forced_config force config) backup))"

end
