(* ===== verification/Java_Properties.thy ===== *)
theory Java_Properties
  imports Java_Runtimes Auth_Properties
begin

text \<open>
  The Java runtimes: what is written to the configuration can be read back, and a change that fails leaves the old
  configuration behind.
\<close>

section \<open>Descriptors\<close>

definition no_blank :: "string \<Rightarrow> bool" where
  "no_blank w \<longleftrightarrow> (\<forall>c\<in>set w. c \<noteq> CHR '' '')"

lemma split_blank: "no_blank w \<Longrightarrow> split_on (\<lambda>c. c = CHR '' '') (w @ CHR '' '' # s) = w # split_on (\<lambda>c. c = CHR '' '') s"
  by (rule split_on_append_sep) (auto simp: no_blank_def)

lemma split_word: "no_blank w \<Longrightarrow> split_on (\<lambda>c. c = CHR '' '') w = [w]"
  by (rule split_on_word) (auto simp: no_blank_def)

lemma ascii_is_digit: "ascii_digit c = is_digit c"
  by (simp add: ascii_digit_def is_digit_def in_range_def)

lemma shown_digits: "digits_word (show_nat n) = Some n"
proof -
  have "show_nat n \<noteq> []" by (subst show_nat.simps) simp
  then show ?thesis
    using show_nat_digits[of n] by (simp add: digits_word_def full_match_plus ascii_is_digit read_show_nat)
qed

lemma shown_no_blank: "no_blank (show_nat n)"
  using show_nat_digits[of n] by (auto simp: no_blank_def ascii_digit_def)

lemma words_no_blank: "no_blank (os_word s)" "no_blank (arch_word a)" "no_blank (bool_word b)"
  "no_blank ''Java''" "no_blank ''javafx''" "no_blank w \<Longrightarrow> no_blank (CHR ''b'' # w)"
  by (simp_all add: no_blank_def os_word_def arch_word_def bool_word_def split: java_os.split java_arch.split)

lemma words_found: "word_among os_word [Mustdie, Linux, Macosx] (os_word s) = Some s"
  "word_among arch_word [X86, X86_64, ARM32, ARM64] (arch_word a) = Some a"
  "word_among bool_word [True, False] (bool_word b) = Some b"
  by (simp_all add: word_among_def os_word_def arch_word_def bool_word_def split: java_os.split java_arch.split)

text \<open>
  CNUM: The text a runtime is registered with is read back as the version, build, system, architecture and JavaFX flag
  it was made from, so a runtime that was installed is listed.
\<close>

theorem descriptors_round_trip:
  assumes "check_java_input i = Inr ()"
  shows "parse_descriptor d (java_descriptor i) = Some \<lparr>mr_directory = d, mr_version = nat (ji_version i),
    mr_build = nat (ji_build i), mr_os = ji_os i, mr_arch = ji_arch i, mr_javafx = ji_javafx i,
    mr_descriptor = java_descriptor i, mr_installed = False\<rparr>"
proof -
  let ?v = "show_nat (nat (ji_version i))" and ?b = "CHR ''b'' # show_nat (nat (ji_build i))"
  have "0 \<le> ji_version i" "0 \<le> ji_build i" using assms by (auto simp: check_java_input_def split: if_splits)
  then have d: "java_descriptor i = ''Java'' @ CHR '' '' # ?v @ CHR '' '' # ?b @ CHR '' '' # os_word (ji_os i) @ CHR '' '' #
      arch_word (ji_arch i) @ CHR '' '' # ''javafx'' @ CHR '' '' # bool_word (ji_javafx i)"
    by (simp add: java_descriptor_def show_int_def)
  have "split_on (\<lambda>c. c = CHR '' '') (java_descriptor i) =
      [''Java'', ?v, ?b, os_word (ji_os i), arch_word (ji_arch i), ''javafx'', bool_word (ji_javafx i)]"
    unfolding d by (simp only: split_blank split_word words_no_blank shown_no_blank)
  then show ?thesis by (simp add: parse_descriptor_def shown_digits build_word_def words_found)
qed

lemma descriptors_round_trip_witness:
  "map_option mr_version (parse_descriptor ''jre''
     (java_descriptor \<lparr>ji_directory = ''jre'', ji_version = 21, ji_build = 9, ji_os = Linux, ji_arch = ARM64, ji_javafx = False,
        ji_format = None\<rparr>)) = Some 21"
proof -
  let ?i = "\<lparr>ji_directory = ''jre'', ji_version = 21, ji_build = 9, ji_os = Linux, ji_arch = ARM64, ji_javafx = False,
    ji_format = None\<rparr>"
  have "check_java_input ?i = Inr ()" by code_simp
  from descriptors_round_trip[OF this] show ?thesis by simp
qed

section \<open>Failed changes\<close>

lemma alnum_plain: "is_alnum c \<Longrightarrow> c \<noteq> CHR ''/'' \<and> c \<noteq> CHR 0x00 \<and> c \<noteq> CHR ''.''"
  by (auto simp: is_alnum_def is_lower_def is_upper_def is_digit_def in_range_def)

lemma directory_plain:
  assumes "full_match runtime_directory_rx d"
  shows "(\<forall>c\<in>set d. c \<noteq> CHR ''/'' \<and> c \<noteq> CHR 0x00) \<and> d \<noteq> [] \<and> hd d \<noteq> CHR ''.''"
proof -
  obtain c w where w: "d = c # w" "is_alnum c" "\<forall>x\<in>set w. is_alnum x \<or> x = CHR ''.'' \<or> x = CHR ''_'' \<or> x = CHR ''-''"
    using assms by (auto simp: runtime_directory_rx_def full_match_name)
  have d: "\<forall>c\<in>set d. c \<noteq> CHR ''/'' \<and> c \<noteq> CHR 0x00" and n: "d \<noteq> []" "hd d \<noteq> CHR ''.''"
    using w(2,3) alnum_plain unfolding w(1) by fastforce+
  then show ?thesis by blast
qed

lemma updates_apart:
  assumes "full_match runtime_directory_rx d"
  shows "apart (runtime_target d) launch_config_path"
proof -
  have d: "\<forall>c\<in>set d. c \<noteq> CHR ''/'' \<and> c \<noteq> CHR 0x00" and n: "d \<noteq> []" "hd d \<noteq> CHR ''.''"
    using directory_plain[OF assms] by auto
  then have "plain_segment d" by (cases d) (auto simp: plain_segment_def)
  with d have "vol_absolute (runtime_target d) = Inr (''/app/data/updates/'' @ d)"
    using vol_absolute_plain[of "[''updates'', d]"] by (auto simp: runtime_target_def plain_segment_def)
  with launch_config_abs show ?thesis by (simp add: apart_def)
qed

lemma hidden_apart:
  assumes "plain_segment f" and "CHR 0x00 \<notin> set f" and "dir \<in> {''.gravit-panel-java'', ''.gravit-panel-java-trash'', ''.gravit-panel-config-backups''}"
  shows "apart (dir @ CHR ''/'' # f) launch_config_path"
proof -
  have "vol_absolute (dir @ CHR ''/'' # f) = Inr (''/app/data/'' @ dir @ CHR ''/'' # f)"
    using vol_absolute_plain[of "[dir, f]"] assms by (auto simp: plain_segment_def)
  with launch_config_abs assms(3) show ?thesis by (auto simp: apart_def)
qed

lemma cache_apart_config: "apart ''.updates-cache'' launch_config_path"
proof -
  have "vol_absolute ''.updates-cache'' = Inr ''/app/data/.updates-cache''" by code_simp
  with launch_config_abs show ?thesis by (simp add: apart_def)
qed

locale java_host = profile_host "jr_host J" file_at
  for J :: "('w, 'b) java_env" and file_at :: "'w \<Rightarrow> string \<Rightarrow> string option" +
  assumes restart_keeps: "keeps file_at (jr_restart J)"
    and build_keeps: "keeps file_at (jr_build J)"
    and zip_keeps: "keeps file_at (jr_extract_zip J a d strip n)"
    and tar_keeps: "keeps file_at (jr_extract_tar J a d strip)"
    and permissions_keeps: "keeps file_at (jr_permissions J p)"
    and uuid_plain: "\<forall>c\<in>set (jr_uuid J w). c \<noteq> CHR ''/'' \<and> c \<noteq> CHR 0x00"
    and store_keeps: "apart p launch_config_path \<Longrightarrow> keeps (\<lambda>t. file_at t launch_config_path) (vol_write (java_volume J) p b M0600)"
    and write_returns: "fst (vol_write (java_volume J) launch_config_path b M0644 w) = Inr ()"
begin

abbreviation (input) config_of :: "'w \<Rightarrow> string option" where
  "config_of t \<equiv> file_at t launch_config_path"

lemmas quiet_parts = restart_keeps build_keeps zip_keeps tar_keeps permissions_keeps progress_keeps log_keeps

lemma keeps_config: "keeps file_at p \<Longrightarrow> keeps (\<lambda>t. config_of t) p"
  by (simp add: keeps_def)

lemma runtime_remove_keeps: "apart p launch_config_path \<Longrightarrow> keeps (\<lambda>t. config_of t) (vol_remove (java_volume J) p r)"
  unfolding keeps_def using remove_apart[OF surjective_pairing] by blast

lemma copy_keeps: "apart q launch_config_path \<Longrightarrow> keeps (\<lambda>t. config_of t) (vol_copy (java_volume J) p q)"
  unfolding keeps_def using copy_apart[OF surjective_pairing] by blast

lemma move_keeps: "apart p launch_config_path \<Longrightarrow> apart q launch_config_path \<Longrightarrow> keeps (\<lambda>t. config_of t) (vol_move (java_volume J) p q)"
  unfolding keeps_def using move_apart[OF surjective_pairing] by blast

lemma reload_keeps_config: "keeps (\<lambda>t. config_of t) (reload_and_build J)"
  unfolding reload_and_build_def Let_def
  by (intro keeps_intros runtime_remove_keeps cache_apart_config keeps_config quiet_parts)

lemma restore_keeps_config: "keeps (\<lambda>t. config_of t) (restore_runtime_config J)"
  unfolding restore_runtime_config_def by (intro keeps_intros runtime_remove_keeps cache_apart_config keeps_config quiet_parts)

lemma read_java_keeps: "keeps file_at (read_java_config J)"
  unfolding read_java_config_def
  by (auto split: option.splits json.splits intro!: keeps_intros read_keeps)

lemma state_keeps: "keeps file_at (java_state_of J)"
  unfolding java_state_of_def with_installed_state_def
  by (auto intro!: keeps_intros read_java_keeps exists_keeps split: prod.splits)

lemma write_config_sure:
  assumes "config_of s \<noteq> None" and "\<And>t. config_of t = Some b \<Longrightarrow> Q () t"
  shows "wp (vol_write (java_volume J) launch_config_path b M0644) Q E s"
proof -
  obtain t where t: "vol_write (java_volume J) launch_config_path b M0644 s = (Inr (), t)"
    using write_returns[of b s] by (metis prod.collapse)
  with write_file[OF t assms(1)] assms(2) show ?thesis by (simp add: wp_def)
qed

lemma step_config:
  assumes "keeps (\<lambda>t. config_of t) p" and "config_of s = v"
    and "\<And>x t. config_of t = v \<Longrightarrow> wp (k x) Q E t" and "\<And>e t. config_of t = v \<Longrightarrow> E e t"
  shows "wp (andThen p k) Q E s"
  unfolding wp_andThen by (rule wp_mono[OF keeps_wp[OF assms(1)]]) (use assms in auto)

lemma step_config_do:
  assumes "keeps (\<lambda>t. config_of t) p" and "config_of s = v"
    and "\<And>t. config_of t = v \<Longrightarrow> wp q Q E t" and "\<And>e t. config_of t = v \<Longrightarrow> E e t"
  shows "wp (thenDo p q) Q E s"
  unfolding thenDo_def by (rule step_config[OF assms(1,2)]) (use assms in auto)

lemma read_java:
  assumes "\<And>raw config t. config_of t = config_of s \<Longrightarrow> config_of s = Some raw \<Longrightarrow> wp (k raw config) Q E t"
    and "\<And>e t. config_of t = config_of s \<Longrightarrow> E e t"
  shows "wp (andThen (read_java_config J) (\<lambda>(raw, config). k raw config)) Q E s"
proof (cases "vol_read_file (java_volume J)")
  case None
  with assms(2) show ?thesis by (simp add: read_java_config_def wp_simps)
next
  case (Some rd)
  then show ?thesis
    unfolding read_java_config_def Some option.case wp_andThen
    by (intro wp_read[OF Some]) (use assms in \<open>auto simp: wp_simps split: option.splits json.splits\<close>)
qed

lemma backup_keeps: "wp (java_backup_path J) (\<lambda>b t. t = s \<and> apart b launch_config_path) E s"
proof -
  let ?f = "map (\<lambda>c. if c = CHR '':'' \<or> c = CHR ''.'' then CHR ''-'' else c) (h_timestamp (jr_host J) s)"
  have p: "\<forall>c\<in>set ?f. c \<noteq> CHR ''/'' \<and> c \<noteq> CHR 0x00" using timestamp_plain[of s] by auto
  then have "plain_segment (''LaunchServer.java-'' @ ?f @ ''.json'')" "CHR 0x00 \<notin> set (''LaunchServer.java-'' @ ?f @ ''.json'')"
    by (auto simp: plain_segment_def)
  from hidden_apart[OF this, of "''.gravit-panel-config-backups''"] show ?thesis
    by (simp add: java_backup_path_def safe_timestamp_def wp_simps)
qed

lemma undone_wp:
  assumes "config_of s \<noteq> None" and "x \<Longrightarrow> apart target launch_config_path"
    and "x \<Longrightarrow> (\<And>w. fst (vol_remove (java_volume J) target True w) = Inr ())"
  shows "wp (undo_install J target raw x e) Q (\<lambda>_ t. config_of t = Some raw) s"
proof -
  have restored: "wp (quiet (vol_write (java_volume J) launch_config_path raw M0644)) (\<lambda>_. wp (restore_runtime_config J)
      (\<lambda>_. wp (raise e) Q (\<lambda>_ t. config_of t = Some raw)) (\<lambda>_ t. config_of t = Some raw)) (\<lambda>_ t. config_of t = Some raw) t"
    if "config_of t \<noteq> None" for t
    unfolding wp_quiet
    by (rule write_config_sure[OF that], rule wp_mono[OF keeps_wp[OF restore_keeps_config]]) (auto simp: wp_raise)
  show ?thesis
  proof (cases x)
    case False
    with restored[OF assms(1)] show ?thesis by (simp add: undo_install_def wp_simps)
  next
    case True
    obtain t where t: "vol_remove (java_volume J) target True s = (Inr (), t)"
      using assms(3)[OF True, of s] by (metis prod.collapse)
    have "config_of t = config_of s" using keepsD[OF runtime_remove_keeps[OF assms(2)[OF True]] t] .
    with restored[of t] assms(1) t True show ?thesis
      by (simp add: undo_install_def wp_thenDo wp_do_when wp_def[of "vol_remove _ _ _"])
  qed
qed

lemma written:
  assumes "config_of s \<noteq> None" and "\<And>t. config_of t \<noteq> None \<Longrightarrow> Q () t"
  shows "wp (write_java_config J c) Q E s"
  unfolding write_java_config_def by (rule write_config_sure) (use assms in auto)

lemma tried:
  assumes "wp p (\<lambda>_ _. True) (\<lambda>_ t. config_of t \<noteq> None) s"
    and "\<And>e t. config_of t \<noteq> None \<Longrightarrow> wp (h e) (\<lambda>_ _. True) (\<lambda>_ t. config_of t = v) t"
  shows "wp (tryCatch p h) (\<lambda>_ _. True) (\<lambda>_ t. config_of t = v) s"
  unfolding wp_tryCatch by (rule wp_mono[OF assms(1)]) (auto intro: assms(2))

lemma store_settings_undone:
  assumes "config_of s = Some raw" and "apart b launch_config_path"
  shows "wp (store_settings J raw changed b) (\<lambda>_ _. True) (\<lambda>_ t. config_of t = Some raw) s"
proof -
  have "wp (built_state J b) (\<lambda>_ _. True) (\<lambda>_ t. config_of t \<noteq> None) t" if "config_of t \<noteq> None" for t
    unfolding built_state_def
    by (rule step_config[OF reload_keeps_config refl], rule step_config[OF keeps_config[OF state_keeps]], assumption)
      (use that in \<open>auto simp: wp_ret\<close>)
  then have "wp (thenDo (write_java_config J changed) (tryCatch (built_state J b) (undo_install J [] raw False)))
      (\<lambda>_ _. True) (\<lambda>_ t. config_of t = Some raw) t" if "config_of t = Some raw" for t
    unfolding wp_thenDo using that by (intro written tried undone_wp) auto
  then show ?thesis unfolding store_settings_def
    by (intro step_config_do[OF copy_keeps[OF assms(2)] assms(1)])
qed

lemma settings_undone: "wp (update_java_settings J force) (\<lambda>_ _. True) (\<lambda>_ t. config_of t = config_of s) s"
  unfolding update_java_settings_def
proof (rule read_java)
  fix raw config t assume t: "config_of t = config_of s" "config_of s = Some raw"
  show "wp (andThen (java_backup_path J) (store_settings J raw (forced_config force config))) (\<lambda>_ _. True)
      (\<lambda>_ t. config_of t = config_of s) t"
    unfolding wp_andThen by (rule wp_mono[OF backup_keeps]) (use t in \<open>auto intro: store_settings_undone\<close>)
qed simp

lemma trash_apart:
  assumes "full_match runtime_directory_rx d"
  shows "wp (safe_timestamp (jr_host J)) (\<lambda>time t. t = s \<and> apart (''.gravit-panel-java-trash/'' @ time @ ''-'' @ d) launch_config_path) E s"
proof -
  define f where "f = map (\<lambda>c. if c = CHR '':'' \<or> c = CHR ''.'' then CHR ''-'' else c) (h_timestamp (jr_host J) s)"
  have p: "\<forall>c\<in>set f. c \<noteq> CHR ''/'' \<and> c \<noteq> CHR 0x00 \<and> c \<noteq> CHR ''.''" using timestamp_plain[of s] by (auto simp: f_def)
  have d: "CHR 0x00 \<notin> set d" "CHR ''/'' \<notin> set d" using directory_plain[OF assms] by blast+
  have z: "CHR 0x00 \<notin> set (f @ ''-'' @ d)" "CHR ''/'' \<notin> set (f @ ''-'' @ d)"
    using p d by (simp_all, blast+)
  have "hd (f @ ''-'' @ d) \<noteq> CHR ''.''" "f @ ''-'' @ d \<noteq> []" using p by (cases f; simp)+
  then have "f @ ''-'' @ d \<noteq> ''.''" "f @ ''-'' @ d \<noteq> ''..''" by (metis list.sel(1))+
  with z(2) have "plain_segment (f @ ''-'' @ d)" by (simp add: plain_segment_def)
  from hidden_apart[OF this z(1), of "''.gravit-panel-java-trash''"] show ?thesis
    by (simp add: safe_timestamp_def wp_simps f_def)
qed

lemma unregister_keeps_some:
  assumes "config_of s \<noteq> None"
  shows "wp (unregister_runtime J d config tr b) (\<lambda>_ _. True) (\<lambda>_ t. config_of t \<noteq> None) s"
proof -
  obtain l ds where w: "with_launcher config = (l, ds)" by fastforce
  show ?thesis unfolding unregister_runtime_def w prod.case wp_thenDo[of "write_java_config _ _"]
    by (rule written[OF assms], rule step_config[OF reload_keeps_config refl],
        rule step_config_do[OF keeps_config[OF progress_keeps]], assumption,
        rule step_config[OF keeps_config[OF state_keeps]], assumption)
      (auto simp: wp_ret)
qed

lemma undo_removal_wp:
  assumes "config_of s \<noteq> None" and "apart target launch_config_path" and "apart trash launch_config_path"
  shows "wp (undo_removal J target trash raw installed e) Q (\<lambda>_ t. config_of t = Some raw) s"
proof -
  have k: "keeps (\<lambda>t. config_of t) (do_when installed (quiet (vol_move (java_volume J) trash target)))"
    using assms(2,3) by (intro keeps_intros move_keeps)
  show ?thesis unfolding undo_removal_def wp_thenDo[of "quiet _"] wp_quiet
    by (rule write_config_sure[OF assms(1)], rule step_config_do[OF k], assumption,
        rule step_config_do[OF restore_keeps_config], assumption)
      (auto simp: wp_raise)
qed

lemma removal_undone: "wp (remove_runtime J d) (\<lambda>_ _. True) (\<lambda>_ t. config_of t = config_of s) s"
proof (cases "full_match runtime_directory_rx d")
  case False
  then show ?thesis by (simp add: remove_runtime_def wp_simps)
next
  case True
  have gone: "wp (remove_with_trash J d raw config trash i b) (\<lambda>_ _. True) (\<lambda>_ t. config_of t = Some raw) t"
    if "config_of t = Some raw" "apart trash launch_config_path" "apart b launch_config_path" for raw config trash i b t
    unfolding remove_with_trash_def Let_def
    by (rule step_config_do[OF copy_keeps[OF that(3)] that(1)],
        rule step_config_do[OF keeps_do_when[OF move_keeps[OF updates_apart[OF True] that(2)]]], assumption,
        rule tried[OF unregister_keeps_some undo_removal_wp[OF _ updates_apart[OF True] that(2)]])
      auto
  show ?thesis
    unfolding remove_runtime_def using True
    apply (simp add: wp_thenDo[of "throwIf _ _"] wp_throwIf)
    apply (rule read_java)
     apply (rule wp_guard)
      apply (unfold wp_andThen[of "safe_timestamp _"])
      apply (rule wp_mono[OF trash_apart[OF True]])
       apply (elim conjE, simp)
       apply (rule step_config[OF keeps_config[OF exists_keeps]])
         apply assumption
        apply (unfold wp_andThen[of "java_backup_path _"])
        apply (rule wp_mono[OF backup_keeps])
         apply (auto intro: gone)
    done
qed

lemma archive_apart: "apart (''.gravit-panel-java/'' @ jr_uuid J s @ ''.'' @ format_word f) launch_config_path"
proof -
  have u: "CHR 0x00 \<notin> set (jr_uuid J s)" "CHR ''/'' \<notin> set (jr_uuid J s)" using uuid_plain[of s] by blast+
  have "length (jr_uuid J s @ ''.'' @ format_word f) > 2" by (simp add: format_word_def split: archive_format.split)
  moreover have "x \<notin> {[], ''.'', ''..''}" if "2 < length x" for x :: string using that by auto
  ultimately have "jr_uuid J s @ ''.'' @ format_word f \<notin> {[], ''.'', ''..''}" by blast
  with u have p: "plain_segment (jr_uuid J s @ ''.'' @ format_word f)"
    by (auto simp: plain_segment_def format_word_def split: archive_format.split)
  have "CHR 0x00 \<notin> set (jr_uuid J s @ ''.'' @ format_word f)"
    using u by (simp add: format_word_def split: archive_format.split)
  from hidden_apart[OF p this, of "''.gravit-panel-java''"] show ?thesis by simp
qed

lemma unpack_keeps: "apart path launch_config_path \<Longrightarrow> keeps (\<lambda>t. config_of t) (unpack_runtime J i path bytes)"
  unfolding unpack_runtime_def Let_def
  by (cases "or_else (ji_format i) Zip") (auto intro!: keeps_thenDo store_keeps keeps_config[OF progress_keeps]
      keeps_config[OF zip_keeps] keeps_config[OF tar_keeps])

lemma register_keeps_some:
  assumes "config_of s \<noteq> None" and "apart b launch_config_path"
  shows "wp (register_runtime J i config b) (\<lambda>_ _. True) (\<lambda>_ t. config_of t \<noteq> None) s"
proof -
  obtain l ds where w: "with_launcher config = (l, ds)" by fastforce
  have "wp (thenDo (write_java_config J c) (andThen (reload_and_build J) (\<lambda>built.
        thenDo (h_progress (jr_host J) 98 m) (andThen (java_state_of J) (\<lambda>st. ret \<lparr>jx_state = st, jx_build = built, jx_backup = b\<rparr>)))))
      (\<lambda>_ _. True) (\<lambda>_ t. config_of t \<noteq> None) t" if "config_of t = config_of s" for t c m
    unfolding wp_thenDo[of "write_java_config _ _"]
    by (rule written, use that assms(1) in simp, rule step_config[OF reload_keeps_config refl],
        rule step_config_do[OF keeps_config[OF progress_keeps]], assumption,
        rule step_config[OF keeps_config[OF state_keeps]], assumption)
      (auto simp: wp_ret)
  then show ?thesis
    unfolding register_runtime_def Let_def w prod.case
    by (intro step_config[OF keeps_config[OF exists_keeps] refl] wp_guard
        step_config_do[OF keeps_config[OF permissions_keeps]] step_config_do[OF copy_keeps[OF assms(2)]])
      (use assms(1) in auto)
qed

lemma install_with_undone:
  assumes c: "config_of s = Some raw" and d: "full_match runtime_directory_rx (ji_directory i)"
    and p: "apart path launch_config_path" and b: "apart b launch_config_path"
    and gone: "\<And>w. fst (vol_remove (java_volume J) (runtime_target (ji_directory i)) True w) = Inr ()"
  shows "wp (install_with J i bytes raw config path b) (\<lambda>_ _. True) (\<lambda>_ t. config_of t = Some raw) s"
proof -
  let ?u = "undo_install J (runtime_target (ji_directory i)) raw"
  have undo: "wp (?u x e) Q (\<lambda>_ t. config_of t = Some raw) t" if "config_of t \<noteq> None" for x e Q t
    by (rule undone_wp[OF that]) (auto intro: updates_apart[OF d] gone)
  have unpacked: "wp (tryCatch (unpack_runtime J i path bytes) (?u False)) (\<lambda>_ t. config_of t = Some raw) (\<lambda>_ t. config_of t = Some raw) s"
    unfolding wp_tryCatch by (rule wp_mono[OF keeps_wp[OF unpack_keeps[OF p]]]) (use c in \<open>auto intro!: undo\<close>)
  have registered: "wp (tryCatch (register_runtime J i config b) (?u True)) (\<lambda>_ _. True) (\<lambda>_ t. config_of t = Some raw) t"
    if "config_of t = Some raw" for t
    by (rule tried[OF register_keeps_some[OF _ b] undo]) (use that in auto)
  let ?f = "quiet (vol_remove (java_volume J) path False)"
  have finished: "wp ?f (\<lambda>_ _. True) E t" for E t by (simp add: wp_quiet wp_any)
  have failed: "wp ?f (\<lambda>_ t. config_of t = Some raw) (\<lambda>_ t. config_of t = Some raw) t" if "config_of t = Some raw" for t
    by (rule wp_mono[OF keeps_wp[OF keeps_quiet[OF runtime_remove_keeps[OF p]]]]) (use that in auto)
  show ?thesis
    unfolding install_with_def Let_def wp_try_always wp_thenDo
    by (rule wp_mono[OF unpacked]; (rule wp_mono[OF registered])?) (auto intro: finished failed)
qed

lemma install_undone:
  assumes gone: "\<And>w. fst (vol_remove (java_volume J) (runtime_target (ji_directory i)) True w) = Inr ()"
  shows "wp (install_runtime J i bytes) (\<lambda>_ _. True) (\<lambda>_ t. config_of t = config_of s) s"
proof (cases "check_java_input i")
  case (Inl e)
  then show ?thesis by (simp add: install_runtime_def wp_simps)
next
  case (Inr u)
  then have d: "full_match runtime_directory_rx (ji_directory i)" by (auto simp: check_java_input_def split: if_splits)
  show ?thesis
    unfolding install_runtime_def Inr wp_thenDo[of "ofSum _"] wp_ofSum sum.case
  proof (rule wp_guard, rule read_java, rule wp_guard, rule step_config[OF keeps_config[OF exists_keeps]], assumption, rule wp_guard)
    fix raw config t x v
    assume c: "config_of s = Some raw" "config_of v = config_of s"
    then have v: "config_of v = Some raw" by simp
    show "wp (andThen (reading (jr_uuid J)) (\<lambda>uuid. andThen (java_backup_path J) (\<lambda>backup. install_with J i bytes raw config
        (''.gravit-panel-java/'' @ uuid @ ''.'' @ format_word (or_else (ji_format i) Zip)) backup)))
        (\<lambda>_ _. True) (\<lambda>_ t. config_of t = config_of s) v"
      unfolding wp_andThen wp_reading
      by (rule wp_mono[OF backup_keeps], elim conjE, hypsubst, rule wp_mono[OF install_with_undone[OF v d archive_apart _ gone]])
        (simp_all add: c)
  qed auto
qed

end


text \<open>A LaunchServer in memory whose restart fails or not.\<close>

definition java_config :: json where
  "java_config = JObj [(''launcher'', JObj [(''forceUseCustomJava'', JBool False)])]"

definition memory_java :: "bool \<Rightarrow> (memory, unit) java_env" where
  "memory_java ok = \<lparr>jr_host = memory_host True (\<lambda>_. Some java_config) (\<lambda>_. ''new''),
     jr_restart = (if ok then ret () else raise (Error ''down'')), jr_build = ret (), jr_extract_zip = (\<lambda>_ _ _ _. ret ()),
     jr_extract_tar = (\<lambda>_ _ _. ret ()), jr_permissions = (\<lambda>_. ret ()), jr_download = (\<lambda>_. raise (Error ''offline'')),
     jr_uuid = (\<lambda>_. ''7''), jr_text = (\<lambda>_. [])\<rparr>"

lemma memory_store_apart:
  assumes "apart p launch_config_path"
  shows "keeps (\<lambda>w. at_path w launch_config_path) (vol_write memory_ops p b m)"
proof (cases "vol_absolute p")
  case (Inl e)
  then show ?thesis
    by (simp add: container_ops_def cv_write_file_atomic_def keeps_def exec_simps)
next
  case (Inr a)
  have "at_path t launch_config_path = at_path w launch_config_path"
    if "vol_write memory_ops p b m w = (r, t)" for w r t
  proof -
    have "cv_write_file_atomic mem_run (\<lambda>_. ''1'') p b m w = (r, t)" using that by (simp add: container_ops_def)
    from memory_moves.write_names[OF Inr _ this] show ?thesis
      using assms launch_config_abs Inr by (auto simp: apart_def at_path_def)
  qed
  then show ?thesis unfolding keeps_def by (metis prod.collapse)
qed

lemma memory_config_sure:
  "fst (vol_write (h_volume (memory_host reloads parse stringify)) launch_config_path b m w) = Inr ()"
proof (rule memory_write_sure[OF launch_config_abs])
  have "path_dirname launch_config_path = ''.''" "vol_relative launch_config_path = Inr launch_config_path" by code_simp+
  then show "\<forall>e v. ensure_parent mem_run launch_config_path w \<noteq> (Inl e, v)"
    by (simp add: ensure_parent_def exec_simps do_when_def)
qed

interpretation memory_java_host: java_host "memory_java ok" "\<lambda>w. at_path w"
proof -
  have "profile_host (jr_host (memory_java ok)) at_path"
    using memory_profiles.profile_host_axioms by (simp add: memory_java_def)
  moreover have "java_host_axioms (memory_java ok) at_path"
    unfolding java_host_axioms_def using memory_store_apart memory_config_sure
    by (auto simp: memory_java_def memory_host_def intro: keeps_intros)
  ultimately show "java_host (memory_java ok) at_path" by (simp add: java_host_def)
qed


end
