(* ===== verification/Minecraft_Assets.thy ===== *)
theory Minecraft_Assets
  imports Java_Runtimes Client_Build
begin

text \<open>
  \<^verbatim>\<open>minecraft-assets.service.ts\<close>: the assets of a version of Minecraft, downloaded by workers that share one
  list of objects. Up to six objects are in progress; which of them is finished first is asked of the field
  \<open>as_schedule\<close>, so a run of the model is one interleaving. Once an object fails the call has failed; what the other
  workers still do in the background is left out. The local file system, \<open>fetch\<close>, the pauses and the share of the
  progress bar, which the code computes in floating point, are fields of \<open>asset_env\<close>.
\<close>

section \<open>Downloads with three attempts\<close>

record 'w asset_env =
  as_host :: "'w host"
  as_fetch :: "string \<Rightarrow> ('w, 'w web_response) io"
  as_sleep :: "nat \<Rightarrow> ('w, unit) io"
  as_url :: "string \<Rightarrow> link_url option"
  as_sha1 :: "string \<Rightarrow> string"
  as_lstat :: "string \<Rightarrow> ('w, (bool \<times> nat) option) io"
  as_sha1_file :: "string \<Rightarrow> ('w, string option) io"
  as_mkdir :: "string \<Rightarrow> ('w, unit) io"
  as_create :: "string \<Rightarrow> string \<Rightarrow> ('w, unit) io"
  as_rename :: "string \<Rightarrow> string \<Rightarrow> ('w, unit) io"
  as_rm :: "string \<Rightarrow> ('w, unit) io"
  as_uuid :: "'w \<Rightarrow> string"
  as_schedule :: "'w \<Rightarrow> nat"
  as_share :: "nat \<Rightarrow> nat \<Rightarrow> nat"

definition manifest_url :: string where
  "manifest_url = ''https://piston-meta.mojang.com/mc/game/version_manifest_v2.json''"

definition metadata_hosts :: "string list" where
  "metadata_hosts = [''piston-meta.mojang.com'', ''launchermeta.mojang.com'']"

definition index_hosts :: "string list" where
  "index_hosts = metadata_hosts @ [''launcher.mojang.com'']"

definition object_host :: string where
  "object_host = ''resources.download.minecraft.net''"

definition asset_name_rx :: rx where
  "asset_name_rx = name_rx is_alnum (\<lambda>c. is_alnum c \<or> c = CHR ''.'' \<or> c = CHR ''_'' \<or> c = CHR ''-'') 127"

definition sha1_hex_rx :: rx where
  "sha1_hex_rx = times 40 (Cls is_hex)"

definition maximum_metadata :: nat where "maximum_metadata = 16 * 1024 * 1024"
definition maximum_asset :: int where "maximum_asset = 128 * 1024 * 1024"
definition download_concurrency :: nat where "download_concurrency = 6"

definition checked_url :: "'w asset_env \<Rightarrow> json option \<Rightarrow> string list \<Rightarrow> string \<Rightarrow> js_error + string" where
  "checked_url A value hosts description = (case json_text_of value of
     None \<Rightarrow> Inl (Error (description @ '' URL is missing''))
   | Some s \<Rightarrow> (case as_url A s of
       None \<Rightarrow> Inl (Error ''Invalid URL'')
     | Some u \<Rightarrow> if wu_protocol u \<noteq> ''https:'' \<or> wu_host u \<notin> set hosts
         then Inl (Error (description @ '' URL is not an allowed Mojang HTTPS endpoint'')) else Inr s))"

definition asset_too_long :: "nat \<Rightarrow> js_error" where
  "asset_too_long maximum = Error (''response exceeds '' @ show_nat maximum @ '' bytes'')"

definition asset_request :: "'w asset_env \<Rightarrow> string \<Rightarrow> nat \<Rightarrow> ('w, string) io" where
  "asset_request A url maximum =
     andThen (as_fetch A url) (\<lambda>r.
     thenDo (throwIf (\<not> web_ok r) (Error (''HTTP '' @ show_nat (wr_status r))))
     (thenDo (throwIf (declared_over maximum r) (asset_too_long maximum))
     (andThen (wr_body r) (\<lambda>bytes. thenDo (throwIf (longer_than maximum bytes) (asset_too_long maximum)) (ret bytes)))))"

definition shown_url :: "'w asset_env \<Rightarrow> string \<Rightarrow> string" where
  "shown_url A url = (case as_url A url of Some u \<Rightarrow> wu_host u @ wu_path u | None \<Rightarrow> [])"

text \<open>So many attempts are left; the last error is told when there is none.\<close>

primrec asset_attempts :: "nat \<Rightarrow> 'w asset_env \<Rightarrow> string \<Rightarrow> nat \<Rightarrow> string \<Rightarrow> ('w, string) io" where
  "asset_attempts 0 A url maximum last_error = raise (Error (''Failed to download '' @ shown_url A url @ '': '' @ last_error))"
| "asset_attempts (Suc n) A url maximum last_error =
     thenDo (h_check_abort (as_host A))
     (tryCatch (asset_request A url maximum)
       (\<lambda>e. thenDo (h_check_abort (as_host A))
         (thenDo (do_when (0 < n) (as_sleep A ((3 - n) * 250)))
           (asset_attempts n A url maximum (error_message e)))))"

definition asset_bytes :: "'w asset_env \<Rightarrow> string \<Rightarrow> nat \<Rightarrow> ('w, string) io" where
  "asset_bytes A url maximum = asset_attempts 3 A url maximum []"

section \<open>Local files\<close>

definition file_matches :: "'w asset_env \<Rightarrow> string \<Rightarrow> nat \<Rightarrow> string \<Rightarrow> ('w, bool) io" where
  "file_matches A path n hash =
     andThen (as_lstat A path) (\<lambda>st. case st of
       Some (True, k) \<Rightarrow> if k = n then andThen (as_sha1_file A path) (\<lambda>h. ret (h = Some hash)) else ret False
     | _ \<Rightarrow> ret False)"

definition write_local :: "'w asset_env \<Rightarrow> string \<Rightarrow> string \<Rightarrow> ('w, unit) io" where
  "write_local A path bytes =
     thenDo (as_mkdir A (path_dirname path))
     (andThen (reading (as_uuid A)) (\<lambda>uuid.
      let pending = path @ ''.pending-'' @ uuid in
      tryCatch (thenDo (as_create A pending bytes) (as_rename A pending path))
        (\<lambda>e. thenDo (as_rm A pending) (raise e))))"

section \<open>The index\<close>

type_synonym asset = "string \<times> nat"

text \<open>A map from hashes to sizes in the order the hashes were first set.\<close>

definition set_asset :: "string \<Rightarrow> nat \<Rightarrow> asset list \<Rightarrow> asset list" where
  "set_asset h n m = (if h \<in> fst ` set m then map (\<lambda>(k, v). (k, if k = h then n else v)) m else m @ [(h, n)])"

definition asset_of :: "json \<Rightarrow> js_error + asset" where
  "asset_of v = (if v = JNull then Inl (Error ''null is not an object'')
     else (case (json_text_of (json_field v ''hash''), Option.bind (json_field v ''size'') safe_int) of
         (Some h, Some n) \<Rightarrow> if full_match sha1_hex_rx h \<and> 0 \<le> n \<and> n \<le> maximum_asset then Inr (h, nat n)
           else Inl (Error ''Minecraft asset index contains an invalid object'')
       | _ \<Rightarrow> Inl (Error ''Minecraft asset index contains an invalid object'')))"

fun asset_objects :: "asset list \<Rightarrow> json list \<Rightarrow> js_error + asset list" where
  "asset_objects m [] = Inr m"
| "asset_objects m (v # vs) = (case asset_of v of
     Inl e \<Rightarrow> Inl e | Inr (h, n) \<Rightarrow> asset_objects (set_asset h n m) vs)"

definition index_objects :: "json \<Rightarrow> js_error + asset list" where
  "index_objects v = (if v = JNull then Inl (Error ''null is not an object'')
     else (case json_field v ''objects'' of
         Some objs \<Rightarrow> if is_js_object objs then asset_objects [] (map snd (spread objs))
           else Inl (Error ''Minecraft asset index does not contain objects'')
       | None \<Rightarrow> Inl (Error ''Minecraft asset index does not contain objects'')))"

section \<open>The workers\<close>

definition asset_target :: "string \<Rightarrow> string \<Rightarrow> string" where
  "asset_target rootPath hash = path_join [rootPath, ''objects'', take 2 hash, hash]"

definition object_url :: "string \<Rightarrow> string" where
  "object_url hash = ''https://'' @ object_host @ ''/'' @ take 2 hash @ ''/'' @ hash"

text \<open>One object; whether the file that was there could be kept.\<close>

definition download_object :: "'w asset_env \<Rightarrow> string \<Rightarrow> string \<Rightarrow> nat \<Rightarrow> ('w, bool) io" where
  "download_object A target hash n =
     andThen (asset_bytes A (object_url hash) (max n 1)) (\<lambda>bytes.
     thenDo (throwIf (length bytes \<noteq> n \<or> as_sha1 A bytes \<noteq> hash)
       (Error (''Minecraft asset '' @ hash @ '' failed size or SHA-1 verification'')))
     (thenDo (write_local A target bytes) (ret False)))"

definition ensure_object :: "'w asset_env \<Rightarrow> string \<Rightarrow> asset \<Rightarrow> ('w, bool) io" where
  "ensure_object A rootPath = (\<lambda>(hash, n). let target = asset_target rootPath hash in
     andThen (file_matches A target n hash) (\<lambda>same. if same then ret True else download_object A target hash n))"

text \<open>Idle workers take objects from the end of the list.\<close>

fun refill :: "asset list \<Rightarrow> asset list \<Rightarrow> asset list \<times> asset list" where
  "refill [] busy = ([], busy)"
| "refill (o1 # rest_of) busy = (if length busy < download_concurrency then refill rest_of (busy @ [o1]) else (o1 # rest_of, busy))"

text \<open>So many objects are left; the list is kept with its end first.\<close>

primrec run_workers ::
  "nat \<Rightarrow> 'w asset_env \<Rightarrow> string \<Rightarrow> nat \<Rightarrow> asset list \<Rightarrow> asset list \<Rightarrow> nat \<times> nat \<Rightarrow> ('w, nat \<times> nat) io" where
  "run_workers 0 A rootPath all_of queue busy counts = thenDo (h_check_abort (as_host A)) (ret counts)"
| "run_workers (Suc n) A rootPath all_of queue busy counts =
     thenDo (h_check_abort (as_host A))
     (case refill queue busy of (queue, busy) \<Rightarrow>
       andThen (reading (as_schedule A)) (\<lambda>k. let i = k mod length busy in
       andThen (ensure_object A rootPath (busy ! i)) (\<lambda>same.
       let completed = fst counts + 1; reused = (if same then snd counts + 1 else snd counts) in
       thenDo (do_when (completed mod 25 = 0 \<or> completed = all_of)
         (h_progress (as_host A) (min 85 (55 + as_share A completed all_of))
           (''Minecraft assets: '' @ show_nat completed @ ''/'' @ show_nat all_of)))
         (run_workers n A rootPath all_of queue (take i busy @ drop (Suc i) busy) (completed, reused)))))"

section \<open>The service\<close>

definition assets_root :: "'w asset_env \<Rightarrow> string \<Rightarrow> string" where
  "assets_root A dir = path_join [h_root (as_host A), ''launcher'', ''updates'', dir]"

definition read_metadata :: "'w asset_env \<Rightarrow> string \<Rightarrow> ('w, json \<times> string) io" where
  "read_metadata A url = andThen (asset_bytes A url maximum_metadata) (\<lambda>b. case h_parse (as_host A) b of
     None \<Rightarrow> raise (Error ''JSON'') | Some v \<Rightarrow> ret (v, b))"

definition version_url_of :: "json \<Rightarrow> string \<Rightarrow> js_error + json option" where
  "version_url_of manifest version = (case json_field manifest ''versions'' of
     None \<Rightarrow> Inr None
   | Some JNull \<Rightarrow> Inr None
   | Some (JArr vs) \<Rightarrow>
       (let before = takeWhile (\<lambda>v. json_field v ''id'' \<noteq> Some (JStr version)) vs in
        if JNull \<in> set before then Inl (Error ''null is not an object'')
        else Inr (field_of (List.find (\<lambda>v. json_field v ''id'' = Some (JStr version)) vs) ''url''))
   | Some _ \<Rightarrow> Inl (Error ''find is not a function''))"

definition note_mapping :: "'w asset_env \<Rightarrow> string \<Rightarrow> json option \<Rightarrow> ('w, unit) io" where
  "note_mapping A index official = (case json_text_of official of
     Some i \<Rightarrow> do_when (i \<noteq> index) (h_log (as_host A) (''Mapping profile asset index '' @ index @ '' to Mojang index '' @ i))
   | None \<Rightarrow> ret ())"

text \<open>The index of a version: its bytes and its objects.\<close>

definition find_index :: "'w asset_env \<Rightarrow> string \<Rightarrow> string \<Rightarrow> ('w, string \<times> asset list) io" where
  "find_index A version index =
     andThen (read_metadata A manifest_url) (\<lambda>(manifest, _).
     thenDo (throwIf (manifest = JNull) (Error ''null is not an object''))
     (andThen (ofSum (version_url_of manifest version)) (\<lambda>url.
      andThen (ofSum (checked_url A url metadata_hosts ''Minecraft version metadata'')) (\<lambda>metadata_url.
      andThen (read_metadata A metadata_url) (\<lambda>(metadata, _).
      thenDo (throwIf (metadata = JNull) (Error ''null is not an object''))
      (let official = json_field metadata ''assetIndex'' in
       thenDo (note_mapping A index (field_of official ''id''))
       (andThen (ofSum (checked_url A (field_of official ''url'') index_hosts ''Minecraft asset index'')) (\<lambda>index_url.
        andThen (read_metadata A index_url) (\<lambda>(v, bytes).
        andThen (ofSum (index_objects v)) (\<lambda>objects. ret (bytes, objects)))))))))))"

definition ensure_assets :: "'w asset_env \<Rightarrow> string \<Rightarrow> string \<Rightarrow> string \<Rightarrow> ('w, unit) io" where
  "ensure_assets A version dir index =
     (let H = as_host A; rootPath = assets_root A dir; inner = path_relative (path_join [h_root H, ''launcher'']) rootPath in
      thenDo (throwIf (\<not> full_match asset_name_rx dir \<or> \<not> full_match asset_name_rx index)
        (Error ''Generated profile contains an unsafe Minecraft asset path''))
      (thenDo (throwIf (inner = [] \<or> prefix ''..'' inner) (Error ''Minecraft asset directory escapes Launcher data''))
      (thenDo (h_progress H 50 (''Resolving Minecraft '' @ version @ '' assets''))
      (andThen (find_index A version index) (\<lambda>(bytes, objects).
       let all_of = length objects in
       thenDo (h_progress H 55 (''Downloading '' @ show_nat all_of @ '' Minecraft asset objects''))
       (andThen (run_workers all_of A rootPath all_of (rev objects) [] (0, 0)) (\<lambda>(completed, reused).
        thenDo (write_local A (path_join [rootPath, ''indexes'', index @ ''.json'']) bytes)
          (h_log H (''Minecraft assets ready: '' @ show_nat completed @ '' checked, '' @ show_nat reused @ '' reused, '' @
            show_nat (completed - reused) @ '' downloaded'')))))))))"

end
