(* ===== verification/Loader_Downloads.thy ===== *)
theory Loader_Downloads
  imports Java_Runtimes Modrinth
begin

text \<open>
  \<^verbatim>\<open>loader-installer.service.ts\<close> and \<^verbatim>\<open>minecraft-versions.service.ts\<close>: the installers of Forge and NeoForge and the
  list of releases of Minecraft. \<open>fetch\<close> gets the address and the time limit; the collator of versions and
  \<open>Date.parse\<close> are arguments.
\<close>

section \<open>Requests\<close>

record 'w loader_env =
  ld_fetch :: "string \<Rightarrow> nat \<Rightarrow> ('w, 'w web_response) io"
  ld_sha256 :: "string \<Rightarrow> string"
  ld_parse :: "string \<Rightarrow> json option"
  ld_le :: "string \<Rightarrow> string \<Rightarrow> bool"

datatype installer_kind = ForgeInstaller | NeoForgeInstaller

record loader_artifact =
  la_bytes :: string
  la_filename :: string
  la_version :: string
  la_sha256 :: string
  la_url :: string

definition metadata_limit :: nat where "metadata_limit = 2 * 1024 * 1024"
definition installer_limit :: nat where "installer_limit = 128 * 1024 * 1024"

definition over_limit :: "string \<Rightarrow> nat \<Rightarrow> js_error" where
  "over_limit label maximum = Error (label @ '' exceeds the '' @ show_nat maximum @ '' byte size limit'')"

definition loader_bytes :: "'w loader_env \<Rightarrow> string \<Rightarrow> string \<Rightarrow> nat \<Rightarrow> nat \<Rightarrow> ('w, string) io" where
  "loader_bytes L url label maximum limit =
     andThen (tryCatch (ld_fetch L url limit) (\<lambda>e. raise (Error (label @ '' request failed: '' @ error_message e)))) (\<lambda>r.
     thenDo (throwIf (\<not> web_ok r) (Error (label @ '' request failed with HTTP '' @ show_nat (wr_status r))))
     (thenDo (throwIf (declared_over maximum r) (over_limit label maximum))
     (andThen (wr_body r) (\<lambda>bytes.
       thenDo (throwIf (longer_than maximum bytes) (over_limit label maximum)) (ret bytes)))))"

definition installer_text :: "'w loader_env \<Rightarrow> string \<Rightarrow> string \<Rightarrow> nat \<Rightarrow> ('w, string) io" where
  "installer_text L url label maximum = loader_bytes L url label maximum 30000"

definition loader_json :: "'w loader_env \<Rightarrow> string \<Rightarrow> string \<Rightarrow> ('w, json) io" where
  "loader_json L url label = andThen (loader_bytes L url label metadata_limit 30000) (\<lambda>b. case ld_parse L b of
     None \<Rightarrow> raise (Error (label @ '' returned invalid JSON'')) | Some v \<Rightarrow> ret v)"

section \<open>Versions\<close>

definition release_version_rx :: rx where
  "release_version_rx = (let d = many1 (Cls is_digit) in Cat d (between_times 1 3 (Cat (lit ''.'') d)))"

definition loader_version_rx :: rx where
  "loader_version_rx = name_rx is_alnum (\<lambda>c. is_alnum c \<or> c \<in> set ''.+_-'') 127"

definition version_tag_rx :: rx where
  "version_tag_rx = cats [lit ''<version>'', Cap (many1 (Cls (\<lambda>c. c \<noteq> CHR ''<''))), lit ''</version>'']"

text \<open>The captures of \<open>matchAll\<close>.\<close>

function match_all :: "rx \<Rightarrow> string \<Rightarrow> string list" where
  "match_all r [] = []"
| "match_all r (c # cs) = (case rx_run r (None, c # cs) of
     (Some x, s) # _ \<Rightarrow> x # (if length s < length (c # cs) then match_all r s else match_all r cs)
   | _ \<Rightarrow> match_all r cs)"
  by pat_completeness auto
termination by (relation "measure (\<lambda>(r, s). length s)") auto

definition neoforge_url :: string where
  "neoforge_url = ''https://maven.neoforged.net/api/maven/versions/releases/net/neoforged/neoforge''"

definition promotions_url :: string where
  "promotions_url = ''https://files.minecraftforge.net/net/minecraftforge/forge/promotions_slim.json''"

definition forge_metadata_url :: string where
  "forge_metadata_url = ''https://maven.minecraftforge.net/net/minecraftforge/forge/maven-metadata.xml''"

definition neoforge_prefix :: "string \<Rightarrow> string" where
  "neoforge_prefix v = (if prefix ''1.'' v then drop 2 v @ ''.'' else v @ ''.'')"

definition drop_suffix :: "string \<Rightarrow> string \<Rightarrow> string" where
  "drop_suffix sfx s = (if suffix sfx s then take (length s - length sfx) s else s)"

definition forge_versions :: "string \<Rightarrow> string \<Rightarrow> string list" where
  "forge_versions version xml = filter (full_match loader_version_rx) (distinct_of
     (map (\<lambda>v. drop_suffix (CHR ''-'' # version) (drop (length version + 1) v))
       (filter (prefix (version @ ''-'')) (match_all version_tag_rx xml))))"

definition loader_versions :: "'w loader_env \<Rightarrow> installer_kind \<Rightarrow> string \<Rightarrow> ('w, string list) io" where
  "loader_versions L kind version =
     thenDo (throwIf (\<not> full_match release_version_rx version) (Error ''Minecraft version has an invalid format''))
     (case kind of
        NeoForgeInstaller \<Rightarrow> andThen (loader_json L neoforge_url ''NeoForge version metadata'') (\<lambda>v. case v of
            JNull \<Rightarrow> raise (Error ''null is not an object'')
          | _ \<Rightarrow> (case json_field v ''versions'' of
              Some (JArr vs) \<Rightarrow> ret (rev (sort_by (ld_le L)
                (filter (\<lambda>s. prefix (neoforge_prefix version) s \<and> full_match loader_version_rx s) (json_strings vs))))
            | _ \<Rightarrow> raise (Error ''NeoForge version metadata does not contain a versions array'')))
      | ForgeInstaller \<Rightarrow> andThen (installer_text L forge_metadata_url ''Forge version metadata'' metadata_limit) (\<lambda>xml.
          ret (rev (sort_by (ld_le L) (forge_versions version xml)))))"

text \<open>\<open>Number\<close> of a part of a version, which is a word of digits; anything else is not a number.\<close>

definition part_number :: "string \<Rightarrow> nat option" where
  "part_number s = (if list_all is_digit s then Some (read_digits s) else None)"

fun parts_at_most :: "nat option list \<Rightarrow> nat option list \<Rightarrow> bool" where
  "parts_at_most [] [] = True"
| "parts_at_most (x # xs) [] = (case x of None \<Rightarrow> False | Some a \<Rightarrow> if a \<noteq> 0 then False else parts_at_most xs [])"
| "parts_at_most [] (y # ys) = (case y of None \<Rightarrow> False | Some b \<Rightarrow> if b \<noteq> 0 then True else parts_at_most [] ys)"
| "parts_at_most (x # xs) (y # ys) = (case (x, y) of
     (Some a, Some b) \<Rightarrow> if a \<noteq> b then a < b else parts_at_most xs ys | _ \<Rightarrow> False)"

definition version_parts :: "string \<Rightarrow> nat option list" where
  "version_parts v = map part_number (split_on (\<lambda>c. c = CHR ''.'') v)"

definition minecraft_at_most :: "string \<Rightarrow> string \<Rightarrow> bool" where
  "minecraft_at_most version expected = parts_at_most (version_parts version) (version_parts expected)"

section \<open>Installers\<close>

record resolved_installer =
  ri_filename :: string
  ri_version :: string
  ri_url :: string

definition resolve_neoforge :: "'w loader_env \<Rightarrow> string \<Rightarrow> string option \<Rightarrow> ('w, resolved_installer) io" where
  "resolve_neoforge L version requested =
     andThen (loader_versions L NeoForgeInstaller version) (\<lambda>vs.
     case (case requested of Some v \<Rightarrow> Some v | None \<Rightarrow> (case vs of v # _ \<Rightarrow> Some v | [] \<Rightarrow> None)) of
       None \<Rightarrow> raise (Error (''NeoForge has no installer for Minecraft '' @ version))
     | Some [] \<Rightarrow> raise (Error (''NeoForge has no installer for Minecraft '' @ version))
     | Some v \<Rightarrow>
         thenDo (throwIf (v \<notin> set vs) (Error (''NeoForge '' @ v @ '' is not available for Minecraft '' @ version)))
           (ret \<lparr>ri_filename = ''neoforge-'' @ version @ ''-installer-nogui.jar'', ri_version = v,
                ri_url = ''https://maven.neoforged.net/releases/net/neoforged/neoforge/'' @ v @ ''/neoforge-'' @ v @ ''-installer.jar''\<rparr>))"

definition promoted_version :: "'w loader_env \<Rightarrow> string \<Rightarrow> ('w, string option) io" where
  "promoted_version L version =
     andThen (loader_json L promotions_url ''Forge promotions metadata'') (\<lambda>v. case v of
       JNull \<Rightarrow> raise (Error ''null is not an object'')
     | _ \<Rightarrow> (case json_field v ''promos'' of
         Some p \<Rightarrow> if is_js_object p then ret (string_field p (version @ ''-latest''))
           else raise (Error ''Forge promotions metadata does not contain a promos object'')
       | None \<Rightarrow> raise (Error ''Forge promotions metadata does not contain a promos object'')))"

definition requested_forge :: "'w loader_env \<Rightarrow> string \<Rightarrow> string option \<Rightarrow> ('w, string option) io" where
  "requested_forge L version requested = (case requested of
     Some (c # cs) \<Rightarrow> andThen (loader_versions L ForgeInstaller version) (\<lambda>vs.
       thenDo (throwIf (c # cs \<notin> set vs) (Error (''Forge '' @ (c # cs) @ '' is not available for Minecraft '' @ version)))
         (ret (Some (c # cs))))
   | _ \<Rightarrow> andThen (promoted_version L version) (\<lambda>p. ret (case p of Some v \<Rightarrow> Some v | None \<Rightarrow> requested)))"

definition forge_installer :: "string \<Rightarrow> string \<Rightarrow> resolved_installer" where
  "forge_installer version v = (let legacy = minecraft_at_most version ''1.10'';
       artifact = (if legacy then version @ ''-'' @ v @ ''-'' @ version else version @ ''-'' @ v) in
     \<lparr>ri_filename = ''forge-'' @ version @ ''-installer'' @ (if legacy then [] else ''-nogui'') @ ''.jar'', ri_version = v,
      ri_url = ''https://maven.minecraftforge.net/net/minecraftforge/forge/'' @ artifact @ ''/forge-'' @ artifact @ ''-installer.jar''\<rparr>)"

definition resolve_forge :: "'w loader_env \<Rightarrow> string \<Rightarrow> string option \<Rightarrow> ('w, resolved_installer) io" where
  "resolve_forge L version requested = andThen (requested_forge L version requested) (\<lambda>found. case found of
     Some v \<Rightarrow>
       if full_match loader_version_rx v then ret (forge_installer version v)
       else raise (Error (''Forge has no installer for Minecraft '' @ version))
   | None \<Rightarrow> raise (Error (''Forge has no installer for Minecraft '' @ version)))"

definition kind_word :: "installer_kind \<Rightarrow> string" where
  "kind_word k = (case k of ForgeInstaller \<Rightarrow> ''FORGE'' | NeoForgeInstaller \<Rightarrow> ''NEOFORGE'')"

text \<open>The first word of a checksum file, in lower case.\<close>

definition published_digest :: "string \<Rightarrow> string" where
  "published_digest s = js_lower (takeWhile (\<lambda>c. \<not> js_space c) (js_trim s))"

definition verified_installer :: "'w loader_env \<Rightarrow> string \<Rightarrow> resolved_installer \<Rightarrow> ('w, loader_artifact) io" where
  "verified_installer L label r =
     andThen (installer_text L (ri_url r @ ''.sha256'') ''installer checksum'' 1024) (\<lambda>text.
     let digest = published_digest text in
     thenDo (throwIf (\<not> full_match sha256_hex_rx digest) (Error (label @ '' Maven repository returned an invalid SHA-256 checksum'')))
     (andThen (loader_bytes L (ri_url r) (label @ '' installer'') installer_limit 120000) (\<lambda>bytes.
      thenDo (throwIf (ld_sha256 L bytes \<noteq> digest)
        (Error (label @ '' installer checksum mismatch: expected '' @ digest @ '', got '' @ ld_sha256 L bytes)))
        (ret \<lparr>la_bytes = bytes, la_filename = ri_filename r, la_version = ri_version r, la_sha256 = ld_sha256 L bytes,
             la_url = ri_url r\<rparr>))))"

definition download_installer ::
  "'w loader_env \<Rightarrow> installer_kind \<Rightarrow> string \<Rightarrow> string option \<Rightarrow> ('w, loader_artifact) io" where
  "download_installer L kind version requested =
     andThen (case kind of NeoForgeInstaller \<Rightarrow> resolve_neoforge L version requested
       | ForgeInstaller \<Rightarrow> resolve_forge L version requested) (verified_installer L (kind_word kind))"

section \<open>Releases of Minecraft\<close>

record release_item =
  re_id :: string
  re_time :: string

record release_catalog =
  rl_items :: "release_item list"
  rl_latest :: string
  rl_fetched :: string

text \<open>The cache: when it expires, and the catalogue.\<close>

type_synonym release_cache = "(int \<times> release_catalog) option"

record 'w release_env =
  rv_fetch :: "('w, 'w web_response) io"
  rv_parse :: "string \<Rightarrow> json option"
  rv_date :: "string \<Rightarrow> int option"
  rv_now :: "'w \<Rightarrow> int"
  rv_iso :: "int \<Rightarrow> string"

definition cache_duration :: int where
  "cache_duration = 6 * 60 * 60 * 1000"

definition release_item_of :: "'w release_env \<Rightarrow> json \<Rightarrow> release_item option" where
  "release_item_of R v = (case (json_field v ''type'', string_field v ''id'', string_field v ''releaseTime'') of
     (Some (JStr t), Some i, Some time) \<Rightarrow>
       if t = ''release'' \<and> full_match release_version_rx i \<and> rv_date R time \<noteq> None
       then Some \<lparr>re_id = i, re_time = time\<rparr> else None
   | _ \<Rightarrow> None)"

definition newer_first :: "'w release_env \<Rightarrow> release_item \<Rightarrow> release_item \<Rightarrow> bool" where
  "newer_first R a b \<longleftrightarrow> (case (rv_date R (re_time b), rv_date R (re_time a)) of
     (Some y, Some x) \<Rightarrow> y \<le> x | _ \<Rightarrow> True)"

definition catalog_of :: "'w release_env \<Rightarrow> int \<Rightarrow> json \<Rightarrow> js_error + release_catalog" where
  "catalog_of R now v =
     (let vs = nullish (json_field v ''versions'') (JArr []) in
      case vs of JArr xs \<Rightarrow>
        if JNull \<in> set xs then Inl (Error ''null is not an object'')
        else (let items = sort_by (newer_first R) (List.map_filter (release_item_of R) xs) in
          case json_text_of (field_of (json_field v ''latest'') ''release'') of
            Some l \<Rightarrow>
              if items \<noteq> [] \<and> l \<in> re_id ` set items
              then Inr \<lparr>rl_items = items, rl_latest = l, rl_fetched = rv_iso R now\<rparr>
              else Inl (Error ''Minecraft version manifest did not contain a valid release catalog'')
          | None \<Rightarrow> Inl (Error ''Minecraft version manifest did not contain a valid release catalog''))
      | _ \<Rightarrow> Inl (Error ''filter is not a function''))"

text \<open>The state is the world and the cache.\<close>

definition from_net :: "('w, 'a) io \<Rightarrow> ('w \<times> release_cache, 'a) io" where
  "from_net p = (\<lambda>(w, c). case p w of (r, v) \<Rightarrow> (r, (v, c)))"

definition list_releases :: "'w release_env \<Rightarrow> ('w \<times> release_cache, release_catalog) io" where
  "list_releases R =
     andThen (reading (\<lambda>(w, c). (rv_now R w, c))) (\<lambda>(now, cache).
     case (case cache of Some (expires, k) \<Rightarrow> if now < expires then Some k else None | None \<Rightarrow> None) of
       Some k \<Rightarrow> ret k
     | None \<Rightarrow>
         andThen (from_net (rv_fetch R)) (\<lambda>r.
         thenDo (throwIf (\<not> web_ok r) (Error (''Minecraft version manifest request failed with status '' @ show_nat (wr_status r))))
         (andThen (from_net (wr_body r)) (\<lambda>body. case rv_parse R body of
            None \<Rightarrow> raise (Error ''JSON'')
          | Some JNull \<Rightarrow> raise (Error ''null is not an object'')
          | Some v \<Rightarrow> andThen (ofSum (catalog_of R now v)) (\<lambda>k.
              thenDo (writing (\<lambda>(w, _). (w, Some (now + cache_duration, k)))) (ret k))))))"

end
