(* ===== verification/Asset_Properties.thy ===== *)
theory Asset_Properties
  imports Minecraft_Assets Java_Properties Loader_Downloads
begin

text \<open>
  What downloads promise: when the assets of a version are ready, every object of the index is on disk with its size
  and hash, and an installer has the checksum its repository publishes.
\<close>

section \<open>Paths\<close>

lemma full_match_times: "full_match (times n (Cls p)) s \<longleftrightarrow> length s = n \<and> (\<forall>c\<in>set s. p c)"
proof (induction n arbitrary: s)
  case 0
  then show ?case by (auto simp: full_match_def)
next
  case (Suc n)
  then show ?case by (cases s) (auto simp: full_match_def)
qed

lemma hex_segment:
  assumes "full_match sha1_hex_rx h"
  shows "plain_segment h \<and> plain_segment (take 2 h) \<and> length h = 40"
proof -
  have l: "length h = 40" and c: "\<forall>c\<in>set h. is_hex c" using assms by (auto simp: sha1_hex_rx_def full_match_times)
  have n: "c \<noteq> CHR ''/'' \<and> c \<noteq> CHR ''.''" if "is_hex c" for c
    using that by (auto simp: is_hex_def is_digit_def in_range_def)
  then have "\<forall>c\<in>set h. c \<noteq> CHR ''/'' \<and> c \<noteq> CHR ''.''" using c by blast
  moreover have "\<forall>c\<in>set (take 2 h). c \<noteq> CHR ''/'' \<and> c \<noteq> CHR ''.''" using calculation by (meson in_set_takeD)
  moreover have "h \<noteq> []" "take 2 h \<noteq> []" using l by auto
  moreover have "plain_segment w" if "w \<noteq> []" "\<forall>c\<in>set w. c \<noteq> CHR ''/'' \<and> c \<noteq> CHR ''.''" for w
    unfolding plain_segment_def using that by (cases w) auto
  ultimately show ?thesis using l by blast
qed

lemma joined_below:
  assumes "plain_path dir" and "dir \<noteq> []" and "plain_path ss" and "ss \<noteq> []"
  shows "path_join ((CHR ''/'' # join_with ''/'' dir) # ss) = CHR ''/'' # join_with ''/'' (dir @ ss)"
proof -
  have f: "filter (\<lambda>p. p \<noteq> []) ss = ss" using assms(3) by (auto simp: filter_id_conv plain_path_def plain_segment_def)
  obtain x xs where ss: "ss = x # xs" using assms(4) by (cases ss) auto
  have n: "join_with ''/'' ss \<noteq> []" using join_with_Nil_iff[OF assms(3)] assms(4) by simp
  have "path_join ((CHR ''/'' # join_with ''/'' dir) # ss) = path_join [CHR ''/'' # join_with ''/'' dir, below_form ss False]"
    using f n assms(4) by (simp add: path_join_def below_form_def ss)
  with join_below[OF assms(1-3), of False] show ?thesis by simp
qed

definition absolute_below :: "string \<Rightarrow> string list \<Rightarrow> bool" where
  "absolute_below p dir \<longleftrightarrow> p = CHR ''/'' # join_with ''/'' dir \<and> plain_path dir \<and> dir \<noteq> []"

lemma below_join:
  assumes "absolute_below p dir" and "plain_path ss" and "ss \<noteq> []"
  shows "absolute_below (path_join (p # ss)) (dir @ ss)"
  using joined_below[of dir ss] assms by (simp add: absolute_below_def)

lemma asset_target_text:
  assumes "absolute_below p dir" and "full_match sha1_hex_rx h"
  shows "asset_target p h = p @ ''/objects/'' @ take 2 h @ ''/'' @ h"
proof -
  have "absolute_below (asset_target p h) (dir @ [''objects'', take 2 h, h])"
    unfolding asset_target_def using hex_segment[OF assms(2)] by (intro below_join[OF assms(1)]) (auto simp: plain_segment_def)
  then show ?thesis using assms(1) join_with_append[of dir "[''objects'', take 2 h, h]" "''/''"] by (simp add: absolute_below_def)
qed

lemma target_apart:
  assumes "absolute_below p dir" and "full_match sha1_hex_rx h" and "full_match sha1_hex_rx k" and "h \<noteq> k"
  shows "asset_target p h \<noteq> asset_target p k" and "\<not> prefix (asset_target p h @ ''.pending-'') (asset_target p k)"
  using hex_segment[OF assms(2)] hex_segment[OF assms(3)] assms(4)
  by (auto simp: asset_target_text[OF assms(1,2)] asset_target_text[OF assms(1,3)] dest!: prefix_length_le)

lemma index_apart:
  assumes "absolute_below p dir" and "full_match sha1_hex_rx h" and "absolute_below q (dir @ [''indexes'', f])"
  shows "q \<noteq> asset_target p h" and "\<not> prefix (q @ ''.pending-'') (asset_target p h)"
proof -
  have q: "q = p @ ''/indexes/'' @ f" using assms(1,3) join_with_append[of dir "[''indexes'', f]" "''/''"]
    by (simp add: absolute_below_def)
  show "q \<noteq> asset_target p h" "\<not> prefix (q @ ''.pending-'') (asset_target p h)"
    by (simp_all add: q asset_target_text[OF assms(1,2)] same_prefix_prefix)
qed

section \<open>The local file system\<close>

lemma wp_later: "(\<And>x t. wp (k x) Q (\<lambda>_ _. True) t) \<Longrightarrow> wp (andThen m k) Q (\<lambda>_ _. True) s"
  by (simp add: wp_andThen wp_any)

lemma wp_afterwards: "(\<And>t. wp k Q (\<lambda>_ _. True) t) \<Longrightarrow> wp (thenDo m k) Q (\<lambda>_ _. True) s"
  by (simp add: wp_thenDo wp_any)

locale local_files =
  fixes A :: "'w asset_env" and fs :: "'w \<Rightarrow> string \<Rightarrow> string option"
  assumes fetch_keeps: "keeps fs (as_fetch A u)"
    and body_keeps: "as_fetch A u w = (Inr answer, t) \<Longrightarrow> keeps fs (wr_body answer)"
    and sleep_keeps: "keeps fs (as_sleep A n)"
    and abort_keeps: "keeps fs (h_check_abort (as_host A))"
    and progress_keeps: "keeps fs (h_progress (as_host A) k m)"
    and log_keeps: "keeps fs (h_log (as_host A) m)"
    and lstat_keeps: "keeps fs (as_lstat A p)"
    and lstat_true: "as_lstat A p w = (Inr (Some (True, k)), t) \<Longrightarrow> \<exists>b. fs w p = Some b \<and> length b = k"
    and sha1_keeps: "keeps fs (as_sha1_file A p)"
    and sha1_true: "as_sha1_file A p w = (Inr (Some h), t) \<Longrightarrow> \<exists>b. fs w p = Some b \<and> as_sha1 A b = h"
    and mkdir_keeps: "keeps fs (as_mkdir A p)"
    and created: "as_create A p b w = (r, t) \<Longrightarrow> (r = Inr () \<longrightarrow> fs t p = Some b) \<and> (\<forall>x. x \<noteq> p \<longrightarrow> fs t x = fs w x)"
    and renamed: "as_rename A p q w = (r, t) \<Longrightarrow> (r = Inr () \<longrightarrow> fs t q = fs w p) \<and> (\<forall>x. x \<noteq> p \<longrightarrow> x \<noteq> q \<longrightarrow> fs t x = fs w x)"
    and erased: "as_rm A p w = (r, t) \<Longrightarrow> \<forall>x. x \<noteq> p \<longrightarrow> fs t x = fs w x"
begin

definition verified :: "string \<Rightarrow> asset \<Rightarrow> 'w \<Rightarrow> bool" where
  "verified p o1 w \<longleftrightarrow> (\<exists>b. fs w (asset_target p (fst o1)) = Some b \<and> length b = snd o1 \<and> as_sha1 A b = fst o1)"

lemma verified_same: "fs t = fs s \<Longrightarrow> verified p o1 t \<longleftrightarrow> verified p o1 s"
  by (simp add: verified_def)

lemma request_keeps: "keeps fs (asset_request A u n)"
  unfolding keeps_def
proof
  fix w
  show "fs (snd (asset_request A u n w)) = fs w"
    unfolding asset_request_def andThen_def
    using keepsD[OF fetch_keeps, of u w] keepsD[OF body_keeps, of u w]
    by (auto simp: exec_simps split: prod.splits sum.splits)
qed

lemma attempts_keep: "keeps fs (asset_attempts n A u m e)"
  by (induction n arbitrary: e) (auto intro!: keeps_intros request_keeps abort_keeps sleep_keeps)

lemma bytes_keep: "keeps fs (asset_bytes A u m)"
  unfolding asset_bytes_def by (rule attempts_keep)

lemma metadata_keeps: "keeps fs (read_metadata A u)"
  unfolding read_metadata_def by (auto intro!: keeps_intros bytes_keep split: option.split)

lemma index_keeps: "keeps fs (find_index A v i)"
  unfolding find_index_def note_mapping_def Let_def
  by (auto intro!: keeps_intros metadata_keeps log_keeps split: prod.split option.split)

lemma write_local_wp:
  assumes "\<And>t. fs t p = Some b \<Longrightarrow> (\<And>x. x \<noteq> p \<Longrightarrow> \<not> prefix (p @ ''.pending-'') x \<Longrightarrow> fs t x = fs s x) \<Longrightarrow> Q () t"
  shows "wp (write_local A p b) Q (\<lambda>_ _. True) s"
proof -
  have made: "wp (as_create A (p @ ''.pending-'' @ u) b) (\<lambda>_. wp (as_rename A (p @ ''.pending-'' @ u) p) Q
      (\<lambda>e. wp (thenDo (as_rm A (p @ ''.pending-'' @ u)) (raise e)) Q (\<lambda>_ _. True)))
      (\<lambda>e. wp (thenDo (as_rm A (p @ ''.pending-'' @ u)) (raise e)) Q (\<lambda>_ _. True)) t"
    if t: "fs t = fs s" for t u
  proof -
    let ?pend = "p @ ''.pending-'' @ u"
    have raised: "wp (thenDo (as_rm A ?pend) (raise e)) Q (\<lambda>_ _. True) v" for e v
      by (simp add: wp_thenDo wp_raise wp_any)
    have "Q () v" if c: "as_create A ?pend b t = (Inr (), w)" and r: "as_rename A ?pend p w = (Inr (), v)" for w v
    proof (rule assms)
      show "fs v p = Some b" using created[OF c] renamed[OF r] by simp
      show "fs v x = fs s x" if "x \<noteq> p" "\<not> prefix (p @ ''.pending-'') x" for x
      proof -
        have "x \<noteq> ?pend" using that(2) by (auto simp: prefix_def)
        with that created[OF c] renamed[OF r] t show ?thesis by simp
      qed
    qed
    with raised show ?thesis unfolding wp_result[of "as_create _ _ _"] wp_result[of "as_rename _ _ _"] by auto
  qed
  show ?thesis
    unfolding write_local_def Let_def wp_thenDo[of "as_mkdir _ _"] wp_andThen wp_reading wp_tryCatch wp_thenDo[of "as_create _ _ _"]
    by (rule wp_mono[OF keeps_wp[OF mkdir_keeps]], (rule made, assumption), simp)
qed

definition valid_assets :: "asset set \<Rightarrow> bool" where
  "valid_assets S \<longleftrightarrow> (\<forall>o1\<in>S. full_match sha1_hex_rx (fst o1)) \<and> (\<forall>o1\<in>S. \<forall>o2\<in>S. fst o1 = fst o2 \<longrightarrow> o1 = o2)"

lemma matches_wp:
  "wp (file_matches A p n h) (\<lambda>same t. fs t = fs s \<and> (same \<longrightarrow> (\<exists>b. fs s p = Some b \<and> length b = n \<and> as_sha1 A b = h)))
    (\<lambda>_ _. True) s"
proof -
  have hashed: "wp (as_sha1_file A p) (\<lambda>x. wp (ret (x = Some h)) (\<lambda>same t. fs t = fs s \<and> (same \<longrightarrow> (\<exists>b. fs s p = Some b \<and>
      length b = n \<and> as_sha1 A b = h))) (\<lambda>_ _. True)) (\<lambda>_ _. True) t"
    if t: "fs t = fs s" and b: "\<exists>b. fs s p = Some b \<and> length b = n" for t
    unfolding wp_result[of "as_sha1_file A p"] wp_ret
    using t b sha1_true[of p t] keepsD[OF sha1_keeps, of p t] by fastforce
  show ?thesis
    unfolding file_matches_def wp_andThen wp_result[of "as_lstat A p"]
    using lstat_true[of p s] keepsD[OF lstat_keeps, of p s] hashed
    by (fastforce simp: wp_simps split: option.splits bool.splits prod.splits)
qed

lemma object_wp:
  assumes p: "absolute_below p dir" and S: "valid_assets S" "o1 \<in> S"
  shows "wp (ensure_object A p o1) (\<lambda>_ t. verified p o1 t \<and> (\<forall>o2\<in>S. verified p o2 s \<longrightarrow> verified p o2 t)) (\<lambda>_ _. True) s"
proof -
  obtain h n where o1: "o1 = (h, n)" by (cases o1)
  let ?Q = "\<lambda>_ t. verified p o1 t \<and> (\<forall>o2\<in>S. verified p o2 s \<longrightarrow> verified p o2 t)"
  have stored: "wp (write_local A (asset_target p h) b) (?Q :: unit \<Rightarrow> 'w \<Rightarrow> bool) (\<lambda>_ _. True) t"
    if t: "fs t = fs s" and b: "length b = n" "as_sha1 A b = h" for t b
  proof (rule write_local_wp)
    fix u
    assume u: "fs u (asset_target p h) = Some b"
      "\<And>x. x \<noteq> asset_target p h \<Longrightarrow> \<not> prefix (asset_target p h @ ''.pending-'') x \<Longrightarrow> fs u x = fs t x"
    have now: "verified p o1 u" using u(1) b by (simp add: verified_def o1)
    have "verified p o2 u" if o2: "o2 \<in> S" "verified p o2 s" for o2
    proof (cases "fst o2 = h")
      case True
      then have "o2 = o1" using S o2(1) o1 by (auto simp: valid_assets_def)
      with now show ?thesis by simp
    next
      case False
      have "full_match sha1_hex_rx h" "full_match sha1_hex_rx (fst o2)" using S o2(1) o1 by (auto simp: valid_assets_def)
      from target_apart[OF p this] False u(2) t o2(2) show ?thesis by (auto simp: verified_def)
    qed
    with now show "?Q () u" by blast
  qed
  have loaded: "wp (download_object A (asset_target p h) h n) ?Q (\<lambda>_ _. True) t" if t: "fs t = fs s" for t
  proof -
    have "wp (thenDo (throwIf (length b \<noteq> n \<or> as_sha1 A b \<noteq> h) e) (thenDo (write_local A (asset_target p h) b) (ret False)))
        ?Q (\<lambda>_ _. True) v" if "fs v = fs t" for v b e
    proof (rule wp_guard)
      assume "\<not> (length b \<noteq> n \<or> as_sha1 A b \<noteq> h)"
      with that t show "wp (thenDo (write_local A (asset_target p h) b) (ret False)) ?Q (\<lambda>_ _. True) v"
        unfolding wp_thenDo wp_ret by (intro stored) auto
    qed simp
    then show ?thesis unfolding download_object_def wp_andThen
      by (intro wp_mono[OF keeps_wp[OF bytes_keep]]) auto
  qed
  show ?thesis
    unfolding ensure_object_def o1 prod.case Let_def wp_andThen[of "file_matches _ _ _ _"]
  proof (rule wp_mono[OF matches_wp])
    fix same t
    assume "fs t = fs s \<and> (same \<longrightarrow> (\<exists>b. fs s (asset_target p h) = Some b \<and> length b = n \<and> as_sha1 A b = h))"
    then show "wp (if same then ret True else download_object A (asset_target p h) h n)
        (\<lambda>_ t. verified p (h, n) t \<and> (\<forall>o2\<in>S. verified p o2 s \<longrightarrow> verified p o2 t)) (\<lambda>_ _. True) t"
      using loaded[of t] by (auto simp: wp_ret verified_def o1)
  qed simp
qed

lemma refill_keeps:
  "refill q b = (q', b') \<Longrightarrow> set q' \<union> set b' = set q \<union> set b \<and> length q' + length b' = length q + length b \<and>
     (q \<noteq> [] \<or> b \<noteq> [] \<longrightarrow> b' \<noteq> [])"
proof (induction q b rule: refill.induct)
  case (2 o1 q b)
  then show ?case by (cases "length b < download_concurrency") (auto simp: download_concurrency_def)
qed simp

lemma taken:
  assumes "i < length b"
  shows "insert (b ! i) (set (take i b @ drop (Suc i) b)) = set b \<and> length (take i b @ drop (Suc i) b) = length b - 1"
proof -
  have "b = take i b @ b ! i # drop (Suc i) b" using assms by (rule id_take_nth_drop)
  then have "set b = set (take i b @ b ! i # drop (Suc i) b)" by simp
  then show ?thesis using assms by auto
qed

lemma workers_wp:
  assumes p: "absolute_below p dir"
  shows "length q + length b = n \<Longrightarrow> valid_assets (D \<union> set q \<union> set b) \<Longrightarrow> \<forall>o1\<in>D. verified p o1 s \<Longrightarrow>
    wp (run_workers n A p k q b c) (\<lambda>_ t. \<forall>o1\<in>D \<union> set q \<union> set b. verified p o1 t) (\<lambda>_ _. True) s"
proof (induction n arbitrary: q b D s c)
  case 0
  then show ?case
    by (auto simp: wp_thenDo verified_def intro!: wp_mono[OF keeps_wp[OF abort_keeps]] simp: wp_ret)
next
  case (Suc n)
  obtain q' b' where r: "refill q b = (q', b')" by fastforce
  let ?S = "D \<union> set q \<union> set b"
  have same: "D \<union> set q' \<union> set b' = ?S" and len: "length q' + length b' = Suc n" and ne: "b' \<noteq> []"
    using refill_keeps[OF r] Suc.prems(1) by auto
  have onwards: "wp (run_workers n A p k q' (take i b' @ drop (Suc i) b') c') (\<lambda>_ t. \<forall>o1\<in>?S. verified p o1 t) (\<lambda>_ _. True) t"
    if "i < length b'" "\<forall>o1\<in>insert (b' ! i) D. verified p o1 t" for i c' t
  proof -
    note k = taken[OF that(1)]
    have "insert (b' ! i) D \<union> set q' \<union> set (take i b' @ drop (Suc i) b') = ?S" using k same by blast
    with Suc.IH[of q' "take i b' @ drop (Suc i) b'" "insert (b' ! i) D" t c'] k len Suc.prems(2) that show ?thesis
      by (simp only:)
  qed
  have progressed: "wp (thenDo (do_when z (h_progress (as_host A) g m)) (run_workers n A p k q' (take i b' @ drop (Suc i) b') c'))
      (\<lambda>_ t. \<forall>o1\<in>?S. verified p o1 t) (\<lambda>_ _. True) t"
    if "i < length b'" "\<forall>o1\<in>insert (b' ! i) D. verified p o1 t" for i c' t z g m
    unfolding wp_thenDo
  proof (rule wp_mono[OF keeps_wp[OF keeps_do_when[OF progress_keeps]]])
    fix u assume "fs u = fs t"
    from that verified_same[OF this] show "wp (run_workers n A p k q' (take i b' @ drop (Suc i) b') c')
        (\<lambda>_ t. \<forall>o1\<in>?S. verified p o1 t) (\<lambda>_ _. True) u"
      by (intro onwards) auto
  qed simp
  have started: "wp (andThen (reading (as_schedule A)) (\<lambda>k1. let i = k1 mod length b' in andThen (ensure_object A p (b' ! i)) (\<lambda>same.
      let completed = fst c + 1; reused = (if same then snd c + 1 else snd c) in
      thenDo (do_when (completed mod 25 = 0 \<or> completed = k) (h_progress (as_host A) (min 85 (55 + as_share A completed k))
        (''Minecraft assets: '' @ show_nat completed @ ''/'' @ show_nat k)))
        (run_workers n A p k q' (take i b' @ drop (Suc i) b') (completed, reused)))))
      (\<lambda>_ t. \<forall>o1\<in>?S. verified p o1 t) (\<lambda>_ _. True) t" if D: "\<forall>o1\<in>D. verified p o1 t" for t
  proof -
    let ?i = "as_schedule A t mod length b'"
    have i: "?i < length b'" using ne by simp
    then have "b' ! ?i \<in> ?S" using same nth_mem by blast
    from object_wp[OF p Suc.prems(2) this, of t] show ?thesis
      unfolding wp_andThen wp_reading Let_def
      by (rule wp_mono) (use D i in \<open>auto intro!: progressed\<close>)
  qed
  show ?case unfolding run_workers.simps r prod.case wp_thenDo[of "h_check_abort _"]
    by (rule wp_mono[OF keeps_wp[OF abort_keeps]], rule started) (use Suc.prems(3) verified_same in \<open>blast | simp\<close>)+
qed

text \<open>What the metadata promise\<close>

lemma metadata_wp: "wp (read_metadata A u) (\<lambda>(v, b) _. h_parse (as_host A) b = Some v) (\<lambda>_ _. True) s"
  unfolding read_metadata_def by (rule wp_later) (simp add: wp_ret wp_raise split: option.split)

lemma index_wp:
  "wp (find_index A v i) (\<lambda>(b, objects) t. fs t = fs s \<and> (\<exists>x. h_parse (as_host A) b = Some x \<and> index_objects x = Inr objects))
    (\<lambda>_ _. True) s"
proof -
  have f: "wp (find_index A v i) (\<lambda>(b, objects) _. \<exists>x. h_parse (as_host A) b = Some x \<and> index_objects x = Inr objects) (\<lambda>_ _. True) s"
    unfolding find_index_def Let_def
    apply (rule wp_later, clarsimp)
    apply (rule wp_afterwards, rule wp_later, rule wp_later, rule wp_later, clarsimp)
    apply (rule wp_afterwards, rule wp_afterwards, rule wp_later)
    apply (unfold wp_andThen[of "read_metadata _ _"])
    apply (rule wp_mono[OF metadata_wp])
     apply (auto simp: wp_simps split: sum.splits)
    done
  from f keeps_wp[OF index_keeps, of v i s] show ?thesis
    by (auto simp: wp_def split: prod.splits sum.splits)
qed

lemma set_asset_hashes: "fst ` set (set_asset h n m) = insert h (fst ` set m)"
  by (force simp: set_asset_def)

lemma set_asset_valid:
  assumes "valid_assets (set m)" and "full_match sha1_hex_rx h"
  shows "valid_assets (set (set_asset h n m))"
  using assms unfolding valid_assets_def set_asset_def by (auto simp: image_iff split: if_splits) fastforce+

lemma objects_valid:
  "asset_objects m vs = Inr objects \<Longrightarrow> valid_assets (set m) \<Longrightarrow> valid_assets (set objects)"
proof (induction m vs rule: asset_objects.induct)
  case (2 m v vs)
  then show ?case
    by (auto simp: asset_of_def intro!: set_asset_valid split: sum.splits if_splits option.splits)
qed simp

lemma index_objects_valid:
  assumes "index_objects v = Inr objects"
  shows "valid_assets (set objects)"
proof -
  have "valid_assets (set [])" by (simp add: valid_assets_def)
  with assms objects_valid show ?thesis by (fastforce simp: index_objects_def split: if_splits option.splits)
qed

lemma segment_plain:
  assumes "full_match asset_name_rx d"
  shows "plain_segment d" and "plain_segment (d @ ''.json'')"
proof -
  obtain c w where w: "d = c # w" "is_alnum c" "\<forall>x\<in>set w. is_alnum x \<or> x = CHR ''.'' \<or> x = CHR ''_'' \<or> x = CHR ''-''"
    using assms by (auto simp: asset_name_rx_def full_match_name)
  have "\<forall>c\<in>set d. c \<noteq> CHR ''/''" "hd d \<noteq> CHR ''.''" using w(2,3) alnum_plain unfolding w(1) by fastforce+
  then show "plain_segment d" "plain_segment (d @ ''.json'')" by (auto simp: plain_segment_def w(1))
qed

lemma assets_wp:
  assumes base: "absolute_below (h_root (as_host A)) home"
  shows "wp (ensure_assets A version dir index)
    (\<lambda>_ t. \<exists>v b objects. h_parse (as_host A) b = Some v \<and> index_objects v = Inr objects \<and>
       fs t (path_join [assets_root A dir, ''indexes'', index @ ''.json'']) = Some b \<and>
       (\<forall>o1\<in>set objects. verified (assets_root A dir) o1 t)) (\<lambda>_ _. True) s"
  (is "wp _ ?Q _ s")
proof (cases "full_match asset_name_rx dir \<and> full_match asset_name_rx index")
  case False
  then show ?thesis by (auto simp: ensure_assets_def Let_def wp_simps)
next
  case True
  let ?p = "assets_root A dir"
  have p: "absolute_below ?p (home @ [''launcher'', ''updates'', dir])"
    unfolding assets_root_def using segment_plain(1) True by (intro below_join[OF base]) (auto simp: plain_segment_def)
  have q: "absolute_below (path_join [?p, ''indexes'', index @ ''.json'']) ((home @ [''launcher'', ''updates'', dir]) @ [''indexes'', index @ ''.json''])"
    using segment_plain(2)[of index] True by (intro below_join[OF p]) (auto simp: plain_segment_def)
  have stored: "wp (write_local A (path_join [?p, ''indexes'', index @ ''.json'']) b) (\<lambda>x. wp (h_log (as_host A) m) ?Q (\<lambda>_ _. True))
      (\<lambda>_ _. True) t"
    if "h_parse (as_host A) b = Some v" "index_objects v = Inr objects" "\<forall>o1\<in>set objects. verified ?p o1 t" for v b objects t m
  proof (rule write_local_wp)
    fix u
    assume u: "fs u (path_join [?p, ''indexes'', index @ ''.json'']) = Some b"
      "\<And>x. x \<noteq> path_join [?p, ''indexes'', index @ ''.json''] \<Longrightarrow>
        \<not> prefix (path_join [?p, ''indexes'', index @ ''.json''] @ ''.pending-'') x \<Longrightarrow> fs u x = fs t x"
    have "verified ?p o1 u" if "o1 \<in> set objects" for o1
    proof -
      have "full_match sha1_hex_rx (fst o1)" using index_objects_valid that \<open>index_objects v = Inr objects\<close>
        by (auto simp: valid_assets_def)
      from index_apart[OF p this q] u(2) \<open>\<forall>o1\<in>set objects. verified ?p o1 t\<close> that show ?thesis by (auto simp: verified_def)
    qed
    then have "\<forall>o1\<in>set objects. verified ?p o1 u" by blast
    with u(1) that(1,2) have "?Q () u" by blast
    then have "?Q () w" if "fs w = fs u" for w using that by (simp add: verified_def)
    then show "wp (h_log (as_host A) m) ?Q (\<lambda>_ _. True) u"
      by (intro wp_mono[OF keeps_wp[OF log_keeps]]) auto
  qed
  have worked: "wp (run_workers (length objects) A ?p (length objects) (rev objects) [] (0, 0))
      (\<lambda>_ t. \<forall>o1\<in>set objects. verified ?p o1 t) (\<lambda>_ _. True) t" if "index_objects v = Inr objects" for v objects t
    using workers_wp[OF p, of "rev objects" "[]" "length objects" "{}" t] index_objects_valid[OF that] by simp
  have finished: "wp (case c of (x, y) \<Rightarrow> thenDo (write_local A (path_join [?p, ''indexes'', index @ ''.json'']) b)
      (h_log (as_host A) (m x y))) ?Q (\<lambda>_ _. True) t"
    if "h_parse (as_host A) b = Some v" "index_objects v = Inr objects" "\<forall>o1\<in>set objects. verified ?p o1 t" for v b objects t c m
    by (cases c) (simp only: prod.case wp_thenDo stored[OF that])
  show ?thesis
    unfolding ensure_assets_def Let_def
    apply (rule wp_afterwards)+
    apply (unfold wp_andThen[of "find_index _ _ _"])
    apply (rule wp_mono[OF index_wp])
     apply (simp only: split_paired_all prod.case)
     apply (elim conjE exE)
     apply (rule wp_afterwards)
     apply (unfold wp_andThen[of "run_workers _ _ _ _ _ _ _"])
     apply (rule wp_mono[OF worked], assumption)
      apply (rule finished; assumption)
     apply (rule TrueI)+
    done
qed

end

text \<open>
  CNUM: When the assets of a version are ready, the bytes of the index are on disk, and every object that index names is
  on disk with its size and its hash, in whatever order the workers finished and whatever was there before.
\<close>

theorem assets_are_verified:
  assumes "local_files A fs" and "absolute_below (h_root (as_host A)) home"
    and "ensure_assets A version dir index s = (Inr x, t)"
  shows "\<exists>v bytes objects. h_parse (as_host A) bytes = Some v \<and> index_objects v = Inr objects \<and>
    fs t (path_join [assets_root A dir, ''indexes'', index @ ''.json'']) = Some bytes \<and>
    (\<forall>(hash, n)\<in>set objects. \<exists>b. fs t (asset_target (assets_root A dir) hash) = Some b \<and> length b = n \<and> as_sha1 A b = hash)"
proof -
  obtain v bytes objects where o: "h_parse (as_host A) bytes = Some v" "index_objects v = Inr objects"
      "fs t (path_join [assets_root A dir, ''indexes'', index @ ''.json'']) = Some bytes"
      "\<forall>o1\<in>set objects. local_files.verified A fs (assets_root A dir) o1 t"
    using wp_returns[OF local_files.assets_wp[OF assms(1,2)] assms(3)] by blast
  then have "\<forall>(hash, n)\<in>set objects. \<exists>b. fs t (asset_target (assets_root A dir) hash) = Some b \<and> length b = n \<and> as_sha1 A b = hash"
    by (auto simp: local_files.verified_def[OF assms(1)])
  with o(1-3) show ?thesis by blast
qed

text \<open>The files of a computer in memory, and a web of a few addresses.\<close>

type_synonym asset_web = "string \<Rightarrow> string"

definition memory_assets :: "asset_web \<Rightarrow> (string \<Rightarrow> json option) \<Rightarrow> (string \<Rightarrow> string) \<Rightarrow> memory asset_env" where
  "memory_assets web parse sha1 = \<lparr>as_host = memory_host True parse (\<lambda>_. []),
     as_fetch = (\<lambda>u. ret \<lparr>wr_status = 200, wr_length = None, wr_body = ret (web u)\<rparr>), as_sleep = (\<lambda>_. ret ()),
     as_url = (\<lambda>u. Some \<lparr>wu_protocol = take 6 u, wu_host = takeWhile (\<lambda>c. c \<noteq> CHR ''/'') (drop 8 u), wu_path = []\<rparr>),
     as_sha1 = sha1, as_lstat = (\<lambda>p. reading (\<lambda>w. map_option (\<lambda>b. (True, length b)) (w p))),
     as_sha1_file = (\<lambda>p. reading (\<lambda>w. map_option sha1 (w p))), as_mkdir = (\<lambda>_. ret ()),
     as_create = (\<lambda>p b. writing (\<lambda>w. w(p \<mapsto> b))), as_rename = (\<lambda>p q. writing (\<lambda>w. if p = q then w else (w(q := w p))(p := None))),
     as_rm = (\<lambda>p. writing (\<lambda>w. w(p := None))), as_uuid = (\<lambda>_. ''1''), as_schedule = (\<lambda>_. 0), as_share = (\<lambda>_ _. 0)\<rparr>"

interpretation memory_files: local_files "memory_assets web parse sha1" "\<lambda>w. w"
  by unfold_locales (auto simp: memory_assets_def memory_host_def exec_simps keeps_def)

definition sample_web :: asset_web where
  "sample_web u = (if u = manifest_url then ''M'' else if u = ''https://launchermeta.mojang.com/v'' then ''V''
     else if u = ''https://launcher.mojang.com/i'' then ''I'' else ''x'')"

definition sample_index :: json where
  "sample_index = JObj [(''objects'', JObj [(''icon'', JObj [(''hash'', JStr (replicate 40 CHR ''a'')), (''size'', JNum 1)])])]"

definition sample_metadata :: "string \<Rightarrow> json option" where
  "sample_metadata b =
     (if b = ''M'' then Some (JObj [(''versions'', JArr [JObj [(''id'', JStr ''1.20''), (''url'', JStr ''https://launchermeta.mojang.com/v'')]])])
      else if b = ''V'' then Some (JObj [(''assetIndex'', JObj [(''id'', JStr ''12''), (''url'', JStr ''https://launcher.mojang.com/i'')])])
      else if b = ''I'' then Some sample_index else None)"

abbreviation sample_assets :: "memory asset_env" where
  "sample_assets \<equiv> memory_assets sample_web sample_metadata (\<lambda>b. replicate 40 (if b = ''x'' then CHR ''a'' else CHR ''b''))"

lemma memory_bytes:
  "int (length (web u)) \<le> int m \<Longrightarrow> asset_bytes (memory_assets web parse sha1) u m w = (Inr (web u), w)"
  by (simp add: asset_bytes_def asset_request_def memory_assets_def memory_host_def exec_simps numeral_3_eq_3 web_ok_def
      declared_over_def longer_than_def)

lemma memory_metadata:
  "int (length (web u)) \<le> int maximum_metadata \<Longrightarrow> parse (web u) = Some v \<Longrightarrow>
     read_metadata (memory_assets web parse sha1) u w = (Inr (v, web u), w)"
  by (simp add: read_metadata_def memory_bytes exec_simps) (simp add: memory_assets_def memory_host_def exec_simps)

lemma one_int: "safe_int (JNum 1) = Some 1"
  using safe_int_JNum[of 1] by (simp add: max_safe_integer_def)

lemma hash_ok: "full_match sha1_hex_rx (replicate 40 CHR ''a'')"
  unfolding sha1_hex_rx_def full_match_times by (simp add: is_hex_def is_digit_def in_range_def)

lemma sample_objects: "index_objects sample_index = Inr [(replicate 40 CHR ''a'', 1)]"
proof -
  have "asset_of (JObj [(''hash'', JStr (replicate 40 CHR ''a'')), (''size'', JNum 1)]) = Inr (replicate 40 CHR ''a'', 1)"
    using hash_ok by (simp add: asset_of_def json_text_of_def one_int maximum_asset_def)
  then show ?thesis by (simp add: index_objects_def sample_index_def spread_def set_asset_def)
qed

lemma sample_found: "find_index sample_assets ''1.20'' ''12'' w = (Inr (''I'', [(replicate 40 CHR ''a'', 1)]), w)"
proof -
  have meta: "read_metadata sample_assets u w = (Inr (v, b), w)" if "sample_web u = b" "sample_metadata b = Some v" "length b = 1" for u v b
    using memory_metadata[of sample_web u sample_metadata v] that by (simp add: maximum_metadata_def)
  have "read_metadata sample_assets manifest_url w = (Inr (JObj [(''versions'', JArr [JObj [(''id'', JStr ''1.20''), (''url'', JStr ''https://launchermeta.mojang.com/v'')]])], ''M''), w)"
    "read_metadata sample_assets ''https://launchermeta.mojang.com/v'' w = (Inr (JObj [(''assetIndex'', JObj [(''id'', JStr ''12''), (''url'', JStr ''https://launcher.mojang.com/i'')])], ''V''), w)"
    "read_metadata sample_assets ''https://launcher.mojang.com/i'' w = (Inr (sample_index, ''I''), w)"
    by (rule meta; code_simp)+
  moreover have "checked_url sample_assets (Some (JStr ''https://launchermeta.mojang.com/v'')) metadata_hosts ''Minecraft version metadata'' = Inr ''https://launchermeta.mojang.com/v''"
    "checked_url sample_assets (Some (JStr ''https://launcher.mojang.com/i'')) index_hosts ''Minecraft asset index'' = Inr ''https://launcher.mojang.com/i''"
    by code_simp+
  moreover have "h_log (as_host sample_assets) m = ret ()" for m by (simp add: memory_assets_def memory_host_def)
  ultimately show ?thesis
    by (simp add: find_index_def exec_simps version_url_of_def field_of_def note_mapping_def json_text_of_def do_when_def sample_objects)
qed

lemma memory_written: "\<exists>t. write_local (memory_assets web parse sha1) p b w = (Inr (), t)"
  by (simp add: write_local_def memory_assets_def exec_simps Let_def)

lemma sample_object: "\<exists>t. ensure_object sample_assets p (replicate 40 CHR ''a'', 1) (\<lambda>_. None) = (Inr False, t)"
proof -
  have bytes: "asset_bytes sample_assets (object_url (replicate 40 CHR ''a'')) (max 1 1) (\<lambda>_. None) = (Inr ''x'', \<lambda>_. None)"
  proof -
    have "sample_web (object_url (replicate 40 CHR ''a'')) = ''x''" by code_simp
    then show ?thesis using memory_bytes[of sample_web "object_url (replicate 40 CHR ''a'')" "max 1 1"] by simp
  qed
  moreover have "file_matches sample_assets q 1 h (\<lambda>_. None) = (Inr False, \<lambda>_. None)" for q h
    by (simp add: file_matches_def memory_assets_def exec_simps)
  moreover have "as_sha1 sample_assets ''x'' = replicate 40 CHR ''a''" by (simp add: memory_assets_def)
  ultimately show ?thesis
    using memory_written[of sample_web sample_metadata "\<lambda>b. replicate 40 (if b = ''x'' then CHR ''a'' else CHR ''b'')"
        "asset_target p (replicate 40 CHR ''a'')" "''x''" "\<lambda>_. None"]
    by (auto simp: ensure_object_def download_object_def exec_simps Let_def)
qed

lemma sample_ready: "\<exists>t. ensure_assets sample_assets ''1.20'' ''assets'' ''12'' (\<lambda>_. None) = (Inr (), t)"
proof -
  have quiet: "h_progress (as_host sample_assets) k m = ret ()" "h_log (as_host sample_assets) m = ret ()"
    "h_check_abort (as_host sample_assets) = ret ()" "as_schedule sample_assets = (\<lambda>_. 0)" for k m
    by (simp_all add: memory_assets_def memory_host_def)
  have names: "full_match asset_name_rx ''assets''" "full_match asset_name_rx ''12''" by code_simp+
  have inner: "path_relative (path_join [h_root (as_host sample_assets), ''launcher'']) (assets_root sample_assets ''assets'') = ''updates/assets''"
    by code_simp
  obtain t where t: "ensure_object sample_assets (assets_root sample_assets ''assets'') (replicate 40 CHR ''a'', 1) (\<lambda>_. None) = (Inr False, t)"
    using sample_object by blast
  obtain u where u: "write_local sample_assets (path_join [assets_root sample_assets ''assets'', ''indexes'', ''12.json'']) ''I'' t = (Inr (), u)"
    using memory_written by blast
  have w: "run_workers 1 sample_assets (assets_root sample_assets ''assets'') 1 [(replicate 40 CHR ''a'', 1)] [] (0, 0) (\<lambda>_. None) = (Inr (1, 0), t)"
    using t by (simp add: exec_simps quiet download_concurrency_def do_when_def)
  show ?thesis using u w by (simp add: ensure_assets_def Let_def exec_simps names inner quiet sample_found)
qed

lemma assets_are_verified_witness:
  "\<exists>bytes t. ensure_assets sample_assets ''1.20'' ''assets'' ''12'' (\<lambda>_. None) = (Inr (), t) \<and>
     sample_metadata bytes = Some sample_index \<and> t ''/srv/launcher/updates/assets/indexes/12.json'' = Some bytes"
proof -
  let ?o = "ensure_assets sample_assets ''1.20'' ''assets'' ''12'' (\<lambda>_. None)"
  obtain t where o: "?o = (Inr (), t)" using sample_ready by blast
  have h: "absolute_below (h_root (as_host sample_assets)) [''srv'']"
    by (simp add: absolute_below_def memory_assets_def memory_host_def plain_segment_def)
  have p: "path_join [assets_root sample_assets ''assets'', ''indexes'', ''12'' @ ''.json''] = ''/srv/launcher/updates/assets/indexes/12.json''"
    by code_simp
  have parse: "h_parse (as_host sample_assets) = sample_metadata" by (simp add: memory_assets_def memory_host_def)
  from assets_are_verified[OF memory_files.local_files_axioms h o] obtain v bytes objects where
    b: "sample_metadata bytes = Some v" "index_objects v = Inr objects" "t ''/srv/launcher/updates/assets/indexes/12.json'' = Some bytes"
    unfolding p parse by blast
  have "v = sample_index" using b(1,2)
    by (auto simp: sample_metadata_def index_objects_def split: if_splits)
  with b o show ?thesis by blast
qed

section \<open>Installers\<close>

lemma loader_bytes_wp: "wp (loader_bytes L u label m limit) (\<lambda>b _. length b \<le> m) (\<lambda>_ _. True) s"
  unfolding loader_bytes_def
  by (rule wp_later, rule wp_afterwards, rule wp_afterwards, rule wp_later) (simp add: wp_simps longer_than_def)

definition from_maven :: "installer_kind \<Rightarrow> string \<Rightarrow> bool" where
  "from_maven kind url \<longleftrightarrow> prefix (case kind of NeoForgeInstaller \<Rightarrow> ''https://maven.neoforged.net/releases/''
     | ForgeInstaller \<Rightarrow> ''https://maven.minecraftforge.net/'') url"

lemma resolve_neoforge_wp: "wp (resolve_neoforge L v r) (\<lambda>x _. from_maven NeoForgeInstaller (ri_url x)) (\<lambda>_ _. True) s"
  unfolding resolve_neoforge_def
  by (rule wp_later) (auto simp: wp_simps from_maven_def split: option.splits list.splits)

lemma resolve_forge_wp: "wp (resolve_forge L v r) (\<lambda>x _. from_maven ForgeInstaller (ri_url x)) (\<lambda>_ _. True) s"
  unfolding resolve_forge_def
  by (rule wp_later) (auto simp: wp_simps from_maven_def forge_installer_def Let_def split: option.splits)

lemma verified_installer_wp:
  "wp (verified_installer L label r) (\<lambda>a _. la_url a = ri_url r \<and> full_match sha256_hex_rx (la_sha256 a) \<and>
     ld_sha256 L (la_bytes a) = la_sha256 a \<and> length (la_bytes a) \<le> installer_limit \<and>
     (\<exists>u v checksum. installer_text L (ri_url r @ ''.sha256'') ''installer checksum'' 1024 u = (Inr checksum, v) \<and>
        la_sha256 a = published_digest checksum)) (\<lambda>_ _. True) s"
  (is "wp _ ?Q _ s")
proof -
  have read_one: "wp (andThen (loader_bytes L (ri_url r) (label @ '' installer'') installer_limit 120000) (\<lambda>bytes.
      thenDo (throwIf (ld_sha256 L bytes \<noteq> published_digest text1) (e bytes))
        (ret \<lparr>la_bytes = bytes, la_filename = ri_filename r, la_version = ri_version r, la_sha256 = ld_sha256 L bytes,
             la_url = ri_url r\<rparr>))) ?Q (\<lambda>_ _. True) v"
    if "installer_text L (ri_url r @ ''.sha256'') ''installer checksum'' 1024 u = (Inr text1, t)"
      "full_match sha256_hex_rx (published_digest text1)" for text1 u t v e
    unfolding wp_andThen
    by (rule wp_mono[OF loader_bytes_wp]) (use that in \<open>auto simp: wp_simps\<close>)
  show ?thesis
    unfolding verified_installer_def Let_def wp_andThen[of "installer_text _ _ _ _"] wp_result[of "installer_text _ _ _ _"]
    by (auto intro!: wp_guard read_one)
qed

text \<open>
  An installer that is handed out comes from the Maven repository of its loader, is at most as long as allowed and
  has the SHA-256 checksum that the repository publishes beside it.
\<close>

theorem loader_download_is_verified:
  assumes "download_installer L kind version requested s = (Inr a, t)"
  shows "from_maven kind (la_url a) \<and> length (la_bytes a) \<le> installer_limit \<and> full_match sha256_hex_rx (la_sha256 a) \<and>
    ld_sha256 L (la_bytes a) = la_sha256 a \<and>
    (\<exists>u v checksum. installer_text L (la_url a @ ''.sha256'') ''installer checksum'' 1024 u = (Inr checksum, v) \<and>
       la_sha256 a = published_digest checksum)"
proof -
  let ?Q = "\<lambda>a. full_match sha256_hex_rx (la_sha256 a) \<and> from_maven kind (la_url a) \<and> length (la_bytes a) \<le> installer_limit \<and>
    ld_sha256 L (la_bytes a) = la_sha256 a \<and>
    (\<exists>u v checksum. installer_text L (la_url a @ ''.sha256'') ''installer checksum'' 1024 u = (Inr checksum, v) \<and>
       la_sha256 a = published_digest checksum)"
  have "wp (case kind of NeoForgeInstaller \<Rightarrow> resolve_neoforge L version requested | ForgeInstaller \<Rightarrow> resolve_forge L version requested)
      (\<lambda>r. wp (verified_installer L (kind_word kind) r) (\<lambda>a _. ?Q a) (\<lambda>_ _. True)) (\<lambda>_ _. True) s"
    by (cases kind; simp) (rule wp_mono[OF resolve_forge_wp] wp_mono[OF resolve_neoforge_wp],
        rule wp_mono[OF verified_installer_wp], auto)+
  then have "wp (download_installer L kind version requested) (\<lambda>a _. ?Q a) (\<lambda>_ _. True) s"
    by (simp add: download_installer_def wp_andThen)
  from wp_returns[OF this assms] show ?thesis by blast
qed

definition sample_maven :: "string \<Rightarrow> string" where
  "sample_maven u = (if suffix ''.sha256'' u then replicate 64 CHR ''A'' else if suffix ''.jar'' u then ''jar''
     else ''<version>1.20.1-47.2.0</version>'')"

definition sample_loader :: "unit loader_env" where
  "sample_loader = \<lparr>ld_fetch = (\<lambda>u _. ret \<lparr>wr_status = 200, wr_length = None, wr_body = ret (sample_maven u)\<rparr>),
     ld_sha256 = (\<lambda>b. replicate 64 (if b = ''jar'' then CHR ''a'' else CHR ''b'')), ld_parse = (\<lambda>_. None), ld_le = (\<lambda>_ _. True)\<rparr>"

lemma sample_loader_bytes:
  "int (length (sample_maven u)) \<le> int m \<Longrightarrow> loader_bytes sample_loader u label m limit () = (Inr (sample_maven u), ())"
  by (simp add: loader_bytes_def sample_loader_def exec_simps web_ok_def declared_over_def longer_than_def)

lemma sample_forge_versions: "loader_versions sample_loader ForgeInstaller ''1.20.1'' () = (Inr [''47.2.0''], ())"
proof -
  have m: "sample_maven forge_metadata_url = ''<version>1.20.1-47.2.0</version>''" by code_simp
  have v: "full_match release_version_rx ''1.20.1''" "forge_versions ''1.20.1'' ''<version>1.20.1-47.2.0</version>'' = [''47.2.0'']"
    by code_simp+
  show ?thesis
    using sample_loader_bytes[of forge_metadata_url metadata_limit "''Forge version metadata''" 30000]
    by (simp add: loader_versions_def installer_text_def exec_simps m v metadata_limit_def sort_by_def)
qed

lemma loader_download_is_verified_witness:
  "\<exists>a. download_installer sample_loader ForgeInstaller ''1.20.1'' (Some ''47.2.0'') () = (Inr a, ()) \<and>
     ld_sha256 sample_loader (la_bytes a) = la_sha256 a"
proof -
  let ?r = "forge_installer ''1.20.1'' ''47.2.0''"
  have r: "resolve_forge sample_loader ''1.20.1'' (Some ''47.2.0'') () = (Inr ?r, ())"
  proof -
    have "full_match loader_version_rx ''47.2.0''" by code_simp
    then show ?thesis by (simp add: resolve_forge_def requested_forge_def exec_simps sample_forge_versions)
  qed
  have web: "sample_maven (ri_url ?r @ ''.sha256'') = replicate 64 CHR ''A''" "sample_maven (ri_url ?r) = ''jar''" by code_simp+
  have digest: "published_digest (replicate 64 CHR ''A'') = replicate 64 CHR ''a''" by code_simp
  have hex: "full_match sha256_hex_rx (replicate 64 CHR ''a'')"
    unfolding sha256_hex_rx_def full_match_times by (simp add: is_hex_def is_digit_def in_range_def)
  have hash: "ld_sha256 sample_loader ''jar'' = replicate 64 CHR ''a''" by (simp add: sample_loader_def)
  obtain a where o: "download_installer sample_loader ForgeInstaller ''1.20.1'' (Some ''47.2.0'') () = (Inr a, ())"
    using sample_loader_bytes[of "ri_url ?r @ ''.sha256''" 1024 "''installer checksum''" 30000]
      sample_loader_bytes[of "ri_url ?r" installer_limit "kind_word ForgeInstaller @ '' installer''" 120000]
    by (simp add: download_installer_def verified_installer_def installer_text_def exec_simps r web digest hex hash Let_def
        installer_limit_def)
  with loader_download_is_verified[OF o] show ?thesis by blast
qed

end
