(* ===== verification/Spec2Isabelle.thy ===== *)
theory Spec2Isabelle
  imports Jobs_Properties Agent_Properties Browser_Events Volume_Properties Profile_Properties
    Profile_Updates Binding_Properties Client_Build_Properties Bootstrap_Properties
    Access_Properties Mod_Resolve Mod_Properties
    Module_Properties Launch_Properties Auth_Properties
    Java_Properties Asset_Properties
begin

text \<open>
  A verification library for the API of the panel under \<^verbatim>\<open>src/apps/api/src\<close>.

  \<^bold>\<open>The program.\<close> The panel manages one LaunchServer that runs in a container, the Minecraft profiles it
  serves, and the hosts that run game servers. Long operations are jobs: the runner starts them, orders
  those of one queue, cancels them and publishes their events; browsers follow a job or a server over
  sockets. A job reaches the LaunchServer through a volume of files in its container and through its
  control transport. A server binding ties a server of a profile to a host; a bootstrap draft turns it
  into a shell command that installs the server and the host agent, and the agent then takes commands over
  a socket. Requests to the API pass a guard that asks for a session, which Discord grants; players enter a
  public portal with signed tickets. LaunchServer takes commands over a restricted HTTP endpoint or the socket in its
  container; its modules are loaded and removed by files and restarts, and its providers of authentication are
  entries of its configuration.

  \<^bold>\<open>The vocabulary.\<close> \<open>Prelude\<close> has the state-and-error monad \<open>exec\<close> in which every asynchronous method is
  written, JSON values, JavaScript strings, and instants with the order of their ISO texts. \<open>Effects\<close> adds
  the promise combinators, the errors and a weakest-precondition calculus, \<open>Tables\<close> the statements of
  SQLite over lists of rows, \<open>Patterns\<close> a matcher for the regular expressions of the source, \<open>Posix_Path\<close>
  the path functions of Node, \<open>Web_Text\<close> escapes and cookies. Randomness, clocks, hashes, JSON parsing and
  everything outside the repository are arguments or fields of an environment record; what the code relies
  on is a named hypothesis of the property that needs it.

  \<^bold>\<open>The theories and the code.\<close>
  \<^item> \<open>Jobs_Store\<close> is \<^verbatim>\<open>modules/jobs/jobs.store.ts\<close>, \<open>Jobs_Runner\<close> is \<^verbatim>\<open>jobs.runner.ts\<close> cut at its awaits:
    \<open>act\<close> is one call, one microtask or one settled task, and \<open>reachable\<close> the states over every run with
    restarts. \<open>Jobs_Control\<close> and \<open>Jobs_Invariant\<close> hold the invariant, \<open>Jobs_Properties\<close> what follows from it.
  \<^item> \<open>Agent_Store\<close> is \<^verbatim>\<open>modules/servers/server-agent.store.ts\<close>, \<open>Agent_Service\<close> is \<^verbatim>\<open>server-agent.service.ts\<close>;
    \<open>Agent_Invariant\<close> and \<open>Agent_Properties\<close> treat every sequence of messages and calls.
  \<^item> \<open>Event_Hub\<close> is \<^verbatim>\<open>jobs.events.ts\<close> and \<^verbatim>\<open>server-agent.events.ts\<close>; \<open>Browser_Events\<close> is
    \<^verbatim>\<open>job-browser-events.service.ts\<close> and \<^verbatim>\<open>server-browser-events.service.ts\<close>.
  \<^item> \<open>Container_Volume\<close> is \<^verbatim>\<open>modules/docker/container-volume.service.ts\<close>; \<open>Volume_Contract\<close> states the contract
    of a volume and an in-memory container that meets it, \<open>Volume_Properties\<close> the refinement.
  \<^item> \<open>Profile_Data\<close>, \<open>Profile_Service\<close>, \<open>Profile_Updates\<close> and \<open>Client_Build\<close> are
    \<^verbatim>\<open>modules/clients/client-build.service.ts\<close> (profiles, optional mods, Java settings, launcher builds, client
    builds), \<open>Compatibility\<close> is \<^verbatim>\<open>compatibility.service.ts\<close> and \<^verbatim>\<open>client-sources.ts\<close>.
  \<^item> \<open>Bindings_Store\<close> and \<open>Binding_Service\<close> are \<^verbatim>\<open>server-bindings.store.ts\<close> and \<^verbatim>\<open>server-binding.service.ts\<close>.
  \<^item> \<open>Bootstrap_Store\<close>, \<open>Bootstrap_Texts\<close>, \<open>Bootstrap_Script\<close> and \<open>Bootstrap_Service\<close> are
    \<^verbatim>\<open>server-bootstrap.store.ts\<close> and \<^verbatim>\<open>server-bootstrap.service.ts\<close>, the installer template line by line.
  \<^item> \<open>Panel_Auth\<close>, \<open>Panel_Routes\<close> and \<open>Public_Portal\<close> are \<^verbatim>\<open>panel-auth.service.ts\<close>, \<^verbatim>\<open>panel-auth.routes.ts\<close> and
    \<^verbatim>\<open>public-portal.service.ts\<close>.
  \<^item> \<open>Modrinth\<close> and \<open>Modpacks\<close> are \<^verbatim>\<open>modules/mods/modrinth.service.ts\<close>, \<open>Mod_Manager\<close> is
    \<^verbatim>\<open>mod-manager.service.ts\<close>; \<open>Mod_Resolve\<close> and \<open>Mod_Properties\<close> hold their properties, \<open>Volume_Moves\<close> the
    contract of renaming in the volume.

  \<^item> \<open>Installations_Store\<close> is \<^verbatim>\<open>modules/gravit/installations.store.ts\<close>, \<^verbatim>\<open>remote-control.store.ts\<close> and the
    credentials of \<^verbatim>\<open>core/\<close>; \<open>Control_Transport\<close> is \<^verbatim>\<open>control-file.service.ts\<close>,
    \<^verbatim>\<open>remote-control-http.service.ts\<close>, \<^verbatim>\<open>launchserver-transport.service.ts\<close> and
    \<^verbatim>\<open>launchserver-operations.service.ts\<close>; \<open>Control_Properties\<close> has their properties.
  \<^item> \<open>Launch_Modules\<close> is \<^verbatim>\<open>modules/modules/\<close> (catalogue, management, the build of the Discord module), with
    \<open>Module_Properties\<close>; \<open>Launch_Files\<close> is \<^verbatim>\<open>launchserver-files.service.ts\<close>,
    \<^verbatim>\<open>remote-control-setup.service.ts\<close> and \<^verbatim>\<open>launchserver-startup.service.ts\<close>, with \<open>Launch_Properties\<close>.
  \<^item> \<open>Auth_Providers\<close> is \<^verbatim>\<open>modules/auth/auth-provider.service.ts\<close>, \<^verbatim>\<open>auth-recipes.ts\<close> and
    \<^verbatim>\<open>auth-module-config.service.ts\<close>, \<open>Auth_Users\<close> is \<^verbatim>\<open>auth-users.service.ts\<close> and
    \<^verbatim>\<open>auth-module-artifacts.service.ts\<close>, with \<open>Auth_Properties\<close>.
  \<^item> \<open>Java_Runtimes\<close> is \<^verbatim>\<open>modules/clients/java-runtime-manager.service.ts\<close>, \<^verbatim>\<open>adoptium.service.ts\<close> and
    \<^verbatim>\<open>verified-artifact.ts\<close>, with \<open>Java_Properties\<close>; \<open>Loader_Downloads\<close> is \<^verbatim>\<open>loader-installer.service.ts\<close> and
    \<^verbatim>\<open>minecraft-versions.service.ts\<close>, \<open>Minecraft_Assets\<close> is \<^verbatim>\<open>minecraft-assets.service.ts\<close>, with
    \<open>Asset_Properties\<close>.

  \<^bold>\<open>What the lemmas show.\<close> For the jobs: the invariant of the runner, that a final job never changes, that
  its event log matches its status, that a queue runs one job at a time and strands none, that a
  cancellation wins, and what a restart leaves. For the agent: \<open>dispatchNext\<close> equals a reference dispatch,
  a socket reaches only its own binding, a finished command stays, a file request settles once, the log of
  a server is bounded. For the sockets: a subscriber has been sent the end of the log without a gap. For
  the volume: it refines the contract of files, paths and archives stay inside the data directory, a write
  is atomic. For profiles and bindings: a failed change is undone, a file holds the old or the new text, the
  table keeps its invariant, the profile and the table show the same server, a rebuild keeps the identity of
  a profile. For the bootstrap: the table of drafts refines a state machine with one phase per draft, and
  quoted texts reach the shell unchanged. For the guard: only open paths and granted sessions get in, a login
  needs the state the same browser was given, a ticket opens one session. For the mods: resolving dependencies ends, an update never loses the mod, a
  modpack stays in its profile. For LaunchServer: one server and one credential at most, a fallback does not
  tell the token, the wait for the socket ends, a module that is removed is there or in its backup whatever fails,
  protected files stay closed, a setup of the endpoint is complete or undone. For authentication: a recipe changes one
  provider and leaves one default, details do not depend on secrets, the commands about users keep their
  words, a deletion takes one user out. For the runtimes and downloads: a change of the Java runtimes that fails is
  undone, descriptors are read back as they were written, assets that are ready have their size and hash, an
  installer has the checksum of its repository.

  \<^bold>\<open>Interfaces.\<close> The locales state what one component relies on in another: \<open>event_log\<close> and
  \<open>lifecycle_store\<close> (the tables of jobs and commands), \<open>subscription_hub\<close> (the event hubs), \<open>file_volume\<close> and
  \<open>posix_container\<close> (the volume and the commands in its container),
  \<open>moving_volume\<close> and \<open>posix_renames\<close> (renaming there), \<open>mod_files\<close> and \<open>module_files\<close> (the world of an update of a mod and of the
  removal of a module), \<open>profile_host\<close>, \<open>client_host\<close> and \<open>java_host\<close> (the
  host of the profile, build and runtime services), \<open>local_files\<close> (the file system of the panel). Each is interpreted on the definitions of the model.

  \<^bold>\<open>Bounds and fuel.\<close> \<open>dispatch_next\<close> ends because each round expires a queued command; the workspace loop
  of a client build has three attempts, as in the source; \<open>visit\<close> has a depth of 65, and
  \<open>dependencies_are_resolved_within_64\<close> shows that 64 are enough; \<open>send_rounds\<close> counts the rounds of the wait for the
  control socket, which \<open>wait_ends\<close> bounds by the time limit; a
  download has three attempts, as in the source, and \<open>run_workers\<close> one step for each object; the regular expressions are run on the finite
  text they match. Nothing else needs a bound.

  \<^bold>\<open>What is not modelled.\<close> The views of \<^verbatim>\<open>apps/web\<close> (a user interface without state of its own beyond what the
  API returns), the routes other than sign-in (they decode a request, call a service and encode its result),
  the agent in Go and the Java module (other languages), the database client and schema (SQLite statements
  are modelled where they are used; the constraints of the schema are part of the tables), and the services
  for Docker, server packs (whose routes are disabled at this commit), the files of the Launcher runtime, self update and
  setup, which the manifest lists one by one.
\<close>
end
